(* ===== verification/Prelude.thy ===== *)
theory Prelude
  imports Main "HOL-Library.AList" "HOL-Library.Sublist"
begin

text \<open>
  What every component shares: the exceptions of the code and the result type that carries
  them, the sequencing of fallible steps, the list and string operations of the C++ standard
  library the sources use, and the associative containers.

  An exception is its C++ class, the leading words of its message and the values formatted
  into it. \<open>OutOfFuel\<close> is no exception of the code: it marks a recursion whose fuel was too
  small, and each model that carries fuel has a theorem that it never occurs.
\<close>

named_theorems result_simps "rewriting of sequenced fallible steps"

datatype exn =
    InvalidInputException string "string list"
  | NotImplementedException string "string list"
  | BinderException string "string list"
  | CatalogException string "string list"
  | InternalException string "string list"
  | IOException string "string list"
  | InvalidConfigurationException string "string list"
  | DependencyException string "string list"
  | TransactionException string "string list"
  | GlueException string bool
  | SerializationException string "string list"
  | MissingExtensionException string "string list"
  | InterruptException
  | StdOutOfRange string
  | OutOfFuel

type_synonym 'a result = "exn + 'a"

subsection \<open>Sequencing fallible steps\<close>

fun and_then :: "'a result \<Rightarrow> ('a \<Rightarrow> 'b result) \<Rightarrow> 'b result" where
  "and_then (Inl e) f = Inl e"
| "and_then (Inr x) f = f x"

lemma and_then_cong [fundef_cong]:
  "m = m' \<Longrightarrow> (\<And>x. m' = Inr x \<Longrightarrow> f x = g x) \<Longrightarrow> and_then m f = and_then m' g"
  by (cases m') auto

lemma and_then_Inr_iff [result_simps]:
  "and_then m f = Inr y \<longleftrightarrow> (\<exists>x. m = Inr x \<and> f x = Inr y)"
  by (cases m) auto

lemma and_then_Inl_iff [result_simps]:
  "and_then m f = Inl e \<longleftrightarrow> m = Inl e \<or> (\<exists>x. m = Inr x \<and> f x = Inl e)"
  by (cases m) auto

lemma and_then_assoc: "and_then (and_then m f) g = and_then m (\<lambda>x. and_then (f x) g)"
  by (cases m) auto

text \<open>\<open>check p e\<close> is the code's \<open>if (!p) throw e\<close>.\<close>

definition check :: "bool \<Rightarrow> exn \<Rightarrow> unit result" where
  "check p e = (if p then Inr () else Inl e)"

lemma check_Inr_iff [result_simps]: "check p e = Inr u \<longleftrightarrow> p"
  by (simp add: check_def)

lemma check_Inl_iff [result_simps]: "check p e = Inl e' \<longleftrightarrow> \<not> p \<and> e' = e"
  by (auto simp: check_def)

text \<open>A loop that computes one result per element and stops at the first exception.\<close>

fun collect :: "('a \<Rightarrow> 'b result) \<Rightarrow> 'a list \<Rightarrow> 'b list result" where
  "collect f [] = Inr []"
| "collect f (x # xs) = and_then (f x) (\<lambda>y. and_then (collect f xs) (\<lambda>ys. Inr (y # ys)))"

lemma collect_cong [fundef_cong]:
  "xs = ys \<Longrightarrow> (\<And>x. x \<in> set ys \<Longrightarrow> f x = g x) \<Longrightarrow> collect f xs = collect g ys"
proof (induction ys arbitrary: xs)
  case Nil
  then show ?case by simp
next
  case (Cons y ys)
  then show ?case by (metis collect.simps(2) list.set_intros(1) list.set_intros(2))
qed

lemma collect_Inr_iff [result_simps]:
  "collect f xs = Inr ys \<longleftrightarrow> list_all2 (\<lambda>x y. f x = Inr y) xs ys"
  by (induction xs arbitrary: ys) (auto simp: result_simps list_all2_Cons1)

lemma collect_member: "collect f xs = Inr ys \<Longrightarrow> y \<in> set ys \<Longrightarrow> \<exists>x\<in>set xs. f x = Inr y"
  by (induction xs arbitrary: ys) (auto simp: and_then_Inr_iff)

lemma collect_Inl_imp: "collect f xs = Inl e \<Longrightarrow> \<exists>x\<in>set xs. f x = Inl e"
  by (induction xs) (auto simp: result_simps)

lemma collect_all_Inr: "(\<And>x. x \<in> set xs \<Longrightarrow> f x = Inr (g x)) \<Longrightarrow> collect f xs = Inr (map g xs)"
  by (induction xs) auto

lemma in_map_filter_iff: "y \<in> set (List.map_filter f xs) \<longleftrightarrow> (\<exists>x\<in>set xs. f x = Some y)"
  by (auto simp: map_filter_def image_iff)

lemma find_sound: "find P xs = Some x \<Longrightarrow> x \<in> set xs \<and> P x"
  by (induction xs) (auto split: if_splits)

text \<open>A search from the front, the place of the first element that matches.\<close>

definition find_index :: "('a \<Rightarrow> bool) \<Rightarrow> 'a list \<Rightarrow> nat option" where
  "find_index P xs = (let n = length (takeWhile (\<lambda>x. \<not> P x) xs) in if n < length xs then Some n else None)"

lemma find_index_SomeD:
  assumes "find_index P xs = Some i"
  shows "i < length xs" "P (xs ! i)" "j < i \<Longrightarrow> \<not> P (xs ! j)"
proof -
  let ?n = "length (takeWhile (\<lambda>x. \<not> P x) xs)"
  from assms have i: "i = ?n" "?n < length xs"
    by (simp_all add: find_index_def Let_def split: if_splits)
  then show "i < length xs" by simp
  from i show "P (xs ! i)" using nth_length_takeWhile [of "\<lambda>x. \<not> P x" xs] by simp
  assume "j < i"
  then have "takeWhile (\<lambda>x. \<not> P x) xs ! j \<in> set (takeWhile (\<lambda>x. \<not> P x) xs)" using i by (intro nth_mem) simp
  with \<open>j < i\<close> i show "\<not> P (xs ! j)" by (simp add: takeWhile_nth) (metis set_takeWhileD takeWhile_nth)
qed

lemma find_index_None_iff: "find_index P xs = None \<longleftrightarrow> (\<forall>x\<in>set xs. \<not> P x)"
proof
  assume "find_index P xs = None"
  then have "length (takeWhile (\<lambda>x. \<not> P x) xs) = length xs"
    using length_takeWhile_le [of "\<lambda>x. \<not> P x" xs]
    by (simp add: find_index_def Let_def split: if_splits)
  then have "takeWhile (\<lambda>x. \<not> P x) xs = xs"
    by (metis takeWhile_eq_take take_all order_refl)
  then show "\<forall>x\<in>set xs. \<not> P x" by (simp add: takeWhile_eq_all_conv)
next
  assume "\<forall>x\<in>set xs. \<not> P x"
  then have "takeWhile (\<lambda>x. \<not> P x) xs = xs" by (simp add: takeWhile_eq_all_conv)
  then have "length (takeWhile (\<lambda>x. \<not> P x) xs) = length xs" by (rule arg_cong)
  then show "find_index P xs = None" by (simp add: find_index_def)
qed

text \<open>A loop of checks, in order: the first failing one is the exception thrown.\<close>

fun check_each :: "('a \<Rightarrow> unit result) \<Rightarrow> 'a list \<Rightarrow> unit result" where
  "check_each f [] = Inr ()"
| "check_each f (x # xs) = and_then (f x) (\<lambda>_. check_each f xs)"

lemma check_each_Inr_iff [result_simps]:
  "check_each f xs = Inr u \<longleftrightarrow> (\<forall>x\<in>set xs. f x = Inr ())"
  by (induction xs) (auto simp: result_simps)

subsection \<open>Standard strings\<close>

text \<open>\<open>std::string::find\<close> of a character, \<open>npos\<close> as \<open>None\<close>.\<close>

definition find_char :: "char \<Rightarrow> string \<Rightarrow> nat option" where
  "find_char c s = (if c \<in> set s then Some (length (takeWhile (\<lambda>x. x \<noteq> c) s)) else None)"

text \<open>\<open>s.substr(s.find_last_of(c) + 1)\<close>, the whole string when \<open>c\<close> does not occur.\<close>

definition after_last :: "char \<Rightarrow> string \<Rightarrow> string" where
  "after_last c s = rev (takeWhile (\<lambda>x. x \<noteq> c) (rev s))"

text \<open>The value of a run of decimal digits, as \<open>std::stoll\<close> reads it.\<close>

definition digit_value :: "char \<Rightarrow> nat" where
  "digit_value c = of_char c - 48"

definition digits_value :: "string \<Rightarrow> nat" where
  "digits_value s = foldl (\<lambda>n c. 10 * n + digit_value c) 0 s"

lemma length_dropWhile_less:
  "takeWhile P xs \<noteq> [] \<Longrightarrow> length (dropWhile P xs) < length xs"
  by (cases xs) (auto simp: le_imp_less_Suc length_dropWhile_le split: if_splits)

lemma takeWhile_stop [simp]: "(xs \<noteq> [] \<Longrightarrow> \<not> P (hd xs)) \<Longrightarrow> takeWhile P xs = []"
  by (cases xs) auto

lemma dropWhile_stop [simp]: "(xs \<noteq> [] \<Longrightarrow> \<not> P (hd xs)) \<Longrightarrow> dropWhile P xs = xs"
  by (cases xs) auto

text \<open>The loop \<open>for (offset = 0; offset < size; offset += n)\<close> over the batches of \<open>n\<close> elements.\<close>

function batches :: "nat \<Rightarrow> 'a list \<Rightarrow> 'a list list" where
  "batches n xs = (if xs = [] \<or> n = 0 then [] else take n xs # batches n (drop n xs))"
  by pat_completeness auto
termination by (relation "measure (\<lambda>(n, xs). length xs)") auto

declare batches.simps [simp del]

lemma concat_batches: "0 < n \<Longrightarrow> concat (batches n xs) = xs"
proof (induction n xs rule: batches.induct)
  case (1 n xs)
  then show ?case by (subst batches.simps) auto
qed

lemma batches_sound: "b \<in> set (batches n xs) \<Longrightarrow> b \<noteq> [] \<and> length b \<le> n"
proof (induction n xs rule: batches.induct)
  case (1 n xs)
  then show ?case by (subst (asm) batches.simps) (auto split: if_splits)
qed

lemma separator_eq_iff:
  "c \<notin> set a \<Longrightarrow> c \<notin> set a' \<Longrightarrow> a @ c # b = a' @ c # b' \<longleftrightarrow> a = a' \<and> b = b'"
proof (induction a arbitrary: a')
  case Nil
  then show ?case by (cases a') auto
next
  case (Cons x a)
  then show ?case by (cases a') auto
qed

subsection \<open>Associative containers\<close>

text \<open>
  A map is an association list in its iteration order (\<open>std::unordered_map\<close> leaves the order
  open: a statement about every list is one about every order). \<open>find\<close> is \<open>map_of\<close>,
  \<open>m[k] = v\<close> is \<open>AList.update\<close>, \<open>erase\<close> is \<open>AList.delete\<close> and \<open>emplace\<close> leaves an entry
  that is there.
\<close>

type_synonym properties = "(string \<times> string) list"

definition emplace :: "'k \<Rightarrow> 'v \<Rightarrow> ('k \<times> 'v) list \<Rightarrow> ('k \<times> 'v) list" where
  "emplace k v m = (case map_of m k of None \<Rightarrow> m @ [(k, v)] | Some _ \<Rightarrow> m)"

lemma map_of_emplace [simp]:
  "map_of (emplace k v m) k' =
     (if k' = k then Some (case map_of m k of None \<Rightarrow> v | Some u \<Rightarrow> u) else map_of m k')"
  by (auto simp: emplace_def map_add_def split: option.splits)

lemma map_of_update [simp]: "map_of (AList.update k v m) = (map_of m)(k \<mapsto> v)"
  by (rule AList.update_conv')

lemma map_of_delete [simp]: "map_of (AList.delete k m) = (map_of m)(k := None)"
  by (rule AList.delete_conv')

end
