(* ===== verification/DuckDB.thy ===== *)
theory DuckDB
  imports Prelude
begin

text \<open>
  The DuckDB library the extension is written against. Its sources are not part of this
  repository, so its functions are the fields of the record \<open>duckdb\<close>, an argument of every
  definition that uses one; its data types are the ones the sources construct and inspect.
  The locale \<open>string_util\<close> states what the header of StringUtil documents about the string
  functions (and the largest width of a decimal); \<open>ascii_duckdb\<close> is an instance of it, used where a statement is evaluated.
\<close>

subsection \<open>Types and values\<close>

text \<open>
  \<open>LogicalType\<close>: the type ids the sources name; \<open>ALIAS\<close> is a type with an alias (JSON over
  VARCHAR), which keeps the id of the type under it; \<open>OTHER_TYPE\<close> is any other id.
\<close>

datatype LogicalType =
    BOOLEAN | TINYINT | SMALLINT | INTEGER | BIGINT
  | UTINYINT | USMALLINT | UINTEGER
  | FLOAT | DOUBLE | DECIMAL nat nat
  | VARCHAR | BLOB | DATE | TIME | TIMESTAMP | TIMESTAMP_TZ | UUID | VARIANT
  | LIST LogicalType | MAP LogicalType LogicalType | STRUCT "(string \<times> LogicalType) list"
  | ALIAS string LogicalType
  | OTHER_TYPE string

fun unaliased :: "LogicalType \<Rightarrow> LogicalType" where
  "unaliased (ALIAS a t) = unaliased t"
| "unaliased t = t"

text \<open>\<open>LogicalTypeId\<close>: the unaliased type without its parameters.\<close>

datatype LogicalTypeId =
    ID_BOOLEAN | ID_TINYINT | ID_SMALLINT | ID_INTEGER | ID_BIGINT
  | ID_UTINYINT | ID_USMALLINT | ID_UINTEGER
  | ID_FLOAT | ID_DOUBLE | ID_DECIMAL
  | ID_VARCHAR | ID_BLOB | ID_DATE | ID_TIME | ID_TIMESTAMP | ID_TIMESTAMP_TZ | ID_UUID | ID_VARIANT
  | ID_LIST | ID_MAP | ID_STRUCT | ID_OTHER string

fun type_id :: "LogicalType \<Rightarrow> LogicalTypeId" where
  "type_id BOOLEAN = ID_BOOLEAN"
| "type_id TINYINT = ID_TINYINT"
| "type_id SMALLINT = ID_SMALLINT"
| "type_id INTEGER = ID_INTEGER"
| "type_id BIGINT = ID_BIGINT"
| "type_id UTINYINT = ID_UTINYINT"
| "type_id USMALLINT = ID_USMALLINT"
| "type_id UINTEGER = ID_UINTEGER"
| "type_id FLOAT = ID_FLOAT"
| "type_id DOUBLE = ID_DOUBLE"
| "type_id (DECIMAL w s) = ID_DECIMAL"
| "type_id VARCHAR = ID_VARCHAR"
| "type_id BLOB = ID_BLOB"
| "type_id DATE = ID_DATE"
| "type_id TIME = ID_TIME"
| "type_id TIMESTAMP = ID_TIMESTAMP"
| "type_id TIMESTAMP_TZ = ID_TIMESTAMP_TZ"
| "type_id UUID = ID_UUID"
| "type_id VARIANT = ID_VARIANT"
| "type_id (LIST t) = ID_LIST"
| "type_id (MAP k v) = ID_MAP"
| "type_id (STRUCT fs) = ID_STRUCT"
| "type_id (ALIAS a t) = type_id t"
| "type_id (OTHER_TYPE n) = ID_OTHER n"

text \<open>\<open>Value\<close>: a constant and its type; \<open>OtherV\<close> is a value of a type the sources do not look into.\<close>

datatype Value =
    NullV LogicalType
  | StringV string
  | IntV LogicalType int
  | BoolV bool
  | ListV LogicalType "Value list"
  | StructV "(string \<times> LogicalType) list" "Value list"
  | OtherV LogicalType string

fun value_type :: "Value \<Rightarrow> LogicalType" where
  "value_type (NullV t) = t"
| "value_type (StringV s) = VARCHAR"
| "value_type (IntV t i) = t"
| "value_type (BoolV b) = BOOLEAN"
| "value_type (ListV t vs) = LIST t"
| "value_type (StructV fs vs) = STRUCT fs"
| "value_type (OtherV t s) = t"

fun value_is_null :: "Value \<Rightarrow> bool" where
  "value_is_null (NullV t) = True"
| "value_is_null v = False"

datatype FileCompressionType =
    AUTO_DETECT | UNCOMPRESSED | GZIP | ZSTD | OTHER_COMPRESSION string

text \<open>\<open>QualifiedName\<close>: an empty part is not given.\<close>

record qualified_name =
  qn_catalog :: string
  qn_schema :: string
  qn_name :: string

subsection \<open>The functions of the library\<close>

record duckdb =
  Lower :: "string \<Rightarrow> string"
  Upper :: "string \<Rightarrow> string"
  CIEquals :: "string \<Rightarrow> string \<Rightarrow> bool"
  RTrim :: "string \<Rightarrow> string"
  RTrimChars :: "string \<Rightarrow> string \<Rightarrow> string"
  Trim :: "string \<Rightarrow> string"
  StartsWith :: "string \<Rightarrow> string \<Rightarrow> bool"
  Contains :: "string \<Rightarrow> string \<Rightarrow> bool"
  Join :: "string list \<Rightarrow> string \<Rightarrow> string"
  CharacterIsSpace :: "char \<Rightarrow> bool"
  CharacterIsDigit :: "char \<Rightarrow> bool"
  FormatInt :: "int \<Rightarrow> string"
  MAX_WIDTH_DECIMAL :: nat
  DEFAULT_PARTITION_NAME :: string
  HiveEscape :: "string \<Rightarrow> string"
  HiveEscapeValue :: "string \<Rightarrow> string"
  TypeEq :: "LogicalType \<Rightarrow> LogicalType \<Rightarrow> bool"
  TypeToString :: "LogicalType \<Rightarrow> string"
  GetCollation :: "LogicalType \<Rightarrow> string"
  ImplicitCastCost :: "LogicalType \<Rightarrow> LogicalType \<Rightarrow> int"
  TryCastAs :: "LogicalType \<Rightarrow> Value \<Rightarrow> Value option"
  ValueToString :: "Value \<Rightarrow> string"
  Utf8FirstLength :: "string \<Rightarrow> nat option"
  CompressionFromString :: "string \<Rightarrow> FileCompressionType result"
  CompressionToString :: "FileCompressionType \<Rightarrow> string"
  IsCompressed :: "FileCompressionType \<Rightarrow> bool"
  QuoteMeta :: "string \<Rightarrow> string"
  SqlIdentifier :: "string \<Rightarrow> string"
  AddColumn :: "string list \<Rightarrow> string \<Rightarrow> unit result"
  FindColumn :: "string list \<Rightarrow> string \<Rightarrow> nat option"
  IsIntegral :: "LogicalType \<Rightarrow> bool"
  Split :: "string \<Rightarrow> char \<Rightarrow> string list"
  EndsWith :: "string \<Rightarrow> string \<Rightarrow> bool"

text \<open>
  \<open>RTrimChars s cs\<close> is the overload \<open>RTrim(s, cs)\<close>. \<open>FormatInt\<close> is the conversion \<open>%d\<close> of
  \<open>Format\<close>. \<open>TryCastAs t v\<close> is \<open>v.DefaultTryCastAs(t)\<close>. \<open>Utf8FirstLength\<close> is the byte length
  \<open>UTF8ToCodepoint\<close> gives for the first character of a valid UTF-8 text, \<open>None\<close> when
  \<open>Utf8Proc::IsValid\<close> refuses it. \<open>CompressionFromString\<close>, \<open>CompressionToString\<close> and
  \<open>IsCompressed\<close> are the constructor and the methods of \<open>FileCompressionType\<close>. \<open>SqlIdentifier\<close> is
  \<open>SQLIdentifier::ToString\<close>; \<open>AddColumn names name\<close> is what \<open>ColumnList::AddColumn\<close> does with a column of
  that name when the list holds columns of these names, and \<open>FindColumn names name\<close> where \<open>GetColumn\<close> finds
  it there, \<open>None\<close> when \<open>ColumnExists\<close> does not. \<open>IsIntegral\<close> is the method of \<open>LogicalType\<close>.
\<close>

subsection \<open>What StringUtil documents\<close>

definition ascii_lower :: "char \<Rightarrow> char" where
  "ascii_lower c = (if 65 \<le> (of_char c :: nat) \<and> (of_char c :: nat) \<le> 90
                    then char_of ((of_char c :: nat) + 32) else c)"

definition ascii_upper :: "char \<Rightarrow> char" where
  "ascii_upper c = (if 97 \<le> (of_char c :: nat) \<and> (of_char c :: nat) \<le> 122
                    then char_of ((of_char c :: nat) - 32) else c)"

definition ascii_space :: "char \<Rightarrow> bool" where
  "ascii_space c \<longleftrightarrow> (of_char c :: nat) = 32 \<or> (9 \<le> (of_char c :: nat) \<and> (of_char c :: nat) \<le> 13)"

definition ascii_digit :: "char \<Rightarrow> bool" where
  "ascii_digit c \<longleftrightarrow> 48 \<le> (of_char c :: nat) \<and> (of_char c :: nat) \<le> 57"

fun join :: "string list \<Rightarrow> string \<Rightarrow> string" where
  "join [] sep = []"
| "join [x] sep = x"
| "join (x # xs) sep = x @ sep @ join xs sep"

text \<open>A text cut at every occurrence of a character.\<close>

fun split_chars :: "char \<Rightarrow> string \<Rightarrow> string list" where
  "split_chars d [] = [[]]"
| "split_chars d (c # s) =
     (if c = d then [] # split_chars d s
      else (c # hd (split_chars d s)) # tl (split_chars d s))"

locale string_util =
  fixes D :: duckdb
  assumes Lower: "Lower D s = map ascii_lower s"
    and Upper: "Upper D s = map ascii_upper s"
    and CIEquals: "CIEquals D a b \<longleftrightarrow> Lower D a = Lower D b"
    and CharacterIsSpace: "CharacterIsSpace D c \<longleftrightarrow> ascii_space c"
    and CharacterIsDigit: "CharacterIsDigit D c \<longleftrightarrow> ascii_digit c"
    and RTrim: "RTrim D s = rev (dropWhile (CharacterIsSpace D) (rev s))"
    and Trim: "Trim D s = dropWhile (CharacterIsSpace D) (RTrim D s)"
    and RTrimChars: "RTrimChars D s cs = rev (dropWhile (\<lambda>c. c \<in> set cs) (rev s))"
    and StartsWith: "StartsWith D s p \<longleftrightarrow> prefix p s"
    and Contains: "Contains D s p \<longleftrightarrow> sublist p s"
    and Join: "Join D xs sep = join xs sep"
    and FormatInt_digits: "0 \<le> i \<Longrightarrow> FormatInt D i \<noteq> [] \<and> list_all ascii_digit (FormatInt D i)"
    and FormatInt_value: "0 \<le> i \<Longrightarrow> int (digits_value (FormatInt D i)) = i"
    and MAX_WIDTH_DECIMAL: "MAX_WIDTH_DECIMAL D = 38"
    and Split: "s \<noteq> [] \<Longrightarrow> last s \<noteq> c \<Longrightarrow> Split D s c = split_chars c s"
    and EndsWith: "EndsWith D s p \<longleftrightarrow> suffix p s"
    and FindColumn_Some: "FindColumn D names name = Some k \<Longrightarrow> k < length names \<and> CIEquals D (names ! k) name"
    and FindColumn_None: "FindColumn D names name = None \<Longrightarrow> n \<in> set names \<Longrightarrow> \<not> CIEquals D n name"
begin

lemma Lower_append [simp]: "Lower D (a @ b) = Lower D a @ Lower D b"
  by (simp add: Lower)

lemma length_Lower [simp]: "length (Lower D a) = length a"
  by (simp add: Lower)

lemma CIEquals_refl: "CIEquals D a a"
  by (simp add: CIEquals)

lemma CIEquals_sym: "CIEquals D a b \<Longrightarrow> CIEquals D b a"
  by (simp add: CIEquals)

lemma CIEquals_trans: "CIEquals D a b \<Longrightarrow> CIEquals D b c \<Longrightarrow> CIEquals D a c"
  by (simp add: CIEquals)

lemma CIEquals_length: "CIEquals D a b \<Longrightarrow> length a = length b"
  by (metis CIEquals Lower length_map)

lemma CIEquals_Lower_cong: "CIEquals D a b \<Longrightarrow> CIEquals D a c = CIEquals D b c"
  by (simp add: CIEquals)

lemma CIEquals_Nil: "CIEquals D a [] \<longleftrightarrow> a = []"
  by (simp add: CIEquals Lower)

end

subsection \<open>An instance\<close>

fun nat_digits :: "nat \<Rightarrow> string" where
  "nat_digits n = (if n < 10 then [char_of (48 + n)]
                   else nat_digits (n div 10) @ [char_of (48 + n mod 10)])"

declare nat_digits.simps [simp del]

fun contains :: "string \<Rightarrow> string \<Rightarrow> bool" where
  "contains [] p = (p = [])"
| "contains (c # s) p = (prefix p (c # s) \<or> contains s p)"

definition parse_int :: "string \<Rightarrow> int option" where
  "parse_int s = (case s of [] \<Rightarrow> None
     | c # r \<Rightarrow> if c = CHR ''-'' \<and> r \<noteq> [] \<and> list_all ascii_digit r then Some (- int (digits_value r))
               else if list_all ascii_digit s then Some (int (digits_value s)) else None)"

definition ascii_cast :: "LogicalType \<Rightarrow> Value \<Rightarrow> Value option" where
  "ascii_cast t v =
     (case v of
        StringV s \<Rightarrow> if t = VARCHAR then Some v
                     else if t = BIGINT then map_option (IntV BIGINT) (parse_int s)
                     else if t = OTHER_TYPE ''UBIGINT'' then
                       (case parse_int s of None \<Rightarrow> None
                        | Some i \<Rightarrow> if i < 0 then None else Some (IntV t i))
                     else if t = INTEGER then map_option (IntV INTEGER) (parse_int s)
                     else None
      | IntV u i \<Rightarrow> if t = u then Some v
                    else if t = INTEGER then Some (IntV INTEGER i)
                    else if t = VARCHAR \<and> 0 \<le> i then Some (StringV (nat_digits (nat i))) else None
      | BoolV b \<Rightarrow> if t = BOOLEAN then Some v
                   else if t = VARCHAR then Some (StringV (if b then ''true'' else ''false'')) else None
      | ListV u vs \<Rightarrow> if t = VARCHAR then Some (StringV ''[...]'') else None
      | StructV fs vs \<Rightarrow> if t = VARCHAR then Some (StringV ''{...}'') else None
      | _ \<Rightarrow> None)"

fun find_column :: "('c \<Rightarrow> 'c) \<Rightarrow> 'c list list \<Rightarrow> 'c list \<Rightarrow> nat option" where
  "find_column g [] name = None"
| "find_column g (n # names) name =
     (if map g n = map g name then Some 0 else map_option Suc (find_column g names name))"

definition ascii_duckdb :: duckdb where
  "ascii_duckdb = \<lparr>
     Lower = map ascii_lower, Upper = map ascii_upper,
     CIEquals = (\<lambda>a b. map ascii_lower a = map ascii_lower b),
     RTrim = (\<lambda>s. rev (dropWhile ascii_space (rev s))),
     RTrimChars = (\<lambda>s cs. rev (dropWhile (\<lambda>c. c \<in> set cs) (rev s))),
     Trim = (\<lambda>s. dropWhile ascii_space (rev (dropWhile ascii_space (rev s)))),
     StartsWith = (\<lambda>s p. prefix p s), Contains = contains, Join = join,
     CharacterIsSpace = ascii_space, CharacterIsDigit = ascii_digit,
     FormatInt = (\<lambda>i. if i < 0 then CHR ''-'' # nat_digits (nat (- i)) else nat_digits (nat i)),
     MAX_WIDTH_DECIMAL = 38,
     DEFAULT_PARTITION_NAME = ''__HIVE_DEFAULT_PARTITION__'',
     HiveEscape = (\<lambda>s. s), HiveEscapeValue = (\<lambda>s. s),
     TypeEq = (=), TypeToString = (\<lambda>t. []), GetCollation = (\<lambda>t. []),
     ImplicitCastCost = (\<lambda>a b. if a = b then 0 else -1),
     TryCastAs = ascii_cast,
     ValueToString = (\<lambda>v. case v of StringV s \<Rightarrow> s | _ \<Rightarrow> []),
     Utf8FirstLength = (\<lambda>s. if s \<noteq> [] \<and> (of_char (hd s) :: nat) < 128 then Some 1 else None),
     CompressionFromString = (\<lambda>s. let l = map ascii_lower s in
       if l = ''none'' then Inr UNCOMPRESSED else if l = ''gzip'' then Inr GZIP
       else if l = ''zstd'' then Inr ZSTD else Inr (OTHER_COMPRESSION l)),
     CompressionToString = (\<lambda>c. case c of AUTO_DETECT \<Rightarrow> ''auto'' | UNCOMPRESSED \<Rightarrow> ''none''
       | GZIP \<Rightarrow> ''gzip'' | ZSTD \<Rightarrow> ''zstd'' | OTHER_COMPRESSION n \<Rightarrow> n),
     IsCompressed = (\<lambda>c. c \<noteq> AUTO_DETECT \<and> c \<noteq> UNCOMPRESSED),
     QuoteMeta = (\<lambda>s. s), SqlIdentifier = (\<lambda>s. s),
     AddColumn = (\<lambda>names name. Inr ()),
     FindColumn = find_column ascii_lower,
     IsIntegral = (\<lambda>t. type_id t \<in> {ID_TINYINT, ID_SMALLINT, ID_INTEGER, ID_BIGINT, ID_UTINYINT,
       ID_USMALLINT, ID_UINTEGER}),
     Split = (\<lambda>s c. if s = [] then [] else if last s = c then split_chars c (butlast s) else split_chars c s),
     EndsWith = (\<lambda>s p. suffix p s) \<rparr>"

lemma ascii_duckdb_sel [simp]:
  "Lower ascii_duckdb = map ascii_lower" "Upper ascii_duckdb = map ascii_upper"
  "CIEquals ascii_duckdb a b \<longleftrightarrow> map ascii_lower a = map ascii_lower b"
  "Contains ascii_duckdb = contains" "Join ascii_duckdb = join"
  "StartsWith ascii_duckdb x y \<longleftrightarrow> prefix y x"
  "CharacterIsSpace ascii_duckdb = ascii_space" "CharacterIsDigit ascii_duckdb = ascii_digit"
  "MAX_WIDTH_DECIMAL ascii_duckdb = 38" "TypeEq ascii_duckdb = (=)"
  "DEFAULT_PARTITION_NAME ascii_duckdb = ''__HIVE_DEFAULT_PARTITION__''"
  "TryCastAs ascii_duckdb = ascii_cast" "FindColumn ascii_duckdb = find_column ascii_lower"
  "EndsWith ascii_duckdb x y \<longleftrightarrow> suffix y x"
  by (simp_all add: ascii_duckdb_def)

lemma digits_value_append: "digits_value (s @ [c]) = 10 * digits_value s + digit_value c"
  by (simp add: digits_value_def)

lemma digit_value_char_of [simp]: "n < 10 \<Longrightarrow> digit_value (char_of (48 + n)) = n"
  by (simp add: digit_value_def)

lemma ascii_digit_char_of [simp]: "(n::nat) < 10 \<Longrightarrow> ascii_digit (char_of (48 + n))"
  by (simp add: ascii_digit_def)

lemma digit_chars [simp]:
  "char_of (48::nat) = CHR ''0''" "char_of (49::nat) = CHR ''1''" "char_of (50::nat) = CHR ''2''"
  "char_of (51::nat) = CHR ''3''" "char_of (52::nat) = CHR ''4''" "char_of (53::nat) = CHR ''5''"
  "char_of (54::nat) = CHR ''6''" "char_of (55::nat) = CHR ''7''" "char_of (56::nat) = CHR ''8''"
  "char_of (57::nat) = CHR ''9''"
  by (simp_all add: char_of_def bit_0)

lemma nat_digits_value: "digits_value (nat_digits n) = n"
proof (induction n rule: nat_digits.induct)
  case (1 n)
  show ?case
  proof (cases "n < 10")
    case True
    then show ?thesis by (subst nat_digits.simps) (simp add: digits_value_def)
  next
    case False
    with 1 show ?thesis by (subst nat_digits.simps) (simp add: digits_value_append)
  qed
qed

lemma nat_digits_digits: "nat_digits n \<noteq> [] \<and> list_all ascii_digit (nat_digits n)"
proof (induction n rule: nat_digits.induct)
  case (1 n)
  then show ?case
    by (cases "n < 10") (subst nat_digits.simps, simp)+
qed

lemma contains_sublist: "contains s p \<longleftrightarrow> sublist p s"
  by (induction s) (auto simp: sublist_Cons_right)

lemma find_column_Some:
  "find_column g names name = Some i \<Longrightarrow> i < length names \<and> map g (names ! i) = map g name"
  by (induction names arbitrary: i) (auto split: if_splits)

lemma find_column_None: "find_column g names name = None \<Longrightarrow> n \<in> set names \<Longrightarrow> map g n \<noteq> map g name"
  by (induction names) (auto split: if_splits)

interpretation ascii: string_util ascii_duckdb
  by unfold_locales
    (simp_all add: ascii_duckdb_def contains_sublist nat_digits_value nat_digits_digits
      find_column_Some find_column_None)

lemmas ascii_ok = ascii.string_util_axioms

end
