(* ===== verification/Glue_Types.thy ===== *)
theory Glue_Types
  imports DuckDB
begin

text \<open>
  src/core/glue_types.cpp: the recursive descent parser of Hive style type strings
  (\<open>GlueTypeParser\<close>), the printer \<open>FromLogicalType\<close>, partition values, and the comparison of
  column types; with \<open>GlueSchemaEntry::IsAllowedHiveTypeChange\<close>, which they call.

  The parser's state is its input and a position; the model passes the rest of the input from
  that position, and the whole input for the messages. \<open>ParseType\<close> calls itself, so it carries
  fuel: every call consumes a character, hence the length of the input plus one is enough
  (\<open>parse_fuel\<close>).
\<close>

subsection \<open>The tokens\<close>

definition skip_whitespace :: "duckdb \<Rightarrow> string \<Rightarrow> string" where
  "skip_whitespace D s = dropWhile (CharacterIsSpace D) s"

definition peek :: "duckdb \<Rightarrow> char \<Rightarrow> string \<Rightarrow> bool \<times> string" where
  "peek D c s = (let r = skip_whitespace D s in (r \<noteq> [] \<and> hd r = c, r))"

definition expect :: "duckdb \<Rightarrow> string \<Rightarrow> char \<Rightarrow> string \<Rightarrow> string result" where
  "expect D inp c s = (case peek D c s of (found, r) \<Rightarrow>
     if \<not> found then Inl (InvalidInputException ''Expected'' [[c], inp]) else Inr (tl r))"

definition identifier_char :: "duckdb \<Rightarrow> char \<Rightarrow> bool" where
  "identifier_char D c \<longleftrightarrow> c \<noteq> CHR ''<'' \<and> c \<noteq> CHR ''>'' \<and> c \<noteq> CHR '','' \<and> c \<noteq> CHR '':''
     \<and> c \<noteq> CHR ''('' \<and> c \<noteq> CHR '')'' \<and> \<not> CharacterIsSpace D c"

definition read_identifier :: "duckdb \<Rightarrow> string \<Rightarrow> string \<Rightarrow> (string \<times> string) result" where
  "read_identifier D inp s =
     (let r = skip_whitespace D s; name = takeWhile (identifier_char D) r in
      if name = [] then Inl (InvalidInputException ''Expected a type name'' [inp])
      else Inr (name, dropWhile (identifier_char D) r))"

definition field_name_char :: "char \<Rightarrow> bool" where
  "field_name_char c \<longleftrightarrow> c \<noteq> CHR '':'' \<and> c \<noteq> CHR ''<'' \<and> c \<noteq> CHR ''>'' \<and> c \<noteq> CHR '',''"

definition read_field_name :: "duckdb \<Rightarrow> string \<Rightarrow> string \<Rightarrow> (string \<times> string) result" where
  "read_field_name D inp s =
     (let r = skip_whitespace D s in
      if r \<noteq> [] \<and> hd r = CHR 0x60 then
        (let q = tl r; name = takeWhile (\<lambda>c. c \<noteq> CHR 0x60) q; r' = dropWhile (\<lambda>c. c \<noteq> CHR 0x60) q in
         if r' = [] then Inl (InvalidInputException ''Unterminated quoted identifier'' [inp])
         else Inr (name, tl r'))
      else
        (let name = RTrim D (takeWhile field_name_char r) in
         if name = [] then Inl (InvalidInputException ''Expected a field name'' [inp])
         else Inr (name, dropWhile field_name_char r)))"

text \<open>\<open>std::stoll\<close> throws \<open>std::out_of_range\<close> for a value beyond \<open>int64_t\<close>.\<close>

definition read_integer :: "duckdb \<Rightarrow> string \<Rightarrow> string \<Rightarrow> (int \<times> string) result" where
  "read_integer D inp s =
     (let r = skip_whitespace D s; digits = takeWhile (CharacterIsDigit D) r in
      if digits = [] then Inl (InvalidInputException ''Expected a number'' [inp])
      else if digits_value digits \<ge> 2 ^ 63 then Inl (StdOutOfRange ''stoll'')
      else Inr (int (digits_value digits), dropWhile (CharacterIsDigit D) r))"

subsection \<open>ParseType\<close>

definition parse_decimal :: "duckdb \<Rightarrow> string \<Rightarrow> string \<Rightarrow> (LogicalType \<times> string) result" where
  "parse_decimal D inp s =
     and_then
       (case peek D CHR ''('' s of (open, s1) \<Rightarrow>
          if open then
            and_then (read_integer D inp (tl s1)) (\<lambda>(width, s2).
              case peek D CHR '','' s2 of (comma, s3) \<Rightarrow>
                and_then (if comma then read_integer D inp (tl s3) else Inr (0, s3)) (\<lambda>(scale, s4).
                  and_then (expect D inp CHR '')'' s4) (\<lambda>s5. Inr ((width, scale), s5))))
          else Inr ((10, 0), s1))
       (\<lambda>((width, scale), r).
          if width < 1 \<or> width > int (MAX_WIDTH_DECIMAL D) \<or> scale < 0 \<or> scale > width
          then Inl (InvalidInputException ''Unsupported decimal type'' [inp])
          else Inr (DECIMAL (nat width) (nat scale), r))"

definition parse_varchar :: "duckdb \<Rightarrow> string \<Rightarrow> string \<Rightarrow> (LogicalType \<times> string) result" where
  "parse_varchar D inp s =
     (case peek D CHR ''('' s of (open, s1) \<Rightarrow>
        if open then and_then (read_integer D inp (tl s1)) (\<lambda>(n, s2).
                       and_then (expect D inp CHR '')'' s2) (\<lambda>s3. Inr (VARCHAR, s3)))
        else Inr (VARCHAR, s1))"

definition parse_scalar :: "duckdb \<Rightarrow> string \<Rightarrow> string \<Rightarrow> string \<Rightarrow> (LogicalType \<times> string) result" where
  "parse_scalar D inp name s =
     (if name = ''decimal'' \<or> name = ''numeric'' then parse_decimal D inp s
      else if name = ''varchar'' \<or> name = ''char'' then parse_varchar D inp s
      else if name = ''boolean'' \<or> name = ''bool'' then Inr (BOOLEAN, s)
      else if name = ''tinyint'' then Inr (TINYINT, s)
      else if name = ''smallint'' then Inr (SMALLINT, s)
      else if name = ''int'' \<or> name = ''integer'' then Inr (INTEGER, s)
      else if name = ''bigint'' \<or> name = ''long'' then Inr (BIGINT, s)
      else if name = ''float'' \<or> name = ''real'' then Inr (FLOAT, s)
      else if name = ''double'' then Inr (DOUBLE, s)
      else if name = ''string'' then Inr (VARCHAR, s)
      else if name = ''binary'' then Inr (BLOB, s)
      else if name = ''date'' then Inr (DATE, s)
      else if name = ''time'' then Inr (TIME, s)
      else if name = ''timestamp'' then Inr (TIMESTAMP, s)
      else if name = ''timestamptz'' \<or> name = ''timestamp with time zone''
              \<or> name = ''timestamp_with_local_time_zone'' then Inr (TIMESTAMP_TZ, s)
      else if name = ''uuid'' then Inr (UUID, s)
      else if name = ''variant'' then Inr (VARIANT, s)
      else Inl (NotImplementedException ''Glue type'' [name, inp]))"

text \<open>\<open>parse_type\<close> is \<open>ParseType\<close>; \<open>parse_fields\<close> is its loop over the fields of a struct.\<close>

fun parse_type :: "duckdb \<Rightarrow> string \<Rightarrow> nat \<Rightarrow> string \<Rightarrow> (LogicalType \<times> string) result"
and parse_fields :: "duckdb \<Rightarrow> string \<Rightarrow> nat \<Rightarrow> string \<Rightarrow> ((string \<times> LogicalType) list \<times> string) result"
where
  "parse_type D inp 0 s = Inl OutOfFuel"
| "parse_type D inp (Suc n) s =
     and_then (read_identifier D inp s) (\<lambda>(raw, s1).
       let name = Lower D raw in
       if name = ''array'' then
         and_then (expect D inp CHR ''<'' s1) (\<lambda>s2.
         and_then (parse_type D inp n s2) (\<lambda>(child, s3).
         and_then (expect D inp CHR ''>'' s3) (\<lambda>s4. Inr (LIST child, s4))))
       else if name = ''map'' then
         and_then (expect D inp CHR ''<'' s1) (\<lambda>s2.
         and_then (parse_type D inp n s2) (\<lambda>(key, s3).
         and_then (expect D inp CHR '','' s3) (\<lambda>s4.
         and_then (parse_type D inp n s4) (\<lambda>(val, s5).
         and_then (expect D inp CHR ''>'' s5) (\<lambda>s6. Inr (MAP key val, s6))))))
       else if name = ''struct'' then
         and_then (expect D inp CHR ''<'' s1) (\<lambda>s2.
         and_then (parse_fields D inp n s2) (\<lambda>(children, s3).
         and_then (expect D inp CHR ''>'' s3) (\<lambda>s4. Inr (STRUCT children, s4))))
       else parse_scalar D inp name s1)"
| "parse_fields D inp 0 s = Inl OutOfFuel"
| "parse_fields D inp (Suc n) s =
     and_then (read_field_name D inp s) (\<lambda>(field_name, s1).
     and_then (expect D inp CHR '':'' s1) (\<lambda>s2.
     and_then (parse_type D inp n s2) (\<lambda>(field_type, s3).
       case peek D CHR '','' s3 of (comma, s4) \<Rightarrow>
         if comma then and_then (parse_fields D inp n (tl s4)) (\<lambda>(rest, s5).
                         Inr ((field_name, field_type) # rest, s5))
         else Inr ([(field_name, field_type)], s4))))"

definition parse_fuel :: "string \<Rightarrow> nat" where
  "parse_fuel s = Suc (length s)"

definition to_logical_type :: "duckdb \<Rightarrow> string \<Rightarrow> LogicalType result" where
  "to_logical_type D inp =
     and_then (parse_type D inp (parse_fuel inp) inp) (\<lambda>(t, r).
       if skip_whitespace D r \<noteq> []
       then Inl (InvalidInputException ''Unexpected trailing characters'' [inp]) else Inr t)"

subsection \<open>FromLogicalType\<close>

definition storable_field_name :: "duckdb \<Rightarrow> string \<Rightarrow> bool" where
  "storable_field_name D name \<longleftrightarrow>
     \<not> (name = [] \<or> (\<exists>c\<in>set name. c \<in> {CHR '':'', CHR '','', CHR ''<'', CHR ''>'', CHR 0x60})
        \<or> CharacterIsSpace D (hd name) \<or> CharacterIsSpace D (last name))"

fun from_logical_type :: "duckdb \<Rightarrow> LogicalType \<Rightarrow> string result" where
  "from_logical_type D BOOLEAN = Inr ''boolean''"
| "from_logical_type D TINYINT = Inr ''tinyint''"
| "from_logical_type D SMALLINT = Inr ''smallint''"
| "from_logical_type D INTEGER = Inr ''int''"
| "from_logical_type D BIGINT = Inr ''bigint''"
| "from_logical_type D UTINYINT = Inr ''smallint''"
| "from_logical_type D USMALLINT = Inr ''int''"
| "from_logical_type D UINTEGER = Inr ''bigint''"
| "from_logical_type D FLOAT = Inr ''float''"
| "from_logical_type D DOUBLE = Inr ''double''"
| "from_logical_type D (DECIMAL w s) =
     Inr (''decimal('' @ FormatInt D (int w) @ '','' @ FormatInt D (int s) @ '')'')"
| "from_logical_type D VARCHAR = Inr ''string''"
| "from_logical_type D BLOB = Inr ''binary''"
| "from_logical_type D DATE = Inr ''date''"
| "from_logical_type D TIME = Inr ''time''"
| "from_logical_type D TIMESTAMP = Inr ''timestamp''"
| "from_logical_type D TIMESTAMP_TZ = Inr ''timestamptz''"
| "from_logical_type D UUID = Inr ''uuid''"
| "from_logical_type D VARIANT = Inr ''variant''"
| "from_logical_type D (LIST t) =
     and_then (from_logical_type D t) (\<lambda>c. Inr (''array<'' @ c @ ''>''))"
| "from_logical_type D (MAP k v) =
     and_then (from_logical_type D k) (\<lambda>ks.
     and_then (from_logical_type D v) (\<lambda>vs. Inr (''map<'' @ ks @ '','' @ vs @ ''>'')))"
| "from_logical_type D (STRUCT fs) =
     (if fs = [] then Inl (NotImplementedException ''DuckDB type'' [TypeToString D (STRUCT fs)])
      else and_then
        (collect (\<lambda>f.
           if \<not> storable_field_name D (fst f)
           then Inl (NotImplementedException ''Struct field name'' [fst f])
           else and_then (from_logical_type D (snd f)) (\<lambda>c. Inr (fst f @ '':'' @ c))) fs)
        (\<lambda>fields. Inr (''struct<'' @ Join D fields '','' @ ''>'')))"
| "from_logical_type D (ALIAS a t) = from_logical_type D t"
| "from_logical_type D (OTHER_TYPE n) =
     Inl (NotImplementedException ''DuckDB type'' [TypeToString D (OTHER_TYPE n)])"

subsection \<open>Partition values\<close>

definition partition_value_is_null :: "duckdb \<Rightarrow> string \<Rightarrow> LogicalType \<Rightarrow> bool" where
  "partition_value_is_null D str t \<longleftrightarrow>
     str = DEFAULT_PARTITION_NAME D \<or>
     (type_id t \<noteq> ID_VARCHAR \<and> (CIEquals D str ''NULL'' \<or> str = []))"

definition partition_value :: "duckdb \<Rightarrow> string \<Rightarrow> string \<Rightarrow> LogicalType \<Rightarrow> Value result" where
  "partition_value D key str t =
     (if partition_value_is_null D str t then Inr (NullV t)
      else if type_id t = ID_VARCHAR then Inr (StringV str)
      else case TryCastAs D t (StringV str) of
             None \<Rightarrow> Inl (InvalidInputException ''Unable to cast'' [str, Upper D key, TypeToString D t])
           | Some v \<Rightarrow> Inr v)"

subsection \<open>Type changes and comparisons\<close>

text \<open>\<open>GlueSchemaEntry::IsAllowedHiveTypeChange\<close> (src/catalog/glue_schema_entry.cpp).\<close>

fun integer_rank :: "LogicalTypeId \<Rightarrow> nat" where
  "integer_rank ID_TINYINT = 1"
| "integer_rank ID_SMALLINT = 2"
| "integer_rank ID_INTEGER = 3"
| "integer_rank ID_BIGINT = 4"
| "integer_rank _ = 0"

definition is_allowed_hive_type_change :: "duckdb \<Rightarrow> LogicalType \<Rightarrow> LogicalType \<Rightarrow> bool" where
  "is_allowed_hive_type_change D a b =
     (if TypeEq D a b then True
      else if integer_rank (type_id a) > 0 \<and> integer_rank (type_id b) > 0
           then integer_rank (type_id b) > integer_rank (type_id a)
      else if type_id a = ID_FLOAT \<and> type_id b = ID_DOUBLE then True
      else if type_id b = ID_VARCHAR then True
      else False)"

text \<open>\<open>LogicalType::IsNested\<close>: the list, map and struct types of the sources.\<close>

definition is_nested :: "LogicalType \<Rightarrow> bool" where
  "is_nested t \<longleftrightarrow> type_id t \<in> {ID_LIST, ID_MAP, ID_STRUCT}"

definition can_read_partition_type_as :: "duckdb \<Rightarrow> LogicalType \<Rightarrow> LogicalType \<Rightarrow> bool" where
  "can_read_partition_type_as D a b =
     (if is_nested a \<or> is_nested b \<or> is_allowed_hive_type_change D a b then True
      else if type_id a = ID_DECIMAL \<and> type_id b = ID_DECIMAL then True
      else ImplicitCastCost D a b \<ge> 0)"

definition normalized_hive_type :: "duckdb \<Rightarrow> string \<Rightarrow> string" where
  "normalized_hive_type D t = filter (\<lambda>c. \<not> CharacterIsSpace D c) (Lower D t)"

definition same_column_type :: "duckdb \<Rightarrow> string \<Rightarrow> string \<Rightarrow> bool" where
  "same_column_type D a b =
     (case to_logical_type D a of
        Inl e \<Rightarrow> normalized_hive_type D a = normalized_hive_type D b
      | Inr ta \<Rightarrow> (case to_logical_type D b of
          Inl e \<Rightarrow> normalized_hive_type D a = normalized_hive_type D b
        | Inr tb \<Rightarrow> TypeEq D ta tb))"

subsection \<open>The parser consumes what it reads\<close>

lemma length_skip_whitespace: "length (skip_whitespace D s) \<le> length s"
  by (simp add: skip_whitespace_def length_dropWhile_le)

lemma skip_whitespace_Nil [simp]: "skip_whitespace D [] = []"
  by (simp add: skip_whitespace_def)

lemma peek_shorter: "peek D c s = (b, r) \<Longrightarrow> length r \<le> length s \<and> (b \<longrightarrow> r \<noteq> [])"
  by (auto simp: peek_def Let_def length_skip_whitespace)

lemma expect_shorter: "expect D inp c s = Inr r \<Longrightarrow> length r < length s"
  by (cases "peek D c s") (use peek_shorter [of D c s] in \<open>force simp: expect_def neq_Nil_conv split: if_splits\<close>)

lemma read_identifier_shorter: "read_identifier D inp s = Inr (n, r) \<Longrightarrow> length r < length s"
  by (auto simp: read_identifier_def Let_def split: if_splits)
    (meson length_dropWhile_less length_skip_whitespace less_le_trans)

lemma read_field_name_shorter: "read_field_name D inp s = Inr (n, r) \<Longrightarrow> length r \<le> length s"
  using length_skip_whitespace [of D s]
    length_dropWhile_le [of "\<lambda>c. c \<noteq> CHR 0x60" "tl (skip_whitespace D s)"]
    length_dropWhile_le [of field_name_char "skip_whitespace D s"]
  by (auto simp: read_field_name_def Let_def split: if_splits)

lemma read_integer_shorter: "read_integer D inp s = Inr (i, r) \<Longrightarrow> length r \<le> length s"
  using length_skip_whitespace [of D s]
    length_dropWhile_le [of "CharacterIsDigit D" "skip_whitespace D s"]
  by (auto simp: read_integer_def Let_def split: if_splits)

text \<open>
  \<open>below k m\<close>: the step does not run out of fuel, and what it leaves to read is shorter than
  \<open>k\<close>. The rules follow the steps of the parser, each with how far it gets.
\<close>

definition below :: "nat \<Rightarrow> ('a \<times> string) result \<Rightarrow> bool" where
  "below k m = (case m of Inl e \<Rightarrow> e \<noteq> OutOfFuel | Inr (x, r) \<Rightarrow> length r < k)"

named_theorems below_intros "how far each reading step gets"

lemma below_simps [simp]:
  "below k (Inl e) \<longleftrightarrow> e \<noteq> OutOfFuel" "below k (Inr (x, r)) \<longleftrightarrow> length r < k"
  by (simp_all add: below_def)

lemma belowI: "m \<noteq> Inl OutOfFuel \<Longrightarrow> (\<And>x r. m = Inr (x, r) \<Longrightarrow> length r < k) \<Longrightarrow> below k m"
  by (cases m) auto

lemma below_and_then:
  "below j m \<Longrightarrow> (\<And>x r. length r < j \<Longrightarrow> below k (f (x, r))) \<Longrightarrow> below k (and_then m f)"
  by (cases m) (auto simp: below_def)

lemma below_expect [below_intros]:
  assumes "\<And>r. length r < length s \<Longrightarrow> below k (f r)"
  shows "below k (and_then (expect D inp c s) f)"
proof (cases "expect D inp c s")
  case (Inl e)
  then show ?thesis by (auto simp: expect_def split: prod.splits if_splits)
next
  case (Inr r)
  with assms show ?thesis by (simp add: expect_shorter)
qed

lemma below_read_identifier [below_intros]:
  assumes "\<And>x r. length r < length s \<Longrightarrow> below k (f (x, r))"
  shows "below k (and_then (read_identifier D inp s) f)"
proof (rule below_and_then [of "length s"])
  show "below (length s) (read_identifier D inp s)"
  proof (rule belowI)
    show "read_identifier D inp s \<noteq> Inl OutOfFuel" by (simp add: read_identifier_def Let_def)
  qed (auto simp: less_Suc_eq_le dest: read_identifier_shorter)
qed (rule assms)

lemma below_read_field_name [below_intros]:
  assumes "\<And>x r. length r \<le> length s \<Longrightarrow> below k (f (x, r))"
  shows "below k (and_then (read_field_name D inp s) f)"
proof (rule below_and_then [of "Suc (length s)"])
  show "below (Suc (length s)) (read_field_name D inp s)"
  proof (rule belowI)
    show "read_field_name D inp s \<noteq> Inl OutOfFuel" by (simp add: read_field_name_def Let_def)
  qed (auto simp: less_Suc_eq_le dest: read_field_name_shorter)
qed (use assms in simp)

lemma below_read_integer [below_intros]:
  assumes "\<And>x r. length r \<le> length s \<Longrightarrow> below k (f (x, r))"
  shows "below k (and_then (read_integer D inp s) f)"
proof (rule below_and_then [of "Suc (length s)"])
  show "below (Suc (length s)) (read_integer D inp s)"
  proof (rule belowI)
    show "read_integer D inp s \<noteq> Inl OutOfFuel" by (simp add: read_integer_def Let_def)
  qed (auto simp: less_Suc_eq_le dest: read_integer_shorter)
qed (use assms in simp)

lemma below_peek [below_intros]:
  assumes "\<And>b r. length r \<le> length s \<Longrightarrow> (b \<Longrightarrow> r \<noteq> []) \<Longrightarrow> below k (f b r)"
  shows "below k (case peek D c s of (b, r) \<Rightarrow> f b r)"
  using assms peek_shorter [of D c s] by (cases "peek D c s") auto

lemma below_parse_varchar: "below (Suc (length s)) (parse_varchar D inp s)"
  unfolding parse_varchar_def
  by (rule below_peek) (auto intro!: below_intros simp: le_imp_less_Suc)

lemma below_decimal_arguments:
  "below (Suc (length s))
     (case peek D CHR '','' s of (comma, s3) \<Rightarrow>
        and_then (if comma then read_integer D inp (tl s3) else Inr (0, s3)) (\<lambda>(scale, s4).
          and_then (expect D inp CHR '')'' s4) (\<lambda>s5. Inr ((width, scale), s5))))"
  by (rule below_peek) (auto intro!: below_intros split: if_splits)

lemma below_parse_decimal: "below (Suc (length s)) (parse_decimal D inp s)"
  unfolding parse_decimal_def
proof (rule below_and_then [of "Suc (length s)"], goal_cases)
  case 1
  have *: "below (Suc (length s)) (case peek D CHR '','' r of (comma, s3) \<Rightarrow>
        and_then (if comma then read_integer D inp (tl s3) else Inr (0, s3)) (\<lambda>(scale, s4).
          and_then (expect D inp CHR '')'' s4) (\<lambda>s5. Inr ((width, scale), s5))))"
    if "length r \<le> length s" for r width
    using below_decimal_arguments [of r D inp width] that
    by (auto simp: below_def split: sum.splits)
  show ?case
    by (rule below_peek) (auto intro!: below_read_integer * simp: le_imp_less_Suc)
qed auto

lemma below_parse_scalar: "below (Suc (length s)) (parse_scalar D inp name s)"
  by (simp add: parse_scalar_def below_parse_varchar below_parse_decimal)

lemma below_parse:
  "length s < n \<Longrightarrow> below (length s) (parse_type D inp n s)"
  "length s < n \<Longrightarrow> below (length s) (parse_fields D inp n s)"
proof (induction n arbitrary: s)
  case (Suc n)
  case 1
  have ih: "below k (and_then (parse_type D inp n s') f)"
    if "length s' < n" "\<And>x r. length r < length s' \<Longrightarrow> below k (f (x, r))" for s' k and f :: "_ \<Rightarrow> (LogicalType \<times> string) result"
    using Suc.IH(1) [OF that(1)] that(2) by (rule below_and_then)
  have ihs: "below k (and_then (parse_fields D inp n s') f)"
    if "length s' < n" "\<And>x r. length r < length s' \<Longrightarrow> below k (f (x, r))" for s' k and f :: "_ \<Rightarrow> (LogicalType \<times> string) result"
    using Suc.IH(2) [OF that(1)] that(2) by (rule below_and_then)
  have sc: "below (length s) (parse_scalar D inp name r)" if "length r < length s" for name r
    using below_parse_scalar [of r D inp name] that by (auto simp: below_def split: sum.splits)
  from 1 show ?case
    by (auto simp: Let_def intro!: below_intros ih ihs sc)
next
  case (Suc n)
  case 2
  have ih: "below k (and_then (parse_type D inp n s') f)"
    if "length s' < n" "\<And>x r. length r < length s' \<Longrightarrow> below k (f (x, r))" for s' k and f :: "_ \<Rightarrow> ((string \<times> LogicalType) list \<times> string) result"
    using Suc.IH(1) [OF that(1)] that(2) by (rule below_and_then)
  have ihs: "below k (and_then (parse_fields D inp n s') f)"
    if "length s' < n" "\<And>x r. length r < length s' \<Longrightarrow> below k (f (x, r))" for s' k and f :: "_ \<Rightarrow> ((string \<times> LogicalType) list \<times> string) result"
    using Suc.IH(2) [OF that(1)] that(2) by (rule below_and_then)
  from 2 show ?case
    by (auto simp: Let_def intro!: below_intros ih ihs)
qed simp_all

subsection \<open>Printing and parsing\<close>

text \<open>
  The type a Glue type string stands for when it was printed from \<open>t\<close>: Glue has no unsigned
  integers, which widen, and no aliases.
\<close>

fun glue_type :: "LogicalType \<Rightarrow> LogicalType" where
  "glue_type UTINYINT = SMALLINT"
| "glue_type USMALLINT = INTEGER"
| "glue_type UINTEGER = BIGINT"
| "glue_type (LIST t) = LIST (glue_type t)"
| "glue_type (MAP k v) = MAP (glue_type k) (glue_type v)"
| "glue_type (STRUCT fs) = STRUCT (map (\<lambda>f. (fst f, glue_type (snd f))) fs)"
| "glue_type (ALIAS a t) = glue_type t"
| "glue_type t = t"

text \<open>The decimals of a type are ones DuckDB can construct.\<close>

fun valid_decimals :: "nat \<Rightarrow> LogicalType \<Rightarrow> bool" where
  "valid_decimals m (DECIMAL w s) \<longleftrightarrow> 1 \<le> w \<and> w \<le> m \<and> s \<le> w"
| "valid_decimals m (LIST t) \<longleftrightarrow> valid_decimals m t"
| "valid_decimals m (MAP k v) \<longleftrightarrow> valid_decimals m k \<and> valid_decimals m v"
| "valid_decimals m (STRUCT fs) \<longleftrightarrow> (\<forall>f\<in>set fs. valid_decimals m (snd f))"
| "valid_decimals m (ALIAS a t) \<longleftrightarrow> valid_decimals m t"
| "valid_decimals m _ \<longleftrightarrow> True"

text \<open>What may follow a printed type: nothing, the next type or field, a closing bracket.\<close>

definition type_end :: "string \<Rightarrow> bool" where
  "type_end r \<longleftrightarrow> r = [] \<or> hd r = CHR '','' \<or> hd r = CHR ''>''"

context string_util
begin

lemma skip_whitespace_hd [simp]:
  "r \<noteq> [] \<Longrightarrow> \<not> ascii_space (hd r) \<Longrightarrow> skip_whitespace D r = r"
  by (simp add: skip_whitespace_def CharacterIsSpace)

lemma skip_whitespace_Cons [simp]: "\<not> ascii_space c \<Longrightarrow> skip_whitespace D (c # r) = c # r"
  by (simp add: skip_whitespace_def CharacterIsSpace)

lemma expect_hit [simp]: "\<not> ascii_space c \<Longrightarrow> expect D inp c (c # r) = Inr r"
  by (simp add: expect_def peek_def)

lemma type_end_peek: "type_end r \<Longrightarrow> peek D c r = (r \<noteq> [] \<and> hd r = c, r)"
  by (cases r) (auto simp: type_end_def peek_def ascii_space_def)

lemma read_identifier_word:
  assumes "w \<noteq> []" "list_all (identifier_char D) w" "r \<noteq> [] \<Longrightarrow> \<not> identifier_char D (hd r)"
  shows "read_identifier D inp (w @ r) = Inr (w, r)"
proof -
  have "\<not> ascii_space (hd (w @ r))"
    using assms(1,2) by (cases w) (auto simp: identifier_char_def CharacterIsSpace)
  with assms show ?thesis
    by (simp add: read_identifier_def list_all_iff)
qed

lemma read_integer_digits:
  assumes "w \<noteq> []" "list_all ascii_digit w" "digits_value w < 2 ^ 63"
    "r \<noteq> [] \<Longrightarrow> \<not> ascii_digit (hd r)"
  shows "read_integer D inp (w @ r) = Inr (int (digits_value w), r)"
proof -
  have "\<not> ascii_space (hd (w @ r))"
    using assms(1,2) by (cases w) (auto simp: ascii_digit_def ascii_space_def)
  with assms show ?thesis
    by (simp add: read_integer_def list_all_iff CharacterIsDigit Let_def)
qed

lemma read_integer_FormatInt:
  "n < 2 ^ 63 \<Longrightarrow> (r \<noteq> [] \<Longrightarrow> \<not> ascii_digit (hd r))
    \<Longrightarrow> read_integer D inp (FormatInt D (int n) @ r) = Inr (int n, r)"
  using FormatInt_digits [of "int n"] FormatInt_value [of "int n"]
    read_integer_digits [of "FormatInt D (int n)" r inp] by simp

lemma RTrim_id: "s = [] \<or> \<not> CharacterIsSpace D (last s) \<Longrightarrow> RTrim D s = s"
  by (cases s rule: rev_cases) (auto simp: RTrim)

lemma read_field_name_stored:
  assumes "storable_field_name D n"
  shows "read_field_name D inp (n @ CHR '':'' # r) = Inr (n, CHR '':'' # r)"
proof -
  from assms have n: "n \<noteq> []" "\<not> ascii_space (hd n)" "hd n \<noteq> CHR 0x60" "RTrim D n = n"
    and chars: "\<And>c. c \<in> set n \<Longrightarrow> field_name_char c"
    by (auto simp: storable_field_name_def field_name_char_def CharacterIsSpace RTrim_id)
  have "skip_whitespace D (n @ CHR '':'' # r) = n @ CHR '':'' # r"
    using n by (intro skip_whitespace_hd) auto
  moreover have "\<not> field_name_char CHR '':''" by (simp add: field_name_char_def)
  ultimately show ?thesis
    using n chars
    by (simp add: read_field_name_def Let_def)
qed

lemma parse_decimal_stored:
  assumes "1 \<le> w" "w \<le> MAX_WIDTH_DECIMAL D" "s \<le> w"
  shows "parse_decimal D inp
           (CHR ''('' # FormatInt D (int w) @ CHR '','' # FormatInt D (int s) @ CHR '')'' # r)
         = Inr (DECIMAL w s, r)"
proof -
  have lt: "w < 2 ^ 63" "s < 2 ^ 63" using assms MAX_WIDTH_DECIMAL by auto
  have peeks: "peek D CHR ''('' (CHR ''('' # x) = (True, CHR ''('' # x)"
    "peek D CHR '','' (CHR '','' # x) = (True, CHR '','' # x)" for x
    by (simp_all add: peek_def ascii_space_def)
  have ints: "read_integer D inp (FormatInt D (int w) @ CHR '','' # x) = Inr (int w, CHR '','' # x)"
    "read_integer D inp (FormatInt D (int s) @ CHR '')'' # x) = Inr (int s, CHR '')'' # x)" for x
    using lt by (simp_all add: read_integer_FormatInt ascii_digit_def)
  show ?thesis
    using assms by (simp add: parse_decimal_def peeks ints ascii_space_def)
qed

lemma type_end_stops: "type_end r \<Longrightarrow> r \<noteq> [] \<Longrightarrow> \<not> identifier_char D (hd r)"
  by (auto simp: type_end_def identifier_char_def)

lemma parse_type_word:
  assumes "type_end r" "n > 0" "w \<noteq> []"
    "list_all (\<lambda>c. identifier_char D c \<and> ascii_lower c = c) w" "w \<notin> {''array'', ''map'', ''struct''}"
  shows "parse_type D inp n (w @ r) = parse_scalar D inp w r"
proof -
  have "Lower D w = w"
    using assms(4) by (auto simp: Lower list_all_iff intro: map_idI)
  moreover have "read_identifier D inp (w @ r) = Inr (w, r)"
    using assms type_end_stops by (intro read_identifier_word) (auto simp: list_all_iff)
  ultimately show ?thesis using assms by (cases n) simp_all
qed

end

context string_util
begin

lemma read_identifier_brackets [simp]:
  "read_identifier D inp (''array<'' @ x) = Inr (''array'', CHR ''<'' # x)"
  "read_identifier D inp (''map<'' @ x) = Inr (''map'', CHR ''<'' # x)"
  "read_identifier D inp (''struct<'' @ x) = Inr (''struct'', CHR ''<'' # x)"
  "read_identifier D inp (''decimal('' @ x) = Inr (''decimal'', CHR ''('' # x)"
  using read_identifier_word [of "''array''" "CHR ''<'' # x" inp]
    read_identifier_word [of "''map''" "CHR ''<'' # x" inp]
    read_identifier_word [of "''struct''" "CHR ''<'' # x" inp]
    read_identifier_word [of "''decimal''" "CHR ''('' # x" inp]
  by (simp_all add: identifier_char_def CharacterIsSpace ascii_space_def)

lemma Lower_words [simp]:
  "Lower D ''array'' = ''array''" "Lower D ''map'' = ''map''" "Lower D ''struct'' = ''struct''"
  "Lower D ''decimal'' = ''decimal''"
  by (simp_all add: Lower ascii_lower_def)

lemma not_space_punctuation [simp]:
  "\<not> ascii_space CHR ''<''" "\<not> ascii_space CHR ''>''" "\<not> ascii_space CHR '',''" "\<not> ascii_space CHR '':''"
  by (simp_all add: ascii_space_def)

lemma type_end_comma [simp]: "type_end (CHR '','' # r)" "type_end (CHR ''>'' # r)"
  by (simp_all add: type_end_def)

lemma parse_fields_stored:
  assumes types: "\<And>f s n r. f \<in> set fs \<Longrightarrow> from_logical_type D (snd f) = Inr s \<Longrightarrow> type_end r
      \<Longrightarrow> length (s @ r) < n \<Longrightarrow> parse_type D inp n (s @ r) = Inr (glue_type (snd f), r)"
    and names: "\<And>f. f \<in> set fs \<Longrightarrow> storable_field_name D (fst f)"
    and fields: "list_all2 (\<lambda>f s. \<exists>c. from_logical_type D (snd f) = Inr c \<and> s = fst f @ '':'' @ c) fs ss"
    and "fs \<noteq> []" "length (join ss '','' @ CHR ''>'' # r) < n"
  shows "parse_fields D inp n (join ss '','' @ CHR ''>'' # r)
    = Inr (map (\<lambda>f. (fst f, glue_type (snd f))) fs, CHR ''>'' # r)"
  using assms
proof (induction fs arbitrary: ss n)
  case Nil
  then show ?case by simp
next
  case (Cons f fs)
  from Cons.prems(3) obtain c ss' where c: "from_logical_type D (snd f) = Inr c"
    and ss: "ss = (fst f @ '':'' @ c) # ss'"
    and rest: "list_all2 (\<lambda>f s. \<exists>c. from_logical_type D (snd f) = Inr c \<and> s = fst f @ '':'' @ c) fs ss'"
    by (auto simp: list_all2_Cons1)
  from Cons.prems(5) obtain m where n: "n = Suc m" by (cases n) auto
  have name: "read_field_name D inp (fst f @ CHR '':'' # x) = Inr (fst f, CHR '':'' # x)" for x
    using Cons.prems(2) by (intro read_field_name_stored) simp
  show ?case
  proof (cases fs)
    case Nil
    with rest have ss': "ss' = []" by simp
    have len: "length (c @ CHR ''>'' # r) < m"
      using Cons.prems(5) by (simp add: ss ss' n)
    have "parse_type D inp m (c @ CHR ''>'' # r) = Inr (glue_type (snd f), CHR ''>'' # r)"
      by (rule Cons.prems(1) [OF _ c _ len]) simp_all
    then show ?thesis by (simp add: n ss ss' Nil name type_end_peek)
  next
    case (Cons g gs)
    with rest obtain s2 ss2 where ss': "ss' = s2 # ss2" by (auto simp: list_all2_Cons1)
    have j: "join ss '','' = fst f @ CHR '':'' # c @ CHR '','' # join ss' '',''"
      by (simp add: ss ss')
    have len: "length (c @ CHR '','' # join ss' '','' @ CHR ''>'' # r) < m"
      using Cons.prems(5) by (simp add: j n)
    have "parse_type D inp m (c @ CHR '','' # join ss' '','' @ CHR ''>'' # r)
        = Inr (glue_type (snd f), CHR '','' # join ss' '','' @ CHR ''>'' # r)"
      by (rule Cons.prems(1) [OF _ c _ len]) simp_all
    moreover have "parse_fields D inp m (join ss' '','' @ CHR ''>'' # r)
        = Inr (map (\<lambda>f. (fst f, glue_type (snd f))) fs, CHR ''>'' # r)"
      using Cons.prems(1,2) rest len \<open>fs = g # gs\<close> by (intro Cons.IH) auto
    ultimately show ?thesis by (simp add: n j name type_end_peek)
  qed
qed

lemma parse_scalar_stored:
  assumes "type_end r" "n > 0"
  shows "parse_type D inp n (''boolean'' @ r) = Inr (BOOLEAN, r)"
    "parse_type D inp n (''tinyint'' @ r) = Inr (TINYINT, r)"
    "parse_type D inp n (''smallint'' @ r) = Inr (SMALLINT, r)"
    "parse_type D inp n (''int'' @ r) = Inr (INTEGER, r)"
    "parse_type D inp n (''bigint'' @ r) = Inr (BIGINT, r)"
    "parse_type D inp n (''float'' @ r) = Inr (FLOAT, r)"
    "parse_type D inp n (''double'' @ r) = Inr (DOUBLE, r)"
    "parse_type D inp n (''string'' @ r) = Inr (VARCHAR, r)"
    "parse_type D inp n (''binary'' @ r) = Inr (BLOB, r)"
    "parse_type D inp n (''date'' @ r) = Inr (DATE, r)"
    "parse_type D inp n (''time'' @ r) = Inr (TIME, r)"
    "parse_type D inp n (''timestamp'' @ r) = Inr (TIMESTAMP, r)"
    "parse_type D inp n (''timestamptz'' @ r) = Inr (TIMESTAMP_TZ, r)"
    "parse_type D inp n (''uuid'' @ r) = Inr (UUID, r)"
    "parse_type D inp n (''variant'' @ r) = Inr (VARIANT, r)"
  by ((rule trans [OF parse_type_word [OF assms]];
      simp add: identifier_char_def CharacterIsSpace ascii_space_def ascii_lower_def
        parse_scalar_def))+

lemma parse_type_stored:
  "from_logical_type D t = Inr s \<Longrightarrow> valid_decimals (MAX_WIDTH_DECIMAL D) t \<Longrightarrow> type_end r
     \<Longrightarrow> length (s @ r) < n \<Longrightarrow> parse_type D inp n (s @ r) = Inr (glue_type t, r)"
proof (induction t arbitrary: s r n rule: LogicalType.induct)
  case (DECIMAL w sc)
  then obtain m where "n = Suc m" by (cases n) auto
  moreover from DECIMAL have
    s: "s = ''decimal('' @ FormatInt D (int w) @ '','' @ FormatInt D (int sc) @ '')''" by simp
  ultimately show ?case
    using DECIMAL parse_decimal_stored [of w sc inp r]
    by (simp add: parse_scalar_def del: append_Cons)
       (simp add: parse_scalar_def)
next
  case (LIST t)
  then obtain m c where n: "n = Suc m" and c: "from_logical_type D t = Inr c"
    and s: "s = ''array<'' @ c @ ''>''" by (cases n) (auto simp: result_simps)
  have "parse_type D inp m (c @ CHR ''>'' # r) = Inr (glue_type t, CHR ''>'' # r)"
    using LIST.prems c by (intro LIST.IH) (auto simp: s n)
  then show ?case
    using read_identifier_brackets(1) [of inp "c @ CHR ''>'' # r"] by (simp add: n s)
next
  case (MAP k v)
  then obtain m ks vs where n: "n = Suc m" and ks: "from_logical_type D k = Inr ks"
    and vs: "from_logical_type D v = Inr vs"
    and s: "s = ''map<'' @ ks @ '','' @ vs @ ''>''" by (cases n) (auto simp: result_simps)
  have "parse_type D inp m (ks @ CHR '','' # vs @ CHR ''>'' # r)
      = Inr (glue_type k, CHR '','' # vs @ CHR ''>'' # r)"
    "parse_type D inp m (vs @ CHR ''>'' # r) = Inr (glue_type v, CHR ''>'' # r)"
    using MAP.prems ks vs by (auto simp: s n intro!: MAP.IH)
  then show ?case
    using read_identifier_brackets(2) [of inp "ks @ CHR '','' # vs @ CHR ''>'' # r"]
    by (simp add: n s)
next
  case (STRUCT fs)
  let ?field = "\<lambda>f. if \<not> storable_field_name D (fst f)
      then Inl (NotImplementedException ''Struct field name'' [fst f])
      else and_then (from_logical_type D (snd f)) (\<lambda>c. Inr (fst f @ '':'' @ c))"
  from STRUCT.prems(1) obtain ss where fs: "fs \<noteq> []" and c: "collect ?field fs = Inr ss"
    and s: "s = ''struct<'' @ join ss '','' @ ''>''"
    by (auto simp: and_then_Inr_iff Join split: if_splits)
  from STRUCT.prems(4) obtain m where n: "n = Suc m" by (cases n) auto
  have ss: "list_all2 (\<lambda>f s. storable_field_name D (fst f) \<and>
        (\<exists>c. from_logical_type D (snd f) = Inr c \<and> s = fst f @ '':'' @ c)) fs ss"
    using c unfolding collect_Inr_iff
    by (rule list_all2_mono) (auto simp: result_simps split: if_splits)
  have "parse_fields D inp m (join ss '','' @ CHR ''>'' # r)
      = Inr (map (\<lambda>f. (fst f, glue_type (snd f))) fs, CHR ''>'' # r)"
  proof (rule parse_fields_stored)
    fix f c n' r' assume "f \<in> set fs" "from_logical_type D (snd f) = Inr c" "type_end r'"
      "length (c @ r') < n'"
    then show "parse_type D inp n' (c @ r') = Inr (glue_type (snd f), r')"
      using STRUCT.prems(2) by (intro STRUCT.IH [of f]) (auto simp: snds.simps)
  next
    fix f assume "f \<in> set fs"
    then show "storable_field_name D (fst f)"
      using ss by (auto simp: list_all2_conv_all_nth in_set_conv_nth)
  qed (use ss fs STRUCT.prems(4) in \<open>auto simp: s n elim: list_all2_mono\<close>)
  then show ?case
    using read_identifier_brackets(3) [of inp "join ss '','' @ CHR ''>'' # r"] by (simp add: n s)
qed (auto simp del: append_Cons intro!: parse_scalar_stored)

lemma to_logical_type_stored:
  assumes "from_logical_type D t = Inr s" "valid_decimals (MAX_WIDTH_DECIMAL D) t"
  shows "to_logical_type D s = Inr (glue_type t)"
proof -
  have "parse_type D s (parse_fuel s) (s @ []) = Inr (glue_type t, [])"
    using assms by (intro parse_type_stored) (auto simp: parse_fuel_def type_end_def)
  then show ?thesis by (simp add: to_logical_type_def)
qed

end

subsection \<open>Properties\<close>

text \<open>
  Parsing a Glue type string always ends: with the fuel \<open>ToLogicalType\<close> is modelled with, the
  recursive descent never runs out, whatever the input, the length of the input and the
  nesting of its brackets. Every result is a type or one of the exceptions of the code.
\<close>

theorem to_logical_type_terminates: "to_logical_type D inp \<noteq> Inl OutOfFuel"
proof -
  have "below (length inp) (parse_type D inp (parse_fuel inp) inp)"
    by (rule below_parse) (simp add: parse_fuel_def)
  then show ?thesis
    by (cases "parse_type D inp (parse_fuel inp) inp")
      (auto simp: to_logical_type_def below_def result_simps split: if_splits)
qed

text \<open>
  C25: a type stored in Glue reads back as itself, up to what Glue can not hold: when
  \<open>FromLogicalType\<close> gives a type string for \<open>t\<close>, \<open>ToLogicalType\<close> of it is \<open>t\<close> with its unsigned
  integers widened and its aliases dropped, at every nesting depth and for every field name
  the printer lets through.
\<close>

theorem from_logical_type_roundtrip:
  assumes "string_util D" "from_logical_type D t = Inr s" "valid_decimals (MAX_WIDTH_DECIMAL D) t"
  shows "to_logical_type D s = Inr (glue_type t)"
  using assms by (rule string_util.to_logical_type_stored)

lemma from_logical_type_roundtrip_witness:
  "to_logical_type ascii_duckdb ''struct<a b:array<smallint>,c:decimal(10,2)>''
    = Inr (STRUCT [(''a b'', LIST SMALLINT), (''c'', DECIMAL 10 2)])"
proof -
  have "from_logical_type ascii_duckdb (STRUCT [(''a b'', LIST UTINYINT), (''c'', DECIMAL 10 2)])
      = Inr ''struct<a b:array<smallint>,c:decimal(10,2)>''"
    by (simp add: ascii_duckdb_def storable_field_name_def ascii_space_def nat_digits.simps)
  from from_logical_type_roundtrip [OF ascii_ok this] show ?thesis
    by (simp add: ascii_duckdb_def)
qed

text \<open>
  The column type changes ALTER TABLE allows compose: what a chain of two allowed changes
  reaches, one allowed change reaches too, so no sequence of ALTER TABLE statements reads the
  existing files as a type a single statement would refuse.
\<close>

theorem allowed_type_changes_compose:
  assumes ids: "\<And>a b. TypeEq D a b \<Longrightarrow> type_id a = type_id b"
    and trans: "\<And>a b c. TypeEq D a b \<Longrightarrow> TypeEq D b c \<Longrightarrow> TypeEq D a c"
    and "is_allowed_hive_type_change D a b" "is_allowed_hive_type_change D b c"
  shows "is_allowed_hive_type_change D a c"
  using assms(3,4) ids [of a b] ids [of b c] trans [of a b c]
  unfolding is_allowed_hive_type_change_def
  by (auto split: if_splits)

lemma allowed_type_changes_compose_witness:
  "is_allowed_hive_type_change ascii_duckdb TINYINT BIGINT"
  by (rule allowed_type_changes_compose [of _ _ INTEGER])
    (simp_all add: is_allowed_hive_type_change_def ascii_duckdb_def)

text \<open>
  The spelling \<open>timestamp with time zone\<close>, which \<open>ParseType\<close> compares a type name with, is
  refused: a type name ends at the first space, so the name read is \<open>timestamp\<close> and the rest is
  trailing text.
\<close>

theorem timestamp_with_time_zone_refused:
  assumes "string_util D"
  shows "to_logical_type D ''timestamp with time zone''
    = Inl (InvalidInputException ''Unexpected trailing characters'' [''timestamp with time zone''])"
  by (simp add: to_logical_type_def parse_fuel_def read_identifier_def skip_whitespace_def
      identifier_char_def string_util.CharacterIsSpace [OF assms] string_util.Lower [OF assms]
      ascii_space_def ascii_lower_def parse_scalar_def)

lemma timestamp_with_time_zone_refused_witness:
  "to_logical_type ascii_duckdb ''timestamp with time zone''
    = Inl (InvalidInputException ''Unexpected trailing characters'' [''timestamp with time zone''])"
  by (rule timestamp_with_time_zone_refused [OF ascii_ok])

end
