(* ===== verification/Hive_Location.thy ===== *)
theory Hive_Location
  imports Glue_Types
begin

text \<open>
  src/core/hive_location.cpp and src/core/helpers.cpp: locations as they are compared, the test
  whether two locations overlap, the directory of a partition, and the two parsing helpers.
  A DuckDB \<open>Path\<close> is the list of its components.
\<close>

subsection \<open>Locations\<close>

definition comparable_location :: "duckdb \<Rightarrow> string \<Rightarrow> string" where
  "comparable_location D location =
     (let result = RTrimChars D location ''/''; scheme = Lower D (take 6 result) in
      if scheme = ''s3a://'' \<or> scheme = ''s3n://'' then ''s3://'' @ drop 6 result
      else if Lower D (take 5 result) = ''s3://'' then ''s3://'' @ drop 5 result
      else result)"

definition locations_overlap :: "duckdb \<Rightarrow> string \<Rightarrow> string \<Rightarrow> bool" where
  "locations_overlap D a b \<longleftrightarrow> a = b \<or> StartsWith D a (b @ ''/'') \<or> StartsWith D b (a @ ''/'')"

text \<open>The assertion that there is one value per key is the caller's contract; \<open>zip\<close> reads both.\<close>

definition hive_partition_directory :: "duckdb \<Rightarrow> string list \<Rightarrow> string list \<Rightarrow> string list" where
  "hive_partition_directory D keys values =
     map (\<lambda>(key, value).
       HiveEscape D key @ ''='' @
         (if value = DEFAULT_PARTITION_NAME D then value else HiveEscapeValue D value))
     (zip keys values)"

subsection \<open>Helpers\<close>

text \<open>\<open>TryParseInteger\<close>: the value, \<open>None\<close> where the code returns false.\<close>

definition try_parse_integer :: "duckdb \<Rightarrow> string \<Rightarrow> int \<Rightarrow> int \<Rightarrow> int option" where
  "try_parse_integer D value lo hi =
     (if value = [] then None
      else case TryCastAs D BIGINT (StringV value) of
             Some (IntV t i) \<Rightarrow> if lo \<le> i \<and> i \<le> hi then Some i else None
           | _ \<Rightarrow> None)"

definition try_first_character :: "duckdb \<Rightarrow> string \<Rightarrow> string option" where
  "try_first_character D value =
     (if value = [] then None
      else case Utf8FirstLength D value of
             None \<Rightarrow> None | Some n \<Rightarrow> Some (take n value))"

lemma try_parse_integer_bounds: "try_parse_integer D s lo hi = Some i \<Longrightarrow> lo \<le> i \<and> i \<le> hi"
  by (auto simp: try_parse_integer_def split: if_splits option.splits Value.splits)

subsection \<open>Locations name directories\<close>

text \<open>
  The path of a location: its components between the slashes. Two locations overlap exactly
  when one path leads to or through the other's.
\<close>

fun components :: "string \<Rightarrow> string list" where
  "components [] = [[]]"
| "components (c # s) = (if c = CHR ''/'' then [] # components s
                         else (c # hd (components s)) # tl (components s))"

lemma components_ne [simp]: "components s \<noteq> []"
  by (cases s) auto

lemma components_ne' [simp]: "[] \<noteq> components s"
  by (metis components_ne)

lemma components_append: "components (a @ CHR ''/'' # b) = components a @ components b"
  by (induction a) (auto simp: tl_append split: list.split)

lemma components_inject: "components a = components b \<Longrightarrow> a = b"
proof (induction a arbitrary: b)
  case Nil
  then show ?case by (cases b) (auto split: if_splits)
next
  case (Cons c a)
  then show ?case
    by (cases b) (auto split: if_splits dest!: Cons.IH,
        (metis Cons.IH components_ne list.collapse)+)
qed

lemma components_split:
  "components a = xs @ ys \<Longrightarrow> xs \<noteq> [] \<Longrightarrow> ys \<noteq> []
    \<Longrightarrow> \<exists>u v. a = u @ CHR ''/'' # v \<and> components u = xs \<and> components v = ys"
proof (induction a arbitrary: xs)
  case Nil
  then show ?case by (auto simp: Cons_eq_append_conv)
next
  case (Cons c a)
  show ?case
  proof (cases "c = CHR ''/''")
    case True
    show ?thesis
    proof (cases "tl xs = []")
      case True
      with Cons.prems \<open>c = CHR ''/''\<close> have "xs = [[]]" "components a = ys"
        by (auto simp: Cons_eq_append_conv)
      then show ?thesis
        using \<open>c = CHR ''/''\<close> by (intro exI [of _ "[]"] exI [of _ a]) simp
    next
      case False
      with Cons.prems \<open>c = CHR ''/''\<close> have "components a = tl xs @ ys" "xs = [] # tl xs"
        by (auto simp: Cons_eq_append_conv)
      with Cons.IH [of "tl xs"] False Cons.prems(3) obtain u v
        where "a = u @ CHR ''/'' # v" "components u = tl xs" "components v = ys" by auto
      with \<open>c = CHR ''/''\<close> \<open>xs = [] # tl xs\<close> show ?thesis
        by (intro exI [of _ "c # u"] exI [of _ v]) auto
    qed
  next
    case False
    from Cons.prems(1,2) False obtain x xs' where xs: "xs = (c # x) # xs'"
      and a: "components a = (x # xs') @ ys"
      by (cases xs) (auto simp: Cons_eq_append_conv,
          metis components_ne list.collapse)
    with Cons.IH [OF a] Cons.prems(3) obtain u v
      where "a = u @ CHR ''/'' # v" "components u = x # xs'" "components v = ys" by auto
    with False xs show ?thesis
      by (intro exI [of _ "c # u"] exI [of _ v]) auto
  qed
qed

lemma prefix_components_iff:
  "prefix (components b) (components a) \<longleftrightarrow> a = b \<or> prefix (b @ ''/'') a"
proof
  assume "prefix (components b) (components a)"
  then obtain ys where ys: "components a = components b @ ys" by (auto simp: prefix_def)
  show "a = b \<or> prefix (b @ ''/'') a"
  proof (cases "ys = []")
    case True
    with ys show ?thesis by (auto dest: components_inject)
  next
    case False
    with components_split [OF ys] show ?thesis
      by (auto simp: prefix_def dest!: components_inject)
  qed
next
  assume "a = b \<or> prefix (b @ ''/'') a"
  then show "prefix (components b) (components a)"
    by (auto simp: prefix_def components_append)
qed

context string_util
begin

lemma locations_overlap_components:
  "locations_overlap D a b \<longleftrightarrow>
     prefix (components a) (components b) \<or> prefix (components b) (components a)"
  by (auto simp: locations_overlap_def StartsWith prefix_components_iff)

lemma RTrimChars_slash: "RTrimChars D s ''/'' = [] \<or> last (RTrimChars D s ''/'') \<noteq> CHR ''/''"
  using hd_dropWhile [of "\<lambda>c. c = CHR ''/''" "rev s"]
  by (auto simp: RTrimChars last_rev)

lemma RTrimChars_id: "s = [] \<or> last s \<noteq> CHR ''/'' \<Longrightarrow> RTrimChars D s ''/'' = s"
  by (cases s rule: rev_cases) (auto simp: RTrimChars)

end

text \<open>
  Two locations overlap for \<open>LocationsOverlap\<close> exactly when, read as paths, one leads to or
  through the other; a location whose last component merely starts with another's
  (\<open>/t/a\<close> and \<open>/t/ab\<close>) does not overlap it.
\<close>

theorem locations_overlap_is_path_prefix:
  assumes "string_util D"
  shows "locations_overlap D a b \<longleftrightarrow>
    prefix (components a) (components b) \<or> prefix (components b) (components a)"
  using assms by (rule string_util.locations_overlap_components)

lemma locations_overlap_is_path_prefix_witness:
  "\<not> locations_overlap ascii_duckdb ''/t/a'' ''/t/ab''"
  by (simp add: locations_overlap_is_path_prefix [OF ascii_ok])

text \<open>
  \<open>ComparableLocation\<close> gives one spelling to the spellings of an S3 location: the schemes
  \<open>s3\<close>, \<open>s3a\<close> and \<open>s3n\<close> in any case, with any number of trailing slashes, all become
  \<open>s3://\<close> and the path, case kept, without trailing slashes.
\<close>

theorem comparable_location_s3:
  assumes "string_util D"
    and scheme: "Lower D scheme \<in> {''s3://'', ''s3a://'', ''s3n://''}"
    and path: "path \<noteq> []" "last path \<noteq> CHR ''/''"
  shows "comparable_location D (scheme @ path @ replicate n CHR ''/'') = ''s3://'' @ path"
proof -
  have trim: "RTrimChars D (scheme @ path @ replicate n CHR ''/'') ''/'' = scheme @ path"
    using path string_util.RTrimChars [OF assms(1)]
    by (cases path rule: rev_cases) (simp_all add: dropWhile_append)
  have app: "Lower D (a @ b) = Lower D a @ Lower D b" for a b
    by (rule string_util.Lower_append [OF assms(1)])
  have len: "length (Lower D a) = length a" for a
    by (rule string_util.length_Lower [OF assms(1)])
  from scheme consider "Lower D scheme = ''s3://''" "length scheme = 5"
    | "Lower D scheme = ''s3a://''" "length scheme = 6"
    | "Lower D scheme = ''s3n://''" "length scheme = 6"
    using len [of scheme] by force
  then show ?thesis
    by cases (auto simp: comparable_location_def trim app Let_def)
qed

lemma comparable_location_s3_witness:
  "comparable_location ascii_duckdb ''S3A://bucket/Key//'' = ''s3://bucket/Key''"
proof -
  have "comparable_location ascii_duckdb
      (''S3A://'' @ ''bucket/Key'' @ replicate 2 CHR ''/'') = ''s3://'' @ ''bucket/Key''"
    by (rule comparable_location_s3 [OF ascii_ok]) code_simp+
  then show ?thesis by (simp add: numeral_2_eq_2)
qed

end
