(* ===== verification/Aws_Model.thy ===== *)
theory Aws_Model
  imports Prelude
begin

text \<open>
  The data of the AWS SDK for Glue as far as the extension reads or writes it. A member the
  sources ask \<open>HasBeenSet\<close> of is an option; one they only get is its value, the default when it is
  not set. \<open>sd_other\<close> stands for the members of a StorageDescriptor the sources never name, which
  copying the descriptor carries along.
\<close>

record aws_column =
  ac_name :: string
  ac_type :: string
  ac_comment :: string
  ac_parameters :: properties

record storage_descriptor =
  sd_location :: string
  sd_input_format :: string
  sd_output_format :: string
  sd_serde_library :: string
  sd_serde_parameters :: properties
  sd_columns :: "aws_column list"
  sd_bucket_columns :: "string list"
  sd_number_of_buckets :: "int option"
  sd_sort_columns :: "(string \<times> int) list"
  sd_compressed :: bool
  sd_other :: string

definition empty_descriptor :: storage_descriptor where
  "empty_descriptor = \<lparr> sd_location = [], sd_input_format = [], sd_output_format = [],
     sd_serde_library = [], sd_serde_parameters = [], sd_columns = [], sd_bucket_columns = [],
     sd_number_of_buckets = None, sd_sort_columns = [], sd_compressed = False, sd_other = [] \<rparr>"

record aws_table =
  tb_name :: string
  tb_database_name :: string
  tb_description :: "string option"
  tb_owner :: "string option"
  tb_last_access_time :: "int option"
  tb_last_analyzed_time :: "int option"
  tb_retention :: "int option"
  tb_storage_descriptor :: storage_descriptor
  tb_partition_keys :: "aws_column list option"
  tb_view_original_text :: "string option"
  tb_view_expanded_text :: "string option"
  tb_table_type :: "string option"
  tb_parameters :: "properties option"
  tb_target_table :: "string option"
  tb_version_id :: "string option"
  tb_create_time :: "int option"

text \<open>The members of a TableInput, each unset until it is assigned.\<close>

record table_input =
  ti_name :: string
  ti_description :: "string option"
  ti_owner :: "string option"
  ti_last_access_time :: "int option"
  ti_last_analyzed_time :: "int option"
  ti_retention :: "int option"
  ti_storage_descriptor :: storage_descriptor
  ti_partition_keys :: "aws_column list option"
  ti_view_original_text :: "string option"
  ti_view_expanded_text :: "string option"
  ti_table_type :: "string option"
  ti_parameters :: "properties option"
  ti_target_table :: "string option"

definition empty_table_input :: table_input where
  "empty_table_input = \<lparr> ti_name = [], ti_description = None, ti_owner = None,
     ti_last_access_time = None, ti_last_analyzed_time = None, ti_retention = None,
     ti_storage_descriptor = empty_descriptor, ti_partition_keys = None,
     ti_view_original_text = None, ti_view_expanded_text = None, ti_table_type = None,
     ti_parameters = None, ti_target_table = None \<rparr>"

record aws_database =
  db_name :: string
  db_catalog_id :: "string option"
  db_description :: string
  db_location_uri :: string
  db_parameters :: properties
  db_target_database :: "string option"
  db_create_table_default_permissions :: "string option"
  db_federated_database :: "string option"

record database_input =
  di_name :: string
  di_description :: "string option"
  di_location_uri :: "string option"
  di_parameters :: "properties option"
  di_target_database :: "string option"
  di_create_table_default_permissions :: "string option"
  di_federated_database :: "string option"

record aws_partition =
  pt_values :: "string list"
  pt_storage_descriptor :: storage_descriptor
  pt_parameters :: properties

record partition_input =
  pi_values :: "string list"
  pi_storage_descriptor :: storage_descriptor
  pi_parameters :: "properties option"

definition opt_string :: "string option \<Rightarrow> string" where
  "opt_string o' = (case o' of None \<Rightarrow> [] | Some s \<Rightarrow> s)"

definition opt_list :: "'a list option \<Rightarrow> 'a list" where
  "opt_list o' = (case o' of None \<Rightarrow> [] | Some s \<Rightarrow> s)"

end
