(* ===== verification/Glue_Info.thy ===== *)
theory Glue_Info
  imports Hive_Location Aws_Model "HOL-Library.Char_ord" "HOL-Library.List_Lexorder"
begin

text \<open>
  src/core/glue_info.cpp with its header, src/core/readers/hive_csv_options.cpp and
  src/core/readers/hive_json_options.cpp: a Glue table and partition as the extension holds them,
  and what its properties say about how the files are read and written.
\<close>

subsection \<open>Data\<close>

datatype GlueSortOrder = UNSORTED | ASCENDING | DESCENDING

record GlueColumn =
  col_name :: string
  col_type :: string
  col_comment :: string
  col_sort_order :: GlueSortOrder

record GlueDatabaseInfo =
  d_catalog_id :: string
  d_is_resource_link :: bool
  d_name :: string
  d_description :: string
  d_location_uri :: string
  d_parameters :: properties

datatype HiveFileFormat = PARQUET | CSV | JSON | AVRO

datatype HiveSerDe = SERDE_PARQUET | LAZY_SIMPLE | OPEN_CSV | HIVE_JSON | OPENX_JSON | SERDE_AVRO

datatype GlueTableType = EXTERNAL_TABLE | VIRTUAL_VIEW | OTHER

record GlueTableInfo =
  t_name :: string
  t_schema_name :: string
  t_glue_database_name :: string
  t_glue_table_type :: string
  t_table_type :: GlueTableType
  t_view_original_text :: string
  t_view_expanded_text :: string
  t_description :: string
  t_location :: string
  t_input_format :: string
  t_output_format :: string
  t_serde_library :: string
  t_serde_parameters :: properties
  t_columns :: "GlueColumn list"
  t_partition_keys :: "GlueColumn list"
  t_bucket_columns :: "string list"
  t_number_of_buckets :: int
  t_sort_columns :: "GlueColumn list"
  t_parameters :: properties
  t_version_id :: string
  t_create_time_ms :: int
  t_file_format :: HiveFileFormat
  t_fetched :: "aws_table option"

text \<open>A default constructed \<open>GlueTableInfo\<close> and \<open>GlueColumn\<close>.\<close>

definition new_table :: GlueTableInfo where
  "new_table = \<lparr> t_name = [], t_schema_name = [], t_glue_database_name = [],
     t_glue_table_type = [], t_table_type = OTHER, t_view_original_text = [],
     t_view_expanded_text = [], t_description = [], t_location = [], t_input_format = [],
     t_output_format = [], t_serde_library = [], t_serde_parameters = [], t_columns = [],
     t_partition_keys = [], t_bucket_columns = [], t_number_of_buckets = -1, t_sort_columns = [],
     t_parameters = [], t_version_id = [], t_create_time_ms = 0, t_file_format = PARQUET,
     t_fetched = None \<rparr>"

definition new_column :: GlueColumn where
  "new_column = \<lparr> col_name = [], col_type = [], col_comment = [], col_sort_order = UNSORTED \<rparr>"

record GlueViewInfo =
  v_database_name :: string
  v_name :: string
  v_sql :: string
  v_expanded_sql :: string
  v_columns :: "GlueColumn list"
  v_secure :: bool
  v_has_column_alias_list :: bool

record GluePartitionInput =
  gpi_values :: "string list"
  gpi_location :: string

record GluePartitionInfo =
  p_values :: "string list"
  p_location :: string
  p_input_format :: string
  p_serde_library :: string
  p_serde_parameters :: properties
  p_partition_columns :: "GlueColumn list"

record GluePartitionDetails = GluePartitionInfo +
  p_parameters :: properties
  p_fetched :: "aws_partition option"

subsection \<open>Formats, SerDes and parameters\<close>

definition get_parameter :: "duckdb \<Rightarrow> GlueTableInfo \<Rightarrow> string \<Rightarrow> string" where
  "get_parameter D t key =
     (case find (\<lambda>e. CIEquals D (fst e) key) (t_parameters t) of
        None \<Rightarrow> [] | Some e \<Rightarrow> snd e)"

fun hive_file_format_to_string :: "HiveFileFormat \<Rightarrow> string" where
  "hive_file_format_to_string PARQUET = ''parquet''"
| "hive_file_format_to_string CSV = ''csv''"
| "hive_file_format_to_string JSON = ''json''"
| "hive_file_format_to_string AVRO = ''avro''"

definition is_text_file_format :: "HiveFileFormat \<Rightarrow> bool" where
  "is_text_file_format f \<longleftrightarrow> f = CSV \<or> f = JSON"

definition hive_file_format_from_string :: "duckdb \<Rightarrow> string \<Rightarrow> HiveFileFormat result" where
  "hive_file_format_from_string D s =
     (let lower = Lower D s in
      if lower = ''parquet'' then Inr PARQUET
      else if lower = ''csv'' then Inr CSV
      else if lower = ''json'' then Inr JSON
      else if lower = ''avro'' then Inr AVRO
      else Inl (BinderException ''Unknown Hive file format'' [s]))"

definition is_bucketed :: "GlueTableInfo \<Rightarrow> bool" where
  "is_bucketed t \<longleftrightarrow> t_bucket_columns t \<noteq> []"

definition is_partition_projected :: "duckdb \<Rightarrow> GlueTableInfo \<Rightarrow> bool" where
  "is_partition_projected D t \<longleftrightarrow>
     t_partition_keys t \<noteq> [] \<and>
     CIEquals D (Trim D (get_parameter D t ''projection.enabled'')) ''true''"

fun describe_sort_order :: "GlueSortOrder \<Rightarrow> string" where
  "describe_sort_order ASCENDING = ''ASC''"
| "describe_sort_order DESCENDING = ''DESC''"
| "describe_sort_order UNSORTED = []"

definition describe_bucketing :: "duckdb \<Rightarrow> GlueTableInfo \<Rightarrow> string" where
  "describe_bucketing D t =
     ''clustered by ('' @ Join D (t_bucket_columns t) '', '' @ '')'' @
     (if t_number_of_buckets t > 0
      then '' into '' @ FormatInt D (t_number_of_buckets t) @ '' buckets'' else []) @
     (if t_sort_columns t \<noteq> []
      then '', sorted by ('' @
        Join D (map (\<lambda>c. col_name c @ '' '' @ describe_sort_order (col_sort_order c))
                 (t_sort_columns t)) '', '' @ '')'' else [])"

fun hive_serde_file_format :: "HiveSerDe \<Rightarrow> HiveFileFormat" where
  "hive_serde_file_format SERDE_PARQUET = PARQUET"
| "hive_serde_file_format LAZY_SIMPLE = CSV"
| "hive_serde_file_format OPEN_CSV = CSV"
| "hive_serde_file_format HIVE_JSON = JSON"
| "hive_serde_file_format OPENX_JSON = JSON"
| "hive_serde_file_format SERDE_AVRO = AVRO"

definition get_serde :: "duckdb \<Rightarrow> GlueTableInfo \<Rightarrow> HiveSerDe result" where
  "get_serde D t =
     (let serde = Lower D (t_serde_library t) in
      if Contains D serde ''parquet'' then Inr SERDE_PARQUET
      else if Contains D serde ''lazysimpleserde'' then Inr LAZY_SIMPLE
      else if Contains D serde ''opencsvserde'' then Inr OPEN_CSV
      else if Contains D serde ''openx'' then Inr OPENX_JSON
      else if Contains D serde ''json'' then Inr HIVE_JSON
      else if Contains D serde ''avro'' then Inr SERDE_AVRO
      else Inl (NotImplementedException ''Hive table uses SerDe''
                  [t_schema_name t, t_name t, t_serde_library t]))"

definition get_file_format :: "duckdb \<Rightarrow> GlueTableInfo \<Rightarrow> HiveFileFormat result" where
  "get_file_format D t = and_then (get_serde D t) (\<lambda>s. Inr (hive_serde_file_format s))"

definition try_get_property :: "GlueTableInfo \<Rightarrow> string \<Rightarrow> string option" where
  "try_get_property t key =
     (case map_of (t_parameters t) key of
        Some v \<Rightarrow> Some v | None \<Rightarrow> map_of (t_serde_parameters t) key)"

subsection \<open>Text files\<close>

definition get_open_csv_character ::
  "duckdb \<Rightarrow> GlueTableInfo \<Rightarrow> string \<Rightarrow> string \<Rightarrow> string result" where
  "get_open_csv_character D t key fallback =
     (case try_get_property t key of
        None \<Rightarrow> Inr fallback
      | Some value \<Rightarrow>
          if value = [] then Inr fallback
          else case try_first_character D value of
                 None \<Rightarrow> Inl (InvalidInputException ''Hive table has an invalid character property''
                                [t_schema_name t, t_name t, key, value])
               | Some c \<Rightarrow> Inr c)"

text \<open>\<open>number & 0xFF\<close> of a number from -128 to 127 is its remainder modulo 256.\<close>

definition lazy_simple_separator :: "duckdb \<Rightarrow> GlueTableInfo \<Rightarrow> string \<Rightarrow> string result" where
  "lazy_simple_separator D t value =
     (if value = [] then Inr [CHR 0x01]
      else
        let separator = (case try_parse_integer D value (-128) 127 of
                           Some number \<Rightarrow> nat (number mod 256)
                         | None \<Rightarrow> of_char (hd value)) in
        if separator = 0 \<or> separator = 10 \<or> separator = 13 \<or> separator \<ge> 128
        then Inl (NotImplementedException ''Hive table has the field delimiter''
                    [t_schema_name t, t_name t, value])
        else Inr [char_of separator])"

definition get_field_delimiter :: "duckdb \<Rightarrow> GlueTableInfo \<Rightarrow> string result" where
  "get_field_delimiter D t =
     and_then (get_serde D t) (\<lambda>serde.
       if serde = OPEN_CSV then get_open_csv_character D t ''separatorChar'' '',''
       else lazy_simple_separator D t
         (case try_get_property t ''field.delim'' of
            Some delimiter \<Rightarrow> delimiter
          | None \<Rightarrow> (case try_get_property t ''serialization.format'' of
              Some delimiter \<Rightarrow> delimiter | None \<Rightarrow> [])))"

definition get_null_format :: "duckdb \<Rightarrow> GlueTableInfo \<Rightarrow> string result" where
  "get_null_format D t =
     and_then (get_serde D t) (\<lambda>serde.
       if serde = OPEN_CSV then Inr []
       else Inr (case try_get_property t ''serialization.null.format'' of
                   Some null_format \<Rightarrow> null_format | None \<Rightarrow> [CHR 0x5C, CHR ''N'']))"

definition get_count_property :: "duckdb \<Rightarrow> GlueTableInfo \<Rightarrow> string \<Rightarrow> nat result" where
  "get_count_property D t key =
     (case try_get_property t key of
        None \<Rightarrow> Inr 0
      | Some value \<Rightarrow>
          if value = [] then Inr 0
          else case try_parse_integer D value 0 (2 ^ 31 - 1) of
                 None \<Rightarrow> Inl (InvalidInputException ''Hive table has an invalid count property''
                                [t_schema_name t, t_name t, key, value])
               | Some count \<Rightarrow> Inr (nat count))"

definition get_header_line_count :: "duckdb \<Rightarrow> GlueTableInfo \<Rightarrow> nat result" where
  "get_header_line_count D t = get_count_property D t ''skip.header.line.count''"

definition get_quote_character :: "duckdb \<Rightarrow> GlueTableInfo \<Rightarrow> string result" where
  "get_quote_character D t =
     and_then (get_serde D t) (\<lambda>serde.
       if serde = OPEN_CSV then get_open_csv_character D t ''quoteChar'' [CHR 0x22] else Inr [])"

definition get_escape_character :: "duckdb \<Rightarrow> GlueTableInfo \<Rightarrow> string result" where
  "get_escape_character D t =
     and_then (get_serde D t) (\<lambda>serde.
       if serde = OPEN_CSV
       then and_then (get_quote_character D t) (get_open_csv_character D t ''escapeChar'')
       else Inr (case try_get_property t ''escape.delim'' of Some e \<Rightarrow> e | None \<Rightarrow> []))"

definition refuse_text :: "GlueTableInfo \<Rightarrow> string \<Rightarrow> string list \<Rightarrow> exn" where
  "refuse_text t what args =
     NotImplementedException what ([t_schema_name t, t_name t] @ args)"

definition property_is_true :: "duckdb \<Rightarrow> GlueTableInfo \<Rightarrow> string \<Rightarrow> bool" where
  "property_is_true D t key \<longleftrightarrow>
     (case try_get_property t key of None \<Rightarrow> False | Some v \<Rightarrow> CIEquals D v ''true'')"

definition check_text_serde_supported :: "duckdb \<Rightarrow> GlueTableInfo \<Rightarrow> HiveFileFormat \<Rightarrow> unit result" where
  "check_text_serde_supported D t format =
     and_then (get_count_property D t ''skip.footer.line.count'') (\<lambda>footer.
     and_then (check (\<not> footer > 0) (refuse_text t ''has skip.footer.line.count set'' [])) (\<lambda>_.
     if format = JSON then
       and_then (get_header_line_count D t) (\<lambda>header.
         check (\<not> header > 0) (refuse_text t ''has skip.header.line.count set on JSON files'' []))
     else
       and_then (check_each (\<lambda>c. check (find_char CHR ''<'' (col_type c) = None)
           (refuse_text t ''has the nested column'' [col_name c, col_type c])) (t_columns t)) (\<lambda>_.
       and_then (get_serde D t) (\<lambda>serde.
       if serde = OPEN_CSV then
         and_then (get_quote_character D t) (\<lambda>quote.
         and_then (check (\<not> length quote > 1)
           (refuse_text t ''has a quoteChar or escapeChar of more than one byte'' [])) (\<lambda>_.
         and_then (get_escape_character D t) (\<lambda>escape.
           check (\<not> length escape > 1)
             (refuse_text t ''has a quoteChar or escapeChar of more than one byte'' []))))
       else
         and_then (get_escape_character D t) (\<lambda>escape.
         and_then (check (\<not> length escape > 1)
           (refuse_text t ''has an escape.delim of more than one byte'' [])) (\<lambda>_.
         and_then (get_field_delimiter D t) (\<lambda>delimiter.
         and_then (check (escape \<noteq> delimiter)
           (refuse_text t ''has its field delimiter as escape.delim'' [])) (\<lambda>_.
         and_then (check (\<not> property_is_true D t ''serialization.escape.crlf'')
           (refuse_text t ''has serialization.escape.crlf set'' [])) (\<lambda>_.
         and_then (case try_get_property t ''serialization.encoding'' of
             None \<Rightarrow> Inr ()
           | Some v \<Rightarrow> check (CIEquals D v ''UTF-8'' \<or> CIEquals D v ''UTF8'')
               (refuse_text t ''has the serialization.encoding'' [v])) (\<lambda>_.
         and_then (check (\<not> property_is_true D t ''serialization.last.column.takes.rest'')
           (refuse_text t ''has serialization.last.column.takes.rest set'' [])) (\<lambda>_.
         and_then (get_null_format D t) (\<lambda>null_format.
           check (\<not> Contains D null_format delimiter)
             (refuse_text t ''has the field delimiter in its NULL string''
                [delimiter, null_format])))))))))))))"

subsection \<open>Codecs\<close>

definition get_codec_parameter :: "duckdb \<Rightarrow> GlueTableInfo \<Rightarrow> string \<Rightarrow> string" where
  "get_codec_parameter D t key =
     (let codec = get_parameter D t key in
      if codec = [] then get_parameter D t ''write_compression'' else codec)"

definition get_text_compression :: "duckdb \<Rightarrow> GlueTableInfo \<Rightarrow> FileCompressionType result" where
  "get_text_compression D t =
     (let codec0 = get_codec_parameter D t ''write.compression'';
          codec = (if codec0 = [] then get_parameter D t ''compressionType'' else codec0) in
      if codec = [] then Inr AUTO_DETECT
      else and_then (CompressionFromString D codec) (\<lambda>compression.
        if IsCompressed D compression \<and> compression \<noteq> GZIP \<and> compression \<noteq> ZSTD
        then Inl (NotImplementedException ''Can not write to Hive table: it records compression''
                    [t_schema_name t, t_name t, CompressionToString D compression])
        else Inr compression))"

definition get_codec :: "duckdb \<Rightarrow> GlueTableInfo \<Rightarrow> HiveFileFormat \<Rightarrow> string result" where
  "get_codec D t format =
     (case format of
        PARQUET \<Rightarrow>
          (let codec = Lower D (get_codec_parameter D t ''parquet.compression'') in
           Inr (if codec = ''none'' then ''uncompressed'' else codec))
      | AVRO \<Rightarrow>
          (let codec = Lower D (get_codec_parameter D t ''avro.output.codec'') in
           if codec = ''none'' \<or> codec = ''uncompressed'' then Inr ''null''
           else if codec \<noteq> [] \<and> codec \<noteq> ''snappy'' \<and> codec \<noteq> ''deflate'' \<and> codec \<noteq> ''null''
           then Inl (NotImplementedException ''Can not write to Hive table: it records compression''
                       [t_schema_name t, t_name t, codec])
           else Inr codec)
      | _ \<Rightarrow> and_then (get_text_compression D t) (\<lambda>compression.
               Inr (if IsCompressed D compression then CompressionToString D compression else [])))"

definition get_compression_level :: "duckdb \<Rightarrow> GlueTableInfo \<Rightarrow> string" where
  "get_compression_level D t = get_parameter D t ''compression_level''"

subsection \<open>Options of the csv reader\<close>

datatype HiveFieldConversion = NONE | CAST | TRY_CAST | FALSE_UNLESS_TRUE | EPOCH | TRY_EPOCH

record HiveCSVOptions =
  delimiter :: string
  quote :: string
  escape :: string
  skip_lines :: nat
  null_string :: string
  serde_fields :: bool
  null_for_invalid_data :: bool
  false_unless_true :: bool
  field_escape :: string
  epoch_fields :: bool

definition field_conversion :: "duckdb \<Rightarrow> HiveCSVOptions \<Rightarrow> LogicalType \<Rightarrow> HiveFieldConversion" where
  "field_conversion D opts t =
     (if TypeEq D t VARCHAR then NONE
      else if false_unless_true opts \<and> type_id t = ID_BOOLEAN then FALSE_UNLESS_TRUE
      else if epoch_fields opts \<and> (TypeEq D t TIMESTAMP \<or> TypeEq D t DATE)
      then (if null_for_invalid_data opts then TRY_EPOCH else EPOCH)
      else (if null_for_invalid_data opts then TRY_CAST else CAST))"

definition field_escape_pattern :: "duckdb \<Rightarrow> HiveCSVOptions \<Rightarrow> string" where
  "field_escape_pattern D opts =
     QuoteMeta D (field_escape opts) @ ''(['' @ QuoteMeta D (field_escape opts) @
     QuoteMeta D (quote opts) @ ''])?''"

definition csv_options_eq :: "HiveCSVOptions \<Rightarrow> HiveCSVOptions \<Rightarrow> bool" where
  "csv_options_eq a b \<longleftrightarrow>
     delimiter a = delimiter b \<and> quote a = quote b \<and> escape a = escape b \<and>
     skip_lines a = skip_lines b \<and> null_string a = null_string b \<and>
     serde_fields a = serde_fields b \<and> null_for_invalid_data a = null_for_invalid_data b \<and>
     false_unless_true a = false_unless_true b \<and> field_escape a = field_escape b \<and>
     epoch_fields a = epoch_fields b"

definition get_csv_options :: "duckdb \<Rightarrow> GlueTableInfo \<Rightarrow> HiveCSVOptions result" where
  "get_csv_options D t =
     and_then (get_field_delimiter D t) (\<lambda>delim.
     and_then (get_quote_character D t) (\<lambda>quot.
     and_then (get_escape_character D t) (\<lambda>esc.
     and_then (get_header_line_count D t) (\<lambda>header.
     and_then (get_serde D t) (\<lambda>serde.
     and_then (if serde = OPEN_CSV then Inr [CHR 0x0A] else get_null_format D t) (\<lambda>null.
       let escape_set = (case try_get_property t ''escapeChar'' of None \<Rightarrow> False | Some e \<Rightarrow> e \<noteq> []) in
       Inr \<lparr> delimiter = delim, quote = quot, escape = esc, skip_lines = header, null_string = null,
             serde_fields = True,
             null_for_invalid_data =
               (serde \<noteq> OPEN_CSV \<or> property_is_true D t ''use.null.for.invalid.data''),
             false_unless_true = (serde = OPEN_CSV),
             field_escape = (if serde = OPEN_CSV \<and> \<not> escape_set \<and> delim \<noteq> [CHR 0x5C]
                               \<and> quot \<noteq> [CHR 0x5C] then [CHR 0x5C] else []),
             epoch_fields = (serde = OPEN_CSV) \<rparr>))))))"

subsection \<open>Options of the json reader\<close>

datatype JsonSerDePropertyEffect =
    IGNORE_ERRORS_IF_TRUE | EXACT_KEYS_IF_FALSE | NOT_APPLIED_IF_TRUE | NOT_APPLIED_IF_SET

record JsonSerDeProperty =
  jp_serde :: HiveSerDe
  jp_name :: string
  jp_is_prefix :: bool
  jp_effect :: JsonSerDePropertyEffect

definition JSON_SERDE_PROPERTIES :: "JsonSerDeProperty list" where
  "JSON_SERDE_PROPERTIES =
    [\<lparr>jp_serde = OPENX_JSON, jp_name = ''ignore.malformed.json'', jp_is_prefix = False,
      jp_effect = IGNORE_ERRORS_IF_TRUE\<rparr>,
     \<lparr>jp_serde = OPENX_JSON, jp_name = ''use.null.for.invalid.data'', jp_is_prefix = False,
      jp_effect = IGNORE_ERRORS_IF_TRUE\<rparr>,
     \<lparr>jp_serde = OPENX_JSON, jp_name = ''case.insensitive'', jp_is_prefix = False,
      jp_effect = EXACT_KEYS_IF_FALSE\<rparr>,
     \<lparr>jp_serde = OPENX_JSON, jp_name = ''mapping.'', jp_is_prefix = True,
      jp_effect = NOT_APPLIED_IF_SET\<rparr>,
     \<lparr>jp_serde = OPENX_JSON, jp_name = ''dots.in.keys'', jp_is_prefix = False,
      jp_effect = NOT_APPLIED_IF_TRUE\<rparr>,
     \<lparr>jp_serde = HIVE_JSON, jp_name = ''timestamp.formats'', jp_is_prefix = False,
      jp_effect = NOT_APPLIED_IF_SET\<rparr>]"

text \<open>\<open>PropertyKeys\<close>: a \<open>std::set\<close>, its keys in order.\<close>

definition property_keys :: "duckdb \<Rightarrow> GlueTableInfo \<Rightarrow> JsonSerDeProperty \<Rightarrow> string list" where
  "property_keys D t property =
     (if \<not> jp_is_prefix property then [jp_name property]
      else sort (remdups (filter (\<lambda>key. StartsWith D key (jp_name property))
             (map fst (t_parameters t) @ map fst (t_serde_parameters t)))))"

record HiveJSONOptions =
  ignore_errors :: bool
  case_insensitive_keys :: bool
  unsupported_properties :: "string list"

definition new_json_options :: HiveJSONOptions where
  "new_json_options =
     \<lparr> ignore_errors = False, case_insensitive_keys = True, unsupported_properties = [] \<rparr>"

definition apply_json_property ::
  "duckdb \<Rightarrow> GlueTableInfo \<Rightarrow> JsonSerDePropertyEffect \<Rightarrow> HiveJSONOptions \<Rightarrow> string \<Rightarrow> HiveJSONOptions" where
  "apply_json_property D t effect res key =
     (case try_get_property t key of
        None \<Rightarrow> res
      | Some value \<Rightarrow>
          let is_true = CIEquals D value ''true'' in
          (case effect of
             IGNORE_ERRORS_IF_TRUE \<Rightarrow> res\<lparr>ignore_errors := ignore_errors res \<or> is_true\<rparr>
           | EXACT_KEYS_IF_FALSE \<Rightarrow>
               if CIEquals D value ''false'' then res\<lparr>case_insensitive_keys := False\<rparr> else res
           | NOT_APPLIED_IF_TRUE \<Rightarrow>
               if is_true then res\<lparr>unsupported_properties := unsupported_properties res @ [key]\<rparr>
               else res
           | NOT_APPLIED_IF_SET \<Rightarrow>
               if value \<noteq> [] then res\<lparr>unsupported_properties := unsupported_properties res @ [key]\<rparr>
               else res))"

definition get_json_options :: "duckdb \<Rightarrow> GlueTableInfo \<Rightarrow> HiveJSONOptions result" where
  "get_json_options D t =
     and_then (get_serde D t) (\<lambda>serde.
       let res = foldl (\<lambda>res property.
             if jp_serde property \<noteq> serde then res
             else foldl (apply_json_property D t (jp_effect property)) res
                    (property_keys D t property))
           new_json_options JSON_SERDE_PROPERTIES in
       Inr (res\<lparr>unsupported_properties := sort (unsupported_properties res)\<rparr>))"

subsection \<open>Versions and partition columns\<close>

definition glue_table_type_from_string :: "duckdb \<Rightarrow> string \<Rightarrow> GlueTableType" where
  "glue_table_type_from_string D s =
     (if CIEquals D s ''EXTERNAL_TABLE'' then EXTERNAL_TABLE
      else if CIEquals D s ''VIRTUAL_VIEW'' then VIRTUAL_VIEW
      else OTHER)"

definition is_same_version :: "GlueTableInfo \<Rightarrow> GlueTableInfo \<Rightarrow> bool" where
  "is_same_version t other \<longleftrightarrow>
     t_version_id t \<noteq> [] \<and> t_version_id t = t_version_id other \<and>
     t_create_time_ms t = t_create_time_ms other \<and>
     t_glue_table_type t = t_glue_table_type other"

definition get_metadata_location :: "duckdb \<Rightarrow> GlueTableInfo \<Rightarrow> string" where
  "get_metadata_location D t = get_parameter D t ''metadata_location''"

definition find_partition_column ::
  "duckdb \<Rightarrow> 'a GluePartitionInfo_scheme \<Rightarrow> GlueColumn list \<Rightarrow> nat \<Rightarrow> bool \<Rightarrow> GlueColumn option" where
  "find_partition_column D p table_columns index by_position =
     (if by_position
      then (if index < length (p_partition_columns p) then Some (p_partition_columns p ! index) else None)
      else find (\<lambda>c. CIEquals D (col_name c) (col_name (table_columns ! index)))
             (p_partition_columns p))"

definition column_mismatch ::
  "duckdb \<Rightarrow> 'a GluePartitionInfo_scheme \<Rightarrow> GlueColumn list \<Rightarrow> bool \<Rightarrow> nat \<Rightarrow> bool" where
  "column_mismatch D p table_columns by_position i \<longleftrightarrow>
     (case find_partition_column D p table_columns i by_position of
        None \<Rightarrow> False
      | Some c \<Rightarrow> \<not> same_column_type D (col_type (table_columns ! i)) (col_type c))"

definition find_column_type_mismatch ::
  "duckdb \<Rightarrow> 'a GluePartitionInfo_scheme \<Rightarrow> GlueColumn list \<Rightarrow> bool \<Rightarrow> nat option" where
  "find_column_type_mismatch D p table_columns by_position =
     find (column_mismatch D p table_columns by_position) [0..<length table_columns]"

subsection \<open>Properties\<close>

lemma lazy_simple_separator_ascii:
  assumes "lazy_simple_separator D t v = Inr d"
  shows "\<exists>c. d = [c] \<and> 0 < (of_char c :: nat) \<and> (of_char c :: nat) < 128
    \<and> (of_char c :: nat) \<noteq> 10 \<and> (of_char c :: nat) \<noteq> 13"
proof (cases "v = []")
  case True
  with assms have "d = [CHR 0x01]" by (simp add: lazy_simple_separator_def)
  then show ?thesis by simp
next
  case False
  with assms obtain n :: nat where "d = [char_of n]" "n \<noteq> 0" "n \<noteq> 10" "n \<noteq> 13" "n < 128"
    by (auto simp: lazy_simple_separator_def Let_def split: if_splits)
  then show ?thesis by simp
qed

text \<open>
  The field delimiter of a LazySimpleSerDe table is always one byte DuckDB can split fields
  on: ASCII, not NUL and not a line break, whatever the table's properties say.
\<close>

theorem lazy_simple_delimiter_is_ascii:
  assumes "get_field_delimiter D t = Inr d" "get_serde D t = Inr LAZY_SIMPLE"
  shows "\<exists>c. d = [c] \<and> 0 < (of_char c :: nat) \<and> (of_char c :: nat) < 128
    \<and> (of_char c :: nat) \<noteq> 10 \<and> (of_char c :: nat) \<noteq> 13"
  using assms
  by (auto simp: get_field_delimiter_def result_simps split: option.splits
      dest: lazy_simple_separator_ascii)

definition example_csv_table :: GlueTableInfo where
  "example_csv_table = new_table\<lparr>
     t_serde_library := ''org.apache.hadoop.hive.serde2.lazy.LazySimpleSerDe'',
     t_serde_parameters := [(''field.delim'', ''9''), (''escape.delim'', [CHR 0x5C])]\<rparr>"

lemma lazy_simple_delimiter_is_ascii_witness:
  "get_field_delimiter ascii_duckdb example_csv_table = Inr [CHR 0x09] \<and>
   (\<exists>c. [CHR 0x09] = [c] \<and> 0 < (of_char c :: nat) \<and> (of_char c :: nat) < 128
     \<and> (of_char c :: nat) \<noteq> 10 \<and> (of_char c :: nat) \<noteq> 13)"
proof -
  have d: "get_field_delimiter ascii_duckdb example_csv_table = Inr [CHR 0x09]" by code_simp
  have "get_serde ascii_duckdb example_csv_table = Inr LAZY_SIMPLE" by code_simp
  from lazy_simple_delimiter_is_ascii [OF d this] d show ?thesis by blast
qed

text \<open>
  What a csv table that passes \<open>CheckTextSerdeSupported\<close> hands to the reader is within what it
  splits fields on: at most one byte of quote and of escape, and for a table that is not
  OpenCSVSerde one byte of delimiter, which is neither the escape nor part of the NULL string.
\<close>

theorem supported_csv_options:
  assumes "check_text_serde_supported D t CSV = Inr ()" "get_csv_options D t = Inr opts"
  shows "length (quote opts) \<le> 1 \<and> length (escape opts) \<le> 1 \<and>
    (get_serde D t \<noteq> Inr OPEN_CSV \<longrightarrow>
       length (delimiter opts) = 1 \<and> escape opts \<noteq> delimiter opts \<and>
       \<not> Contains D (null_string opts) (delimiter opts))"
  using assms
  by (auto simp: check_text_serde_supported_def get_csv_options_def result_simps Let_def
      get_quote_character_def get_field_delimiter_def split: if_splits
      dest!: lazy_simple_separator_ascii)

lemma supported_csv_options_witness:
  "\<exists>opts. get_csv_options ascii_duckdb example_csv_table = Inr opts \<and>
     check_text_serde_supported ascii_duckdb example_csv_table CSV = Inr () \<and> escape opts \<noteq> delimiter opts"
proof -
  have c: "check_text_serde_supported ascii_duckdb example_csv_table CSV = Inr ()" by code_simp
  have s: "get_serde ascii_duckdb example_csv_table \<noteq> Inr OPEN_CSV" by code_simp
  have "case get_csv_options ascii_duckdb example_csv_table of Inl e \<Rightarrow> False | Inr opts \<Rightarrow> True" by code_simp
  then obtain opts where o: "get_csv_options ascii_duckdb example_csv_table = Inr opts"
    by (auto split: sum.splits)
  with supported_csv_options [OF c o] c s show ?thesis by blast
qed

text \<open>
  A csv field that does not parse as its column type fails the query only in an OpenCSVSerde
  table that does not set \<open>use.null.for.invalid.data\<close>; every other table reads it as NULL.
\<close>

theorem invalid_field_fails_only_open_csv:
  assumes "get_csv_options D t = Inr opts" "field_conversion D opts ty \<in> {CAST, EPOCH}"
  shows "get_serde D t = Inr OPEN_CSV \<and> \<not> property_is_true D t ''use.null.for.invalid.data''"
  using assms
  by (auto simp: get_csv_options_def field_conversion_def result_simps Let_def split: if_splits)

definition example_open_csv_table :: GlueTableInfo where
  "example_open_csv_table = new_table\<lparr>
     t_serde_library := ''org.apache.hadoop.hive.serde2.OpenCSVSerde''\<rparr>"

lemma invalid_field_fails_only_open_csv_witness:
  "\<exists>opts. get_csv_options ascii_duckdb example_open_csv_table = Inr opts \<and>
     field_conversion ascii_duckdb opts DATE = EPOCH \<and>
     get_serde ascii_duckdb example_open_csv_table = Inr OPEN_CSV"
proof -
  obtain opts where o: "get_csv_options ascii_duckdb example_open_csv_table = Inr opts"
    and "epoch_fields opts" "\<not> null_for_invalid_data opts"
  proof -
    have "(case get_csv_options ascii_duckdb example_open_csv_table of Inl e \<Rightarrow> False
        | Inr opts \<Rightarrow> epoch_fields opts \<and> \<not> null_for_invalid_data opts)" by code_simp
    then show thesis using that by (auto split: sum.splits)
  qed
  then have "field_conversion ascii_duckdb opts DATE = EPOCH" by (simp add: field_conversion_def)
  with o invalid_field_fails_only_open_csv [OF o, of DATE] show ?thesis by auto
qed

text \<open>
  \<open>GetCodec\<close> returns only codecs the writer of the format knows: for avro files none, snappy,
  deflate or null, for csv and json files none, gzip or zstd, and never the spelling \<open>none\<close> for
  parquet files; any other codec a table records is an exception.
\<close>

theorem get_codec_writable:
  assumes "get_codec D t format = Inr codec" "\<not> IsCompressed D AUTO_DETECT"
  shows "case format of
     PARQUET \<Rightarrow> codec \<noteq> ''none''
   | AVRO \<Rightarrow> codec \<in> {[], ''snappy'', ''deflate'', ''null''}
   | _ \<Rightarrow> codec \<in> {[], CompressionToString D GZIP, CompressionToString D ZSTD}"
  using assms
  by (cases format)
    (auto simp: get_codec_def get_text_compression_def result_simps Let_def split: if_splits)

lemma get_codec_writable_witness:
  "get_codec ascii_duckdb (new_table\<lparr>t_parameters := [(''Avro.Output.Codec'', ''NONE'')]\<rparr>) AVRO
     = Inr ''null'' \<and> ''null'' \<in> {[], ''snappy'', ''deflate'', ''null''}"
proof -
  have c: "get_codec ascii_duckdb (new_table\<lparr>t_parameters := [(''Avro.Output.Codec'', ''NONE'')]\<rparr>)
      AVRO = Inr ''null''" by code_simp
  have "\<not> IsCompressed ascii_duckdb AUTO_DETECT" by (simp add: ascii_duckdb_def)
  from get_codec_writable [OF c this] c show ?thesis by simp
qed

text \<open>What each kind of property changes of the options.\<close>

lemma apply_json_property_sel:
  "ignore_errors (apply_json_property D t IGNORE_ERRORS_IF_TRUE res key)
     = (ignore_errors res \<or> property_is_true D t key)"
  "case_insensitive_keys (apply_json_property D t IGNORE_ERRORS_IF_TRUE res key)
     = case_insensitive_keys res"
  "ignore_errors (apply_json_property D t EXACT_KEYS_IF_FALSE res key) = ignore_errors res"
  "case_insensitive_keys (apply_json_property D t EXACT_KEYS_IF_FALSE res key)
     = (case_insensitive_keys res \<and>
        (case try_get_property t key of None \<Rightarrow> True | Some v \<Rightarrow> \<not> CIEquals D v ''false''))"
  "ignore_errors (apply_json_property D t NOT_APPLIED_IF_TRUE res key) = ignore_errors res"
  "ignore_errors (apply_json_property D t NOT_APPLIED_IF_SET res key) = ignore_errors res"
  "case_insensitive_keys (apply_json_property D t NOT_APPLIED_IF_TRUE res key)
     = case_insensitive_keys res"
  "case_insensitive_keys (apply_json_property D t NOT_APPLIED_IF_SET res key)
     = case_insensitive_keys res"
  by (simp_all add: apply_json_property_def property_is_true_def Let_def split: option.split)

lemma apply_json_properties_set [simp]:
  "ignore_errors (foldl (apply_json_property D t NOT_APPLIED_IF_SET) res keys) = ignore_errors res"
  "case_insensitive_keys (foldl (apply_json_property D t NOT_APPLIED_IF_SET) res keys)
     = case_insensitive_keys res"
  by (induction keys arbitrary: res) (simp_all add: apply_json_property_sel)

text \<open>
  The options a json table is read with are those its SerDe documents: an OpenX table ignores
  errors exactly when \<open>ignore.malformed.json\<close> or \<open>use.null.for.invalid.data\<close> is true and matches
  keys exactly only when \<open>case.insensitive\<close> is false; no property of a Hive JsonSerDe table
  changes either.
\<close>

theorem json_options_by_serde:
  assumes "get_json_options D t = Inr opts"
  shows "(get_serde D t = Inr OPENX_JSON \<longrightarrow>
      ignore_errors opts = (property_is_true D t ''ignore.malformed.json''
                            \<or> property_is_true D t ''use.null.for.invalid.data'') \<and>
      case_insensitive_keys opts = (case try_get_property t ''case.insensitive'' of
          None \<Rightarrow> True | Some v \<Rightarrow> \<not> CIEquals D v ''false'')) \<and>
    (get_serde D t \<noteq> Inr OPENX_JSON \<longrightarrow> \<not> ignore_errors opts \<and> case_insensitive_keys opts)"
proof -
  from assms obtain serde where "get_serde D t = Inr serde"
    by (auto simp: get_json_options_def result_simps)
  with assms show ?thesis
    by (cases serde)
      (auto simp: get_json_options_def JSON_SERDE_PROPERTIES_def Let_def property_keys_def
        apply_json_property_sel new_json_options_def)
qed

definition example_json_table :: GlueTableInfo where
  "example_json_table = new_table\<lparr>
     t_serde_library := ''org.openx.data.jsonserde.JsonSerDe'',
     t_serde_parameters := [(''ignore.malformed.json'', ''TRUE'')]\<rparr>"

lemma json_options_by_serde_witness:
  "\<exists>opts. get_json_options ascii_duckdb example_json_table = Inr opts \<and>
     ignore_errors opts \<and> case_insensitive_keys opts"
proof -
  have serde: "get_serde ascii_duckdb example_json_table = Inr OPENX_JSON" by code_simp
  then obtain opts where o: "get_json_options ascii_duckdb example_json_table = Inr opts"
    by (simp add: get_json_options_def Let_def)
  have "property_is_true ascii_duckdb example_json_table ''ignore.malformed.json''"
    "try_get_property example_json_table ''case.insensitive'' = None" by code_simp+
  with serde o json_options_by_serde [OF o] show ?thesis by simp
qed

end
