(* ===== verification/Glue_Format.thy ===== *)
theory Glue_Format
  imports Glue_Info
begin

text \<open>
  src/core/glue_format.cpp: which (open) table format a Glue table is stored in, what that was
  derived from, whether its files are ones the extension writes, and which table parameters
  decide it; with \<open>CheckTablePropertyChangeable\<close> of src/catalog/glue_schema_entry.cpp, which guards them.
\<close>

datatype GlueFormat = ICEBERG | DELTA | HUDI | SYMLINK | HIVE | UNKNOWN

datatype GlueFormatSource = PARAMETERS | INPUT_FORMAT | STORAGE_DESCRIPTOR | NO_SOURCE

record GlueTableFormat =
  format :: GlueFormat
  source :: GlueFormatSource

subsection \<open>Detection\<close>

definition format_from_parameters :: "duckdb \<Rightarrow> GlueTableInfo \<Rightarrow> GlueFormat" where
  "format_from_parameters D t =
     (let table_type = Upper D (get_parameter D t ''table_type'') in
      if table_type = ''ICEBERG'' then ICEBERG
      else if table_type = ''DELTA'' then DELTA
      else if table_type = ''HUDI'' then HUDI
      else
        let provider = Lower D (get_parameter D t ''spark.sql.sources.provider'') in
        if provider = ''delta'' then DELTA
        else if provider = ''iceberg'' then ICEBERG
        else if provider = ''hudi'' \<or> provider = ''org.apache.hudi'' then HUDI
        else if get_metadata_location D t \<noteq> [] then ICEBERG
        else UNKNOWN)"

definition format_from_input_format :: "duckdb \<Rightarrow> string \<Rightarrow> GlueFormat" where
  "format_from_input_format D input_format =
     (let lower = Lower D input_format; class_name = after_last CHR ''.'' lower in
      if StartsWith D lower ''org.apache.hudi.'' \<or> StartsWith D lower ''com.uber.hoodie.''
         \<or> StartsWith D class_name ''hoodie'' then HUDI
      else if class_name = ''symlinktextinputformat'' then SYMLINK
      else if StartsWith D lower ''org.apache.iceberg.'' then ICEBERG
      else if StartsWith D lower ''io.delta.'' then DELTA
      else UNKNOWN)"

definition detect_format :: "duckdb \<Rightarrow> GlueTableInfo \<Rightarrow> GlueTableFormat" where
  "detect_format D t =
     (if format_from_parameters D t \<noteq> UNKNOWN
      then \<lparr>format = format_from_parameters D t, source = PARAMETERS\<rparr>
      else if format_from_input_format D (t_input_format t) \<noteq> UNKNOWN
      then \<lparr>format = format_from_input_format D (t_input_format t), source = INPUT_FORMAT\<rparr>
      else if t_input_format t \<noteq> [] \<or> t_location t \<noteq> []
      then \<lparr>format = HIVE, source = STORAGE_DESCRIPTOR\<rparr>
      else \<lparr>format = UNKNOWN, source = NO_SOURCE\<rparr>)"

definition is_format_parameter :: "duckdb \<Rightarrow> string \<Rightarrow> bool" where
  "is_format_parameter D key \<longleftrightarrow>
     CIEquals D key ''table_type'' \<or> CIEquals D key ''spark.sql.sources.provider'' \<or>
     CIEquals D key ''metadata_location''"

definition is_hive :: "GlueTableFormat \<Rightarrow> bool" where
  "is_hive f \<longleftrightarrow> format f = HIVE"

definition is_writable :: "duckdb \<Rightarrow> GlueTableFormat \<Rightarrow> GlueTableInfo \<Rightarrow> HiveFileFormat \<Rightarrow> bool" where
  "is_writable D f t file_format =
     (if \<not> is_hive f then False
      else if t_input_format t = [] then True
      else
        let lower = Lower D (t_input_format t) in
        (case file_format of
           PARQUET \<Rightarrow>
             lower = ''org.apache.hadoop.hive.ql.io.parquet.mapredparquetinputformat'' \<or>
             lower = ''org.apache.parquet.hadoop.parquetinputformat'' \<or>
             lower = ''parquet.hadoop.parquetinputformat'' \<or>
             lower = ''parquet.hive.deprecatedparquetinputformat''
         | CSV \<Rightarrow> lower = ''org.apache.hadoop.mapred.textinputformat'' \<or>
                  lower = ''org.apache.hadoop.mapred.lib.combinetextinputformat''
         | JSON \<Rightarrow> lower = ''org.apache.hadoop.mapred.textinputformat'' \<or>
                   lower = ''org.apache.hadoop.mapred.lib.combinetextinputformat''
         | AVRO \<Rightarrow> lower = ''org.apache.hadoop.hive.ql.io.avro.avrocontainerinputformat''))"

fun glue_format_to_string :: "GlueFormat \<Rightarrow> string" where
  "glue_format_to_string ICEBERG = ''ICEBERG''"
| "glue_format_to_string DELTA = ''DELTA''"
| "glue_format_to_string HUDI = ''HUDI''"
| "glue_format_to_string SYMLINK = ''SYMLINK''"
| "glue_format_to_string HIVE = ''HIVE''"
| "glue_format_to_string UNKNOWN = ''UNKNOWN''"

text \<open>The message of \<open>Describe\<close>, with its quotes (character 0x27).\<close>

definition describe_format :: "GlueTableFormat \<Rightarrow> GlueTableInfo \<Rightarrow> string" where
  "describe_format f t =
     (case source f of
        INPUT_FORMAT \<Rightarrow> glue_format_to_string (format f) @ '' (input format '' @ [CHR 0x27] @
          t_input_format t @ [CHR 0x27] @ '')''
      | STORAGE_DESCRIPTOR \<Rightarrow> glue_format_to_string (format f) @ '' (input format '' @ [CHR 0x27] @
          t_input_format t @ [CHR 0x27] @ '')''
      | NO_SOURCE \<Rightarrow>
          (if t_glue_table_type t \<noteq> []
           then ''UNKNOWN (glue table type '' @ [CHR 0x27] @ t_glue_table_type t @ [CHR 0x27] @ '')''
           else glue_format_to_string (format f))
      | PARAMETERS \<Rightarrow> glue_format_to_string (format f))"

definition check_table_property_changeable :: "duckdb \<Rightarrow> string \<Rightarrow> unit result" where
  "check_table_property_changeable D key =
     (if key = [] then Inl (InvalidInputException ''A table property needs a name'' [])
      else if is_format_parameter D key
      then Inl (InvalidInputException ''Table property decides how the table is read'' [key])
      else Inr ())"

subsection \<open>Which parameters the format depends on\<close>

text \<open>
  \<open>other_key\<close> is a parameter key that no lookup of the format reads.
\<close>

lemma find_update_other:
  assumes "\<And>v. \<not> P (k, v)"
  shows "find P (AList.update k v m) = find P m"
proof (induction m)
  case (Cons e m)
  then show ?case using assms by (cases e) auto
qed (simp add: assms)

lemma find_delete_other:
  assumes "\<And>v. \<not> P (k, v)"
  shows "find P (AList.delete k m) = find P m"
proof (induction m)
  case (Cons e m)
  then show ?case using assms by (cases e) auto
qed simp

context string_util
begin

lemma get_parameter_change:
  assumes "\<not> CIEquals D k key"
  shows "get_parameter D (t\<lparr>t_parameters := AList.update k v m\<rparr>) key
      = get_parameter D (t\<lparr>t_parameters := m\<rparr>) key"
    "get_parameter D (t\<lparr>t_parameters := AList.delete k m\<rparr>) key
      = get_parameter D (t\<lparr>t_parameters := m\<rparr>) key"
  using assms by (simp_all add: get_parameter_def find_update_other find_delete_other)

lemma detect_format_change:
  assumes "check_table_property_changeable D k = Inr ()"
  shows "detect_format D (t\<lparr>t_parameters := AList.update k v m\<rparr>)
      = detect_format D (t\<lparr>t_parameters := m\<rparr>)"
    "detect_format D (t\<lparr>t_parameters := AList.delete k m\<rparr>)
      = detect_format D (t\<lparr>t_parameters := m\<rparr>)"
proof -
  from assms have "\<not> CIEquals D k ''table_type''" "\<not> CIEquals D k ''spark.sql.sources.provider''"
    "\<not> CIEquals D k ''metadata_location''"
    by (auto simp: check_table_property_changeable_def is_format_parameter_def split: if_splits)
  then have
    "format_from_parameters D (t\<lparr>t_parameters := AList.update k v m\<rparr>)
      = format_from_parameters D (t\<lparr>t_parameters := m\<rparr>)"
    "format_from_parameters D (t\<lparr>t_parameters := AList.delete k m\<rparr>)
      = format_from_parameters D (t\<lparr>t_parameters := m\<rparr>)"
    by (simp_all add: format_from_parameters_def get_metadata_location_def get_parameter_change
        Let_def)
  then show "detect_format D (t\<lparr>t_parameters := AList.update k v m\<rparr>)
      = detect_format D (t\<lparr>t_parameters := m\<rparr>)"
    "detect_format D (t\<lparr>t_parameters := AList.delete k m\<rparr>)
      = detect_format D (t\<lparr>t_parameters := m\<rparr>)"
    by (simp_all add: detect_format_def)
qed

end

subsection \<open>Properties\<close>

text \<open>
  A table the extension would write as more than one file format is one without an
  InputFormat, or a text table, and every table it would write is a Hive table: Hudi, symlink
  manifest, Iceberg and Delta tables are never written, whatever SerDe they register.
\<close>

theorem writable_only_hive:
  assumes "is_writable D (detect_format D t) t f" "is_writable D (detect_format D t) t g"
  shows "format (detect_format D t) = HIVE \<and>
    format_from_parameters D t = UNKNOWN \<and>
    format_from_input_format D (t_input_format t) = UNKNOWN \<and>
    (f = g \<or> t_input_format t = [] \<or> {f, g} \<subseteq> {CSV, JSON})"
proof -
  have "format (detect_format D t) = HIVE" and kind: "f = g \<or> t_input_format t = [] \<or> {f, g} \<subseteq> {CSV, JSON}"
    using assms
    by (auto simp: is_writable_def is_hive_def Let_def split: if_splits HiveFileFormat.splits)
  moreover have "format_from_parameters D t \<noteq> HIVE" "format_from_input_format D i \<noteq> HIVE" for i
    by (simp_all add: format_from_parameters_def format_from_input_format_def Let_def)
  ultimately show ?thesis by (auto simp: detect_format_def split: if_splits)
qed

lemma writable_only_hive_witness:
  "is_writable ascii_duckdb
     (detect_format ascii_duckdb
        (new_table\<lparr>t_input_format := ''org.apache.hadoop.mapred.TextInputFormat''\<rparr>))
     (new_table\<lparr>t_input_format := ''org.apache.hadoop.mapred.TextInputFormat''\<rparr>) CSV \<and>
   format (detect_format ascii_duckdb
     (new_table\<lparr>t_input_format := ''org.apache.hadoop.mapred.TextInputFormat''\<rparr>)) = HIVE"
proof -
  have w: "is_writable ascii_duckdb
     (detect_format ascii_duckdb
        (new_table\<lparr>t_input_format := ''org.apache.hadoop.mapred.TextInputFormat''\<rparr>))
     (new_table\<lparr>t_input_format := ''org.apache.hadoop.mapred.TextInputFormat''\<rparr>) CSV" by code_simp
  from writable_only_hive [OF w w] w show ?thesis by blast
qed

end
