(* ===== verification/Glue_Cache.thy ===== *)
theory Glue_Cache
  imports Glue_Format
begin

text \<open>
  \<open>GlueTransactionCache\<close> and \<open>GlueMetadataCacheState\<close> of src/include/catalog/glue_transaction.hpp: the
  metadata resolved from Glue, by table, and the connection's caches, by alias.

  The code's map holds shared pointers to cache entries: a reference finds or creates the entry
  under the map's lock and loads its value under the entry's own lock, so a \<open>Clear\<close> in between
  drops the entry from the map while the load goes on. \<open>slots\<close> keeps this: \<open>sl_index\<close> is the map,
  from keys to addresses, \<open>sl_value\<close> the values of the entries by address (absent: the null pointer
  of an entry not loaded), \<open>sl_next\<close> the next address.
\<close>

subsection \<open>Entries\<close>

record 'v slots =
  sl_index :: "string \<rightharpoonup> nat"
  sl_value :: "nat \<rightharpoonup> 'v"
  sl_next :: nat

definition new_slots :: "'v slots" where
  "new_slots = \<lparr> sl_index = Map.empty, sl_value = Map.empty, sl_next = 0 \<rparr>"

definition cache_key :: "string \<Rightarrow> string \<Rightarrow> string" where
  "cache_key database_name table_name = database_name @ [CHR 0x0A] @ table_name"

definition find_entry :: "duckdb \<Rightarrow> string \<Rightarrow> 'v slots \<Rightarrow> nat \<times> 'v slots" where
  "find_entry D key st =
     (case sl_index st (Lower D key) of
        Some a \<Rightarrow> (a, st)
      | None \<Rightarrow> (sl_next st, st\<lparr>sl_index := (sl_index st)(Lower D key \<mapsto> sl_next st),
                             sl_value := (sl_value st)(sl_next st := None),
                             sl_next := Suc (sl_next st)\<rparr>))"

definition store_value :: "nat \<Rightarrow> 'v \<Rightarrow> 'v slots \<Rightarrow> 'v slots" where
  "store_value a v st = (case sl_value st a of
     Some _ \<Rightarrow> st | None \<Rightarrow> st\<lparr>sl_value := (sl_value st)(a \<mapsto> v)\<rparr>)"

definition clear_slots :: "'v slots \<Rightarrow> 'v slots" where
  "clear_slots st = st\<lparr>sl_index := Map.empty\<rparr>"

record glue_cache =
  gc_tables :: "GlueTableInfo slots"
  gc_partitions :: "GluePartitionInfo list slots"

definition new_cache :: glue_cache where
  "new_cache = \<lparr> gc_tables = new_slots, gc_partitions = new_slots \<rparr>"

definition clear_cache :: "glue_cache \<Rightarrow> glue_cache" where
  "clear_cache c = c\<lparr>gc_tables := clear_slots (gc_tables c),
                     gc_partitions := clear_slots (gc_partitions c)\<rparr>"

text \<open>The value a reference to a key would be served without asking Glue.\<close>

definition cached :: "duckdb \<Rightarrow> string \<Rightarrow> 'v slots \<Rightarrow> 'v option" where
  "cached D key st = (case sl_index st (Lower D key) of None \<Rightarrow> None | Some a \<Rightarrow> sl_value st a)"

text \<open>
  \<open>GetTable\<close> and \<open>GetPartitions\<close>: find the entry, and load it when its value is null. The entries
  are a part of the state \<open>'s\<close> the load runs on, read by \<open>get\<close> and replaced by \<open>put\<close>; a load that
  throws or gives null leaves the entry null, so the next reference asks again.
\<close>

definition cache_get ::
  "duckdb \<Rightarrow> ('s \<Rightarrow> 'v slots) \<Rightarrow> ('v slots \<Rightarrow> 's \<Rightarrow> 's) \<Rightarrow> string
     \<Rightarrow> ('s \<Rightarrow> 'v option result \<times> 's) \<Rightarrow> 's \<Rightarrow> 'v option result \<times> 's" where
  "cache_get D get put key load s =
     (case find_entry D key (get s) of (a, st) \<Rightarrow>
        let s1 = put st s in
        case sl_value st a of
          Some v \<Rightarrow> (Inr (Some v), s1)
        | None \<Rightarrow>
            (case load s1 of
               (Inr (Some v), s2) \<Rightarrow> (Inr (Some v), put (store_value a v (get s2)) s2)
             | (r, s2) \<Rightarrow> (r, s2)))"

subsection \<open>The connection's caches\<close>

text \<open>
  \<open>GlueMetadataCacheState\<close>: an alias to the attach it was made for and its cache, which is named
  by its \<open>Id\<close>; the caches themselves are kept by that name, as the shared pointers share them.
\<close>

type_synonym connection_caches = "(string \<times> (nat \<times> nat)) list"

definition state_get_cache ::
  "string \<Rightarrow> nat \<Rightarrow> nat \<Rightarrow> connection_caches \<Rightarrow> nat \<times> bool \<times> connection_caches" where
  "state_get_cache catalog_name attach_oid fresh caches =
     (case map_of caches catalog_name of
        Some (oid, cid) \<Rightarrow>
          if oid \<noteq> attach_oid
          then (fresh, True, AList.update catalog_name (attach_oid, fresh) caches)
          else (cid, False, caches)
      | None \<Rightarrow> (fresh, True, AList.update catalog_name (attach_oid, fresh) caches))"

definition state_erase_cache :: "string \<Rightarrow> nat \<Rightarrow> connection_caches \<Rightarrow> connection_caches" where
  "state_erase_cache catalog_name attach_oid caches =
     (case map_of caches catalog_name of
        Some (oid, cid) \<Rightarrow> if oid = attach_oid then AList.delete catalog_name caches else caches
      | None \<Rightarrow> caches)"

definition state_clear_all :: "connection_caches \<Rightarrow> (nat \<rightharpoonup> glue_cache) \<Rightarrow> (nat \<rightharpoonup> glue_cache)" where
  "state_clear_all caches store =
     (\<lambda>cid. if cid \<in> set (map (snd \<circ> snd) caches) then map_option clear_cache (store cid) else store cid)"

subsection \<open>Interleavings\<close>

text \<open>
  What the threads of a connection do to one map of entries, each step atomic under the lock it
  holds: a reference finds or creates its entry, a load stores into the entry it was made for, a
  mutation clears the map.
\<close>

datatype 'v slot_op = FindEntry string | Load nat 'v | Clear

fun slot_step :: "duckdb \<Rightarrow> 'v slot_op \<Rightarrow> 'v slots \<Rightarrow> 'v slots" where
  "slot_step D (FindEntry key) st = snd (find_entry D key st)"
| "slot_step D (Load a v) st = store_value a v st"
| "slot_step D Clear st = clear_slots st"

definition slot_run :: "duckdb \<Rightarrow> 'v slot_op list \<Rightarrow> 'v slots \<Rightarrow> 'v slots" where
  "slot_run D ops st = fold (slot_step D) ops st"

definition slots_ok :: "'v slots \<Rightarrow> bool" where
  "slots_ok st \<longleftrightarrow> (\<forall>k a. sl_index st k = Some a \<longrightarrow> a < sl_next st)"

text \<open>An address that was handed out and that the map no longer leads to.\<close>

definition detached :: "nat \<Rightarrow> 'v slots \<Rightarrow> bool" where
  "detached a st \<longleftrightarrow> a < sl_next st \<and> (\<forall>k. sl_index st k \<noteq> Some a)"

lemma slots_ok_step: "slots_ok st \<Longrightarrow> slots_ok (slot_step D op st)"
  by (cases op)
    (auto simp: slots_ok_def find_entry_def store_value_def clear_slots_def
      split: option.splits intro: less_SucI)

lemma sl_next_step: "sl_next st \<le> sl_next (slot_step D op st)"
  by (cases op) (auto simp: find_entry_def store_value_def clear_slots_def split: option.splits)

lemma detached_step: "detached a st \<Longrightarrow> detached a (slot_step D op st)"
  by (cases op)
    (auto simp: detached_def find_entry_def store_value_def clear_slots_def split: option.splits)

lemma slots_ok_run: "slots_ok st \<Longrightarrow> slots_ok (slot_run D ops st)"
  unfolding slot_run_def by (induction ops arbitrary: st) (simp_all add: slots_ok_step)

lemma sl_next_run: "sl_next st \<le> sl_next (slot_run D ops st)"
  unfolding slot_run_def
  by (induction ops arbitrary: st) (auto intro: order_trans sl_next_step)

lemma detached_run: "detached a st \<Longrightarrow> detached a (slot_run D ops st)"
  unfolding slot_run_def by (induction ops arbitrary: st) (simp_all add: detached_step)

lemma find_entry_next: "slots_ok st \<Longrightarrow> find_entry D k st = (a, st') \<Longrightarrow> a < sl_next st'"
  by (auto simp: find_entry_def slots_ok_def split: option.splits)

lemma detached_not_found: "detached a st \<Longrightarrow> fst (find_entry D k st) \<noteq> a"
  by (auto simp: find_entry_def detached_def split: option.splits)

subsection \<open>Reading through the cache\<close>

lemma cache_get_hit:
  "cached D key (get s) = Some v \<Longrightarrow> put (get s) s = s
     \<Longrightarrow> cache_get D get put key load s = (Inr (Some v), s)"
  by (auto simp: cache_get_def cached_def find_entry_def split: option.splits)

lemma cache_get_stores:
  assumes "cache_get D get put key load s = (Inr (Some v), s')"
    and "\<And>st s. get (put st s) = st" and "\<And>s. sl_index (get (snd (load s))) = sl_index (get s)"
    and "\<And>s. sl_value (get (snd (load s))) = sl_value (get s)"
  shows "cached D key (get s') = Some v"
proof (cases "find_entry D key (get s)")
  case (Pair a st)
  then have idx: "sl_index st (Lower D key) = Some a"
    by (auto simp: find_entry_def split: option.splits)
  show ?thesis
  proof (cases "sl_value st a")
    case None
    with assms(1) Pair obtain s2 where l: "load (put st s) = (Inr (Some v), s2)"
      and s': "s' = put (store_value a v (get s2)) s2"
      by (auto simp: cache_get_def split: prod.splits sum.splits option.splits)
    have "sl_index (get s2) = sl_index st" "sl_value (get s2) = sl_value st"
      using assms(3,4) [of "put st s"] by (simp_all add: l assms(2))
    then show ?thesis
      using idx None by (simp add: s' assms(2) cached_def store_value_def)
  next
    case (Some w)
    with assms(1) Pair have "s' = put st s" "w = v" by (auto simp: cache_get_def)
    with Some idx show ?thesis by (simp add: cached_def assms(2))
  qed
qed

lemma cached_clear [simp]: "cached D key (clear_slots st) = None"
  by (simp add: cached_def clear_slots_def)

subsection \<open>Properties\<close>

text \<open>
  C22: a load that was under way when the metadata cache was invalidated never shows up in it
  again: for every interleaving of references, loads and invalidations before and after, the
  entry the load stores into is one that no later reference finds. A thread that fetched a table
  just before another statement changed it can not bring the old definition back.
\<close>

theorem late_load_stays_invisible:
  assumes "slots_ok st" "find_entry D key st = (a, st1)"
  shows "fst (find_entry D key' (slot_run D (before @ [Clear] @ after) st1)) \<noteq> a"
proof -
  have "slots_ok st1" using slots_ok_step [OF assms(1), of D "FindEntry key"] assms(2) by simp
  have "a < sl_next (slot_run D before st1)"
    using find_entry_next [OF assms] sl_next_run [of st1 D before] by simp
  then have "detached a (slot_step D Clear (slot_run D before st1))"
    by (simp add: detached_def clear_slots_def)
  then have "detached a (slot_run D after (slot_step D Clear (slot_run D before st1)))"
    by (rule detached_run)
  then show ?thesis
    using detached_not_found by (simp add: slot_run_def)
qed

lemma late_load_stays_invisible_witness:
  "fst (find_entry ascii_duckdb ''db'' (slot_run ascii_duckdb
     ([] @ [Clear] @ [Load 0 (7::nat), FindEntry ''DB'']) (snd (find_entry ascii_duckdb ''db'' new_slots)))) \<noteq> 0"
proof -
  have ok: "slots_ok (new_slots :: nat slots)" by (simp add: slots_ok_def new_slots_def)
  have "find_entry ascii_duckdb ''db'' (new_slots :: nat slots)
      = (0, snd (find_entry ascii_duckdb ''db'' new_slots))"
    by (simp add: find_entry_def new_slots_def)
  from late_load_stays_invisible [OF ok this] show ?thesis .
qed

text \<open>
  The cache keeps two tables apart exactly when Glue does: their keys meet only when the names
  of their databases and of the tables are equal up to case, given that no database name holds
  the line break that separates the two.
\<close>

theorem cache_key_identifies_table:
  assumes "string_util D" "CHR 0x0A \<notin> set db" "CHR 0x0A \<notin> set db'"
  shows "Lower D (cache_key db tb) = Lower D (cache_key db' tb') \<longleftrightarrow>
     CIEquals D db db' \<and> CIEquals D tb tb'"
proof -
  have nl: "ascii_lower c = CHR 0x0A \<longleftrightarrow> c = CHR 0x0A" for c
  proof
    assume "ascii_lower c = CHR 0x0A"
    then have "(of_char (ascii_lower c) :: nat) = 10" by simp
    then show "c = CHR 0x0A"
      using of_char_eq_iff [of c "CHR 0x0A", where 'a = nat]
      by (auto simp: ascii_lower_def split: if_splits)
  qed (simp add: ascii_lower_def)
  have "CHR 0x0A \<notin> set (map ascii_lower db)" "CHR 0x0A \<notin> set (map ascii_lower db')"
    using assms(2,3) nl by (force simp: image_iff)+
  then show ?thesis
    by (simp add: cache_key_def string_util.Lower [OF assms(1)] string_util.CIEquals [OF assms(1)]
        separator_eq_iff nl [THEN iffD2, OF refl])
qed

lemma cache_key_identifies_table_witness:
  "Lower ascii_duckdb (cache_key ''sales'' ''Orders'') = Lower ascii_duckdb (cache_key ''Sales'' ''ORDERS'')"
proof -
  have "CHR 0x0A \<notin> set ''sales''" "CHR 0x0A \<notin> set ''Sales''" by simp_all
  from cache_key_identifies_table [OF ascii_ok this, of "''Orders''" "''ORDERS''"]
  show ?thesis by (simp add: ascii_lower_def char_of_def bit_0)
qed

end
