(* ===== verification/Transactions.thy ===== *)
theory Transactions
  imports Prelude
begin

text \<open>
  src/catalog/glue_transaction_manager.cpp: the running transactions of an attached catalog, and the
  catalog entries that were replaced or removed while a transaction may still use them.

  Transactions are named by a value of type \<open>'t\<close> (the code's map is keyed by reference), entries by
  one of type \<open>'e\<close>. Every operation runs under the transaction lock, so a history of the manager is
  a sequence of its steps.
\<close>

record 'e retired_entry =
  retired_at :: nat
  retired :: 'e

record ('t, 'e) manager =
  transactions :: "'t list"
  transaction_sequence :: "('t \<times> nat) list"
  next_sequence :: nat
  retired_entries :: "'e retired_entry list"

definition new_manager :: "('t, 'e) manager" where
  "new_manager = \<lparr> transactions = [], transaction_sequence = [], next_sequence = 0,
     retired_entries = [] \<rparr>"

subsection \<open>Operations\<close>

text \<open>\<open>NumericLimits<idx_t>::Maximum()\<close>.\<close>

definition idx_max :: nat where
  "idx_max = 2 ^ 64 - 1"

definition oldest_running :: "('t, 'e) manager \<Rightarrow> nat" where
  "oldest_running m = foldl min idx_max (map snd (transaction_sequence m))"

definition free_retired_entries :: "('t, 'e) manager \<Rightarrow> ('t, 'e) manager" where
  "free_retired_entries m =
     m\<lparr>retired_entries := filter (\<lambda>r. \<not> retired_at r \<le> oldest_running m) (retired_entries m)\<rparr>"

definition start_transaction :: "'t \<Rightarrow> ('t, 'e) manager \<Rightarrow> ('t, 'e) manager" where
  "start_transaction t m =
     m\<lparr>transactions := t # transactions m,
       transaction_sequence := AList.update t (next_sequence m) (transaction_sequence m),
       next_sequence := Suc (next_sequence m)\<rparr>"

text \<open>What \<open>CommitTransaction\<close> and \<open>RollbackTransaction\<close> do to the manager.\<close>

definition end_transaction :: "'t \<Rightarrow> ('t, 'e) manager \<Rightarrow> ('t, 'e) manager" where
  "end_transaction t m =
     free_retired_entries
       (m\<lparr>transaction_sequence := AList.delete t (transaction_sequence m),
          transactions := removeAll t (transactions m)\<rparr>)"

definition retire_entry :: "'e \<Rightarrow> ('t, 'e) manager \<Rightarrow> ('t, 'e) manager" where
  "retire_entry e m =
     m\<lparr>retired_entries := retired_entries m @ [\<lparr>retired_at = next_sequence m, retired = e\<rparr>]\<rparr>"

subsection \<open>Histories\<close>

text \<open>
  One rule per operation, labelled with it. A transaction starts under a name no running one has;
  the sequence counter stays below the largest \<open>idx_t\<close>.
\<close>

datatype ('t, 'e) event = Start 't | End 't | Retire 'e

inductive manager_step :: "('t, 'e) manager \<Rightarrow> ('t, 'e) event \<Rightarrow> ('t, 'e) manager \<Rightarrow> bool" where
  start: "t \<notin> fst ` set (transaction_sequence m) \<Longrightarrow> next_sequence m < idx_max
    \<Longrightarrow> manager_step m (Start t) (start_transaction t m)"
| finish: "manager_step m (End t) (end_transaction t m)"
| retire: "manager_step m (Retire e) (retire_entry e m)"

inductive_cases manager_stepE: "manager_step m ev m'"
inductive_simps manager_step_simps:
  "manager_step m (Start t) m'" "manager_step m (End t) m'" "manager_step m (Retire e) m'"

inductive manager_run :: "('t, 'e) manager \<Rightarrow> ('t, 'e) event list \<Rightarrow> ('t, 'e) manager \<Rightarrow> bool" where
  run_nil: "manager_run m [] m"
| run_step: "manager_step m ev m' \<Longrightarrow> manager_run m' evs m'' \<Longrightarrow> manager_run m (ev # evs) m''"

inductive_simps manager_run_simps: "manager_run m [] m''" "manager_run m (ev # evs) m''"

subsection \<open>The invariant\<close>

definition manager_ok :: "('t, 'e) manager \<Rightarrow> bool" where
  "manager_ok m \<longleftrightarrow>
     distinct (map fst (transaction_sequence m)) \<and>
     (\<forall>p\<in>set (transaction_sequence m). snd p < next_sequence m) \<and>
     (\<forall>r\<in>set (retired_entries m). retired_at r \<le> next_sequence m) \<and>
     next_sequence m \<le> idx_max"

lemma manager_ok_new: "manager_ok new_manager"
  by (simp add: manager_ok_def new_manager_def)

lemma le_foldl_min: "(x :: nat) \<le> foldl min a xs \<longleftrightarrow> x \<le> a \<and> (\<forall>y\<in>set xs. x \<le> y)"
  by (induction xs arbitrary: a) auto

text \<open>The entries \<open>FreeRetiredEntries\<close> keeps.\<close>

definition still_used :: "('t, 'e) manager \<Rightarrow> 'e retired_entry \<Rightarrow> bool" where
  "still_used m r \<longleftrightarrow> (\<exists>p\<in>set (transaction_sequence m). snd p < retired_at r)"

lemma free_retired_entries_set:
  assumes "\<forall>r\<in>set (retired_entries m). retired_at r \<le> idx_max"
  shows "set (retired_entries (free_retired_entries m))
    = {r \<in> set (retired_entries m). still_used m r}"
  using assms by (force simp: free_retired_entries_def oldest_running_def le_foldl_min still_used_def)

lemma set_delete: "set (AList.delete t xs) = {p \<in> set xs. fst p \<noteq> t}"
  by (auto simp: AList.delete_eq)

lemma set_update_fresh:
  "t \<notin> fst ` set xs \<Longrightarrow> set (AList.update t n xs) = insert (t, n) (set xs)"
  by (induction xs) auto

lemma end_transaction_sequence [simp]:
  "transaction_sequence (end_transaction t m) = AList.delete t (transaction_sequence m)"
  "next_sequence (end_transaction t m) = next_sequence m"
  by (simp_all add: end_transaction_def free_retired_entries_def)

lemma end_transaction_retired:
  assumes "manager_ok m"
  shows "set (retired_entries (end_transaction t m))
    = {r \<in> set (retired_entries m). still_used (end_transaction t m) r}"
proof -
  have "\<forall>r\<in>set (retired_entries m). retired_at r \<le> idx_max"
    using assms by (auto simp: manager_ok_def)
  then show ?thesis
    unfolding end_transaction_def
    by (subst free_retired_entries_set)
      (auto simp: still_used_def free_retired_entries_def)
qed

lemma manager_ok_step:
  assumes "manager_step m ev m'" "manager_ok m"
  shows "manager_ok m'"
  using assms(1)
proof cases
  case (start t)
  with assms(2) show ?thesis
    by (force simp: manager_ok_def start_transaction_def set_update_fresh
        AList.distinct_update)
next
  case (finish t)
  have "distinct (map fst (AList.delete t (transaction_sequence m)))"
    using assms(2) by (auto simp: manager_ok_def AList.distinct_delete)
  with assms(2) finish show ?thesis
    using end_transaction_retired [OF assms(2), of t]
    by (auto simp: manager_ok_def set_delete)
next
  case (retire e)
  with assms(2) show ?thesis by (auto simp: manager_ok_def retire_entry_def)
qed

lemma manager_run_ok: "manager_run m evs m' \<Longrightarrow> manager_ok m \<Longrightarrow> manager_ok m'"
  by (induction rule: manager_run.induct) (auto intro: manager_ok_step)

text \<open>A running transaction keeps its number, and what it may use, until it ends.\<close>

definition held :: "'t \<Rightarrow> nat \<Rightarrow> 'e retired_entry \<Rightarrow> ('t, 'e) manager \<Rightarrow> bool" where
  "held t n r m \<longleftrightarrow> (t, n) \<in> set (transaction_sequence m) \<and> n < retired_at r \<and> r \<in> set (retired_entries m)"

lemma held_step:
  assumes "manager_step m ev m'" "manager_ok m" "held t n r m" "ev \<noteq> End t"
  shows "held t n r m'"
  using assms(1)
proof cases
  case (start t')
  with assms(3) show ?thesis
    by (auto simp: held_def start_transaction_def set_update_fresh)
next
  case (finish t')
  with assms(3,4) have "(t, n) \<in> set (transaction_sequence m')"
    by (auto simp: held_def set_delete)
  with assms(3) finish show ?thesis
    using end_transaction_retired [OF assms(2), of t']
    by (force simp: held_def still_used_def)
next
  case (retire e)
  with assms(3) show ?thesis by (auto simp: held_def retire_entry_def)
qed

lemma held_run:
  "manager_run m evs m' \<Longrightarrow> manager_ok m \<Longrightarrow> held t n r m \<Longrightarrow> End t \<notin> set evs \<Longrightarrow> held t n r m'"
  by (induction rule: manager_run.induct) (auto intro: held_step manager_ok_step)

subsection \<open>Properties\<close>

text \<open>
  C24: a catalog entry that is replaced or removed while a transaction runs stays alive until that
  transaction ends: in every history from the empty manager, and for every transaction running
  when the entry is retired, the entry is still held after any further steps that do not end the
  transaction, whatever other transactions start, end or retire meanwhile.
\<close>

theorem retired_entry_outlives_its_readers:
  assumes "manager_run new_manager history m" "(t, n) \<in> set (transaction_sequence m)"
    and "manager_step m (Retire e) m1" "manager_run m1 later m2" "End t \<notin> set later"
  shows "\<exists>r\<in>set (retired_entries m2). retired r = e \<and> n < retired_at r"
proof -
  have ok: "manager_ok m" by (rule manager_run_ok [OF assms(1) manager_ok_new])
  let ?r = "\<lparr>retired_at = next_sequence m, retired = e\<rparr>"
  have "held t n ?r m1"
    using assms(2,3) ok by (auto simp: manager_step_simps held_def retire_entry_def manager_ok_def)
  with assms(4,5) have "held t n ?r m2"
    using manager_ok_step [OF assms(3) ok] by (auto intro: held_run)
  then show ?thesis by (auto simp: held_def intro!: bexI [of _ ?r])
qed

lemma retired_entry_outlives_its_readers_witness:
  "\<exists>r\<in>set (retired_entries (end_transaction 8 (start_transaction 8 (retire_entry ''t1''
       (start_transaction (7::nat) (new_manager :: (nat, string) manager)))))).
     retired r = ''t1'' \<and> 0 < retired_at r"
proof -
  let ?m = "start_transaction (7::nat) (new_manager :: (nat, string) manager)"
  let ?m1 = "retire_entry ''t1'' ?m" and ?m2 = "start_transaction 8 (retire_entry ''t1'' ?m)"
  have run: "manager_run (new_manager :: (nat, string) manager) [Start 7] ?m"
    by (simp add: manager_run_simps manager_step_simps new_manager_def idx_max_def)
  have seq: "(7, 0) \<in> set (transaction_sequence ?m)"
    by (simp add: start_transaction_def new_manager_def)
  have ret: "manager_step ?m (Retire ''t1'') ?m1" by (rule manager_step.retire)
  have later: "manager_run ?m1 [Start 8, End 8] (end_transaction 8 ?m2)"
    by (simp add: manager_run_simps manager_step_simps start_transaction_def retire_entry_def
        new_manager_def idx_max_def)
  show ?thesis
    using retired_entry_outlives_its_readers [OF run seq ret later] by auto
qed

text \<open>
  C38: nothing is kept longer than that: when a transaction ends, the entries left are exactly the
  retired ones some transaction that is still running started before, so with no transaction
  running none is left.
\<close>

theorem retired_entries_freed:
  assumes "manager_run new_manager history m"
  shows "set (retired_entries (end_transaction t m))
    = {r \<in> set (retired_entries m).
        \<exists>t' n. t' \<noteq> t \<and> (t', n) \<in> set (transaction_sequence m) \<and> n < retired_at r}"
  using end_transaction_retired [OF manager_run_ok [OF assms manager_ok_new], of t]
  by (force simp: still_used_def set_delete)

lemma retired_entries_freed_witness:
  "retired_entries (end_transaction 7 (retire_entry ''t1''
     (start_transaction (7::nat) (new_manager :: (nat, string) manager)))) = []"
proof -
  let ?m = "retire_entry ''t1'' (start_transaction (7::nat) (new_manager :: (nat, string) manager))"
  have "manager_run (new_manager :: (nat, string) manager) [Start 7, Retire ''t1''] ?m"
    by (simp add: manager_run_simps manager_step_simps new_manager_def idx_max_def)
  from retired_entries_freed [OF this, of 7]
  have "set (retired_entries (end_transaction 7 ?m)) = {}"
    by (auto simp: retire_entry_def start_transaction_def new_manager_def)
  then show ?thesis by simp
qed

end
