(* ===== verification/Catalog_Entry.thy ===== *)
theory Catalog_Entry
  imports Glue_Format Glue_Types
begin

text \<open>
  The objects of the catalog: tables and views as entries of a Glue database
  (src/catalog/glue_view.cpp and \<open>CreateEntry\<close> of src/catalog/glue_table_set.cpp), the table set of a
  database and the schema entry that owns it. The parsed query of a view is DuckDB's and not part
  of its entry here.
\<close>

subsection \<open>Views\<close>

record glue_view =
  vw_select_sql :: string
  vw_sql :: string
  vw_aliases :: "string list"
  vw_secure :: bool
  vw_is_duckdb_view :: bool
  vw_unsupported_reason :: string

definition not_written_by_duckdb :: string where
  "not_written_by_duckdb = ''it was not written by DuckDB (no duckdb_view parameter); query it from the engine that wrote it''"

definition written_for_other :: "string \<Rightarrow> string \<Rightarrow> string" where
  "written_for_other written_for held_by =
     ''it was written for database '' @ [CHR 0x22] @ written_for @ [CHR 0x22] @ '' and is now in database '' @
     [CHR 0x22] @ held_by @ [CHR 0x22] @ ''; DuckDB binds a view in the database that holds it''"

definition view_unsupported_reason :: "duckdb \<Rightarrow> GlueTableInfo \<Rightarrow> string" where
  "view_unsupported_reason D t =
     (if \<not> CIEquals D (get_parameter D t ''duckdb_view'') ''true'' then not_written_by_duckdb
      else
        let written_for = get_parameter D t ''duckdb_view_default_database'';
            held_by = (if t_glue_database_name t = [] then t_schema_name t else t_glue_database_name t)
        in if written_for \<noteq> [] \<and> \<not> CIEquals D written_for held_by
           then written_for_other written_for held_by else [])"

definition view_aliases :: "duckdb \<Rightarrow> GlueTableInfo \<Rightarrow> string list" where
  "view_aliases D t =
     (if CIEquals D (get_parameter D t ''duckdb_view_column_alias_list'') ''true''
      then map col_name (t_columns t) else [])"

definition view_from_table_info :: "duckdb \<Rightarrow> GlueTableInfo \<Rightarrow> glue_view" where
  "view_from_table_info D t =
     (let select_sql = (if t_view_expanded_text t = [] then t_view_original_text t else t_view_expanded_text t);
          display_sql = (if t_view_original_text t = [] then t_view_expanded_text t else t_view_original_text t);
          secure = CIEquals D (get_parameter D t ''duckdb_view_secure'') ''true'';
          aliases = view_aliases D t;
          alias_list = Join D (map (SqlIdentifier D) aliases) '', '';
          header = ''CREATE '' @ (if secure then ''SECURE '' else []) @ ''VIEW '' @
            SqlIdentifier D (t_schema_name t) @ ''.'' @ SqlIdentifier D (t_name t) @
            (if alias_list \<noteq> [] then '' ('' @ alias_list @ '')'' else [])
      in \<lparr> vw_select_sql = select_sql, vw_sql = header @ '' AS '' @ display_sql @ '';'',
           vw_aliases = aliases, vw_secure = secure,
           vw_is_duckdb_view = CIEquals D (get_parameter D t ''duckdb_view'') ''true'',
           vw_unsupported_reason = view_unsupported_reason D t \<rparr>)"

definition is_supported :: "glue_view \<Rightarrow> bool" where
  "is_supported v \<longleftrightarrow> vw_unsupported_reason v = []"

subsection \<open>Entries\<close>

datatype CatalogType = TABLE_ENTRY | VIEW_ENTRY | OTHER_ENTRY string

record catalog_entry =
  e_type :: CatalogType
  e_name :: string
  e_comment :: string
  e_columns :: "(string \<times> LogicalType \<times> string) list"
  e_tags :: properties
  e_table_info :: GlueTableInfo
  e_view :: "glue_view option"

definition is_view :: "GlueTableInfo \<Rightarrow> bool" where
  "is_view t \<longleftrightarrow> t_table_type t = VIRTUAL_VIEW"

text \<open>The columns of a table, added one after the other: data columns, then partition keys.\<close>

fun add_entry_columns ::
  "duckdb \<Rightarrow> GlueColumn list \<Rightarrow> (string \<times> LogicalType \<times> string) list
     \<Rightarrow> (string \<times> LogicalType \<times> string) list result" where
  "add_entry_columns D [] added = Inr added"
| "add_entry_columns D (c # cs) added =
     and_then (to_logical_type D (col_type c)) (\<lambda>ty.
     and_then (AddColumn D (map fst added) (col_name c)) (\<lambda>_.
       add_entry_columns D cs (added @ [(col_name c, ty, col_comment c)])))"

definition build_entry :: "duckdb \<Rightarrow> GlueTableInfo \<Rightarrow> catalog_entry result" where
  "build_entry D t =
     (if is_view t then
        Inr \<lparr> e_type = VIEW_ENTRY, e_name = t_name t, e_comment = t_description t, e_columns = [],
              e_tags = t_parameters t, e_table_info = t, e_view = Some (view_from_table_info D t) \<rparr>
      else
        and_then (add_entry_columns D (t_columns t @ t_partition_keys t) []) (\<lambda>columns.
          Inr \<lparr> e_type = TABLE_ENTRY, e_name = t_name t, e_comment = t_description t,
                e_columns = columns,
                e_tags = [(''table_type'', glue_format_to_string (format (detect_format D t)))],
                e_table_info = t, e_view = None \<rparr>))"

subsection \<open>The table set and the schema entry\<close>

text \<open>
  The entries of a set are a \<open>case_insensitive_map_t\<close>: keys that differ in case only are the same
  key. \<open>ts_bulk_loaded_cache_id\<close> is 0 until a bulk fetch warmed a cache.
\<close>

record table_set =
  ts_entries :: "(string \<times> catalog_entry) list"
  ts_is_loaded :: bool
  ts_direct_lookups :: nat
  ts_bulk_loaded_cache_id :: nat
  ts_batch_forbidden :: bool

definition new_table_set :: table_set where
  "new_table_set = \<lparr> ts_entries = [], ts_is_loaded = False, ts_direct_lookups = 0,
     ts_bulk_loaded_cache_id = 0, ts_batch_forbidden = False \<rparr>"

record schema_entry =
  se_tables :: table_set
  se_database_info :: GlueDatabaseInfo
  se_info_loaded :: bool

text \<open>What the transaction manager keeps alive.\<close>

datatype retired_object = RetiredEntry catalog_entry | RetiredSchema schema_entry

subsection \<open>Case-insensitive maps\<close>

definition ci_find :: "duckdb \<Rightarrow> string \<Rightarrow> (string \<times> 'e) list \<Rightarrow> 'e option" where
  "ci_find D name m = map_option snd (find (\<lambda>p. CIEquals D (fst p) name) m)"

definition ci_erase :: "duckdb \<Rightarrow> string \<Rightarrow> (string \<times> 'e) list \<Rightarrow> (string \<times> 'e) list" where
  "ci_erase D name m = filter (\<lambda>p. \<not> CIEquals D (fst p) name) m"

definition ci_emplace :: "duckdb \<Rightarrow> string \<Rightarrow> 'e \<Rightarrow> (string \<times> 'e) list \<Rightarrow> (string \<times> 'e) list" where
  "ci_emplace D name e m = (case ci_find D name m of None \<Rightarrow> m @ [(name, e)] | Some _ \<Rightarrow> m)"

definition ci_distinct :: "duckdb \<Rightarrow> (string \<times> 'e) list \<Rightarrow> bool" where
  "ci_distinct D m \<longleftrightarrow> distinct (map (Lower D \<circ> fst) m)"

context string_util
begin

lemma ci_find_append:
  "ci_find D name (m @ m') = (case ci_find D name m of None \<Rightarrow> ci_find D name m' | Some e \<Rightarrow> Some e)"
  by (induction m) (auto simp: ci_find_def)

lemma ci_find_single: "ci_find D name [(k, e)] = (if CIEquals D k name then Some e else None)"
  by (simp add: ci_find_def)

lemma ci_find_erase:
  "ci_find D name' (ci_erase D name m) = (if CIEquals D name name' then None else ci_find D name' m)"
proof (induction m)
  case (Cons p m)
  then show ?case by (cases p) (auto simp: ci_find_def ci_erase_def CIEquals)
qed (simp add: ci_find_def ci_erase_def)

lemma ci_find_emplace:
  "ci_find D name' (ci_emplace D name e m) =
     (if CIEquals D name name' then (case ci_find D name m of None \<Rightarrow> Some e | Some old \<Rightarrow> Some old)
      else ci_find D name' m)"
proof -
  have "CIEquals D name name' \<Longrightarrow> ci_find D name' m = ci_find D name m"
    by (simp add: ci_find_def CIEquals)
  then show ?thesis
    by (auto simp: ci_emplace_def ci_find_append ci_find_single split: option.splits)
qed

lemma ci_find_None_iff: "ci_find D name m = None \<longleftrightarrow> Lower D name \<notin> (Lower D \<circ> fst) ` set m"
  by (force simp: ci_find_def find_None_iff CIEquals image_iff)

lemma ci_distinct_erase: "ci_distinct D m \<Longrightarrow> ci_distinct D (ci_erase D name m)"
  by (auto simp: ci_distinct_def ci_erase_def distinct_map intro: inj_on_subset)

lemma ci_distinct_emplace: "ci_distinct D m \<Longrightarrow> ci_distinct D (ci_emplace D name e m)"
  by (auto simp: ci_distinct_def ci_emplace_def ci_find_None_iff split: option.splits)

end

end
