(* ===== verification/Glue_Service.thy ===== *)
theory Glue_Service
  imports Glue_Cache Transactions Catalog_Entry
begin

text \<open>
  The Glue service as the extension talks to it, the state a statement runs in, and the steps every
  operation of src/api/ is made of (src/api/glue_api_util.cpp, src/include/api/glue_api_util.hpp and
  \<open>GlueTransactionCache::Invalidate\<close> of src/catalog/glue_transaction.cpp).

  The AWS SDK client and Glue behind it are not in this repository: they are the record
  \<open>service\<close>, one function per call over a world \<open>'w\<close>, an argument of every operation. \<open>AcquireClient\<close>
  is \<open>GlueAPI::GetClient\<close>, which builds the SDK client from the catalog's secret. The pauses between
  retries and the HTTP log scope change nothing the model sees and are left out.
\<close>

subsection \<open>Outcomes and requests\<close>

datatype glue_error_type =
  ACCESS_DENIED | ENTITY_NOT_FOUND | ALREADY_EXISTS | CONCURRENT_MODIFICATION | OTHER_ERROR

record glue_error =
  err_type :: glue_error_type
  err_name :: string
  err_message :: string

type_synonym 'a outcome = "glue_error + 'a"

text \<open>A request: the CatalogId it was given, if any, and its own members.\<close>

record 'b request =
  rq_catalog_id :: "string option"
  rq_body :: 'b

record tables_request =
  tsr_database_name :: string
  tsr_max_results :: "nat option"
  tsr_next_token :: "string option"

record table_name_request =
  tnr_database_name :: string
  tnr_name :: string

record table_input_request =
  tir_database_name :: string
  tir_table_input :: table_input
  tir_version_id :: "string option"

record databases_request =
  dsr_max_results :: "nat option"
  dsr_next_token :: "string option"

record database_input_request =
  dir_name :: string
  dir_database_input :: database_input

record partition_request =
  prq_database_name :: string
  prq_table_name :: string
  prq_values :: "string list"

record partition_input_request =
  pir_database_name :: string
  pir_table_name :: string
  pir_value_list :: "string list option"
  pir_partition_input :: partition_input

record partitions_request =
  psr_database_name :: string
  psr_table_name :: string
  psr_max_results :: nat
  psr_segment :: "(nat \<times> nat) option"
  psr_next_token :: "string option"

record partition_batch_request =
  pbr_database_name :: string
  pbr_table_name :: string
  pbr_partitions :: "string list list"

record partition_inputs_request =
  pis_database_name :: string
  pis_table_name :: string
  pis_inputs :: "partition_input list"

record partition_error =
  pe_values :: "string list"
  pe_code :: string
  pe_message :: string

text \<open>A page of a listing and the token of the next one, empty on the last.\<close>

type_synonym 'a page = "'a list \<times> string"

record 'w service =
  AcquireClient :: "'w \<Rightarrow> unit result \<times> 'w"
  GetTables :: "tables_request request \<Rightarrow> 'w \<Rightarrow> aws_table page outcome \<times> 'w"
  GetTable :: "table_name_request request \<Rightarrow> 'w \<Rightarrow> aws_table outcome \<times> 'w"
  CreateTable :: "table_input_request request \<Rightarrow> 'w \<Rightarrow> unit outcome \<times> 'w"
  UpdateTable :: "table_input_request request \<Rightarrow> 'w \<Rightarrow> unit outcome \<times> 'w"
  DeleteTable :: "table_name_request request \<Rightarrow> 'w \<Rightarrow> unit outcome \<times> 'w"
  GetDatabases :: "databases_request request \<Rightarrow> 'w \<Rightarrow> aws_database page outcome \<times> 'w"
  GetDatabase :: "string request \<Rightarrow> 'w \<Rightarrow> aws_database outcome \<times> 'w"
  CreateDatabase :: "database_input request \<Rightarrow> 'w \<Rightarrow> unit outcome \<times> 'w"
  UpdateDatabase :: "database_input_request request \<Rightarrow> 'w \<Rightarrow> unit outcome \<times> 'w"
  DeleteDatabase :: "string request \<Rightarrow> 'w \<Rightarrow> unit outcome \<times> 'w"
  GetPartition :: "partition_request request \<Rightarrow> 'w \<Rightarrow> aws_partition outcome \<times> 'w"
  GetPartitions :: "partitions_request request \<Rightarrow> 'w \<Rightarrow> aws_partition page outcome \<times> 'w"
  CreatePartition :: "partition_input_request request \<Rightarrow> 'w \<Rightarrow> unit outcome \<times> 'w"
  UpdatePartition :: "partition_input_request request \<Rightarrow> 'w \<Rightarrow> unit outcome \<times> 'w"
  DeletePartition :: "partition_request request \<Rightarrow> 'w \<Rightarrow> unit outcome \<times> 'w"
  BatchGetPartition ::
    "partition_batch_request request \<Rightarrow> 'w \<Rightarrow> (aws_partition list \<times> string list list) outcome \<times> 'w"
  BatchDeletePartition ::
    "partition_batch_request request \<Rightarrow> 'w \<Rightarrow> partition_error list outcome \<times> 'w"
  BatchCreatePartition ::
    "partition_inputs_request request \<Rightarrow> 'w \<Rightarrow> partition_error list outcome \<times> 'w"

subsection \<open>The state of a statement\<close>

record glue_catalog =
  cat_name :: string
  cat_oid :: nat
  cat_read_only :: bool
  cat_catalog_id :: string
  cat_region :: string
  cat_endpoint :: string
  cat_default_location :: string
  cat_default_schema :: string

text \<open>The settings of the connection the modelled code reads, \<open>None\<close> where one is not set or NULL.\<close>

record settings =
  set_metadata_cache_scope :: "string option"
  set_batch_table_lookup :: "bool option"
  set_get_partitions_segments :: "nat option"
  set_fail_partition_registration :: "string option"
  set_create_bucketed_tables :: "bool option"
  set_auto_commit :: bool
  set_cache_listings :: "bool option"
  set_partition_listing_threshold :: "nat option"
  set_csv_max_line_size :: "nat option"
  set_csv_parallel :: "bool option"

datatype GlueTransactionState =
  TRANSACTION_NOT_YET_STARTED | TRANSACTION_STARTED | TRANSACTION_FINISHED

record created_table =
  ct_catalog_id :: string
  ct_database_name :: string
  ct_table_name :: string

record glue_transaction =
  tx_id :: nat
  tx_cache :: nat
  tx_created_tables :: "created_table list"
  tx_state :: GlueTransactionState

text \<open>A listed file: its path and the size the listing reports, if it does (\<open>ListedFileSize\<close>).\<close>

record open_file =
  of_path :: string
  of_size :: "nat option"

record 'w session =
  s_world :: 'w
  s_settings :: settings
  s_caches :: "nat \<rightharpoonup> glue_cache"
  s_last_cache_id :: nat
  s_transaction :: "glue_transaction option"
  s_next_transaction :: nat
  s_manager :: "(nat, retired_object) manager"
  s_connection_caches :: "connection_caches option"
  s_listings :: "(string \<times> open_file list) list"
  s_log :: "string list"

text \<open>A computation on a state; an operation is one on the session.\<close>

type_synonym ('s, 'a) comp = "'s \<Rightarrow> 'a result \<times> 's"

type_synonym ('w, 'a) op = "('w session, 'a) comp"

definition return_op :: "'a \<Rightarrow> ('s, 'a) comp" where
  "return_op x s = (Inr x, s)"

definition throw_op :: "exn \<Rightarrow> ('s, 'a) comp" where
  "throw_op e s = (Inl e, s)"

definition lift_op :: "'a result \<Rightarrow> ('s, 'a) comp" where
  "lift_op r s = (r, s)"

definition bind_op :: "('s, 'a) comp \<Rightarrow> ('a \<Rightarrow> ('s, 'b) comp) \<Rightarrow> ('s, 'b) comp" where
  "bind_op m f s = (case m s of (Inl e, s') \<Rightarrow> (Inl e, s') | (Inr x, s') \<Rightarrow> f x s')"

text \<open>A call of the service: it changes the world only.\<close>

definition call_op :: "('w \<Rightarrow> 'a \<times> 'w) \<Rightarrow> ('w, 'a) op" where
  "call_op f s = (case f (s_world s) of (r, w) \<Rightarrow> (Inr r, s\<lparr>s_world := w\<rparr>))"

definition get_client :: "'w service \<Rightarrow> ('w, unit) op" where
  "get_client S = bind_op (call_op (AcquireClient S)) lift_op"

definition log_op :: "string \<Rightarrow> ('w, unit) op" where
  "log_op msg s = (Inr (), s\<lparr>s_log := s_log s @ [msg]\<rparr>)"

text \<open>
  A do-while loop: the body gives \<open>Inl\<close> the result of the loop or \<open>Inr\<close> what the next round starts
  from. The service decides how often it runs, hence the fuel.
\<close>

fun do_while :: "nat \<Rightarrow> ('b \<Rightarrow> ('s, 'a + 'b) comp) \<Rightarrow> 'b \<Rightarrow> ('s, 'a) comp" where
  "do_while 0 body x = throw_op OutOfFuel"
| "do_while (Suc n) body x =
     bind_op (body x) (\<lambda>r. case r of Inl y \<Rightarrow> return_op y | Inr x' \<Rightarrow> do_while n body x')"

fun for_each :: "('a \<Rightarrow> 'b \<Rightarrow> ('s, 'b) comp) \<Rightarrow> 'a list \<Rightarrow> 'b \<Rightarrow> ('s, 'b) comp" where
  "for_each f [] acc = return_op acc"
| "for_each f (x # xs) acc = bind_op (f x acc) (for_each f xs)"

text \<open>What a composed computation did when it succeeded.\<close>

lemma bind_op_Inr_iff:
  "bind_op m f s = (Inr y, s') \<longleftrightarrow> (\<exists>x s1. m s = (Inr x, s1) \<and> f x s1 = (Inr y, s'))"
  by (auto simp: bind_op_def split: prod.splits sum.splits)

lemma return_op_Inr_iff: "return_op x s = (Inr y, s') \<longleftrightarrow> y = x \<and> s' = s"
  by (auto simp: return_op_def)

lemma lift_op_Inr_iff: "lift_op r s = (Inr y, s') \<longleftrightarrow> r = Inr y \<and> s' = s"
  by (auto simp: lift_op_def)

lemmas comp_simps = bind_op_Inr_iff return_op_Inr_iff lift_op_Inr_iff throw_op_def

text \<open>What holds before every round of a loop and what its last round gives.\<close>

lemma do_while_induct:
  assumes "do_while n body x s = (Inr y, s')" "P x s"
    and "\<And>x s x' s'. P x s \<Longrightarrow> body x s = (Inr (Inr x'), s') \<Longrightarrow> P x' s'"
    and "\<And>x s y s'. P x s \<Longrightarrow> body x s = (Inr (Inl y), s') \<Longrightarrow> Q y s'"
  shows "Q y s'"
  using assms(1,2)
proof (induction n arbitrary: x s)
  case 0
  then show ?case by (simp add: throw_op_def)
next
  case (Suc n)
  then show ?case
    using assms(3,4) by (auto simp: bind_op_def return_op_def split: prod.splits sum.splits)
qed

lemma for_each_induct:
  assumes "for_each f xs acc s = (Inr acc', s')" "P [] acc s"
    and "\<And>past x acc s acc' s'. P past acc s \<Longrightarrow> x \<in> set xs \<Longrightarrow> f x acc s = (Inr acc', s')
       \<Longrightarrow> P (past @ [x]) acc' s'"
  shows "P xs acc' s'"
proof -
  have "P (past @ ys) acc' s'"
    if "for_each f ys acc s = (Inr acc', s')" "P past acc s" "set ys \<subseteq> set xs" for past ys acc s
    using that
  proof (induction ys arbitrary: past acc s)
    case Nil
    then show ?case by (simp add: return_op_def)
  next
    case (Cons y ys)
    from Cons.prems(1) obtain acc1 s1 where f: "f y acc s = (Inr acc1, s1)"
      and r: "for_each f ys acc1 s1 = (Inr acc', s')"
      by (auto simp: bind_op_def split: prod.splits sum.splits)
    from Cons.prems(3) have "y \<in> set xs" "set ys \<subseteq> set xs" by auto
    with Cons.IH [OF r assms(3) [OF Cons.prems(2) _ f]] show ?case by simp
  qed
  from this [of xs acc s "[]"] assms(1,2) show ?thesis by simp
qed

text \<open>A loop over a list ends without the fuel mark when each of its turns does.\<close>

lemma for_each_no_fuel:
  assumes "\<And>x acc s. x \<in> set xs \<Longrightarrow> fst (f x acc s) \<noteq> Inl OutOfFuel"
  shows "fst (for_each f xs acc s) \<noteq> Inl OutOfFuel"
  using assms
proof (induction xs arbitrary: acc s)
  case (Cons x xs)
  obtain r s1 where f: "f x acc s = (r, s1)" by fastforce
  with Cons.prems [of x acc s] Cons.IH Cons.prems show ?case
    by (cases r) (auto simp: bind_op_def)
qed (simp add: return_op_def)

text \<open>
  The interface of the loops whose rounds lower a measure: with more fuel than the measure they
  never run out of it.
\<close>

locale bounded_loop =
  fixes body :: "'b \<Rightarrow> 'w session \<Rightarrow> ('a + 'b) result \<times> 'w session"
    and rank :: "'b \<Rightarrow> nat"
    and valid :: "'b \<Rightarrow> bool"
  assumes lowers: "valid x \<Longrightarrow> body x s = (Inr (Inr x'), s') \<Longrightarrow> valid x' \<and> rank x' < rank x"
    and no_fuel_mark: "fst (body x s) \<noteq> Inl OutOfFuel"
begin

lemma ends: "valid x \<Longrightarrow> rank x < n \<Longrightarrow> fst (do_while n body x s) \<noteq> Inl OutOfFuel"
proof (induction n arbitrary: x s)
  case (Suc n)
  obtain r s1 where b: "body x s = (r, s1)" by fastforce
  show ?case
  proof (cases r)
    case (Inl e)
    then show ?thesis using b no_fuel_mark [of x s] by (auto simp: bind_op_def)
  next
    case (Inr q)
    show ?thesis
    proof (cases q)
      case (Inl y)
      then show ?thesis using b Inr by (simp add: bind_op_def return_op_def)
    next
      case q: (Inr x')
      then have "valid x'" "rank x' < rank x" using lowers [OF Suc.prems(1)] b Inr by auto
      with Suc q Inr b show ?thesis by (auto simp: bind_op_def)
    qed
  qed
qed simp

end

subsection \<open>Listing all pages\<close>

definition next_token_of :: "string \<Rightarrow> string option" where
  "next_token_of token = (if token \<noteq> [] then Some token else None)"

text \<open>
  The service lists \<open>pages\<close> from a token on: it answers with one page after the other, each but
  the last with the token of the next.
\<close>

inductive lists_pages ::
  "(string \<Rightarrow> 'w \<Rightarrow> 'a page outcome \<times> 'w) \<Rightarrow> string \<Rightarrow> 'w \<Rightarrow> 'a list list \<Rightarrow> 'w \<Rightarrow> bool"
  for call where
  last_page: "call token w = (Inr (xs, []), w') \<Longrightarrow> lists_pages call token w [xs] w'"
| next_page: "call token w = (Inr (xs, token'), w1) \<Longrightarrow> token' \<noteq> []
     \<Longrightarrow> lists_pages call token' w1 pages w' \<Longrightarrow> lists_pages call token w (xs # pages) w'"

inductive_cases lists_pagesE: "lists_pages call token w pages w'"

text \<open>The interface of the loops that list page by page: what a round does with a page.\<close>

locale paged_listing =
  fixes body :: "'b list \<times> string \<Rightarrow> 'w session \<Rightarrow> ('r + 'b list \<times> string) result \<times> 'w session"
    and call :: "string \<Rightarrow> 'w \<Rightarrow> 'a page outcome \<times> 'w"
    and conv :: "'a \<Rightarrow> 'b"
    and finish :: "'b list \<Rightarrow> 'r"
  assumes last: "call token (s_world s) = (Inr (xs, []), w)
      \<Longrightarrow> body (acc, token) s = (Inr (Inl (finish (acc @ map conv xs))), s\<lparr>s_world := w\<rparr>)"
    and more: "call token (s_world s) = (Inr (xs, token'), w) \<Longrightarrow> token' \<noteq> []
      \<Longrightarrow> body (acc, token) s = (Inr (Inr (acc @ map conv xs, token')), s\<lparr>s_world := w\<rparr>)"
begin

lemma lists_all:
  assumes "lists_pages call token w0 pages w" "s_world s = w0" "length pages \<le> fuel"
  shows "do_while fuel body (acc, token) s
    = (Inr (finish (acc @ map conv (concat pages))), s\<lparr>s_world := w\<rparr>)"
  using assms
proof (induction arbitrary: s acc fuel rule: lists_pages.induct)
  case (last_page token w xs w')
  then obtain n where "fuel = Suc n" by (cases fuel) auto
  with last_page last [of token s xs w' acc] show ?case
    by (simp add: bind_op_def return_op_def)
next
  case (next_page token w xs token' w1 pages w')
  then obtain n where n: "fuel = Suc n" "length pages \<le> n" by (cases fuel) auto
  have "do_while fuel body (acc, token) s
      = do_while n body (acc @ map conv xs, token') (s\<lparr>s_world := w1\<rparr>)"
    using more [of token s xs token' w1 acc] next_page.hyps(1,2) next_page.prems(1) n(1)
    by (simp add: bind_op_def)
  with next_page.IH [of "s\<lparr>s_world := w1\<rparr>" n "acc @ map conv xs"] n(2) show ?case by simp
qed

end

subsection \<open>Helpers of the API\<close>

definition to_columns :: "aws_column list \<Rightarrow> GlueColumn list" where
  "to_columns cs = map (\<lambda>c. new_column\<lparr>col_name := ac_name c, col_type := ac_type c,
                              col_comment := ac_comment c\<rparr>) cs"

definition to_aws_columns :: "GlueColumn list \<Rightarrow> aws_column list" where
  "to_aws_columns cs = map (\<lambda>c. \<lparr>ac_name = col_name c, ac_type = col_type c,
                              ac_comment = col_comment c, ac_parameters = []\<rparr>) cs"

definition to_aws_map :: "properties \<Rightarrow> properties" where
  "to_aws_map input = fold (\<lambda>(k, v). emplace k v) input []"

definition to_database_info :: "aws_database \<Rightarrow> GlueDatabaseInfo" where
  "to_database_info d =
     \<lparr> d_catalog_id = opt_string (db_catalog_id d),
       d_is_resource_link = (db_target_database d \<noteq> None),
       d_name = db_name d, d_description = db_description d,
       d_location_uri = db_location_uri d, d_parameters = db_parameters d \<rparr>"

definition to_table_info :: "duckdb \<Rightarrow> aws_table \<Rightarrow> string \<Rightarrow> GlueTableInfo" where
  "to_table_info D t schema_name =
     (let sd = tb_storage_descriptor t in
      new_table\<lparr>
        t_name := tb_name t,
        t_schema_name := schema_name,
        t_glue_database_name := tb_database_name t,
        t_glue_table_type := opt_string (tb_table_type t),
        t_table_type := glue_table_type_from_string D (opt_string (tb_table_type t)),
        t_view_original_text := opt_string (tb_view_original_text t),
        t_view_expanded_text := opt_string (tb_view_expanded_text t),
        t_description := opt_string (tb_description t),
        t_version_id := opt_string (tb_version_id t),
        t_create_time_ms := (case tb_create_time t of None \<Rightarrow> 0 | Some ms \<Rightarrow> ms),
        t_location := sd_location sd,
        t_input_format := sd_input_format sd,
        t_output_format := sd_output_format sd,
        t_serde_library := sd_serde_library sd,
        t_serde_parameters := sd_serde_parameters sd,
        t_columns := to_columns (sd_columns sd),
        t_partition_keys := to_columns (opt_list (tb_partition_keys t)),
        t_bucket_columns := sd_bucket_columns sd,
        t_number_of_buckets := (case sd_number_of_buckets sd of None \<Rightarrow> -1 | Some n \<Rightarrow> n),
        t_sort_columns := map (\<lambda>(name, order). new_column\<lparr>col_name := name,
            col_sort_order := (if order = 0 then DESCENDING else ASCENDING)\<rparr>) (sd_sort_columns sd),
        t_parameters := opt_list (tb_parameters t),
        t_fetched := Some t \<rparr>)"

definition fetched_table :: "GlueTableInfo \<Rightarrow> aws_table result" where
  "fetched_table t = (case t_fetched t of
     None \<Rightarrow> Inl (InternalException ''Table was not fetched from Glue'' [t_schema_name t, t_name t])
   | Some raw \<Rightarrow> Inr raw)"

definition partition_values_to_string :: "duckdb \<Rightarrow> string list \<Rightarrow> string" where
  "partition_values_to_string D values = Join D values '', ''"

definition fetched_partition ::
  "duckdb \<Rightarrow> GluePartitionDetails \<Rightarrow> string \<Rightarrow> string \<Rightarrow> aws_partition result" where
  "fetched_partition D p database_name table_name = (case p_fetched p of
     None \<Rightarrow> Inl (InternalException ''Partition was not fetched from Glue''
               [partition_values_to_string D (p_values p), database_name, table_name])
   | Some raw \<Rightarrow> Inr raw)"

definition check_writable :: "glue_catalog \<Rightarrow> string \<Rightarrow> unit result" where
  "check_writable cat operation =
     (if cat_read_only cat
      then Inl (InvalidInputException ''Cannot execute Glue operation in read-only mode''
                  [operation, cat_name cat])
      else Inr ())"

definition set_catalog_id :: "glue_catalog \<Rightarrow> 'b \<Rightarrow> 'b request" where
  "set_catalog_id cat body =
     \<lparr>rq_catalog_id = (if cat_catalog_id cat \<noteq> [] then Some (cat_catalog_id cat) else None),
      rq_body = body\<rparr>"

definition throw_glue_error :: "glue_error \<Rightarrow> string \<Rightarrow> exn" where
  "throw_glue_error e operation = GlueException operation (err_type e = ACCESS_DENIED)"

definition is_entity_not_found :: "glue_error \<Rightarrow> bool" where
  "is_entity_not_found e \<longleftrightarrow> err_type e = ENTITY_NOT_FOUND"

definition is_access_denied :: "glue_error \<Rightarrow> bool" where
  "is_access_denied e \<longleftrightarrow> err_type e = ACCESS_DENIED"

definition is_already_exists :: "glue_error \<Rightarrow> bool" where
  "is_already_exists e \<longleftrightarrow> err_type e = ALREADY_EXISTS"

subsection \<open>Transactions and invalidation\<close>

definition connection_scoped :: "duckdb \<Rightarrow> settings \<Rightarrow> bool" where
  "connection_scoped D st = (case set_metadata_cache_scope st of
     None \<Rightarrow> False | Some scope \<Rightarrow> Lower D scope = ''connection'')"

text \<open>
  The transaction of the catalog, started when there is none: \<open>GlueTransaction\<close>'s constructor takes
  the connection's cache for the alias under the connection scope, else a cache of its own; caches
  are numbered by \<open>NextId\<close>, transactions by \<open>tx_id\<close>, the name the manager knows them by.
\<close>

definition begin_transaction :: "duckdb \<Rightarrow> glue_catalog \<Rightarrow> 'w session \<Rightarrow> glue_transaction \<times> 'w session" where
  "begin_transaction D cat s0 =
     (let fresh = Suc (s_last_cache_id s0);
          tid = s_next_transaction s0;
          tx = \<lambda>cid. \<lparr>tx_id = tid, tx_cache = cid, tx_created_tables = [], tx_state = TRANSACTION_STARTED\<rparr>;
          s = s0\<lparr>s_next_transaction := Suc tid, s_manager := start_transaction tid (s_manager s0)\<rparr> in
      if connection_scoped D (s_settings s) then
        (case state_get_cache (cat_name cat) (cat_oid cat) fresh (opt_list (s_connection_caches s)) of
           (cid, is_new, caches) \<Rightarrow>
             (tx cid,
              s\<lparr>s_connection_caches := Some caches,
                s_caches := (if is_new then (s_caches s)(cid \<mapsto> new_cache) else s_caches s),
                s_last_cache_id := (if is_new then fresh else s_last_cache_id s),
                s_transaction := Some (tx cid)\<rparr>))
      else
        (tx fresh, s\<lparr>s_caches := (s_caches s)(fresh \<mapsto> new_cache), s_last_cache_id := fresh,
                     s_transaction := Some (tx fresh)\<rparr>))"

definition get_transaction :: "duckdb \<Rightarrow> glue_catalog \<Rightarrow> 'w session \<Rightarrow> glue_transaction \<times> 'w session" where
  "get_transaction D cat s =
     (case s_transaction s of Some tx \<Rightarrow> (tx, s) | None \<Rightarrow> begin_transaction D cat s)"

definition invalidate :: "duckdb \<Rightarrow> glue_catalog \<Rightarrow> 'w session \<Rightarrow> 'w session" where
  "invalidate D cat s =
     (case get_transaction D cat s of (tx, s1) \<Rightarrow>
        let s2 = s1\<lparr>s_caches := (s_caches s1)
                     (tx_cache tx := map_option clear_cache (s_caches s1 (tx_cache tx)))\<rparr>;
            s3 = (case s_connection_caches s2 of
                    None \<Rightarrow> s2
                  | Some caches \<Rightarrow> s2\<lparr>s_caches := state_clear_all caches (s_caches s2)\<rparr>)
        in s3\<lparr>s_listings := []\<rparr>)"

text \<open>\<open>InvalidateOnExit\<close>: however the operation ends.\<close>

definition invalidate_on_exit :: "duckdb \<Rightarrow> glue_catalog \<Rightarrow> ('w, 'a) op \<Rightarrow> ('w, 'a) op" where
  "invalidate_on_exit D cat m s = (case m s of (r, s') \<Rightarrow> (r, invalidate D cat s'))"

definition on_detach :: "glue_catalog \<Rightarrow> 'w session \<Rightarrow> 'w session" where
  "on_detach cat s =
     s\<lparr>s_connection_caches := map_option (state_erase_cache (cat_name cat) (cat_oid cat))
         (s_connection_caches s),
       s_listings := []\<rparr>"

text \<open>\<open>GlueCatalog::ThrowIfInExplicitTransaction\<close> (src/catalog/glue_catalog.cpp).\<close>

definition throw_if_in_explicit_transaction :: "string \<Rightarrow> ('w, unit) op" where
  "throw_if_in_explicit_transaction function_name s =
     (if set_auto_commit (s_settings s) then (Inr (), s)
      else (Inl (TransactionException ''changes Glue, which has no transactions'' [function_name]), s))"

definition refuse_explicit_transaction :: "('w, unit) op" where
  "refuse_explicit_transaction s =
     (if set_auto_commit (s_settings s) then (Inr (), s)
      else (Inl (TransactionException ''Transaction support is not provided for Glue catalogs'' []), s))"

subsection \<open>Mutations leave no metadata behind\<close>

definition cache_empty :: "glue_cache \<Rightarrow> bool" where
  "cache_empty c \<longleftrightarrow> sl_index (gc_tables c) = Map.empty \<and> sl_index (gc_partitions c) = Map.empty"

lemma cache_empty_clear [simp]: "cache_empty (clear_cache c)"
  by (simp add: cache_empty_def clear_cache_def clear_slots_def)

text \<open>No cache a statement of the connection could read from holds anything.\<close>

definition no_metadata :: "'w session \<Rightarrow> bool" where
  "no_metadata s \<longleftrightarrow>
     (\<forall>tx c. s_transaction s = Some tx \<longrightarrow> s_caches s (tx_cache tx) = Some c \<longrightarrow> cache_empty c) \<and>
     (\<forall>caches e c. s_connection_caches s = Some caches \<longrightarrow> e \<in> set caches \<longrightarrow>
        s_caches s (snd (snd e)) = Some c \<longrightarrow> cache_empty c) \<and>
     s_listings s = []"

lemma get_transaction_active: "get_transaction D cat s = (tx, s') \<Longrightarrow> s_transaction s' = Some tx"
  by (auto simp: get_transaction_def begin_transaction_def Let_def split: option.splits if_splits prod.splits)

lemma no_metadata_invalidate: "no_metadata (invalidate D cat s)"
proof -
  obtain tx s1 where "get_transaction D cat s = (tx, s1)" "s_transaction s1 = Some tx"
    using get_transaction_active by (metis surj_pair)
  then show ?thesis
    by (auto simp: invalidate_def no_metadata_def Let_def state_clear_all_def image_iff
        split: option.splits)
qed

lemma invalidate_transaction: "\<exists>tx. s_transaction (invalidate D cat s) = Some tx"
proof -
  obtain tx s1 where "get_transaction D cat s = (tx, s1)" "s_transaction s1 = Some tx"
    using get_transaction_active by (metis surj_pair)
  then show ?thesis by (auto simp: invalidate_def Let_def split: option.splits)
qed

lemma s_world_invalidate [simp]: "s_world (invalidate D cat s) = s_world s"
  by (auto simp: invalidate_def get_transaction_def begin_transaction_def Let_def
      split: option.splits if_splits prod.splits)

text \<open>The interface of everything that changes Glue: afterwards no cached metadata is left.\<close>

locale mutation =
  fixes mutate :: "'w session \<Rightarrow> 'a result \<times> 'w session"
  assumes leaves_no_metadata: "no_metadata (snd (mutate s))"
begin

lemma no_metadata_after: "mutate s = (r, s') \<Longrightarrow> no_metadata s'"
  using leaves_no_metadata [of s] by simp

lemma nothing_cached_after:
  assumes "mutate s = (r, s')" "s_transaction s' = Some tx" "s_caches s' (tx_cache tx) = Some c"
  shows "cached D key (gc_tables c) = None" "cached D key (gc_partitions c) = None"
  using no_metadata_after [OF assms(1)] assms(2,3)
  by (auto simp: no_metadata_def cache_empty_def cached_def)

end

interpretation invalidated: mutation "invalidate_on_exit D cat m" for D cat m
  by unfold_locales (simp add: invalidate_on_exit_def no_metadata_invalidate split: prod.split)

end
