(* ===== verification/Sample_Glue.thy ===== *)
theory Sample_Glue
  imports Glue_Service
begin

text \<open>
  A small Glue to evaluate statements on: a world of tables, databases and partitions kept in
  memory, with versions, pages of two and the documented errors. Nothing about the extension rests
  on it; the witnesses instantiate the service with it.
\<close>

record sample_world =
  sw_tables :: "((string \<times> string) \<times> aws_table) list"
  sw_databases :: "(string \<times> aws_database) list"
  sw_partitions :: "((string \<times> string) \<times> aws_partition list) list"
  sw_version :: nat

definition sample_error :: "glue_error_type \<Rightarrow> glue_error" where
  "sample_error ty = \<lparr>err_type = ty, err_name = ''Error'', err_message = []\<rparr>"

text \<open>What Glue holds of a table once an input was accepted under a version.\<close>

definition store_input :: "table_input \<Rightarrow> string \<Rightarrow> aws_table \<Rightarrow> aws_table" where
  "store_input i version t =
     t\<lparr>tb_description := ti_description i, tb_owner := ti_owner i,
       tb_last_access_time := ti_last_access_time i,
       tb_last_analyzed_time := ti_last_analyzed_time i, tb_retention := ti_retention i,
       tb_storage_descriptor := ti_storage_descriptor i, tb_partition_keys := ti_partition_keys i,
       tb_view_original_text := ti_view_original_text i,
       tb_view_expanded_text := ti_view_expanded_text i, tb_table_type := ti_table_type i,
       tb_parameters := ti_parameters i, tb_target_table := ti_target_table i,
       tb_version_id := Some version\<rparr>"

definition blank_table :: "string \<Rightarrow> string \<Rightarrow> aws_table" where
  "blank_table database_name name =
     \<lparr> tb_name = name, tb_database_name = database_name, tb_description = None, tb_owner = None,
       tb_last_access_time = None, tb_last_analyzed_time = None, tb_retention = None,
       tb_storage_descriptor = empty_descriptor, tb_partition_keys = None,
       tb_view_original_text = None, tb_view_expanded_text = None, tb_table_type = None,
       tb_parameters = None, tb_target_table = None, tb_version_id = None, tb_create_time = None \<rparr>"

definition sample_get_tables ::
  "tables_request request \<Rightarrow> sample_world \<Rightarrow> aws_table page outcome \<times> sample_world" where
  "sample_get_tables rq w =
     (let b = rq_body rq;
          all = map snd (filter (\<lambda>e. fst (fst e) = tsr_database_name b) (sw_tables w));
          rest = drop (case tsr_next_token b of None \<Rightarrow> 0 | Some token \<Rightarrow> length token) all
      in (Inr (take 2 rest, if length rest > 2 then replicate (length all - length rest + 2) CHR ''+'' else []), w))"

definition sample_get_table ::
  "table_name_request request \<Rightarrow> sample_world \<Rightarrow> aws_table outcome \<times> sample_world" where
  "sample_get_table rq w =
     (case map_of (sw_tables w) (tnr_database_name (rq_body rq), tnr_name (rq_body rq)) of
        None \<Rightarrow> (Inl (sample_error ENTITY_NOT_FOUND), w) | Some t \<Rightarrow> (Inr t, w))"

definition sample_create_table ::
  "table_input_request request \<Rightarrow> sample_world \<Rightarrow> unit outcome \<times> sample_world" where
  "sample_create_table rq w =
     (let i = tir_table_input (rq_body rq); key = (tir_database_name (rq_body rq), ti_name i) in
      case map_of (sw_tables w) key of
        Some _ \<Rightarrow> (Inl (sample_error ALREADY_EXISTS), w)
      | None \<Rightarrow> (Inr (), w\<lparr>sw_tables := sw_tables w @
            [(key, store_input i (nat_digits (sw_version w)) (blank_table (fst key) (snd key)))],
          sw_version := Suc (sw_version w)\<rparr>))"

definition sample_update_table ::
  "table_input_request request \<Rightarrow> sample_world \<Rightarrow> unit outcome \<times> sample_world" where
  "sample_update_table rq w =
     (let i = tir_table_input (rq_body rq); key = (tir_database_name (rq_body rq), ti_name i) in
      case map_of (sw_tables w) key of
        None \<Rightarrow> (Inl (sample_error ENTITY_NOT_FOUND), w)
      | Some t \<Rightarrow>
          if tir_version_id (rq_body rq) \<noteq> None \<and> tir_version_id (rq_body rq) \<noteq> tb_version_id t
          then (Inl (sample_error CONCURRENT_MODIFICATION), w)
          else (Inr (), w\<lparr>sw_tables := AList.update key (store_input i (nat_digits (sw_version w)) t)
                  (sw_tables w), sw_version := Suc (sw_version w)\<rparr>))"

definition sample_delete_table ::
  "table_name_request request \<Rightarrow> sample_world \<Rightarrow> unit outcome \<times> sample_world" where
  "sample_delete_table rq w =
     (let key = (tnr_database_name (rq_body rq), tnr_name (rq_body rq)) in
      case map_of (sw_tables w) key of
        None \<Rightarrow> (Inl (sample_error ENTITY_NOT_FOUND), w)
      | Some _ \<Rightarrow> (Inr (), w\<lparr>sw_tables := AList.delete key (sw_tables w)\<rparr>))"

definition sample_get_database ::
  "string request \<Rightarrow> sample_world \<Rightarrow> aws_database outcome \<times> sample_world" where
  "sample_get_database rq w =
     (case map_of (sw_databases w) (rq_body rq) of
        None \<Rightarrow> (Inl (sample_error ENTITY_NOT_FOUND), w) | Some d \<Rightarrow> (Inr d, w))"

definition sample_store_database :: "database_input \<Rightarrow> aws_database" where
  "sample_store_database i =
     \<lparr> db_name = di_name i, db_catalog_id = None, db_description = opt_string (di_description i),
       db_location_uri = opt_string (di_location_uri i), db_parameters = opt_list (di_parameters i),
       db_target_database = di_target_database i,
       db_create_table_default_permissions = di_create_table_default_permissions i,
       db_federated_database = di_federated_database i \<rparr>"

definition sample_partitions_of :: "sample_world \<Rightarrow> string \<times> string \<Rightarrow> aws_partition list" where
  "sample_partitions_of w key = (case map_of (sw_partitions w) key of None \<Rightarrow> [] | Some ps \<Rightarrow> ps)"

definition sample_put_partitions ::
  "string \<times> string \<Rightarrow> aws_partition list \<Rightarrow> sample_world \<Rightarrow> sample_world" where
  "sample_put_partitions key ps w = w\<lparr>sw_partitions := AList.update key ps (sw_partitions w)\<rparr>"

definition sample_stored_partition :: "partition_input \<Rightarrow> aws_partition" where
  "sample_stored_partition i =
     \<lparr> pt_values = pi_values i, pt_storage_descriptor = pi_storage_descriptor i,
       pt_parameters = opt_list (pi_parameters i) \<rparr>"

definition sample_get_partitions ::
  "partitions_request request \<Rightarrow> sample_world \<Rightarrow> aws_partition page outcome \<times> sample_world" where
  "sample_get_partitions rq w =
     (let b = rq_body rq;
          all = sample_partitions_of w (psr_database_name b, psr_table_name b);
          mine = (case psr_segment b of None \<Rightarrow> all
                  | Some (i, n) \<Rightarrow> map snd (filter (\<lambda>e. fst e mod n = i) (enumerate 0 all)));
          rest = drop (case psr_next_token b of None \<Rightarrow> 0 | Some token \<Rightarrow> length token) mine
      in (Inr (take 2 rest, if length rest > 2 then replicate (length mine - length rest + 2) CHR ''+'' else []), w))"

definition sample_batch_create ::
  "partition_inputs_request request \<Rightarrow> sample_world \<Rightarrow> partition_error list outcome \<times> sample_world" where
  "sample_batch_create rq w =
     (let b = rq_body rq; key = (pis_database_name b, pis_table_name b);
          old = sample_partitions_of w key;
          is_old = (\<lambda>i. pi_values i \<in> set (map pt_values old))
      in (Inr (map (\<lambda>i. \<lparr>pe_values = pi_values i, pe_code = ''AlreadyExistsException'',
                         pe_message = []\<rparr>) (filter is_old (pis_inputs b))),
          sample_put_partitions key
            (old @ map sample_stored_partition (filter (\<lambda>i. \<not> is_old i) (pis_inputs b))) w))"

definition sample_has :: "sample_world \<Rightarrow> string \<times> string \<Rightarrow> string list \<Rightarrow> bool" where
  "sample_has w key values \<longleftrightarrow> values \<in> set (map pt_values (sample_partitions_of w key))"

definition sample_update_partition ::
  "partition_input_request request \<Rightarrow> sample_world \<Rightarrow> unit outcome \<times> sample_world" where
  "sample_update_partition rq w =
     (let b = rq_body rq; key = (pir_database_name b, pir_table_name b);
          old = opt_list (pir_value_list b); new = pi_values (pir_partition_input b)
      in if \<not> sample_has w key old then (Inl (sample_error ENTITY_NOT_FOUND), w)
         else if new \<noteq> old \<and> sample_has w key new then (Inl (sample_error ALREADY_EXISTS), w)
         else (Inr (), sample_put_partitions key (map (\<lambda>p. if pt_values p = old
                 then sample_stored_partition (pir_partition_input b) else p) (sample_partitions_of w key)) w))"

definition sample_glue :: "sample_world service" where
  "sample_glue = \<lparr>
     AcquireClient = Pair (Inr ()),
     GetTables = sample_get_tables, GetTable = sample_get_table,
     CreateTable = sample_create_table, UpdateTable = sample_update_table,
     DeleteTable = sample_delete_table,
     GetDatabases = (\<lambda>rq w. (Inr (map snd (sw_databases w), []), w)),
     GetDatabase = sample_get_database,
     CreateDatabase = (\<lambda>rq w. case map_of (sw_databases w) (di_name (rq_body rq)) of
         Some _ \<Rightarrow> (Inl (sample_error ALREADY_EXISTS), w)
       | None \<Rightarrow> (Inr (), w\<lparr>sw_databases := sw_databases w @
                   [(di_name (rq_body rq), sample_store_database (rq_body rq))]\<rparr>)),
     UpdateDatabase = (\<lambda>rq w. (Inr (), w\<lparr>sw_databases := AList.update (dir_name (rq_body rq))
         (sample_store_database (dir_database_input (rq_body rq))) (sw_databases w)\<rparr>)),
     DeleteDatabase = (\<lambda>rq w. case map_of (sw_databases w) (rq_body rq) of
         None \<Rightarrow> (Inl (sample_error ENTITY_NOT_FOUND), w)
       | Some _ \<Rightarrow> (Inr (), w\<lparr>sw_databases := AList.delete (rq_body rq) (sw_databases w)\<rparr>)),
     GetPartition = (\<lambda>rq w. case find (\<lambda>p. pt_values p = prq_values (rq_body rq))
         (sample_partitions_of w (prq_database_name (rq_body rq), prq_table_name (rq_body rq))) of
         None \<Rightarrow> (Inl (sample_error ENTITY_NOT_FOUND), w) | Some p \<Rightarrow> (Inr p, w)),
     GetPartitions = sample_get_partitions,
     CreatePartition = (\<lambda>rq w. let b = rq_body rq; key = (pir_database_name b, pir_table_name b) in
         if sample_has w key (pi_values (pir_partition_input b)) then (Inl (sample_error ALREADY_EXISTS), w)
         else (Inr (), sample_put_partitions key (sample_partitions_of w key @
            [sample_stored_partition (pir_partition_input b)]) w)),
     UpdatePartition = sample_update_partition,
     DeletePartition = (\<lambda>rq w. let b = rq_body rq; key = (prq_database_name b, prq_table_name b) in
         if \<not> sample_has w key (prq_values b) then (Inl (sample_error ENTITY_NOT_FOUND), w)
         else (Inr (), sample_put_partitions key
            (filter (\<lambda>p. pt_values p \<noteq> prq_values b) (sample_partitions_of w key)) w)),
     BatchGetPartition = (\<lambda>rq w. let b = rq_body rq in
         (Inr (filter (\<lambda>p. pt_values p \<in> set (pbr_partitions b))
            (sample_partitions_of w (pbr_database_name b, pbr_table_name b)), []), w)),
     BatchDeletePartition = (\<lambda>rq w. let b = rq_body rq; key = (pbr_database_name b, pbr_table_name b) in
         (Inr [], sample_put_partitions key
            (filter (\<lambda>p. pt_values p \<notin> set (pbr_partitions b)) (sample_partitions_of w key)) w)),
     BatchCreatePartition = sample_batch_create \<rparr>"

lemma sample_glue_sel [simp]:
  "AcquireClient sample_glue = Pair (Inr ())" "GetTables sample_glue = sample_get_tables"
  "GetTable sample_glue = sample_get_table" "CreateTable sample_glue = sample_create_table"
  "UpdateTable sample_glue = sample_update_table" "DeleteTable sample_glue = sample_delete_table"
  "GetDatabase sample_glue = sample_get_database" "GetPartitions sample_glue = sample_get_partitions"
  "BatchCreatePartition sample_glue = sample_batch_create"
  "UpdatePartition sample_glue = sample_update_partition"
  by (simp_all add: sample_glue_def)

definition sample_settings :: settings where
  "sample_settings = \<lparr> set_metadata_cache_scope = None, set_batch_table_lookup = None,
     set_get_partitions_segments = None, set_fail_partition_registration = None,
     set_create_bucketed_tables = None, set_auto_commit = True, set_cache_listings = None,
     set_partition_listing_threshold = None, set_csv_max_line_size = None, set_csv_parallel = None \<rparr>"

definition sample_catalog :: glue_catalog where
  "sample_catalog = \<lparr> cat_name = ''lake'', cat_oid = 7, cat_read_only = False, cat_catalog_id = [],
     cat_region = [], cat_endpoint = [], cat_default_location = [], cat_default_schema = [] \<rparr>"

text \<open>A connection with no transaction yet, on a world.\<close>

definition sample_session :: "'w \<Rightarrow> 'w session" where
  "sample_session w = \<lparr> s_world = w, s_settings = sample_settings, s_caches = Map.empty,
     s_last_cache_id = 0, s_transaction = None, s_next_transaction = 0, s_manager = new_manager,
     s_connection_caches = None, s_listings = [],
     s_log = [] \<rparr>"

definition sample_table :: "string \<Rightarrow> string \<Rightarrow> aws_table" where
  "sample_table database_name name = (blank_table database_name name)
     \<lparr>tb_version_id := Some ''1'', tb_owner := Some ''etl'', tb_table_type := Some ''EXTERNAL_TABLE'',
      tb_storage_descriptor := empty_descriptor\<lparr>sd_location := ''s3://lake/'' @ name,
        sd_columns := [\<lparr>ac_name = ''id'', ac_type = ''bigint'', ac_comment = [], ac_parameters = []\<rparr>]\<rparr>\<rparr>"

definition sample_lake :: sample_world where
  "sample_lake = \<lparr> sw_tables = map (\<lambda>n. ((''db'', n), sample_table ''db'' n)) [''a'', ''b'', ''c''],
     sw_databases = [], sw_partitions = [], sw_version = 2 \<rparr>"

end
