(* ===== verification/Table_Api.thy ===== *)
theory Table_Api
  imports Sample_Glue
begin

text \<open>
  src/api/glue_table_api.cpp: listing, reading, creating, updating and deleting the tables and views of
  a Glue database, each as an operation on the session. The JSON rendering of a fetched table is the
  SDK's and is left out: a fetched table carries the SDK's object. Messages are their leading words.
\<close>

subsection \<open>Listing\<close>

definition tables_request_for ::
  "glue_catalog \<Rightarrow> string \<Rightarrow> nat option \<Rightarrow> string \<Rightarrow> tables_request request" where
  "tables_request_for cat database_name max_results token =
     set_catalog_id cat \<lparr>tsr_database_name = database_name, tsr_max_results = max_results,
                         tsr_next_token = next_token_of token\<rparr>"

text \<open>One round of the loop of \<open>GetTables\<close>, on the tables so far and the token of the next page.\<close>

definition get_tables_page ::
  "duckdb \<Rightarrow> glue_catalog \<Rightarrow> 'w service \<Rightarrow> string \<Rightarrow> bool \<Rightarrow> bool \<Rightarrow> GlueTableInfo list \<times> string
     \<Rightarrow> ('w, (GlueTableInfo list \<times> bool) + (GlueTableInfo list \<times> string)) op" where
  "get_tables_page D cat S database_name single_page throw_if_denied st =
     (case st of (result, token) \<Rightarrow>
      bind_op (call_op (GetTables S (tables_request_for cat database_name None token))) (\<lambda>outcome.
        case outcome of
          Inl e \<Rightarrow>
            if is_entity_not_found e then return_op (Inl ([], False))
            else if is_access_denied e \<and> \<not> single_page \<and> \<not> throw_if_denied
            then bind_op (log_op (''Not listing the tables of Glue database '' @ database_name))
                   (\<lambda>_. return_op (Inl ([], False)))
            else throw_op (throw_glue_error e (''GetTables '' @ database_name))
        | Inr (tables, token') \<Rightarrow>
            let result' = result @ map (\<lambda>t. to_table_info D t database_name) tables in
            if single_page then return_op (Inl (result', token' \<noteq> []))
            else if token' \<noteq> [] then return_op (Inr (result', token'))
            else return_op (Inl (result', False))))"

text \<open>The tables and \<open>has_more\<close>.\<close>

definition get_tables ::
  "nat \<Rightarrow> duckdb \<Rightarrow> glue_catalog \<Rightarrow> 'w service \<Rightarrow> string \<Rightarrow> bool \<Rightarrow> bool
     \<Rightarrow> ('w, GlueTableInfo list \<times> bool) op" where
  "get_tables fuel D cat S database_name single_page throw_if_denied =
     bind_op (get_client S) (\<lambda>_.
       do_while fuel (get_tables_page D cat S database_name single_page throw_if_denied) ([], []))"

definition any_table_page ::
  "glue_catalog \<Rightarrow> 'w service \<Rightarrow> string \<Rightarrow> string \<Rightarrow> ('w, string option + string) op" where
  "any_table_page cat S database_name token =
     bind_op (call_op (GetTables S (tables_request_for cat database_name (Some 1) token))) (\<lambda>outcome.
       case outcome of
         Inl e \<Rightarrow> throw_op (throw_glue_error e (''GetTables '' @ database_name))
       | Inr (tables, token') \<Rightarrow>
           if tables \<noteq> [] then return_op (Inl (Some (tb_name (hd tables))))
           else if token' \<noteq> [] then return_op (Inr token')
           else return_op (Inl None))"

definition get_any_table_name ::
  "nat \<Rightarrow> glue_catalog \<Rightarrow> 'w service \<Rightarrow> string \<Rightarrow> ('w, string option) op" where
  "get_any_table_name fuel cat S database_name =
     bind_op (get_client S) (\<lambda>_. do_while fuel (any_table_page cat S database_name) [])"

definition get_table ::
  "duckdb \<Rightarrow> glue_catalog \<Rightarrow> 'w service \<Rightarrow> string \<Rightarrow> string \<Rightarrow> ('w, GlueTableInfo option) op" where
  "get_table D cat S database_name table_name =
     bind_op (get_client S) (\<lambda>_.
     bind_op (call_op (GetTable S (set_catalog_id cat
         \<lparr>tnr_database_name = database_name, tnr_name = table_name\<rparr>))) (\<lambda>outcome.
       case outcome of
         Inl e \<Rightarrow> if is_entity_not_found e then return_op None
                  else throw_op (throw_glue_error e (''GetTable '' @ database_name @ ''.'' @ table_name))
       | Inr t \<Rightarrow> return_op (Some (to_table_info D t database_name))))"

subsection \<open>Creating tables\<close>

datatype GlueCreateOutcome = CREATED | ALREADY_EXISTED

text \<open>
  The switch over the file format in \<open>CreateHiveTable\<close>: the descriptor with its SerDe and formats,
  and the table parameters. \<open>at\<close> of a SerDe parameter that is not there throws.
\<close>

definition serde_parameter_at :: "GlueTableInfo \<Rightarrow> string \<Rightarrow> string result" where
  "serde_parameter_at t key = (case map_of (t_serde_parameters t) key of
     None \<Rightarrow> Inl (StdOutOfRange ''unordered_map::at'') | Some v \<Rightarrow> Inr v)"

definition hive_storage :: "duckdb \<Rightarrow> GlueTableInfo \<Rightarrow> (storage_descriptor \<times> properties) result" where
  "hive_storage D t =
     (let parameters = to_aws_map (t_parameters t) in
      case t_file_format t of
        PARQUET \<Rightarrow> Inr
          (empty_descriptor\<lparr>
             sd_serde_library := ''org.apache.hadoop.hive.ql.io.parquet.serde.ParquetHiveSerDe'',
             sd_serde_parameters := [(''serialization.format'', ''1'')],
             sd_input_format := ''org.apache.hadoop.hive.ql.io.parquet.MapredParquetInputFormat'',
             sd_output_format := ''org.apache.hadoop.hive.ql.io.parquet.MapredParquetOutputFormat''\<rparr>,
           emplace ''classification'' ''parquet'' parameters)
      | CSV \<Rightarrow>
          and_then (get_serde D t) (\<lambda>serde.
          and_then (serde_parameter_at t (if serde = OPEN_CSV then ''separatorChar'' else ''field.delim''))
            (\<lambda>delimiter. Inr
              (empty_descriptor\<lparr>
                 sd_serde_library := t_serde_library t,
                 sd_serde_parameters := to_aws_map (t_serde_parameters t),
                 sd_input_format := ''org.apache.hadoop.mapred.TextInputFormat'',
                 sd_output_format := ''org.apache.hadoop.hive.ql.io.HiveIgnoreKeyTextOutputFormat''\<rparr>,
               emplace ''delimiter'' delimiter (emplace ''classification'' ''csv'' parameters))))
      | JSON \<Rightarrow> Inr
          (empty_descriptor\<lparr>
             sd_serde_library := ''org.apache.hive.hcatalog.data.JsonSerDe'',
             sd_input_format := ''org.apache.hadoop.mapred.TextInputFormat'',
             sd_output_format := ''org.apache.hadoop.hive.ql.io.HiveIgnoreKeyTextOutputFormat''\<rparr>,
           emplace ''classification'' ''json'' parameters)
      | AVRO \<Rightarrow> Inr
          (empty_descriptor\<lparr>
             sd_serde_library := ''org.apache.hadoop.hive.serde2.avro.AvroSerDe'',
             sd_input_format := ''org.apache.hadoop.hive.ql.io.avro.AvroContainerInputFormat'',
             sd_output_format := ''org.apache.hadoop.hive.ql.io.avro.AvroContainerOutputFormat''\<rparr>,
           emplace ''classification'' ''avro'' parameters))"

definition hive_table_input :: "GlueTableInfo \<Rightarrow> storage_descriptor \<Rightarrow> properties \<Rightarrow> table_input" where
  "hive_table_input t descriptor parameters =
     (let parameters1 = emplace ''EXTERNAL'' ''TRUE'' parameters;
          parameters2 = (if t_description t \<noteq> []
                         then emplace ''comment'' (t_description t) parameters1 else parameters1) in
      empty_table_input\<lparr>
        ti_name := t_name t,
        ti_table_type := Some ''EXTERNAL_TABLE'',
        ti_description := (if t_description t \<noteq> [] then Some (t_description t) else None),
        ti_storage_descriptor := descriptor\<lparr>
          sd_location := t_location t,
          sd_columns := to_aws_columns (t_columns t),
          sd_compressed := False,
          sd_number_of_buckets := Some (t_number_of_buckets t),
          sd_bucket_columns := t_bucket_columns t,
          sd_sort_columns := map (\<lambda>c. (col_name c, if col_sort_order c = DESCENDING then 0 else 1))
            (t_sort_columns t)\<rparr>,
        ti_partition_keys := (if t_partition_keys t \<noteq> []
                              then Some (to_aws_columns (t_partition_keys t)) else None),
        ti_parameters := Some parameters2\<rparr>)"

definition create_request ::
  "glue_catalog \<Rightarrow> string \<Rightarrow> table_input \<Rightarrow> table_input_request request" where
  "create_request cat database_name input =
     set_catalog_id cat \<lparr>tir_database_name = database_name, tir_table_input = input,
                         tir_version_id = None\<rparr>"

definition created_outcome :: "string \<Rightarrow> unit outcome \<Rightarrow> ('w, GlueCreateOutcome) op" where
  "created_outcome operation outcome = (case outcome of
     Inl e \<Rightarrow> if is_already_exists e then return_op ALREADY_EXISTED
              else throw_op (throw_glue_error e operation)
   | Inr _ \<Rightarrow> return_op CREATED)"

text \<open>
  How every operation that changes Glue begins: its invalidation is set up, then the catalog is
  checked to be writable.
\<close>

definition writing ::
  "duckdb \<Rightarrow> glue_catalog \<Rightarrow> string \<Rightarrow> ('w, 'a) op \<Rightarrow> ('w, 'a) op" where
  "writing D cat operation m =
     invalidate_on_exit D cat (bind_op (lift_op (check_writable cat operation)) (\<lambda>_. m))"

definition create_hive_table ::
  "duckdb \<Rightarrow> glue_catalog \<Rightarrow> 'w service \<Rightarrow> GlueTableInfo \<Rightarrow> ('w, GlueCreateOutcome) op" where
  "create_hive_table D cat S t =
     writing D cat ''CreateTable''
       (if t_location t = []
        then throw_op (InvalidInputException ''Can not create Hive table without a location''
               [t_schema_name t, t_name t])
        else
          bind_op (get_client S) (\<lambda>_.
          bind_op (lift_op (hive_storage D t)) (\<lambda>(descriptor, parameters).
          bind_op (call_op (CreateTable S (create_request cat (t_schema_name t)
              (hive_table_input t descriptor parameters))))
            (created_outcome (''CreateTable '' @ t_schema_name t @ ''.'' @ t_name t)))))"

subsection \<open>Views\<close>

definition set_view_parameters :: "properties \<Rightarrow> GlueViewInfo \<Rightarrow> properties" where
  "set_view_parameters parameters v =
     (let p1 = AList.update ''duckdb_view'' ''true'' parameters;
          p2 = AList.update ''duckdb_view_version'' ''1'' p1;
          p3 = AList.update ''duckdb_view_default_database'' (v_database_name v) p2;
          p4 = (if v_secure v then AList.update ''duckdb_view_secure'' ''true'' p3
                else AList.delete ''duckdb_view_secure'' p3) in
      if v_has_column_alias_list v then AList.update ''duckdb_view_column_alias_list'' ''true'' p4
      else AList.delete ''duckdb_view_column_alias_list'' p4)"

definition set_view_definition :: "GlueViewInfo \<Rightarrow> table_input \<Rightarrow> table_input" where
  "set_view_definition v input =
     input\<lparr>ti_table_type := Some ''VIRTUAL_VIEW'',
           ti_view_original_text := Some (v_sql v),
           ti_view_expanded_text := Some (v_expanded_sql v),
           ti_storage_descriptor := (if v_columns v \<noteq> []
             then empty_descriptor\<lparr>sd_columns := to_aws_columns (v_columns v)\<rparr>
             else empty_descriptor)\<rparr>"

definition to_view_table_input :: "GlueViewInfo \<Rightarrow> table_input" where
  "to_view_table_input v =
     (set_view_definition v (empty_table_input\<lparr>ti_name := v_name v\<rparr>))
       \<lparr>ti_parameters := Some (set_view_parameters [] v)\<rparr>"

definition create_view ::
  "duckdb \<Rightarrow> glue_catalog \<Rightarrow> 'w service \<Rightarrow> GlueViewInfo \<Rightarrow> ('w, GlueCreateOutcome) op" where
  "create_view D cat S v =
     writing D cat ''CreateView''
       (bind_op (get_client S) (\<lambda>_.
        bind_op (call_op (CreateTable S (create_request cat (v_database_name v) (to_view_table_input v))))
          (created_outcome (''CreateView '' @ v_database_name v @ ''.'' @ v_name v))))"

subsection \<open>Updates\<close>

definition table_input_of :: "aws_table \<Rightarrow> table_input" where
  "table_input_of t =
     \<lparr> ti_name = tb_name t, ti_description = tb_description t, ti_owner = tb_owner t,
       ti_last_access_time = tb_last_access_time t,
       ti_last_analyzed_time = tb_last_analyzed_time t, ti_retention = tb_retention t,
       ti_storage_descriptor = tb_storage_descriptor t, ti_partition_keys = tb_partition_keys t,
       ti_view_original_text = tb_view_original_text t,
       ti_view_expanded_text = tb_view_expanded_text t, ti_table_type = tb_table_type t,
       ti_parameters = tb_parameters t, ti_target_table = tb_target_table t \<rparr>"

definition update_glue_table ::
  "glue_catalog \<Rightarrow> 'w service \<Rightarrow> GlueTableInfo \<Rightarrow> (table_input \<Rightarrow> table_input) \<Rightarrow> ('w, unit) op" where
  "update_glue_table cat S bound modify =
     bind_op (lift_op (fetched_table bound)) (\<lambda>t.
     bind_op (call_op (UpdateTable S (set_catalog_id cat
         \<lparr>tir_database_name = t_schema_name bound, tir_table_input = modify (table_input_of t),
          tir_version_id = tb_version_id t\<rparr>))) (\<lambda>outcome.
       case outcome of
         Inl e \<Rightarrow>
           if err_type e = CONCURRENT_MODIFICATION
           then throw_op (TransactionException ''Glue table was changed by another client''
                  [t_schema_name bound, t_name bound])
           else throw_op (throw_glue_error e
                  (''UpdateTable '' @ t_schema_name bound @ ''.'' @ t_name bound))
       | Inr _ \<Rightarrow> return_op ()))"

definition set_columns :: "GlueColumn list \<Rightarrow> table_input \<Rightarrow> table_input" where
  "set_columns columns input =
     input\<lparr>ti_storage_descriptor :=
       (ti_storage_descriptor input)\<lparr>sd_columns := to_aws_columns columns\<rparr>\<rparr>"

definition set_partition_keys :: "GlueColumn list \<Rightarrow> table_input \<Rightarrow> table_input" where
  "set_partition_keys partition_keys input =
     input\<lparr>ti_partition_keys := Some (to_aws_columns partition_keys)\<rparr>"

definition set_description :: "string \<Rightarrow> table_input \<Rightarrow> table_input" where
  "set_description description input =
     input\<lparr>ti_description := Some description,
           ti_parameters := Some
             (if description = [] then AList.delete ''comment'' (opt_list (ti_parameters input))
              else AList.update ''comment'' description (opt_list (ti_parameters input)))\<rparr>"

definition set_location :: "string \<Rightarrow> table_input \<Rightarrow> table_input" where
  "set_location location input =
     input\<lparr>ti_storage_descriptor := (ti_storage_descriptor input)\<lparr>sd_location := location\<rparr>\<rparr>"

definition change_parameters ::
  "(string \<times> string) list \<Rightarrow> string list \<Rightarrow> properties \<Rightarrow> properties" where
  "change_parameters set_entries unset parameters =
     foldl (\<lambda>m (k, v). AList.update k v m)
       (foldl (\<lambda>m k. AList.delete k m) parameters unset) set_entries"

definition set_parameters ::
  "(string \<times> string) list \<Rightarrow> string list \<Rightarrow> table_input \<Rightarrow> table_input" where
  "set_parameters set_entries unset input =
     input\<lparr>ti_parameters := Some (change_parameters set_entries unset (opt_list (ti_parameters input)))\<rparr>"

definition replace_view :: "GlueViewInfo \<Rightarrow> table_input \<Rightarrow> table_input" where
  "replace_view v input =
     (set_view_definition v input)
       \<lparr>ti_parameters := Some (set_view_parameters (opt_list (ti_parameters input)) v)\<rparr>"

definition update_view ::
  "duckdb \<Rightarrow> glue_catalog \<Rightarrow> 'w service \<Rightarrow> GlueViewInfo \<Rightarrow> GlueTableInfo \<Rightarrow> ('w, unit) op" where
  "update_view D cat S v bound =
     writing D cat ''UpdateView''
       (bind_op (get_client S) (\<lambda>_. update_glue_table cat S bound (replace_view v)))"

definition update_table_columns ::
  "duckdb \<Rightarrow> glue_catalog \<Rightarrow> 'w service \<Rightarrow> GlueTableInfo \<Rightarrow> GlueColumn list \<Rightarrow> ('w, unit) op" where
  "update_table_columns D cat S bound columns =
     writing D cat ''UpdateTable''
       (bind_op (get_client S) (\<lambda>_. update_glue_table cat S bound (set_columns columns)))"

definition update_table_partition_keys ::
  "duckdb \<Rightarrow> glue_catalog \<Rightarrow> 'w service \<Rightarrow> GlueTableInfo \<Rightarrow> GlueColumn list \<Rightarrow> ('w, unit) op" where
  "update_table_partition_keys D cat S bound partition_keys =
     writing D cat ''UpdateTable''
       (bind_op (get_client S) (\<lambda>_. update_glue_table cat S bound (set_partition_keys partition_keys)))"

definition update_table_description ::
  "duckdb \<Rightarrow> glue_catalog \<Rightarrow> 'w service \<Rightarrow> GlueTableInfo \<Rightarrow> string \<Rightarrow> ('w, unit) op" where
  "update_table_description D cat S bound description =
     writing D cat ''UpdateTable''
       (bind_op (get_client S) (\<lambda>_. update_glue_table cat S bound (set_description description)))"

definition set_table_location ::
  "duckdb \<Rightarrow> glue_catalog \<Rightarrow> 'w service \<Rightarrow> GlueTableInfo \<Rightarrow> string \<Rightarrow> ('w, unit) op" where
  "set_table_location D cat S bound location =
     writing D cat ''UpdateTable''
       (bind_op (get_client S) (\<lambda>_. update_glue_table cat S bound (set_location location)))"

text \<open>Reached through ALTER TABLE only: no check that the catalog is writable.\<close>

definition update_table_parameters ::
  "duckdb \<Rightarrow> glue_catalog \<Rightarrow> 'w service \<Rightarrow> GlueTableInfo \<Rightarrow> (string \<times> string) list \<Rightarrow> string list
     \<Rightarrow> ('w, unit) op" where
  "update_table_parameters D cat S bound set_entries unset =
     invalidate_on_exit D cat
       (bind_op (get_client S) (\<lambda>_. update_glue_table cat S bound (set_parameters set_entries unset)))"

subsection \<open>Deleting\<close>

definition delete_table ::
  "duckdb \<Rightarrow> glue_catalog \<Rightarrow> 'w service \<Rightarrow> string \<Rightarrow> string \<Rightarrow> ('w, unit) op" where
  "delete_table D cat S database_name table_name =
     writing D cat ''DeleteTable''
       (bind_op (get_client S) (\<lambda>_.
        bind_op (call_op (DeleteTable S (set_catalog_id cat
            \<lparr>tnr_database_name = database_name, tnr_name = table_name\<rparr>))) (\<lambda>outcome.
          case outcome of
            Inl e \<Rightarrow>
              if is_entity_not_found e
              then throw_op (CatalogException ''Table does not exist in Glue database''
                     [table_name, database_name])
              else throw_op (throw_glue_error e (''DeleteTable '' @ database_name @ ''.'' @ table_name))
          | Inr _ \<Rightarrow> return_op ())))"

definition drop_created_table :: "'w service \<Rightarrow> created_table \<Rightarrow> ('w, unit) op" where
  "drop_created_table S c =
     bind_op (call_op (DeleteTable S
         \<lparr>rq_catalog_id = (if ct_catalog_id c \<noteq> [] then Some (ct_catalog_id c) else None),
          rq_body = \<lparr>tnr_database_name = ct_database_name c, tnr_name = ct_table_name c\<rparr>\<rparr>)) (\<lambda>outcome.
       case outcome of
         Inl e \<Rightarrow>
           if \<not> is_entity_not_found e
           then throw_op (throw_glue_error e
                  (''DeleteTable '' @ ct_database_name c @ ''.'' @ ct_table_name c))
           else return_op ()
       | Inr _ \<Rightarrow> return_op ())"

definition register_table_cleanup ::
  "duckdb \<Rightarrow> glue_catalog \<Rightarrow> 'w service \<Rightarrow> string \<Rightarrow> string \<Rightarrow> ('w, unit) op" where
  "register_table_cleanup D cat S database_name table_name =
     bind_op (get_client S) (\<lambda>_ s.
       case get_transaction D cat s of (tx, s1) \<Rightarrow>
         (Inr (), s1\<lparr>s_transaction := Some (tx\<lparr>tx_created_tables := tx_created_tables tx @
            [\<lparr>ct_catalog_id = cat_catalog_id cat, ct_database_name = database_name,
              ct_table_name = table_name\<rparr>]\<rparr>)\<rparr>))"

subsection \<open>The end of a transaction\<close>

definition commit_transaction :: "glue_transaction \<Rightarrow> glue_transaction" where
  "commit_transaction tx =
     (if tx_state tx = TRANSACTION_STARTED then tx\<lparr>tx_state := TRANSACTION_FINISHED\<rparr> else tx)"

text \<open>One turn of the loop of \<open>Rollback\<close>: an exception is logged and the loop goes on.\<close>

definition drop_or_log :: "'w service \<Rightarrow> created_table \<Rightarrow> 'w session \<Rightarrow> 'w session" where
  "drop_or_log S c s = (case drop_created_table S c s of
     (Inl e, s') \<Rightarrow> snd (log_op (''Table cleanup: could not drop Glue table '' @ ct_database_name c @ ''.''
                          @ ct_table_name c) s')
   | (Inr _, s') \<Rightarrow> s')"

definition rollback_transaction ::
  "'w service \<Rightarrow> glue_transaction \<Rightarrow> 'w session \<Rightarrow> glue_transaction \<times> 'w session" where
  "rollback_transaction S tx s =
     (if tx_state tx = TRANSACTION_STARTED then tx\<lparr>tx_state := TRANSACTION_FINISHED\<rparr> else tx,
      fold (drop_or_log S) (tx_created_tables tx) s)"

subsection \<open>Listing every page\<close>

interpretation tables_listing: paged_listing
  "get_tables_page D cat S database_name False throw_if_denied"
  "\<lambda>token. GetTables S (tables_request_for cat database_name None token)"
  "\<lambda>t. to_table_info D t database_name" "\<lambda>result. (result, False)"
  for D cat S database_name throw_if_denied
  by unfold_locales (simp_all add: get_tables_page_def bind_op_def call_op_def return_op_def Let_def)

subsection \<open>Mutations\<close>

lemma writing_read_only:
  assumes "cat_read_only cat"
  shows "writing D cat operation m s =
    (Inl (InvalidInputException ''Cannot execute Glue operation in read-only mode''
       [operation, cat_name cat]), invalidate D cat s)"
  using assms by (simp add: writing_def invalidate_on_exit_def bind_op_def lift_op_def check_writable_def)

text \<open>A mutation that a read-only catalog refuses before it reaches Glue.\<close>

locale guarded_mutation = mutation +
  fixes cat :: glue_catalog
  assumes refused: "cat_read_only cat \<Longrightarrow> isl (fst (mutate s)) \<and> s_world (snd (mutate s)) = s_world s"
begin

lemma read_only: "cat_read_only cat \<Longrightarrow> mutate s = (r, s') \<Longrightarrow> isl r \<and> s_world s' = s_world s"
  using refused [of s] by simp

end

interpretation written: guarded_mutation "writing D cat operation m" cat for D cat operation m
proof
  show "no_metadata (snd (writing D cat operation m s))" for s
    unfolding writing_def by (rule invalidated.leaves_no_metadata)
qed (simp add: writing_read_only)

interpretation create_hive_table: guarded_mutation "create_hive_table D cat S t" cat for D cat S t
  unfolding create_hive_table_def by unfold_locales

interpretation create_view: guarded_mutation "create_view D cat S v" cat for D cat S v
  unfolding create_view_def by unfold_locales

interpretation update_view: guarded_mutation "update_view D cat S v bound" cat for D cat S v bound
  unfolding update_view_def by unfold_locales

interpretation update_table_columns: guarded_mutation "update_table_columns D cat S bound columns" cat
  for D cat S bound columns
  unfolding update_table_columns_def by unfold_locales

interpretation update_table_partition_keys:
  guarded_mutation "update_table_partition_keys D cat S bound partition_keys" cat
  for D cat S bound partition_keys
  unfolding update_table_partition_keys_def by unfold_locales

interpretation update_table_description:
  guarded_mutation "update_table_description D cat S bound description" cat
  for D cat S bound description
  unfolding update_table_description_def by unfold_locales

interpretation set_table_location: guarded_mutation "set_table_location D cat S bound location" cat
  for D cat S bound location
  unfolding set_table_location_def by unfold_locales

interpretation update_table_parameters:
  mutation "update_table_parameters D cat S bound set_entries unset"
  for D cat S bound set_entries unset
  unfolding update_table_parameters_def by unfold_locales

interpretation delete_table: guarded_mutation "delete_table D cat S database_name table_name" cat
  for D cat S database_name table_name
  unfolding delete_table_def by unfold_locales

subsection \<open>Updates replace what was fetched\<close>

text \<open>
  What Glue documents of UpdateTable and of getting a client: an accepted update finds the table,
  in the version the request names if it names one, and stores the input under a new version.
\<close>

definition optimistic ::
  "'w service \<Rightarrow> ('w \<Rightarrow> string \<times> string \<Rightarrow> aws_table option) \<Rightarrow> bool" where
  "optimistic S tables \<longleftrightarrow>
     (\<forall>w. tables (snd (AcquireClient S w)) = tables w) \<and>
     (\<forall>rq w w' key. UpdateTable S rq w = (Inr (), w') \<longrightarrow>
        key = (tir_database_name (rq_body rq), ti_name (tir_table_input (rq_body rq))) \<longrightarrow>
        (\<exists>t version. tables w key = Some t \<and>
           (tir_version_id (rq_body rq) \<noteq> None \<longrightarrow> tb_version_id t = tir_version_id (rq_body rq)) \<and>
           tables w' = (tables w)(key \<mapsto> store_input (tir_table_input (rq_body rq)) version t)))"

lemma optimistic_update:
  assumes "optimistic S tables" "UpdateTable S rq w = (Inr (), w')"
    and "tir_version_id (rq_body rq) = Some v"
    and "key = (tir_database_name (rq_body rq), ti_name (tir_table_input (rq_body rq)))"
  obtains t version where "tables w key = Some t" "tb_version_id t = Some v"
    "tables w' = (tables w)(key \<mapsto> store_input (tir_table_input (rq_body rq)) version t)"
  using assms unfolding optimistic_def by (metis option.distinct(1))

lemma optimistic_client: "optimistic S tables \<Longrightarrow> tables (snd (AcquireClient S w)) = tables w"
  by (simp add: optimistic_def)

lemma sample_glue_optimistic: "optimistic sample_glue (\<lambda>w. map_of (sw_tables w))"
  unfolding optimistic_def
proof (intro conjI allI impI)
  fix w :: sample_world
  show "map_of (sw_tables (snd (AcquireClient sample_glue w))) = map_of (sw_tables w)" by simp
next
  fix rq :: "table_input_request request" and w w' :: sample_world and key
  assume u: "UpdateTable sample_glue rq w = (Inr (), w')"
    and key: "key = (tir_database_name (rq_body rq), ti_name (tir_table_input (rq_body rq)))"
  from u show "\<exists>t version. map_of (sw_tables w) key = Some t \<and>
      (tir_version_id (rq_body rq) \<noteq> None \<longrightarrow> tb_version_id t = tir_version_id (rq_body rq)) \<and>
      map_of (sw_tables w') = (map_of (sw_tables w))(key \<mapsto> store_input (tir_table_input (rq_body rq)) version t)"
    by (auto simp: key sample_update_table_def Let_def split: option.splits if_splits)
qed

text \<open>
  \<open>bound\<close> was fetched as \<open>raw\<close>, and versions identify what Glue holds of it: the table in that
  version is the one that was fetched.
\<close>

definition fetched_as ::
  "('w \<Rightarrow> string \<times> string \<Rightarrow> aws_table option) \<Rightarrow> 'w \<Rightarrow> GlueTableInfo \<Rightarrow> aws_table \<Rightarrow> bool" where
  "fetched_as tables w bound raw \<longleftrightarrow>
     t_fetched bound = Some raw \<and> tb_version_id raw \<noteq> None \<and>
     (\<forall>t. tables w (t_schema_name bound, tb_name raw) = Some t
        \<longrightarrow> tb_version_id t = tb_version_id raw \<longrightarrow> t = raw)"

text \<open>The interface of what an update changes of the definition: never the name.\<close>

locale definition_change =
  fixes modify :: "table_input \<Rightarrow> table_input"
  assumes same_name: "ti_name (modify i) = ti_name i"
begin

text \<open>
  Under optimistic versions an update that returns replaced the very table that was fetched: had
  another client changed it in between, it would have been refused.
\<close>

lemma replaces_fetched:
  fixes tables
  assumes "optimistic S tables" "fetched_as tables (s_world s) bound raw"
    and "bind_op (get_client S) (\<lambda>_. update_glue_table cat S bound modify) s = (Inr u, s')"
  shows "tables (s_world s) (t_schema_name bound, tb_name raw) = Some raw \<and>
    (\<exists>version. tables (s_world s') = (tables (s_world s))
       ((t_schema_name bound, tb_name raw) \<mapsto> store_input (modify (table_input_of raw)) version raw))"
proof -
  from assms(2) obtain v where raw: "t_fetched bound = Some raw" "tb_version_id raw = Some v"
    and same: "\<And>t. tables (s_world s) (t_schema_name bound, tb_name raw) = Some t
      \<Longrightarrow> tb_version_id t = Some v \<Longrightarrow> t = raw"
    by (auto simp: fetched_as_def)
  obtain r w1 where client: "AcquireClient S (s_world s) = (r, w1)" by fastforce
  let ?rq = "set_catalog_id cat \<lparr>tir_database_name = t_schema_name bound,
    tir_table_input = modify (table_input_of raw), tir_version_id = tb_version_id raw\<rparr>"
  obtain o2 w2 where upd: "UpdateTable S ?rq w1 = (o2, w2)" by fastforce
  from assms(3) client upd have "o2 = Inr ()" and w2: "s_world s' = w2"
    by (auto simp: bind_op_def get_client_def call_op_def lift_op_def update_glue_table_def
        fetched_table_def raw(1) return_op_def throw_op_def split: sum.splits if_splits)
  moreover have name: "ti_name (modify (table_input_of raw)) = tb_name raw"
    by (simp add: same_name table_input_of_def)
  ultimately obtain t version where t: "tables w1 (t_schema_name bound, tb_name raw) = Some t"
      "tb_version_id t = Some v"
    and w': "tables w2 = (tables w1)((t_schema_name bound, tb_name raw)
        \<mapsto> store_input (modify (table_input_of raw)) version t)"
    using optimistic_update [OF assms(1), of ?rq w1 w2 v "(t_schema_name bound, tb_name raw)"] upd
    by (auto simp: set_catalog_id_def raw(2))
  have "tables w1 = tables (s_world s)"
    using optimistic_client [OF assms(1), of "s_world s"] client by simp
  with t w' w2 same show ?thesis by auto
qed

lemma writing_replaces_fetched:
  fixes tables
  assumes "optimistic S tables" "fetched_as tables (s_world s) bound raw"
    and "writing D cat operation
           (bind_op (get_client S) (\<lambda>_. update_glue_table cat S bound modify)) s = (Inr u, s')"
  shows "tables (s_world s) (t_schema_name bound, tb_name raw) = Some raw \<and>
    (\<exists>version. tables (s_world s') = (tables (s_world s))
       ((t_schema_name bound, tb_name raw) \<mapsto> store_input (modify (table_input_of raw)) version raw))"
proof -
  from assms(3) obtain s1
    where "bind_op (get_client S) (\<lambda>_. update_glue_table cat S bound modify) s = (Inr u, s1)"
      and "s' = invalidate D cat s1"
    by (auto simp: writing_def invalidate_on_exit_def bind_op_def [of "lift_op _"] lift_op_def
        split: prod.splits sum.splits)
  with replaces_fetched [OF assms(1,2)] show ?thesis by simp
qed

end

interpretation set_columns: definition_change "set_columns columns" for columns
  by unfold_locales (simp add: set_columns_def)

interpretation set_partition_keys: definition_change "set_partition_keys keys" for keys
  by unfold_locales (simp add: set_partition_keys_def)

interpretation set_description: definition_change "set_description description" for description
  by unfold_locales (simp add: set_description_def)

interpretation set_location: definition_change "set_location location" for location
  by unfold_locales (simp add: set_location_def)

interpretation set_parameters: definition_change "set_parameters set_entries unset"
  for set_entries unset
  by unfold_locales (simp add: set_parameters_def)

interpretation replace_view: definition_change "replace_view v" for v
  by unfold_locales (simp add: replace_view_def set_view_definition_def)

lemma map_of_change_parameters:
  "map_of (change_parameters set_entries unset m) k =
     (case map_of (rev set_entries) k of Some v \<Rightarrow> Some v
      | None \<Rightarrow> if k \<in> set unset then None else map_of m k)"
proof -
  have unset: "map_of (foldl (\<lambda>m k. AList.delete k m) m unset) k
      = (if k \<in> set unset then None else map_of m k)" for m :: properties
    by (induction unset arbitrary: m) auto
  have "map_of (foldl (\<lambda>m (k, v). AList.update k v m) m set_entries) k
      = (case map_of (rev set_entries) k of Some v \<Rightarrow> Some v | None \<Rightarrow> map_of m k)" for m :: properties
    by (induction set_entries arbitrary: m) (auto simp: map_add_def split: option.splits)
  with unset show ?thesis by (simp add: change_parameters_def split: option.splits)
qed

lemma invalidated_replaces_fetched:
  fixes tables
  assumes "definition_change modify"
    and "optimistic S tables" "fetched_as tables (s_world s) bound raw"
    and "invalidate_on_exit D cat
           (bind_op (get_client S) (\<lambda>_. update_glue_table cat S bound modify)) s = (Inr u, s')"
  shows "tables (s_world s) (t_schema_name bound, tb_name raw) = Some raw \<and>
    (\<exists>version. tables (s_world s') = (tables (s_world s))
       ((t_schema_name bound, tb_name raw) \<mapsto> store_input (modify (table_input_of raw)) version raw))"
proof -
  from assms(4) obtain s1
    where "bind_op (get_client S) (\<lambda>_. update_glue_table cat S bound modify) s = (Inr u, s1)"
      and "s' = invalidate D cat s1"
    by (auto simp: invalidate_on_exit_def split: prod.splits)
  with definition_change.replaces_fetched [OF assms(1-3)] show ?thesis by simp
qed

lemma drop_or_log_world:
  "s_world (drop_or_log S c s) = snd (DeleteTable S
     \<lparr>rq_catalog_id = (if ct_catalog_id c \<noteq> [] then Some (ct_catalog_id c) else None),
      rq_body = \<lparr>tnr_database_name = ct_database_name c, tnr_name = ct_table_name c\<rparr>\<rparr> (s_world s))"
  by (simp add: drop_or_log_def drop_created_table_def bind_op_def call_op_def log_op_def
      throw_op_def return_op_def split: prod.splits sum.splits)

subsection \<open>Properties\<close>

text \<open>
  Listing the tables of a database returns every table of every page, in Glue's order,
  whatever the number of pages: when Glue lists a sequence of pages, enough fuel gives exactly
  their concatenation, and the session changes in nothing but the calls made.
\<close>

theorem get_tables_all_pages:
  assumes "AcquireClient S (s_world s) = (Inr (), w0)"
    and "lists_pages (\<lambda>token. GetTables S (tables_request_for cat database_name None token)) [] w0 pages w"
    and "length pages \<le> fuel"
  shows "get_tables fuel D cat S database_name False throw_if_denied s =
    (Inr (map (\<lambda>t. to_table_info D t database_name) (concat pages), False), s\<lparr>s_world := w\<rparr>)"
proof -
  have "get_client S s = (Inr (), s\<lparr>s_world := w0\<rparr>)"
    by (simp add: get_client_def bind_op_def call_op_def lift_op_def assms(1))
  with tables_listing.lists_all [OF assms(2) _ assms(3), of "s\<lparr>s_world := w0\<rparr>" D throw_if_denied "[]"]
  show ?thesis by (simp add: get_tables_def bind_op_def)
qed

lemma get_tables_all_pages_witness:
  "get_tables 2 ascii_duckdb sample_catalog sample_glue ''db'' False False (sample_session sample_lake) =
     (Inr (map (\<lambda>t. to_table_info ascii_duckdb t ''db'')
        [sample_table ''db'' ''a'', sample_table ''db'' ''b'', sample_table ''db'' ''c''], False),
      (sample_session sample_lake)\<lparr>s_world := sample_lake\<rparr>)"
proof -
  let ?call = "\<lambda>token. GetTables sample_glue (tables_request_for sample_catalog ''db'' None token)"
  have "?call [] sample_lake
      = (Inr ([sample_table ''db'' ''a'', sample_table ''db'' ''b''], ''++''), sample_lake)"
    "?call ''++'' sample_lake = (Inr ([sample_table ''db'' ''c''], []), sample_lake)"
    by code_simp+
  then have p: "lists_pages ?call [] sample_lake
      [[sample_table ''db'' ''a'', sample_table ''db'' ''b''], [sample_table ''db'' ''c'']] sample_lake"
    by (intro next_page last_page) simp_all
  have "AcquireClient sample_glue (s_world (sample_session sample_lake)) = (Inr (), sample_lake)"
    by (simp add: sample_session_def)
  from get_tables_all_pages [OF this p, of 2 ascii_duckdb False] show ?thesis by simp
qed

definition sample_bound :: GlueTableInfo where
  "sample_bound = to_table_info ascii_duckdb (sample_table ''db'' ''a'') ''db''"

lemma sample_bound_key:
  "t_schema_name sample_bound = ''db''" "tb_name (sample_table ''db'' ''a'') = ''a''"
  by (simp_all add: sample_bound_def to_table_info_def Let_def sample_table_def blank_table_def)

lemma sample_bound_fetched:
  "fetched_as (\<lambda>w. map_of (sw_tables w)) (s_world (sample_session sample_lake)) sample_bound
     (sample_table ''db'' ''a'')"
proof -
  have "t_fetched sample_bound = Some (sample_table ''db'' ''a'')"
    "tb_version_id (sample_table ''db'' ''a'') = Some ''1''"
    by (simp_all add: sample_bound_def to_table_info_def Let_def sample_table_def blank_table_def)
  then show ?thesis
    by (simp add: fetched_as_def sample_bound_key sample_session_def sample_lake_def)
qed

text \<open>
  Moving a table changes its location and nothing else, and never overwrites what another
  client did: if ALTER TABLE ... SET LOCATION returns, the table in Glue was exactly the one the
  statement had fetched, and is now that table with the new location under a new version.
\<close>

theorem moves_the_fetched_table:
  fixes tables :: "'w \<Rightarrow> string \<times> string \<Rightarrow> aws_table option"
  assumes "optimistic S tables" "fetched_as tables (s_world s) bound raw"
    and "set_table_location D cat S bound location s = (Inr (), s')"
  shows "tables (s_world s) (t_schema_name bound, tb_name raw) = Some raw \<and>
    (\<exists>version. tables (s_world s') = (tables (s_world s))((t_schema_name bound, tb_name raw) \<mapsto>
       raw\<lparr>tb_storage_descriptor := (tb_storage_descriptor raw)\<lparr>sd_location := location\<rparr>,
           tb_version_id := Some version\<rparr>))"
proof -
  have "store_input (set_location location (table_input_of raw)) version raw =
      raw\<lparr>tb_storage_descriptor := (tb_storage_descriptor raw)\<lparr>sd_location := location\<rparr>,
          tb_version_id := Some version\<rparr>" for version
    by (simp add: store_input_def set_location_def table_input_of_def)
  then show ?thesis
    using set_location.writing_replaces_fetched [OF assms(1,2) assms(3) [unfolded set_table_location_def]]
    by simp
qed

lemma moves_the_fetched_table_witness:
  "fst (set_table_location ascii_duckdb sample_catalog sample_glue sample_bound ''s3://moved'' (sample_session sample_lake)) = Inr () \<and>
   (\<exists>version. map_of (sw_tables (s_world (snd (set_table_location ascii_duckdb sample_catalog sample_glue sample_bound ''s3://moved'' (sample_session sample_lake))))) (''db'', ''a'') =
     Some ((sample_table ''db'' ''a'')\<lparr>tb_storage_descriptor := (tb_storage_descriptor (sample_table ''db'' ''a''))\<lparr>sd_location := ''s3://moved''\<rparr>,
       tb_version_id := Some version\<rparr>))"
proof -
  let ?s = "sample_session sample_lake"
  have r: "fst (set_table_location ascii_duckdb sample_catalog sample_glue sample_bound ''s3://moved'' ?s) = Inr ()" by code_simp
  then have "set_table_location ascii_duckdb sample_catalog sample_glue sample_bound ''s3://moved'' ?s = (Inr (), snd (set_table_location ascii_duckdb sample_catalog sample_glue sample_bound ''s3://moved'' ?s))"
    by (simp add: prod_eq_iff)
  from moves_the_fetched_table [OF sample_glue_optimistic sample_bound_fetched this] r show ?thesis
    unfolding sample_bound_key by auto
qed



text \<open>
  COMMENT ON TABLE keeps the two places a comment lives in together: afterwards the
  description is the comment and the parameter \<open>comment\<close> is it too, or is gone when the comment
  was cleared; every other parameter is the fetched one.
\<close>

theorem comment_in_both_places:
  fixes tables :: "'w \<Rightarrow> string \<times> string \<Rightarrow> aws_table option"
  assumes "optimistic S tables" "fetched_as tables (s_world s) bound raw"
    and "update_table_description D cat S bound description s = (Inr (), s')"
  shows "\<exists>t'. tables (s_world s') = (tables (s_world s))((t_schema_name bound, tb_name raw) \<mapsto> t') \<and>
     t_description (to_table_info D t' schema) = description \<and>
     map_of (t_parameters (to_table_info D t' schema)) ''comment''
       = (if description = [] then None else Some description) \<and>
     (\<forall>key. key \<noteq> ''comment'' \<longrightarrow>
        map_of (opt_list (tb_parameters t')) key = map_of (opt_list (tb_parameters raw)) key) \<and>
     tb_storage_descriptor t' = tb_storage_descriptor raw \<and> tb_partition_keys t' = tb_partition_keys raw"
proof -
  obtain version where "tables (s_world s') = (tables (s_world s))((t_schema_name bound, tb_name raw) \<mapsto>
      store_input (set_description description (table_input_of raw)) version raw)"
    using set_description.writing_replaces_fetched
      [OF assms(1,2) assms(3) [unfolded update_table_description_def]] by blast
  then show ?thesis
    by (rule_tac x = "store_input (set_description description (table_input_of raw)) version raw" in exI)
      (simp add: store_input_def set_description_def table_input_of_def to_table_info_def Let_def
        opt_string_def opt_list_def)
qed

lemma comment_in_both_places_witness:
  "fst (update_table_description ascii_duckdb sample_catalog sample_glue sample_bound ''raw'' (sample_session sample_lake)) = Inr () \<and>
   (\<exists>t'. map_of (sw_tables (s_world (snd (update_table_description ascii_duckdb sample_catalog sample_glue sample_bound ''raw'' (sample_session sample_lake))))) (''db'', ''a'') = Some t' \<and>
     t_description (to_table_info ascii_duckdb t' ''db'') = ''raw'')"
proof -
  let ?s = "sample_session sample_lake"
  have r: "fst (update_table_description ascii_duckdb sample_catalog sample_glue sample_bound ''raw'' ?s) = Inr ()" by code_simp
  then have "update_table_description ascii_duckdb sample_catalog sample_glue sample_bound ''raw'' ?s = (Inr (), snd (update_table_description ascii_duckdb sample_catalog sample_glue sample_bound ''raw'' ?s))"
    by (simp add: prod_eq_iff)
  from comment_in_both_places [OF sample_glue_optimistic sample_bound_fetched this, of "''db''"] r
  show ?thesis unfolding sample_bound_key by auto
qed

text \<open>
  COMMENT ON COLUMN of a partition key replaces the partition keys: their names, types and
  comments are the ones given, but the parameters a column of a Glue table carries are dropped
  from every partition key, commented or not.
\<close>

theorem partition_key_parameters_dropped:
  fixes tables :: "'w \<Rightarrow> string \<times> string \<Rightarrow> aws_table option"
  assumes "optimistic S tables" "fetched_as tables (s_world s) bound raw"
    and "update_table_partition_keys D cat S bound partition_keys s = (Inr (), s')"
  shows "\<exists>t'. tables (s_world s') (t_schema_name bound, tb_name raw) = Some t' \<and>
     map (\<lambda>c. (ac_name c, ac_type c, ac_comment c)) (opt_list (tb_partition_keys t'))
       = map (\<lambda>c. (col_name c, col_type c, col_comment c)) partition_keys \<and>
     (\<forall>c\<in>set (opt_list (tb_partition_keys t')). ac_parameters c = []) \<and>
     tb_storage_descriptor t' = tb_storage_descriptor raw \<and> tb_parameters t' = tb_parameters raw"
proof -
  obtain version where "tables (s_world s') = (tables (s_world s))((t_schema_name bound, tb_name raw) \<mapsto>
      store_input (set_partition_keys partition_keys (table_input_of raw)) version raw)"
    using set_partition_keys.writing_replaces_fetched
      [OF assms(1,2) assms(3) [unfolded update_table_partition_keys_def]] by blast
  then show ?thesis
    by (auto simp: store_input_def set_partition_keys_def table_input_of_def opt_list_def to_aws_columns_def)
qed

lemma partition_key_parameters_dropped_witness:
  "fst (update_table_partition_keys ascii_duckdb sample_catalog sample_glue sample_bound [new_column\<lparr>col_name := ''day''\<rparr>] (sample_session sample_lake)) = Inr () \<and>
   (\<exists>t'. map_of (sw_tables (s_world (snd (update_table_partition_keys ascii_duckdb sample_catalog sample_glue sample_bound [new_column\<lparr>col_name := ''day''\<rparr>] (sample_session sample_lake))))) (''db'', ''a'') = Some t' \<and>
     (\<forall>c\<in>set (opt_list (tb_partition_keys t')). ac_parameters c = []))"
proof -
  let ?s = "sample_session sample_lake"
  have r: "fst (update_table_partition_keys ascii_duckdb sample_catalog sample_glue sample_bound [new_column\<lparr>col_name := ''day''\<rparr>] ?s) = Inr ()" by code_simp
  then have "update_table_partition_keys ascii_duckdb sample_catalog sample_glue sample_bound [new_column\<lparr>col_name := ''day''\<rparr>] ?s = (Inr (), snd (update_table_partition_keys ascii_duckdb sample_catalog sample_glue sample_bound [new_column\<lparr>col_name := ''day''\<rparr>] ?s))"
    by (simp add: prod_eq_iff)
  from partition_key_parameters_dropped [OF sample_glue_optimistic sample_bound_fetched this] r show ?thesis
    unfolding sample_bound_key by auto
qed


end
