(* ===== verification/Database_Api.thy ===== *)
theory Database_Api
  imports Table_Api
begin

text \<open>
  src/api/glue_database_api.cpp, with \<open>GetReportedCatalogId\<close> of src/api/glue_client.cpp: listing, reading,
  creating, updating and deleting the databases of a catalog.
\<close>

subsection \<open>Operations\<close>

definition databases_request_for :: "glue_catalog \<Rightarrow> string \<Rightarrow> databases_request request" where
  "databases_request_for cat token =
     set_catalog_id cat \<lparr>dsr_max_results = None, dsr_next_token = next_token_of token\<rparr>"

definition get_databases_page ::
  "glue_catalog \<Rightarrow> 'w service \<Rightarrow> GlueDatabaseInfo list \<times> string
     \<Rightarrow> ('w, GlueDatabaseInfo list + GlueDatabaseInfo list \<times> string) op" where
  "get_databases_page cat S st =
     (case st of (result, token) \<Rightarrow>
      bind_op (call_op (GetDatabases S (databases_request_for cat token))) (\<lambda>outcome.
        case outcome of
          Inl e \<Rightarrow> throw_op (throw_glue_error e ''GetDatabases'')
        | Inr (databases, token') \<Rightarrow>
            let result' = result @ map to_database_info databases in
            if token' \<noteq> [] then return_op (Inr (result', token')) else return_op (Inl result')))"

definition get_databases ::
  "nat \<Rightarrow> glue_catalog \<Rightarrow> 'w service \<Rightarrow> ('w, GlueDatabaseInfo list) op" where
  "get_databases fuel cat S =
     bind_op (get_client S) (\<lambda>_. do_while fuel (get_databases_page cat S) ([], []))"

definition get_database ::
  "glue_catalog \<Rightarrow> 'w service \<Rightarrow> string \<Rightarrow> ('w, GlueDatabaseInfo option) op" where
  "get_database cat S database_name =
     bind_op (get_client S) (\<lambda>_.
     bind_op (call_op (GetDatabase S (set_catalog_id cat database_name))) (\<lambda>outcome.
       case outcome of
         Inl e \<Rightarrow> if is_entity_not_found e then return_op None
                  else throw_op (throw_glue_error e (''GetDatabase '' @ database_name))
       | Inr d \<Rightarrow> return_op (Some (to_database_info d))))"

definition new_database_input :: "GlueDatabaseInfo \<Rightarrow> database_input" where
  "new_database_input d =
     \<lparr> di_name = d_name d,
       di_description = (if d_description d \<noteq> [] then Some (d_description d) else None),
       di_location_uri = (if d_location_uri d \<noteq> [] then Some (d_location_uri d) else None),
       di_parameters = (if d_parameters d \<noteq> [] then Some (to_aws_map (d_parameters d)) else None),
       di_target_database = None, di_create_table_default_permissions = None,
       di_federated_database = None \<rparr>"

definition create_database ::
  "duckdb \<Rightarrow> glue_catalog \<Rightarrow> 'w service \<Rightarrow> GlueDatabaseInfo \<Rightarrow> ('w, GlueCreateOutcome) op" where
  "create_database D cat S d =
     writing D cat ''CreateDatabase''
       (bind_op (get_client S) (\<lambda>_.
        bind_op (call_op (CreateDatabase S (set_catalog_id cat (new_database_input d))))
          (created_outcome (''CreateDatabase '' @ d_name d))))"

definition updated_database_input :: "GlueDatabaseInfo \<Rightarrow> aws_database \<Rightarrow> database_input" where
  "updated_database_input d current =
     \<lparr> di_name = d_name d, di_description = Some (d_description d),
       di_location_uri = (if d_location_uri d \<noteq> [] then Some (d_location_uri d) else None),
       di_parameters = Some (to_aws_map (d_parameters d)),
       di_target_database = db_target_database current,
       di_create_table_default_permissions = db_create_table_default_permissions current,
       di_federated_database = db_federated_database current \<rparr>"

text \<open>No check that the catalog is writable.\<close>

definition update_database ::
  "duckdb \<Rightarrow> glue_catalog \<Rightarrow> 'w service \<Rightarrow> GlueDatabaseInfo \<Rightarrow> ('w, unit) op" where
  "update_database D cat S d =
     invalidate_on_exit D cat
       (bind_op (get_client S) (\<lambda>_.
        bind_op (call_op (GetDatabase S (set_catalog_id cat (d_name d)))) (\<lambda>get_outcome.
          case get_outcome of
            Inl e \<Rightarrow>
              if is_entity_not_found e
              then throw_op (CatalogException ''Glue database does not exist'' [d_name d])
              else throw_op (throw_glue_error e (''GetDatabase '' @ d_name d))
          | Inr current \<Rightarrow>
              bind_op (call_op (UpdateDatabase S (set_catalog_id cat
                  \<lparr>dir_name = d_name d, dir_database_input = updated_database_input d current\<rparr>)))
                (\<lambda>outcome. case outcome of
                   Inl e \<Rightarrow>
                     if err_type e = CONCURRENT_MODIFICATION
                     then throw_op (TransactionException ''Glue database was changed by another client''
                            [d_name d])
                     else throw_op (throw_glue_error e (''UpdateDatabase '' @ d_name d))
                 | Inr _ \<Rightarrow> return_op ()))))"

definition delete_database ::
  "duckdb \<Rightarrow> glue_catalog \<Rightarrow> 'w service \<Rightarrow> string \<Rightarrow> ('w, unit) op" where
  "delete_database D cat S database_name =
     writing D cat ''DeleteDatabase''
       (bind_op (get_client S) (\<lambda>_.
        bind_op (call_op (DeleteDatabase S (set_catalog_id cat database_name))) (\<lambda>outcome.
          case outcome of
            Inl e \<Rightarrow>
              if is_entity_not_found e
              then throw_op (CatalogException ''Glue database does not exist'' [database_name])
              else throw_op (throw_glue_error e (''DeleteDatabase '' @ database_name))
          | Inr _ \<Rightarrow> return_op ())))"

text \<open>The CatalogId of the first database that is not a resource link, empty when there is none.\<close>

definition reported_catalog_page ::
  "glue_catalog \<Rightarrow> 'w service \<Rightarrow> string \<Rightarrow> ('w, string + string) op" where
  "reported_catalog_page cat S token =
     bind_op (call_op (GetDatabases S (set_catalog_id cat
         \<lparr>dsr_max_results = Some 20, dsr_next_token = next_token_of token\<rparr>))) (\<lambda>outcome.
       case outcome of
         Inl e \<Rightarrow> throw_op (throw_glue_error e ''GetDatabases'')
       | Inr (databases, token') \<Rightarrow>
           (case find (\<lambda>d. \<not> d_is_resource_link d \<and> d_catalog_id d \<noteq> []) (map to_database_info databases) of
              Some d \<Rightarrow> return_op (Inl (d_catalog_id d))
            | None \<Rightarrow> if token' \<noteq> [] then return_op (Inr token') else return_op (Inl [])))"

definition get_reported_catalog_id ::
  "nat \<Rightarrow> glue_catalog \<Rightarrow> 'w service \<Rightarrow> ('w, string) op" where
  "get_reported_catalog_id fuel cat S =
     bind_op (get_client S) (\<lambda>_. do_while fuel (reported_catalog_page cat S) [])"

subsection \<open>Interfaces\<close>

interpretation databases_listing: paged_listing
  "get_databases_page cat S" "\<lambda>token. GetDatabases S (databases_request_for cat token)"
  to_database_info "\<lambda>result. result"
  for cat S
  by unfold_locales (simp_all add: get_databases_page_def bind_op_def call_op_def return_op_def Let_def)

interpretation create_database: guarded_mutation "create_database D cat S d" cat for D cat S d
  unfolding create_database_def by unfold_locales

interpretation update_database: mutation "update_database D cat S d" for D cat S d
  unfolding update_database_def by unfold_locales

interpretation delete_database: guarded_mutation "delete_database D cat S database_name" cat
  for D cat S database_name
  unfolding delete_database_def by unfold_locales

subsection \<open>Properties\<close>

text \<open>
  Listing the databases of a catalog returns every database of every page, in Glue's order,
  when there is fuel for the pages, and changes nothing but by the calls made.
\<close>

theorem get_databases_all_pages:
  assumes "AcquireClient S (s_world s) = (Inr (), w0)"
    and "lists_pages (\<lambda>token. GetDatabases S (databases_request_for cat token)) [] w0 pages w"
    and "length pages \<le> fuel"
  shows "get_databases fuel cat S s =
    (Inr (map to_database_info (concat pages)), s\<lparr>s_world := w\<rparr>)"
proof -
  have "get_client S s = (Inr (), s\<lparr>s_world := w0\<rparr>)"
    by (simp add: get_client_def bind_op_def call_op_def lift_op_def assms(1))
  with databases_listing.lists_all [OF assms(2) _ assms(3), of "s\<lparr>s_world := w0\<rparr>" "[]"]
  show ?thesis by (simp add: get_databases_def bind_op_def)
qed

lemma get_databases_all_pages_witness:
  "get_databases 1 sample_catalog sample_glue (sample_session sample_lake) =
     (Inr [], (sample_session sample_lake)\<lparr>s_world := sample_lake\<rparr>)"
proof -
  let ?call = "\<lambda>token. GetDatabases sample_glue (databases_request_for sample_catalog token)"
  have "?call [] sample_lake = (Inr ([], []), sample_lake)"
    by (simp add: sample_glue_def sample_lake_def)
  then have p: "lists_pages ?call [] sample_lake [[]] sample_lake" by (rule last_page)
  have "AcquireClient sample_glue (s_world (sample_session sample_lake)) = (Inr (), sample_lake)"
    by (simp add: sample_session_def)
  from get_databases_all_pages [OF this p, of 1] show ?thesis by simp
qed

text \<open>
  Updating a database replaces its description, location and parameters and keeps what a
  database of Glue carries besides: if ALTER returns, the request it sent holds the permissions,
  the target database and the federated database of the definition Glue had at that moment.
\<close>

theorem update_database_keeps_rest:
  assumes "update_database D cat S d s = (Inr (), s')"
  shows "\<exists>current w1 input.
    GetDatabase S (set_catalog_id cat (d_name d)) (snd (AcquireClient S (s_world s))) = (Inr current, w1) \<and>
    UpdateDatabase S (set_catalog_id cat \<lparr>dir_name = d_name d, dir_database_input = input\<rparr>) w1
      = (Inr (), s_world s') \<and>
    di_create_table_default_permissions input = db_create_table_default_permissions current \<and>
    di_target_database input = db_target_database current \<and>
    di_federated_database input = db_federated_database current \<and>
    di_description input = Some (d_description d) \<and>
    (d_location_uri d \<noteq> [] \<longrightarrow> di_location_uri input = Some (d_location_uri d))"
proof -
  let ?w0 = "snd (AcquireClient S (s_world s))"
  obtain current w1 where get: "GetDatabase S (set_catalog_id cat (d_name d)) ?w0 = (Inr current, w1)"
    and upd: "UpdateDatabase S (set_catalog_id cat \<lparr>dir_name = d_name d,
        dir_database_input = updated_database_input d current\<rparr>) w1 = (Inr (), s_world s')"
    using assms
    by (auto simp: update_database_def invalidate_on_exit_def bind_op_def get_client_def call_op_def
        lift_op_def throw_op_def return_op_def split: prod.splits sum.splits if_splits)
  show ?thesis
    by (rule exI [of _ current], rule exI [of _ w1], rule exI [of _ "updated_database_input d current"])
      (use get upd in \<open>simp add: updated_database_input_def\<close>)
qed

definition sample_database :: aws_database where
  "sample_database = \<lparr> db_name = ''db'', db_catalog_id = Some ''1'', db_description = [],
     db_location_uri = [], db_parameters = [], db_target_database = None,
     db_create_table_default_permissions = Some ''ALL'', db_federated_database = None \<rparr>"

definition sample_database_lake :: sample_world where
  "sample_database_lake = sample_lake\<lparr>sw_databases := [(''db'', sample_database)]\<rparr>"

lemma update_database_keeps_rest_witness:
  "\<exists>input. di_create_table_default_permissions input = Some ''ALL'' \<and>
     fst (UpdateDatabase sample_glue (set_catalog_id sample_catalog
       \<lparr>dir_name = ''db'', dir_database_input = input\<rparr>) sample_database_lake) = Inr ()"
proof -
  let ?d = "(to_database_info sample_database)\<lparr>d_description := ''raw''\<rparr>"
  let ?m = "update_database ascii_duckdb sample_catalog sample_glue ?d (sample_session sample_database_lake)"
  have name: "d_name ?d = ''db''" by (simp add: to_database_info_def sample_database_def)
  have w: "snd (AcquireClient sample_glue (s_world (sample_session sample_database_lake)))
      = sample_database_lake" by (simp add: sample_session_def)
  have get: "GetDatabase sample_glue (set_catalog_id sample_catalog ''db'') sample_database_lake
      = (Inr sample_database, sample_database_lake)"
    by (simp add: sample_get_database_def set_catalog_id_def sample_database_lake_def)
  have "fst ?m = Inr ()" by code_simp
  then have "?m = (Inr (), snd ?m)" by (simp add: prod_eq_iff)
  from update_database_keeps_rest [OF this] obtain input where
    "UpdateDatabase sample_glue (set_catalog_id sample_catalog
       \<lparr>dir_name = ''db'', dir_database_input = input\<rparr>) sample_database_lake = (Inr (), s_world (snd ?m))"
    "di_create_table_default_permissions input = db_create_table_default_permissions sample_database"
    unfolding name w get by auto
  then show ?thesis by (intro exI [of _ input]) (simp add: sample_database_def)
qed

end
