(* ===== verification/Partition_Api.thy ===== *)
theory Partition_Api
  imports Database_Api
begin

text \<open>
  src/api/glue_partition_api.cpp: reading, registering and unregistering the partitions of a Hive table,
  one by one and in batches, with the retries of single partitions and the injected failures of
  \<open>glue_debug_fail_partition_registration\<close>. The pauses between attempts are left out, and the requests
  for the segments of a table, which run at the same time, are made one after the other: they
  share nothing but the client.
\<close>

subsection \<open>One partition\<close>

definition partition_request_for ::
  "glue_catalog \<Rightarrow> string \<Rightarrow> string \<Rightarrow> string list \<Rightarrow> partition_request request" where
  "partition_request_for cat database_name table_name values =
     set_catalog_id cat \<lparr>prq_database_name = database_name, prq_table_name = table_name,
                         prq_values = values\<rparr>"

definition update_partition_request ::
  "glue_catalog \<Rightarrow> string \<Rightarrow> string \<Rightarrow> string list \<Rightarrow> partition_input
     \<Rightarrow> partition_input_request request" where
  "update_partition_request cat database_name table_name values input =
     set_catalog_id cat \<lparr>pir_database_name = database_name, pir_table_name = table_name,
                         pir_value_list = Some values, pir_partition_input = input\<rparr>"

definition set_partition_location ::
  "duckdb \<Rightarrow> glue_catalog \<Rightarrow> 'w service \<Rightarrow> string \<Rightarrow> string \<Rightarrow> GluePartitionDetails \<Rightarrow> string
     \<Rightarrow> ('w, unit) op" where
  "set_partition_location D cat S database_name table_name p location =
     writing D cat ''UpdatePartition''
       (bind_op (get_client S) (\<lambda>_.
        bind_op (lift_op (fetched_partition D p database_name table_name)) (\<lambda>raw.
        bind_op (call_op (UpdatePartition S (update_partition_request cat database_name table_name (p_values p)
            \<lparr>pi_values = pt_values raw,
             pi_storage_descriptor = (pt_storage_descriptor raw)\<lparr>sd_location := location\<rparr>,
             pi_parameters = Some (pt_parameters raw)\<rparr>))) (\<lambda>outcome.
          case outcome of
            Inl e \<Rightarrow> throw_op (throw_glue_error e (''UpdatePartition '' @ database_name @ ''.'' @ table_name))
          | Inr _ \<Rightarrow> return_op ()))))"

definition to_partition_info :: "aws_partition \<Rightarrow> GluePartitionInfo" where
  "to_partition_info p =
     (let sd = pt_storage_descriptor p in
      \<lparr> p_values = pt_values p, p_location = sd_location sd, p_input_format = sd_input_format sd,
        p_serde_library = sd_serde_library sd, p_serde_parameters = sd_serde_parameters sd,
        p_partition_columns = to_columns (sd_columns sd) \<rparr>)"

definition to_partition_details :: "aws_partition \<Rightarrow> GluePartitionDetails" where
  "to_partition_details p =
     GluePartitionInfo.extend (to_partition_info p)
       (GluePartitionDetails.fields (pt_parameters p) (Some p))"

definition get_partition_details ::
  "duckdb \<Rightarrow> glue_catalog \<Rightarrow> 'w service \<Rightarrow> string \<Rightarrow> string \<Rightarrow> string list
     \<Rightarrow> ('w, GluePartitionDetails option) op" where
  "get_partition_details D cat S database_name table_name values =
     bind_op (get_client S) (\<lambda>_.
     bind_op (call_op (GetPartition S (partition_request_for cat database_name table_name values))) (\<lambda>outcome.
       case outcome of
         Inl e \<Rightarrow> if is_entity_not_found e then return_op None
                  else throw_op (throw_glue_error e (''GetPartition '' @ database_name @ ''.'' @ table_name))
       | Inr p \<Rightarrow> return_op (Some (to_partition_details p))))"

definition get_partition ::
  "duckdb \<Rightarrow> glue_catalog \<Rightarrow> 'w service \<Rightarrow> string \<Rightarrow> string \<Rightarrow> string list
     \<Rightarrow> ('w, GluePartitionInfo option) op" where
  "get_partition D cat S database_name table_name values =
     bind_op (get_partition_details D cat S database_name table_name values)
       (\<lambda>details. return_op (map_option GluePartitionInfo.truncate details))"

text \<open>The input registered for a partition: the table's descriptor with the partition's location.\<close>

definition partition_input_for :: "storage_descriptor \<Rightarrow> GluePartitionInput \<Rightarrow> partition_input" where
  "partition_input_for descriptor p =
     \<lparr>pi_values = gpi_values p, pi_storage_descriptor = descriptor\<lparr>sd_location := gpi_location p\<rparr>,
      pi_parameters = None\<rparr>"

definition create_partition ::
  "duckdb \<Rightarrow> glue_catalog \<Rightarrow> 'w service \<Rightarrow> GlueTableInfo \<Rightarrow> GluePartitionInput \<Rightarrow> bool \<Rightarrow> ('w, bool) op" where
  "create_partition D cat S t p if_not_exists =
     writing D cat ''CreatePartition''
       (bind_op (get_client S) (\<lambda>_.
        bind_op (lift_op (fetched_table t)) (\<lambda>raw.
        bind_op (call_op (CreatePartition S (set_catalog_id cat
            \<lparr>pir_database_name = t_schema_name t, pir_table_name = t_name t, pir_value_list = None,
             pir_partition_input = partition_input_for (tb_storage_descriptor raw) p\<rparr>))) (\<lambda>outcome.
          case outcome of
            Inl e \<Rightarrow>
              if is_already_exists e
              then (if if_not_exists then return_op False
                    else throw_op (CatalogException ''Partition already exists in Glue table''
                      [partition_values_to_string D (gpi_values p), t_schema_name t, t_name t]))
              else throw_op (throw_glue_error e (''CreatePartition '' @ t_schema_name t @ ''.'' @ t_name t))
          | Inr _ \<Rightarrow> return_op True))))"

definition delete_partition ::
  "duckdb \<Rightarrow> glue_catalog \<Rightarrow> 'w service \<Rightarrow> string \<Rightarrow> string \<Rightarrow> string list \<Rightarrow> ('w, bool) op" where
  "delete_partition D cat S database_name table_name values =
     writing D cat ''DeletePartition''
       (bind_op (get_client S) (\<lambda>_.
        bind_op (call_op (DeletePartition S (partition_request_for cat database_name table_name values)))
          (\<lambda>outcome. case outcome of
             Inl e \<Rightarrow> if is_entity_not_found e then return_op False
                      else throw_op (throw_glue_error e (''DeletePartition '' @ database_name @ ''.'' @ table_name))
           | Inr _ \<Rightarrow> return_op True)))"

definition rename_partition ::
  "duckdb \<Rightarrow> glue_catalog \<Rightarrow> 'w service \<Rightarrow> string \<Rightarrow> string \<Rightarrow> GluePartitionDetails \<Rightarrow> string list
     \<Rightarrow> ('w, string) op" where
  "rename_partition D cat S database_name table_name p new_values =
     writing D cat ''UpdatePartition''
       (bind_op (get_client S) (\<lambda>_.
        bind_op (lift_op (fetched_partition D p database_name table_name)) (\<lambda>raw.
        bind_op (call_op (UpdatePartition S (update_partition_request cat database_name table_name (p_values p)
            \<lparr>pi_values = new_values, pi_storage_descriptor = pt_storage_descriptor raw,
             pi_parameters = Some (pt_parameters raw)\<rparr>))) (\<lambda>outcome.
          case outcome of
            Inl e \<Rightarrow> throw_op (throw_glue_error e (''UpdatePartition '' @ database_name @ ''.'' @ table_name))
          | Inr _ \<Rightarrow> return_op (p_location p)))))"

subsection \<open>Asking for many\<close>

definition is_transient_partition_error :: "string \<Rightarrow> bool" where
  "is_transient_partition_error code \<longleftrightarrow>
     code = ''ThrottlingException'' \<or> code = ''InternalServiceException'' \<or>
     code = ''OperationTimeoutException'' \<or> code = ''ConcurrentModificationException''"

definition MAX_ATTEMPTS :: nat where
  "MAX_ATTEMPTS = 4"

definition batch_request ::
  "glue_catalog \<Rightarrow> string \<Rightarrow> string \<Rightarrow> string list list \<Rightarrow> partition_batch_request request" where
  "batch_request cat database_name table_name keys =
     set_catalog_id cat \<lparr>pbr_database_name = database_name, pbr_table_name = table_name,
                         pbr_partitions = keys\<rparr>"

type_synonym locations = "(string list \<times> string) list"

definition add_locations :: "aws_partition list \<Rightarrow> locations \<Rightarrow> locations" where
  "add_locations found existing =
     foldl (\<lambda>m p. emplace (pt_values p) (sd_location (pt_storage_descriptor p)) m) existing found"

text \<open>A turn of the inner loop: the keys left, the failed attempts so far and what was found.\<close>

definition locations_attempt ::
  "duckdb \<Rightarrow> glue_catalog \<Rightarrow> 'w service \<Rightarrow> string \<Rightarrow> string \<Rightarrow> locations \<times> nat \<times> string list list
     \<Rightarrow> ('w, locations + locations \<times> nat \<times> string list list) op" where
  "locations_attempt D cat S database_name table_name st =
     (case st of (existing, attempt, keys) \<Rightarrow>
      if keys = [] then return_op (Inl existing)
      else if attempt = MAX_ATTEMPTS
      then throw_op (IOException ''Glue BatchGetPartition left partitions unprocessed''
             [database_name, table_name, FormatInt D (int (length keys)), FormatInt D (int MAX_ATTEMPTS)])
      else
        bind_op (call_op (BatchGetPartition S (batch_request cat database_name table_name keys))) (\<lambda>outcome.
          case outcome of
            Inl e \<Rightarrow> throw_op (throw_glue_error e (''BatchGetPartition '' @ database_name @ ''.'' @ table_name))
          | Inr (found, unprocessed) \<Rightarrow>
              return_op (Inr (add_locations found existing,
                if length unprocessed < length keys then 0 else Suc attempt, unprocessed))))"

definition locations_batch ::
  "nat \<Rightarrow> duckdb \<Rightarrow> glue_catalog \<Rightarrow> 'w service \<Rightarrow> string \<Rightarrow> string \<Rightarrow> string list list \<Rightarrow> locations
     \<Rightarrow> ('w, locations) op" where
  "locations_batch fuel D cat S database_name table_name keys existing =
     do_while fuel (locations_attempt D cat S database_name table_name) (existing, 0, keys)"

definition partition_locations ::
  "nat \<Rightarrow> duckdb \<Rightarrow> glue_catalog \<Rightarrow> 'w service \<Rightarrow> string \<Rightarrow> string \<Rightarrow> string list list
     \<Rightarrow> ('w, locations) op" where
  "partition_locations fuel D cat S database_name table_name partitions =
     (if partitions = [] then return_op []
      else bind_op (get_client S) (\<lambda>_.
        for_each (locations_batch fuel D cat S database_name table_name) (batches 1000 partitions) []))"

definition existing_partitions ::
  "nat \<Rightarrow> duckdb \<Rightarrow> glue_catalog \<Rightarrow> 'w service \<Rightarrow> string \<Rightarrow> string \<Rightarrow> string list list
     \<Rightarrow> ('w, string list set) op" where
  "existing_partitions fuel D cat S database_name table_name partitions =
     bind_op (partition_locations fuel D cat S database_name table_name partitions)
       (\<lambda>m. return_op (set (map fst m)))"

subsection \<open>Unregistering many\<close>

text \<open>The partitions to send again, or the first refusal that is final.\<close>

fun delete_errors ::
  "duckdb \<Rightarrow> string \<Rightarrow> string \<Rightarrow> nat \<Rightarrow> partition_error list \<Rightarrow> string list list result" where
  "delete_errors D database_name table_name attempt [] = Inr []"
| "delete_errors D database_name table_name attempt (e # es) =
     (if pe_code e = ''EntityNotFoundException''
      then delete_errors D database_name table_name attempt es
      else if \<not> is_transient_partition_error (pe_code e) \<or> attempt + 1 = MAX_ATTEMPTS
      then Inl (IOException ''Glue BatchDeletePartition failed for partition''
             [database_name, table_name, partition_values_to_string D (pe_values e), pe_code e, pe_message e])
      else and_then (delete_errors D database_name table_name attempt es)
             (\<lambda>pending. Inr (pe_values e # pending)))"

definition delete_attempt ::
  "duckdb \<Rightarrow> glue_catalog \<Rightarrow> 'w service \<Rightarrow> string \<Rightarrow> string \<Rightarrow> nat \<times> string list list
     \<Rightarrow> ('w, unit + nat \<times> string list list) op" where
  "delete_attempt D cat S database_name table_name st =
     (case st of (attempt, pending) \<Rightarrow>
      if pending = [] then return_op (Inl ())
      else
        bind_op (call_op (BatchDeletePartition S (batch_request cat database_name table_name pending))) (\<lambda>outcome.
          case outcome of
            Inl e \<Rightarrow> throw_op (throw_glue_error e (''BatchDeletePartition '' @ database_name @ ''.'' @ table_name))
          | Inr errors \<Rightarrow>
              bind_op (lift_op (delete_errors D database_name table_name attempt errors))
                (\<lambda>pending'. return_op (Inr (Suc attempt, pending')))))"

definition delete_batch ::
  "duckdb \<Rightarrow> glue_catalog \<Rightarrow> 'w service \<Rightarrow> string \<Rightarrow> string \<Rightarrow> string list list \<Rightarrow> unit \<Rightarrow> ('w, unit) op" where
  "delete_batch D cat S database_name table_name pending u =
     do_while (Suc MAX_ATTEMPTS) (delete_attempt D cat S database_name table_name) (0, pending)"

definition batch_delete_partitions ::
  "duckdb \<Rightarrow> glue_catalog \<Rightarrow> 'w service \<Rightarrow> string \<Rightarrow> string \<Rightarrow> string list list \<Rightarrow> ('w, unit) op" where
  "batch_delete_partitions D cat S database_name table_name partitions =
     writing D cat ''BatchDeletePartition''
       (if partitions = [] then return_op ()
        else bind_op (get_client S) (\<lambda>_.
          for_each (delete_batch D cat S database_name table_name) (batches 25 partitions) ()))"

subsection \<open>Listing the partitions of a table\<close>

definition partitions_request_for ::
  "glue_catalog \<Rightarrow> string \<Rightarrow> string \<Rightarrow> nat \<Rightarrow> nat \<Rightarrow> string \<Rightarrow> partitions_request request" where
  "partitions_request_for cat database_name table_name segment_number total_segments token =
     set_catalog_id cat \<lparr>psr_database_name = database_name, psr_table_name = table_name,
       psr_max_results = 1000,
       psr_segment = (if total_segments > 1 then Some (segment_number, total_segments) else None),
       psr_next_token = next_token_of token\<rparr>"

definition fetch_partitions_page ::
  "glue_catalog \<Rightarrow> 'w service \<Rightarrow> string \<Rightarrow> string \<Rightarrow> nat \<Rightarrow> nat \<Rightarrow> GluePartitionInfo list \<times> string
     \<Rightarrow> ('w, GluePartitionInfo list + GluePartitionInfo list \<times> string) op" where
  "fetch_partitions_page cat S database_name table_name segment_number total_segments st =
     (case st of (result, token) \<Rightarrow>
      bind_op (call_op (GetPartitions S
          (partitions_request_for cat database_name table_name segment_number total_segments token))) (\<lambda>outcome.
        case outcome of
          Inl e \<Rightarrow> throw_op (throw_glue_error e (''GetPartitions '' @ database_name @ ''.'' @ table_name))
        | Inr (partitions, token') \<Rightarrow>
            let result' = result @ map to_partition_info partitions in
            if token' \<noteq> [] then return_op (Inr (result', token')) else return_op (Inl result')))"

definition fetch_partition_segment ::
  "nat \<Rightarrow> glue_catalog \<Rightarrow> 'w service \<Rightarrow> string \<Rightarrow> string \<Rightarrow> nat \<Rightarrow> nat
     \<Rightarrow> ('w, GluePartitionInfo list) op" where
  "fetch_partition_segment fuel cat S database_name table_name segment_number total_segments =
     do_while fuel (fetch_partitions_page cat S database_name table_name segment_number total_segments) ([], [])"

definition get_partition_segment_count :: "settings \<Rightarrow> glue_catalog \<Rightarrow> nat" where
  "get_partition_segment_count st cat =
     (let set_segments = (case set_get_partitions_segments st of None \<Rightarrow> 0 | Some n \<Rightarrow> n);
          segments = (if set_segments = 0 then (if cat_endpoint cat = [] then 8 else 1) else set_segments)
      in if segments > 10 then 10 else segments)"

text \<open>Only the first of the partitions with the same values is kept.\<close>

fun drop_seen ::
  "duckdb \<Rightarrow> nat \<Rightarrow> string list \<Rightarrow> GluePartitionInfo list \<Rightarrow> GluePartitionInfo list" where
  "drop_seen D total_segments seen [] = []"
| "drop_seen D total_segments seen (p # ps) =
     (let key = Join D (p_values p) [CHR 0x1F] in
      if total_segments > 1 \<and> key \<in> set seen then drop_seen D total_segments seen ps
      else p # drop_seen D total_segments (key # seen) ps)"

definition get_partitions ::
  "nat \<Rightarrow> duckdb \<Rightarrow> glue_catalog \<Rightarrow> 'w service \<Rightarrow> string \<Rightarrow> string \<Rightarrow> ('w, GluePartitionInfo list) op" where
  "get_partitions fuel D cat S database_name table_name =
     bind_op (get_client S) (\<lambda>_ s.
       (let total_segments = get_partition_segment_count (s_settings s) cat in
        bind_op
          (if total_segments = 1
           then bind_op (fetch_partition_segment fuel cat S database_name table_name 0 1)
                  (\<lambda>ps. return_op [ps])
           else for_each (\<lambda>segment results.
                  bind_op (fetch_partition_segment fuel cat S database_name table_name segment total_segments)
                    (\<lambda>ps. return_op (results @ [ps]))) [0 ..< total_segments] [])
          (\<lambda>results. return_op (drop_seen D total_segments [] (concat results)))) s)"

subsection \<open>Registering many\<close>

record InjectedPartitionFailure =
  if_code :: string
  if_from :: nat
  if_enabled :: bool

definition no_failure :: InjectedPartitionFailure where
  "no_failure = \<lparr>if_code = [], if_from = 0, if_enabled = False\<rparr>"

definition parse_failure :: "duckdb \<Rightarrow> string \<Rightarrow> InjectedPartitionFailure result" where
  "parse_failure D text =
     (if text = [] then Inr no_failure
      else
        let refusal = InvalidInputException
              ''glue_debug_fail_partition_registration is not an error code and an index'' [text] in
        case find_char CHR '':'' text of
          None \<Rightarrow> Inl refusal
        | Some separator \<Rightarrow>
            if separator = 0 then Inl refusal
            else case TryCastAs D (OTHER_TYPE ''UBIGINT'') (StringV (drop (Suc separator) text)) of
                   None \<Rightarrow> Inl refusal
                 | Some v \<Rightarrow> Inr \<lparr>if_code = take separator text,
                     if_from = (case v of IntV _ i \<Rightarrow> nat i | _ \<Rightarrow> 0), if_enabled = True\<rparr>)"

definition failure_from_settings :: "duckdb \<Rightarrow> settings \<Rightarrow> InjectedPartitionFailure result" where
  "failure_from_settings D st = (case set_fail_partition_registration st of
     None \<Rightarrow> Inr no_failure | Some text \<Rightarrow> parse_failure D text)"

definition check_debug_fail_partition_registration :: "duckdb \<Rightarrow> string option \<Rightarrow> unit result" where
  "check_debug_fail_partition_registration D parameter = (case parameter of
     None \<Rightarrow> Inr () | Some text \<Rightarrow> and_then (parse_failure D text) (\<lambda>_. Inr ()))"

definition injected_fails :: "InjectedPartitionFailure \<Rightarrow> nat \<Rightarrow> nat \<Rightarrow> bool" where
  "injected_fails f index attempt \<longleftrightarrow>
     if_enabled f \<and> index \<ge> if_from f \<and>
     (attempt = 0 \<or> \<not> is_transient_partition_error (if_code f))"

text \<open>\<open>PartitionError\<close>: index, code and message.\<close>

type_synonym registration_error = "nat \<times> string \<times> string"

text \<open>
  The errors of a response, in order: one of a partition not sent is an exception, one of a
  partition that exists is reported, the others are kept.
\<close>

fun create_response ::
  "duckdb \<Rightarrow> string \<Rightarrow> string \<Rightarrow> GluePartitionInput list \<Rightarrow> (string list \<times> nat) list
     \<Rightarrow> partition_error list \<Rightarrow> GluePartitionInput list \<times> registration_error list
     \<Rightarrow> (GluePartitionInput list \<times> registration_error list) result" where
  "create_response D database_name table_name partitions sent [] acc = Inr acc"
| "create_response D database_name table_name partitions sent (e # es) (already, errors) =
     (case map_of sent (pe_values e) of
        None \<Rightarrow> Inl (IOException ''Glue BatchCreatePartition failed for a partition not sent''
                  [database_name, table_name, partition_values_to_string D (pe_values e), pe_message e, pe_code e])
      | Some index \<Rightarrow>
          if pe_code e = ''AlreadyExistsException''
          then create_response D database_name table_name partitions sent es
                 (already @ [partitions ! index], errors)
          else create_response D database_name table_name partitions sent es
                 (already, errors @ [(index, pe_code e, pe_message e)]))"

fun create_errors ::
  "duckdb \<Rightarrow> string \<Rightarrow> string \<Rightarrow> GluePartitionInput list \<Rightarrow> nat \<Rightarrow> registration_error list
     \<Rightarrow> nat list result" where
  "create_errors D database_name table_name partitions attempt [] = Inr []"
| "create_errors D database_name table_name partitions attempt ((index, code, message) # es) =
     (if \<not> is_transient_partition_error code \<or> attempt + 1 = MAX_ATTEMPTS
      then Inl (IOException ''Glue BatchCreatePartition failed for partition''
             [database_name, table_name, partition_values_to_string D (gpi_values (partitions ! index)),
              code, message])
      else and_then (create_errors D database_name table_name partitions attempt es)
             (\<lambda>pending. Inr (index # pending)))"

definition INJECTED_MESSAGE :: string where
  "INJECTED_MESSAGE = ''injected by glue_debug_fail_partition_registration''"

definition create_attempt ::
  "duckdb \<Rightarrow> glue_catalog \<Rightarrow> 'w service \<Rightarrow> GlueTableInfo \<Rightarrow> storage_descriptor \<Rightarrow> InjectedPartitionFailure
     \<Rightarrow> GluePartitionInput list \<Rightarrow> GluePartitionInput list \<times> nat \<times> nat list
     \<Rightarrow> ('w, GluePartitionInput list + GluePartitionInput list \<times> nat \<times> nat list) op" where
  "create_attempt D cat S t descriptor injected partitions st =
     (case st of (already, attempt, pending) \<Rightarrow>
      if pending = [] then return_op (Inl already)
      else
        let failing = filter (\<lambda>i. injected_fails injected i attempt) pending;
            sending = filter (\<lambda>i. \<not> injected_fails injected i attempt) pending;
            errors = map (\<lambda>i. (i, if_code injected, INJECTED_MESSAGE)) failing;
            inputs = map (\<lambda>i. partition_input_for descriptor (partitions ! i)) sending;
            sent = foldl (\<lambda>m i. emplace (gpi_values (partitions ! i)) i m) [] sending
        in
        bind_op
          (if inputs = [] then return_op (already, errors)
           else
             bind_op (call_op (BatchCreatePartition S (set_catalog_id cat
                 \<lparr>pis_database_name = t_schema_name t, pis_table_name = t_name t, pis_inputs = inputs\<rparr>)))
               (\<lambda>outcome. case outcome of
                  Inl e \<Rightarrow> throw_op (throw_glue_error e
                             (''BatchCreatePartition '' @ t_schema_name t @ ''.'' @ t_name t))
                | Inr response \<Rightarrow> lift_op (create_response D (t_schema_name t) (t_name t) partitions sent
                             response (already, errors))))
          (\<lambda>(already', errors').
             bind_op (lift_op (create_errors D (t_schema_name t) (t_name t) partitions attempt errors'))
               (\<lambda>pending'. return_op (Inr (already', Suc attempt, pending')))))"

definition create_batch ::
  "duckdb \<Rightarrow> glue_catalog \<Rightarrow> 'w service \<Rightarrow> GlueTableInfo \<Rightarrow> storage_descriptor \<Rightarrow> InjectedPartitionFailure
     \<Rightarrow> GluePartitionInput list \<Rightarrow> nat list \<Rightarrow> GluePartitionInput list \<Rightarrow> ('w, GluePartitionInput list) op" where
  "create_batch D cat S t descriptor injected partitions pending already =
     do_while (Suc MAX_ATTEMPTS) (create_attempt D cat S t descriptor injected partitions) (already, 0, pending)"

definition batch_create_partitions ::
  "duckdb \<Rightarrow> glue_catalog \<Rightarrow> 'w service \<Rightarrow> GlueTableInfo \<Rightarrow> GluePartitionInput list
     \<Rightarrow> ('w, GluePartitionInput list) op" where
  "batch_create_partitions D cat S t partitions =
     writing D cat ''BatchCreatePartition''
       (if partitions = [] then return_op []
        else bind_op (get_client S) (\<lambda>_ s.
          bind_op (lift_op (failure_from_settings D (s_settings s))) (\<lambda>injected.
          bind_op (lift_op (fetched_table t)) (\<lambda>raw.
            for_each (create_batch D cat S t (tb_storage_descriptor raw) injected partitions)
              (batches 100 [0 ..< length partitions]) [])) s))"

subsection \<open>Interfaces\<close>

lemma do_while_numeral:
  "do_while (numeral k) body x =
     bind_op (body x) (\<lambda>r. case r of Inl y \<Rightarrow> return_op y | Inr x' \<Rightarrow> do_while (pred_numeral k) body x')"
  by (simp add: numeral_eq_Suc)

interpretation set_partition_location:
  guarded_mutation "set_partition_location D cat S database_name table_name p location" cat
  for D cat S database_name table_name p location
  unfolding set_partition_location_def by unfold_locales

interpretation create_partition: guarded_mutation "create_partition D cat S t p if_not_exists" cat
  for D cat S t p if_not_exists
  unfolding create_partition_def by unfold_locales

interpretation delete_partition:
  guarded_mutation "delete_partition D cat S database_name table_name values" cat
  for D cat S database_name table_name "values"
  unfolding delete_partition_def by unfold_locales

interpretation rename_partition:
  guarded_mutation "rename_partition D cat S database_name table_name p new_values" cat
  for D cat S database_name table_name p new_values
  unfolding rename_partition_def by unfold_locales

interpretation batch_delete_partitions:
  guarded_mutation "batch_delete_partitions D cat S database_name table_name partitions" cat
  for D cat S database_name table_name partitions
  unfolding batch_delete_partitions_def by unfold_locales

interpretation batch_create_partitions:
  guarded_mutation "batch_create_partitions D cat S t partitions" cat
  for D cat S t partitions
  unfolding batch_create_partitions_def by unfold_locales

interpretation partitions_listing: paged_listing
  "fetch_partitions_page cat S database_name table_name segment_number total_segments"
  "\<lambda>token. GetPartitions S (partitions_request_for cat database_name table_name segment_number
     total_segments token)"
  to_partition_info "\<lambda>result. result"
  for cat S database_name table_name segment_number total_segments
  by unfold_locales (simp_all add: fetch_partitions_page_def bind_op_def call_op_def return_op_def Let_def)

subsection \<open>The retries end\<close>

lemma delete_errors_last:
  "delete_errors D database_name table_name 3 errors = Inr pending \<Longrightarrow> pending = []"
  by (induction errors) (auto simp: MAX_ATTEMPTS_def split: if_splits)

lemma delete_errors_no_fuel: "delete_errors D database_name table_name attempt errors \<noteq> Inl OutOfFuel"
  by (induction errors) (auto simp: result_simps)

lemma create_errors_Inr:
  "create_errors D database_name table_name partitions attempt errors = Inr pending \<Longrightarrow>
     pending = map fst errors \<and> (attempt = 3 \<longrightarrow> errors = [])"
  by (induction errors arbitrary: pending) (auto simp: MAX_ATTEMPTS_def result_simps split: if_splits)

lemma create_errors_no_fuel: "create_errors D database_name table_name partitions attempt errors \<noteq> Inl OutOfFuel"
  by (induction errors) (auto simp: result_simps split: if_splits)

lemma create_response_no_fuel:
  "create_response D database_name table_name partitions sent es acc \<noteq> Inl OutOfFuel"
  by (induction D database_name table_name partitions sent es acc rule: create_response.induct)
    (auto split: option.splits)

text \<open>The measure of the batch loops: the attempts left, none once nothing is pending.\<close>

interpretation delete_loop: bounded_loop "delete_attempt D cat S database_name table_name"
  "\<lambda>(attempt, pending). if pending = [] then 0 else MAX_ATTEMPTS - attempt"
  "\<lambda>(attempt, pending). pending = [] \<or> attempt < MAX_ATTEMPTS"
  for D cat S database_name table_name
proof
  fix x x' :: "nat \<times> string list list" and s s' :: "'a session"
  assume v: "case x of (attempt, pending) \<Rightarrow> pending = [] \<or> attempt < MAX_ATTEMPTS"
    and b: "delete_attempt D cat S database_name table_name x s = (Inr (Inr x'), s')"
  obtain attempt pending where x: "x = (attempt, pending)" by fastforce
  from b obtain errors pending' where "pending \<noteq> []" and x': "x' = (Suc attempt, pending')"
    and e: "delete_errors D database_name table_name attempt errors = Inr pending'"
    by (auto simp: x delete_attempt_def bind_op_def call_op_def lift_op_def throw_op_def return_op_def
        split: prod.splits sum.splits if_splits)
  then have "attempt < MAX_ATTEMPTS" "attempt \<noteq> 3 \<or> pending' = []"
    using v delete_errors_last [of D database_name table_name errors pending'] by (auto simp: x)
  then show "(case x' of (attempt, pending) \<Rightarrow> pending = [] \<or> attempt < MAX_ATTEMPTS) \<and>
      (case x' of (attempt, pending) \<Rightarrow> if pending = [] then 0 else MAX_ATTEMPTS - attempt)
        < (case x of (attempt, pending) \<Rightarrow> if pending = [] then 0 else MAX_ATTEMPTS - attempt)"
    using \<open>pending \<noteq> []\<close> by (auto simp: x x' MAX_ATTEMPTS_def)
next
  fix x :: "nat \<times> string list list" and s :: "'a session"
  show "fst (delete_attempt D cat S database_name table_name x s) \<noteq> Inl OutOfFuel"
    using delete_errors_no_fuel
    by (auto simp: delete_attempt_def bind_op_def call_op_def lift_op_def throw_op_def return_op_def
        throw_glue_error_def split: prod.splits sum.splits)
qed

lemma create_attempt_cases:
  assumes "create_attempt D cat S t descriptor injected partitions (already, attempt, pending) s
    = (Inr (Inr (already', attempt', pending')), s')"
  obtains errors where "pending \<noteq> []" "attempt' = Suc attempt"
    "create_errors D (t_schema_name t) (t_name t) partitions attempt errors = Inr pending'"
  using assms
  by (auto simp: create_attempt_def Let_def bind_op_def call_op_def lift_op_def throw_op_def return_op_def
      split: prod.splits sum.splits if_splits)

interpretation create_loop: bounded_loop "create_attempt D cat S t descriptor injected partitions"
  "\<lambda>(already, attempt, pending). if pending = [] then 0 else MAX_ATTEMPTS - attempt"
  "\<lambda>(already, attempt, pending). pending = [] \<or> attempt < MAX_ATTEMPTS"
  for D cat S t descriptor injected partitions
proof
  fix x x' :: "GluePartitionInput list \<times> nat \<times> nat list" and s s' :: "'a session"
  assume v: "case x of (already, attempt, pending) \<Rightarrow> pending = [] \<or> attempt < MAX_ATTEMPTS"
    and b: "create_attempt D cat S t descriptor injected partitions x s = (Inr (Inr x'), s')"
  obtain already attempt pending already' attempt' pending'
    where x: "x = (already, attempt, pending)" "x' = (already', attempt', pending')"
    by (metis prod_cases3)
  from create_attempt_cases [OF b [unfolded x]] obtain errors where "pending \<noteq> []" "attempt' = Suc attempt"
    and e: "create_errors D (t_schema_name t) (t_name t) partitions attempt errors = Inr pending'" .
  moreover from create_errors_Inr [OF e] have "attempt \<noteq> 3 \<or> pending' = []" by simp
  ultimately show "(case x' of (already, attempt, pending) \<Rightarrow> pending = [] \<or> attempt < MAX_ATTEMPTS) \<and>
      (case x' of (already, attempt, pending) \<Rightarrow> if pending = [] then 0 else MAX_ATTEMPTS - attempt)
        < (case x of (already, attempt, pending) \<Rightarrow> if pending = [] then 0 else MAX_ATTEMPTS - attempt)"
    using v by (auto simp: x MAX_ATTEMPTS_def)
next
  fix x :: "GluePartitionInput list \<times> nat \<times> nat list" and s :: "'a session"
  show "fst (create_attempt D cat S t descriptor injected partitions x s) \<noteq> Inl OutOfFuel"
    using create_errors_no_fuel create_response_no_fuel
    by (auto simp: create_attempt_def Let_def bind_op_def call_op_def lift_op_def throw_op_def
        return_op_def throw_glue_error_def split: prod.splits sum.splits)
qed

lemma writing_no_fuel:
  assumes "fst (m s) \<noteq> Inl OutOfFuel"
  shows "fst (writing D cat operation m s) \<noteq> Inl OutOfFuel"
  using assms
  by (auto simp: writing_def invalidate_on_exit_def bind_op_def lift_op_def check_writable_def
      split: prod.splits sum.splits)

lemma client_no_fuel:
  assumes "\<And>w. fst (AcquireClient S w) \<noteq> Inl OutOfFuel" "\<And>s. fst (m s) \<noteq> Inl OutOfFuel"
  shows "fst (bind_op (get_client S) (\<lambda>_. m) s) \<noteq> Inl OutOfFuel"
  using assms(1) [of "s_world s"] assms(2)
  by (auto simp: bind_op_def get_client_def call_op_def lift_op_def split: prod.splits sum.splits)

subsection \<open>What Glue documents of the batch calls\<close>

text \<open>
  BatchCreatePartition: each partition sent is registered afterwards or refused by an error that
  names it, one that exists is so named, and nothing is unregistered. \<open>reg\<close> is what is registered
  for the table.
\<close>

definition registers ::
  "'w service \<Rightarrow> string \<times> string \<Rightarrow> ('w \<Rightarrow> string list set) \<Rightarrow> bool" where
  "registers S key reg \<longleftrightarrow>
     (\<forall>rq w w' errors. BatchCreatePartition S rq w = (Inr errors, w') \<longrightarrow>
        (pis_database_name (rq_body rq), pis_table_name (rq_body rq)) = key \<longrightarrow>
        reg w \<subseteq> reg w' \<and>
        (\<forall>i\<in>set (pis_inputs (rq_body rq)). pi_values i \<in> reg w' \<or>
           (\<exists>e\<in>set errors. pe_values e = pi_values i \<and> pe_code e \<noteq> ''AlreadyExistsException'')))"

text \<open>BatchDeletePartition, likewise.\<close>

definition unregisters ::
  "'w service \<Rightarrow> string \<times> string \<Rightarrow> ('w \<Rightarrow> string list set) \<Rightarrow> bool" where
  "unregisters S key reg \<longleftrightarrow>
     (\<forall>rq w w' errors. BatchDeletePartition S rq w = (Inr errors, w') \<longrightarrow>
        (pbr_database_name (rq_body rq), pbr_table_name (rq_body rq)) = key \<longrightarrow>
        reg w' \<subseteq> reg w \<and>
        (\<forall>v\<in>set (pbr_partitions (rq_body rq)). v \<notin> reg w' \<or>
           (\<exists>e\<in>set errors. pe_values e = v \<and> pe_code e \<noteq> ''EntityNotFoundException'')))"

text \<open>
  BatchGetPartition of a table whose partitions are \<open>registered\<close>, with their locations, all along:
  a partition asked for is found if it is registered, or left unprocessed.
\<close>

definition answers_batches ::
  "'w service \<Rightarrow> string \<times> string \<Rightarrow> (string list \<Rightarrow> string option) \<Rightarrow> bool" where
  "answers_batches S key registered \<longleftrightarrow>
     (\<forall>rq w w' found unprocessed. BatchGetPartition S rq w = (Inr (found, unprocessed), w') \<longrightarrow>
        (pbr_database_name (rq_body rq), pbr_table_name (rq_body rq)) = key \<longrightarrow>
        set unprocessed \<subseteq> set (pbr_partitions (rq_body rq)) \<and>
        length unprocessed \<le> length (pbr_partitions (rq_body rq)) \<and>
        (\<forall>p\<in>set found. pt_values p \<in> set (pbr_partitions (rq_body rq)) \<and>
           registered (pt_values p) = Some (sd_location (pt_storage_descriptor p))) \<and>
        (\<forall>v\<in>set (pbr_partitions (rq_body rq)) - set unprocessed. registered v \<noteq> None \<longrightarrow>
           v \<in> pt_values ` set found))"

subsection \<open>A round of the loops\<close>

lemma delete_errors_Inr:
  "delete_errors D database_name table_name attempt errors = Inr pending \<Longrightarrow>
     e \<in> set errors \<Longrightarrow> pe_code e = ''EntityNotFoundException'' \<or> pe_values e \<in> set pending"
  by (induction errors arbitrary: pending) (auto simp: result_simps split: if_splits)

lemma delete_attempt_round:
  assumes "unregisters S (database_name, table_name) reg"
    and "delete_attempt D cat S database_name table_name (attempt, pending) s
           = (Inr (Inr (attempt', pending')), s')"
  shows "reg (s_world s') \<subseteq> reg (s_world s) \<and>
    (\<forall>v\<in>set pending. v \<notin> reg (s_world s') \<or> v \<in> set pending')"
proof -
  let ?rq = "batch_request cat database_name table_name pending"
  obtain errors w' where call: "BatchDeletePartition S ?rq (s_world s) = (Inr errors, w')"
    and s': "s' = s\<lparr>s_world := w'\<rparr>"
    and e: "delete_errors D database_name table_name attempt errors = Inr pending'"
    using assms(2)
    by (auto simp: delete_attempt_def bind_op_def call_op_def lift_op_def throw_op_def return_op_def
        split: prod.splits sum.splits if_splits)
  have rq: "(pbr_database_name (rq_body ?rq), pbr_table_name (rq_body ?rq)) = (database_name, table_name)"
    "pbr_partitions (rq_body ?rq) = pending"
    by (simp_all add: batch_request_def set_catalog_id_def)
  have "reg w' \<subseteq> reg (s_world s)"
    "\<forall>v\<in>set pending. v \<notin> reg w' \<or> (\<exists>e\<in>set errors. pe_values e = v \<and> pe_code e \<noteq> ''EntityNotFoundException'')"
    using assms(1) call rq unfolding unregisters_def by (metis (no_types, lifting))+
  with delete_errors_Inr [OF e] s' show ?thesis by fastforce
qed

lemma create_response_Inr:
  assumes "create_response D database_name table_name partitions sent es (already, errors) = Inr (already', errors')"
  shows "errors' = errors @ map (\<lambda>e. (the (map_of sent (pe_values e)), pe_code e, pe_message e))
      (filter (\<lambda>e. pe_code e \<noteq> ''AlreadyExistsException'') es) \<and>
    already' = already @ map (\<lambda>e. partitions ! the (map_of sent (pe_values e)))
      (filter (\<lambda>e. pe_code e = ''AlreadyExistsException'') es) \<and>
    (\<forall>e\<in>set es. map_of sent (pe_values e) \<noteq> None)"
  using assms
proof (induction es arbitrary: already errors)
  case (Cons e es)
  then obtain index where m: "map_of sent (pe_values e) = Some index"
    by (auto split: option.splits)
  show ?case
  proof (cases "pe_code e = ''AlreadyExistsException''")
    case True
    with Cons.prems m have "create_response D database_name table_name partitions sent es
        (already @ [partitions ! index], errors) = Inr (already', errors')" by simp
    from Cons.IH [OF this] True m show ?thesis by simp
  next
    case False
    with Cons.prems m have "create_response D database_name table_name partitions sent es
        (already, errors @ [(index, pe_code e, pe_message e)]) = Inr (already', errors')" by simp
    from Cons.IH [OF this] False m show ?thesis by simp
  qed
qed simp

lemma sent_index:
  "map_of (foldl (\<lambda>m i. emplace (val i) i m) m sending) v = Some i \<Longrightarrow>
     (i \<in> set sending \<and> val i = v) \<or> map_of m v = Some i"
proof (induction sending arbitrary: m)
  case (Cons a sending)
  have "(i \<in> set sending \<and> val i = v) \<or> map_of (emplace (val a) a m) v = Some i"
    by (rule Cons.IH) (use Cons.prems in simp)
  then show ?case by (auto split: if_splits option.splits)
qed simp

lemma create_attempt_round:
  assumes "registers S (t_schema_name t, t_name t) reg"
    and "create_attempt D cat S t descriptor injected partitions (already, attempt, pending) s
           = (Inr (Inr (already', attempt', pending')), s')"
  shows "reg (s_world s) \<subseteq> reg (s_world s') \<and> set pending' \<subseteq> set pending \<and>
    (\<forall>i\<in>set pending. gpi_values (partitions ! i) \<in> reg (s_world s') \<or>
       (\<exists>j\<in>set pending'. gpi_values (partitions ! j) = gpi_values (partitions ! i))) \<and>
    set already' \<subseteq> set already \<union> (\<lambda>i. partitions ! i) ` set pending"
proof -
  let ?failing = "filter (\<lambda>i. injected_fails injected i attempt) pending"
  let ?sending = "filter (\<lambda>i. \<not> injected_fails injected i attempt) pending"
  let ?errors = "map (\<lambda>i. (i, if_code injected, INJECTED_MESSAGE)) ?failing"
  let ?inputs = "map (\<lambda>i. partition_input_for descriptor (partitions ! i)) ?sending"
  let ?sent = "foldl (\<lambda>m i. emplace (gpi_values (partitions ! i)) i m) [] ?sending"
  let ?rq = "set_catalog_id cat
    \<lparr>pis_database_name = t_schema_name t, pis_table_name = t_name t, pis_inputs = ?inputs\<rparr>"
  from assms(2) obtain errors' where pend:
      "create_errors D (t_schema_name t) (t_name t) partitions attempt errors' = Inr pending'"
    and sent: "if ?inputs = [] then already' = already \<and> errors' = ?errors \<and> s' = s
      else \<exists>response w'. BatchCreatePartition S ?rq (s_world s) = (Inr response, w') \<and>
        s' = s\<lparr>s_world := w'\<rparr> \<and>
        create_response D (t_schema_name t) (t_name t) partitions ?sent response (already, ?errors)
          = Inr (already', errors')"
    by (auto simp: create_attempt_def Let_def bind_op_def call_op_def lift_op_def throw_op_def
        return_op_def split: prod.splits sum.splits if_splits)
  have p: "pending' = map fst errors'" using create_errors_Inr [OF pend] by simp
  show ?thesis
  proof (cases "?inputs = []")
    case True
    with sent have "already' = already" "errors' = ?errors" "s' = s" by simp_all
    moreover from True have "?failing = pending"
      by (auto simp: filter_empty_conv intro: filter_True)
    ultimately show ?thesis by (auto simp: p)
  next
    case False
    with sent obtain response w' where call: "BatchCreatePartition S ?rq (s_world s) = (Inr response, w')"
      and s': "s' = s\<lparr>s_world := w'\<rparr>"
      and resp: "create_response D (t_schema_name t) (t_name t) partitions ?sent response (already, ?errors)
          = Inr (already', errors')"
      by (simp only: False if_False) blast
    from assms(1) call have mono: "reg (s_world s) \<subseteq> reg w'"
      and each: "\<forall>i\<in>set ?inputs. pi_values i \<in> reg w' \<or> (\<exists>e\<in>set response. pe_values e = pi_values i
        \<and> pe_code e \<noteq> ''AlreadyExistsException'')"
      unfolding registers_def set_catalog_id_def by fastforce+
    define index_of :: "partition_error \<Rightarrow> nat" where "index_of = (\<lambda>e. the (map_of ?sent (pe_values e)))"
    have errors': "errors' = ?errors @ map (\<lambda>e. (index_of e, pe_code e, pe_message e))
          (filter (\<lambda>e. pe_code e \<noteq> ''AlreadyExistsException'') response)"
      and already': "already' = already @ map (\<lambda>e. partitions ! index_of e)
          (filter (\<lambda>e. pe_code e = ''AlreadyExistsException'') response)"
      and all_sent: "\<And>e. e \<in> set response \<Longrightarrow> map_of ?sent (pe_values e) \<noteq> None"
      using create_response_Inr [OF resp] by (simp_all add: index_of_def)
    have found: "index_of e \<in> set ?sending \<and> gpi_values (partitions ! index_of e) = pe_values e"
      if "e \<in> set response" for e
      using all_sent [OF that] sent_index [of "\<lambda>i. gpi_values (partitions ! i)" "[]" ?sending "pe_values e"]
      by (fastforce simp: index_of_def)
    have "set pending' \<subseteq> set pending" using found by (auto simp: p errors')
    moreover have "set already' \<subseteq> set already \<union> (\<lambda>i. partitions ! i) ` set pending"
      using found by (auto simp: already')
    moreover have "gpi_values (partitions ! i) \<in> reg w' \<or>
       (\<exists>j\<in>set pending'. gpi_values (partitions ! j) = gpi_values (partitions ! i))" if "i \<in> set pending" for i
    proof (cases "injected_fails injected i attempt")
      case True
      with that show ?thesis by (auto simp: p errors')
    next
      case False
      with that each have "gpi_values (partitions ! i) \<in> reg w' \<or> (\<exists>e\<in>set response.
          pe_values e = gpi_values (partitions ! i) \<and> pe_code e \<noteq> ''AlreadyExistsException'')"
        by (force simp: partition_input_for_def)
      then show ?thesis
      proof
        assume "\<exists>e\<in>set response. pe_values e = gpi_values (partitions ! i)
          \<and> pe_code e \<noteq> ''AlreadyExistsException''"
        then obtain e where e: "e \<in> set response" "pe_values e = gpi_values (partitions ! i)"
          "pe_code e \<noteq> ''AlreadyExistsException''" by blast
        have "(index_of e, pe_code e, pe_message e) \<in> set errors'"
          unfolding errors' using e(1,3) by auto
        then have "index_of e \<in> set pending'" unfolding p by (metis fst_conv image_eqI set_map)
        with found [OF e(1)] e(2) show ?thesis by metis
      qed simp
    qed
    ultimately show ?thesis using mono by (simp add: s')
  qed
qed

lemma add_locations_lookup:
  "map_of (add_locations found m) v =
     (case map_of m v of Some l \<Rightarrow> Some l
      | None \<Rightarrow> map_option (\<lambda>p. sd_location (pt_storage_descriptor p)) (find (\<lambda>p. pt_values p = v) found))"
  unfolding add_locations_def
  by (induction found arbitrary: m) (auto split: option.splits)

definition locations_rank :: "locations \<times> nat \<times> string list list \<Rightarrow> nat" where
  "locations_rank st = (case st of (existing, attempt, keys) \<Rightarrow> 5 * length keys + (MAX_ATTEMPTS - attempt))"

lemma locations_attempt_round:
  assumes "locations_attempt D cat S database_name table_name (existing, attempt, keys) s
           = (Inr (Inr (existing', attempt', keys')), s')"
  obtains found w' where "keys \<noteq> []" "attempt \<noteq> MAX_ATTEMPTS"
    "BatchGetPartition S (batch_request cat database_name table_name keys) (s_world s) = (Inr (found, keys'), w')"
    "s' = s\<lparr>s_world := w'\<rparr>" "existing' = add_locations found existing"
    "attempt' = (if length keys' < length keys then 0 else Suc attempt)"
  using assms
  by (auto simp: locations_attempt_def bind_op_def call_op_def throw_op_def return_op_def
      split: prod.splits sum.splits if_splits)

lemma locations_loop:
  assumes "answers_batches S (database_name, table_name) registered"
  shows "bounded_loop (locations_attempt D cat S database_name table_name) locations_rank
    (\<lambda>(existing, attempt, keys). attempt \<le> MAX_ATTEMPTS)"
proof
  fix x x' s s'
  assume v: "case x of (existing, attempt, keys) \<Rightarrow> attempt \<le> MAX_ATTEMPTS"
    and b: "locations_attempt D cat S database_name table_name x s = (Inr (Inr x'), s')"
  obtain existing attempt keys existing' attempt' keys'
    where x: "x = (existing, attempt, keys)" "x' = (existing', attempt', keys')"
    by (metis prod_cases3)
  from locations_attempt_round [OF b [unfolded x]] obtain found w' where k: "attempt \<noteq> MAX_ATTEMPTS"
    and call: "BatchGetPartition S (batch_request cat database_name table_name keys) (s_world s)
        = (Inr (found, keys'), w')"
    and a: "attempt' = (if length keys' < length keys then 0 else Suc attempt)" .
  from assms call have "length keys' \<le> length keys"
    unfolding answers_batches_def batch_request_def set_catalog_id_def by fastforce
  with k a v show "(case x' of (existing, attempt, keys) \<Rightarrow> attempt \<le> MAX_ATTEMPTS) \<and>
      locations_rank x' < locations_rank x"
    by (auto simp: x locations_rank_def MAX_ATTEMPTS_def)
next
  fix x s
  show "fst (locations_attempt D cat S database_name table_name x s) \<noteq> Inl OutOfFuel"
    by (auto simp: locations_attempt_def bind_op_def call_op_def throw_op_def return_op_def
        throw_glue_error_def split: prod.splits sum.splits)
qed

lemma writing_Inr:
  assumes "writing D cat operation m s = (Inr r, s')"
  obtains s1 where "m s = (Inr r, s1)" "s_world s' = s_world s1"
  using assms
  by (auto simp: writing_def invalidate_on_exit_def bind_op_def lift_op_def split: prod.splits sum.splits)

lemma batch_create_loop:
  assumes "registers S (t_schema_name t, t_name t) reg"
    and "for_each (create_batch D cat S t descriptor injected partitions) bs [] s = (Inr already, s')"
    and "set (concat bs) \<subseteq> {..< length partitions}"
  shows "(\<forall>i\<in>set (concat bs). gpi_values (partitions ! i) \<in> reg (s_world s')) \<and>
    set already \<subseteq> set partitions"
proof (rule for_each_induct [OF assms(2), where P = "\<lambda>past already s.
    (\<forall>i\<in>set (concat past). gpi_values (partitions ! i) \<in> reg (s_world s)) \<and>
    set already \<subseteq> set partitions"])
  fix past b and already already' :: "GluePartitionInput list" and s s'
  assume I: "(\<forall>i\<in>set (concat past). gpi_values (partitions ! i) \<in> reg (s_world s)) \<and>
      set already \<subseteq> set partitions"
    and "b \<in> set bs"
    and loop: "create_batch D cat S t descriptor injected partitions b already s = (Inr already', s')"
  let ?P = "\<lambda>x s. case x of (already, attempt, pending) \<Rightarrow>
      (\<forall>i\<in>set (concat past). gpi_values (partitions ! i) \<in> reg (s_world s)) \<and>
      (\<forall>i\<in>set b. gpi_values (partitions ! i) \<in> reg (s_world s) \<or>
         (\<exists>j\<in>set pending. gpi_values (partitions ! j) = gpi_values (partitions ! i))) \<and>
      set pending \<subseteq> set b \<and> set already \<subseteq> set partitions"
  from \<open>b \<in> set bs\<close> have bound: "\<forall>i\<in>set b. i < length partitions" using assms(3) by fastforce
  show "(\<forall>i\<in>set (concat (past @ [b])). gpi_values (partitions ! i) \<in> reg (s_world s')) \<and>
      set already' \<subseteq> set partitions"
  proof (rule do_while_induct [OF loop [unfolded create_batch_def], where P = ?P])
    show "?P (already, 0, b) s" using I by auto
  next
    fix x x' :: "GluePartitionInput list \<times> nat \<times> nat list" and s s'
    assume P: "?P x s"
      and round: "create_attempt D cat S t descriptor injected partitions x s = (Inr (Inr x'), s')"
    obtain al at p al' at' p' where x: "x = (al, at, p)" "x' = (al', at', p')"
      by (metis prod_cases3)
    have r: "reg (s_world s) \<subseteq> reg (s_world s')" "set p' \<subseteq> set p"
      "\<forall>i\<in>set p. gpi_values (partitions ! i) \<in> reg (s_world s') \<or>
         (\<exists>j\<in>set p'. gpi_values (partitions ! j) = gpi_values (partitions ! i))"
      "set al' \<subseteq> set al \<union> (\<lambda>i. partitions ! i) ` set p"
      using create_attempt_round [OF assms(1) round [unfolded x]] by auto
    have P': "\<forall>i\<in>set (concat past). gpi_values (partitions ! i) \<in> reg (s_world s)"
      "\<forall>i\<in>set b. gpi_values (partitions ! i) \<in> reg (s_world s) \<or>
         (\<exists>j\<in>set p. gpi_values (partitions ! j) = gpi_values (partitions ! i))"
      "set p \<subseteq> set b" "set al \<subseteq> set partitions"
      using P by (simp_all add: x)
    have "\<forall>i\<in>set b. gpi_values (partitions ! i) \<in> reg (s_world s') \<or>
         (\<exists>j\<in>set p'. gpi_values (partitions ! j) = gpi_values (partitions ! i))"
      using P'(2) r(1,3) by (metis subsetD)
    moreover have "set al' \<subseteq> set partitions"
    proof -
      have "(\<lambda>i. partitions ! i) ` set p \<subseteq> set partitions" using P'(3) bound by fastforce
      then show ?thesis using r(4) P'(4) by blast
    qed
    ultimately show "?P x' s'"
      using P'(1,3) r(1,2) by (auto simp: x)
  next
    fix x :: "GluePartitionInput list \<times> nat \<times> nat list" and y s s'
    assume P: "?P x s"
      and end': "create_attempt D cat S t descriptor injected partitions x s = (Inr (Inl y), s')"
    obtain al at p where x: "x = (al, at, p)" by (metis prod_cases3)
    from end' have "p = []" "y = al" "s' = s"
      by (auto simp: x create_attempt_def Let_def bind_op_def call_op_def lift_op_def throw_op_def
          return_op_def split: prod.splits sum.splits if_splits)
    with P show "(\<forall>i\<in>set (concat (past @ [b])). gpi_values (partitions ! i) \<in> reg (s_world s')) \<and>
        set y \<subseteq> set partitions"
      by (auto simp: x)
  qed
qed simp

lemma batch_create_registers:
  assumes "registers S (t_schema_name t, t_name t) reg"
    and "batch_create_partitions D cat S t partitions s = (Inr already, s')"
  shows "(\<forall>p\<in>set partitions. gpi_values p \<in> reg (s_world s')) \<and> set already \<subseteq> set partitions"
proof -
  from assms(2) obtain s1 where "s_world s' = s_world s1" and m:
    "(if partitions = [] then return_op []
      else bind_op (get_client S) (\<lambda>_ s.
          bind_op (lift_op (failure_from_settings D (s_settings s))) (\<lambda>injected.
          bind_op (lift_op (fetched_table t)) (\<lambda>raw.
            for_each (create_batch D cat S t (tb_storage_descriptor raw) injected partitions)
              (batches 100 [0 ..< length partitions]) [])) s)) s = (Inr already, s1)"
    unfolding batch_create_partitions_def by (rule writing_Inr)
  show ?thesis
  proof (cases "partitions = []")
    case True
    with m show ?thesis by (simp add: return_op_def)
  next
    case False
    with m obtain s2 injected and raw :: aws_table where
      "for_each (create_batch D cat S t (tb_storage_descriptor raw) injected partitions)
         (batches 100 [0 ..< length partitions]) [] s2 = (Inr already, s1)"
      by (auto simp: bind_op_def [of "get_client _"] bind_op_def [of "lift_op _"] lift_op_def
          split: prod.splits sum.splits if_splits)
    note loop = batch_create_loop [OF assms(1) this]
    have "set (concat (batches 100 [0 ..< length partitions])) = {..< length partitions}"
      by (auto simp: concat_batches)
    with loop have "\<forall>i<length partitions. gpi_values (partitions ! i) \<in> reg (s_world s1)"
      "set already \<subseteq> set partitions" by auto
    with \<open>s_world s' = s_world s1\<close> show ?thesis by (auto simp: in_set_conv_nth)
  qed
qed

subsection \<open>Properties\<close>

text \<open>
  C1: a registration of partitions that returns has registered every one of them, in all batches
  and through every retry and injected failure: each partition given is registered with the
  table afterwards, and those it reports as already existing are among the given ones.
\<close>

theorem every_partition_registered:
  assumes "registers S (t_schema_name t, t_name t) reg"
    and "batch_create_partitions D cat S t partitions s = (Inr already, s')"
  shows "(\<forall>p\<in>set partitions. gpi_values p \<in> reg (s_world s')) \<and> set already \<subseteq> set partitions"
  using assms by (rule batch_create_registers)

lemma batch_delete_loop:
  assumes "unregisters S (database_name, table_name) reg"
    and "for_each (delete_batch D cat S database_name table_name) bs () s = (Inr u, s')"
  shows "\<forall>v\<in>set (concat bs). v \<notin> reg (s_world s')"
proof (rule for_each_induct [OF assms(2), where P = "\<lambda>past _ s.
    \<forall>v\<in>set (concat past). v \<notin> reg (s_world s)"])
  fix past b s s' and u u' :: unit
  assume I: "\<forall>v\<in>set (concat past). v \<notin> reg (s_world s)"
    and loop: "delete_batch D cat S database_name table_name b u s = (Inr u', s')"
  let ?P = "\<lambda>x s. case x of (attempt, pending) \<Rightarrow> (\<forall>v\<in>set (concat past). v \<notin> reg (s_world s)) \<and>
      (\<forall>v\<in>set b. v \<notin> reg (s_world s) \<or> v \<in> set pending)"
  show "\<forall>v\<in>set (concat (past @ [b])). v \<notin> reg (s_world s')"
  proof (rule do_while_induct [OF loop [unfolded delete_batch_def], where P = ?P])
    show "?P (0, b) s" using I by simp
  next
    fix x x' :: "nat \<times> string list list" and s s'
    assume P: "?P x s"
      and round: "delete_attempt D cat S database_name table_name x s = (Inr (Inr x'), s')"
    obtain at p at' p' where x: "x = (at, p)" "x' = (at', p')" by (metis surj_pair)
    from delete_attempt_round [OF assms(1) round [unfolded x]] P
    show "?P x' s'"
      by (auto simp: x)
  next
    fix x :: "nat \<times> string list list" and y s s'
    assume P: "?P x s"
      and end': "delete_attempt D cat S database_name table_name x s = (Inr (Inl y), s')"
    obtain at p where x: "x = (at, p)" by (metis surj_pair)
    from end' have "p = []" "s' = s"
      by (auto simp: x delete_attempt_def bind_op_def call_op_def lift_op_def throw_op_def
          return_op_def split: prod.splits sum.splits if_splits)
    with P show "\<forall>v\<in>set (concat (past @ [b])). v \<notin> reg (s_world s')" by (auto simp: x)
  qed
qed simp

definition sample_partition :: "string \<Rightarrow> aws_partition" where
  "sample_partition day = \<lparr> pt_values = [day], pt_storage_descriptor = empty_descriptor\<lparr>
     sd_location := ''s3://lake/a/day='' @ day\<rparr>, pt_parameters = [] \<rparr>"

text \<open>The sample lake with a table of two partitions.\<close>

definition sample_days :: sample_world where
  "sample_days = sample_lake\<lparr>sw_partitions :=
     [((''db'', ''a''), [sample_partition ''1'', sample_partition ''2''])]\<rparr>"

definition sample_registered :: "string \<times> string \<Rightarrow> sample_world \<Rightarrow> string list set" where
  "sample_registered key w = set (map pt_values (sample_partitions_of w key))"

lemma sample_registered_put [simp]:
  "sample_registered key (sample_put_partitions key ps w) = pt_values ` set ps"
  by (simp add: sample_registered_def sample_partitions_of_def sample_put_partitions_def)

lemma sample_stored_partition_values [simp]: "pt_values (sample_stored_partition i) = pi_values i"
  by (simp add: sample_stored_partition_def)

lemma sample_glue_registers: "registers sample_glue key (sample_registered key)"
  unfolding registers_def
proof (intro allI impI)
  fix rq :: "partition_inputs_request request" and w w' errors
  assume c: "BatchCreatePartition sample_glue rq w = (Inr errors, w')"
    and key: "(pis_database_name (rq_body rq), pis_table_name (rq_body rq)) = key"
  have w': "sample_registered key w' = sample_registered key w \<union> pi_values `
      {i \<in> set (pis_inputs (rq_body rq)). pi_values i \<notin> sample_registered key w}"
  proof -
    have "pt_values ` set (sample_partitions_of w key) = sample_registered key w"
      by (simp add: sample_registered_def)
    with c key show ?thesis
      by (auto simp: sample_batch_create_def Let_def image_Un image_image)
  qed
  then show "sample_registered key w \<subseteq> sample_registered key w' \<and>
      (\<forall>i\<in>set (pis_inputs (rq_body rq)). pi_values i \<in> sample_registered key w' \<or>
        (\<exists>e\<in>set errors. pe_values e = pi_values i \<and> pe_code e \<noteq> ''AlreadyExistsException''))"
    by auto
qed

lemma sample_glue_unregisters: "unregisters sample_glue key (sample_registered key)"
  by (auto simp: unregisters_def sample_glue_def Let_def sample_registered_def
      sample_partitions_of_def sample_put_partitions_def split: option.splits)

lemma every_partition_registered_witness:
  "[''3''] \<in> sample_registered (''db'', ''a'') (s_world (snd (batch_create_partitions ascii_duckdb
     sample_catalog sample_glue sample_bound [\<lparr>gpi_values = [''3''], gpi_location = ''s3://x''\<rparr>,
       \<lparr>gpi_values = [''1''], gpi_location = ''s3://y''\<rparr>] (sample_session sample_days))))"
proof -
  let ?ps = "[\<lparr>gpi_values = [''3''], gpi_location = ''s3://x''\<rparr>, \<lparr>gpi_values = [''1''], gpi_location = ''s3://y''\<rparr>]"
  let ?m = "batch_create_partitions ascii_duckdb sample_catalog sample_glue sample_bound ?ps
    (sample_session sample_days)"
  have key: "(t_schema_name sample_bound, t_name sample_bound) = (''db'', ''a'')" by code_simp
  have "fst ?m = Inr [\<lparr>gpi_values = [''1''], gpi_location = ''s3://y''\<rparr>]" by code_simp
  then have "?m = (Inr [\<lparr>gpi_values = [''1''], gpi_location = ''s3://y''\<rparr>], snd ?m)"
    by (simp add: prod_eq_iff)
  from every_partition_registered [OF sample_glue_registers this] show ?thesis by (simp add: key)
qed

lemma batch_delete_unregisters:
  assumes "unregisters S (database_name, table_name) reg"
    and "batch_delete_partitions D cat S database_name table_name partitions s = (Inr (), s')"
  shows "\<forall>v\<in>set partitions. v \<notin> reg (s_world s')"
proof -
  from assms(2) obtain s1 where "s_world s' = s_world s1" and m:
    "(if partitions = [] then return_op ()
      else bind_op (get_client S) (\<lambda>_. for_each (delete_batch D cat S database_name table_name) (batches 25 partitions) ())) s
       = (Inr (), s1)"
    unfolding batch_delete_partitions_def by (rule writing_Inr)
  show ?thesis
  proof (cases "partitions = []")
    case False
    with m obtain s2 where "for_each (delete_batch D cat S database_name table_name) (batches 25 partitions) () s2
          = (Inr (), s1)"
      by (auto simp: bind_op_def [of "get_client _"] split: prod.splits sum.splits)
    from batch_delete_loop [OF assms(1) this] \<open>s_world s' = s_world s1\<close> show ?thesis
      by (simp add: concat_batches)
  qed simp
qed

text \<open>
  Unregistering partitions that returns has unregistered every one of them: no partition given
  is registered with the table afterwards, whatever was refused and retried in between.
\<close>

theorem every_partition_unregistered:
  assumes "unregisters S (database_name, table_name) reg"
    and "batch_delete_partitions D cat S database_name table_name partitions s = (Inr (), s')"
  shows "\<forall>v\<in>set partitions. v \<notin> reg (s_world s')"
  using assms by (rule batch_delete_unregisters)

lemma every_partition_unregistered_witness:
  "[''1''] \<notin> sample_registered (''db'', ''a'') (s_world (snd (batch_delete_partitions ascii_duckdb
     sample_catalog sample_glue ''db'' ''a'' [[''1''], [''9'']] (sample_session sample_days))))"
proof -
  let ?m = "batch_delete_partitions ascii_duckdb sample_catalog sample_glue ''db'' ''a'' [[''1''], [''9'']]
    (sample_session sample_days)"
  have "fst ?m = Inr ()" by code_simp
  then have "?m = (Inr (), snd ?m)" by (simp add: prod_eq_iff)
  from every_partition_unregistered [OF sample_glue_unregisters this] show ?thesis by simp
qed

lemma parse_failure_no_fuel: "parse_failure D text \<noteq> Inl OutOfFuel"
  by (simp add: parse_failure_def Let_def split: option.split)

text \<open>
  The retries of single partitions end: whatever Glue answers, registering and unregistering
  need at most four attempts per batch, so the fuel of their loops is never used up.
\<close>

theorem partition_retries_end:
  assumes "\<And>w. fst (AcquireClient S w) \<noteq> Inl OutOfFuel"
  shows "fst (batch_create_partitions D cat S t partitions s) \<noteq> Inl OutOfFuel \<and>
    fst (batch_delete_partitions D cat S database_name table_name keys s) \<noteq> Inl OutOfFuel"
proof
  have create: "fst (for_each (create_batch D cat S t descriptor injected partitions) bs acc s) \<noteq> Inl OutOfFuel"
    for descriptor injected bs acc s
    unfolding create_batch_def
    by (rule for_each_no_fuel, rule create_loop.ends) (simp_all add: MAX_ATTEMPTS_def)
  show "fst (batch_create_partitions D cat S t partitions s) \<noteq> Inl OutOfFuel"
    unfolding batch_create_partitions_def
    using create parse_failure_no_fuel assms(1) [of "s_world s"]
    by (intro writing_no_fuel)
      (auto simp: return_op_def bind_op_def get_client_def call_op_def lift_op_def fetched_table_def
        failure_from_settings_def no_failure_def split: prod.splits sum.splits option.splits)
  have delete: "fst (for_each (delete_batch D cat S database_name table_name) bs acc s) \<noteq> Inl OutOfFuel"
    for bs acc s
    unfolding delete_batch_def
    by (rule for_each_no_fuel, rule delete_loop.ends) (simp_all add: MAX_ATTEMPTS_def)
  show "fst (batch_delete_partitions D cat S database_name table_name keys s) \<noteq> Inl OutOfFuel"
    unfolding batch_delete_partitions_def
  proof (rule writing_no_fuel)
    have "fst (bind_op (get_client S) (\<lambda>_. for_each (delete_batch D cat S database_name table_name)
        (batches 25 keys) ()) s) \<noteq> Inl OutOfFuel"
      by (rule client_no_fuel [OF assms(1) delete])
    then show "fst ((if keys = [] then return_op () else bind_op (get_client S)
        (\<lambda>_. for_each (delete_batch D cat S database_name table_name) (batches 25 keys) ())) s) \<noteq> Inl OutOfFuel"
      by (simp add: return_op_def)
  qed
qed

lemma partition_retries_end_witness:
  "fst (batch_create_partitions ascii_duckdb sample_catalog sample_glue sample_bound
     [\<lparr>gpi_values = [''3''], gpi_location = ''s3://x''\<rparr>] (sample_session sample_days)) \<noteq> Inl OutOfFuel"
proof -
  have "fst (AcquireClient sample_glue w) \<noteq> Inl OutOfFuel" for w by simp
  from partition_retries_end [OF this] show ?thesis by blast
qed

lemma locations_batch_sound:
  assumes "answers_batches S (database_name, table_name) registered"
    and "locations_batch fuel D cat S database_name table_name keys existing s = (Inr found, s')"
    and "\<And>v. map_of existing v = (if v \<in> past then registered v else None)"
  shows "map_of found v = (if v \<in> past \<union> set keys then registered v else None)"
proof -
  let ?P = "\<lambda>x s. case x of (existing, attempt :: nat, left) \<Rightarrow> set left \<subseteq> set keys \<and>
    (\<forall>v l. map_of existing v = Some l \<longrightarrow> v \<in> past \<union> set keys \<and> registered v = Some l) \<and>
    (\<forall>v\<in>past \<union> set keys. registered v \<noteq> None \<longrightarrow> v \<in> set left \<or> map_of existing v \<noteq> None)"
  have "(\<forall>v l. map_of found v = Some l \<longrightarrow> v \<in> past \<union> set keys \<and> registered v = Some l) \<and>
    (\<forall>v\<in>past \<union> set keys. registered v \<noteq> None \<longrightarrow> map_of found v \<noteq> None)"
  proof (rule do_while_induct [OF assms(2) [unfolded locations_batch_def], where P = ?P])
    show "?P (existing, 0, keys) s" using assms(3) by auto
  next
    fix x x' :: "locations \<times> nat \<times> string list list" and s s'
    assume P: "?P x s"
      and round: "locations_attempt D cat S database_name table_name x s = (Inr (Inr x'), s')"
    obtain ex at left ex' at' left' where x: "x = (ex, at, left)" "x' = (ex', at', left')"
      by (metis prod_cases3)
    from locations_attempt_round [OF round [unfolded x]] obtain ps w' where
      call: "BatchGetPartition S (batch_request cat database_name table_name left) (s_world s) = (Inr (ps, left'), w')"
      and ex': "ex' = add_locations ps ex" .
    have rq: "(pbr_database_name (rq_body (batch_request cat database_name table_name left)),
        pbr_table_name (rq_body (batch_request cat database_name table_name left))) = (database_name, table_name)"
      "pbr_partitions (rq_body (batch_request cat database_name table_name left)) = left"
      by (simp_all add: batch_request_def set_catalog_id_def)
    note ans = assms(1) [unfolded answers_batches_def, rule_format, OF call rq(1), unfolded rq(2)]
    have answer: "set left' \<subseteq> set left"
      "\<And>p. p \<in> set ps \<Longrightarrow> pt_values p \<in> set left \<and> registered (pt_values p) = Some (sd_location (pt_storage_descriptor p))"
      "\<And>v. v \<in> set left \<Longrightarrow> v \<notin> set left' \<Longrightarrow> registered v \<noteq> None \<Longrightarrow> \<exists>p\<in>set ps. pt_values p = v"
      using ans by auto
    have P': "set left \<subseteq> set keys"
      "\<And>v l. map_of ex v = Some l \<Longrightarrow> v \<in> past \<union> set keys \<and> registered v = Some l"
      "\<And>v. v \<in> past \<union> set keys \<Longrightarrow> registered v \<noteq> None \<Longrightarrow> v \<in> set left \<or> map_of ex v \<noteq> None"
      using P by (simp_all add: x)
    have "v \<in> past \<union> set keys \<and> registered v = Some l" if "map_of ex' v = Some l" for v l
    proof (cases "map_of ex v")
      case None
      with that obtain p where "p \<in> set ps" "pt_values p = v" "l = sd_location (pt_storage_descriptor p)"
        by (auto simp: ex' add_locations_lookup find_Some_iff in_set_conv_nth)
      with answer(2) P'(1) show ?thesis by blast
    next
      case (Some l')
      with that P'(2) show ?thesis by (simp add: ex' add_locations_lookup)
    qed
    moreover have "v \<in> set left' \<or> map_of ex' v \<noteq> None"
      if "v \<in> past \<union> set keys" "registered v \<noteq> None" for v
    proof (cases "v \<in> set left' \<or> map_of ex v \<noteq> None")
      case False
      with P'(3) [OF that] answer(3) [of v] that(2) show ?thesis
        by (auto simp: ex' add_locations_lookup find_None_iff split: option.splits)
    qed (auto simp: ex' add_locations_lookup)
    ultimately show "?P x' s'" using answer(1) P'(1) by (auto simp: x)
  next
    fix x :: "locations \<times> nat \<times> string list list" and y s s'
    assume P: "?P x s"
      and "end": "locations_attempt D cat S database_name table_name x s = (Inr (Inl y), s')"
    obtain ex at left where x: "x = (ex, at, left)" by (metis prod_cases3)
    from "end" have "left = []" "y = ex"
      by (auto simp: x locations_attempt_def bind_op_def call_op_def throw_op_def
          return_op_def split: prod.splits sum.splits if_splits)
    with P show "(\<forall>v l. map_of y v = Some l \<longrightarrow> v \<in> past \<union> set keys \<and> registered v = Some l) \<and>
        (\<forall>v\<in>past \<union> set keys. registered v \<noteq> None \<longrightarrow> map_of y v \<noteq> None)"
      by (simp add: x)
  qed
  then show ?thesis
    by (cases "map_of found v"; cases "registered v") auto
qed

text \<open>
  C23: asking where partitions are ends and tells exactly what is registered: while Glue answers
  BatchGetPartition as documented, 5006 rounds are enough for each batch of a thousand, and a
  lookup that returns gives, for every key, the location of the partition if it was asked for
  and is registered, and nothing otherwise, however often Glue left keys unprocessed.
\<close>

theorem partition_locations_exact:
  assumes "answers_batches S (database_name, table_name) registered" "5006 \<le> fuel"
    and "\<And>w. fst (AcquireClient S w) \<noteq> Inl OutOfFuel"
  shows "fst (partition_locations fuel D cat S database_name table_name partitions s) \<noteq> Inl OutOfFuel \<and>
    (\<forall>found s'. partition_locations fuel D cat S database_name table_name partitions s = (Inr found, s') \<longrightarrow>
      (\<forall>v. map_of found v = (if v \<in> set partitions then registered v else None)))"
proof (cases "partitions = []")
  case True
  then show ?thesis by (simp add: partition_locations_def return_op_def)
next
  case False
  have turns: "fst (for_each (locations_batch fuel D cat S database_name table_name)
      (batches 1000 partitions) [] s) \<noteq> Inl OutOfFuel" for s
    unfolding locations_batch_def
  proof (rule for_each_no_fuel)
    fix keys existing s
    assume "keys \<in> set (batches 1000 partitions)"
    from batches_sound [OF this] assms(2) have "locations_rank (existing, 0, keys) < fuel"
      by (simp add: locations_rank_def MAX_ATTEMPTS_def)
    then show "fst (do_while fuel (locations_attempt D cat S database_name table_name) (existing, 0, keys) s)
        \<noteq> Inl OutOfFuel"
      by (intro bounded_loop.ends [OF locations_loop [OF assms(1)]]) simp_all
  qed
  have "fst (partition_locations fuel D cat S database_name table_name partitions s) \<noteq> Inl OutOfFuel"
    using False client_no_fuel [OF assms(3) turns] by (simp add: partition_locations_def)
  moreover have "map_of found v = (if v \<in> set partitions then registered v else None)"
    if "partition_locations fuel D cat S database_name table_name partitions s = (Inr found, s')" for found s' v
  proof -
    from that False obtain s1 where l: "for_each (locations_batch fuel D cat S database_name table_name)
        (batches 1000 partitions) [] s1 = (Inr found, s')"
      by (auto simp: partition_locations_def bind_op_def split: prod.splits sum.splits)
    have "\<forall>v. map_of found v = (if v \<in> set (concat (batches 1000 partitions)) then registered v else None)"
    proof (rule for_each_induct [OF l, where P = "\<lambda>past found _. \<forall>v. map_of found v =
        (if v \<in> set (concat past) then registered v else None)"])
      fix past keys existing s existing' s'
      assume "\<forall>v. map_of existing v = (if v \<in> set (concat past) then registered v else None)"
        and "locations_batch fuel D cat S database_name table_name keys existing s = (Inr existing', s')"
      then show "\<forall>v. map_of existing' v = (if v \<in> set (concat (past @ [keys])) then registered v else None)"
        using locations_batch_sound [OF assms(1), where past = "set (concat past)"] by simp
    qed simp
    then show ?thesis by (simp add: concat_batches)
  qed
  ultimately show ?thesis by blast
qed

text \<open>The sample Glue with partitions that stay as they are.\<close>

definition steady_glue :: "sample_world service" where
  "steady_glue = sample_glue\<lparr>BatchGetPartition := (\<lambda>rq w.
     (Inr (filter (\<lambda>p. pt_values p \<in> set (pbr_partitions (rq_body rq)))
        [sample_partition ''1'', sample_partition ''2''], []), w))\<rparr>"

lemma partition_locations_exact_witness:
  "\<exists>found s'. partition_locations 5006 ascii_duckdb sample_catalog steady_glue ''db'' ''a''
     [[''2''], [''9'']] (sample_session sample_days) = (Inr found, s') \<and>
     map_of found [''2''] = Some ''s3://lake/a/day=2'' \<and> map_of found [''9''] = None"
proof -
  let ?registered = "\<lambda>v. if v = [''1''] then Some ''s3://lake/a/day=1'' else
    if v = [''2''] then Some ''s3://lake/a/day=2'' else None"
  let ?m = "partition_locations 5006 ascii_duckdb sample_catalog steady_glue ''db'' ''a''
     [[''2''], [''9'']] (sample_session sample_days)"
  have a: "answers_batches steady_glue (''db'', ''a'') ?registered"
    by (auto simp: answers_batches_def steady_glue_def sample_partition_def)
  have c: "fst (AcquireClient steady_glue w) \<noteq> Inl OutOfFuel" for w by (simp add: steady_glue_def)
  have "\<exists>found. partition_locations 5006 ascii_duckdb sample_catalog steady_glue ''db'' ''a''
      [[''2''], [''9'']] (sample_session sample_days) = (Inr found, snd ?m)"
    by (simp add: partition_locations_def locations_batch_def locations_attempt_def do_while_numeral MAX_ATTEMPTS_def
        batches.simps bind_op_def get_client_def call_op_def lift_op_def return_op_def
        steady_glue_def sample_partition_def sample_session_def batch_request_def set_catalog_id_def)
  then obtain found where found: "?m = (Inr found, snd ?m)" by blast
  with partition_locations_exact [OF a _ c, of 5006 ascii_duckdb sample_catalog "[[''2''], [''9'']]"
      "sample_session sample_days"]
  have "\<forall>v. map_of found v = (if v \<in> set [[''2''], [''9'']] then ?registered v else None)" by blast
  then have "map_of found [''2''] = Some ''s3://lake/a/day=2''" "map_of found [''9''] = None" by simp_all
  with found show ?thesis by blast
qed

lemma drop_seen_keys:
  assumes "1 < n"
  shows "distinct (map (\<lambda>p. Join D (p_values p) [CHR 0x1F]) (drop_seen D n seen ps)) \<and>
    (\<lambda>p. Join D (p_values p) [CHR 0x1F]) ` set (drop_seen D n seen ps)
      = (\<lambda>p. Join D (p_values p) [CHR 0x1F]) ` set ps - set seen \<and>
    set (drop_seen D n seen ps) \<subseteq> set ps"
  using assms by (induction ps arbitrary: seen) (auto simp: Let_def)

lemma drop_seen_one: "drop_seen D 1 seen ps = ps"
  by (induction ps arbitrary: seen) (simp_all add: Let_def)

lemma join_inj:
  "length xs = length ys \<Longrightarrow> \<forall>x\<in>set xs \<union> set ys. c \<notin> set x \<Longrightarrow> join xs [c] = join ys [c] \<Longrightarrow> xs = ys"
proof (induction xs ys rule: list_induct2')
  case (4 x xs y ys)
  show ?case
  proof (cases xs)
    case Nil
    with 4 show ?thesis by (cases ys) auto
  next
    case (Cons x' xs')
    with 4 obtain y' ys' where ys: "ys = y' # ys'" by (cases ys) auto
    from 4(4) have "x @ c # join xs [c] = y @ c # join ys [c]" by (simp add: Cons ys)
    with separator_eq_iff [of c x y "join xs [c]" "join ys [c]"] 4(3) have "x = y" "join xs [c] = join ys [c]"
      by auto
    with 4 show ?thesis by auto
  qed
qed auto

lemma fetch_segments:
  assumes "\<And>i. i < n \<Longrightarrow> lists_pages (\<lambda>token. GetPartitions S
      (partitions_request_for cat database_name table_name i n token)) [] w (pages i) w"
    and "\<And>i. i < n \<Longrightarrow> length (pages i) \<le> fuel" "s_world s = w" "m \<le> n"
  shows "for_each (\<lambda>segment results.
      bind_op (fetch_partition_segment fuel cat S database_name table_name segment n)
        (\<lambda>ps. return_op (results @ [ps]))) [m ..< n] acc s
    = (Inr (acc @ map (\<lambda>i. map to_partition_info (concat (pages i))) [m ..< n]), s)"
  using assms(4)
proof (induction "n - m" arbitrary: m acc)
  case 0
  then show ?case by (simp add: return_op_def)
next
  case (Suc k)
  then have m: "m < n" "[m ..< n] = m # [Suc m ..< n]" by (simp_all add: upt_conv_Cons)
  have "fetch_partition_segment fuel cat S database_name table_name m n s
      = (Inr (map to_partition_info (concat (pages m))), s)"
    unfolding fetch_partition_segment_def
    using partitions_listing.lists_all [OF assms(1) [OF m(1)] assms(3) assms(2) [OF m(1)], of "[]"] assms(3)
    by simp
  with Suc.hyps(1) [of "Suc m" "acc @ [map to_partition_info (concat (pages m))]"] Suc.hyps(2) m
  show ?case by (simp add: bind_op_def return_op_def)
qed


definition sample_two_segments :: "sample_world session" where
  "sample_two_segments = (sample_session sample_days)
     \<lparr>s_settings := sample_settings\<lparr>set_get_partitions_segments := Some 2\<rparr>\<rparr>"


end
