(* ===== verification/Table_Set.thy ===== *)
theory Table_Set
  imports Partition_Api
begin

text \<open>
  src/catalog/glue_table_set.cpp: the entries of one Glue database, loaded on demand and replaced when
  Glue holds another version. Its state is a \<open>table_set\<close>; an operation works on it and on the
  session. Both of the code's critical sections of a lookup are here one step each: the model has
  one connection, and the interleavings of its threads in the metadata cache are in Glue_Cache.
\<close>

subsection \<open>State\<close>

type_synonym 'w set_state = "table_set \<times> 'w session"

definition on_session :: "('w, 'a) op \<Rightarrow> ('t \<times> 'w session, 'a) comp" where
  "on_session m st = (case st of (ts, s) \<Rightarrow> case m s of (r, s') \<Rightarrow> (r, (ts, s')))"

definition retire_object :: "retired_object \<Rightarrow> 'w session \<Rightarrow> 'w session" where
  "retire_object x s = s\<lparr>s_manager := retire_entry x (s_manager s)\<rparr>"

definition retire_table_entry :: "duckdb \<Rightarrow> string \<Rightarrow> 'w set_state \<Rightarrow> 'w set_state" where
  "retire_table_entry D name st = (case st of (ts, s) \<Rightarrow>
     case ci_find D name (ts_entries ts) of
       None \<Rightarrow> (ts, s)
     | Some e \<Rightarrow> (ts\<lparr>ts_entries := ci_erase D name (ts_entries ts)\<rparr>, retire_object (RetiredEntry e) s))"

definition emplace_table_entry :: "duckdb \<Rightarrow> string \<Rightarrow> catalog_entry \<Rightarrow> 'w set_state \<Rightarrow> 'w set_state" where
  "emplace_table_entry D name e st = (case st of (ts, s) \<Rightarrow>
     (ts\<lparr>ts_entries := ci_emplace D name e (ts_entries ts)\<rparr>, s))"

text \<open>\<open>CreateEntry(unique_ptr)\<close> and \<open>RemoveEntry\<close>.\<close>

definition insert_table_entry :: "duckdb \<Rightarrow> catalog_entry \<Rightarrow> 'w set_state \<Rightarrow> 'w set_state" where
  "insert_table_entry D e st = emplace_table_entry D (e_name e) e (retire_table_entry D (e_name e) st)"

definition remove_table_entry :: "duckdb \<Rightarrow> string \<Rightarrow> 'w set_state \<Rightarrow> 'w set_state" where
  "remove_table_entry D name st = retire_table_entry D name st"

subsection \<open>The metadata cache of the transaction\<close>

definition table_slots :: "nat \<Rightarrow> 'w session \<Rightarrow> GlueTableInfo slots" where
  "table_slots cid s = (case s_caches s cid of None \<Rightarrow> new_slots | Some c \<Rightarrow> gc_tables c)"

definition put_table_slots :: "nat \<Rightarrow> GlueTableInfo slots \<Rightarrow> 'w session \<Rightarrow> 'w session" where
  "put_table_slots cid st s =
     s\<lparr>s_caches := (s_caches s)(cid \<mapsto>
         (case s_caches s cid of None \<Rightarrow> new_cache | Some c \<Rightarrow> c)\<lparr>gc_tables := st\<rparr>)\<rparr>"

definition cache_get_table ::
  "duckdb \<Rightarrow> nat \<Rightarrow> string \<Rightarrow> string \<Rightarrow> ('w, GlueTableInfo option) op \<Rightarrow> ('w, GlueTableInfo option) op" where
  "cache_get_table D cid database_name table_name load =
     cache_get D (table_slots cid) (put_table_slots cid) (cache_key database_name table_name) load"

text \<open>A definition that was listed is put into the cache unless it has one.\<close>

definition warm_cache :: "duckdb \<Rightarrow> nat \<Rightarrow> string \<Rightarrow> GlueTableInfo \<Rightarrow> 'w session \<Rightarrow> 'w session" where
  "warm_cache D cid database_name t s =
     snd (cache_get_table D cid database_name (t_name t) (return_op (Some t)) s)"

subsection \<open>Loading\<close>

definition batch_table_lookups :: "settings \<Rightarrow> bool" where
  "batch_table_lookups st = (case set_batch_table_lookup st of None \<Rightarrow> True | Some b \<Rightarrow> b)"

text \<open>The entry of the set that still is what Glue holds under the name.\<close>

definition current_entry :: "duckdb \<Rightarrow> table_set \<Rightarrow> GlueTableInfo \<Rightarrow> catalog_entry option" where
  "current_entry D ts t = (case ci_find D (t_name t) (ts_entries ts) of
     None \<Rightarrow> None | Some e \<Rightarrow> if is_same_version (e_table_info e) t then Some e else None)"

definition load_entry :: "duckdb \<Rightarrow> string \<Rightarrow> GlueTableInfo \<Rightarrow> 'w set_state \<Rightarrow> 'w set_state" where
  "load_entry D database_name t st = (case st of (ts, s) \<Rightarrow>
     let s1 = (case s_transaction s of
                 None \<Rightarrow> s | Some tx \<Rightarrow> warm_cache D (tx_cache tx) database_name t s) in
     case current_entry D ts t of
       Some e \<Rightarrow> (ts, s1)
     | None \<Rightarrow>
         (case build_entry D t of
            Inl _ \<Rightarrow> (ts, snd (log_op (''Glue table is not listed: '' @ database_name @ ''.'' @ t_name t) s1))
          | Inr entry \<Rightarrow> emplace_table_entry D (t_name t) entry (retire_table_entry D (t_name t) (ts, s1))))"

definition load_entries ::
  "nat \<Rightarrow> duckdb \<Rightarrow> glue_catalog \<Rightarrow> 'w service \<Rightarrow> string \<Rightarrow> ('w set_state, unit) comp" where
  "load_entries fuel D cat S database_name st =
     (if ts_is_loaded (fst st) then (Inr (), st)
      else bind_op (on_session (get_tables fuel D cat S database_name False False)) (\<lambda>(tables, has_more) st1.
        case fold (load_entry D database_name) tables st1 of
          (ts, s) \<Rightarrow> (Inr (), (ts\<lparr>ts_is_loaded := True\<rparr>, s))) st)"

definition bulk_load_table_info ::
  "duckdb \<Rightarrow> glue_catalog \<Rightarrow> 'w service \<Rightarrow> string \<Rightarrow> nat \<Rightarrow> ('w set_state, unit) comp" where
  "bulk_load_table_info D cat S database_name cid st = (case st of (ts0, s) \<Rightarrow>
     let ts = ts0\<lparr>ts_direct_lookups := 0\<rparr> in
     case get_tables 1 D cat S database_name True False s of
       (Inl (GlueException operation access_denied), s1) \<Rightarrow>
         (Inr (), (if access_denied then ts\<lparr>ts_batch_forbidden := True\<rparr> else ts,
            snd (log_op (''Not batching the table lookups of Glue database '' @ database_name) s1)))
     | (Inl e, s1) \<Rightarrow> (Inl e, (ts, s1))
     | (Inr (tables, has_more), s1) \<Rightarrow>
         let s2 = fold (warm_cache D cid database_name) tables s1;
             s3 = (if has_more
                   then snd (log_op (''Glue database holds more tables than one GetTables page: '' @ database_name) s2)
                   else s2)
         in (Inr (), (ts\<lparr>ts_bulk_loaded_cache_id := cid\<rparr>, s3)))"

subsection \<open>Lookup\<close>

text \<open>The name Glue is asked for: the one it gave when the entry was built, if there is one.\<close>

definition glue_name :: "duckdb \<Rightarrow> table_set \<Rightarrow> string \<Rightarrow> string" where
  "glue_name D ts name = (case ci_find D name (ts_entries ts) of None \<Rightarrow> name | Some e \<Rightarrow> e_name e)"

definition bulk_lookup :: "duckdb \<Rightarrow> settings \<Rightarrow> nat \<Rightarrow> string \<Rightarrow> table_set \<Rightarrow> bool" where
  "bulk_lookup D st cid name ts \<longleftrightarrow>
     ci_find D name (ts_entries ts) = None \<and> \<not> ts_batch_forbidden ts \<and>
     cid \<noteq> ts_bulk_loaded_cache_id ts \<and> ts_direct_lookups ts > 0 \<and> batch_table_lookups st"

text \<open>Round trips of misses count, not lookups.\<close>

definition count_lookup :: "bool \<Rightarrow> table_set \<Rightarrow> table_set" where
  "count_lookup missed ts =
     (if missed then ts\<lparr>ts_direct_lookups := Suc (ts_direct_lookups ts)\<rparr> else ts)"

text \<open>The second critical section: what becomes of the set with the definition Glue holds.\<close>

definition settle_entry ::
  "duckdb \<Rightarrow> string \<Rightarrow> GlueTableInfo option \<Rightarrow> ('w set_state, catalog_entry option) comp" where
  "settle_entry D asked_name found st = (case found of
     None \<Rightarrow> (Inr None, retire_table_entry D asked_name st)
   | Some t \<Rightarrow>
       (case current_entry D (fst st) t of
          Some e \<Rightarrow> (Inr (Some e), st)
        | None \<Rightarrow>
            let st1 = retire_table_entry D (t_name t) st in
            (case build_entry D t of
               Inl x \<Rightarrow> (Inl x, st1)
             | Inr entry \<Rightarrow> (Inr (Some entry), emplace_table_entry D (t_name t) entry st1))))"

definition get_entry ::
  "duckdb \<Rightarrow> glue_catalog \<Rightarrow> 'w service \<Rightarrow> string \<Rightarrow> string \<Rightarrow> ('w set_state, catalog_entry option) comp" where
  "get_entry D cat S database_name name st = (case st of (ts, s) \<Rightarrow>
     case get_transaction D cat s of (tx, s1) \<Rightarrow>
       let cid = tx_cache tx;
           cached_entry = (ci_find D name (ts_entries ts) \<noteq> None);
           asked_name = glue_name D ts name
       in bind_op
            (if bulk_lookup D (s_settings s1) cid name ts
             then bulk_load_table_info D cat S database_name cid else return_op ()) (\<lambda>_ st2.
          let asks_glue = (cached D (cache_key database_name asked_name) (table_slots cid (snd st2)) = None) in
          bind_op (on_session (cache_get_table D cid database_name asked_name
                     (get_table D cat S database_name asked_name))) (\<lambda>found st3.
            settle_entry D asked_name found
              (count_lookup (\<not> cached_entry \<and> asks_glue) (fst st3), snd st3)) st2) (ts, s1))"

text \<open>The entries a scan yields, in the order of the map.\<close>

definition scan_entries ::
  "nat \<Rightarrow> duckdb \<Rightarrow> glue_catalog \<Rightarrow> 'w service \<Rightarrow> string \<Rightarrow> ('w set_state, catalog_entry list) comp" where
  "scan_entries fuel D cat S database_name st = (case st of (ts, s) \<Rightarrow>
     bind_op (load_entries fuel D cat S database_name)
       (\<lambda>_ st1. (Inr (map snd (ts_entries (fst st1))), st1)) (ts, snd (get_transaction D cat s)))"

subsection \<open>Operations that read\<close>

text \<open>Reading from Glue changes the world and the log of the session and nothing else.\<close>

definition reads :: "('w, 'a) op \<Rightarrow> bool" where
  "reads m \<longleftrightarrow> (\<forall>s. \<exists>w l. snd (m s) = s\<lparr>s_world := w, s_log := l\<rparr>)"

lemma readsE:
  assumes "reads m" "m s = (r, s')"
  obtains w l where "s' = s\<lparr>s_world := w, s_log := l\<rparr>"
proof -
  from assms(1) obtain w l where "snd (m s) = s\<lparr>s_world := w, s_log := l\<rparr>"
    unfolding reads_def by blast
  with assms(2) that show ?thesis by simp
qed

lemma readsD:
  assumes "reads m" "m s = (r, s')"
  shows "s_caches s' = s_caches s \<and> s_transaction s' = s_transaction s \<and>
     s_settings s' = s_settings s \<and> s_manager s' = s_manager s"
  by (rule readsE [OF assms]) simp

lemma world_log_upd:
  "\<exists>w l. s = s\<lparr>s_world := w, s_log := l\<rparr>" "\<exists>w l. s\<lparr>s_world := w0\<rparr> = s\<lparr>s_world := w, s_log := l\<rparr>"
  "\<exists>w l. s\<lparr>s_log := l0\<rparr> = s\<lparr>s_world := w, s_log := l\<rparr>"
proof -
  show "\<exists>w l. s = s\<lparr>s_world := w, s_log := l\<rparr>"
    by (rule exI [of _ "s_world s"], rule exI [of _ "s_log s"]) simp
  show "\<exists>w l. s\<lparr>s_world := w0\<rparr> = s\<lparr>s_world := w, s_log := l\<rparr>"
    by (rule exI [of _ w0], rule exI [of _ "s_log s"]) simp
  show "\<exists>w l. s\<lparr>s_log := l0\<rparr> = s\<lparr>s_world := w, s_log := l\<rparr>"
    by (rule exI [of _ "s_world s"], rule exI [of _ l0]) simp
qed

lemma reads_simple:
  "reads (return_op x)" "reads (throw_op e)" "reads (lift_op r)" "reads (call_op f)" "reads (log_op msg)"
  by (simp_all add: reads_def return_op_def throw_op_def lift_op_def call_op_def log_op_def world_log_upd
      split: prod.split)

lemma reads_bind:
  assumes "reads m" "\<And>x. reads (f x)"
  shows "reads (bind_op m f)"
  unfolding reads_def
proof
  fix s
  obtain r s1 where m: "m s = (r, s1)" by fastforce
  obtain w l where s1: "s1 = s\<lparr>s_world := w, s_log := l\<rparr>"
    by (rule readsE [OF assms(1) m])
  show "\<exists>w l. snd (bind_op m f s) = s\<lparr>s_world := w, s_log := l\<rparr>"
  proof (cases r)
    case (Inl e)
    with m s1 show ?thesis by (auto simp: bind_op_def)
  next
    case (Inr x)
    obtain r' s2 where f: "f x s1 = (r', s2)" by fastforce
    obtain w' l' where "s2 = s1\<lparr>s_world := w', s_log := l'\<rparr>"
      by (rule readsE [OF assms(2) f])
    with m s1 Inr f show ?thesis by (auto simp: bind_op_def)
  qed
qed

lemma reads_cases:
  "(\<And>e. reads (f e)) \<Longrightarrow> (\<And>x. reads (g x)) \<Longrightarrow> reads (case q of Inl e \<Rightarrow> f e | Inr x \<Rightarrow> g x)"
  "(\<And>a b. reads (h a b)) \<Longrightarrow> reads (case p of (a, b) \<Rightarrow> h a b)"
  "reads m \<Longrightarrow> reads m' \<Longrightarrow> reads (if c then m else m')"
  by (simp_all split: sum.split prod.split)

lemma reads_do_while: "(\<And>x. reads (body x)) \<Longrightarrow> reads (do_while n body x)"
  by (induction n arbitrary: x) (simp_all add: reads_simple reads_bind reads_cases)

lemma reads_get_client: "reads (get_client S)"
  unfolding get_client_def by (intro reads_bind reads_simple)

lemmas reads_intros = reads_bind reads_simple reads_cases reads_do_while reads_get_client

lemma reads_get_table: "reads (get_table D cat S database_name table_name)"
  unfolding get_table_def by (intro reads_intros)

lemma reads_get_tables: "reads (get_tables fuel D cat S database_name single_page throw_if_denied)"
  unfolding get_tables_def get_tables_page_def Let_def by (intro reads_intros)

lemma get_table_caches:
  "get_table D cat S database_name table_name (s\<lparr>s_caches := c\<rparr>) =
     map_prod id (\<lambda>s. s\<lparr>s_caches := c\<rparr>) (get_table D cat S database_name table_name s)"
  by (auto simp: get_table_def bind_op_def get_client_def call_op_def lift_op_def return_op_def
      throw_op_def split: prod.splits sum.splits)

subsection \<open>The cache of the session\<close>

lemma table_slots_put [simp]: "table_slots cid (put_table_slots cid st s) = st"
  by (simp add: table_slots_def put_table_slots_def)

lemma put_table_slots_same: "s_caches s cid = Some c \<Longrightarrow> put_table_slots cid (table_slots cid s) s = s"
  by (simp add: table_slots_def put_table_slots_def fun_upd_idem)

lemma put_table_slots_sel [simp]:
  "s_transaction (put_table_slots cid st s) = s_transaction s"
  "s_settings (put_table_slots cid st s) = s_settings s"
  "s_manager (put_table_slots cid st s) = s_manager s"
  "s_world (put_table_slots cid st s) = s_world s"
  by (simp_all add: put_table_slots_def)

lemma cache_get_table_frame:
  assumes "reads load" "cache_get_table D cid database_name table_name load s = (r, s')"
  shows "s_transaction s' = s_transaction s" "s_settings s' = s_settings s" "s_manager s' = s_manager s"
  using assms
  by (auto simp: cache_get_table_def cache_get_def Let_def dest: readsD
      split: prod.splits option.splits sum.splits)

lemma cache_get_table_stores:
  assumes "reads load" "cache_get_table D cid database_name table_name load s = (Inr (Some t), s')"
  shows "cached D (cache_key database_name table_name) (table_slots cid s') = Some t"
proof (rule cache_get_stores [OF assms(2) [unfolded cache_get_table_def]])
  fix s
  have "s_caches (snd (load s)) = s_caches s" using readsD [OF assms(1), of s] by (metis surjective_pairing)
  then have "table_slots cid (snd (load s)) = table_slots cid s" by (simp add: table_slots_def)
  then show "sl_index (table_slots cid (snd (load s))) = sl_index (table_slots cid s)"
    "sl_value (table_slots cid (snd (load s))) = sl_value (table_slots cid s)" by simp_all
qed simp

lemma cache_get_table_hit:
  assumes "cached D (cache_key database_name table_name) (table_slots cid s) = Some t"
  shows "cache_get_table D cid database_name table_name load s = (Inr (Some t), s)"
proof -
  from assms obtain c where "s_caches s cid = Some c"
    by (auto simp: table_slots_def cached_def new_slots_def split: option.splits)
  then have "put_table_slots cid (table_slots cid s) s = s" by (rule put_table_slots_same)
  with assms show ?thesis unfolding cache_get_table_def by (rule cache_get_hit)
qed

lemma cached_CI:
  assumes "string_util D" "CIEquals D a b"
  shows "cached D (cache_key db a) st = cached D (cache_key db b) st"
  using assms(2) by (simp add: cached_def cache_key_def string_util.Lower [OF assms(1)]
      string_util.CIEquals [OF assms(1)])

subsection \<open>The set stays well formed\<close>

definition table_set_ok :: "duckdb \<Rightarrow> table_set \<Rightarrow> bool" where
  "table_set_ok D ts \<longleftrightarrow> ci_distinct D (ts_entries ts) \<and>
     (\<forall>p\<in>set (ts_entries ts). e_name (snd p) = fst p \<and> t_name (e_table_info (snd p)) = fst p)"

lemma build_entry_name: "build_entry D t = Inr e \<Longrightarrow> e_name e = t_name t \<and> e_table_info e = t"
  by (auto simp: build_entry_def result_simps split: if_splits)

lemma current_entry_Some:
  "current_entry D ts t = Some e \<longleftrightarrow>
     ci_find D (t_name t) (ts_entries ts) = Some e \<and> is_same_version (e_table_info e) t"
  by (auto simp: current_entry_def split: option.splits)

lemma ci_find_member: "ci_find D name m = Some e \<Longrightarrow> \<exists>k. (k, e) \<in> set m \<and> CIEquals D k name"
  by (induction m) (auto simp: ci_find_def split: if_splits)

lemma retire_table_entry_fst:
  "fst (retire_table_entry D name (ts, s)) =
     (if ci_find D name (ts_entries ts) = None then ts else ts\<lparr>ts_entries := ci_erase D name (ts_entries ts)\<rparr>)"
  by (auto simp: retire_table_entry_def split: option.splits)

lemma retire_table_entry_snd:
  "snd (retire_table_entry D name (ts, s)) =
     (case ci_find D name (ts_entries ts) of None \<Rightarrow> s | Some e \<Rightarrow> retire_object (RetiredEntry e) s)"
  by (auto simp: retire_table_entry_def split: option.splits)

lemma retire_object_sel [simp]:
  "s_caches (retire_object x s) = s_caches s" "s_transaction (retire_object x s) = s_transaction s"
  "s_world (retire_object x s) = s_world s" "s_settings (retire_object x s) = s_settings s"
  by (simp_all add: retire_object_def)

context string_util
begin

lemma ok_retire: "table_set_ok D ts \<Longrightarrow> table_set_ok D (fst (retire_table_entry D name (ts, s)))"
  by (auto simp: retire_table_entry_fst table_set_ok_def ci_distinct_erase) (auto simp: ci_erase_def)

lemma ok_emplace:
  "table_set_ok D ts \<Longrightarrow> e_name e = name \<Longrightarrow> t_name (e_table_info e) = name \<Longrightarrow>
     table_set_ok D (fst (emplace_table_entry D name e (ts, s)))"
  by (auto simp: emplace_table_entry_def table_set_ok_def ci_distinct_emplace)
    (auto simp: ci_emplace_def split: option.splits)

lemma find_retired:
  "ci_find D name' (ts_entries (fst (retire_table_entry D name (ts, s)))) =
     (if CIEquals D name name' then None else ci_find D name' (ts_entries ts))"
proof (cases "ci_find D name (ts_entries ts)")
  case None
  then have "CIEquals D name name' \<Longrightarrow> ci_find D name' (ts_entries ts) = None"
    by (simp add: ci_find_None_iff CIEquals)
  with None show ?thesis by (simp add: retire_table_entry_fst)
qed (simp add: retire_table_entry_fst ci_find_erase)

lemma find_replaced:
  "ci_find D name' (ts_entries (fst (emplace_table_entry D name e (retire_table_entry D name (ts, s))))) =
     (if CIEquals D name name' then Some e else ci_find D name' (ts_entries ts))"
proof -
  obtain ts1 s1 where r: "retire_table_entry D name (ts, s) = (ts1, s1)" by fastforce
  have "ci_find D name (ts_entries ts1) = None"
    using find_retired [of name name ts s] by (simp add: r CIEquals_refl)
  then show ?thesis
    using find_retired [of name' name ts s] by (simp add: r emplace_table_entry_def ci_find_emplace)
qed

lemma ok_replace:
  assumes "table_set_ok D ts" "e_name e = name" "t_name (e_table_info e) = name"
  shows "table_set_ok D (fst (emplace_table_entry D name e (retire_table_entry D name (ts, s))))"
proof -
  obtain ts1 s1 where "retire_table_entry D name (ts, s) = (ts1, s1)" by fastforce
  with ok_retire [OF assms(1), of name s] ok_emplace [of ts1 e name s1] assms(2,3) show ?thesis by simp
qed

lemma ok_load_entry: "table_set_ok D ts \<Longrightarrow> table_set_ok D (fst (load_entry D database_name t (ts, s)))"
  by (auto simp: load_entry_def Let_def ok_replace dest: build_entry_name split: option.split sum.split)

lemma ok_load_fold: "table_set_ok D (fst st) \<Longrightarrow> table_set_ok D (fst (fold (load_entry D database_name) tables st))"
proof (induction tables arbitrary: st)
  case (Cons t tables)
  have "table_set_ok D (fst (load_entry D database_name t st))"
    using ok_load_entry [of "fst st" database_name t "snd st"] Cons.prems by simp
  with Cons.IH show ?case by simp
qed simp

lemma ok_settle:
  "table_set_ok D (fst st) \<Longrightarrow> table_set_ok D (fst (snd (settle_entry D asked_name found st)))"
proof (cases found)
  case (Some t)
  assume ok: "table_set_ok D (fst st)"
  have "table_set_ok D (fst (emplace_table_entry D (t_name t) e (retire_table_entry D (t_name t) st)))"
    if "build_entry D t = Inr e" for e
    using ok_replace [OF ok, of e "t_name t" "snd st"] build_entry_name [OF that] by simp
  with ok ok_retire [OF ok, of "t_name t" "snd st"] Some show ?thesis
    by (auto simp: settle_entry_def Let_def split: option.split sum.split)
qed (use ok_retire [of "fst st" asked_name "snd st"] in \<open>simp add: settle_entry_def\<close>)

lemma ok_bulk:
  "table_set_ok D (fst st) \<Longrightarrow> table_set_ok D (fst (snd (bulk_load_table_info D cat S database_name cid st)))"
  by (auto simp: bulk_load_table_info_def Let_def table_set_ok_def split: prod.split sum.split exn.split)

end

subsection \<open>A lookup\<close>

lemma on_session_eq: "on_session m (ts, s) = (r, (ts', s')) \<longleftrightarrow> m s = (r, s') \<and> ts' = ts"
  by (auto simp: on_session_def split: prod.split)

lemma get_transaction_frame:
  assumes "get_transaction D cat s = (tx, s1)"
  shows "s_transaction s1 = Some tx" "s_world s1 = s_world s" "s_settings s1 = s_settings s"
  using assms
  by (auto simp: get_transaction_def begin_transaction_def Let_def split: option.splits if_splits prod.splits)

lemma bulk_load_frame:
  assumes "bulk_load_table_info D cat S database_name cid (ts, s) = (r, (ts', s'))"
  shows "ts_entries ts' = ts_entries ts" "s_transaction s' = s_transaction s"
proof -
  have w: "s_transaction (fold (warm_cache D cid database_name) tables s0) = s_transaction s0" for tables and s0 :: "'a session"
  proof (induction tables arbitrary: s0)
    case (Cons t tables)
    have "s_transaction (warm_cache D cid database_name t s0) = s_transaction s0"
      unfolding warm_cache_def
      by (rule cache_get_table_frame(1) [OF reads_simple(1)]) (rule surjective_pairing)
    with Cons show ?case by simp
  qed simp
  obtain r0 s1 where g: "get_tables 1 D cat S database_name True False s = (r0, s1)" by fastforce
  have "s_transaction s1 = s_transaction s" using readsD [OF reads_get_tables g] by simp
  with assms g w show "ts_entries ts' = ts_entries ts" "s_transaction s' = s_transaction s"
    by (auto simp: bulk_load_table_info_def Let_def log_op_def split: sum.splits exn.splits prod.splits if_splits)
qed

text \<open>The parts of a lookup that returns.\<close>

lemma get_entry_Inr:
  assumes "get_entry D cat S database_name name (ts, s) = (Inr found, st')"
  obtains tx s1 ts2 s2 t s3 ts3 where
    "get_transaction D cat s = (tx, s1)" "ts_entries ts2 = ts_entries ts" "s_transaction s2 = Some tx"
    "bulk_lookup D (s_settings s1) (tx_cache tx) name ts \<or> (ts2 = ts \<and> s2 = s1)"
    "cache_get_table D (tx_cache tx) database_name (glue_name D ts name)
       (get_table D cat S database_name (glue_name D ts name)) s2 = (Inr t, s3)"
    "ts_entries ts3 = ts_entries ts" "s_transaction s3 = Some tx"
    "settle_entry D (glue_name D ts name) t (ts3, s3) = (Inr found, st')"
proof -
  obtain tx s1 where tx: "get_transaction D cat s = (tx, s1)" by fastforce
  note frame = get_transaction_frame [OF tx]
  let ?bulk = "bulk_lookup D (s_settings s1) (tx_cache tx) name ts"
  let ?missed = "\<lambda>s2. \<not> (ci_find D name (ts_entries ts) \<noteq> None) \<and>
    (cached D (cache_key database_name (glue_name D ts name)) (table_slots (tx_cache tx) s2) = None)"
  from assms tx obtain ts2 s2 where
    bulk: "(if ?bulk then bulk_load_table_info D cat S database_name (tx_cache tx) else return_op ()) (ts, s1)
      = (Inr (), (ts2, s2))"
    and rest: "bind_op (on_session (cache_get_table D (tx_cache tx) database_name (glue_name D ts name)
                 (get_table D cat S database_name (glue_name D ts name)))) (\<lambda>found st3.
        settle_entry D (glue_name D ts name) found (count_lookup (?missed s2) (fst st3), snd st3)) (ts2, s2)
      = (Inr found, st')"
    by (auto simp: get_entry_def Let_def bind_op_def [of "if _ then _ else _"] split: prod.splits sum.splits)
  have b: "ts_entries ts2 = ts_entries ts" "s_transaction s2 = Some tx" "?bulk \<or> (ts2 = ts \<and> s2 = s1)"
    using bulk bulk_load_frame [of D cat S database_name "tx_cache tx" ts s1 "Inr ()" ts2 s2] frame(1)
    by (auto simp: return_op_def split: if_splits)
  from rest obtain t s3 where c: "cache_get_table D (tx_cache tx) database_name (glue_name D ts name)
      (get_table D cat S database_name (glue_name D ts name)) s2 = (Inr t, s3)"
    and settle: "settle_entry D (glue_name D ts name) t (count_lookup (?missed s2) ts2, s3) = (Inr found, st')"
    by (auto simp: bind_op_def on_session_def split: prod.splits sum.splits)
  have "s_transaction s3 = Some tx"
    using cache_get_table_frame(1) [OF reads_get_table c] b(2) by simp
  moreover have "ts_entries (count_lookup (?missed s2) ts2) = ts_entries ts"
    using b(1) by (simp add: count_lookup_def)
  ultimately show ?thesis using that [OF tx b c] settle by blast
qed

lemma ok_count_lookup [simp]: "table_set_ok D (count_lookup missed ts) = table_set_ok D ts"
  by (simp add: count_lookup_def table_set_ok_def)

context string_util
begin

lemma ok_get_entry:
  assumes "table_set_ok D ts"
  shows "table_set_ok D (fst (snd (get_entry D cat S database_name name (ts, s))))"
proof -
  obtain tx s1 where tx: "get_transaction D cat s = (tx, s1)" by fastforce
  obtain r2 ts2 s2 where bulk: "(if bulk_lookup D (s_settings s1) (tx_cache tx) name ts
      then bulk_load_table_info D cat S database_name (tx_cache tx) else return_op ()) (ts, s1) = (r2, (ts2, s2))"
    by (metis prod_cases3)
  have ok2: "table_set_ok D ts2"
    using bulk ok_bulk [of "(ts, s1)" cat S database_name "tx_cache tx"] assms
    by (auto simp: return_op_def split: if_splits)
  obtain r3 s3 where c: "cache_get_table D (tx_cache tx) database_name (glue_name D ts name)
      (get_table D cat S database_name (glue_name D ts name)) s2 = (r3, s3)" by fastforce
  have "table_set_ok D (fst (snd (settle_entry D asked found (count_lookup missed ts2, s3))))" for asked found missed
    by (rule ok_settle) (simp add: ok2)
  with ok2 show ?thesis
    by (simp add: get_entry_def tx Let_def bind_op_def [of "if _ then _ else _"] bulk)
      (auto simp: bind_op_def on_session_def c split: sum.split)
qed

lemma ok_load_entries:
  assumes "table_set_ok D (fst st)"
  shows "table_set_ok D (fst (snd (load_entries fuel D cat S database_name st)))"
proof (cases "ts_is_loaded (fst st)")
  case False
  obtain r s1 where g: "get_tables fuel D cat S database_name False False (snd st) = (r, s1)" by fastforce
  show ?thesis
  proof (cases r)
    case (Inr q)
    have "table_set_ok D (fst (fold (load_entry D database_name) (fst q) (fst st, s1)))"
      by (rule ok_load_fold) (simp add: assms)
    then show ?thesis
      using False g Inr by (cases st; cases q)
        (auto simp: load_entries_def bind_op_def on_session_def table_set_ok_def split: prod.split)
  qed (use False g assms in \<open>cases st, simp add: load_entries_def bind_op_def on_session_def\<close>)
qed (use assms in \<open>simp add: load_entries_def\<close>)

lemma ok_scan_entries:
  assumes "table_set_ok D ts"
  shows "table_set_ok D (fst (snd (scan_entries fuel D cat S database_name (ts, s))))"
proof -
  obtain r st1 where l: "load_entries fuel D cat S database_name (ts, snd (get_transaction D cat s)) = (r, st1)"
    by (rule prod.exhaust)
  with ok_load_entries [of "(ts, snd (get_transaction D cat s))" fuel cat S database_name] assms
  have "table_set_ok D (fst st1)" by simp
  then show ?thesis by (cases r) (auto simp: scan_entries_def bind_op_def l)
qed

end

subsection \<open>The interface of an entry set\<close>

text \<open>
  What the table set and the schema set promise of their entries: one entry per name up to case,
  and an entry that is replaced or removed goes to the transaction manager.
\<close>

locale entry_set = string_util D for D :: duckdb +
  fixes entries :: "'st \<Rightarrow> (string \<times> 'e) list"
    and retired_of :: "'st \<Rightarrow> 'e list"
    and insert :: "string \<Rightarrow> 'e \<Rightarrow> 'st \<Rightarrow> 'st"
    and remove :: "string \<Rightarrow> 'st \<Rightarrow> 'st"
  assumes find_insert: "ci_find D n' (entries (insert n e st))
      = (if CIEquals D n n' then Some e else ci_find D n' (entries st))"
    and find_remove: "ci_find D n' (entries (remove n st))
      = (if CIEquals D n n' then None else ci_find D n' (entries st))"
    and retired_insert: "retired_of (insert n e st)
      = retired_of st @ (case ci_find D n (entries st) of None \<Rightarrow> [] | Some old \<Rightarrow> [old])"
    and retired_remove: "retired_of (remove n st)
      = retired_of st @ (case ci_find D n (entries st) of None \<Rightarrow> [] | Some old \<Rightarrow> [old])"
begin

text \<open>An entry of the set is there or retired after any sequence of replacements and removals.\<close>

lemma not_lost_step:
  assumes "ci_find D n (entries st) = Some e \<or> e \<in> set (retired_of st)"
    and "st' = insert m x st \<or> st' = remove m st"
  shows "ci_find D n (entries st') = Some e \<or> e \<in> set (retired_of st')"
proof -
  have "CIEquals D m n \<Longrightarrow> ci_find D m (entries st) = ci_find D n (entries st)"
    by (simp add: ci_find_def CIEquals)
  then show ?thesis
    using assms by (auto simp: find_insert find_remove retired_insert retired_remove)
qed

lemma not_lost:
  assumes "ci_find D n (entries st) = Some e"
    and "\<forall>f\<in>set fs. (\<exists>m x. f = insert m x) \<or> (\<exists>m. f = remove m)"
  shows "ci_find D n (entries (fold (\<lambda>f. f) fs st)) = Some e \<or> e \<in> set (retired_of (fold (\<lambda>f. f) fs st))"
proof -
  have "ci_find D n (entries (fold (\<lambda>f. f) fs st)) = Some e \<or> e \<in> set (retired_of (fold (\<lambda>f. f) fs st))"
    if "ci_find D n (entries st) = Some e \<or> e \<in> set (retired_of st)"
      "\<forall>f\<in>set fs. (\<exists>m x. f = insert m x) \<or> (\<exists>m. f = remove m)" for fs st
    using that
  proof (induction fs arbitrary: st)
    case (Cons f fs)
    then have "ci_find D n (entries (f st)) = Some e \<or> e \<in> set (retired_of (f st))"
      using not_lost_step [of n st e "f st"] by fastforce
    with Cons show ?case by simp
  qed simp
  with assms show ?thesis by blast
qed

end

definition retired_tables :: "'w session \<Rightarrow> catalog_entry list" where
  "retired_tables s = concat (map (\<lambda>r. case retired r of RetiredEntry e \<Rightarrow> [e] | RetiredSchema _ \<Rightarrow> [])
     (retired_entries (s_manager s)))"

definition replace_table_entry :: "duckdb \<Rightarrow> string \<Rightarrow> catalog_entry \<Rightarrow> 'w set_state \<Rightarrow> 'w set_state" where
  "replace_table_entry D name e st = emplace_table_entry D name e (retire_table_entry D name st)"

lemma retired_tables_retire:
  "retired_tables (snd (retire_table_entry D name st)) = retired_tables (snd st) @
     (case ci_find D name (ts_entries (fst st)) of None \<Rightarrow> [] | Some old \<Rightarrow> [old])"
  by (cases st) (simp add: retire_table_entry_snd retire_object_def retire_entry_def retired_tables_def split: option.split)

sublocale string_util < table_entries: entry_set D "\<lambda>st. ts_entries (fst st)"
  "\<lambda>st. retired_tables (snd st)" "replace_table_entry D" "remove_table_entry D"
proof
  fix n n' :: string and e and st :: "'a set_state"
  show "ci_find D n' (ts_entries (fst (replace_table_entry D n e st)))
      = (if CIEquals D n n' then Some e else ci_find D n' (ts_entries (fst st)))"
    using find_replaced [of n' n e "fst st" "snd st"] by (simp add: replace_table_entry_def)
  show "ci_find D n' (ts_entries (fst (remove_table_entry D n st)))
      = (if CIEquals D n n' then None else ci_find D n' (ts_entries (fst st)))"
    using find_retired [of n' n "fst st" "snd st"] by (simp add: remove_table_entry_def)
  show "retired_tables (snd (replace_table_entry D n e st)) = retired_tables (snd st) @
      (case ci_find D n (ts_entries (fst st)) of None \<Rightarrow> [] | Some old \<Rightarrow> [old])"
    by (simp add: replace_table_entry_def emplace_table_entry_def retired_tables_retire split: prod.split)
      (metis retired_tables_retire snd_conv)
  show "retired_tables (snd (remove_table_entry D n st)) = retired_tables (snd st) @
      (case ci_find D n (ts_entries (fst st)) of None \<Rightarrow> [] | Some old \<Rightarrow> [old])"
    by (simp add: remove_table_entry_def retired_tables_retire)
qed

context string_util
begin

lemma table_entry_not_lost:
  "ci_find D name (ts_entries (fst st)) = Some e \<Longrightarrow>
     \<forall>f\<in>set fs. (\<exists>n x. f = replace_table_entry D n x) \<or> (\<exists>n. f = remove_table_entry D n) \<Longrightarrow>
     ci_find D name (ts_entries (fst (fold (\<lambda>f. f) fs st))) = Some e \<or>
     e \<in> set (retired_tables (snd (fold (\<lambda>f. f) fs st)))"
  by (rule table_entries.not_lost)

end

subsection \<open>Properties\<close>

text \<open>
  C31: the set of the tables of a database stays well formed under every operation, returned from
  or thrown out of: no two entries have names equal up to case, and every entry is kept under its
  own name, which is the name of the definition it was built from.
\<close>

theorem table_set_stays_ok:
  assumes "string_util D" "table_set_ok D ts"
  shows "table_set_ok D (fst (snd (get_entry D cat S database_name name (ts, s)))) \<and>
    table_set_ok D (fst (snd (scan_entries fuel D cat S database_name (ts, s)))) \<and>
    table_set_ok D (fst (remove_table_entry D name (ts, s))) \<and>
    (\<forall>t e. build_entry D t = Inr e \<longrightarrow> table_set_ok D (fst (insert_table_entry D e (ts, s))))"
proof (intro conjI allI impI)
  show "table_set_ok D (fst (snd (get_entry D cat S database_name name (ts, s))))"
    using assms by (intro string_util.ok_get_entry)
  show "table_set_ok D (fst (snd (scan_entries fuel D cat S database_name (ts, s))))"
    using assms by (intro string_util.ok_scan_entries)
  show "table_set_ok D (fst (remove_table_entry D name (ts, s)))"
    using assms unfolding remove_table_entry_def by (intro string_util.ok_retire)
  show "table_set_ok D (fst (insert_table_entry D e (ts, s)))" if "build_entry D t = Inr e" for t e
    unfolding insert_table_entry_def
    using build_entry_name [OF that] assms by (intro string_util.ok_replace) auto
qed

lemma table_set_stays_ok_witness:
  "table_set_ok ascii_duckdb (fst (snd (get_entry ascii_duckdb sample_catalog sample_glue ''db'' ''A''
     (new_table_set, sample_session sample_lake))))"
proof -
  have "table_set_ok ascii_duckdb new_table_set"
    by (simp add: table_set_ok_def new_table_set_def ci_distinct_def)
  from table_set_stays_ok [OF ascii_ok this] show ?thesis by blast
qed

text \<open>
  Within a transaction a name means one definition: when a lookup found an entry, looking the
  same name up again, in the case Glue gave it or another, returns the same entry without a
  request to Glue; and where Glue told the version of the table, nothing changes at all.
\<close>

theorem lookup_is_repeatable:
  assumes "string_util D" "table_set_ok D ts"
    and "get_entry D cat S database_name name (ts, s) = (Inr (Some e), (ts', s'))"
    and "CIEquals D (e_name e) name"
  shows "\<exists>st''. get_entry D cat S database_name name (ts', s') = (Inr (Some e), st'') \<and>
    s_world (snd st'') = s_world s' \<and>
    (t_version_id (e_table_info e) \<noteq> [] \<longrightarrow> st'' = (ts', s'))"
proof -
  note ci = string_util.CIEquals [OF assms(1)]
  obtain tx s1 ts2 s2 t s3 ts3 where
    "get_transaction D cat s = (tx, s1)" "ts_entries ts2 = ts_entries ts" "s_transaction s2 = Some tx"
    "bulk_lookup D (s_settings s1) (tx_cache tx) name ts \<or> (ts2 = ts \<and> s2 = s1)"
    and cache: "cache_get_table D (tx_cache tx) database_name (glue_name D ts name)
       (get_table D cat S database_name (glue_name D ts name)) s2 = (Inr t, s3)"
    and ts3: "ts_entries ts3 = ts_entries ts" and tx3: "s_transaction s3 = Some tx"
    and settle: "settle_entry D (glue_name D ts name) t (ts3, s3) = (Inr (Some e), (ts', s'))"
    by (rule get_entry_Inr [OF assms(3)])
  from settle obtain t' where t: "t = Some t'" by (auto simp: settle_entry_def split: option.splits)
  have cases: "(current_entry D ts3 t' = Some e \<and> ts' = ts3 \<and> s' = s3) \<or>
      (build_entry D t' = Inr e \<and>
       (ts', s') = emplace_table_entry D (t_name t') e (retire_table_entry D (t_name t') (ts3, s3)))"
    using settle by (auto simp: settle_entry_def t Let_def split: option.splits sum.splits)
  have ok3: "table_set_ok D ts3" using assms(2) ts3 by (simp add: table_set_ok_def)
  have found: "ci_find D (t_name t') (ts_entries ts') = Some e"
  proof (rule disjE [OF cases])
    assume "build_entry D t' = Inr e \<and>
       (ts', s') = emplace_table_entry D (t_name t') e (retire_table_entry D (t_name t') (ts3, s3))"
    then show ?thesis
      using string_util.find_replaced [OF assms(1), of "t_name t'" "t_name t'" e ts3 s3]
      by (metis fst_conv string_util.CIEquals_refl [OF assms(1)])
  qed (simp add: current_entry_Some)
  have e_name: "CIEquals D (e_name e) (t_name t')"
  proof (rule disjE [OF cases])
    assume "current_entry D ts3 t' = Some e \<and> ts' = ts3 \<and> s' = s3"
    then obtain k where "(k, e) \<in> set (ts_entries ts3)" "CIEquals D k (t_name t')"
      using ci_find_member by (fastforce simp: current_entry_Some)
    with ok3 show ?thesis by (auto simp: table_set_ok_def)
  qed (auto dest: build_entry_name simp: ci)
  have asked: "CIEquals D (glue_name D ts name) name"
  proof (cases "ci_find D name (ts_entries ts)")
    case (Some e0)
    with ci_find_member [OF Some] assms(2) show ?thesis by (auto simp: glue_name_def table_set_ok_def)
  qed (simp add: glue_name_def ci)
  have found': "ci_find D name (ts_entries ts') = Some e"
    using found e_name assms(4) by (simp add: ci_find_def ci)
  have frame: "s_transaction s' = Some tx" "table_slots (tx_cache tx) s' = table_slots (tx_cache tx) s3"
    "s_world s' = s_world s3"
    using cases tx3 by (auto simp: emplace_table_entry_def retire_table_entry_def table_slots_def
        split: option.splits prod.splits)
  have "cached D (cache_key database_name (e_name e)) (table_slots (tx_cache tx) s') = Some t'"
    using cache_get_table_stores [OF reads_get_table cache [unfolded t]] frame(2)
      cached_CI [OF assms(1), of "e_name e" "glue_name D ts name" database_name "table_slots (tx_cache tx) s3"]
      asked assms(4)
    by (simp add: ci)
  note hit = cache_get_table_hit [OF this]
  have again: "get_entry D cat S database_name name (ts', s')
      = settle_entry D (e_name e) (Some t') (ts', s')"
    by (simp add: get_entry_def get_transaction_def frame(1) glue_name_def found' bulk_lookup_def Let_def
        bind_op_def return_op_def on_session_def hit count_lookup_def)
  show ?thesis
  proof (cases "is_same_version (e_table_info e) t'")
    case True
    with found have "current_entry D ts' t' = Some e" by (simp add: current_entry_Some)
    then show ?thesis by (simp add: again settle_entry_def)
  next
    case False
    with cases have b: "build_entry D t' = Inr e" by (auto simp: current_entry_Some)
    have "t_version_id (e_table_info e) = []"
      using False build_entry_name [OF b] by (auto simp: is_same_version_def)
    moreover have "current_entry D ts' t' = None" using False found by (simp add: current_entry_def)
    ultimately show ?thesis
      by (auto simp: again settle_entry_def b Let_def emplace_table_entry_def retire_table_entry_def
          split: option.split prod.split)
  qed
qed

lemma lookup_is_repeatable_witness:
  "\<exists>e st' st''. get_entry ascii_duckdb sample_catalog sample_glue ''db'' ''a''
       (new_table_set, sample_session sample_lake) = (Inr (Some e), st') \<and>
     get_entry ascii_duckdb sample_catalog sample_glue ''db'' ''a'' st' = (Inr (Some e), st'') \<and>
     s_world (snd st'') = s_world (snd st')"
proof -
  let ?m = "get_entry ascii_duckdb sample_catalog sample_glue ''db'' ''a''
       (new_table_set, sample_session sample_lake)"
  have ok: "table_set_ok ascii_duckdb new_table_set"
    by (simp add: table_set_ok_def new_table_set_def ci_distinct_def)
  have "map_sum id (map_option e_name) (fst ?m) = Inr (Some ''a'')" by code_simp
  then obtain e where e: "fst ?m = Inr (Some e)" "e_name e = ''a''"
    by (cases "fst ?m") auto
  obtain ts' s' where m: "?m = (Inr (Some e), (ts', s'))"
    using e(1) by (metis prod.collapse)
  have "CIEquals ascii_duckdb (e_name e) ''a''" by (simp add: e(2))
  from lookup_is_repeatable [OF ascii_ok ok m this] m show ?thesis by fastforce
qed

text \<open>
  C16: a lookup after a change sees Glue, not a cache: once an operation that changes Glue has ended,
  however it ended, the next lookup of a name that is not batched returns nothing and drops the
  entry if Glue has no such table, and otherwise an entry of the definition Glue has, built from
  it or of the same version.
\<close>

theorem lookup_after_change_sees_glue:
  assumes "string_util D" "table_set_ok D ts"
    and "invalidate_on_exit D cat change s0 = (r, s)"
    and "get_table D cat S database_name (glue_name D ts name) s = (Inr found, s1)"
    and "\<And>cid. \<not> bulk_lookup D (s_settings s) cid name ts"
    and "\<And>t. found = Some t \<Longrightarrow> isl (build_entry D t) \<Longrightarrow> False"
  shows "case found of
     None \<Rightarrow> fst (get_entry D cat S database_name name (ts, s)) = Inr None \<and>
       ci_find D name (ts_entries (fst (snd (get_entry D cat S database_name name (ts, s))))) = None
   | Some t \<Rightarrow> \<exists>e. fst (get_entry D cat S database_name name (ts, s)) = Inr (Some e) \<and>
       (e_table_info e = t \<or> is_same_version (e_table_info e) t)"
proof -
  have nm: "no_metadata s" by (rule invalidated.no_metadata_after [OF assms(3)])
  obtain tx where tx: "s_transaction s = Some tx"
    using assms(3) invalidate_transaction
    by (auto simp: invalidate_on_exit_def split: prod.splits)
  let ?key = "cache_key database_name (glue_name D ts name)"
  let ?cid = "tx_cache tx"
  have empty: "sl_index (table_slots ?cid s) = Map.empty"
    using nm tx by (auto simp: no_metadata_def cache_empty_def table_slots_def new_slots_def split: option.splits)
  obtain a slots where find: "find_entry D ?key (table_slots ?cid s) = (a, slots)" "sl_value slots a = None"
    by (simp add: find_entry_def empty)
  have "get_table D cat S database_name (glue_name D ts name) (put_table_slots ?cid slots s)
      = (Inr found, s1\<lparr>s_caches := s_caches (put_table_slots ?cid slots s)\<rparr>)"
    using get_table_caches [where D = D and cat = cat and S = S and database_name = database_name
        and table_name = "glue_name D ts name" and s = s] assms(4)
    by (simp add: put_table_slots_def)
  then obtain s2 where c: "cache_get_table D ?cid database_name (glue_name D ts name)
      (get_table D cat S database_name (glue_name D ts name)) s = (Inr found, s2)"
    by (cases found) (auto simp: cache_get_table_def cache_get_def find Let_def)
  obtain ts3 where get: "get_entry D cat S database_name name (ts, s) = settle_entry D (glue_name D ts name) found (ts3, s2)"
    and ts3: "ts_entries ts3 = ts_entries ts"
    using that assms(5) by (simp add: get_entry_def get_transaction_def tx Let_def bind_op_def return_op_def
        on_session_def c count_lookup_def)
  have asked: "CIEquals D (glue_name D ts name) name"
  proof (cases "ci_find D name (ts_entries ts)")
    case (Some e0)
    with ci_find_member [OF Some] assms(2) show ?thesis by (auto simp: glue_name_def table_set_ok_def)
  qed (simp add: glue_name_def string_util.CIEquals [OF assms(1)])
  show ?thesis
  proof (cases found)
    case None
    then show ?thesis
      using string_util.find_retired [OF assms(1), of name "glue_name D ts name" ts3 s2] asked
      by (simp add: get settle_entry_def)
  next
    case (Some t)
    with assms(6) obtain e where "build_entry D t = Inr e" by (cases "build_entry D t") auto
    with build_entry_name [OF this] Some show ?thesis
      by (auto simp: get settle_entry_def Let_def current_entry_Some split: option.split)
  qed
qed

definition sample_delete :: "sample_world session" where
  "sample_delete = snd (delete_table ascii_duckdb sample_catalog sample_glue ''db'' ''a'' (sample_session sample_lake))"

lemma lookup_after_change_sees_glue_witness:
  "fst (get_entry ascii_duckdb sample_catalog sample_glue ''db'' ''a'' (new_table_set, sample_delete)) = Inr None"
proof -
  let ?change = "bind_op (lift_op (check_writable sample_catalog ''DeleteTable'')) (\<lambda>_.
    bind_op (get_client sample_glue) (\<lambda>_.
      bind_op (call_op (DeleteTable sample_glue (set_catalog_id sample_catalog
          \<lparr>tnr_database_name = ''db'', tnr_name = ''a''\<rparr>))) (\<lambda>outcome.
        case outcome of
          Inl e \<Rightarrow> if is_entity_not_found e
                   then throw_op (CatalogException ''Table does not exist in Glue database'' [''a'', ''db''])
                   else throw_op (throw_glue_error e (''DeleteTable '' @ ''db'' @ ''.'' @ ''a''))
        | Inr _ \<Rightarrow> return_op ())))"
  have change: "invalidate_on_exit ascii_duckdb sample_catalog ?change (sample_session sample_lake)
      = (fst (invalidate_on_exit ascii_duckdb sample_catalog ?change (sample_session sample_lake)), sample_delete)"
    by (simp add: sample_delete_def delete_table_def writing_def)
  have ok: "table_set_ok ascii_duckdb new_table_set"
    by (simp add: table_set_ok_def new_table_set_def ci_distinct_def)
  have name: "glue_name ascii_duckdb new_table_set ''a'' = ''a''"
    by (simp add: glue_name_def new_table_set_def ci_find_def)
  have "fst (get_table ascii_duckdb sample_catalog sample_glue ''db'' ''a'' sample_delete) = Inr None" by code_simp
  then have found: "get_table ascii_duckdb sample_catalog sample_glue ''db'' (glue_name ascii_duckdb new_table_set ''a'')
      sample_delete = (Inr None, snd (get_table ascii_duckdb sample_catalog sample_glue ''db'' ''a'' sample_delete))"
    by (simp add: name prod_eq_iff)
  have bulk: "\<not> bulk_lookup ascii_duckdb (s_settings sample_delete) cid ''a'' new_table_set" for cid
    by (simp add: bulk_lookup_def new_table_set_def)
  from lookup_after_change_sees_glue [OF ascii_ok ok change found bulk] show ?thesis by simp
qed

text \<open>
  An entry a statement has found is not lost while it may be used: after any replacements and
  removals in the set it is still the entry of its name or has been handed to the transaction
  manager, which keeps it until the transactions that run at that time have ended.
\<close>

theorem found_entry_not_lost:
  fixes st :: "'w set_state"
  assumes "string_util D" "ci_find D name (ts_entries (fst st)) = Some e"
    and "\<forall>f\<in>set changes. (\<exists>n x. f = replace_table_entry D n x) \<or> (\<exists>n. f = remove_table_entry D n)"
  shows "ci_find D name (ts_entries (fst (fold (\<lambda>f. f) changes st))) = Some e \<or>
    (\<exists>r\<in>set (retired_entries (s_manager (snd (fold (\<lambda>f. f) changes st)))). retired r = RetiredEntry e)"
proof -
  have member: "e \<in> set (retired_tables s) \<longleftrightarrow>
      (\<exists>r\<in>set (retired_entries (s_manager s)). retired r = RetiredEntry e)" for s :: "'w session"
    by (force simp: retired_tables_def split: retired_object.splits)
  show ?thesis
    using string_util.table_entry_not_lost [OF assms] unfolding member .
qed

definition sample_entry :: catalog_entry where
  "sample_entry = \<lparr> e_type = TABLE_ENTRY, e_name = ''a'', e_comment = [], e_columns = [], e_tags = [],
     e_table_info = sample_bound, e_view = None \<rparr>"

lemma found_entry_not_lost_witness:
  "ci_find ascii_duckdb ''A'' (ts_entries (fst (remove_table_entry ascii_duckdb ''a''
       (new_table_set\<lparr>ts_entries := [(''a'', sample_entry)]\<rparr>, sample_session sample_lake)))) = Some sample_entry \<or>
   (\<exists>r\<in>set (retired_entries (s_manager (snd (remove_table_entry ascii_duckdb ''a''
       (new_table_set\<lparr>ts_entries := [(''a'', sample_entry)]\<rparr>, sample_session sample_lake))))).
      retired r = RetiredEntry sample_entry)"
proof -
  let ?st = "(new_table_set\<lparr>ts_entries := [(''a'', sample_entry)]\<rparr>, sample_session sample_lake)"
  have "ci_find ascii_duckdb ''A'' (ts_entries (fst ?st)) = Some sample_entry"
    by (simp add: ci_find_def ascii_lower_def char_of_def bit_0)
  from found_entry_not_lost [OF ascii_ok this, of "[remove_table_entry ascii_duckdb ''a'']"]
  show ?thesis by auto
qed

end
