(* ===== verification/Create_Table.thy ===== *)
theory Create_Table
  imports Table_Api
begin

text \<open>
  CREATE TABLE as src/catalog/glue_schema_entry.cpp resolves it: the options of its WITH clause, the
  partition columns, the bucketing, and the table definition made of them (\<open>ParseCreateTableOptions\<close>,
  \<open>ResolveBucketing\<close>, \<open>BuildTableInfo\<close>), with the locations \<open>GlueCatalog\<close> gives new databases and tables.
  The statement is DuckDB's \<open>CreateTableInfo\<close>. The expression of an option is given by what binding
  and evaluating it results in, which DuckDB does.
\<close>

subsection \<open>The statement\<close>

record column_definition =
  cd_name :: string
  cd_type :: LogicalType
  cd_comment :: Value
  cd_generated :: bool
  cd_has_default :: bool

datatype OnCreateConflict = ERROR_ON_CONFLICT | IGNORE_ON_CONFLICT | REPLACE_ON_CONFLICT | ALTER_ON_CONFLICT

text \<open>A partition key: a column reference, qualified or not, or another expression, by its text.\<close>

datatype partition_key = ColumnRef bool string | OtherExpression string

type_synonym options = "(string \<times> Value result) list"

record create_table_info =
  cti_table_name :: string
  cti_columns :: "column_definition list"
  cti_has_constraints :: bool
  cti_options :: options
  cti_partition_keys :: "partition_key list"
  cti_comment :: Value
  cti_on_conflict :: OnCreateConflict

record GlueCreateTableOptions =
  go_location :: string
  go_description :: string
  go_format :: HiveFileFormat
  go_csv_delimiter :: string
  go_csv_quote :: string
  go_csv_escape :: string
  go_bucket_columns :: "string list"
  go_number_of_buckets :: int
  go_sort_columns :: "GlueColumn list"
  go_overwrite :: bool
  go_parameters :: properties

definition new_create_options :: GlueCreateTableOptions where
  "new_create_options = \<lparr> go_location = [], go_description = [], go_format = PARQUET,
     go_csv_delimiter = '','', go_csv_quote = [], go_csv_escape = [], go_bucket_columns = [],
     go_number_of_buckets = -1, go_sort_columns = [], go_overwrite = False, go_parameters = [] \<rparr>"

subsection \<open>Values\<close>

text \<open>\<open>DefaultCastAs(VARCHAR)\<close> and \<open>DefaultCastAs(BOOLEAN)\<close> with the \<open>GetValue\<close> that follows.\<close>

definition string_value :: "duckdb \<Rightarrow> Value \<Rightarrow> string result" where
  "string_value D v = (case TryCastAs D VARCHAR v of
     Some (StringV s) \<Rightarrow> Inr s
   | _ \<Rightarrow> Inl (InvalidInputException ''Could not convert value to VARCHAR'' [ValueToString D v]))"

definition bool_value :: "duckdb \<Rightarrow> Value \<Rightarrow> bool result" where
  "bool_value D v = (case TryCastAs D BOOLEAN v of
     Some (BoolV b) \<Rightarrow> Inr b
   | _ \<Rightarrow> Inl (InvalidInputException ''Could not convert value to BOOLEAN'' [ValueToString D v]))"

text \<open>\<open>ListValue::GetChildren\<close>.\<close>

fun list_children :: "Value \<Rightarrow> Value list" where
  "list_children (ListV t vs) = vs"
| "list_children v = []"

fun list_child_type :: "LogicalType \<Rightarrow> LogicalType option" where
  "list_child_type (LIST t) = Some t"
| "list_child_type (ALIAS a t) = list_child_type t"
| "list_child_type t = None"

text \<open>The fields of a struct value: \<open>StructType::GetChildTypes\<close> beside \<open>StructValue::GetChildren\<close>.\<close>

fun struct_fields :: "Value \<Rightarrow> (string \<times> Value) list" where
  "struct_fields (StructV fs vs) = zip (map fst fs) vs"
| "struct_fields v = []"

subsection \<open>Options\<close>

definition evaluate_option :: "string \<Rightarrow> string \<times> Value result \<Rightarrow> (string \<times> Value) result" where
  "evaluate_option statement option = and_then (snd option) (\<lambda>v.
     if value_is_null v
     then Inl (BinderException ''NULL is not a valid value for option'' [statement, fst option])
     else Inr (fst option, v))"

definition evaluate_options :: "string \<Rightarrow> options \<Rightarrow> (string \<times> Value) list result" where
  "evaluate_options statement opts = collect (evaluate_option statement) opts"

definition is_bucketing_option :: "duckdb \<Rightarrow> string \<Rightarrow> bool" where
  "is_bucketing_option D key \<longleftrightarrow> CIEquals D key ''BucketColumns'' \<or> CIEquals D key ''NumberOfBuckets'' \<or>
     CIEquals D key ''SortColumns''"

definition lookup_spelling :: "duckdb \<Rightarrow> (string \<times> string) list \<Rightarrow> string \<Rightarrow> string" where
  "lookup_spelling D spellings key = (case find (\<lambda>e. CIEquals D (fst e) key) spellings of
     None \<Rightarrow> [] | Some e \<Rightarrow> snd e)"

definition bucketing_option_for :: "duckdb \<Rightarrow> string \<Rightarrow> string" where
  "bucketing_option_for D = lookup_spelling D
     [(''bucket_columns'', ''BucketColumns''), (''bucketed_by'', ''BucketColumns''),
      (''clustered_by'', ''BucketColumns''), (''number_of_buckets'', ''NumberOfBuckets''),
      (''bucket_count'', ''NumberOfBuckets''), (''sort_columns'', ''SortColumns''),
      (''sorted_by'', ''SortColumns'')]"

definition other_engine_option_for :: "duckdb \<Rightarrow> string \<Rightarrow> string" where
  "other_engine_option_for D = lookup_spelling D
     [(''partitioned_by'', ''a PARTITIONED BY (...) clause''),
      (''partitioning'', ''a PARTITIONED BY (...) clause''),
      (''external_location'', ''option location''), (''field_delimiter'', ''option delimiter'')]"

definition check_bucketed_tables_enabled :: "settings \<Rightarrow> string \<Rightarrow> unit result" where
  "check_bucketed_tables_enabled st key =
     check (set_create_bucketed_tables st = Some True)
       (BinderException ''CREATE TABLE option creates a bucketed Glue table'' [key])"

definition to_integer :: "duckdb \<Rightarrow> Value \<Rightarrow> int option" where
  "to_integer D v = (if \<not> IsIntegral D (value_type v) then None
     else case TryCastAs D INTEGER v of Some (IntV t i) \<Rightarrow> Some i | _ \<Rightarrow> None)"

definition parse_bucket_columns :: "duckdb \<Rightarrow> string \<Rightarrow> Value \<Rightarrow> string list result" where
  "parse_bucket_columns D key v =
     (if type_id (value_type v) \<noteq> ID_LIST
      then Inl (BinderException ''CREATE TABLE option must be a list of column names'' [key, ValueToString D v])
      else and_then (collect (\<lambda>e. if value_is_null e
              then Inl (BinderException ''CREATE TABLE option can not contain NULL'' [key])
              else string_value D e) (list_children v)) (\<lambda>result.
        if result = [] then Inl (BinderException ''CREATE TABLE option needs at least one column'' [key])
        else Inr result))"

definition parse_number_of_buckets :: "duckdb \<Rightarrow> string \<Rightarrow> Value \<Rightarrow> int result" where
  "parse_number_of_buckets D key v = (case to_integer D v of
     Some count \<Rightarrow> if count \<le> 0
       then Inl (BinderException ''CREATE TABLE option must be a positive integer'' [key, ValueToString D v])
       else Inr count
   | None \<Rightarrow> Inl (BinderException ''CREATE TABLE option must be a positive integer'' [key, ValueToString D v]))"

definition parse_sort_order :: "duckdb \<Rightarrow> string \<Rightarrow> Value \<Rightarrow> GlueSortOrder result" where
  "parse_sort_order D key v =
     (if to_integer D v = Some 1 then Inr ASCENDING
      else if to_integer D v = Some 0 then Inr DESCENDING
      else Inl (BinderException ''SortOrder must be 1 (ascending) or 0 (descending)'' [key, ValueToString D v]))"

fun set_sort_fields :: "duckdb \<Rightarrow> string \<Rightarrow> (string \<times> Value) list \<Rightarrow> GlueColumn \<Rightarrow> GlueColumn result" where
  "set_sort_fields D key [] c = Inr c"
| "set_sort_fields D key ((field, v) # rest) c =
     (if \<not> CIEquals D field ''Column'' \<and> \<not> CIEquals D field ''SortOrder''
      then Inl (BinderException ''CREATE TABLE option takes structs of Column and SortOrder'' [key, field])
      else if value_is_null v then set_sort_fields D key rest c
      else if CIEquals D field ''Column''
      then and_then (string_value D v) (\<lambda>name. set_sort_fields D key rest (c\<lparr>col_name := name\<rparr>))
      else and_then (parse_sort_order D key v) (\<lambda>order.
        set_sort_fields D key rest (c\<lparr>col_sort_order := order\<rparr>)))"

definition parse_sort_column :: "duckdb \<Rightarrow> string \<Rightarrow> Value \<Rightarrow> GlueColumn result" where
  "parse_sort_column D key v =
     (if value_is_null v then Inl (BinderException ''CREATE TABLE option can not contain NULL'' [key])
      else and_then (set_sort_fields D key (struct_fields v) new_column) (\<lambda>c.
        if col_name c = [] \<or> col_sort_order c = UNSORTED
        then Inl (BinderException ''Every entry needs a Column and a SortOrder'' [key, ValueToString D v])
        else Inr c))"

definition parse_sort_columns :: "duckdb \<Rightarrow> string \<Rightarrow> Value \<Rightarrow> GlueColumn list result" where
  "parse_sort_columns D key v =
     (if map_option type_id (list_child_type (value_type v)) \<noteq> Some ID_STRUCT
      then Inl (BinderException ''CREATE TABLE option must be a list of structs'' [key, ValueToString D v])
      else and_then (collect (parse_sort_column D key) (list_children v)) (\<lambda>result.
        if result = [] then Inl (BinderException ''CREATE TABLE option needs at least one column'' [key])
        else Inr result))"

text \<open>One turn of the loop of \<open>ParseCreateTableOptions\<close>.\<close>

definition apply_dialect_option ::
  "duckdb \<Rightarrow> string \<Rightarrow> string \<Rightarrow> GlueCreateTableOptions \<Rightarrow> GlueCreateTableOptions result" where
  "apply_dialect_option D key text go =
     (if length text \<noteq> 1 then Inl (BinderException ''CREATE TABLE option must be a single character'' [key, text])
      else if CIEquals D key ''delimiter'' then Inr (go\<lparr>go_csv_delimiter := text\<rparr>)
      else if CIEquals D key ''quote'' then Inr (go\<lparr>go_csv_quote := text\<rparr>)
      else Inr (go\<lparr>go_csv_escape := text\<rparr>))"

definition apply_bucketing_option ::
  "duckdb \<Rightarrow> settings \<Rightarrow> string \<Rightarrow> Value \<Rightarrow> GlueCreateTableOptions \<Rightarrow> GlueCreateTableOptions result" where
  "apply_bucketing_option D st key v go =
     and_then (check_bucketed_tables_enabled st key) (\<lambda>_.
       if CIEquals D key ''BucketColumns''
       then and_then (parse_bucket_columns D key v) (\<lambda>cs. Inr (go\<lparr>go_bucket_columns := cs\<rparr>))
       else if CIEquals D key ''NumberOfBuckets''
       then and_then (parse_number_of_buckets D key v) (\<lambda>n. Inr (go\<lparr>go_number_of_buckets := n\<rparr>))
       else and_then (parse_sort_columns D key v) (\<lambda>cs. Inr (go\<lparr>go_sort_columns := cs\<rparr>)))"

definition apply_option ::
  "duckdb \<Rightarrow> settings \<Rightarrow> string \<times> Value \<Rightarrow> GlueCreateTableOptions \<Rightarrow> GlueCreateTableOptions result" where
  "apply_option D st option go = (case option of (key, v) \<Rightarrow>
     and_then (string_value D v) (\<lambda>text.
       if CIEquals D key ''type''
       then and_then (check (Upper D text = ''HIVE'') (BinderException ''Unknown Glue table type'' [text]))
              (\<lambda>_. Inr go)
       else if CIEquals D key ''format''
       then and_then (hive_file_format_from_string D text) (\<lambda>f. Inr (go\<lparr>go_format := f\<rparr>))
       else if CIEquals D key ''location'' then Inr (go\<lparr>go_location := RTrimChars D text ''/''\<rparr>)
       else if CIEquals D key ''comment'' then Inr (go\<lparr>go_description := text\<rparr>)
       else if CIEquals D key ''delimiter'' \<or> CIEquals D key ''quote'' \<or> CIEquals D key ''escape''
       then apply_dialect_option D key text go
       else if CIEquals D key ''overwrite''
       then and_then (bool_value D v) (\<lambda>b. Inr (go\<lparr>go_overwrite := b\<rparr>))
       else if CIEquals D key ''header''
       then and_then (bool_value D v) (\<lambda>b. Inr (if b
              then go\<lparr>go_parameters := AList.update ''skip.header.line.count'' ''1'' (go_parameters go)\<rparr>
              else go))
       else if is_bucketing_option D key then apply_bucketing_option D st key v go
       else if bucketing_option_for D key \<noteq> []
       then Inl (BinderException ''Unknown CREATE TABLE option, a bucketed Glue table is created with''
              [key, bucketing_option_for D key])
       else if other_engine_option_for D key \<noteq> []
       then Inl (BinderException ''Unknown CREATE TABLE option, use'' [key, other_engine_option_for D key])
       else Inr (go\<lparr>go_parameters := AList.update key text (go_parameters go)\<rparr>)))"

fun apply_options ::
  "duckdb \<Rightarrow> settings \<Rightarrow> (string \<times> Value) list \<Rightarrow> GlueCreateTableOptions \<Rightarrow> GlueCreateTableOptions result" where
  "apply_options D st [] go = Inr go"
| "apply_options D st (option # options) go =
     and_then (apply_option D st option go) (apply_options D st options)"

definition parse_create_table_options ::
  "duckdb \<Rightarrow> settings \<Rightarrow> options \<Rightarrow> GlueCreateTableOptions result" where
  "parse_create_table_options D st options =
     and_then (evaluate_options ''CREATE TABLE'' options) (\<lambda>evaluated.
       apply_options D st evaluated new_create_options)"

subsection \<open>Columns\<close>

definition throw_if_collated :: "duckdb \<Rightarrow> LogicalType \<Rightarrow> string \<Rightarrow> unit result" where
  "throw_if_collated D type column_name =
     check (GetCollation D type = [])
       (NotImplementedException ''Collation of column is not supported'' [GetCollation D type, column_name])"

definition throw_if_unsupported_column :: "duckdb \<Rightarrow> column_definition \<Rightarrow> unit result" where
  "throw_if_unsupported_column D c =
     (if cd_generated c then Inl (NotImplementedException ''Generated column is not supported'' [cd_name c])
      else if cd_has_default c
      then Inl (NotImplementedException ''Default value of column is not supported'' [cd_name c])
      else throw_if_collated D (cd_type c) (cd_name c))"

text \<open>\<open>ColumnList::Physical\<close>: the columns that are not generated.\<close>

definition physical :: "column_definition list \<Rightarrow> column_definition list" where
  "physical columns = filter (\<lambda>c. \<not> cd_generated c) columns"

fun resolve_partition_columns ::
  "duckdb \<Rightarrow> create_table_info \<Rightarrow> partition_key list \<Rightarrow> string list \<Rightarrow> string list result" where
  "resolve_partition_columns D info [] partition_columns = Inr partition_columns"
| "resolve_partition_columns D info (OtherExpression text # keys) partition_columns =
     Inl (BinderException ''PARTITIONED BY for Hive tables only supports column names'' [text])"
| "resolve_partition_columns D info (ColumnRef qualified name # keys) partition_columns =
     (if qualified
      then Inl (BinderException ''PARTITIONED BY for Hive tables only supports plain column names'' [name])
      else if FindColumn D (map cd_name (cti_columns info)) name = None
      then Inl (BinderException ''PARTITIONED BY column is not a column of table'' [name, cti_table_name info])
      else if \<exists>existing\<in>set partition_columns. CIEquals D existing name
      then Inl (BinderException ''PARTITIONED BY column is listed twice for table'' [name, cti_table_name info])
      else resolve_partition_columns D info keys (partition_columns @ [name]))"

subsection \<open>Bucketing\<close>

definition names_column :: "duckdb \<Rightarrow> string list \<Rightarrow> string \<Rightarrow> bool" where
  "names_column D names name \<longleftrightarrow> (\<exists>n\<in>set names. CIEquals D n name)"

fun check_no_duplicates :: "duckdb \<Rightarrow> string \<Rightarrow> string list \<Rightarrow> string list \<Rightarrow> unit result" where
  "check_no_duplicates D option seen [] = Inr ()"
| "check_no_duplicates D option seen (name # names) =
     (if names_column D seen name then Inl (BinderException ''option lists column twice'' [option, name])
      else check_no_duplicates D option (seen @ [name]) names)"

definition resolve_column ::
  "duckdb \<Rightarrow> create_table_info \<Rightarrow> string list \<Rightarrow> string \<Rightarrow> string \<Rightarrow> string result" where
  "resolve_column D info partition_columns option name =
     (if names_column D partition_columns name
      then Inl (BinderException ''option column is a partition column of table'' [option, name, cti_table_name info])
      else case find (\<lambda>c. CIEquals D (cd_name c) name) (physical (cti_columns info)) of
        None \<Rightarrow> Inl (BinderException ''option column is not a column of table'' [option, name, cti_table_name info])
      | Some c \<Rightarrow> Inr (cd_name c))"

definition resolve_bucketing ::
  "duckdb \<Rightarrow> create_table_info \<Rightarrow> string list \<Rightarrow> GlueCreateTableOptions \<Rightarrow> GlueCreateTableOptions result" where
  "resolve_bucketing D info partition_columns go =
     (if go_bucket_columns go = [] then
        (if go_number_of_buckets go \<noteq> -1 \<or> go_sort_columns go \<noteq> []
         then Inl (BinderException ''CREATE TABLE options NumberOfBuckets and SortColumns need BucketColumns'' [])
         else Inr go)
      else if go_number_of_buckets go = -1
      then Inl (BinderException ''CREATE TABLE option BucketColumns needs NumberOfBuckets'' [])
      else
        and_then (collect (resolve_column D info partition_columns ''BucketColumns'') (go_bucket_columns go))
          (\<lambda>bucket_columns.
        and_then (collect (\<lambda>c. and_then (resolve_column D info partition_columns ''SortColumns'' (col_name c))
            (\<lambda>name. Inr (c\<lparr>col_name := name\<rparr>))) (go_sort_columns go)) (\<lambda>sort_columns.
        and_then (check_no_duplicates D ''BucketColumns'' [] bucket_columns) (\<lambda>_.
        and_then (check_no_duplicates D ''SortColumns'' [] (map col_name sort_columns)) (\<lambda>_.
          Inr (go\<lparr>go_bucket_columns := bucket_columns, go_sort_columns := sort_columns\<rparr>))))))"

subsection \<open>Locations\<close>

definition get_database_location :: "glue_catalog \<Rightarrow> string \<Rightarrow> string" where
  "get_database_location cat database_name =
     (if cat_default_location cat = [] then [] else cat_default_location cat @ ''/'' @ database_name)"

definition get_table_location ::
  "duckdb \<Rightarrow> glue_catalog \<Rightarrow> GlueDatabaseInfo \<Rightarrow> string \<Rightarrow> string result" where
  "get_table_location D cat database table_name =
     (if cat_default_location cat \<noteq> []
      then Inr (get_database_location cat (d_name database) @ ''/'' @ table_name)
      else if d_location_uri database \<noteq> []
      then Inr (RTrimChars D (d_location_uri database) ''/'' @ ''/'' @ table_name)
      else Inl (InvalidConfigurationException ''No location for table'' [table_name, d_name database]))"

subsection \<open>The definition of the table\<close>

text \<open>What \<open>BuildTableInfo\<close> resolves before it needs a location.\<close>

definition resolve_create_table ::
  "duckdb \<Rightarrow> settings \<Rightarrow> create_table_info \<Rightarrow> (GlueCreateTableOptions \<times> string list) result" where
  "resolve_create_table D st info =
     and_then (check (\<not> cti_has_constraints info)
       (NotImplementedException ''Constraints are not supported when creating tables in a Glue catalog'' [])) (\<lambda>_.
     and_then (check_each (throw_if_unsupported_column D) (cti_columns info)) (\<lambda>_.
     and_then (parse_create_table_options D st (cti_options info)) (\<lambda>go.
     and_then (resolve_partition_columns D info (cti_partition_keys info) []) (\<lambda>partition_columns.
     and_then (resolve_bucketing D info partition_columns go) (\<lambda>resolved.
       Inr (resolved, partition_columns))))))"

definition csv_serde :: "GlueCreateTableOptions \<Rightarrow> string \<times> properties" where
  "csv_serde go =
     (if go_csv_quote go = [] \<and> go_csv_escape go = []
      then (''org.apache.hadoop.hive.serde2.lazy.LazySimpleSerDe'',
            [(''field.delim'', go_csv_delimiter go), (''serialization.format'', go_csv_delimiter go)])
      else let quote = (if go_csv_quote go = [] then [CHR 0x22] else go_csv_quote go) in
           (''org.apache.hadoop.hive.serde2.OpenCSVSerde'',
            [(''separatorChar'', go_csv_delimiter go), (''quoteChar'', quote),
             (''escapeChar'', if go_csv_escape go = [] then quote else go_csv_escape go)]))"

definition glue_column_of :: "duckdb \<Rightarrow> column_definition \<Rightarrow> GlueColumn result" where
  "glue_column_of D c =
     and_then (from_logical_type D (cd_type c)) (\<lambda>type.
       Inr (new_column\<lparr>col_name := cd_name c, col_type := type,
              col_comment := (if value_is_null (cd_comment c) then [] else ValueToString D (cd_comment c))\<rparr>))"

text \<open>\<open>GetColumn\<close> of a partition column; the columns were checked to hold it.\<close>

definition partition_key_of :: "duckdb \<Rightarrow> create_table_info \<Rightarrow> string \<Rightarrow> GlueColumn result" where
  "partition_key_of D info name =
     (case FindColumn D (map cd_name (cti_columns info)) name of
        None \<Rightarrow> Inl (InternalException ''Column does not exist'' [name])
      | Some i \<Rightarrow> glue_column_of D (cti_columns info ! i))"

definition description_of :: "duckdb \<Rightarrow> create_table_info \<Rightarrow> GlueCreateTableOptions \<Rightarrow> string" where
  "description_of D info go =
     (if go_description go \<noteq> [] then go_description go
      else if value_is_null (cti_comment info) then [] else ValueToString D (cti_comment info))"

definition table_definition ::
  "duckdb \<Rightarrow> create_table_info \<Rightarrow> GlueCreateTableOptions \<Rightarrow> string list \<Rightarrow> string \<Rightarrow> string
     \<Rightarrow> GlueTableInfo result" where
  "table_definition D info go partition_columns schema_name location =
     and_then (collect (glue_column_of D)
        (filter (\<lambda>c. \<not> names_column D partition_columns (cd_name c)) (physical (cti_columns info)))) (\<lambda>columns.
     and_then (collect (partition_key_of D info) partition_columns) (\<lambda>partition_keys.
       if columns = []
       then Inl (BinderException ''Table needs at least one column that is not a partition column''
                   [cti_table_name info])
       else Inr (new_table\<lparr>
         t_name := cti_table_name info, t_schema_name := schema_name,
         t_description := description_of D info go, t_location := location,
         t_parameters := go_parameters go, t_file_format := go_format go,
         t_serde_library := (if go_format go = CSV then fst (csv_serde go) else []),
         t_serde_parameters := (if go_format go = CSV then snd (csv_serde go) else []),
         t_bucket_columns := go_bucket_columns go, t_number_of_buckets := go_number_of_buckets go,
         t_sort_columns := go_sort_columns go, t_columns := columns,
         t_partition_keys := partition_keys\<rparr>)))"

subsection \<open>What the options leave\<close>

lemma apply_options_induct:
  assumes "apply_options D st options go = Inr go'" "P go"
    and "\<And>option go go'. option \<in> set options \<Longrightarrow> P go \<Longrightarrow> apply_option D st option go = Inr go' \<Longrightarrow> P go'"
  shows "P go'"
  using assms
proof (induction options arbitrary: go)
  case (Cons option options)
  from Cons.prems(1) obtain go1 where "apply_option D st option go = Inr go1" "apply_options D st options go1 = Inr go'"
    by (auto simp: result_simps)
  with Cons.IH [of go1] Cons.prems(2,3) show ?case by (meson list.set_intros)
qed simp

lemma evaluate_options_fst: "evaluate_options statement options = Inr evaluated \<Longrightarrow> map fst evaluated = map fst options"
  unfolding evaluate_options_def
proof (induction options arbitrary: evaluated)
  case (Cons option options)
  then show ?case by (fastforce simp: result_simps evaluate_option_def list_all2_Cons1 split: if_splits)
qed (simp add: result_simps)

definition sorted_column :: "GlueColumn \<Rightarrow> bool" where
  "sorted_column c \<longleftrightarrow> col_sort_order c \<noteq> UNSORTED \<and>
     c = new_column\<lparr>col_name := col_name c, col_sort_order := col_sort_order c\<rparr>"

lemma set_sort_fields_shape:
  "set_sort_fields D key rest c = Inr c' \<Longrightarrow>
     c' = c\<lparr>col_name := col_name c', col_sort_order := col_sort_order c'\<rparr>"
  by (induction D key rest c rule: set_sort_fields.induct) (auto simp: result_simps split: if_splits)

lemma parse_sort_columns_sorted:
  assumes "parse_sort_columns D key v = Inr cs" "c \<in> set cs"
  shows "sorted_column c"
proof -
  from assms obtain e where "parse_sort_column D key e = Inr c"
    by (fastforce simp: parse_sort_columns_def result_simps list_all2_conv_all_nth in_set_conv_nth split: if_splits)
  then show ?thesis
    by (auto simp: parse_sort_column_def result_simps sorted_column_def dest: set_sort_fields_shape split: if_splits)
qed

text \<open>What holds of the options while they are read, \<open>keys\<close> being those of the statement.\<close>

definition options_ok :: "settings \<Rightarrow> string set \<Rightarrow> GlueCreateTableOptions \<Rightarrow> bool" where
  "options_ok st keys go \<longleftrightarrow>
     fst ` set (go_parameters go) \<subseteq> insert ''skip.header.line.count'' keys \<and>
     (\<forall>c\<in>set (go_sort_columns go). sorted_column c) \<and>
     (go_number_of_buckets go = -1 \<or> go_number_of_buckets go > 0) \<and>
     (go_bucket_columns go \<noteq> [] \<longrightarrow> set_create_bucketed_tables st = Some True)"

text \<open>What an option changes, as far as \<open>options_ok\<close> looks.\<close>

definition option_effect ::
  "settings \<Rightarrow> string \<Rightarrow> GlueCreateTableOptions \<Rightarrow> GlueCreateTableOptions \<Rightarrow> bool" where
  "option_effect st key go go' \<longleftrightarrow>
     (go_parameters go' = go_parameters go \<and> go_sort_columns go' = go_sort_columns go \<and>
      go_number_of_buckets go' = go_number_of_buckets go \<and> go_bucket_columns go' = go_bucket_columns go) \<or>
     (\<exists>k v. k \<in> {key, ''skip.header.line.count''} \<and>
        go' = go\<lparr>go_parameters := AList.update k v (go_parameters go)\<rparr>) \<or>
     (set_create_bucketed_tables st = Some True \<and>
        ((\<exists>cs. go' = go\<lparr>go_bucket_columns := cs\<rparr>) \<or> (\<exists>n>0. go' = go\<lparr>go_number_of_buckets := n\<rparr>) \<or>
         (\<exists>cs. (\<forall>c\<in>set cs. sorted_column c) \<and> go' = go\<lparr>go_sort_columns := cs\<rparr>)))"

definition effect_of :: "settings \<Rightarrow> string \<Rightarrow> GlueCreateTableOptions \<Rightarrow> GlueCreateTableOptions result \<Rightarrow> bool" where
  "effect_of st key go r \<longleftrightarrow> (\<forall>go'. r = Inr go' \<longrightarrow> option_effect st key go go')"

lemma effect_steps:
  "effect_of st key go (Inl e)"
  "(c \<Longrightarrow> effect_of st key go r) \<Longrightarrow> (\<not> c \<Longrightarrow> effect_of st key go r') \<Longrightarrow> effect_of st key go (if c then r else r')"
  "(\<And>x. m = Inr x \<Longrightarrow> effect_of st key go (f x)) \<Longrightarrow> effect_of st key go (and_then m f)"
  by (auto simp: effect_of_def result_simps)

lemma same_effect:
  "effect_of st key go (Inr go)" "effect_of st key go (Inr (go\<lparr>go_format := f\<rparr>))"
  "effect_of st key go (Inr (go\<lparr>go_location := text\<rparr>))" "effect_of st key go (Inr (go\<lparr>go_description := text\<rparr>))"
  "effect_of st key go (Inr (go\<lparr>go_overwrite := b\<rparr>))" "effect_of st key go (Inr (go\<lparr>go_csv_quote := text\<rparr>))"
  "effect_of st key go (Inr (go\<lparr>go_csv_delimiter := text\<rparr>))"
  "effect_of st key go (Inr (go\<lparr>go_csv_escape := text\<rparr>))"
  by (simp_all add: effect_of_def option_effect_def)

lemma parameter_effect:
  "effect_of st key go (Inr (go\<lparr>go_parameters := AList.update key v (go_parameters go)\<rparr>))"
  "effect_of st key go (Inr
     (if b then go\<lparr>go_parameters := AList.update ''skip.header.line.count'' v (go_parameters go)\<rparr> else go))"
  unfolding effect_of_def option_effect_def by auto

lemma bucketing_effect: "effect_of st key go (apply_bucketing_option D st key v go)"
proof -
  have n: "parse_number_of_buckets D key v = Inr n \<Longrightarrow> n > 0" for n
    by (auto simp: parse_number_of_buckets_def split: if_splits option.splits)
  have "option_effect st key go (go\<lparr>go_bucket_columns := cs\<rparr>)" "n > 0 \<Longrightarrow> option_effect st key go (go\<lparr>go_number_of_buckets := n\<rparr>)"
    "\<forall>c\<in>set cs'. sorted_column c \<Longrightarrow> option_effect st key go (go\<lparr>go_sort_columns := cs'\<rparr>)"
    if "set_create_bucketed_tables st = Some True" for cs n cs'
    unfolding option_effect_def using that by blast+
  moreover have "\<forall>c\<in>set cs. sorted_column c" if "parse_sort_columns D key v = Inr cs" for cs
    using parse_sort_columns_sorted [OF that] by blast
  ultimately show ?thesis
    using n by (auto simp: apply_bucketing_option_def effect_of_def result_simps check_bucketed_tables_enabled_def
        split: if_splits)
qed

lemma apply_option_effect: "effect_of st key go (apply_option D st (key, v) go)"
  unfolding apply_option_def prod.case apply_dialect_option_def
  by (intro effect_steps same_effect parameter_effect bucketing_effect)

lemma apply_option_ok:
  assumes "apply_option D st option go = Inr go'" "options_ok st keys go" "fst option \<in> keys"
  shows "options_ok st keys go'"
proof -
  obtain key v where kv: "option = (key, v)" by fastforce
  with assms(1) have "option_effect st key go go'"
    using apply_option_effect [of st key go D v] by (simp add: effect_of_def)
  then show ?thesis
    unfolding option_effect_def
  proof (elim disjE conjE exE)
    fix k u
    assume "k \<in> {key, ''skip.header.line.count''}"
      and "go' = go\<lparr>go_parameters := AList.update k u (go_parameters go)\<rparr>"
    then have k: "k \<in> insert ''skip.header.line.count'' keys"
      and go': "fst ` set (go_parameters go') = insert k (fst ` set (go_parameters go))"
      "go_sort_columns go' = go_sort_columns go" "go_number_of_buckets go' = go_number_of_buckets go"
      "go_bucket_columns go' = go_bucket_columns go"
      using assms(3) kv by (auto simp: dom_update)
    from k assms(2) show ?thesis unfolding options_ok_def go' by (auto simp only: insert_subset)
  qed (use assms(2) in \<open>simp_all add: options_ok_def\<close>)
qed

lemma parse_create_table_options_ok:
  assumes "parse_create_table_options D st options = Inr go"
  shows "options_ok st (fst ` set options) go"
proof -
  from assms obtain evaluated where e: "evaluate_options ''CREATE TABLE'' options = Inr evaluated"
    and a: "apply_options D st evaluated new_create_options = Inr go"
    by (auto simp: parse_create_table_options_def result_simps)
  have "fst ` set evaluated = fst ` set options"
    using evaluate_options_fst [OF e] by (metis list.set_map)
  moreover have "options_ok st (fst ` set evaluated) new_create_options"
    by (simp add: options_ok_def new_create_options_def)
  then have "options_ok st (fst ` set evaluated) go"
    by (rule apply_options_induct [OF a]) (erule (1) apply_option_ok, simp)
  ultimately show ?thesis by simp
qed

lemma resolve_column_Inr:
  assumes "resolve_column D info partition_columns option name = Inr resolved"
  shows "resolved \<in> cd_name ` set (cti_columns info) \<and> CIEquals D resolved name \<and>
     \<not> names_column D partition_columns name"
proof -
  from assms obtain c where "find (\<lambda>c. CIEquals D (cd_name c) name) (physical (cti_columns info)) = Some c"
    and "resolved = cd_name c" "\<not> names_column D partition_columns name"
    by (auto simp: resolve_column_def split: if_splits option.splits)
  then show ?thesis by (fastforce simp: find_Some_iff physical_def in_set_conv_nth dest: nth_mem)
qed

lemma resolve_create_tableE:
  assumes "resolve_create_table D st info = Inr (go, partition_columns)"
  obtains go0 where "parse_create_table_options D st (cti_options info) = Inr go0"
    "resolve_partition_columns D info (cti_partition_keys info) [] = Inr partition_columns"
    "resolve_bucketing D info partition_columns go0 = Inr go"
    "\<forall>c\<in>set (cti_columns info). \<not> cd_generated c"
  using assms
  by (auto simp: resolve_create_table_def result_simps throw_if_unsupported_column_def split: if_splits)

lemma resolve_bucketing_same:
  assumes "resolve_bucketing D info partition_columns go0 = Inr go"
  shows "\<exists>bcs scs. go = go0\<lparr>go_bucket_columns := bcs, go_sort_columns := scs\<rparr>"
  using assms by (auto simp: resolve_bucketing_def result_simps split: if_splits)
    (metis GlueCreateTableOptions.surjective GlueCreateTableOptions.update_convs(7,9))

text \<open>A list of column names CREATE TABLE may cluster by.\<close>

definition clustering_columns :: "duckdb \<Rightarrow> create_table_info \<Rightarrow> string list \<Rightarrow> string list \<Rightarrow> bool" where
  "clustering_columns D info partition_columns names \<longleftrightarrow>
     distinct (map (Lower D) names) \<and> set names \<subseteq> cd_name ` set (cti_columns info) \<and>
     (\<forall>name\<in>set names. \<not> names_column D partition_columns name)"

context string_util
begin

lemma names_column_iff: "names_column D names name \<longleftrightarrow> Lower D name \<in> Lower D ` set names"
  by (auto simp: names_column_def CIEquals image_iff) metis

lemma FindColumn_image: "FindColumn D names name = Some i \<Longrightarrow> Lower D name \<in> Lower D ` set names"
  using FindColumn_Some [of names name i] by (metis CIEquals image_eqI nth_mem)

lemma resolve_partition_columns_ok:
  assumes "resolve_partition_columns D info keys pcs = Inr pcs'" "distinct (map (Lower D) pcs)"
    "Lower D ` set pcs \<subseteq> Lower D ` cd_name ` set (cti_columns info)"
  shows "distinct (map (Lower D) pcs') \<and> Lower D ` set pcs' \<subseteq> Lower D ` cd_name ` set (cti_columns info)"
  using assms
proof (induction keys arbitrary: pcs)
  case (Cons key keys)
  show ?case
  proof (cases key)
    case (ColumnRef q name)
    with Cons.prems(1) obtain i where rest: "resolve_partition_columns D info keys (pcs @ [name]) = Inr pcs'"
      and i: "FindColumn D (map cd_name (cti_columns info)) name = Some i"
      and new: "\<not> names_column D pcs name"
      by (auto simp: names_column_def split: if_splits)
    from new Cons.prems(2) have "distinct (map (Lower D) (pcs @ [name]))" by (simp add: names_column_iff)
    moreover have "Lower D ` set (pcs @ [name]) \<subseteq> Lower D ` cd_name ` set (cti_columns info)"
      using Cons.prems(3) FindColumn_image [OF i] by simp
    ultimately show ?thesis by (rule Cons.IH [OF rest])
  next
    case (OtherExpression expr)
    with Cons.prems(1) show ?thesis by simp
  qed
qed simp

lemma check_no_duplicates_distinct:
  "check_no_duplicates D option seen names = Inr () \<Longrightarrow> distinct (map (Lower D) seen)
     \<Longrightarrow> distinct (map (Lower D) (seen @ names))"
proof (induction names arbitrary: seen)
  case (Cons name names)
  from Cons.prems have "distinct (map (Lower D) (seen @ [name]))"
    and "check_no_duplicates D option (seen @ [name]) names = Inr ()"
    by (auto simp: names_column_iff split: if_splits)
  from Cons.IH [OF this(2,1)] show ?case by simp
qed simp

lemma resolved_clustering:
  assumes "list_all2 (\<lambda>name y. resolve_column D info partition_columns option name = Inr y) names resolved"
    "check_no_duplicates D option' [] resolved = Inr ()"
  shows "clustering_columns D info partition_columns resolved"
proof -
  have "y \<in> cd_name ` set (cti_columns info) \<and> \<not> names_column D partition_columns y" if y: "y \<in> set resolved" for y
  proof -
    from assms(1) y obtain name where "resolve_column D info partition_columns option name = Inr y"
      by (auto simp: list_all2_conv_all_nth in_set_conv_nth)
    from resolve_column_Inr [OF this] show ?thesis by (simp add: names_column_iff CIEquals)
  qed
  moreover have "distinct (map (Lower D) resolved)"
    using check_no_duplicates_distinct [OF assms(2)] by simp
  ultimately show ?thesis by (auto simp: clustering_columns_def)
qed

end

subsection \<open>Properties\<close>

text \<open>
  C37: CREATE TABLE makes a bucketed table only when the setting allows it, and then one Hive can
  have clustered: a positive number of buckets, and bucket and sort columns that are columns of
  the table, none of them a partition column and none named twice, the sort columns with a
  direction. Without bucket columns it has neither buckets nor sort columns.
\<close>

theorem bucketed_tables_are_clustered:
  assumes "string_util D" "resolve_create_table D st info = Inr (go, partition_columns)"
  shows "if go_bucket_columns go = [] then go_number_of_buckets go = -1 \<and> go_sort_columns go = []
    else set_create_bucketed_tables st = Some True \<and> go_number_of_buckets go > 0 \<and>
      clustering_columns D info partition_columns (go_bucket_columns go) \<and>
      clustering_columns D info partition_columns (map col_name (go_sort_columns go)) \<and>
      (\<forall>c\<in>set (go_sort_columns go). col_sort_order c \<noteq> UNSORTED)"
proof -
  obtain go0 where p: "parse_create_table_options D st (cti_options info) = Inr go0"
    and r: "resolve_bucketing D info partition_columns go0 = Inr go"
    by (rule resolve_create_tableE [OF assms(2)])
  note ok = parse_create_table_options_ok [OF p, unfolded options_ok_def]
  show ?thesis
  proof (cases "go_bucket_columns go0 = []")
    case True
    with r show ?thesis by (auto simp: resolve_bucketing_def split: if_splits)
  next
    case False
    with r obtain bcs scs where
      b: "list_all2 (\<lambda>x y. resolve_column D info partition_columns ''BucketColumns'' x = Inr y)
            (go_bucket_columns go0) bcs"
      and s: "list_all2 (\<lambda>c d. \<exists>name. resolve_column D info partition_columns ''SortColumns'' (col_name c) = Inr name
            \<and> c\<lparr>col_name := name\<rparr> = d) (go_sort_columns go0) scs"
      and d: "check_no_duplicates D ''BucketColumns'' [] bcs = Inr ()"
        "check_no_duplicates D ''SortColumns'' [] (map col_name scs) = Inr ()"
      and go: "go = go0\<lparr>go_bucket_columns := bcs, go_sort_columns := scs\<rparr>" "go_number_of_buckets go0 \<noteq> -1"
      by (auto simp: resolve_bucketing_def result_simps split: if_splits)
    have s': "list_all2 (\<lambda>x y. resolve_column D info partition_columns ''SortColumns'' x = Inr y)
        (map col_name (go_sort_columns go0)) (map col_name scs)"
      unfolding list_all2_map1 list_all2_map2 by (rule list_all2_mono [OF s]) auto
    have order: "\<forall>c\<in>set scs. col_sort_order c \<noteq> UNSORTED"
    proof
      fix c assume "c \<in> set scs"
      with s obtain c0 where "c0 \<in> set (go_sort_columns go0)" "col_sort_order c = col_sort_order c0"
        by (auto simp: list_all2_conv_all_nth in_set_conv_nth) (metis GlueColumn.select_convs(4) GlueColumn.surjective GlueColumn.update_convs(1))
      with ok show "col_sort_order c \<noteq> UNSORTED" by (simp add: sorted_column_def)
    qed
    from False b have "bcs \<noteq> []" by auto
    with False ok go order show ?thesis
      using string_util.resolved_clustering [OF assms(1) b d(1)] string_util.resolved_clustering [OF assms(1) s' d(2)]
      by simp
  qed
qed

definition sample_create :: "options \<Rightarrow> create_table_info" where
  "sample_create options = \<lparr> cti_table_name = ''t'',
     cti_columns = map (\<lambda>(n, t). \<lparr>cd_name = n, cd_type = t, cd_comment = NullV VARCHAR, cd_generated = False,
       cd_has_default = False\<rparr>) [(''id'', BIGINT), (''Name'', VARCHAR), (''day'', DATE)],
     cti_has_constraints = False, cti_options = options,
     cti_partition_keys = [ColumnRef False ''DAY''], cti_comment = NullV VARCHAR,
     cti_on_conflict = ERROR_ON_CONFLICT \<rparr>"

definition bucketing_allowed :: settings where
  "bucketing_allowed = sample_settings\<lparr>set_create_bucketed_tables := Some True\<rparr>"

definition sample_bucketing :: options where
  "sample_bucketing = [(''bucketcolumns'', Inr (ListV VARCHAR [StringV ''ID''])),
     (''NumberOfBuckets'', Inr (IntV INTEGER 4)),
     (''SortColumns'', Inr (ListV (STRUCT [(''Column'', VARCHAR), (''SortOrder'', INTEGER)])
        [StructV [(''Column'', VARCHAR), (''SortOrder'', INTEGER)] [StringV ''name'', IntV INTEGER 0]]))]"

lemma bucketed_tables_are_clustered_witness:
  "\<exists>go. resolve_create_table ascii_duckdb bucketing_allowed (sample_create sample_bucketing) = Inr (go, [''DAY'']) \<and>
     go_bucket_columns go = [''id''] \<and> go_number_of_buckets go > 0"
proof -
  let ?go = "new_create_options\<lparr>go_bucket_columns := [''id''], go_number_of_buckets := 4,
    go_sort_columns := [new_column\<lparr>col_name := ''Name'', col_sort_order := DESCENDING\<rparr>]\<rparr>"
  have r: "resolve_create_table ascii_duckdb bucketing_allowed (sample_create sample_bucketing) = Inr (?go, [''DAY''])"
    by code_simp
  from bucketed_tables_are_clustered [OF ascii_ok r] r show ?thesis by (auto split: if_splits)
qed

subsection \<open>The table reads back\<close>

text \<open>Everything CREATE TABLE says about a table, as it is found in another definition.\<close>

definition same_definition :: "GlueTableInfo \<Rightarrow> GlueTableInfo \<Rightarrow> bool" where
  "same_definition t t' \<longleftrightarrow> t_name t' = t_name t \<and> t_schema_name t' = t_schema_name t \<and>
     t_description t' = t_description t \<and> t_location t' = t_location t \<and>
     t_columns t' = t_columns t \<and> t_partition_keys t' = t_partition_keys t \<and>
     t_bucket_columns t' = t_bucket_columns t \<and> t_number_of_buckets t' = t_number_of_buckets t \<and>
     t_sort_columns t' = t_sort_columns t"

lemma keys_emplace [simp]: "fst ` set (emplace k v m) = insert k (fst ` set m)"
proof (cases "map_of m k")
  case (Some u)
  then have "k \<in> fst ` set m" by (metis map_of_eq_None_iff option.distinct(1))
  with Some show ?thesis by (auto simp: emplace_def)
qed (auto simp: emplace_def)

lemma keys_to_aws_map [simp]: "fst ` set (to_aws_map m) = fst ` set m"
proof -
  have "fst ` set (fold (\<lambda>(k, v). emplace k v) m acc) = fst ` set acc \<union> fst ` set m" for acc :: properties
  proof (induction m arbitrary: acc)
    case (Cons p m)
    then show ?case by (cases p) (simp del: fold.simps add: fold_simps)
  qed simp
  then show ?thesis by (simp add: to_aws_map_def)
qed

text \<open>The strings of a Hive table of each file format, as \<open>hive_storage\<close> writes them.\<close>

definition serde_of :: "HiveSerDe \<Rightarrow> string" where
  "serde_of s = (case s of
     SERDE_PARQUET \<Rightarrow> ''org.apache.hadoop.hive.ql.io.parquet.serde.ParquetHiveSerDe''
   | LAZY_SIMPLE \<Rightarrow> ''org.apache.hadoop.hive.serde2.lazy.LazySimpleSerDe''
   | OPEN_CSV \<Rightarrow> ''org.apache.hadoop.hive.serde2.OpenCSVSerde''
   | HIVE_JSON \<Rightarrow> ''org.apache.hive.hcatalog.data.JsonSerDe''
   | OPENX_JSON \<Rightarrow> ''org.openx.data.jsonserde.JsonSerDe''
   | SERDE_AVRO \<Rightarrow> ''org.apache.hadoop.hive.serde2.avro.AvroSerDe'')"

definition input_format_of :: "HiveFileFormat \<Rightarrow> string" where
  "input_format_of f = (case f of
     PARQUET \<Rightarrow> ''org.apache.hadoop.hive.ql.io.parquet.MapredParquetInputFormat''
   | CSV \<Rightarrow> ''org.apache.hadoop.mapred.TextInputFormat''
   | JSON \<Rightarrow> ''org.apache.hadoop.mapred.TextInputFormat''
   | AVRO \<Rightarrow> ''org.apache.hadoop.hive.ql.io.avro.AvroContainerInputFormat'')"

lemma lower_serde_of:
  "map ascii_lower (serde_of SERDE_PARQUET) = ''org.apache.hadoop.hive.ql.io.parquet.serde.parquethiveserde''"
  "map ascii_lower (serde_of LAZY_SIMPLE) = ''org.apache.hadoop.hive.serde2.lazy.lazysimpleserde''"
  "map ascii_lower (serde_of OPEN_CSV) = ''org.apache.hadoop.hive.serde2.opencsvserde''"
  "map ascii_lower (serde_of HIVE_JSON) = ''org.apache.hive.hcatalog.data.jsonserde''"
  "map ascii_lower (serde_of OPENX_JSON) = ''org.openx.data.jsonserde.jsonserde''"
  "map ascii_lower (serde_of SERDE_AVRO) = ''org.apache.hadoop.hive.serde2.avro.avroserde''"
  by code_simp+

lemma lower_input_format_of:
  "map ascii_lower (input_format_of PARQUET) = ''org.apache.hadoop.hive.ql.io.parquet.mapredparquetinputformat''"
  "map ascii_lower (input_format_of CSV) = ''org.apache.hadoop.mapred.textinputformat''"
  "map ascii_lower (input_format_of JSON) = ''org.apache.hadoop.mapred.textinputformat''"
  "map ascii_lower (input_format_of AVRO) = ''org.apache.hadoop.hive.ql.io.avro.avrocontainerinputformat''"
  by code_simp+

context string_util
begin

lemma get_serde_of: "t_serde_library t = serde_of s \<Longrightarrow> get_serde D t = Inr s"
  by (cases s; simp add: get_serde_def Lower lower_serde_of Contains contains_sublist [symmetric] Let_def)

lemma input_format_of_Hive: "format_from_input_format D (input_format_of f) = UNKNOWN"
  by (cases f; simp add: format_from_input_format_def Lower lower_input_format_of StartsWith after_last_def Let_def)

lemma input_format_writable:
  "t_input_format t = input_format_of f \<Longrightarrow> is_hive fmt \<Longrightarrow> is_writable D fmt t f"
  by (cases f; simp add: is_writable_def Lower lower_input_format_of Let_def)

lemma unlabelled_format:
  assumes "\<forall>k\<in>fst ` set (t_parameters t). \<not> is_format_parameter D k"
  shows "format_from_parameters D t = UNKNOWN"
proof -
  have none: "get_parameter D t key = []" if "\<And>k. CIEquals D k key \<Longrightarrow> is_format_parameter D k" for key
  proof -
    have "find (\<lambda>e. CIEquals D (fst e) key) (t_parameters t) = None"
      using assms that by (auto simp: find_None_iff)
    then show ?thesis by (simp add: get_parameter_def)
  qed
  have "get_parameter D t ''table_type'' = []" "get_parameter D t ''spark.sql.sources.provider'' = []"
    "get_parameter D t ''metadata_location'' = []"
    by (rule none, simp add: is_format_parameter_def)+
  then show ?thesis
    by (simp add: format_from_parameters_def get_metadata_location_def Lower Upper Let_def)
qed

lemma written_keys_unlabelled:
  "k \<in> {''skip.header.line.count'', ''classification'', ''delimiter'', ''EXTERNAL'', ''comment''}
     \<Longrightarrow> \<not> is_format_parameter D k"
  by (auto simp: is_format_parameter_def CIEquals Lower ascii_lower_def)

end

lemma resolved_options:
  assumes "resolve_create_table D st info = Inr (go, partition_columns)"
  shows "fst ` set (go_parameters go) \<subseteq> insert ''skip.header.line.count'' (fst ` set (cti_options info))"
    "\<forall>c\<in>set (go_sort_columns go). sorted_column c"
proof -
  obtain go0 where p: "parse_create_table_options D st (cti_options info) = Inr go0"
    and r: "resolve_bucketing D info partition_columns go0 = Inr go"
    by (rule resolve_create_tableE [OF assms])
  note ok = parse_create_table_options_ok [OF p, unfolded options_ok_def]
  have "go_parameters go = go_parameters go0"
    using r by (auto simp: resolve_bucketing_def result_simps split: if_splits)
  with ok show "fst ` set (go_parameters go) \<subseteq> insert ''skip.header.line.count'' (fst ` set (cti_options info))"
    by simp
  have named: "sorted_column c \<Longrightarrow> sorted_column (c\<lparr>col_name := name\<rparr>)" for c name
    by (cases c) (simp add: sorted_column_def new_column_def)
  show "\<forall>c\<in>set (go_sort_columns go). sorted_column c"
  proof
    fix c assume c: "c \<in> set (go_sort_columns go)"
    have "c \<in> set (go_sort_columns go0) \<or> (\<exists>c0\<in>set (go_sort_columns go0). \<exists>name. c = c0\<lparr>col_name := name\<rparr>)"
    proof (cases "go_bucket_columns go0 = []")
      case True
      with r c show ?thesis by (auto simp: resolve_bucketing_def split: if_splits)
    next
      case False
      then obtain scs where "collect (\<lambda>c. and_then (resolve_column D info partition_columns ''SortColumns'' (col_name c))
            (\<lambda>name. Inr (c\<lparr>col_name := name\<rparr>))) (go_sort_columns go0) = Inr scs" "go_sort_columns go = scs"
        using r by (auto simp: resolve_bucketing_def and_then_Inr_iff split: if_splits)
      with collect_member [OF this(1)] c show ?thesis by (fastforce simp: and_then_Inr_iff)
    qed
    with ok named show "sorted_column c" by auto
  qed
qed

lemma glue_column_of_plain: "glue_column_of D c = Inr g \<Longrightarrow> col_sort_order g = UNSORTED"
  by (auto simp: glue_column_of_def result_simps new_column_def)

lemma table_definition_fields:
  assumes "table_definition D info go partition_columns schema_name location = Inr t"
  shows "\<exists>columns partition_keys. t = new_table\<lparr>
       t_name := cti_table_name info, t_schema_name := schema_name,
       t_description := description_of D info go, t_location := location,
       t_serde_library := (if go_format go = CSV then fst (csv_serde go) else []),
       t_serde_parameters := (if go_format go = CSV then snd (csv_serde go) else []),
       t_columns := columns, t_partition_keys := partition_keys,
       t_bucket_columns := go_bucket_columns go, t_number_of_buckets := go_number_of_buckets go,
       t_sort_columns := go_sort_columns go, t_parameters := go_parameters go,
       t_file_format := go_format go\<rparr> \<and>
     columns \<noteq> [] \<and> (\<forall>c\<in>set (columns @ partition_keys). col_sort_order c = UNSORTED) \<and>
     collect (glue_column_of D)
       (filter (\<lambda>c. \<not> names_column D partition_columns (cd_name c)) (physical (cti_columns info))) = Inr columns \<and>
     collect (partition_key_of D info) partition_columns = Inr partition_keys"
proof -
  from assms obtain columns partition_keys where
    c: "collect (glue_column_of D)
       (filter (\<lambda>c. \<not> names_column D partition_columns (cd_name c)) (physical (cti_columns info))) = Inr columns"
    and k: "collect (partition_key_of D info) partition_columns = Inr partition_keys"
    and ne: "columns \<noteq> []"
    by (auto simp: table_definition_def and_then_Inr_iff split: if_splits)
  have "\<forall>c\<in>set columns. col_sort_order c = UNSORTED" 
    using collect_member [OF c] glue_column_of_plain by blast
  moreover have "\<forall>c\<in>set partition_keys. col_sort_order c = UNSORTED"
    using collect_member [OF k] glue_column_of_plain
    by (fastforce simp: partition_key_of_def split: option.splits)
  ultimately show ?thesis
    using assms c k ne by (intro exI [of _ columns] exI [of _ partition_keys]) (auto simp: table_definition_def)
qed

lemma to_columns_of_plain:
  "\<forall>c\<in>set cs. col_sort_order c = UNSORTED \<Longrightarrow> to_columns (to_aws_columns cs) = cs"
  by (induction cs) (auto simp: to_columns_def to_aws_columns_def new_column_def)

lemma sort_columns_back:
  "\<forall>c\<in>set cs. sorted_column c \<Longrightarrow>
     map (\<lambda>(name, order). new_column\<lparr>col_name := name, col_sort_order := (if order = 0 then DESCENDING else ASCENDING)\<rparr>)
       (map (\<lambda>c. (col_name c, if col_sort_order c = DESCENDING then (0::int) else 1)) cs) = cs"
proof (induction cs)
  case (Cons c cs)
  then show ?case by (cases "col_sort_order c") (auto simp: sorted_column_def)
qed simp

text \<open>What \<open>CreateHiveTable\<close> stores for a table: the strings of its format and the parameters it adds.\<close>

context string_util
begin

lemma hive_storage_of:
  assumes "t_file_format t = CSV \<Longrightarrow> \<exists>go. t_serde_library t = fst (csv_serde go) \<and> t_serde_parameters t = snd (csv_serde go)"
  shows "\<exists>serde d ps. hive_storage D t = Inr (d, ps) \<and> sd_serde_library d = serde_of serde \<and>
    hive_serde_file_format serde = t_file_format t \<and> sd_input_format d = input_format_of (t_file_format t) \<and>
    fst ` set ps \<subseteq> {''classification'', ''delimiter''} \<union> fst ` set (t_parameters t)"
proof (cases "t_file_format t")
  case CSV
  with assms obtain go where go: "t_serde_library t = fst (csv_serde go)" "t_serde_parameters t = snd (csv_serde go)"
    by blast
  show ?thesis
  proof (cases "go_csv_quote go = [] \<and> go_csv_escape go = []")
    case True
    with go have "t_serde_library t = serde_of LAZY_SIMPLE" by (simp add: csv_serde_def serde_of_def)
    with True go CSV get_serde_of [OF this] show ?thesis
      by (intro exI [of _ LAZY_SIMPLE])
        (auto simp: hive_storage_def csv_serde_def serde_parameter_at_def empty_descriptor_def input_format_of_def Let_def)
  next
    case False
    with go have "t_serde_library t = serde_of OPEN_CSV" by (auto simp: csv_serde_def serde_of_def Let_def)
    with False go CSV get_serde_of [OF this] show ?thesis
      by (intro exI [of _ OPEN_CSV])
        (auto simp: hive_storage_def csv_serde_def serde_parameter_at_def empty_descriptor_def input_format_of_def Let_def)
  qed
next
  case PARQUET
  then show ?thesis by (intro exI [of _ SERDE_PARQUET])
      (simp add: hive_storage_def empty_descriptor_def serde_of_def input_format_of_def Let_def, blast)
next
  case JSON
  then show ?thesis by (intro exI [of _ HIVE_JSON])
      (simp add: hive_storage_def empty_descriptor_def serde_of_def input_format_of_def Let_def, blast)
next
  case AVRO
  then show ?thesis by (intro exI [of _ SERDE_AVRO])
      (simp add: hive_storage_def empty_descriptor_def serde_of_def input_format_of_def Let_def, blast)
qed

end


definition sample_csv :: options where
  "sample_csv = [(''format'', Inr (StringV ''csv'')), (''delimiter'', Inr (StringV '';''))]"


text \<open>
  CREATE TABLE does not guard the parameters a table's format is read from, which ALTER TABLE
  does: WITH (table_type = 'iceberg'), in any case, creates a Hive table that reads back as an
  Iceberg table, which the extension then refuses to write to.
\<close>

theorem create_table_relabels:
  assumes "string_util D" "resolve_create_table D st info = Inr (go, partition_columns)"
    "table_definition D info go partition_columns schema_name location = Inr t"
    "cti_options info = [(''table_type'', Inr v)]" "string_value D v = Inr label" "Upper D label = ''ICEBERG''"
    "hive_storage D t = Inr (descriptor, parameters)"
    "table_input_of stored = hive_table_input t descriptor parameters"
  shows "check_table_property_changeable D ''table_type'' \<noteq> Inr () \<and>
    format (detect_format D (to_table_info D stored schema_name)) = ICEBERG \<and>
    \<not> is_writable D (detect_format D (to_table_info D stored schema_name)) (to_table_info D stored schema_name) f"
proof -
  have other: "CIEquals D ''table_type'' key \<longleftrightarrow> map ascii_lower ''table_type'' = map ascii_lower key"
    "CIEquals D key ''table_type'' \<longleftrightarrow> map ascii_lower key = map ascii_lower ''table_type''" for key
    by (simp_all add: string_util.CIEquals [OF assms(1)] string_util.Lower [OF assms(1)])
  obtain go0 where p: "parse_create_table_options D st (cti_options info) = Inr go0"
    and r: "resolve_bucketing D info partition_columns go0 = Inr go"
    by (rule resolve_create_tableE [OF assms(2)])
  from p assms(4,5) have "go_parameters go0 = [(''table_type'', label)]" "go_format go0 = PARQUET"
    by (auto simp: parse_create_table_options_def evaluate_options_def evaluate_option_def and_then_Inr_iff
        apply_option_def other ascii_lower_def is_bucketing_option_def bucketing_option_for_def
        other_engine_option_for_def lookup_spelling_def new_create_options_def split: if_splits)
  moreover have "go_parameters go = go_parameters go0" "go_format go = go_format go0"
    using r by (auto simp: resolve_bucketing_def result_simps split: if_splits)
  ultimately have t: "t_parameters t = [(''table_type'', label)]" "t_file_format t = PARQUET"
    using table_definition_fields [OF assms(3)] by auto
  have "parameters = [(''table_type'', label), (''classification'', ''parquet'')]"
    using assms(7) by (auto simp: hive_storage_def t to_aws_map_def emplace_def)
  moreover have "ti_parameters (table_input_of stored) = ti_parameters (hive_table_input t descriptor parameters)"
    using assms(8) by simp
  ultimately have "\<exists>rest. tb_parameters stored = Some ((''table_type'', label) # rest)"
    by (simp add: table_input_of_def hive_table_input_def emplace_def Let_def)
  then have "get_parameter D (to_table_info D stored schema_name) ''table_type'' = label"
    by (auto simp: get_parameter_def to_table_info_def opt_list_def other Let_def new_table_def)
  then have i: "format (detect_format D (to_table_info D stored schema_name)) = ICEBERG"
    by (simp add: detect_format_def format_from_parameters_def assms(6))
  moreover have "check_table_property_changeable D ''table_type'' \<noteq> Inr ()"
    by (simp add: check_table_property_changeable_def is_format_parameter_def other)
  ultimately show ?thesis by (simp add: is_writable_def is_hive_def)
qed

lemma create_table_relabels_witness:
  "\<exists>t descriptor parameters. hive_storage ascii_duckdb t = Inr (descriptor, parameters) \<and>
     (\<exists>stored. table_input_of stored = hive_table_input t descriptor parameters \<and>
       format (detect_format ascii_duckdb (to_table_info ascii_duckdb stored ''db'')) = ICEBERG)"
proof -
  let ?info = "sample_create [(''table_type'', Inr (StringV ''Iceberg''))]"
  let ?go = "new_create_options\<lparr>go_parameters := [(''table_type'', ''Iceberg'')]\<rparr>"
  have r: "resolve_create_table ascii_duckdb sample_settings ?info = Inr (?go, [''DAY''])" by code_simp
  have "case table_definition ascii_duckdb ?info ?go [''DAY''] ''db'' ''s3://lake/t'' of
      Inl e \<Rightarrow> False | Inr t \<Rightarrow> (case hive_storage ascii_duckdb t of Inl e \<Rightarrow> False | Inr q \<Rightarrow> True)" by code_simp
  then obtain t descriptor parameters where
    t: "table_definition ascii_duckdb ?info ?go [''DAY''] ''db'' ''s3://lake/t'' = Inr t"
    and h: "hive_storage ascii_duckdb t = Inr (descriptor, parameters)"
    by (auto split: sum.splits)
  define i where "i = hive_table_input t descriptor parameters"
  obtain stored where s: "table_input_of stored = i"
  proof
    show "table_input_of ((blank_table ''db'' (ti_name i))\<lparr>tb_description := ti_description i, tb_owner := ti_owner i,
       tb_last_access_time := ti_last_access_time i, tb_last_analyzed_time := ti_last_analyzed_time i,
       tb_retention := ti_retention i, tb_storage_descriptor := ti_storage_descriptor i,
       tb_partition_keys := ti_partition_keys i, tb_view_original_text := ti_view_original_text i,
       tb_view_expanded_text := ti_view_expanded_text i, tb_table_type := ti_table_type i,
       tb_parameters := ti_parameters i, tb_target_table := ti_target_table i\<rparr>) = i"
      by (simp add: table_input_of_def blank_table_def)
  qed
  have v: "string_value ascii_duckdb (StringV ''Iceberg'') = Inr ''Iceberg''"
    "Upper ascii_duckdb ''Iceberg'' = ''ICEBERG''" "cti_options ?info = [(''table_type'', Inr (StringV ''Iceberg''))]"
    by code_simp+
  from create_table_relabels [OF ascii_ok r t v(3,1,2) h s [unfolded i_def]] h s [unfolded i_def]
  show ?thesis by blast
qed

lemma glue_column_of_name: "glue_column_of D c = Inr g \<Longrightarrow> col_name g = cd_name c"
  by (auto simp: glue_column_of_def and_then_Inr_iff new_column_def)

lemma collect_glue_columns: "collect (glue_column_of D) cs = Inr gs \<Longrightarrow> map col_name gs = map cd_name cs"
  by (induction cs arbitrary: gs) (auto simp: and_then_Inr_iff dest: glue_column_of_name)

context string_util
begin

lemma partition_key_of_name:
  assumes "partition_key_of D info name = Inr g"
  shows "col_name g \<in> cd_name ` set (cti_columns info) \<and> Lower D (col_name g) = Lower D name"
proof -
  from assms obtain i where i: "FindColumn D (map cd_name (cti_columns info)) name = Some i"
    and g: "glue_column_of D (cti_columns info ! i) = Inr g"
    by (auto simp: partition_key_of_def split: option.splits)
  from FindColumn_Some [OF i] glue_column_of_name [OF g] show ?thesis by (auto simp: CIEquals)
qed

lemma collect_partition_keys:
  "collect (partition_key_of D info) names = Inr gs \<Longrightarrow>
     map (Lower D) (map col_name gs) = map (Lower D) names \<and> set (map col_name gs) \<subseteq> cd_name ` set (cti_columns info)"
proof (induction names arbitrary: gs)
  case (Cons name names)
  then obtain g gs' where "gs = g # gs'" "partition_key_of D info name = Inr g"
    "collect (partition_key_of D info) names = Inr gs'" by (auto simp: and_then_Inr_iff)
  with Cons.IH partition_key_of_name [of info name g] show ?case by simp
qed simp

lemma columns_split:
  assumes "map (Lower D) keys = map (Lower D) pcs" "set keys \<subseteq> set names" "distinct (map (Lower D) pcs)"
    "distinct (map (Lower D) names)" "Lower D ` set pcs \<subseteq> Lower D ` set names"
  shows "distinct (map (Lower D) (filter (\<lambda>n. \<not> names_column D pcs n) names @ keys)) \<and>
    set (filter (\<lambda>n. \<not> names_column D pcs n) names @ keys) = set names"
proof -
  from assms(1) have k: "Lower D ` set keys = Lower D ` set pcs" by (metis list.set_map)
  have "n \<in> set keys" if n: "n \<in> set names" "names_column D pcs n" for n
  proof -
    from n(2) k obtain m where "m \<in> set keys" "Lower D n = Lower D m" by (auto simp: names_column_iff)
    with n(1) assms(2,4) show ?thesis by (metis distinct_map inj_onD subsetD)
  qed
  moreover have "distinct (map (Lower D) (filter (\<lambda>n. \<not> names_column D pcs n) names))"
    by (rule distinct_map_filter [OF assms(4)])
  ultimately show ?thesis
    using assms(1-3) k by (auto simp: names_column_iff)
qed

end

text \<open>
  CREATE TABLE stores every column of the statement exactly once: the columns PARTITIONED BY
  names as partition keys, in its order, the others as data columns in theirs, each under the
  name it was declared with. At least one of them is a data column.
\<close>

theorem columns_stored_once:
  assumes "string_util D" "resolve_create_table D st info = Inr (go, partition_columns)"
    "table_definition D info go partition_columns schema_name location = Inr t"
    "distinct (map (Lower D \<circ> cd_name) (cti_columns info))"
  shows "t_columns t \<noteq> [] \<and>
    map col_name (t_columns t) = filter (\<lambda>n. \<not> names_column D partition_columns n) (map cd_name (cti_columns info)) \<and>
    map (Lower D \<circ> col_name) (t_partition_keys t) = map (Lower D) partition_columns \<and>
    distinct (map (Lower D \<circ> col_name) (t_columns t @ t_partition_keys t)) \<and>
    set (map col_name (t_columns t @ t_partition_keys t)) = set (map cd_name (cti_columns info))"
proof -
  obtain columns partition_keys where t: "t_columns t = columns" "t_partition_keys t = partition_keys" "columns \<noteq> []"
    and c: "collect (glue_column_of D)
       (filter (\<lambda>c. \<not> names_column D partition_columns (cd_name c)) (physical (cti_columns info))) = Inr columns"
    and k: "collect (partition_key_of D info) partition_columns = Inr partition_keys"
    using table_definition_fields [OF assms(3)] by auto
  obtain p: "resolve_partition_columns D info (cti_partition_keys info) [] = Inr partition_columns"
    and "\<forall>c\<in>set (cti_columns info). \<not> cd_generated c"
    by (rule resolve_create_tableE [OF assms(2)])
  then have columns: "map col_name columns = filter (\<lambda>n. \<not> names_column D partition_columns n) (map cd_name (cti_columns info))"
    using collect_glue_columns [OF c] by (simp add: physical_def filter_map comp_def filter_id_conv)
  note keys = string_util.collect_partition_keys [OF assms(1) k]
  have pcs: "distinct (map (Lower D) partition_columns)"
    "Lower D ` set partition_columns \<subseteq> Lower D ` set (map cd_name (cti_columns info))"
    using string_util.resolve_partition_columns_ok [OF assms(1) p] by simp_all
  have names: "distinct (map (Lower D) (map cd_name (cti_columns info)))" using assms(4) by simp
  from string_util.columns_split [OF assms(1) conjunct1 [OF keys] _ pcs(1) names pcs(2)] keys columns t
  show ?thesis by (simp flip: map_map add: image_image)
qed

lemma columns_stored_once_witness:
  "\<exists>t. table_definition ascii_duckdb (sample_create []) new_create_options [''DAY''] ''db'' ''s3://lake/t'' = Inr t \<and>
     map col_name (t_columns t) = [''id'', ''Name'']"
proof -
  have r: "resolve_create_table ascii_duckdb sample_settings (sample_create []) = Inr (new_create_options, [''DAY''])"
    by code_simp
  have "case table_definition ascii_duckdb (sample_create []) new_create_options [''DAY''] ''db'' ''s3://lake/t'' of
      Inl e \<Rightarrow> False | Inr t \<Rightarrow> True" by code_simp
  then obtain t where
    t: "table_definition ascii_duckdb (sample_create []) new_create_options [''DAY''] ''db'' ''s3://lake/t'' = Inr t"
    by (auto split: sum.splits)
  have d: "distinct (map (Lower ascii_duckdb \<circ> cd_name) (cti_columns (sample_create [])))" by code_simp
  have "filter (\<lambda>n. \<not> names_column ascii_duckdb [''DAY''] n) (map cd_name (cti_columns (sample_create []))) = [''id'', ''Name'']"
    by code_simp
  with columns_stored_once [OF ascii_ok r t d] t show ?thesis by metis
qed

end
