(* ===== verification/Hive_Scan.thy ===== *)
theory Hive_Scan
  imports Glue_Service
begin

text \<open>
  \<open>HiveScanInfo\<close> of src/planning/hive_multi_file_reader.cpp, what a Hive scan knows before a data file
  is opened, with the partitions it loads on first use, the checks of a partition against the
  table, and which listed files are data files.
\<close>

subsection \<open>State\<close>

text \<open>
  \<open>hs_table\<close> is the definition of the Glue table the scan reads, \<open>None\<close> for a hive_scan over a location;
  \<open>hs_partitions\<close> is \<open>None\<close> until they are loaded.
\<close>

record HiveScanInfo =
  hs_catalog_name :: string
  hs_database_name :: string
  hs_table_name :: string
  hs_table :: "GlueTableInfo option"
  hs_root_location :: string
  hs_names :: "string list"
  hs_types :: "LogicalType list"
  hs_file_format :: HiveFileFormat
  hs_csv_options :: HiveCSVOptions
  hs_json_options :: HiveJSONOptions
  hs_partition_keys :: "string list"
  hs_file_partitions :: "(string \<times> nat) list"
  hs_partitions :: "GluePartitionInfo list option"

definition get_partition_key_index :: "duckdb \<Rightarrow> HiveScanInfo \<Rightarrow> string \<Rightarrow> nat option" where
  "get_partition_key_index D info name = find_index (\<lambda>key. CIEquals D key name) (hs_partition_keys info)"

definition describe_scan :: "HiveScanInfo \<Rightarrow> string" where
  "describe_scan info =
     (if hs_database_name info = [] then hs_table_name info
      else hs_database_name info @ ''.'' @ hs_table_name info)"

subsection \<open>Partitions\<close>

text \<open>\<open>fetched\<close> is what \<open>GetTablePartitions\<close> gives when the partitions have to be loaded.\<close>

definition scan_partitions ::
  "GluePartitionInfo list result \<Rightarrow> (HiveScanInfo, GluePartitionInfo list) comp" where
  "scan_partitions fetched info =
     (case hs_partitions info of
        Some ps \<Rightarrow> (Inr ps, info)
      | None \<Rightarrow>
          if hs_partition_keys info = [] \<or> hs_catalog_name info = []
          then (Inr [], info\<lparr>hs_partitions := Some []\<rparr>)
          else case fetched of
            Inl e \<Rightarrow> (Inl e, info)
          | Inr ps \<Rightarrow> (Inr ps, info\<lparr>hs_partitions := Some ps\<rparr>))"

definition partitions_loaded :: "HiveScanInfo \<Rightarrow> bool" where
  "partitions_loaded info \<longleftrightarrow> hs_partitions info \<noteq> None"

definition set_partitions :: "GluePartitionInfo list \<Rightarrow> HiveScanInfo \<Rightarrow> HiveScanInfo" where
  "set_partitions ps info = info\<lparr>hs_partitions := Some ps\<rparr>"

definition find_partition_index_of_file :: "HiveScanInfo \<Rightarrow> string \<Rightarrow> nat option" where
  "find_partition_index_of_file info path = map_of (hs_file_partitions info) path"

definition get_partition_index_of_file :: "HiveScanInfo \<Rightarrow> string \<Rightarrow> nat result" where
  "get_partition_index_of_file info path = (case find_partition_index_of_file info path of
     None \<Rightarrow> Inl (InternalException ''data file does not belong to any Glue partition''
               [hs_database_name info, hs_table_name info, path])
   | Some i \<Rightarrow> Inr i)"

definition get_partition_of_file :: "HiveScanInfo \<Rightarrow> string \<Rightarrow> GluePartitionInfo result" where
  "get_partition_of_file info path =
     and_then (get_partition_index_of_file info path) (\<lambda>i. Inr (opt_list (hs_partitions info) ! i))"

text \<open>\<open>GetTablePartitions\<close>: the metadata cache of the transaction in front of \<open>GlueAPI::GetPartitions\<close>.\<close>

definition partition_slots :: "nat \<Rightarrow> 'w session \<Rightarrow> GluePartitionInfo list slots" where
  "partition_slots cid s = (case s_caches s cid of None \<Rightarrow> new_slots | Some c \<Rightarrow> gc_partitions c)"

definition put_partition_slots :: "nat \<Rightarrow> GluePartitionInfo list slots \<Rightarrow> 'w session \<Rightarrow> 'w session" where
  "put_partition_slots cid st s =
     s\<lparr>s_caches := (s_caches s)(cid \<mapsto>
         (case s_caches s cid of None \<Rightarrow> new_cache | Some c \<Rightarrow> c)\<lparr>gc_partitions := st\<rparr>)\<rparr>"

subsection \<open>The storage of a partition\<close>

text \<open>Equality of \<open>unordered_map\<close>s.\<close>

definition same_properties :: "properties \<Rightarrow> properties \<Rightarrow> bool" where
  "same_properties m m' \<longleftrightarrow>
     (\<forall>(k, v)\<in>set m. map_of m' k = map_of m k) \<and> (\<forall>(k, v)\<in>set m'. map_of m k = map_of m' k)"

definition partition_storage :: "GlueTableInfo \<Rightarrow> GluePartitionInfo \<Rightarrow> GlueTableInfo" where
  "partition_storage t p =
     t\<lparr>t_input_format := (if p_input_format p = [] then t_input_format t else p_input_format p),
       t_serde_library := (if p_serde_library p = [] then t_serde_library t else p_serde_library p),
       t_serde_parameters := (if p_serde_library p = [] then t_serde_parameters t else p_serde_parameters p)\<rparr>"

definition reads_alike :: "duckdb \<Rightarrow> GlueTableInfo \<Rightarrow> GluePartitionInfo \<Rightarrow> bool" where
  "reads_alike D t p \<longleftrightarrow>
     CIEquals D (t_input_format (partition_storage t p)) (t_input_format t) \<and>
     CIEquals D (t_serde_library (partition_storage t p)) (t_serde_library t) \<and>
     (p_serde_library p = [] \<or> same_properties (p_serde_parameters p) (t_serde_parameters t))"

text \<open>The body of the try block: what the partition is stored as when that is not what the scan reads.\<close>

definition other_storage :: "duckdb \<Rightarrow> HiveScanInfo \<Rightarrow> GlueTableInfo \<Rightarrow> string result" where
  "other_storage D info st =
     and_then (get_file_format D st) (\<lambda>f.
     and_then (if is_text_file_format f then check_text_serde_supported D st f else Inr ()) (\<lambda>_.
       if f \<noteq> hs_file_format info then Inr (hive_file_format_to_string f)
       else if f = CSV
       then and_then (get_csv_options D st) (\<lambda>o'.
              Inr (if csv_options_eq o' (hs_csv_options info) then [] else ''csv with another dialect''))
       else if f = JSON
       then and_then (get_json_options D st) (\<lambda>o'.
              Inr (if ignore_errors o' = ignore_errors (hs_json_options info) then []
                   else ''json with other SerDe properties''))
       else Inr []))"

definition stored_as :: "duckdb \<Rightarrow> HiveScanInfo \<Rightarrow> GlueTableInfo \<Rightarrow> string result" where
  "stored_as D info st =
     (if \<not> is_hive (detect_format D st) then Inr (describe_format (detect_format D st) st)
      else case other_storage D info st of
        Inl (NotImplementedException what args) \<Rightarrow> Inr ''an unsupported format''
      | r \<Rightarrow> r)"

text \<open>The partition as \<open>key=value\<close> texts.\<close>

definition partition_spec :: "HiveScanInfo \<Rightarrow> GluePartitionInfo \<Rightarrow> string list" where
  "partition_spec info p = map (\<lambda>(k, v). k @ ''='' @ v) (zip (hs_partition_keys info) (p_values p))"

text \<open>\<open>PartitionStorageMismatch\<close>: the error, \<open>None\<close> when the partition reads like the table.\<close>

definition partition_storage_mismatch :: "duckdb \<Rightarrow> HiveScanInfo \<Rightarrow> GluePartitionInfo \<Rightarrow> exn option result" where
  "partition_storage_mismatch D info p = (case hs_table info of
     None \<Rightarrow> Inr None
   | Some t \<Rightarrow>
       if reads_alike D t p then Inr None
       else and_then (stored_as D info (partition_storage t p)) (\<lambda>other.
         Inr (if other = [] then None
              else Some (NotImplementedException ''Partition of Hive table is stored in a format other than the table''
                     (partition_spec info p @ [describe_scan info, other, hive_file_format_to_string (hs_file_format info)])))))"

definition verify_consistent_partition_serde :: "duckdb \<Rightarrow> HiveScanInfo \<Rightarrow> GluePartitionInfo \<Rightarrow> unit result" where
  "verify_consistent_partition_serde D info p =
     and_then (partition_storage_mismatch D info p) (\<lambda>mismatch.
       case mismatch of None \<Rightarrow> Inr () | Some e \<Rightarrow> Inl e)"

subsection \<open>The columns of a partition\<close>

definition declared_column :: "duckdb \<Rightarrow> HiveScanInfo \<Rightarrow> GluePartitionInfo \<Rightarrow> nat \<Rightarrow> GlueColumn option" where
  "declared_column D info p i =
     (if hs_file_format info = CSV
      then (if i < length (p_partition_columns p) then Some (p_partition_columns p ! i) else None)
      else find (\<lambda>c. CIEquals D (col_name c) (hs_names info ! i)) (p_partition_columns p))"

definition check_partition_column ::
  "duckdb \<Rightarrow> HiveScanInfo \<Rightarrow> GlueTableInfo \<Rightarrow> GluePartitionInfo \<Rightarrow> nat \<Rightarrow> unit result" where
  "check_partition_column D info t p i = (case declared_column D info p i of
     None \<Rightarrow> Inr ()
   | Some c \<Rightarrow> (case to_logical_type D (Lower D (col_type c)) of
       Inl e \<Rightarrow> Inr ()
     | Inr ty \<Rightarrow>
         check (can_read_partition_type_as D ty (hs_types info ! i))
           (InvalidInputException ''Partition of Hive table declares column with another type''
              (partition_spec info p @ [describe_scan info, col_name c, col_type c, hs_names info ! i,
                 (if i < length (t_columns t) then col_type (t_columns t ! i)
                  else TypeToString D (hs_types info ! i))]))))"

definition check_partition_columns ::
  "duckdb \<Rightarrow> HiveScanInfo \<Rightarrow> GluePartitionInfo \<Rightarrow> nat list \<Rightarrow> unit result" where
  "check_partition_columns D info p column_indexes = (case hs_table info of
     None \<Rightarrow> Inr ()
   | Some t \<Rightarrow> if p_partition_columns p = [] then Inr ()
       else check_each (check_partition_column D info t p) column_indexes)"

subsection \<open>Data files\<close>

definition hidden_component :: "string \<Rightarrow> bool" where
  "hidden_component c \<longleftrightarrow> c = [] \<or> hd c = CHR ''_'' \<or> hd c = CHR ''.''"

definition is_data_file :: "duckdb \<Rightarrow> open_file \<Rightarrow> string \<Rightarrow> bool" where
  "is_data_file D file pre =
     (if \<not> StartsWith D (of_path file) pre then False
      else
        let parts = Split D (drop (length pre) (of_path file)) CHR ''/'' in
        if list_ex hidden_component parts then False
        else if parts = [] \<or> EndsWith D (last parts) ''_$folder$'' then False
        else (case of_size file of None \<Rightarrow> True | Some n \<Rightarrow> n > 0))"

definition cache_listings :: "settings \<Rightarrow> HiveScanInfo \<Rightarrow> bool" where
  "cache_listings st info \<longleftrightarrow> hs_catalog_name info \<noteq> [] \<and> set_cache_listings st = Some True"

text \<open>
  \<open>listing keep directory\<close> is what the file system lists below a directory, any depth, during the
  query: \<open>GetDirectoryListing\<close> asks it once per directory, or takes it from the connection's listings
  when \<open>keep\<close>.
\<close>

type_synonym listing = "bool \<Rightarrow> string \<Rightarrow> open_file list result"

definition list_data_files :: "duckdb \<Rightarrow> listing \<Rightarrow> bool \<Rightarrow> string \<Rightarrow> open_file list result" where
  "list_data_files D listing keep location =
     (let directory = RTrimChars D location ''/'' in
      if directory = [] then Inr []
      else and_then (listing keep directory) (\<lambda>files.
        Inr (filter (\<lambda>f. is_data_file D f (directory @ ''/'')) files)))"

end
