(* ===== verification/Hive_Listing.thy ===== *)
theory Hive_Listing
  imports Hive_Scan
begin

text \<open>
  \<open>HiveMultiFileList\<close> of src/planning/hive_multi_file_reader.cpp: the data files of a Hive table, listed
  lazily. The partitions to read are planned into listings of the table root or of batches of
  partition locations; each listed file is attributed to the partition of the deepest registered
  location that holds it. The listings of a batch run in parallel in the code and one after the
  other here; a listing is a function of its directory, so their order does not matter.
\<close>

subsection \<open>State\<close>

datatype listing_job = ListingJob (job_root: bool) (job_partitions: "nat list")

text \<open>
  \<open>fl_info\<close> is the shared \<open>HiveScanInfo\<close>; \<open>fl_partition_indexes\<close> is \<open>None\<close> for every partition.
\<close>

record file_list =
  fl_info :: HiveScanInfo
  fl_partition_indexes :: "nat list option"
  fl_planned :: bool
  fl_listing_jobs :: "listing_job list"
  fl_next_job :: nat
  fl_listed_files :: "string list"
  fl_expanded_files :: "open_file list"
  fl_all_files_expanded :: bool
  fl_partition_by_location :: "(string \<times> nat) list"
  fl_shared_locations :: "(nat \<times> nat list) list"
  fl_locations_built :: bool

definition new_file_list :: "HiveScanInfo \<Rightarrow> nat list option \<Rightarrow> file_list" where
  "new_file_list info indexes = \<lparr> fl_info = info, fl_partition_indexes = indexes, fl_planned = False,
     fl_listing_jobs = [], fl_next_job = 0, fl_listed_files = [], fl_expanded_files = [],
     fl_all_files_expanded = False, fl_partition_by_location = [], fl_shared_locations = [],
     fl_locations_built = False \<rparr>"

text \<open>
  What a list asks its context for: the settings, the number of threads of the scheduler, the file
  system's listings, what Glue gives when the partitions have to be loaded, and whether the query is
  interrupted when a listing is due.
\<close>

record listing_env =
  le_settings :: settings
  le_threads :: nat
  le_listing :: listing
  le_fetched :: "GluePartitionInfo list result"
  le_interrupted :: "nat \<Rightarrow> bool"

definition on_info :: "(HiveScanInfo, 'a) comp \<Rightarrow> (file_list, 'a) comp" where
  "on_info m fl = (case m (fl_info fl) of (r, info) \<Rightarrow> (r, fl\<lparr>fl_info := info\<rparr>))"

definition list_partitions_of :: "listing_env \<Rightarrow> (file_list, GluePartitionInfo list) comp" where
  "list_partitions_of env = on_info (scan_partitions (le_fetched env))"

definition partition_indexes :: "listing_env \<Rightarrow> (file_list, nat list) comp" where
  "partition_indexes env fl = (case fl_partition_indexes fl of
     Some is \<Rightarrow> (Inr is, fl)
   | None \<Rightarrow> bind_op (list_partitions_of env) (\<lambda>ps fl1.
       (Inr [0..<length ps], fl1\<lparr>fl_partition_indexes := Some [0..<length ps]\<rparr>)) fl)"

subsection \<open>Planning\<close>

definition partitions_listed_together :: "listing_env \<Rightarrow> nat" where
  "partitions_listed_together env = max 1 (le_threads env)"

definition S3_KEYS_PER_LIST_PAGE :: nat where
  "S3_KEYS_PER_LIST_PAGE = 1000"

definition ROOT_REQUESTS_SAVED :: nat where
  "ROOT_REQUESTS_SAVED = 10"

definition below :: "duckdb \<Rightarrow> string \<Rightarrow> string \<Rightarrow> bool" where
  "below D root location \<longleftrightarrow>
     root \<noteq> [] \<and> length location > length root + 1 \<and> StartsWith D location (root @ ''/'')"

text \<open>\<open>location.find("//", root.size() + 1)\<close>.\<close>

definition has_empty_segment :: "duckdb \<Rightarrow> string \<Rightarrow> string \<Rightarrow> bool" where
  "has_empty_segment D root location \<longleftrightarrow> Contains D (drop (length root + 1) location) ''//''"

definition listed_with_root :: "duckdb \<Rightarrow> string \<Rightarrow> GluePartitionInfo list \<Rightarrow> nat \<Rightarrow> bool" where
  "listed_with_root D root ps i \<longleftrightarrow>
     below D root (comparable_location D (p_location (ps ! i))) \<and>
     \<not> has_empty_segment D root (comparable_location D (p_location (ps ! i)))"

definition count_below_root :: "duckdb \<Rightarrow> string \<Rightarrow> GluePartitionInfo list \<Rightarrow> nat" where
  "count_below_root D root ps = length (filter (\<lambda>p. below D root (RTrimChars D (p_location p) ''/'')) ps)"

definition lists_root :: "listing_env \<Rightarrow> nat \<Rightarrow> nat \<Rightarrow> bool" where
  "lists_root env partitions_below_root reading =
     (let together = partitions_listed_together env;
          root_pages = (partitions_below_root + S3_KEYS_PER_LIST_PAGE - 1) div S3_KEYS_PER_LIST_PAGE;
          partition_rounds = (reading + together - 1) div together
      in case set_partition_listing_threshold (le_settings env) of
           Some threshold \<Rightarrow> reading \<ge> threshold
         | None \<Rightarrow> root_pages < partition_rounds \<or>
                   root_pages = partition_rounds \<and> reading \<ge> ROOT_REQUESTS_SAVED * root_pages)"

definition plan_jobs ::
  "duckdb \<Rightarrow> listing_env \<Rightarrow> string \<Rightarrow> GluePartitionInfo list \<Rightarrow> nat list \<Rightarrow> listing_job list" where
  "plan_jobs D env root ps indexes =
     (let below_root = filter (listed_with_root D root ps) indexes;
          elsewhere = filter (\<lambda>i. \<not> listed_with_root D root ps i) indexes;
          with_root = (below_root \<noteq> [] \<and>
            lists_root env (count_below_root D root ps) (length below_root));
          separately = (if with_root then elsewhere else below_root @ elsewhere)
      in (if with_root then [ListingJob True below_root] else []) @
         map (ListingJob False) (batches (partitions_listed_together env) separately))"

definition plan_listings :: "duckdb \<Rightarrow> listing_env \<Rightarrow> (file_list, unit) comp" where
  "plan_listings D env fl =
     (if fl_planned fl then (Inr (), fl)
      else if hs_partition_keys (fl_info fl) = []
      then (Inr (), fl\<lparr>fl_planned := True, fl_listing_jobs := fl_listing_jobs fl @ [ListingJob True []]\<rparr>)
      else
        bind_op (list_partitions_of env) (\<lambda>ps.
        bind_op (partition_indexes env) (\<lambda>indexes fl1.
          (Inr (), fl1\<lparr>fl_listing_jobs := fl_listing_jobs fl1 @
             plan_jobs D env (comparable_location D (hs_root_location (fl_info fl1))) ps indexes\<rparr>)))
          (fl\<lparr>fl_planned := True\<rparr>))"

subsection \<open>Which partition a file belongs to\<close>

definition location_of :: "duckdb \<Rightarrow> GluePartitionInfo list \<Rightarrow> nat \<Rightarrow> string" where
  "location_of D ps i = comparable_location D (p_location (ps ! i))"

definition index_location :: "duckdb \<Rightarrow> GluePartitionInfo list \<Rightarrow> nat \<Rightarrow> (string \<times> nat) list \<Rightarrow> (string \<times> nat) list" where
  "index_location D ps i m =
     (if location_of D ps i = [] then m else emplace (location_of D ps i) i m)"

definition index_locations :: "duckdb \<Rightarrow> GluePartitionInfo list \<Rightarrow> (string \<times> nat) list" where
  "index_locations D ps = fold (index_location D ps) [0..<length ps] []"

definition group_location ::
  "duckdb \<Rightarrow> GluePartitionInfo list \<Rightarrow> nat \<Rightarrow> (string \<times> nat list) list \<Rightarrow> (string \<times> nat list) list" where
  "group_location D ps i m =
     (if location_of D ps i = [] then m
      else AList.update (location_of D ps i) (opt_list (map_of m (location_of D ps i)) @ [i]) m)"

definition group_locations :: "duckdb \<Rightarrow> GluePartitionInfo list \<Rightarrow> (string \<times> nat list) list" where
  "group_locations D ps = fold (group_location D ps) [0..<length ps] []"

definition build_partition_locations :: "duckdb \<Rightarrow> listing_env \<Rightarrow> (file_list, unit) comp" where
  "build_partition_locations D env fl =
     (if fl_locations_built fl then (Inr (), fl)
      else bind_op (list_partitions_of env) (\<lambda>ps fl1.
        (Inr (), fl1\<lparr>fl_partition_by_location := index_locations D ps,
           fl_shared_locations := map (\<lambda>(l, is). (hd is, is))
             (filter (\<lambda>(l, is). length is > 1) (group_locations D ps))\<rparr>)) (fl\<lparr>fl_locations_built := True\<rparr>))"

text \<open>The text before the last slash.\<close>

definition parent_directory :: "string \<Rightarrow> string option" where
  "parent_directory s =
     (if CHR ''/'' \<in> set s then Some (rev (tl (dropWhile (\<lambda>c. c \<noteq> CHR ''/'') (rev s)))) else None)"

lemma parent_directory_shorter: "parent_directory s = Some d \<Longrightarrow> length d < length s"
proof -
  assume "parent_directory s = Some d"
  then have s: "CHR ''/'' \<in> set s" and d: "d = rev (tl (dropWhile (\<lambda>c. c \<noteq> CHR ''/'') (rev s)))"
    by (auto simp: parent_directory_def split: if_splits)
  have "length (dropWhile (\<lambda>c. c \<noteq> CHR ''/'') (rev s)) \<le> length s"
    using length_dropWhile_le [of _ "rev s"] by simp
  moreover have "dropWhile (\<lambda>c. c \<noteq> CHR ''/'') (rev s) \<noteq> []" using s by auto
  ultimately show ?thesis using d by (cases "dropWhile (\<lambda>c. c \<noteq> CHR ''/'') (rev s)") auto
qed

function search_owner :: "(string \<times> nat) list \<Rightarrow> nat \<Rightarrow> string \<Rightarrow> nat option" where
  "search_owner by_location min_size directory =
     (if length directory < min_size then None
      else case map_of by_location directory of
        Some i \<Rightarrow> Some i
      | None \<Rightarrow> (case parent_directory directory of
          None \<Rightarrow> None | Some parent \<Rightarrow> search_owner by_location min_size parent))"
  by pat_completeness auto
termination
  by (relation "measure (\<lambda>(m, n, directory). length directory)") (auto dest: parent_directory_shorter)

declare search_owner.simps [simp del]

definition owning_partition :: "duckdb \<Rightarrow> (string \<times> nat) list \<Rightarrow> string \<Rightarrow> nat \<Rightarrow> nat option" where
  "owning_partition D by_location file_path min_directory_size =
     (case parent_directory (comparable_location D file_path) of
        None \<Rightarrow> None | Some directory \<Rightarrow> search_owner by_location min_directory_size directory)"

definition throw_if_location_shared ::
  "GluePartitionInfo list \<Rightarrow> (nat \<times> nat list) list \<Rightarrow> nat \<Rightarrow> nat list \<Rightarrow> unit result" where
  "throw_if_location_shared ps shared owner reading = (case map_of shared owner of
     None \<Rightarrow> Inr ()
   | Some sharing \<Rightarrow>
       if \<not> list_ex (\<lambda>i. i \<in> set reading) sharing then Inr ()
       else
         let named = sort_key (\<lambda>i. p_values (ps ! i)) sharing in
         Inl (NotImplementedException ''Partitions of Hive table are registered at the same location''
           (p_values (ps ! (named ! 0)) @ p_values (ps ! (named ! 1)) @ [p_location (ps ! owner)])))"

subsection \<open>Listing\<close>

text \<open>\<open>listed_files.insert(path).second\<close> guards the rest: a path is added once.\<close>

definition add_file :: "open_file \<Rightarrow> nat \<Rightarrow> file_list \<Rightarrow> file_list" where
  "add_file f i fl =
     (if of_path f \<in> set (fl_listed_files fl) then fl
      else fl\<lparr>fl_listed_files := of_path f # fl_listed_files fl,
              fl_info := (fl_info fl)\<lparr>hs_file_partitions :=
                AList.update (of_path f) i (hs_file_partitions (fl_info fl))\<rparr>,
              fl_expanded_files := fl_expanded_files fl @ [f]\<rparr>)"

definition check_value_count :: "duckdb \<Rightarrow> HiveScanInfo \<Rightarrow> GluePartitionInfo \<Rightarrow> unit result" where
  "check_value_count D info p =
     check (length (p_values p) = length (hs_partition_keys info))
       (InvalidInputException ''Partition of Hive table has a number of values other than its partition keys''
          (p_values p @ [describe_scan info, FormatInt D (int (length (p_values p))),
             FormatInt D (int (length (hs_partition_keys info)))]))"

text \<open>One file listed below the location of partition \<open>i\<close>, compared at length \<open>n\<close>.\<close>

definition add_partition_file ::
  "duckdb \<Rightarrow> GluePartitionInfo list \<Rightarrow> nat list \<Rightarrow> nat \<Rightarrow> nat \<Rightarrow> open_file \<Rightarrow> unit \<Rightarrow> (file_list, unit) comp" where
  "add_partition_file D ps reading i n f u fl =
     (case owning_partition D (fl_partition_by_location fl) (of_path f) n of
        Some owner \<Rightarrow>
          if owner \<noteq> i then lift_op (throw_if_location_shared ps (fl_shared_locations fl) owner reading) fl
          else bind_op (lift_op (throw_if_location_shared ps (fl_shared_locations fl) i reading))
                 (\<lambda>_ fl. (Inr (), add_file f i fl)) fl
      | None \<Rightarrow> bind_op (lift_op (throw_if_location_shared ps (fl_shared_locations fl) i reading))
                  (\<lambda>_ fl. (Inr (), add_file f i fl)) fl)"

definition partition_directory :: "duckdb \<Rightarrow> GluePartitionInfo list \<Rightarrow> nat \<Rightarrow> string" where
  "partition_directory D ps i = RTrimChars D (p_location (ps ! i)) ''/''"

definition list_partitions :: "duckdb \<Rightarrow> listing_env \<Rightarrow> nat list \<Rightarrow> (file_list, unit) comp" where
  "list_partitions D env reading =
     bind_op (list_partitions_of env) (\<lambda>ps fl.
     bind_op (lift_op (check_each (\<lambda>i. check_value_count D (fl_info fl) (ps ! i)) reading)) (\<lambda>_.
     bind_op (lift_op (collect (\<lambda>i. list_data_files D (le_listing env)
         (cache_listings (le_settings env) (fl_info fl)) (partition_directory D ps i)) reading)) (\<lambda>listed.
     bind_op (build_partition_locations D env) (\<lambda>_.
       for_each (\<lambda>(i, files). for_each (add_partition_file D ps reading i
           (length (comparable_location D (partition_directory D ps i)))) files)
         (zip reading listed) ()))) fl)"

definition add_root_file ::
  "duckdb \<Rightarrow> GluePartitionInfo list \<Rightarrow> nat list \<Rightarrow> nat \<Rightarrow> open_file \<Rightarrow> unit \<Rightarrow> (file_list, unit) comp" where
  "add_root_file D ps reading n f u fl =
     (case owning_partition D (fl_partition_by_location fl) (of_path f) n of
        None \<Rightarrow> (Inr (), fl)
      | Some owner \<Rightarrow>
          bind_op (lift_op (throw_if_location_shared ps (fl_shared_locations fl) owner reading))
            (\<lambda>_ fl. (Inr (), if owner \<in> set reading then add_file f owner fl else fl)) fl)"

definition no_location :: "HiveScanInfo \<Rightarrow> exn" where
  "no_location info = InvalidInputException ''Hive table has no location'' [describe_scan info]"

definition list_root :: "duckdb \<Rightarrow> listing_env \<Rightarrow> nat list \<Rightarrow> (file_list, unit) comp" where
  "list_root D env reading fl =
     (let root = RTrimChars D (hs_root_location (fl_info fl)) ''/'' in
      if root = [] then (Inl (no_location (fl_info fl)), fl)
      else
        bind_op (lift_op (le_listing env (cache_listings (le_settings env) (fl_info fl)) root)) (\<lambda>files.
        bind_op (list_partitions_of env) (\<lambda>ps.
        bind_op (\<lambda>fl. (check_each (\<lambda>i. check_value_count D (fl_info fl) (ps ! i)) reading, fl)) (\<lambda>_.
        bind_op (build_partition_locations D env) (\<lambda>_.
          for_each (add_root_file D ps reading (length (comparable_location D root) + 1))
            (filter (\<lambda>f. is_data_file D f (root @ ''/'')) files) ())))) fl)"

definition list_table :: "duckdb \<Rightarrow> listing_env \<Rightarrow> (file_list, unit) comp" where
  "list_table D env fl =
     (if hs_root_location (fl_info fl) = [] then (Inl (no_location (fl_info fl)), fl)
      else bind_op (lift_op (list_data_files D (le_listing env)
                  (cache_listings (le_settings env) (fl_info fl)) (hs_root_location (fl_info fl))))
             (\<lambda>files fl. (Inr (), fl\<lparr>fl_expanded_files := fl_expanded_files fl @ files\<rparr>)) fl)"

definition run_job :: "duckdb \<Rightarrow> listing_env \<Rightarrow> listing_job \<Rightarrow> (file_list, unit) comp" where
  "run_job D env job fl =
     (if hs_partition_keys (fl_info fl) = [] then list_table D env fl
      else bind_op (list_partitions_of env) (\<lambda>ps fl.
        bind_op (lift_op (check_each (\<lambda>i. verify_consistent_partition_serde D (fl_info fl) (ps ! i))
            (job_partitions job)))
          (\<lambda>_. (if job_root job then list_root D env else list_partitions D env) (job_partitions job)) fl) fl)"

text \<open>\<open>ExpandNextPath\<close>: one listing, \<open>False\<close> when none is left.\<close>

definition expand_next_path :: "duckdb \<Rightarrow> listing_env \<Rightarrow> (file_list, bool) comp" where
  "expand_next_path D env = bind_op (plan_listings D env) (\<lambda>_ fl.
     if fl_next_job fl \<ge> length (fl_listing_jobs fl) then (Inr False, fl)
     else bind_op (run_job D env (fl_listing_jobs fl ! fl_next_job fl)) (\<lambda>_. return_op True)
            (fl\<lparr>fl_next_job := fl_next_job fl + 1\<rparr>))"

subsection \<open>Expansion ends\<close>

text \<open>The plan: no step after the planning adds a listing or goes back to one.\<close>

definition plan_of :: "file_list \<Rightarrow> bool \<times> listing_job list \<times> nat" where
  "plan_of fl = (fl_planned fl, fl_listing_jobs fl, fl_next_job fl)"

named_theorems keeps_plan "steps that keep the plan"

lemma plan_of_update [simp]:
  "plan_of (fl\<lparr>fl_info := a\<rparr>) = plan_of fl" "plan_of (fl\<lparr>fl_partition_by_location := b\<rparr>) = plan_of fl"
  "plan_of (fl\<lparr>fl_shared_locations := c\<rparr>) = plan_of fl" "plan_of (fl\<lparr>fl_locations_built := d\<rparr>) = plan_of fl"
  "plan_of (fl\<lparr>fl_listed_files := e\<rparr>) = plan_of fl" "plan_of (fl\<lparr>fl_expanded_files := g\<rparr>) = plan_of fl"
  "plan_of (fl\<lparr>fl_partition_indexes := h\<rparr>) = plan_of fl"
  by (simp_all add: plan_of_def)

lemma plan_bind [keeps_plan]:
  assumes "plan_of (snd (m fl)) = plan_of fl" and "\<And>x fl'. plan_of (snd (f x fl')) = plan_of fl'"
  shows "plan_of (snd (bind_op m f fl)) = plan_of fl"
  using assms(1) assms(2) by (cases "m fl"; cases "fst (m fl)") (auto simp: bind_op_def)

lemma plan_lift [keeps_plan]: "plan_of (snd (lift_op r fl)) = plan_of fl"
  by (simp add: lift_op_def)

lemma plan_return [keeps_plan]: "plan_of (snd (return_op x fl)) = plan_of fl"
  by (simp add: return_op_def)

lemma plan_for_each:
  "(\<And>x u fl. plan_of (snd (f x u fl)) = plan_of fl) \<Longrightarrow> plan_of (snd (for_each f xs u fl)) = plan_of fl"
  by (induction xs arbitrary: u fl) (simp_all add: keeps_plan)

lemma plan_partitions [keeps_plan]: "plan_of (snd (list_partitions_of env fl)) = plan_of fl"
  by (simp add: list_partitions_of_def on_info_def split: prod.splits)

lemma plan_build [keeps_plan]: "plan_of (snd (build_partition_locations D env fl)) = plan_of fl"
proof -
  have "plan_of (snd (build_partition_locations D env fl)) = plan_of (fl\<lparr>fl_locations_built := True\<rparr>)"
    if "\<not> fl_locations_built fl"
    unfolding build_partition_locations_def if_not_P [OF that] by (rule plan_bind) (simp_all add: keeps_plan)
  then show ?thesis by (auto simp: build_partition_locations_def)
qed

lemma plan_add_file [keeps_plan]: "plan_of (add_file f i fl) = plan_of fl"
  by (simp add: add_file_def)

lemma plan_add_partition_file: "plan_of (snd (add_partition_file D ps reading i n f u fl)) = plan_of fl"
  by (simp add: add_partition_file_def keeps_plan split: option.splits)

lemma plan_add_root_file: "plan_of (snd (add_root_file D ps reading n f u fl)) = plan_of fl"
  by (simp add: add_root_file_def keeps_plan split: option.splits)

lemma plan_list_partitions: "plan_of (snd (list_partitions D env reading fl)) = plan_of fl"
  unfolding list_partitions_def
  by (intro plan_bind plan_partitions plan_lift plan_build plan_for_each)
    (auto intro!: plan_for_each plan_add_partition_file)

lemma plan_list_root: "plan_of (snd (list_root D env reading fl)) = plan_of fl"
  by (simp add: list_root_def Let_def keeps_plan plan_for_each plan_add_root_file)

lemma plan_list_table: "plan_of (snd (list_table D env fl)) = plan_of fl"
  by (simp add: list_table_def keeps_plan)

lemma plan_run_job: "plan_of (snd (run_job D env job fl)) = plan_of fl"
  by (simp add: run_job_def keeps_plan plan_list_table plan_list_partitions plan_list_root)


lemma planned_bind:
  assumes "fl_planned (snd (m fl))" and "\<And>x fl'. fl_planned fl' \<Longrightarrow> fl_planned (snd (f x fl'))"
  shows "fl_planned (snd (bind_op m f fl))"
  using assms(1) assms(2) by (cases "m fl"; cases "fst (m fl)") (auto simp: bind_op_def)

lemma planned_partitions: "fl_planned (snd (list_partitions_of env fl)) = fl_planned fl"
  using plan_partitions [of env fl] by (simp add: plan_of_def)

lemma planned_indexes: "fl_planned (snd (partition_indexes env fl)) = fl_planned fl"
proof -
  have "plan_of (snd (partition_indexes env fl)) = plan_of fl"
    by (simp add: partition_indexes_def keeps_plan split: option.splits)
  then show ?thesis by (simp add: plan_of_def)
qed

lemma plan_listings_planned: "fl_planned (snd (plan_listings D env fl))"
  by (auto simp: plan_listings_def planned_partitions planned_indexes intro!: planned_bind)

lemma plan_listings_again: "fl_planned fl \<Longrightarrow> plan_listings D env fl = (Inr (), fl)"
  by (simp add: plan_listings_def)

text \<open>The listings left, an unplanned list counting as more than any planned one.\<close>

definition listings_left :: "file_list \<Rightarrow> nat" where
  "listings_left fl = length (fl_listing_jobs fl) - fl_next_job fl"

lemma expand_next_path_progress:
  assumes "expand_next_path D env fl = (Inr True, fl')"
  shows "fl_planned fl'" and "fl_planned fl \<Longrightarrow> listings_left fl' < listings_left fl"
proof -
  obtain fl1 where pl: "plan_listings D env fl = (Inr (), fl1)"
    and left: "fl_next_job fl1 < length (fl_listing_jobs fl1)"
    and run: "fl' = snd (run_job D env (fl_listing_jobs fl1 ! fl_next_job fl1)
                (fl1\<lparr>fl_next_job := fl_next_job fl1 + 1\<rparr>))"
    using assms by (auto simp: expand_next_path_def bind_op_def return_op_def split: prod.splits sum.splits if_splits)
  have plan: "plan_of fl' = plan_of (fl1\<lparr>fl_next_job := fl_next_job fl1 + 1\<rparr>)"
    unfolding run by (rule plan_run_job)
  have "fl_planned fl1" using plan_listings_planned [of D env fl] by (simp add: pl)
  with plan show "fl_planned fl'" by (simp add: plan_of_def)
  assume "fl_planned fl"
  with pl have "fl1 = fl" by (simp add: plan_listings_again)
  with plan left show "listings_left fl' < listings_left fl" by (simp add: plan_of_def listings_left_def)
qed

text \<open>
  The loop of \<open>GetFileCount\<close>, which reads files until \<open>n\<close> of them are known or every listing has
  run. It also is what the base class runs for a file at a position or for all of them.
\<close>

function expand_until :: "duckdb \<Rightarrow> listing_env \<Rightarrow> nat \<Rightarrow> (file_list, unit) comp" where
  "expand_until D env n fl =
     (if fl_all_files_expanded fl \<or> length (fl_expanded_files fl) \<ge> n then (Inr (), fl)
      else if le_interrupted env (fl_next_job fl) then (Inl InterruptException, fl)
      else case expand_next_path D env fl of
        (Inl e, fl') \<Rightarrow> (Inl e, fl')
      | (Inr listed, fl') \<Rightarrow>
          if listed then expand_until D env n fl' else (Inr (), fl'\<lparr>fl_all_files_expanded := True\<rparr>))"
  by pat_completeness auto
termination
  by (relation "measures [\<lambda>(D, env, n, fl). if fl_planned fl then 0 else 1,
      \<lambda>(D, env, n, fl). listings_left fl]")
    (auto dest: expand_next_path_progress [OF sym])

declare expand_until.simps [simp del]

text \<open>\<open>GetFileCount\<close>: the number of files and whether it is exact.\<close>

definition get_file_count :: "duckdb \<Rightarrow> listing_env \<Rightarrow> nat \<Rightarrow> (file_list, nat \<times> bool) comp" where
  "get_file_count D env n = bind_op (expand_until D env n) (\<lambda>_ fl.
     if fl_all_files_expanded fl then (Inr (length (fl_expanded_files fl), True), fl)
     else bind_op (plan_listings D env) (\<lambda>_ fl.
       (Inr (length (fl_expanded_files fl) +
          sum_list (map (\<lambda>job. max 1 (length (job_partitions job))) (drop (fl_next_job fl) (fl_listing_jobs fl))), False),
        fl)) fl)"

datatype FileExpandResult = NO_FILES | SINGLE_FILE | MULTIPLE_FILES

definition get_expand_result :: "file_list \<Rightarrow> FileExpandResult" where
  "get_expand_result fl =
     (if \<not> fl_all_files_expanded fl then MULTIPLE_FILES
      else if length (fl_expanded_files fl) > 1 then MULTIPLE_FILES
      else if length (fl_expanded_files fl) = 1 then SINGLE_FILE else NO_FILES)"

text \<open>\<open>GetDisplayFileList\<close> before everything is listed.\<close>

definition get_display_file_list :: "listing_env \<Rightarrow> nat option \<Rightarrow> (file_list, string list) comp" where
  "get_display_file_list env max_files fl =
     (if hs_partition_keys (fl_info fl) = [] \<or> \<not> partitions_loaded (fl_info fl)
      then (Inr [hs_root_location (fl_info fl)], fl)
      else
        bind_op (list_partitions_of env) (\<lambda>ps.
        bind_op (partition_indexes env) (\<lambda>indexes.
          return_op (map (\<lambda>i. p_location (ps ! i))
            (case max_files of None \<Rightarrow> indexes | Some m \<Rightarrow> take m indexes)))) fl)"

definition copy_list :: "file_list \<Rightarrow> file_list" where
  "copy_list fl = new_file_list (fl_info fl) (fl_partition_indexes fl)"

end
