(* ===== verification/Partition_Listing.thy ===== *)
theory Partition_Listing
  imports Hive_Listing Sample_Glue "HOL-Library.Multiset"
begin

text \<open>
  The listing of a partitioned table finds the right files: the owner of a file, what each listing
  adds, the plan, and the two together for every plan.
\<close>

subsection \<open>Directories\<close>

definition leads_to :: "string \<Rightarrow> string \<Rightarrow> bool" where
  "leads_to d s \<longleftrightarrow> s = d \<or> prefix (d @ ''/'') s"

lemma parent_directory_iff:
  "parent_directory s = Some p \<longleftrightarrow> (\<exists>c. s = p @ CHR ''/'' # c \<and> CHR ''/'' \<notin> set c)"
proof
  assume "parent_directory s = Some p"
  then have mem: "CHR ''/'' \<in> set s" and p: "p = rev (tl (dropWhile (\<lambda>c. c \<noteq> CHR ''/'') (rev s)))"
    by (auto simp: parent_directory_def split: if_splits)
  define t where "t = takeWhile (\<lambda>c. c \<noteq> CHR ''/'') (rev s)"
  from mem obtain u where u: "dropWhile (\<lambda>c. c \<noteq> CHR ''/'') (rev s) = CHR ''/'' # u"
    by (cases "dropWhile (\<lambda>c. c \<noteq> CHR ''/'') (rev s)")
      (auto, metis (mono_tags, lifting) hd_dropWhile list.distinct(1) list.sel(1))
  have "rev s = t @ CHR ''/'' # u" by (metis t_def takeWhile_dropWhile_id u)
  then have "s = rev u @ CHR ''/'' # rev t" by (metis append.assoc append_Cons append_Nil rev_append rev_rev_ident rev.simps(2))
  moreover have "CHR ''/'' \<notin> set (rev t)" unfolding t_def by (auto dest: set_takeWhileD)
  ultimately show "\<exists>c. s = p @ CHR ''/'' # c \<and> CHR ''/'' \<notin> set c" using p u by auto
next
  assume "\<exists>c. s = p @ CHR ''/'' # c \<and> CHR ''/'' \<notin> set c"
  then obtain c where s: "s = p @ CHR ''/'' # c" and c: "CHR ''/'' \<notin> set c" by blast
  have "dropWhile (\<lambda>c. c \<noteq> CHR ''/'') (rev s) = CHR ''/'' # rev p"
    using c by (subst s) (auto simp: dropWhile_append)
  with s show "parent_directory s = Some p" by (simp add: parent_directory_def)
qed

lemma parent_directory_None_iff: "parent_directory s = None \<longleftrightarrow> CHR ''/'' \<notin> set s"
  by (simp add: parent_directory_def)

lemma prefix_slash_parent:
  assumes "s = p @ CHR ''/'' # c" and "CHR ''/'' \<notin> set c"
  shows "prefix (d @ ''/'') s \<longleftrightarrow> leads_to d p"
proof
  assume "prefix (d @ ''/'') s"
  then obtain r where r: "p @ CHR ''/'' # c = d @ CHR ''/'' # r" using assms(1) by (auto simp: prefix_def)
  then consider u where "p = d @ u" "u @ CHR ''/'' # c = CHR ''/'' # r"
    | u where "d = p @ u" "CHR ''/'' # c = u @ CHR ''/'' # r"
    by (auto simp: append_eq_append_conv2)
  then show "leads_to d p"
  proof cases
    case 1
    then show ?thesis by (cases u) (auto simp: leads_to_def prefix_def)
  next
    case 2
    then show ?thesis using assms(2) by (cases u) (auto simp: leads_to_def)
  qed
next
  assume "leads_to d p"
  then show "prefix (d @ ''/'') s" using assms(1) by (auto simp: leads_to_def prefix_def)
qed

lemma leads_to_length: "leads_to d s \<Longrightarrow> length d \<le> length s"
  by (auto simp: leads_to_def prefix_def)

lemma leads_to_same_length: "leads_to d s \<Longrightarrow> leads_to d' s \<Longrightarrow> length d = length d' \<Longrightarrow> d = d'"
  by (auto simp: leads_to_def prefix_def append_eq_append_conv)

text \<open>The search of \<open>OwningPartition\<close> ends at the deepest registered directory above the file.\<close>

lemma search_owner_iff:
  "search_owner m n s = Some i \<longleftrightarrow>
     (\<exists>d. leads_to d s \<and> map_of m d = Some i \<and> n \<le> length d \<and>
        (\<forall>d'. leads_to d' s \<longrightarrow> map_of m d' \<noteq> None \<longrightarrow> length d' \<le> length d))"
  (is "_ \<longleftrightarrow> ?deepest m n s i")
proof (induction m n s rule: search_owner.induct)
  case (1 m n s)
  show ?case
  proof (cases "length s < n \<or> map_of m s \<noteq> None")
    case True
    then show ?thesis
    proof
      assume "length s < n"
      then show ?thesis by (subst search_owner.simps) (auto dest: leads_to_length)
    next
      assume *: "map_of m s \<noteq> None"
      show ?thesis
      proof (cases "length s < n")
        case True
        then show ?thesis by (subst search_owner.simps) (auto dest: leads_to_length)
      next
        case False
        with * obtain j where j: "map_of m s = Some j" and n: "n \<le> length s" by auto
        have "leads_to s s" by (simp add: leads_to_def)
        moreover have "d = s" if "leads_to d s" "\<forall>d'. leads_to d' s \<longrightarrow> map_of m d' \<noteq> None \<longrightarrow> length d' \<le> length d" for d
          using that \<open>leads_to s s\<close> * by (metis le_antisym leads_to_length leads_to_same_length)
        moreover have "search_owner m n s = Some j" using j n by (subst search_owner.simps) simp
        ultimately show ?thesis using j n by (metis leads_to_length option.inject)
      qed
    qed
  next
    case False
    then have n: "\<not> length s < n" and none: "map_of m s = None" by auto
    show ?thesis
    proof (cases "parent_directory s")
      case None
      then have only: "leads_to d s \<longleftrightarrow> d = s" for d
        by (auto simp: parent_directory_None_iff leads_to_def prefix_def)
      have "search_owner m n s = None" using n none None by (subst search_owner.simps) simp
      then show ?thesis unfolding only using none by auto
    next
      case (Some p)
      then obtain c where s: "s = p @ CHR ''/'' # c" and c: "CHR ''/'' \<notin> set c"
        by (auto simp: parent_directory_iff)
      have same: "leads_to d s \<longleftrightarrow> leads_to d p" if "map_of m d \<noteq> None" for d
        using prefix_slash_parent [OF s c, of d] none that unfolding leads_to_def by metis
      have "search_owner m n s = search_owner m n p"
        using n none Some by (subst search_owner.simps) simp
      also have "\<dots> = Some i \<longleftrightarrow> ?deepest m n p i" by (rule 1 [OF n none Some])
      also have "\<dots> \<longleftrightarrow> ?deepest m n s i" using same by blast
      finally show ?thesis .
    qed
  qed
qed

subsection \<open>The owner of a file\<close>

text \<open>
  \<open>owns ps i f\<close>: partition \<open>i\<close> is registered at the deepest location above the file, whatever the
  order of the partitions.
\<close>

definition holds :: "string \<Rightarrow> open_file \<Rightarrow> bool" where
  "holds location f \<longleftrightarrow> prefix (location @ ''/'') (of_path f)"

definition owns :: "GluePartitionInfo list \<Rightarrow> nat \<Rightarrow> open_file \<Rightarrow> bool" where
  "owns ps i f \<longleftrightarrow> i < length ps \<and> holds (p_location (ps ! i)) f \<and>
     (\<forall>j<length ps. holds (p_location (ps ! j)) f \<longrightarrow> length (p_location (ps ! j)) \<le> length (p_location (ps ! i)))"

definition plain_location :: "duckdb \<Rightarrow> string \<Rightarrow> bool" where
  "plain_location D l \<longleftrightarrow> l \<noteq> [] \<and> comparable_location D l = l"

lemma fold_index_location:
  assumes "distinct (map (location_of D ps) is)" "\<forall>i\<in>set is. location_of D ps i \<noteq> []"
    and "\<forall>i\<in>set is. map_of m (location_of D ps i) = None"
  shows "map_of (fold (index_location D ps) is m) l =
    (case find (\<lambda>i. location_of D ps i = l) is of Some i \<Rightarrow> Some i | None \<Rightarrow> map_of m l)"
  using assms
proof (induction "is" arbitrary: m)
  case (Cons a "is")
  let ?m = "emplace (location_of D ps a) a m"
  have m: "map_of m (location_of D ps a) = None" and new: "\<forall>i\<in>set is. location_of D ps i \<noteq> location_of D ps a"
    using Cons.prems by (auto simp: image_iff)
  have "\<forall>i\<in>set is. map_of ?m (location_of D ps i) = None" using Cons.prems(3) new by simp
  then have IH: "map_of (fold (index_location D ps) is ?m) l =
      (case find (\<lambda>i. location_of D ps i = l) is of Some i \<Rightarrow> Some i | None \<Rightarrow> map_of ?m l)"
    using Cons.prems(1,2) by (intro Cons.IH) auto
  have step: "fold (index_location D ps) (a # is) m = fold (index_location D ps) is ?m"
    using Cons.prems(2) by (simp add: index_location_def)
  have "find (\<lambda>i. location_of D ps i = location_of D ps a) is = None" using new by (simp add: find_None_iff)
  then show ?case unfolding step IH using m by (auto split: option.splits)
qed simp

lemma find_distinct:
  "distinct (map f xs) \<Longrightarrow> find (\<lambda>x. f x = y) xs = Some x \<longleftrightarrow> x \<in> set xs \<and> f x = y"
  by (induction xs) (auto simp: image_iff)

definition locations_plain :: "duckdb \<Rightarrow> GluePartitionInfo list \<Rightarrow> bool" where
  "locations_plain D ps \<longleftrightarrow>
     (\<forall>p\<in>set ps. plain_location D (p_location p)) \<and> distinct (map p_location ps)"

lemma location_of_plain: "locations_plain D ps \<Longrightarrow> i < length ps \<Longrightarrow> location_of D ps i = p_location (ps ! i)"
  unfolding locations_plain_def plain_location_def location_of_def using nth_mem by blast

lemma index_locations_plain:
  assumes "locations_plain D ps"
  shows "map_of (index_locations D ps) l = Some i \<longleftrightarrow> i < length ps \<and> p_location (ps ! i) = l"
proof -
  have eq: "map (location_of D ps) [0..<length ps] = map p_location ps"
    by (rule nth_equalityI) (simp_all add: location_of_plain [OF assms])
  then have dist: "distinct (map (location_of D ps) [0..<length ps])"
    using assms by (simp add: locations_plain_def)
  have ne: "\<forall>i\<in>set [0..<length ps]. location_of D ps i \<noteq> []"
    unfolding set_upt
  proof
    fix i assume "i \<in> {0..<length ps}"
    then have i: "i < length ps" by simp
    then have "plain_location D (p_location (ps ! i))" using assms by (simp add: locations_plain_def)
    then show "location_of D ps i \<noteq> []" by (simp add: location_of_plain [OF assms i] plain_location_def)
  qed
  have "map_of (index_locations D ps) l = find (\<lambda>i. location_of D ps i = l) [0..<length ps]"
    unfolding index_locations_def using fold_index_location [OF dist ne, of "[]"] by (auto split: option.splits)
  moreover have "find (\<lambda>i. location_of D ps i = l) [0..<length ps] = Some i \<longleftrightarrow> i < length ps \<and> location_of D ps i = l"
    using find_distinct [OF dist] by simp
  ultimately show ?thesis using location_of_plain [OF assms, of i] by (cases "i < length ps") simp_all
qed

lemma owning_partition_iff:
  assumes "locations_plain D ps" and "comparable_location D (of_path f) = of_path f"
  shows "owning_partition D (index_locations D ps) (of_path f) n = Some i \<longleftrightarrow>
    owns ps i f \<and> n \<le> length (p_location (ps ! i))"
proof (cases "parent_directory (of_path f)")
  case None
  then have "\<not> holds l f" for l by (auto simp: parent_directory_None_iff holds_def prefix_def)
  with None assms show ?thesis by (simp add: owning_partition_def owns_def)
next
  case (Some p)
  then obtain c where "of_path f = p @ CHR ''/'' # c" "CHR ''/'' \<notin> set c" by (auto simp: parent_directory_iff)
  then have holds: "holds l f \<longleftrightarrow> leads_to l p" for l
    unfolding holds_def by (rule prefix_slash_parent)
  have known: "map_of (index_locations D ps) d \<noteq> None \<longleftrightarrow> (\<exists>j<length ps. p_location (ps ! j) = d)" for d
    using index_locations_plain [OF assms(1), of d] by blast
  show ?thesis
    unfolding owning_partition_def assms(2) Some option.case search_owner_iff known
      index_locations_plain [OF assms(1)] owns_def holds
    by auto
qed

lemma holds_same_length: "holds l f \<Longrightarrow> holds l' f \<Longrightarrow> length l = length l' \<Longrightarrow> l = l'"
  by (auto simp: holds_def prefix_def append_eq_append_conv)

lemma owns_unique:
  assumes "locations_plain D ps" "owns ps i f" "owns ps j f"
  shows "i = j"
proof -
  have "length (p_location (ps ! i)) = length (p_location (ps ! j))"
    using assms(2,3) unfolding owns_def by (meson le_antisym)
  then have "map p_location ps ! i = map p_location ps ! j"
    using assms(2,3) holds_same_length unfolding owns_def by (metis nth_map)
  moreover have "distinct (map p_location ps)" using assms(1) by (simp add: locations_plain_def)
  moreover have "i < length (map p_location ps)" "j < length (map p_location ps)"
    using assms(2,3) by (simp_all add: owns_def)
  ultimately show ?thesis by (simp only: nth_eq_iff_index_eq)
qed

lemma held_is_owned:
  assumes "holds (p_location (ps ! i)) f" "i < length ps"
  shows "\<exists>j. owns ps j f \<and> length (p_location (ps ! i)) \<le> length (p_location (ps ! j))"
proof -
  let ?H = "{j. j < length ps \<and> holds (p_location (ps ! j)) f}"
  have fin: "finite ?H" by simp
  let ?L = "\<lambda>j. length (p_location (ps ! j))"
  have "Max (?L ` ?H) \<in> ?L ` ?H" using fin assms by (intro Max_in) auto
  then obtain j where "j \<in> ?H" "?L j = Max (?L ` ?H)" by auto
  moreover have "\<forall>k\<in>?H. ?L k \<le> Max (?L ` ?H)" using fin by (auto intro!: Max_ge)
  ultimately show ?thesis using assms by (auto simp: owns_def)
qed

subsection \<open>Data files below the root and below a partition\<close>

lemma split_chars_append: "split_chars c (a @ c # b) = split_chars c a @ split_chars c b"
proof (induction a)
  case (Cons x a)
  have "split_chars c a \<noteq> []" by (cases a) auto
  with Cons show ?case by (cases "split_chars c a") auto
qed simp

lemma split_chars_ne: "split_chars c s \<noteq> []"
  by (cases s) auto

definition shown_below :: "string \<Rightarrow> string \<Rightarrow> bool" where
  "shown_below root l \<longleftrightarrow> \<not> list_ex hidden_component (split_chars CHR ''/'' (drop (length root + 1) l))"

context string_util
begin

lemma plain_location_trim: "plain_location D l \<Longrightarrow> RTrimChars D l ''/'' = l"
proof -
  assume "plain_location D l"
  then have l: "comparable_location D l = l" by (simp add: plain_location_def)
  let ?r = "RTrimChars D l ''/''"
  have le: "length ?r \<le> length l" using length_dropWhile_le [of "\<lambda>c. c \<in> set ''/''" "rev l"] by (simp add: RTrimChars)
  have len: "length (comparable_location D l) \<le> length ?r"
    using length_Lower [of "take 6 ?r"] length_Lower [of "take 5 ?r"]
    by (auto simp: comparable_location_def Let_def simp del: length_Lower)
  have eq: "length ?r = length l" using le len l by simp
  have "suffix (dropWhile (\<lambda>c. c \<in> set ''/'') (rev l)) (rev l)" by (rule suffix_dropWhile)
  then obtain zs where "rev l = zs @ rev ?r" by (auto simp: RTrimChars suffix_def)
  moreover from this have "length (rev l) = length (zs @ rev ?r)" by (rule arg_cong)
  then have "zs = []" using eq by (simp only: length_rev length_append) simp
  ultimately have "rev ?r = rev l" by simp
  then show ?thesis by simp
qed

lemma plain_location_last: "plain_location D l \<Longrightarrow> last l \<noteq> CHR ''/''"
  using plain_location_trim [of l] RTrimChars_slash [of l] by (auto simp: plain_location_def)

lemma is_data_file_alt:
  assumes "plain_location D (of_path f)"
  shows "is_data_file D f (l @ ''/'') \<longleftrightarrow> (\<exists>r. of_path f = l @ ''/'' @ r \<and> r \<noteq> [] \<and>
     \<not> list_ex hidden_component (split_chars CHR ''/'' r) \<and>
     \<not> suffix ''_$folder$'' (last (split_chars CHR ''/'' r)) \<and>
     (case of_size f of None \<Rightarrow> True | Some n \<Rightarrow> n > 0))"
proof (cases "prefix (l @ ''/'') (of_path f)")
  case True
  then obtain r where r: "of_path f = l @ ''/'' @ r" by (auto simp: prefix_def)
  have "r \<noteq> [] \<and> last r \<noteq> CHR ''/''" using plain_location_last [OF assms] r by (cases "r = []") auto
  then show ?thesis
    by (auto simp: is_data_file_def Let_def StartsWith EndsWith r Split split_chars_ne)
next
  case False
  then show ?thesis by (auto simp: is_data_file_def StartsWith prefix_def)
qed

lemma is_data_file_below:
  assumes "plain_location D (of_path f)" and "l = root @ ''/'' @ a"
    and "\<not> list_ex hidden_component (split_chars CHR ''/'' a)" and "holds l f"
  shows "is_data_file D f (root @ ''/'') \<longleftrightarrow> is_data_file D f (l @ ''/'')"
proof -
  obtain b where b: "of_path f = l @ ''/'' @ b" using assms(4) by (auto simp: holds_def prefix_def)
  have last: "last (split_chars CHR ''/'' (a @ CHR ''/'' # b)) = last (split_chars CHR ''/'' b)"
    by (simp add: split_chars_append split_chars_ne)
  have "b \<noteq> []" using plain_location_last [OF assms(1)] b by auto
  then show ?thesis
    unfolding is_data_file_alt [OF assms(1)] using assms(2,3) b last
    by (auto simp: split_chars_append list_ex_append)
qed

end

subsection \<open>Adding files\<close>

text \<open>
  \<open>holding fl P\<close>: the files in \<open>fl\<close> are those of the pairs \<open>P\<close>, each path once, and each is recorded
  as a file of its partition.
\<close>

definition holding :: "file_list \<Rightarrow> (open_file \<times> nat) set \<Rightarrow> bool" where
  "holding fl P \<longleftrightarrow> set (fl_listed_files fl) = of_path ` set (fl_expanded_files fl) \<and>
     distinct (map of_path (fl_expanded_files fl)) \<and> set (fl_expanded_files fl) = fst ` P \<and>
     (\<forall>(f, i)\<in>P. map_of (hs_file_partitions (fl_info fl)) (of_path f) = Some i)"

definition one_partition :: "(open_file \<times> nat) set \<Rightarrow> bool" where
  "one_partition P \<longleftrightarrow> (\<forall>x\<in>P. \<forall>y\<in>P. of_path (fst x) = of_path (fst y) \<longrightarrow> x = y)"

lemma one_partition_subset: "one_partition P \<Longrightarrow> Q \<subseteq> P \<Longrightarrow> one_partition Q"
  by (auto simp: one_partition_def)

lemma holding_add_file:
  assumes "holding fl P" and "one_partition (insert (f, i) P)"
  shows "holding (add_file f i fl) (insert (f, i) P)"
proof (cases "of_path f \<in> set (fl_listed_files fl)")
  case True
  then have "of_path f \<in> of_path ` fst ` P" using assms(1) by (simp add: holding_def)
  then obtain g j where g: "(g, j) \<in> P" "of_path g = of_path f" by (auto simp: image_iff)
  then have "(f, i) \<in> P" using assms(2) unfolding one_partition_def by (metis fst_conv insertCI)
  with True assms(1) show ?thesis by (simp add: add_file_def insert_absorb)
next
  case False
  then have new: "of_path f \<notin> of_path ` fst ` P" using assms(1) by (auto simp: holding_def)
  then have other: "of_path g \<noteq> of_path f" if "(g, j) \<in> P" for g j
    using that new by (metis fst_conv imageI)
  have "\<forall>(g, j)\<in>insert (f, i) P. map_of (hs_file_partitions (fl_info (add_file f i fl))) (of_path g) = Some j"
    using False assms(1) other by (auto simp: add_file_def holding_def)
  moreover have "of_path f \<notin> of_path ` set (fl_expanded_files fl)" using new assms(1) by (simp add: holding_def)
  ultimately show ?thesis using False assms(1) by (auto simp: add_file_def holding_def)
qed

text \<open>What adding files leaves as it is.\<close>

definition without_files :: "file_list \<Rightarrow> file_list" where
  "without_files fl = fl\<lparr>fl_listed_files := [], fl_expanded_files := [],
     fl_info := (fl_info fl)\<lparr>hs_file_partitions := []\<rparr>\<rparr>"

definition same_but_files :: "file_list \<Rightarrow> file_list \<Rightarrow> bool" where
  "same_but_files fl fl' \<longleftrightarrow> without_files fl = without_files fl'"

lemma same_but_files_refl: "same_but_files fl fl"
  by (simp add: same_but_files_def)

lemma same_but_files_trans: "same_but_files a b \<Longrightarrow> same_but_files b c \<Longrightarrow> same_but_files a c"
  by (simp add: same_but_files_def)

lemma same_but_files_add_file: "same_but_files fl (add_file f i fl)"
  by (simp add: same_but_files_def without_files_def add_file_def)

lemma same_but_files_fields:
  assumes "same_but_files fl fl'"
  shows "fl_partition_by_location fl' = fl_partition_by_location fl"
    "fl_shared_locations fl' = fl_shared_locations fl" "fl_locations_built fl' = fl_locations_built fl"
    "plan_of fl' = plan_of fl" "fl_all_files_expanded fl' = fl_all_files_expanded fl"
    "(fl_info fl')\<lparr>hs_file_partitions := []\<rparr> = (fl_info fl)\<lparr>hs_file_partitions := []\<rparr>"
proof -
  have eq: "without_files fl' = without_files fl" using assms by (simp add: same_but_files_def)
  show "fl_partition_by_location fl' = fl_partition_by_location fl"
    using arg_cong [OF eq, of fl_partition_by_location] by (simp add: without_files_def)
  show "fl_shared_locations fl' = fl_shared_locations fl"
    using arg_cong [OF eq, of fl_shared_locations] by (simp add: without_files_def)
  show "fl_locations_built fl' = fl_locations_built fl"
    using arg_cong [OF eq, of fl_locations_built] by (simp add: without_files_def)
  show "plan_of fl' = plan_of fl"
    using arg_cong [OF eq, of plan_of] by (simp add: without_files_def)
  show "fl_all_files_expanded fl' = fl_all_files_expanded fl"
    using arg_cong [OF eq, of fl_all_files_expanded] by (simp add: without_files_def)
  show "(fl_info fl')\<lparr>hs_file_partitions := []\<rparr> = (fl_info fl)\<lparr>hs_file_partitions := []\<rparr>"
    using arg_cong [OF eq, of fl_info] by (simp add: without_files_def)
qed

text \<open>A loop over files that adds those of a partition each is given.\<close>

lemma for_each_adds:
  assumes step: "\<And>f u fl. f \<in> set files \<Longrightarrow> same_but_files fl0 fl \<Longrightarrow>
      add f u fl = (Inr (), case owner f of Some i \<Rightarrow> add_file f i fl | None \<Rightarrow> fl)"
    and "same_but_files fl0 fl" and "holding fl P"
    and "one_partition (P \<union> {(f, i). f \<in> set files \<and> owner f = Some i})"
  shows "\<exists>fl'. for_each add files () fl = (Inr (), fl') \<and> same_but_files fl0 fl' \<and>
      holding fl' (P \<union> {(f, i). f \<in> set files \<and> owner f = Some i})"
  using assms
proof (induction files arbitrary: fl P)
  case Nil
  then show ?case by (simp add: return_op_def)
next
  case (Cons f files)
  let ?new = "case owner f of None \<Rightarrow> {} | Some i \<Rightarrow> {(f, i)}"
  let ?fl = "case owner f of Some i \<Rightarrow> add_file f i fl | None \<Rightarrow> fl"
  have set: "{(f', i). f' \<in> set (f # files) \<and> owner f' = Some i} =
      ?new \<union> {(f', i). f' \<in> set files \<and> owner f' = Some i}" by (auto split: option.splits)
  have "one_partition (P \<union> ?new)" using Cons.prems(4) unfolding set by (rule one_partition_subset) auto
  then have "holding ?fl (P \<union> ?new)" using Cons.prems(3) holding_add_file by (auto split: option.splits)
  moreover have "same_but_files fl0 ?fl"
    using Cons.prems(2) same_but_files_trans [OF _ same_but_files_add_file] by (auto split: option.splits)
  ultimately have "\<exists>fl'. for_each add files () ?fl = (Inr (), fl') \<and> same_but_files fl0 fl' \<and>
      holding fl' (P \<union> ?new \<union> {(f', i). f' \<in> set files \<and> owner f' = Some i})"
    using Cons.prems(1,4) unfolding set by (intro Cons.IH) (auto simp: Un_assoc)
  moreover have "for_each add (f # files) () fl = for_each add files () ?fl"
    using Cons.prems(1) [of f fl] Cons.prems(2) by (simp add: bind_op_def)
  ultimately show ?case unfolding set by (simp add: Un_assoc)
qed

subsection \<open>What the scan is promised\<close>

text \<open>
  A store of objects and the table over it: the file system lists below a directory the objects
  whose paths start with it; the paths, the root and the locations of the partitions are spelled as
  they are compared and name one object or partition each; and a partition below the root is not
  below a hidden directory of it.
\<close>

definition lists_store :: "listing_env \<Rightarrow> open_file list \<Rightarrow> bool" where
  "lists_store env store \<longleftrightarrow>
     (\<forall>keep d. le_listing env keep d = Inr (filter (\<lambda>f. prefix (d @ ''/'') (of_path f)) store))"

definition plain_store :: "duckdb \<Rightarrow> string \<Rightarrow> GluePartitionInfo list \<Rightarrow> open_file list \<Rightarrow> bool" where
  "plain_store D root ps store \<longleftrightarrow>
     (\<forall>f\<in>set store. plain_location D (of_path f)) \<and> distinct (map of_path store) \<and>
     plain_location D root \<and> locations_plain D ps \<and>
     (\<forall>i<length ps. listed_with_root D root ps i \<longrightarrow> shown_below root (p_location (ps ! i)))"

definition readable_partition :: "duckdb \<Rightarrow> HiveScanInfo \<Rightarrow> GluePartitionInfo \<Rightarrow> bool" where
  "readable_partition D info p \<longleftrightarrow> check_value_count D info p = Inr () \<and>
     verify_consistent_partition_serde D info p = Inr ()"

definition partition_files ::
  "duckdb \<Rightarrow> GluePartitionInfo list \<Rightarrow> open_file list \<Rightarrow> nat list \<Rightarrow> (open_file \<times> nat) set" where
  "partition_files D ps store reading = {(f, i). f \<in> set store \<and> i \<in> set reading \<and> owns ps i f \<and>
     is_data_file D f (p_location (ps ! i) @ ''/'')}"

lemma partition_files_append:
  "partition_files D ps store (xs @ ys) = partition_files D ps store xs \<union> partition_files D ps store ys"
  by (auto simp: partition_files_def)

lemma owned_once:
  assumes "plain_store D root ps store"
  shows "one_partition {(f, i). f \<in> set store \<and> owns ps i f}"
proof -
  have "inj_on of_path (set store)" using assms by (simp add: plain_store_def distinct_map)
  then show ?thesis
    using owns_unique assms unfolding one_partition_def plain_store_def by (auto dest: inj_onD)
qed

lemma partition_files_once:
  "plain_store D root ps store \<Longrightarrow> one_partition (partition_files D ps store reading)"
  by (erule one_partition_subset [OF owned_once]) (auto simp: partition_files_def)

definition shared_by :: "HiveScanInfo \<Rightarrow> HiveScanInfo" where
  "shared_by info = info\<lparr>hs_file_partitions := []\<rparr>"

lemma shared_by_fields:
  assumes "shared_by a = shared_by b"
  shows "hs_partitions a = hs_partitions b" "hs_partition_keys a = hs_partition_keys b"
    "hs_root_location a = hs_root_location b"
    "check_value_count D a p = check_value_count D b p"
    "verify_consistent_partition_serde D a p = verify_consistent_partition_serde D b p"
    "cache_listings st a = cache_listings st b"
proof -
  have f: "g a = g b" if "\<And>i. g (shared_by i) = g i" for g :: "HiveScanInfo \<Rightarrow> 'x" by (metis assms that)
  show "hs_partitions a = hs_partitions b" by (rule f) (simp add: shared_by_def)
  show "hs_partition_keys a = hs_partition_keys b" by (rule f) (simp add: shared_by_def)
  show "hs_root_location a = hs_root_location b" by (rule f) (simp add: shared_by_def)
  show "check_value_count D a p = check_value_count D b p"
    by (rule f) (simp add: shared_by_def check_value_count_def describe_scan_def)
  show "verify_consistent_partition_serde D a p = verify_consistent_partition_serde D b p"
    by (rule f) (simp add: shared_by_def verify_consistent_partition_serde_def partition_storage_mismatch_def
      partition_spec_def describe_scan_def stored_as_def other_storage_def
      cong: if_cong option.case_cong)
  show "cache_listings st a = cache_listings st b" by (rule f) (simp add: shared_by_def cache_listings_def)
qed

text \<open>A list that runs over the loaded partitions \<open>ps\<close> of \<open>info\<close>.\<close>

definition runs_over :: "duckdb \<Rightarrow> HiveScanInfo \<Rightarrow> GluePartitionInfo list \<Rightarrow> file_list \<Rightarrow> bool" where
  "runs_over D info ps fl \<longleftrightarrow> shared_by (fl_info fl) = shared_by info \<and>
     (fl_locations_built fl \<longrightarrow>
       fl_partition_by_location fl = index_locations D ps \<and> fl_shared_locations fl = [])"

lemma runs_over_same_but_files:
  "same_but_files fl fl' \<Longrightarrow> runs_over D info ps fl \<Longrightarrow> runs_over D info ps fl'"
  unfolding runs_over_def shared_by_def by (simp add: same_but_files_fields)

lemma update_member: "x \<in> set (AList.update k v m) \<Longrightarrow> x = (k, v) \<or> x \<in> set m"
  by (induction m) (auto split: if_splits)

lemma group_location_small:
  assumes "distinct (map (location_of D ps) is)" "\<forall>i\<in>set is. map_of m (location_of D ps i) = None"
    and "\<forall>x\<in>set m. length (snd x) \<le> 1"
  shows "\<forall>x\<in>set (fold (group_location D ps) is m). length (snd x) \<le> 1"
  using assms
proof (induction "is" arbitrary: m)
  case (Cons a "is")
  have group: "group_location D ps a m = m \<or> group_location D ps a m = AList.update (location_of D ps a) [a] m"
    using Cons.prems(2) by (simp add: group_location_def opt_list_def)
  then have "\<forall>x\<in>set (group_location D ps a m). length (snd x) \<le> 1"
    using Cons.prems(3) update_member [of _ "location_of D ps a" "[a]" m] by fastforce
  moreover have "\<forall>i\<in>set is. map_of (group_location D ps a m) (location_of D ps i) = None"
    using Cons.prems(1,2) by (auto simp: group_location_def image_iff)
  ultimately show ?case using Cons.IH [of "group_location D ps a m"] Cons.prems(1) by simp
qed simp

lemma no_shared_locations:
  assumes "locations_plain D ps"
  shows "filter (\<lambda>(l, is). length is > 1) (group_locations D ps) = []"
proof -
  have "map (location_of D ps) [0..<length ps] = map p_location ps"
    by (rule nth_equalityI) (simp_all add: location_of_plain [OF assms])
  then have "distinct (map (location_of D ps) [0..<length ps])"
    using assms by (simp add: locations_plain_def)
  then have "\<forall>x\<in>set (group_locations D ps). length (snd x) \<le> 1"
    unfolding group_locations_def by (rule group_location_small) simp_all
  then show ?thesis by (auto simp: filter_empty_conv)
qed

lemma list_partitions_of_loaded:
  "hs_partitions (fl_info fl) = Some ps \<Longrightarrow> list_partitions_of env fl = (Inr ps, fl)"
  by (simp add: list_partitions_of_def on_info_def scan_partitions_def)

lemma build_partition_locations_runs:
  assumes "runs_over D info ps fl" "hs_partitions info = Some ps" "locations_plain D ps" "holding fl P"
  shows "\<exists>fl'. build_partition_locations D env fl = (Inr (), fl') \<and> runs_over D info ps fl' \<and>
    fl_locations_built fl' \<and> holding fl' P \<and> fl_all_files_expanded fl' = fl_all_files_expanded fl \<and>
    fl_info fl' = fl_info fl"
proof (cases "fl_locations_built fl")
  case True
  with assms show ?thesis by (simp add: build_partition_locations_def)
next
  case False
  let ?fl = "fl\<lparr>fl_locations_built := True\<rparr>"
  let ?fl' = "?fl\<lparr>fl_partition_by_location := index_locations D ps, fl_shared_locations := []\<rparr>"
  have "hs_partitions (fl_info ?fl) = Some ps"
    using assms(1,2) shared_by_fields(1) [of "fl_info fl" info] unfolding runs_over_def by simp
  note load = list_partitions_of_loaded [OF this, of env]
  have "build_partition_locations D env fl = (Inr (), ?fl')"
    using False unfolding build_partition_locations_def bind_op_def
    by (simp add: load no_shared_locations [OF assms(3), simplified])
  moreover have "runs_over D info ps ?fl'" "holding ?fl' P"
    using assms(1,4) by (simp_all add: runs_over_def holding_def)
  ultimately show ?thesis by (intro exI [of _ ?fl']) simp
qed

subsection \<open>One listing\<close>

lemma not_shared [simp]: "throw_if_location_shared ps [] owner reading = Inr ()"
  by (simp add: throw_if_location_shared_def)

context string_util
begin

lemma location_files_added:
  assumes store: "plain_store D root ps store" and i: "i < length ps"
    and fl: "runs_over D info ps fl" "fl_locations_built fl" "holding fl P" "P \<subseteq> {(f, i). f \<in> set store \<and> owns ps i f}"
  defines "files \<equiv> filter (\<lambda>f. is_data_file D f (p_location (ps ! i) @ ''/''))
    (filter (\<lambda>f. prefix (p_location (ps ! i) @ ''/'') (of_path f)) store)"
  shows "\<exists>fl'. for_each (add_partition_file D ps reading i (length (p_location (ps ! i)))) files () fl = (Inr (), fl') \<and>
    same_but_files fl fl' \<and> holding fl' (P \<union> partition_files D ps store [i])"
proof -
  let ?owner = "\<lambda>f. if owns ps i f then Some i else None"
  have plain: "locations_plain D ps" and paths: "\<forall>f\<in>set store. comparable_location D (of_path f) = of_path f"
    using store by (auto simp: plain_store_def plain_location_def)
  have files: "{(f, k). f \<in> set files \<and> ?owner f = Some k} = partition_files D ps store [i]"
    by (auto simp: files_def partition_files_def owns_def holds_def split: if_splits)
  have "one_partition (P \<union> {(f, k). f \<in> set files \<and> ?owner f = Some k})"
    unfolding files using fl(4)
    by (intro one_partition_subset [OF owned_once [OF store]]) (auto simp: partition_files_def)
  moreover have "add_partition_file D ps reading i (length (p_location (ps ! i))) f u fl1 =
      (Inr (), case ?owner f of Some i \<Rightarrow> add_file f i fl1 | None \<Rightarrow> fl1)"
    if f: "f \<in> set files" and fl1: "same_but_files fl fl1" for f u fl1
  proof -
    have f': "f \<in> set store" "holds (p_location (ps ! i)) f" using f by (auto simp: files_def holds_def)
    then obtain j where j: "owns ps j f" "length (p_location (ps ! i)) \<le> length (p_location (ps ! j))"
      using held_is_owned i by blast
    then have "owning_partition D (index_locations D ps) (of_path f) (length (p_location (ps ! i))) = Some j"
      using owning_partition_iff [OF plain] paths f'(1) by blast
    moreover have "fl_partition_by_location fl1 = index_locations D ps" "fl_shared_locations fl1 = []"
      using fl(1,2) same_but_files_fields(1,2) [OF fl1] by (simp_all add: runs_over_def)
    moreover have "owns ps i f \<longleftrightarrow> j = i" using j(1) owns_unique [OF plain] by blast
    ultimately show ?thesis by (simp add: add_partition_file_def lift_op_def bind_op_def)
  qed
  ultimately show ?thesis
    unfolding files [symmetric] using fl(3) by (intro for_each_adds same_but_files_refl) auto
qed

lemma batch_files_added:
  assumes store: "plain_store D root ps store" and ok: "\<forall>i\<in>set is. i < length ps"
    and fl: "runs_over D info ps fl" "fl_locations_built fl" "holding fl P" "P \<subseteq> {(f, i). f \<in> set store \<and> owns ps i f}"
  shows "\<exists>fl'. for_each (\<lambda>(i, files). for_each (add_partition_file D ps reading i
        (length (comparable_location D (partition_directory D ps i)))) files)
      (zip is (map (\<lambda>i. filter (\<lambda>f. is_data_file D f (p_location (ps ! i) @ ''/''))
        (filter (\<lambda>f. prefix (p_location (ps ! i) @ ''/'') (of_path f)) store)) is)) () fl = (Inr (), fl') \<and>
    same_but_files fl fl' \<and> holding fl' (P \<union> partition_files D ps store is)"
  using ok fl
proof (induction "is" arbitrary: fl P)
  case Nil
  then show ?case by (simp add: return_op_def same_but_files_refl partition_files_def)
next
  case (Cons i "is")
  have i: "i < length ps" using Cons.prems(1) by simp
  then have "plain_location D (p_location (ps ! i))"
    using store by (simp add: plain_store_def locations_plain_def)
  then have dir: "comparable_location D (partition_directory D ps i) = p_location (ps ! i)"
    by (simp add: partition_directory_def plain_location_trim) (simp add: plain_location_def)
  from location_files_added [OF store i Cons.prems(2-5), of reading] obtain fl1
    where add: "for_each (add_partition_file D ps reading i (length (p_location (ps ! i))))
        (filter (\<lambda>f. is_data_file D f (p_location (ps ! i) @ ''/''))
          (filter (\<lambda>f. prefix (p_location (ps ! i) @ ''/'') (of_path f)) store)) () fl = (Inr (), fl1)"
      and same: "same_but_files fl fl1" and held: "holding fl1 (P \<union> partition_files D ps store [i])" by blast
  have "\<exists>fl'. for_each (\<lambda>(i, files). for_each (add_partition_file D ps reading i
        (length (comparable_location D (partition_directory D ps i)))) files)
      (zip is (map (\<lambda>i. filter (\<lambda>f. is_data_file D f (p_location (ps ! i) @ ''/''))
        (filter (\<lambda>f. prefix (p_location (ps ! i) @ ''/'') (of_path f)) store)) is)) () fl1 = (Inr (), fl') \<and>
    same_but_files fl1 fl' \<and> holding fl' ((P \<union> partition_files D ps store [i]) \<union> partition_files D ps store is)"
    using Cons.prems held runs_over_same_but_files [OF same] same_but_files_fields(3) [OF same]
    by (intro Cons.IH) (auto simp: partition_files_def)
  moreover have "(P \<union> partition_files D ps store [i]) \<union> partition_files D ps store is =
      P \<union> partition_files D ps store (i # is)"
    using partition_files_append [of D ps store "[i]" "is"] by (simp add: Un_assoc)
  ultimately show ?case
    using add same_but_files_trans [OF same] by (auto simp: bind_op_def dir)
qed

lemma list_partitions_files:
  assumes store: "plain_store D root ps store" and env: "lists_store env store"
    and ps: "hs_partitions info = Some ps"
    and ok: "\<forall>i\<in>set reading. i < length ps \<and> readable_partition D info (ps ! i)"
    and fl: "runs_over D info ps fl" "holding fl P" "P \<subseteq> {(f, i). f \<in> set store \<and> owns ps i f}"
  shows "\<exists>fl'. list_partitions D env reading fl = (Inr (), fl') \<and> runs_over D info ps fl' \<and>
    holding fl' (P \<union> partition_files D ps store reading) \<and> fl_all_files_expanded fl' = fl_all_files_expanded fl"
proof -
  have info: "shared_by (fl_info fl) = shared_by info" using fl(1) by (simp add: runs_over_def)
  note load = list_partitions_of_loaded [OF trans [OF shared_by_fields(1) [OF info] ps], of env]
  have counts: "check_each (\<lambda>i. check_value_count D (fl_info fl) (ps ! i)) reading = Inr ()"
    using ok by (simp add: check_each_Inr_iff shared_by_fields(4) [OF info] readable_partition_def)
  have "list_data_files D (le_listing env) c (partition_directory D ps i) =
      Inr (filter (\<lambda>f. is_data_file D f (p_location (ps ! i) @ ''/''))
        (filter (\<lambda>f. prefix (p_location (ps ! i) @ ''/'') (of_path f)) store))" if "i \<in> set reading" for i c
  proof -
    have "plain_location D (p_location (ps ! i))"
      using store ok that by (simp add: plain_store_def locations_plain_def)
    with env show ?thesis
      by (simp add: list_data_files_def partition_directory_def plain_location_trim lists_store_def Let_def)
        (simp add: plain_location_def)
  qed
  then have listed: "collect (\<lambda>i. list_data_files D (le_listing env) c (partition_directory D ps i)) reading =
      Inr (map (\<lambda>i. filter (\<lambda>f. is_data_file D f (p_location (ps ! i) @ ''/''))
        (filter (\<lambda>f. prefix (p_location (ps ! i) @ ''/'') (of_path f)) store)) reading)" for c
    by (rule collect_all_Inr)
  obtain fl1 where build: "build_partition_locations D env fl = (Inr (), fl1)"
    and fl1: "runs_over D info ps fl1" "fl_locations_built fl1" "holding fl1 P"
      "fl_all_files_expanded fl1 = fl_all_files_expanded fl"
    using build_partition_locations_runs [OF fl(1) ps _ fl(2), of env] store by (auto simp: plain_store_def)
  from batch_files_added [OF store _ fl1(1-3) fl(3), of reading reading] ok obtain fl'
    where "for_each (\<lambda>(i, files). for_each (add_partition_file D ps reading i
        (length (comparable_location D (partition_directory D ps i)))) files)
      (zip reading (map (\<lambda>i. filter (\<lambda>f. is_data_file D f (p_location (ps ! i) @ ''/''))
        (filter (\<lambda>f. prefix (p_location (ps ! i) @ ''/'') (of_path f)) store)) reading)) () fl1 = (Inr (), fl')"
      and "same_but_files fl1 fl'" "holding fl' (P \<union> partition_files D ps store reading)" by auto
  then show ?thesis
    using fl1 runs_over_same_but_files same_but_files_fields(5) [of fl1 fl']
    by (auto simp: list_partitions_def bind_op_def lift_op_def load counts listed build)
qed

lemma below_plain:
  assumes "below D root l"
  shows "\<exists>a. l = root @ ''/'' @ a \<and> a \<noteq> []"
proof -
  have "prefix (root @ ''/'') l" "length l > length root + 1" using assms by (auto simp: below_def StartsWith)
  then show ?thesis by (auto simp: prefix_def)
qed

lemma list_root_files:
  assumes store: "plain_store D root ps store" and env: "lists_store env store"
    and info: "hs_partitions info = Some ps" "hs_root_location info = root"
    and ok: "\<forall>i\<in>set reading. i < length ps \<and> readable_partition D info (ps ! i) \<and> listed_with_root D root ps i"
    and fl: "runs_over D info ps fl" "holding fl P" "P \<subseteq> {(f, i). f \<in> set store \<and> owns ps i f}"
  shows "\<exists>fl'. list_root D env reading fl = (Inr (), fl') \<and> runs_over D info ps fl' \<and>
    holding fl' (P \<union> partition_files D ps store reading) \<and> fl_all_files_expanded fl' = fl_all_files_expanded fl"
proof -
  have plain: "locations_plain D ps" and paths: "\<forall>f\<in>set store. plain_location D (of_path f)"
    and shown: "\<forall>i<length ps. listed_with_root D root ps i \<longrightarrow> shown_below root (p_location (ps ! i))"
    using store by (auto simp: plain_store_def)
  have shared: "shared_by (fl_info fl) = shared_by info" using fl(1) by (simp add: runs_over_def)
  have root: "RTrimChars D root ''/'' = root" "comparable_location D root = root" "root \<noteq> []"
    using store plain_location_trim by (auto simp: plain_store_def plain_location_def)
  have root': "RTrimChars D (hs_root_location (fl_info fl)) ''/'' = root"
    using shared_by_fields(3) [OF shared] info(2) root(1) by simp
  note load = list_partitions_of_loaded [OF trans [OF shared_by_fields(1) [OF shared] info(1)], of env]
  have counts: "check_each (\<lambda>i. check_value_count D (fl_info fl) (ps ! i)) reading = Inr ()"
    using ok by (simp add: check_each_Inr_iff shared_by_fields(4) [OF shared] readable_partition_def)
  obtain fl1 where build: "build_partition_locations D env fl = (Inr (), fl1)"
    and fl1: "runs_over D info ps fl1" "fl_locations_built fl1" "holding fl1 P"
      "fl_all_files_expanded fl1 = fl_all_files_expanded fl"
    using build_partition_locations_runs [OF fl(1) info(1) plain fl(2), of env] by auto
  let ?files = "filter (\<lambda>f. is_data_file D f (root @ ''/'')) (filter (\<lambda>f. prefix (root @ ''/'') (of_path f)) store)"
  define owner where "owner f = (case owning_partition D (index_locations D ps) (of_path f) (length root + 1) of
      None \<Rightarrow> None | Some i \<Rightarrow> if i \<in> set reading then Some i else None)" for f :: open_file
  have owner: "owner f = Some i \<longleftrightarrow> i \<in> set reading \<and> owns ps i f" if "f \<in> set store" for f i
  proof -
    have long: "length root + 1 \<le> length (p_location (ps ! i))" if "i \<in> set reading"
      using ok that location_of_plain [OF plain]
      by (fastforce simp: listed_with_root_def below_def location_of_def)
    have "comparable_location D (of_path f) = of_path f"
      using paths \<open>f \<in> set store\<close> by (simp add: plain_location_def)
    note own = owning_partition_iff [OF plain this, of "length root + 1"]
    have "owner f = Some i \<longleftrightarrow> i \<in> set reading \<and>
        owning_partition D (index_locations D ps) (of_path f) (length root + 1) = Some i"
      by (cases "owning_partition D (index_locations D ps) (of_path f) (length root + 1)") (auto simp: owner_def)
    then show ?thesis using own long by blast
  qed
  have files: "{(f, i). f \<in> set ?files \<and> owner f = Some i} = partition_files D ps store reading" (is "?A = ?B")
  proof -
    have "is_data_file D f (root @ ''/'') \<longleftrightarrow> is_data_file D f (p_location (ps ! i) @ ''/'')"
      and "prefix (root @ ''/'') (of_path f)" if f: "f \<in> set store" and i: "i \<in> set reading" "owns ps i f" for f i
    proof -
      have lt: "i < length ps" and with_root: "listed_with_root D root ps i" using ok i(1) by auto
      then obtain a where a: "p_location (ps ! i) = root @ ''/'' @ a"
        using below_plain [of root] location_of_plain [OF plain lt] by (auto simp: listed_with_root_def location_of_def)
      have "\<not> list_ex hidden_component (split_chars CHR ''/'' a)"
        using shown [rule_format, OF lt with_root] by (simp add: shown_below_def a)
      with is_data_file_below [OF _ a, of f] f i(2) paths
      show "is_data_file D f (root @ ''/'') \<longleftrightarrow> is_data_file D f (p_location (ps ! i) @ ''/'')"
        by (simp add: owns_def)
      show "prefix (root @ ''/'') (of_path f)" using i(2) a by (auto simp: owns_def holds_def prefix_def)
    qed
    then show ?thesis using owner by (auto simp: partition_files_def)
  qed
  have step: "add_root_file D ps reading (length root + 1) f u fl2 =
      (Inr (), case owner f of Some i \<Rightarrow> add_file f i fl2 | None \<Rightarrow> fl2)"
    if "same_but_files fl1 fl2" for f u fl2
    using fl1(1,2) same_but_files_fields(1,2) [OF that]
    by (simp add: add_root_file_def runs_over_def owner_def bind_op_def lift_op_def split: option.splits)
  have "one_partition (P \<union> partition_files D ps store reading)"
    using fl(3) by (intro one_partition_subset [OF owned_once [OF store]]) (auto simp: partition_files_def)
  then have "\<exists>fl'. for_each (add_root_file D ps reading (length root + 1)) ?files () fl1 = (Inr (), fl') \<and>
      same_but_files fl1 fl' \<and> holding fl' (P \<union> partition_files D ps store reading)"
    using fl1(3) step unfolding files [symmetric] by (intro for_each_adds same_but_files_refl) auto
  then show ?thesis
    using fl1 runs_over_same_but_files same_but_files_fields(5) [of fl1] env root(2,3)
    by (auto simp: list_root_def Let_def root' bind_op_def lift_op_def load counts build lists_store_def)
qed

end

subsection \<open>The plan\<close>

lemma plan_covers:
  "mset (concat (map job_partitions (plan_jobs D env root ps indexes))) = mset indexes"
proof -
  have jobs: "map job_partitions (map (ListingJob b) xss) = xss" for b xss by (induction xss) auto
  have together: "0 < partitions_listed_together env" by (simp add: partitions_listed_together_def)
  have "mset (filter P indexes @ filter (\<lambda>i. \<not> P i) indexes) = mset indexes" for P
    by (induction indexes) auto
  then show ?thesis
    by (simp add: plan_jobs_def Let_def jobs concat_batches [OF together] del: map_map)
qed

lemma plan_root_jobs:
  "job \<in> set (plan_jobs D env root ps indexes) \<Longrightarrow> job_root job
     \<Longrightarrow> i \<in> set (job_partitions job) \<Longrightarrow> listed_with_root D root ps i"
  by (auto simp: plan_jobs_def Let_def split: if_splits)

lemma shared_by_loaded:
  "check_value_count D (info\<lparr>hs_partitions := x\<rparr>) p = check_value_count D info p"
  "verify_consistent_partition_serde D (info\<lparr>hs_partitions := x\<rparr>) p = verify_consistent_partition_serde D info p"
  by (simp_all add: check_value_count_def describe_scan_def verify_consistent_partition_serde_def
    partition_storage_mismatch_def partition_spec_def stored_as_def other_storage_def
    cong: if_cong option.case_cong)

definition indexes_of :: "GluePartitionInfo list \<Rightarrow> nat list option \<Rightarrow> nat list" where
  "indexes_of ps indexes = (case indexes of None \<Rightarrow> [0..<length ps] | Some is \<Rightarrow> is)"

lemma plan_listings_first:
  assumes "fst (scan_partitions (le_fetched env) info) = Inr ps" and "hs_partition_keys info \<noteq> []"
  shows "plan_listings D env (new_file_list info indexes) =
    (Inr (), (new_file_list (info\<lparr>hs_partitions := Some ps\<rparr>) (Some (indexes_of ps indexes)))
       \<lparr>fl_planned := True, fl_listing_jobs := plan_jobs D env (comparable_location D (hs_root_location info)) ps
          (indexes_of ps indexes)\<rparr>)"
proof -
  have "scan_partitions (le_fetched env) info = (Inr ps, info\<lparr>hs_partitions := Some ps\<rparr>)"
  proof (cases "hs_partitions info")
    case None
    with assms(1) show ?thesis
      by (cases "hs_partition_keys info = [] \<or> hs_catalog_name info = []"; cases "le_fetched env")
        (simp_all add: scan_partitions_def)
  next
    case (Some qs)
    with assms(1) have "hs_partitions info = Some ps" by (simp add: scan_partitions_def)
    then show ?thesis by (simp add: scan_partitions_def)
  qed
  then have load: "list_partitions_of env ((new_file_list info indexes)\<lparr>fl_planned := True\<rparr>) =
      (Inr ps, (new_file_list (info\<lparr>hs_partitions := Some ps\<rparr>) indexes)\<lparr>fl_planned := True\<rparr>)"
    by (simp add: list_partitions_of_def on_info_def new_file_list_def)
  have "plan_listings D env (new_file_list info indexes) =
      bind_op (list_partitions_of env) (\<lambda>ps. bind_op (partition_indexes env) (\<lambda>indexes fl1.
          (Inr (), fl1\<lparr>fl_listing_jobs := fl_listing_jobs fl1 @
             plan_jobs D env (comparable_location D (hs_root_location (fl_info fl1))) ps indexes\<rparr>)))
        ((new_file_list info indexes)\<lparr>fl_planned := True\<rparr>)"
    using assms(2) by (simp add: plan_listings_def new_file_list_def)
  also have "\<dots> = (Inr (), (new_file_list (info\<lparr>hs_partitions := Some ps\<rparr>) (Some (indexes_of ps indexes)))
       \<lparr>fl_planned := True, fl_listing_jobs := plan_jobs D env (comparable_location D (hs_root_location info)) ps
          (indexes_of ps indexes)\<rparr>)"
    unfolding bind_op_def load
    by (cases indexes) (simp_all add: partition_indexes_def bind_op_def indexes_of_def new_file_list_def
      list_partitions_of_def on_info_def scan_partitions_def)
  finally show ?thesis .
qed

subsection \<open>All listings\<close>

lemma held_files_bounded:
  assumes "holding fl P" "P \<subseteq> {(f, i). f \<in> set store \<and> owns ps i f}"
  shows "length (fl_expanded_files fl) \<le> length store"
proof -
  have "distinct (fl_expanded_files fl)" using assms(1) by (auto simp: holding_def distinct_map)
  moreover have "set (fl_expanded_files fl) \<subseteq> set store" using assms by (auto simp: holding_def)
  ultimately show ?thesis
    by (metis List.finite_set card_length card_mono distinct_card le_trans)
qed

context string_util
begin

lemma run_job_files:
  assumes store: "plain_store D (hs_root_location info) ps store" and env: "lists_store env store"
    and info: "hs_partitions info = Some ps" "hs_partition_keys info \<noteq> []"
    and ok: "\<forall>i\<in>set (job_partitions job). i < length ps \<and> readable_partition D info (ps ! i) \<and>
      (job_root job \<longrightarrow> listed_with_root D (hs_root_location info) ps i)"
    and fl: "runs_over D info ps fl" "holding fl P" "P \<subseteq> {(f, i). f \<in> set store \<and> owns ps i f}"
  shows "\<exists>fl'. run_job D env job fl = (Inr (), fl') \<and> runs_over D info ps fl' \<and> plan_of fl' = plan_of fl \<and>
    holding fl' (P \<union> partition_files D ps store (job_partitions job)) \<and>
    fl_all_files_expanded fl' = fl_all_files_expanded fl"
proof -
  have shared: "shared_by (fl_info fl) = shared_by info" using fl(1) by (simp add: runs_over_def)
  note load = list_partitions_of_loaded [OF trans [OF shared_by_fields(1) [OF shared] info(1)], of env]
  have keys: "hs_partition_keys (fl_info fl) \<noteq> []" using shared_by_fields(2) [OF shared] info(2) by simp
  have verified: "check_each (\<lambda>i. verify_consistent_partition_serde D (fl_info fl) (ps ! i)) (job_partitions job) = Inr ()"
    using ok by (simp add: check_each_Inr_iff shared_by_fields(5) [OF shared] readable_partition_def)
  have "run_job D env job fl =
      (if job_root job then list_root D env else list_partitions D env) (job_partitions job) fl"
    using keys by (simp add: run_job_def bind_op_def load lift_op_def verified)
  moreover have "\<exists>fl'. (if job_root job then list_root D env else list_partitions D env) (job_partitions job) fl = (Inr (), fl') \<and>
    runs_over D info ps fl' \<and> holding fl' (P \<union> partition_files D ps store (job_partitions job)) \<and>
    fl_all_files_expanded fl' = fl_all_files_expanded fl"
    using list_root_files [OF store env info(1) refl _ fl, of "job_partitions job"]
      list_partitions_files [OF store env info(1) _ fl, of "job_partitions job"] ok by auto
  moreover have "plan_of (snd (run_job D env job fl)) = plan_of fl" by (rule plan_run_job)
  ultimately show ?thesis by auto
qed

lemma expand_planned:
  assumes store: "plain_store D (hs_root_location info) ps store" and env: "lists_store env store"
    and info: "hs_partitions info = Some ps" "hs_partition_keys info \<noteq> []"
    and running: "\<forall>k. \<not> le_interrupted env k" and n: "length store < n"
    and jobs: "\<forall>job\<in>set jobs. \<forall>i\<in>set (job_partitions job). i < length ps \<and> readable_partition D info (ps ! i) \<and>
      (job_root job \<longrightarrow> listed_with_root D (hs_root_location info) ps i)"
    and fl: "runs_over D info ps fl" "holding fl P" "P \<subseteq> {(f, i). f \<in> set store \<and> owns ps i f}"
    and plan: "plan_of fl = (True, done @ jobs, length done)" "\<not> fl_all_files_expanded fl"
  shows "\<exists>fl'. expand_until D env n fl = (Inr (), fl') \<and> runs_over D info ps fl' \<and> fl_all_files_expanded fl' \<and>
    holding fl' (P \<union> partition_files D ps store (concat (map job_partitions jobs)))"
  using jobs fl plan
proof (induction jobs arbitrary: "done" fl P)
  case Nil
  have few: "\<not> n \<le> length (fl_expanded_files fl)" using held_files_bounded [OF Nil.prems(3,4)] n by simp
  have "plan_listings D env fl = (Inr (), fl)" using Nil.prems(5) by (simp add: plan_of_def plan_listings_again)
  then have "expand_next_path D env fl = (Inr False, fl)"
    using Nil.prems(5) by (simp add: expand_next_path_def bind_op_def plan_of_def)
  then have "expand_until D env n fl = (Inr (), fl\<lparr>fl_all_files_expanded := True\<rparr>)"
    using few running Nil.prems(6) by (subst expand_until.simps) simp
  with Nil.prems(2,3) show ?case by (simp add: runs_over_def holding_def partition_files_def)
next
  case (Cons job jobs)
  have few: "\<not> n \<le> length (fl_expanded_files fl)" using held_files_bounded [OF Cons.prems(3,4)] n by simp
  let ?fl = "fl\<lparr>fl_next_job := fl_next_job fl + 1\<rparr>"
  have plan: "fl_planned fl" "fl_listing_jobs fl ! fl_next_job fl = job" "fl_next_job fl < length (fl_listing_jobs fl)"
    "plan_of ?fl = (True, (done @ [job]) @ jobs, length (done @ [job]))"
    using Cons.prems(5) by (auto simp: plan_of_def)
  have "runs_over D info ps ?fl" "holding ?fl P" using Cons.prems(2,3) by (simp_all add: runs_over_def holding_def)
  from run_job_files [OF store env info _ this Cons.prems(4), of job] Cons.prems(1) obtain fl1
    where run: "run_job D env job ?fl = (Inr (), fl1)" and fl1: "runs_over D info ps fl1" "plan_of fl1 = plan_of ?fl"
      "holding fl1 (P \<union> partition_files D ps store (job_partitions job))"
      "fl_all_files_expanded fl1 = fl_all_files_expanded ?fl" by auto
  have "expand_next_path D env fl = (Inr True, fl1)"
    using plan run by (simp add: expand_next_path_def bind_op_def plan_listings_again return_op_def)
  then have step: "expand_until D env n fl = expand_until D env n fl1"
    using few running Cons.prems(6) by (subst expand_until.simps) simp
  have "\<exists>fl'. expand_until D env n fl1 = (Inr (), fl') \<and> runs_over D info ps fl' \<and> fl_all_files_expanded fl' \<and>
    holding fl' ((P \<union> partition_files D ps store (job_partitions job)) \<union>
      partition_files D ps store (concat (map job_partitions jobs)))"
    using Cons.prems(1,4,6) fl1 plan(4) by (intro Cons.IH [of fl1 _ "done @ [job]"]) (auto simp: partition_files_def)
  then show ?case unfolding step by (simp add: partition_files_append Un_assoc)
qed

end

lemma plan_jobs_cases:
  assumes "job \<in> set (plan_jobs D env root ps indexes)"
  obtains (root) "job = ListingJob True (filter (listed_with_root D root ps) indexes)"
      "filter (listed_with_root D root ps) indexes \<noteq> []"
    | (batch) xs b where "b \<in> set (batches (partitions_listed_together env) xs)" "job = ListingJob False b"
  using assms by (auto simp: plan_jobs_def Let_def split: if_splits)

subsection \<open>Properties\<close>

text \<open>The data files of the partitions read: those of which one of them is the owner.\<close>

definition files_to_read ::
  "duckdb \<Rightarrow> GluePartitionInfo list \<Rightarrow> nat list \<Rightarrow> open_file list \<Rightarrow> open_file list" where
  "files_to_read D ps reading store = filter (\<lambda>f.
     list_ex (\<lambda>i. owns ps i f \<and> is_data_file D f (p_location (ps ! i) @ ''/'')) reading) store"

lemma files_to_read_partition_files: "set (files_to_read D ps reading store) = fst ` partition_files D ps store reading"
  by (force simp: files_to_read_def partition_files_def list_ex_iff)


text \<open>A table of four partitions: two below its root, one below the first of them, one elsewhere.\<close>

definition sample_scan_partition :: "string \<Rightarrow> string \<Rightarrow> GluePartitionInfo" where
  "sample_scan_partition value location = \<lparr> p_values = [value], p_location = location, p_input_format = [],
     p_serde_library = [], p_serde_parameters = [], p_partition_columns = [] \<rparr>"

definition sample_scan :: HiveScanInfo where
  "sample_scan = \<lparr> hs_catalog_name = [], hs_database_name = ''db'', hs_table_name = ''t'', hs_table = None,
     hs_root_location = ''s3://b/t'', hs_names = [''id'', ''p''], hs_types = [BIGINT, VARCHAR],
     hs_file_format = PARQUET,
     hs_csv_options = \<lparr> delimiter = '','', quote = [], escape = [], skip_lines = 0, null_string = [],
       serde_fields = False, null_for_invalid_data = False, false_unless_true = False, field_escape = [],
       epoch_fields = False \<rparr>,
     hs_json_options = new_json_options, hs_partition_keys = [''p''], hs_file_partitions = [],
     hs_partitions = Some [sample_scan_partition ''1'' ''s3://b/t/p=1'', sample_scan_partition ''2'' ''s3://b/t/p=2'',
       sample_scan_partition ''3'' ''s3://b/t/p=1/p=3'', sample_scan_partition ''4'' ''s3://b/u''] \<rparr>"

definition sample_store :: "open_file list" where
  "sample_store = map (\<lambda>(p, n). \<lparr> of_path = p, of_size = n \<rparr>)
     [(''s3://b/t/p=1/a'', Some 9), (''s3://b/t/p=1/_SUCCESS'', Some 1), (''s3://b/t/p=1/p=3/b'', None),
      (''s3://b/t/p=2/c'', Some 9), (''s3://b/t/p=2/d'', Some 0), (''s3://b/t/p=5/e'', Some 9),
      (''s3://b/u/f'', Some 9)]"

definition sample_listing :: "nat option \<Rightarrow> nat \<Rightarrow> open_file list \<Rightarrow> listing_env" where
  "sample_listing threshold threads store = \<lparr>
     le_settings = sample_settings\<lparr>set_partition_listing_threshold := threshold\<rparr>, le_threads = threads,
     le_listing = (\<lambda>keep d. Inr (filter (\<lambda>f. prefix (d @ ''/'') (of_path f)) store)),
     le_fetched = Inr [], le_interrupted = (\<lambda>k. False) \<rparr>"


text \<open>
  The plan lists every partition to read in one listing and no other partition; only the first
  listing can be of the root, and it takes partitions below the root only; a batch lists no more
  partitions than are listed together, and never none.
\<close>

theorem plan_lists_each_partition_once:
  "mset (concat (map job_partitions (plan_jobs D env root ps indexes))) = mset indexes \<and>
   list_all (\<lambda>job. \<not> job_root job) (tl (plan_jobs D env root ps indexes)) \<and>
   list_all (\<lambda>job. job_partitions job \<noteq> [] \<and>
     (if job_root job then list_all (listed_with_root D root ps) (job_partitions job)
      else length (job_partitions job) \<le> max 1 (le_threads env))) (plan_jobs D env root ps indexes)"
proof (intro conjI plan_covers)
  show "list_all (\<lambda>job. \<not> job_root job) (tl (plan_jobs D env root ps indexes))"
    by (auto simp: plan_jobs_def Let_def list_all_iff map_tl [symmetric])
  show "list_all (\<lambda>job. job_partitions job \<noteq> [] \<and>
     (if job_root job then list_all (listed_with_root D root ps) (job_partitions job)
      else length (job_partitions job) \<le> max 1 (le_threads env))) (plan_jobs D env root ps indexes)"
    unfolding list_all_iff
  proof
    fix job assume "job \<in> set (plan_jobs D env root ps indexes)"
    then show "job_partitions job \<noteq> [] \<and>
     (if job_root job then \<forall>x\<in>set (job_partitions job). listed_with_root D root ps x
      else length (job_partitions job) \<le> max 1 (le_threads env))"
    proof (cases rule: plan_jobs_cases)
      case (batch xs b)
      then show ?thesis using batches_sound [of b _ xs] by (auto simp: partitions_listed_together_def)
    qed auto
  qed
qed

text \<open>
  A partition registered below a hidden directory of the table root (\<open>_p=2\<close>) loses its files
  when the plan lists the root and keeps them when it lists the partition, so a scan's result depends
  on a setting that only chooses between requests.
\<close>

theorem hidden_partition_depends_on_plan:
  "fst (get_file_count ascii_duckdb (sample_listing (Some 1) 8 [\<lparr>of_path = ''s3://b/t/_p=2/c'', of_size = Some 9\<rparr>]) 9
     (new_file_list (sample_scan\<lparr>hs_partitions := Some [sample_scan_partition ''2'' ''s3://b/t/_p=2'']\<rparr>) None)) = Inr (0, True) \<and>
   fst (get_file_count ascii_duckdb (sample_listing (Some 2) 8 [\<lparr>of_path = ''s3://b/t/_p=2/c'', of_size = Some 9\<rparr>]) 9
     (new_file_list (sample_scan\<lparr>hs_partitions := Some [sample_scan_partition ''2'' ''s3://b/t/_p=2'']\<rparr>) None)) = Inr (1, True)"
  by code_simp

end
