(* ===== verification/Partition_Pruning.thy ===== *)
theory Partition_Pruning
  imports Partition_Listing
begin

text \<open>
  Pruning the partitions of a scan by the filters of a query
  (\<open>HiveMultiFileReader::ComplexFilterPushdown\<close>, \<open>HiveMultiFileList::DynamicFilterPushdown\<close> of
  src/planning/hive_multi_file_reader.cpp). DuckDB's expressions are trees of column references,
  constants and operations; evaluating one is DuckDB's.
\<close>

subsection \<open>Expressions\<close>

text \<open>A column reference: table index, column index in the projection, depth, type.\<close>

datatype expr =
    ColumnRef nat nat nat LogicalType
  | Constant Value
  | Operation string "expr list"

text \<open>
  \<open>Evaluate e\<close> is the value of \<open>TryEvaluateScalar\<close>, \<open>None\<close> when the expression is not scalar, not
  foldable or fails; \<open>ExpressionString\<close> is \<open>ToString\<close>; \<open>EvaluateWithConstant\<close> is the method of a table
  filter.
\<close>

record expressions =
  Evaluate :: "expr \<Rightarrow> Value option"
  ExpressionString :: "expr \<Rightarrow> string"
  EvaluateWithConstant :: "expr \<Rightarrow> Value \<Rightarrow> bool"

text \<open>\<open>GetValue<bool>\<close> of a filter's value.\<close>

definition value_bool :: "duckdb \<Rightarrow> Value \<Rightarrow> bool" where
  "value_bool D v = (TryCastAs D BOOLEAN v = Some (BoolV True))"

definition filter_true :: "duckdb \<Rightarrow> Value \<Rightarrow> bool" where
  "filter_true D v \<longleftrightarrow> \<not> value_is_null v \<and> value_bool D v"

text \<open>Element access of DuckDB's \<open>vector\<close>, which checks the index.\<close>

definition vector_at :: "'a list \<Rightarrow> nat \<Rightarrow> 'a result" where
  "vector_at xs i = (if i < length xs then Inr (xs ! i)
     else Inl (InternalException ''Attempted to access index within vector'' []))"

subsection \<open>Partition columns\<close>

text \<open>
  A \<open>column_t\<close> is the index of a column or, from \<open>VIRTUAL_COLUMN_START\<close> on, a virtual column, which is
  named here by what is above that start; \<open>IsVirtualColumn\<close> tells the two apart.
\<close>

datatype column_id = Column nat | VirtualColumn nat

text \<open>A \<open>PartitionKeyProjection\<close>: the projected column index and the partition key index.\<close>

type_synonym key_projection = "nat \<times> nat"

definition partition_key_projections ::
  "duckdb \<Rightarrow> HiveScanInfo \<Rightarrow> column_id list \<Rightarrow> string list \<Rightarrow> key_projection list" where
  "partition_key_projections D info column_ids column_names =
     List.map_filter (\<lambda>i. case column_ids ! i of
         VirtualColumn v \<Rightarrow> None
       | Column c \<Rightarrow> map_option (\<lambda>k. (i, k)) (get_partition_key_index D info (column_names ! c)))
     [0..<length column_ids]"

text \<open>\<open>ReplacePartitionColumnRefs\<close>.\<close>

fun replace_partition_column_refs ::
  "duckdb \<Rightarrow> nat \<Rightarrow> key_projection list \<Rightarrow> string list \<Rightarrow> GluePartitionInfo \<Rightarrow> expr \<Rightarrow> expr result" where
  "replace_partition_column_refs D ti projections keys p (ColumnRef t c d ty) =
     (if t \<noteq> ti then Inr (ColumnRef t c d ty)
      else case find (\<lambda>(column, key). column = c) projections of
        None \<Rightarrow> Inr (ColumnRef t c d ty)
      | Some (column, key) \<Rightarrow>
          and_then (vector_at (p_values p) key) (\<lambda>str.
          and_then (partition_value D (keys ! key) str ty) (\<lambda>v. Inr (Constant v))))"
| "replace_partition_column_refs D ti projections keys p (Constant v) = Inr (Constant v)"
| "replace_partition_column_refs D ti projections keys p (Operation f es) =
     and_then (collect (replace_partition_column_refs D ti projections keys p) es) (\<lambda>es'. Inr (Operation f es'))"

text \<open>
  The filters for one partition, from number \<open>n\<close>: the partition is kept with the filters that are true
  of it, or dropped by the first filter that is not.
\<close>

datatype verdict = Keep "nat list" | Drop nat

fun check_filters ::
  "duckdb \<Rightarrow> expressions \<Rightarrow> nat \<Rightarrow> key_projection list \<Rightarrow> string list \<Rightarrow> GluePartitionInfo \<Rightarrow> nat \<Rightarrow> expr list \<Rightarrow> verdict result" where
  "check_filters D E ti projections keys p n [] = Inr (Keep [])"
| "check_filters D E ti projections keys p n (f # fs) =
     and_then (replace_partition_column_refs D ti projections keys p f) (\<lambda>f'.
       case Evaluate E f' of
         None \<Rightarrow> check_filters D E ti projections keys p (n + 1) fs
       | Some v \<Rightarrow>
           if value_is_null v \<or> \<not> value_bool D v then Inr (Drop n)
           else and_then (check_filters D E ti projections keys p (n + 1) fs) (\<lambda>verdict.
             Inr (case verdict of Keep true_here \<Rightarrow> Keep (n # true_here) | Drop k \<Rightarrow> Drop k)))"

definition true_here :: "nat \<Rightarrow> verdict \<Rightarrow> bool" where
  "true_here n verdict = (case verdict of Keep ns \<Rightarrow> n \<in> set ns | Drop k \<Rightarrow> False)"

definition is_kept :: "verdict \<Rightarrow> bool" where
  "is_kept verdict = (case verdict of Keep ns \<Rightarrow> True | Drop k \<Rightarrow> False)"

text \<open>\<open>PartitionsToRead\<close>: the partitions kept, the pruning filters and the decided filters.\<close>

definition partitions_to_read ::
  "duckdb \<Rightarrow> expressions \<Rightarrow> nat \<Rightarrow> key_projection list \<Rightarrow> string list \<Rightarrow> GluePartitionInfo list \<Rightarrow> nat list \<Rightarrow> expr list
     \<Rightarrow> (nat list \<times> nat list \<times> nat list) result" where
  "partitions_to_read D E ti projections keys ps candidates filters =
     and_then (collect (\<lambda>i. check_filters D E ti projections keys (ps ! i) 0 filters) candidates) (\<lambda>verdicts.
       let kept = map fst (filter (\<lambda>(i, verdict). is_kept verdict) (zip candidates verdicts));
           pruning = filter (\<lambda>n. Drop n \<in> set verdicts) [0..<length filters];
           decided = filter (\<lambda>n. kept \<noteq> [] \<and> length (filter (true_here n) verdicts) = length kept) [0..<length filters]
       in Inr (kept, pruning, decided))"

subsection \<open>What the plan is told\<close>

text \<open>A \<open>ColumnIndex\<close> as far as the retained filters ask: whether it is virtual, a pushed extract or
  typed, and its primary index.\<close>

record column_index =
  ci_virtual :: bool
  ci_extract :: bool
  ci_typed :: bool
  ci_primary :: nat

record pushdown_info =
  pi_table_index :: nat
  pi_column_ids :: "column_id list"
  pi_column_names :: "string list"
  pi_column_indexes :: "column_index list"
  pi_file_filters :: string
  pi_retained :: "expr list option"
  pi_total_files :: "nat option"
  pi_filtered_files :: "nat option"

definition add_pruning_filters :: "expressions \<Rightarrow> expr list \<Rightarrow> nat list \<Rightarrow> string \<Rightarrow> string" where
  "add_pruning_filters E filters pruning file_filters =
     fold (\<lambda>n s. if n \<in> set pruning
                  then (if s = [] then s else s @ '' AND '') @ ExpressionString E (filters ! n) else s)
       [0..<length filters] file_filters"

definition representable_column :: "pushdown_info \<Rightarrow> nat \<Rightarrow> nat \<Rightarrow> nat \<Rightarrow> bool" where
  "representable_column info t c d \<longleftrightarrow>
     d = 0 \<and> t = pi_table_index info \<and> c < length (pi_column_indexes info) \<and>
     \<not> ci_virtual (pi_column_indexes info ! c) \<and> \<not> ci_extract (pi_column_indexes info ! c) \<and>
     \<not> ci_typed (pi_column_indexes info ! c)"

text \<open>The filter over the scan's columns, \<open>None\<close> when it is not representable; \<open>file_filter_table\<close> is the
  index DuckDB gives such filters.\<close>

fun over_scan_columns :: "nat \<Rightarrow> pushdown_info \<Rightarrow> expr \<Rightarrow> expr option" where
  "over_scan_columns file_filter_table info (ColumnRef t c d ty) =
     (if representable_column info t c d
      then Some (ColumnRef file_filter_table (ci_primary (pi_column_indexes info ! c)) d ty) else None)"
| "over_scan_columns file_filter_table info (Constant v) = Some (Constant v)"
| "over_scan_columns file_filter_table info (Operation f es) =
     (let es' = map (over_scan_columns file_filter_table info) es in
      if None \<in> set es' then None else Some (Operation f (map the es')))"

definition retain_file_filter :: "nat \<Rightarrow> pushdown_info \<Rightarrow> expr \<Rightarrow> pushdown_info" where
  "retain_file_filter file_filter_table info f = (case pi_retained info of
     None \<Rightarrow> info
   | Some retained \<Rightarrow> (case over_scan_columns file_filter_table info f of
       None \<Rightarrow> info\<lparr>pi_retained := None\<rparr>
     | Some f' \<Rightarrow> info\<lparr>pi_retained := Some (retained @ [f'])\<rparr>))"

subsection \<open>The pushdowns\<close>

text \<open>
  \<open>ComplexFilterPushdown\<close> on a file list: the new list, \<open>None\<close> when the list stays, with the filters that
  remain in the plan and what the plan is told.
\<close>

definition complex_filter_pushdown ::
  "duckdb \<Rightarrow> expressions \<Rightarrow> nat \<Rightarrow> listing_env \<Rightarrow> pushdown_info \<Rightarrow> expr list
     \<Rightarrow> (file_list, file_list option \<times> expr list \<times> pushdown_info) comp" where
  "complex_filter_pushdown D E file_filter_table env info filters fl =
     (let keys = hs_partition_keys (fl_info fl);
          projections = partition_key_projections D (fl_info fl) (pi_column_ids info) (pi_column_names info) in
      if keys = [] \<or> filters = [] then (Inr (None, filters, info), fl)
      else if projections = [] then (Inr (None, filters, info), fl)
      else
        bind_op (partition_indexes env) (\<lambda>candidates.
        bind_op (list_partitions_of env) (\<lambda>ps.
        bind_op (lift_op (partitions_to_read D E (pi_table_index info) projections keys ps candidates filters))
          (\<lambda>(kept, pruning, decided) fl.
            let info1 = info\<lparr>pi_file_filters := add_pruning_filters E filters pruning (pi_file_filters info)\<rparr>;
                info2 = (if pi_total_files info = None then info1\<lparr>pi_retained := Some []\<rparr> else info1);
                remaining = map (nth filters) (filter (\<lambda>n. n \<notin> set decided) [0..<length filters]);
                info3 = fold (\<lambda>n i. retain_file_filter file_filter_table i (filters ! n))
                          (filter (\<lambda>n. n \<in> set decided) [0..<length filters]) info2;
                info4 = info3\<lparr>pi_total_files := Some (length candidates), pi_filtered_files := Some (length kept)\<rparr>
            in (Inr (if length kept = length candidates then None else Some (new_file_list (fl_info fl) (Some kept)),
                     remaining, info4), fl)))) fl)"

text \<open>
  \<open>DynamicFilterPushdown\<close>: \<open>filters\<close> are the table filters by position in \<open>column_indexes\<close> with the
  type of their column, given by its primary index.
\<close>

definition key_filters ::
  "duckdb \<Rightarrow> HiveScanInfo \<Rightarrow> column_id list \<Rightarrow> string list \<Rightarrow> LogicalType list \<Rightarrow> (nat \<times> expr) list \<Rightarrow> (expr \<times> nat \<times> LogicalType) list" where
  "key_filters D info column_indexes column_names column_types filters =
     List.map_filter (\<lambda>(position, f). case column_indexes ! position of
         VirtualColumn v \<Rightarrow> None
       | Column c \<Rightarrow> map_option (\<lambda>k. (f, k, column_types ! c)) (get_partition_key_index D info (column_names ! c)))
     filters"

fun passes_key_filters ::
  "duckdb \<Rightarrow> expressions \<Rightarrow> string list \<Rightarrow> GluePartitionInfo \<Rightarrow> (expr \<times> nat \<times> LogicalType) list \<Rightarrow> bool result" where
  "passes_key_filters D E keys p [] = Inr True"
| "passes_key_filters D E keys p ((f, k, ty) # fs) =
     and_then (vector_at (p_values p) k) (\<lambda>str.
     and_then (partition_value D (keys ! k) str ty) (\<lambda>v.
       if \<not> EvaluateWithConstant E f v then Inr False else passes_key_filters D E keys p fs))"

definition dynamic_filter_pushdown ::
  "duckdb \<Rightarrow> expressions \<Rightarrow> listing_env \<Rightarrow> column_id list \<Rightarrow> string list \<Rightarrow> LogicalType list \<Rightarrow> (nat \<times> expr) list
     \<Rightarrow> (file_list, file_list option) comp" where
  "dynamic_filter_pushdown D E env column_indexes column_names column_types filters fl =
     (let info = fl_info fl; fs = key_filters D info column_indexes column_names column_types filters in
      if hs_partition_keys info = [] \<or> filters = [] then (Inr None, fl)
      else if fs = [] then (Inr None, fl)
      else
        bind_op (partition_indexes env) (\<lambda>candidates.
        bind_op (list_partitions_of env) (\<lambda>ps.
        bind_op (lift_op (collect (\<lambda>i. passes_key_filters D E (hs_partition_keys info) (ps ! i) fs) candidates))
          (\<lambda>passed fl.
            let kept = map fst (filter snd (zip candidates passed)) in
            (Inr (if length kept = length candidates then None
                  else Some (new_file_list (fl_info fl) (Some kept))), fl)))) fl)"

subsection \<open>What an expression means\<close>

text \<open>
  A row gives a value to every column of every table in scope. The contract of DuckDB's expressions:
  the meaning of an operation is that of its operands, and evaluating without a row finds the meaning
  the expression has in every row.
\<close>

type_synonym row = "nat \<Rightarrow> nat \<Rightarrow> Value"

locale expression_semantics =
  fixes E :: expressions and meaning :: "row \<Rightarrow> expr \<Rightarrow> Value"
  assumes meaning_column: "meaning row (ColumnRef t c d ty) = row t c"
    and meaning_constant: "meaning row (Constant v) = v"
    and meaning_operation:
      "map (meaning row) es = map (meaning row) es' \<Longrightarrow> meaning row (Operation f es) = meaning row (Operation f es')"
    and Evaluate_meaning: "Evaluate E e = Some v \<Longrightarrow> meaning row e = v"

text \<open>The references to the scanned table have the types of its columns.\<close>

fun typed_refs :: "nat \<Rightarrow> (nat \<Rightarrow> LogicalType) \<Rightarrow> expr \<Rightarrow> bool" where
  "typed_refs ti types (ColumnRef t c d ty) = (t = ti \<longrightarrow> ty = types c)"
| "typed_refs ti types (Constant v) = True"
| "typed_refs ti types (Operation f es) = list_all (typed_refs ti types) es"

text \<open>A row of a partition holds the values Glue stores for it in the partition columns.\<close>

definition row_of_partition ::
  "duckdb \<Rightarrow> nat \<Rightarrow> (nat \<Rightarrow> LogicalType) \<Rightarrow> key_projection list \<Rightarrow> string list \<Rightarrow> GluePartitionInfo \<Rightarrow> row \<Rightarrow> bool" where
  "row_of_partition D ti types projections keys p row \<longleftrightarrow>
     (\<forall>(c, k)\<in>set projections. and_then (vector_at (p_values p) k)
        (\<lambda>str. partition_value D (keys ! k) str (types c)) = Inr (row ti c))"

lemma partitions_to_read_all:
  assumes "partitions_to_read D E ti projections keys ps candidates filters = Inr (kept, pruning, decided)"
    and "length kept = length candidates"
  shows "set kept = set candidates"
proof -
  from assms(1) obtain verdicts
    where all: "collect (\<lambda>i. check_filters D E ti projections keys (ps ! i) 0 filters) candidates = Inr verdicts"
      and kept: "kept = map fst (filter (\<lambda>(i, verdict). is_kept verdict) (zip candidates verdicts))"
    by (auto simp: partitions_to_read_def and_then_Inr_iff Let_def)
  have len: "length verdicts = length candidates" using all by (auto simp: collect_Inr_iff dest: list_all2_lengthD)
  then have "length (filter (\<lambda>(i, verdict). is_kept verdict) (zip candidates verdicts)) = length (zip candidates verdicts)"
    using assms(2) by (simp add: kept)
  then have "filter (\<lambda>(i, verdict). is_kept verdict) (zip candidates verdicts) = zip candidates verdicts"
    by (metis filter_True length_filter_less less_irrefl)
  then show ?thesis using len by (simp add: kept)
qed

context expression_semantics
begin

lemma replace_meaning:
  assumes "replace_partition_column_refs D ti projections keys p e = Inr e'"
    and "typed_refs ti types e" and "row_of_partition D ti types projections keys p row"
  shows "meaning row e' = meaning row e"
  using assms(1,2)
proof (induction e arbitrary: e')
  case (ColumnRef t c d ty)
  show ?case
  proof (cases "t = ti \<and> find (\<lambda>(column, key). column = c) projections \<noteq> None")
    case True
    then obtain x where x: "find (\<lambda>(column, key). column = c) projections = Some x" by auto
    obtain c' k where "x = (c', k)" by (cases x)
    with find_sound [OF x] x have found: "find (\<lambda>(column, key). column = c) projections = Some (c, k)"
      and "(c, k) \<in> set projections" by auto
    then have row: "and_then (vector_at (p_values p) k) (\<lambda>str. partition_value D (keys ! k) str (types c)) = Inr (row ti c)"
      using assms(3) by (auto simp: row_of_partition_def)
    from True found ColumnRef obtain v where e': "e' = Constant v"
      and "and_then (vector_at (p_values p) k) (\<lambda>str. partition_value D (keys ! k) str (types c)) = Inr v"
      by (auto simp: and_then_Inr_iff)
    then show ?thesis using row True by (simp add: meaning_column meaning_constant)
  next
    case False
    then have "t \<noteq> ti \<or> find (\<lambda>(column, key). column = c) projections = None" by blast
    then have "e' = ColumnRef t c d ty" using ColumnRef(1) by (cases "t = ti") simp_all
    then show ?thesis by simp
  qed
next
  case (Constant v)
  then show ?case by simp
next
  case (Operation f es)
  from Operation.prems(1) obtain es' where e': "e' = Operation f es'"
    and es: "list_all2 (\<lambda>e e'. replace_partition_column_refs D ti projections keys p e = Inr e') es es'"
    by (auto simp: result_simps)
  have "map (meaning row) es' = map (meaning row) es"
  proof (rule nth_equalityI)
    show "length (map (meaning row) es') = length (map (meaning row) es)" using es by (simp add: list_all2_lengthD)
  next
    fix i assume "i < length (map (meaning row) es')"
    then have i: "i < length es" "i < length es'" using es by (simp_all add: list_all2_lengthD)
    have "typed_refs ti types (es ! i)" using Operation.prems(2) i(1) by (simp add: list_all_length)
    moreover have "replace_partition_column_refs D ti projections keys p (es ! i) = Inr (es' ! i)"
      using es i(1) by (rule list_all2_nthD)
    ultimately show "map (meaning row) es' ! i = map (meaning row) es ! i"
      using Operation.IH [of "es ! i"] i by simp
  qed
  then show ?case unfolding e' by (rule meaning_operation)
qed

lemma check_filters_sound:
  assumes "check_filters D E ti projections keys p n filters = Inr verdict"
    and "list_all (typed_refs ti types) filters" and "row_of_partition D ti types projections keys p row"
  shows "case verdict of
      Keep ns \<Rightarrow> (\<forall>k\<in>set ns. n \<le> k \<and> k < n + length filters \<and> filter_true D (meaning row (filters ! (k - n))))
    | Drop k \<Rightarrow> n \<le> k \<and> k < n + length filters \<and> \<not> filter_true D (meaning row (filters ! (k - n)))"
  using assms(1,2)
proof (induction filters arbitrary: n verdict)
  case Nil
  then have "verdict = Keep []" by simp
  then show ?case by simp
next
  case (Cons f fs)
  from Cons.prems(1) obtain f' where f': "replace_partition_column_refs D ti projections keys p f = Inr f'"
    by (auto simp: and_then_Inr_iff)
  have mean: "meaning row f' = meaning row f" using replace_meaning [OF f' _ assms(3)] Cons.prems(2) by simp
  have later: "case verdict' of
      Keep ns \<Rightarrow> (\<forall>k\<in>set ns. n \<le> k \<and> k < n + length (f # fs) \<and> filter_true D (meaning row ((f # fs) ! (k - n))))
    | Drop k \<Rightarrow> n \<le> k \<and> k < n + length (f # fs) \<and> \<not> filter_true D (meaning row ((f # fs) ! (k - n)))"
    if rest: "check_filters D E ti projections keys p (n + 1) fs = Inr verdict'" for verdict'
  proof -
    have shift: "(f # fs) ! (k - n) = fs ! (k - (n + 1))" if "n + 1 \<le> k" for k
      using that by (metis Suc_diff_Suc Suc_eq_plus1 Suc_le_eq nth_Cons_Suc)
    from Cons.IH [OF rest] Cons.prems(2) show ?thesis
      by (cases verdict') (auto simp: shift)
  qed
  show ?case
  proof (cases "Evaluate E f'")
    case None
    then show ?thesis using Cons.prems(1) f' later by simp
  next
    case (Some v)
    then have v: "meaning row f = v" using Evaluate_meaning mean by metis
    show ?thesis
    proof (cases "value_is_null v \<or> \<not> value_bool D v")
      case True
      then show ?thesis using Cons.prems(1) f' Some v by (auto simp: filter_true_def)
    next
      case False
      with Cons.prems(1) f' Some obtain verdict' where rest: "check_filters D E ti projections keys p (n + 1) fs = Inr verdict'"
        and "verdict = (case verdict' of Keep ns \<Rightarrow> Keep (n # ns) | Drop k \<Rightarrow> Drop k)"
        by (auto simp: and_then_Inr_iff)
      with later [OF rest] False v show ?thesis by (cases verdict') (auto simp: filter_true_def)
    qed
  qed
qed

lemma kept_filters_true:
  assumes "partitions_to_read D E ti projections keys ps candidates filters = Inr (kept, pruning, decided)"
    and typed: "list_all (typed_refs ti types) filters" and i: "i \<in> set candidates"
    and row: "row_of_partition D ti types projections keys (ps ! i) row"
  shows "i \<in> set kept \<Longrightarrow> n \<in> set decided \<Longrightarrow> filter_true D (meaning row (filters ! n))"
    and "i \<notin> set kept \<Longrightarrow> \<exists>f\<in>set filters. \<not> filter_true D (meaning row f)"
proof -
  from assms(1) obtain verdicts
    where "collect (\<lambda>i. check_filters D E ti projections keys (ps ! i) 0 filters) candidates = Inr verdicts"
      and kept: "kept = map fst (filter (\<lambda>(i, verdict). is_kept verdict) (zip candidates verdicts))"
      and decided: "decided = filter (\<lambda>n. kept \<noteq> [] \<and> length (filter (true_here n) verdicts) = length kept) [0..<length filters]"
    by (auto simp: partitions_to_read_def and_then_Inr_iff Let_def)
  then have all: "list_all2 (\<lambda>i verdict. check_filters D E ti projections keys (ps ! i) 0 filters = Inr verdict) candidates verdicts"
    by (simp add: collect_Inr_iff)
  have len: "length verdicts = length candidates" using all by (simp add: list_all2_lengthD)
  have zip: "check_filters D E ti projections keys (ps ! j) 0 filters = Inr verdict"
    if "(j, verdict) \<in> set (zip candidates verdicts)" for j verdict
    using all that by (auto simp: set_zip list_all2_conv_all_nth)
  from i len obtain verdict where v: "(i, verdict) \<in> set (zip candidates verdicts)"
    by (metis in_set_impl_in_set_zip1)
  note sound = check_filters_sound [OF zip [OF v] typed row]
  have unique: "verdict' = verdict" if "(i, verdict') \<in> set (zip candidates verdicts)" for verdict'
    using zip [OF that] zip [OF v] by simp
  have "i \<in> set kept \<longleftrightarrow> (\<exists>verdict'. (i, verdict') \<in> set (zip candidates verdicts) \<and> is_kept verdict')"
    unfolding kept by (simp add: image_iff split_beta)
  then have in_kept: "i \<in> set kept \<longleftrightarrow> is_kept verdict" using v unique by blast
  {
    assume "i \<notin> set kept"
    then obtain k where "verdict = Drop k" using in_kept by (cases verdict) (auto simp: is_kept_def)
    with sound show "\<exists>f\<in>set filters. \<not> filter_true D (meaning row f)" by (auto intro: nth_mem)
  next
    assume "i \<in> set kept" "n \<in> set decided"
    have "length kept = length (filter is_kept verdicts)"
    proof -
      have "map snd (filter (\<lambda>(i, verdict). is_kept verdict) (zip candidates verdicts)) =
          filter is_kept (map snd (zip candidates verdicts))"
        by (simp add: filter_map o_def case_prod_unfold)
      then have "length (filter (\<lambda>(i, verdict). is_kept verdict) (zip candidates verdicts)) = length (filter is_kept verdicts)"
        using len by (metis length_map map_snd_zip)
      then show ?thesis by (simp add: kept)
    qed
    moreover have "filter (true_here n) verdicts = filter (true_here n) (filter is_kept verdicts)"
      by (simp add: filter_filter) (rule filter_cong, auto simp: true_here_def is_kept_def split: verdict.splits)
    ultimately have "length (filter (true_here n) (filter is_kept verdicts)) = length (filter is_kept verdicts)"
      using \<open>n \<in> set decided\<close> by (simp add: decided)
    then have "\<forall>x\<in>set (filter is_kept verdicts). true_here n x" by (metis length_filter_less less_irrefl)
    moreover have "verdict \<in> set verdicts" using v by (rule set_zip_rightD)
    ultimately have "true_here n verdict" using in_kept \<open>i \<in> set kept\<close> by simp
    with sound show "filter_true D (meaning row (filters ! n))" by (auto simp: true_here_def split: verdict.splits)
  }
qed

end

text \<open>
  C14: pruning keeps the result of a query. A row of one of the partitions a scan reads passes the filters
  exactly when its partition is still read after the pushdown and the row passes the filters that are
  left in the plan.
\<close>

theorem pushdown_keeps_result:
  assumes "expression_semantics E meaning"
    and push: "complex_filter_pushdown D E file_filter_table env info filters fl = (Inr (new_list, remaining, info'), fl')"
    and list: "partition_indexes env fl = (Inr candidates, fl1)" "list_partitions_of env fl1 = (Inr ps, fl2)"
    and typed: "list_all (typed_refs (pi_table_index info) types) filters" and i: "i \<in> set candidates"
    and row: "row_of_partition D (pi_table_index info) types
      (partition_key_projections D (fl_info fl) (pi_column_ids info) (pi_column_names info))
      (hs_partition_keys (fl_info fl)) (ps ! i) row"
  shows "list_all (\<lambda>f. filter_true D (meaning row f)) filters \<longleftrightarrow>
    (case new_list of None \<Rightarrow> True | Some l \<Rightarrow> i \<in> set (opt_list (fl_partition_indexes l))) \<and>
    list_all (\<lambda>f. filter_true D (meaning row f)) remaining"
proof -
  let ?projections = "partition_key_projections D (fl_info fl) (pi_column_ids info) (pi_column_names info)"
    and ?keys = "hs_partition_keys (fl_info fl)"
  show ?thesis
  proof (cases "?keys = [] \<or> filters = [] \<or> ?projections = []")
    case True
    with push have "new_list = None" "remaining = filters"
      by (cases "?keys = [] \<or> filters = []"; simp add: complex_filter_pushdown_def Let_def)+
    then show ?thesis by simp
  next
    case False
    with push list obtain kept pruning decided
      where read: "partitions_to_read D E (pi_table_index info) ?projections ?keys ps candidates filters = Inr (kept, pruning, decided)"
        and new: "new_list = (if length kept = length candidates then None else Some (new_file_list (fl_info fl2) (Some kept)))"
        and remaining: "remaining = map (nth filters) (filter (\<lambda>n. n \<notin> set decided) [0..<length filters])"
      by (auto simp: complex_filter_pushdown_def Let_def bind_op_def lift_op_def split: sum.splits)
    note filters = expression_semantics.kept_filters_true [OF assms(1) read typed i row]
    have all: "list_all (\<lambda>f. filter_true D (meaning row f)) filters \<longleftrightarrow>
        (\<forall>n<length filters. filter_true D (meaning row (filters ! n)))" by (simp add: list_all_length)
    have rest: "list_all (\<lambda>f. filter_true D (meaning row f)) remaining \<longleftrightarrow>
        (\<forall>n<length filters. n \<notin> set decided \<longrightarrow> filter_true D (meaning row (filters ! n)))"
      by (auto simp: remaining list_all_iff)
    have kept: "i \<in> set kept" if "length kept = length candidates"
      using that read i partitions_to_read_all by metis
    show ?thesis
    proof (cases "i \<in> set kept")
      case True
      with filters(1) have "list_all (\<lambda>f. filter_true D (meaning row f)) filters \<longleftrightarrow>
          list_all (\<lambda>f. filter_true D (meaning row f)) remaining" unfolding all rest by blast
      with True show ?thesis by (auto simp: new new_file_list_def opt_list_def)
    next
      case False
      with kept have "length kept \<noteq> length candidates" by blast
      with False filters(2) show ?thesis by (auto simp: new new_file_list_def opt_list_def list_all_iff)
    qed
  qed
qed

subsection \<open>An instance\<close>

text \<open>Expressions of equality and conjunction over constants.\<close>

fun sample_meaning :: "row \<Rightarrow> expr \<Rightarrow> Value" where
  "sample_meaning row (ColumnRef t c d ty) = row t c"
| "sample_meaning row (Constant v) = v"
| "sample_meaning row (Operation f es) =
     (let vs = map (sample_meaning row) es in
      if list_ex value_is_null vs then NullV BOOLEAN
      else if f = ''='' then BoolV (hd vs = last vs)
      else if f = ''AND'' then BoolV (list_all (\<lambda>v. v = BoolV True) vs)
      else NullV BOOLEAN)"

fun is_constant :: "expr \<Rightarrow> bool" where
  "is_constant (ColumnRef t c d ty) = False"
| "is_constant (Constant v) = True"
| "is_constant (Operation f es) = list_all is_constant es"

definition sample_expressions :: expressions where
  "sample_expressions = \<lparr>
     Evaluate = (\<lambda>e. if is_constant e then Some (sample_meaning (\<lambda>t c. NullV BOOLEAN) e) else None),
     ExpressionString = (\<lambda>e. ''f''),
     EvaluateWithConstant = (\<lambda>f v. sample_meaning (\<lambda>t c. v) f = BoolV True) \<rparr>"

lemma constant_meaning: "is_constant e \<Longrightarrow> sample_meaning row e = sample_meaning row' e"
proof (induction e)
  case (Operation f es)
  then have "map (sample_meaning row) es = map (sample_meaning row') es" by (simp add: list_all_iff)
  then show ?case unfolding sample_meaning.simps by (simp only:)
qed simp_all

interpretation sample_semantics: expression_semantics sample_expressions sample_meaning
proof
  show "sample_meaning row e = v" if "Evaluate sample_expressions e = Some v" for row e v
    using that constant_meaning [of e row] by (auto simp: sample_expressions_def split: if_splits)
qed simp_all

text \<open>A list over two partitions and the filter \<open>p = '2'\<close>.\<close>

definition sample_pushdown :: pushdown_info where
  "sample_pushdown = \<lparr> pi_table_index = 0, pi_column_ids = [Column 0, Column 1], pi_column_names = [''id'', ''p''],
     pi_column_indexes = [], pi_file_filters = [], pi_retained = None, pi_total_files = None, pi_filtered_files = None \<rparr>"

definition sample_filters :: "expr list" where
  "sample_filters = [Operation ''='' [ColumnRef 0 1 0 VARCHAR, Constant (StringV ''2'')],
     Operation ''='' [ColumnRef 0 0 0 BIGINT, Constant (IntV BIGINT 7)]]"

lemma pushdown_keeps_result_witness:
  "\<exists>new_list remaining info' fl'.
     complex_filter_pushdown ascii_duckdb sample_expressions 0 (sample_listing None 8 []) sample_pushdown sample_filters
       (new_file_list sample_scan (Some [0, 1])) = (Inr (Some new_list, remaining, info'), fl') \<and>
     remaining = [Operation ''='' [ColumnRef 0 0 0 BIGINT, Constant (IntV BIGINT 7)]] \<and>
     0 \<notin> set (opt_list (fl_partition_indexes new_list))"
proof -
  let ?fl = "new_file_list sample_scan (Some [0, 1])" and ?env = "sample_listing None 8 []"
  let ?types = "\<lambda>c. if c = 0 then BIGINT else VARCHAR"
  let ?row = "\<lambda>t c. if c = 0 then IntV BIGINT 7 else StringV ''1'' :: Value"
  let ?r = "complex_filter_pushdown ascii_duckdb sample_expressions 0 ?env sample_pushdown sample_filters ?fl"
  have "case fst ?r of Inr (Some l, remaining, info) \<Rightarrow>
      remaining = [Operation ''='' [ColumnRef 0 0 0 BIGINT, Constant (IntV BIGINT 7)]] | _ \<Rightarrow> False" by code_simp
  then obtain l remaining info' fl' where r: "?r = (Inr (Some l, remaining, info'), fl')"
    and remaining: "remaining = [Operation ''='' [ColumnRef 0 0 0 BIGINT, Constant (IntV BIGINT 7)]]"
    by (cases ?r) (auto split: sum.splits option.splits prod.splits)
  have candidates: "partition_indexes ?env ?fl = (Inr [0, 1], ?fl)" by (simp add: partition_indexes_def new_file_list_def)
  have ps: "list_partitions_of ?env ?fl = (Inr (opt_list (hs_partitions sample_scan)), ?fl)"
    by (rule list_partitions_of_loaded) (simp add: new_file_list_def sample_scan_def opt_list_def)
  have "list_all (typed_refs (pi_table_index sample_pushdown) ?types) sample_filters" by code_simp
  moreover have "row_of_partition ascii_duckdb (pi_table_index sample_pushdown) ?types
      (partition_key_projections ascii_duckdb (fl_info ?fl) (pi_column_ids sample_pushdown) (pi_column_names sample_pushdown))
      (hs_partition_keys (fl_info ?fl)) (opt_list (hs_partitions sample_scan) ! 0) ?row" by code_simp
  ultimately have "list_all (\<lambda>f. filter_true ascii_duckdb (sample_meaning ?row f)) sample_filters \<longleftrightarrow>
      0 \<in> set (opt_list (fl_partition_indexes l)) \<and> list_all (\<lambda>f. filter_true ascii_duckdb (sample_meaning ?row f)) remaining"
    using pushdown_keeps_result [OF sample_semantics.expression_semantics_axioms r candidates ps, where i = 0 and row = ?row]
    by simp
  moreover have "\<not> list_all (\<lambda>f. filter_true ascii_duckdb (sample_meaning ?row f)) sample_filters" by code_simp
  moreover have "list_all (\<lambda>f. filter_true ascii_duckdb (sample_meaning ?row f)) remaining"
    unfolding remaining by code_simp
  ultimately show ?thesis using r remaining by blast
qed

end
