(* ===== verification/Hive_Reader.thy ===== *)
theory Hive_Reader
  imports Partition_Pruning
begin

text \<open>
  \<open>BindHiveScan\<close> and \<open>HiveMultiFileReader\<close> of src/planning/hive_multi_file_reader.cpp: the parameters of
  the format's reader, what a file contributes to the table's columns, the conversion of the fields
  of a text file, and the scan as a call of the standard reader.
\<close>

subsection \<open>The parameters of the reader\<close>

definition reader_function_name :: "HiveFileFormat \<Rightarrow> string" where
  "reader_function_name fmt = (case fmt of
     PARQUET \<Rightarrow> ''read_parquet'' | CSV \<Rightarrow> ''read_csv'' | JSON \<Rightarrow> ''read_json'' | AVRO \<Rightarrow> ''read_avro'')"

text \<open>\<open>TypeVisitor::Contains(type, BLOB)\<close>.\<close>

fun contains_blob :: "LogicalType \<Rightarrow> bool" where
  "contains_blob BLOB = True"
| "contains_blob (LIST t) = contains_blob t"
| "contains_blob (MAP k v) = (contains_blob k \<or> contains_blob v)"
| "contains_blob (STRUCT fs) = list_ex (\<lambda>(n, t). contains_blob t) fs"
| "contains_blob (ALIAS a t) = contains_blob t"
| "contains_blob _ = False"

definition has_binary_column :: "HiveScanInfo \<Rightarrow> bool" where
  "has_binary_column info = list_ex contains_blob (hs_types info)"

definition is_partition_key :: "duckdb \<Rightarrow> HiveScanInfo \<Rightarrow> string \<Rightarrow> bool" where
  "is_partition_key D info name \<longleftrightarrow> get_partition_key_index D info name \<noteq> None"

definition reader_columns :: "duckdb \<Rightarrow> HiveScanInfo \<Rightarrow> Value" where
  "reader_columns D info =
     (let data = filter (\<lambda>(name, ty). \<not> is_partition_key D info name) (zip (hs_names info) (hs_types info));
          text_of = (\<lambda>ty. StringV (TypeToString D (if serde_fields (hs_csv_options info) then VARCHAR else ty)))
      in StructV (map (\<lambda>(name, ty). (name, VARCHAR)) data) (map (\<lambda>(name, ty). text_of ty) data))"

definition HIVE_CSV_DEFAULT_MAX_LINE_SIZE :: nat where
  "HIVE_CSV_DEFAULT_MAX_LINE_SIZE = 8000000"

text \<open>\<open>NumericCast<int64_t>\<close>.\<close>

definition int64_cast :: "nat \<Rightarrow> int result" where
  "int64_cast n = (if int n < 9223372036854775808 then Inr (int n)
     else Inl (InternalException ''Information loss on integer cast'' []))"

text \<open>\<open>named_argument_map_t\<close>: the later value of a name wins. \<open>buffer_size\<close> is DuckDB's default.\<close>

definition csv_line_parameters :: "settings \<Rightarrow> nat \<Rightarrow> (string \<times> Value) list result" where
  "csv_line_parameters st buffer_size =
     (let max_line = (case set_csv_max_line_size st of None \<Rightarrow> HIVE_CSV_DEFAULT_MAX_LINE_SIZE | Some n \<Rightarrow> n) in
      and_then (int64_cast max_line) (\<lambda>n.
        Inr ((''max_line_size'', IntV BIGINT n) #
          (if max_line > buffer_size then [(''buffer_size'', IntV BIGINT n)] else []))))"

definition csv_parameters :: "duckdb \<Rightarrow> settings \<Rightarrow> nat \<Rightarrow> HiveScanInfo \<Rightarrow> (string \<times> Value) list result" where
  "csv_parameters D st buffer_size info =
     (let opts = hs_csv_options info in
      and_then (int64_cast (skip_lines opts)) (\<lambda>skip.
      and_then (csv_line_parameters st buffer_size) (\<lambda>line.
        Inr ([(''columns'', reader_columns D info), (''auto_detect'', BoolV False), (''header'', BoolV False),
              (''skip'', IntV BIGINT skip), (''delim'', StringV (delimiter opts)), (''quote'', StringV (quote opts)),
              (''escape'', StringV (escape opts)), (''nullstr'', StringV (null_string opts)),
              (''allow_quoted_nulls'', BoolV False)] @ line @
             (if serde_fields opts
              then [(''null_padding'', BoolV True), (''strict_mode'', BoolV False)] @
                   (if quote opts \<noteq> [] \<and> set_csv_parallel st = Some False then [(''parallel'', BoolV False)] else [])
              else [])))))"

definition reader_parameters :: "duckdb \<Rightarrow> settings \<Rightarrow> nat \<Rightarrow> HiveScanInfo \<Rightarrow> (string \<times> Value) list result" where
  "reader_parameters D st buffer_size info = (case hs_file_format info of
     PARQUET \<Rightarrow> Inr [(''binary_as_string'', BoolV (\<not> has_binary_column info)), (''can_have_nan'', BoolV True)]
   | CSV \<Rightarrow> csv_parameters D st buffer_size info
   | JSON \<Rightarrow> Inr ([(''columns'', reader_columns D info), (''format'', StringV ''newline_delimited''),
         (''case_insensitive_keys'', BoolV (case_insensitive_keys (hs_json_options info)))] @
         (if ignore_errors (hs_json_options info) then [(''ignore_errors'', BoolV True)] else []))
   | AVRO \<Rightarrow> Inr [])"

subsection \<open>The constants of a file\<close>

text \<open>The metadata columns, by what is above \<open>VIRTUAL_COLUMN_START\<close>.\<close>

definition COLUMN_IDENTIFIER_PATH :: nat where "COLUMN_IDENTIFIER_PATH = 65536"
definition COLUMN_IDENTIFIER_FILE_SIZE :: nat where "COLUMN_IDENTIFIER_FILE_SIZE = 65537"
definition COLUMN_IDENTIFIER_FILE_MODIFIED_TIME :: nat where "COLUMN_IDENTIFIER_FILE_MODIFIED_TIME = 65538"

text \<open>
  A file as the reader opened it: its path, the names of its columns, and what \<open>DataFileMetadata\<close> finds,
  the size (negative when unknown) and the modification time (\<open>None\<close> when it is not finite).
\<close>

record data_file =
  df_path :: string
  df_columns :: "string list"
  df_metadata :: "(int \<times> string option) result"

text \<open>A column of the scan: its id and the type the scan reads it as, when that is not the column's.\<close>

type_synonym scan_column = "column_id \<times> LogicalType option"

definition metadata_constant :: "data_file \<Rightarrow> nat \<Rightarrow> Value option result" where
  "metadata_constant file v =
     (if v = COLUMN_IDENTIFIER_PATH then Inr (Some (StringV (df_path file)))
      else if v = COLUMN_IDENTIFIER_FILE_SIZE then and_then (df_metadata file) (\<lambda>(size', time).
        Inr (Some (if size' < 0 then NullV BIGINT else IntV BIGINT size')))
      else if v = COLUMN_IDENTIFIER_FILE_MODIFIED_TIME then and_then (df_metadata file) (\<lambda>(size', time).
        Inr (Some (case time of None \<Rightarrow> NullV TIMESTAMP_TZ | Some t \<Rightarrow> OtherV TIMESTAMP_TZ t)))
      else Inr None)"

definition column_constant ::
  "duckdb \<Rightarrow> HiveScanInfo \<Rightarrow> (string \<times> LogicalType) list \<Rightarrow> data_file \<Rightarrow> GluePartitionInfo option \<Rightarrow> scan_column
     \<Rightarrow> Value option result" where
  "column_constant D info global_columns file part column = (case column of
     (VirtualColumn v, scan_type) \<Rightarrow> metadata_constant file v
   | (Column c, scan_type) \<Rightarrow>
       (case get_partition_key_index D info (fst (global_columns ! c)) of
          Some k \<Rightarrow>
            and_then (vector_at (case part of None \<Rightarrow> [] | Some p \<Rightarrow> p_values p) k) (\<lambda>str.
            and_then (partition_value D (hs_partition_keys info ! k) str (snd (global_columns ! c))) (\<lambda>v.
              Inr (Some v)))
        | None \<Rightarrow>
            Inr (if list_ex (\<lambda>n. CIEquals D n (fst (global_columns ! c))) (df_columns file) then None
                 else Some (NullV (case scan_type of Some t \<Rightarrow> t | None \<Rightarrow> snd (global_columns ! c))))))"

text \<open>\<open>FinalizeBind\<close> before the base class runs: one constant or none for every column of the scan.\<close>

definition finalize_bind ::
  "duckdb \<Rightarrow> HiveScanInfo \<Rightarrow> (string \<times> LogicalType) list \<Rightarrow> scan_column list \<Rightarrow> data_file \<Rightarrow> Value option list result" where
  "finalize_bind D info global_columns columns file =
     and_then
       (if hs_partition_keys info = [] then Inr None
        else and_then (get_partition_of_file info (df_path file)) (\<lambda>p.
          let data_columns = List.map_filter (\<lambda>(cid, scan_type). case cid of
                VirtualColumn v \<Rightarrow> None
              | Column c \<Rightarrow> if is_partition_key D info (fst (global_columns ! c)) then None else Some c) columns
          in and_then (check_partition_columns D info p data_columns) (\<lambda>_. Inr (Some p))))
       (\<lambda>part. collect (column_constant D info global_columns file part) columns)"

subsection \<open>The fields of a text file\<close>

text \<open>
  The expressions that convert a field: a column the reader reads as a type, a cast (or TRY_CAST) to a
  type, a function call, and DuckDB's CASE, TRY and \<open>__internal_barrier\<close>.
\<close>

datatype field_expr =
    Field LogicalType
  | Literal Value
  | CastTo LogicalType bool field_expr
  | Call string "field_expr list"
  | Equals field_expr field_expr
  | CaseWhen field_expr field_expr field_expr
  | TryExpr field_expr
  | Barred field_expr

text \<open>The type of an expression; of the functions called here only those over text are asked for it.\<close>

fun field_type :: "field_expr \<Rightarrow> LogicalType" where
  "field_type (Field t) = t"
| "field_type (Literal v) = value_type v"
| "field_type (CastTo t try e) = t"
| "field_type (Call f es) = (if f = ''lower'' \<or> f = ''regexp_replace'' then VARCHAR else OTHER_TYPE f)"
| "field_type (Equals a b) = BOOLEAN"
| "field_type (CaseWhen c a b) = field_type a"
| "field_type (TryExpr e) = field_type e"
| "field_type (Barred e) = field_type e"

fun is_foldable :: "field_expr \<Rightarrow> bool" where
  "is_foldable (Field t) = False"
| "is_foldable (Literal v) = True"
| "is_foldable (CastTo t try e) = is_foldable e"
| "is_foldable (Call f es) = list_all is_foldable es"
| "is_foldable (Equals a b) = (is_foldable a \<and> is_foldable b)"
| "is_foldable (CaseWhen c a b) = (is_foldable c \<and> is_foldable a \<and> is_foldable b)"
| "is_foldable (TryExpr e) = is_foldable e"
| "is_foldable (Barred e) = is_foldable e"

text \<open>\<open>BoundCastExpression::AddCastToType\<close>.\<close>

definition add_cast :: "duckdb \<Rightarrow> LogicalType \<Rightarrow> bool \<Rightarrow> field_expr \<Rightarrow> field_expr" where
  "add_cast D t try e = (if TypeEq D (field_type e) t then e else CastTo t try e)"

fun make_try_cast :: "duckdb \<Rightarrow> field_expr \<Rightarrow> field_expr" where
  "make_try_cast D (CastTo t try e) =
     (if try \<or> type_id (field_type e) \<noteq> ID_VARCHAR then CastTo t try e else add_cast D t True e)"
| "make_try_cast D e = e"

fun decode_blob_as_text :: "duckdb \<Rightarrow> field_expr \<Rightarrow> field_expr" where
  "decode_blob_as_text D (CastTo t try e) =
     (if \<not> TypeEq D t VARCHAR \<or> \<not> TypeEq D (field_type e) BLOB then CastTo t try e else Call ''decode'' [e])"
| "decode_blob_as_text D e = e"

fun make_false_unless_true :: "field_expr \<Rightarrow> field_expr" where
  "make_false_unless_true (CastTo t try e) =
     (if type_id t \<noteq> ID_BOOLEAN \<or> type_id (field_type e) \<noteq> ID_VARCHAR then CastTo t try e
      else Equals (Call ''lower'' [e]) (Literal (StringV ''true'')))"
| "make_false_unless_true e = e"

text \<open>\<open>DATE '1970-01-01'\<close>.\<close>

definition epoch_date :: Value where
  "epoch_date = OtherV DATE ''1970-01-01''"

fun make_epoch :: "duckdb \<Rightarrow> bool \<Rightarrow> field_expr \<Rightarrow> field_expr" where
  "make_epoch D try_cast (CastTo t try e) =
     (let is_date = TypeEq D t DATE in
      if \<not> is_date \<and> \<not> TypeEq D t TIMESTAMP \<or> type_id (field_type e) \<noteq> ID_VARCHAR then CastTo t try e
      else
        let number = add_cast D (if is_date then INTEGER else BIGINT) try_cast e;
            v = Call (if is_date then ''+'' else ''make_timestamp_ms'')
                  ((if is_date then [Literal epoch_date] else []) @ [number])
        in if try_cast then TryExpr v else v)"
| "make_epoch D try_cast e = e"

text \<open>The text with the escape character dropped where it holds one.\<close>

definition unescaped :: "duckdb \<Rightarrow> HiveCSVOptions \<Rightarrow> field_expr \<Rightarrow> field_expr" where
  "unescaped D opts e =
     CaseWhen (Call ''contains'' [e, Literal (StringV (field_escape opts))])
       (Call ''regexp_replace'' [e, Literal (StringV (field_escape_pattern D opts)),
          Literal (StringV [CHR 0x5C, CHR ''1'']), Literal (StringV ''g'')])
       e"

definition unescape_text :: "duckdb \<Rightarrow> HiveCSVOptions \<Rightarrow> field_expr \<Rightarrow> field_expr" where
  "unescape_text D opts e = (if \<not> TypeEq D (field_type e) VARCHAR \<or> is_foldable e then e else unescaped D opts e)"

fun unescape_field :: "duckdb \<Rightarrow> HiveCSVOptions \<Rightarrow> field_expr \<Rightarrow> field_expr" where
  "unescape_field D opts (CastTo t try e) = CastTo t try (unescape_text D opts e)"
| "unescape_field D opts e = unescape_text D opts e"

definition convert_field :: "duckdb \<Rightarrow> HiveCSVOptions \<Rightarrow> field_expr \<Rightarrow> field_expr" where
  "convert_field D opts e =
     (let e' = (if field_escape opts \<noteq> [] then unescape_field D opts e else e) in
      case field_conversion D opts (field_type e') of
        NONE \<Rightarrow> e' | CAST \<Rightarrow> e'
      | TRY_CAST \<Rightarrow> make_try_cast D e'
      | FALSE_UNLESS_TRUE \<Rightarrow> make_false_unless_true e'
      | EPOCH \<Rightarrow> make_epoch D False e'
      | TRY_EPOCH \<Rightarrow> make_epoch D True e')"

text \<open>
  \<open>InitializeReader\<close> after the base class: the expressions of the columns (\<open>None\<close> where the base has
  none) and those of the filters pushed into the reader.
\<close>

definition initialize_reader ::
  "duckdb \<Rightarrow> HiveScanInfo \<Rightarrow> field_expr option list \<Rightarrow> (nat \<times> field_expr) list
     \<Rightarrow> (field_expr option list \<times> (nat \<times> field_expr) list) result" where
  "initialize_reader D info exprs expression_map =
     (if hs_file_format info = PARQUET
      then Inr (if has_binary_column info
                then (map (map_option (decode_blob_as_text D)) exprs, map (\<lambda>(i, e). (i, decode_blob_as_text D e)) expression_map)
                else (exprs, expression_map))
      else if \<not> serde_fields (hs_csv_options info) then Inr (exprs, expression_map)
      else if expression_map \<noteq> []
      then Inl (InternalException ''Hive text table: a filter was pushed into read_csv'' [describe_scan info])
      else Inr (map (map_option (convert_field D (hs_csv_options info))) exprs, expression_map))"

subsection \<open>The scan as a reader call\<close>

definition unescaped_field :: "duckdb \<Rightarrow> HiveCSVOptions \<Rightarrow> field_expr \<Rightarrow> field_expr" where
  "unescaped_field D opts e = (if field_escape opts = [] then e else unescaped D opts e)"

text \<open>A data column over the reader's column of its name, which is text here: \<open>ReaderColumn\<close>.\<close>

definition reader_column :: "duckdb \<Rightarrow> HiveScanInfo \<Rightarrow> LogicalType \<Rightarrow> field_expr" where
  "reader_column D info t =
     (let opts = hs_csv_options info; barred = unescaped_field D opts (Barred (Field VARCHAR)) in
      if hs_file_format info \<noteq> CSV \<or> \<not> serde_fields opts then Field t
      else case field_conversion D opts t of
        NONE \<Rightarrow> unescaped_field D opts (Field VARCHAR)
      | CAST \<Rightarrow> CastTo t False barred
      | TRY_CAST \<Rightarrow> CastTo t True barred
      | FALSE_UNLESS_TRUE \<Rightarrow> Equals (Call ''lower'' [barred]) (Literal (StringV ''true''))
      | conversion \<Rightarrow>
          let is_date = TypeEq D t DATE;
              number = CastTo (if is_date then INTEGER else BIGINT) (conversion = TRY_EPOCH) barred;
              column = Call (if is_date then ''+'' else ''make_timestamp_ms'')
                         ((if is_date then [Literal epoch_date] else []) @ [number])
          in if conversion = TRY_EPOCH then TryExpr column else column)"

definition scan_type_is_table_type :: "duckdb \<Rightarrow> HiveScanInfo \<Rightarrow> string \<Rightarrow> LogicalType \<Rightarrow> bool" where
  "scan_type_is_table_type D info name t =
     (case find (\<lambda>(n, u). CIEquals D n name) (zip (hs_names info) (hs_types info)) of
        None \<Rightarrow> False | Some (n, u) \<Rightarrow> TypeEq D u t)"

record HiveReaderCall =
  rc_function :: string
  rc_parameters :: "(string \<times> Value) list"
  rc_columns :: "(string \<times> field_expr) list"

text \<open>A MAP value is the list of its entries.\<close>

definition data_columns_schema :: "duckdb \<Rightarrow> HiveScanInfo \<Rightarrow> (string \<times> LogicalType) list \<Rightarrow> Value" where
  "data_columns_schema D info bound =
     (let entry = [(''name'', VARCHAR), (''type'', VARCHAR), (''default_value'', VARCHAR)];
          pair = [(''key'', VARCHAR), (''value'', STRUCT entry)]
      in ListV (STRUCT pair) (map (\<lambda>(name, t). StructV pair [StringV name,
           StructV entry [StringV name, StringV (TypeToString D t), NullV VARCHAR]])
         (filter (\<lambda>(name, t). \<not> is_partition_key D info name) bound)))"

definition hive_scan_get_reader_call ::
  "duckdb \<Rightarrow> HiveScanInfo \<Rightarrow> (string \<times> Value) list \<Rightarrow> (string \<times> LogicalType) list \<Rightarrow> HiveReaderCall option" where
  "hive_scan_get_reader_call D info bound_parameters bound =
     (if hs_file_format info = PARQUET \<and> has_binary_column info then None
      else if \<not> list_all (\<lambda>(name, t). scan_type_is_table_type D info name t) bound then None
      else Some \<lparr> rc_function = reader_function_name (hs_file_format info),
        rc_parameters = AList.update ''hive_partitioning'' (BoolV False)
          (if hs_file_format info = PARQUET \<or> hs_file_format info = AVRO
           then AList.update ''schema'' (data_columns_schema D info bound) bound_parameters else bound_parameters),
        rc_columns = map (\<lambda>(name, t). (name, reader_column D info t))
          (filter (\<lambda>(name, t). \<not> is_partition_key D info name) bound) \<rparr>)"

text \<open>\<open>HiveScanGetFilePartitionValues\<close>; \<open>respell\<close> is \<open>Path::Normalize\<close>.\<close>

definition partition_value_expr :: "duckdb \<Rightarrow> string \<Rightarrow> LogicalType \<Rightarrow> field_expr" where
  "partition_value_expr D str t =
     (if partition_value_is_null D str t then CastTo t False (Literal (NullV (OTHER_TYPE ''NULL'')))
      else if type_id t = ID_VARCHAR then Literal (StringV str)
      else CastTo t False (Literal (StringV str)))"

definition key_value_expr ::
  "duckdb \<Rightarrow> HiveScanInfo \<Rightarrow> (string \<times> LogicalType) list \<Rightarrow> GluePartitionInfo \<Rightarrow> nat \<Rightarrow> (string \<times> field_expr) option option" where
  "key_value_expr D info bound p k =
     (case find (\<lambda>(name, t). CIEquals D name (hs_partition_keys info ! k)) bound of
        None \<Rightarrow> Some None
      | Some (name, t) \<Rightarrow>
          if \<not> scan_type_is_table_type D info name t then None
          else Some (Some (name, partition_value_expr D (p_values p ! k) t)))"

definition hive_scan_get_file_partition_values ::
  "duckdb \<Rightarrow> (string \<Rightarrow> string) \<Rightarrow> HiveScanInfo \<Rightarrow> (string \<times> LogicalType) list \<Rightarrow> string
     \<Rightarrow> (string \<times> field_expr) list option" where
  "hive_scan_get_file_partition_values D respell info bound path =
     (if hs_partition_keys info = [] then None
      else case (case find_partition_index_of_file info path of
                   Some i \<Rightarrow> Some i | None \<Rightarrow> find_partition_index_of_file info (respell path)) of
        None \<Rightarrow> None
      | Some i \<Rightarrow>
          let p = opt_list (hs_partitions info) ! i;
              found = map (key_value_expr D info bound p)
                        [0..<min (length (hs_partition_keys info)) (length (p_values p))];
              values = List.map_filter (\<lambda>x. x) (map the found)
          in if None \<in> set found \<or> length values \<noteq> length (hs_partition_keys info) then None else Some values)"

text \<open>The files of each partition, in the order the scan lists the partitions (\<open>HiveScanToSQL\<close>).\<close>

definition group_file ::
  "HiveScanInfo \<Rightarrow> string \<Rightarrow> (nat \<times> string list) list option \<Rightarrow> (nat \<times> string list) list option" where
  "group_file info path groups = (case groups of None \<Rightarrow> None
   | Some gs \<Rightarrow>
      (case (if hs_partition_keys info = [] then Some 0 else find_partition_index_of_file info path) of
        None \<Rightarrow> None
      | Some i \<Rightarrow> Some (case map_of gs i of
            None \<Rightarrow> gs @ [(i, [path])] | Some paths \<Rightarrow> AList.update i (paths @ [path]) gs)))"

definition group_files :: "HiveScanInfo \<Rightarrow> string list \<Rightarrow> (nat \<times> string list) list option" where
  "group_files info paths = fold (group_file info) paths (Some [])"

subsection \<open>Properties\<close>

text \<open>The barrier only keeps the optimizer from moving a conversion.\<close>

fun without_barrier :: "field_expr \<Rightarrow> field_expr" where
  "without_barrier (Barred e) = without_barrier e"
| "without_barrier (CastTo t try e) = CastTo t try (without_barrier e)"
| "without_barrier (Call f es) = Call f (map without_barrier es)"
| "without_barrier (Equals a b) = Equals (without_barrier a) (without_barrier b)"
| "without_barrier (CaseWhen c a b) = CaseWhen (without_barrier c) (without_barrier a) (without_barrier b)"
| "without_barrier (TryExpr e) = TryExpr (without_barrier e)"
| "without_barrier e = e"

text \<open>What the base class maps a text field to: the field, or its cast to the column's type.\<close>

definition mapped_field :: "duckdb \<Rightarrow> LogicalType \<Rightarrow> field_expr" where
  "mapped_field D t = add_cast D t False (Field VARCHAR)"

lemma without_barrier_unescaped:
  "without_barrier (unescaped_field D opts (Barred (Field VARCHAR))) = unescaped_field D opts (Field VARCHAR)"
  "without_barrier (unescaped_field D opts (Field VARCHAR)) = unescaped_field D opts (Field VARCHAR)"
  by (simp_all add: unescaped_field_def unescaped_def)

lemma unescaped_field_type: "field_type (unescaped_field D opts (Field VARCHAR)) = VARCHAR"
  by (simp add: unescaped_field_def unescaped_def)

lemma convert_mapped_field:
  assumes eq: "\<And>a b. TypeEq D a b \<longleftrightarrow> a = b"
  shows "convert_field D opts (mapped_field D t) =
    (let text = unescaped_field D opts (Field VARCHAR) in
     case field_conversion D opts t of
       NONE \<Rightarrow> text | CAST \<Rightarrow> CastTo t False text | TRY_CAST \<Rightarrow> CastTo t True text
     | FALSE_UNLESS_TRUE \<Rightarrow> make_false_unless_true (CastTo t False text)
     | EPOCH \<Rightarrow> make_epoch D False (CastTo t False text)
     | TRY_EPOCH \<Rightarrow> make_epoch D True (CastTo t False text))"
proof (cases "t = VARCHAR")
  case True
  then show ?thesis
    by (simp add: convert_field_def mapped_field_def add_cast_def eq unescape_text_def unescaped_field_def
      field_conversion_def unescaped_def Let_def)
next
  case False
  have "(if field_escape opts \<noteq> [] then unescape_field D opts (CastTo t False (Field VARCHAR)) else CastTo t False (Field VARCHAR)) =
      CastTo t False (unescaped_field D opts (Field VARCHAR))"
    by (simp add: unescape_text_def eq unescaped_field_def)
  moreover have "field_conversion D opts t \<noteq> NONE" using False by (simp add: field_conversion_def eq)
  ultimately show ?thesis
    using False by (auto simp: convert_field_def mapped_field_def add_cast_def eq Let_def unescaped_field_type
      split: HiveFieldConversion.splits)
qed

text \<open>
  The reader call of a text table converts every field as the scan does: without the barrier, the
  expression of a column in the call is the one \<open>InitializeReader\<close> makes of the base class's mapping,
  whatever the SerDe's dialect and the column's type.
\<close>

theorem reader_call_converts_alike:
  assumes "\<And>a b. TypeEq D a b \<longleftrightarrow> a = b"
    and "hs_file_format info = CSV" "serde_fields (hs_csv_options info)"
  shows "initialize_reader D info (map (\<lambda>t. Some (mapped_field D t)) ts) [] =
    Inr (map (\<lambda>t. Some (without_barrier (reader_column D info t))) ts, [])"
proof -
  have "convert_field D (hs_csv_options info) (mapped_field D t) = without_barrier (reader_column D info t)" for t
    unfolding convert_mapped_field [OF assms(1)] using assms
    by (cases "field_conversion D (hs_csv_options info) t")
      (auto simp: reader_column_def Let_def without_barrier_unescaped add_cast_def unescaped_field_type
        field_conversion_def split: if_splits)
  then show ?thesis using assms(2,3) by (simp add: initialize_reader_def)
qed

definition sample_text_scan :: HiveScanInfo where
  "sample_text_scan = sample_scan\<lparr>hs_file_format := CSV, hs_csv_options := (hs_csv_options sample_scan)
     \<lparr>serde_fields := True, false_unless_true := True, epoch_fields := True, field_escape := [CHR 0x5C]\<rparr>\<rparr>"

lemma reader_call_converts_alike_witness:
  "initialize_reader ascii_duckdb sample_text_scan
     (map (\<lambda>t. Some (mapped_field ascii_duckdb t)) [VARCHAR, BIGINT, BOOLEAN, DATE]) [] =
   Inr (map (\<lambda>t. Some (without_barrier (reader_column ascii_duckdb sample_text_scan t))) [VARCHAR, BIGINT, BOOLEAN, DATE], [])"
  by (rule reader_call_converts_alike) (simp_all add: sample_text_scan_def)

lemma get_partition_of_file_loaded:
  "get_partition_of_file info path = Inr p \<longleftrightarrow>
     (\<exists>i. find_partition_index_of_file info path = Some i \<and> p = opt_list (hs_partitions info) ! i)"
  by (auto simp: get_partition_of_file_def get_partition_index_of_file_def and_then_Inr_iff split: option.splits)

text \<open>
  C35: the rows of a data file carry the values of the partition the listing attributed the file to:
  with the constants of \<open>FinalizeBind\<close> in place, a row of the file is a row of that partition in the sense
  pruning by the partition's values relies on.
\<close>

theorem file_rows_are_partition_rows:
  assumes constants: "finalize_bind D info global_columns columns file = Inr constants"
    and known: "hs_partition_keys info \<noteq> []" "find_partition_index_of_file info (df_path file) = Some i"
    and row: "\<forall>c<length columns. \<forall>v. constants ! c = Some v \<longrightarrow> row ti c = v"
    and types: "\<forall>c<length columns. case fst (columns ! c) of
      VirtualColumn v \<Rightarrow> True | Column g \<Rightarrow> g < length global_columns \<and> types c = snd (global_columns ! g)"
  shows "row_of_partition D ti types (partition_key_projections D info (map fst columns) (map fst global_columns))
    (hs_partition_keys info) (opt_list (hs_partitions info) ! i) row"
  unfolding row_of_partition_def
proof (intro ballI, clarify)
  let ?p = "opt_list (hs_partitions info) ! i"
  fix c k assume "(c, k) \<in> set (partition_key_projections D info (map fst columns) (map fst global_columns))"
  then obtain x where "x < length columns" and sel: "(case fst (columns ! x) of VirtualColumn v \<Rightarrow> None
      | Column g \<Rightarrow> map_option (\<lambda>k. (x, k)) (get_partition_key_index D info (map fst global_columns ! g))) = Some (c, k)"
    by (auto simp: partition_key_projections_def in_map_filter_iff)
  moreover from sel obtain g where "fst (columns ! x) = Column g" by (cases "fst (columns ! x)") auto
  ultimately obtain scan_type where c: "c < length columns" "columns ! c = (Column g, scan_type)"
    and key: "get_partition_key_index D info (map fst global_columns ! g) = Some k"
    by (cases "columns ! x") auto
  have g: "g < length global_columns" "types c = snd (global_columns ! g)" using types c by (auto dest: spec [of _ c])
  from constants known have all: "list_all2 (\<lambda>column v. column_constant D info global_columns file (Some ?p) column = Inr v)
      columns constants"
    by (auto simp: finalize_bind_def result_simps get_partition_of_file_loaded Let_def)
  then have "column_constant D info global_columns file (Some ?p) (columns ! c) = Inr (constants ! c)"
    using c(1) by (rule list_all2_nthD)
  then obtain v where v: "and_then (vector_at (p_values ?p) k)
      (\<lambda>str. partition_value D (hs_partition_keys info ! k) str (types c)) = Inr v" and "constants ! c = Some v"
    using c(2) key g by (auto simp: column_constant_def result_simps)
  then have "row ti c = v" using row c(1) by blast
  with v show "and_then (vector_at (p_values ?p) k)
      (\<lambda>str. partition_value D (hs_partition_keys info ! k) str (types c)) = Inr (row ti c)" by simp
qed

lemma file_rows_are_partition_rows_witness:
  "row_of_partition ascii_duckdb 0 (\<lambda>c. if c = 0 then BIGINT else VARCHAR)
     (partition_key_projections ascii_duckdb (sample_scan\<lparr>hs_file_partitions := [(''f'', 1)]\<rparr>) [Column 0, Column 1] [''id'', ''p''])
     (hs_partition_keys sample_scan) (opt_list (hs_partitions sample_scan) ! 1)
     (\<lambda>t c. if c = 1 then StringV ''2'' else IntV BIGINT 7)"
proof -
  let ?info = "sample_scan\<lparr>hs_file_partitions := [(''f'', 1)]\<rparr>" and ?columns = "[(Column 0, None), (Column 1, None)]"
  let ?file = "\<lparr>df_path = ''f'', df_columns = [''ID''], df_metadata = Inr (1, None)\<rparr>"
  have bind: "finalize_bind ascii_duckdb ?info [(''id'', BIGINT), (''p'', VARCHAR)] ?columns ?file =
      Inr [None, Some (StringV ''2'')]" by code_simp
  have keys: "hs_partition_keys ?info \<noteq> []" by (simp add: sample_scan_def)
  have found: "find_partition_index_of_file ?info (df_path ?file) = Some 1" by (simp add: find_partition_index_of_file_def)
  show ?thesis
    using file_rows_are_partition_rows [OF bind keys found, where ti = 0 and types = "\<lambda>c. if c = 0 then BIGINT else VARCHAR"
      and row = "\<lambda>t c. if c = 1 then StringV ''2'' else IntV BIGINT 7"]
    by (simp add: sample_scan_def less_Suc_eq nth_Cons')
qed

end
