(* ===== verification/Scan_Copy.thy ===== *)
theory Scan_Copy
  imports Hive_Reader
begin

text \<open>
  The plan serialization of a Hive scan (\<open>HiveScanSerialize\<close>, \<open>HiveScanDeserialize\<close>, \<open>RestoreScanTable\<close> of
  src/planning/hive_multi_file_reader.cpp), which is how DuckDB copies a scan: what a copy keeps of the
  scan, and when it reads the same files.
\<close>

record serialized_scan =
  ss_location :: string
  ss_partitions :: "string list list"
  ss_partition_locations :: "string list"
  ss_format :: string
  ss_partition_keys :: "string list"
  ss_columns :: "string list"
  ss_column_types :: "LogicalType list"
  ss_csv_options :: HiveCSVOptions
  ss_json_options :: HiveJSONOptions
  ss_catalog :: string
  ss_database :: string
  ss_table :: string

definition table_text :: "HiveScanInfo \<Rightarrow> string \<Rightarrow> string" where
  "table_text info s = (if hs_table info = None then [] else s)"

definition hive_scan_serialize :: "listing_env \<Rightarrow> (file_list, serialized_scan) comp" where
  "hive_scan_serialize env =
     bind_op (list_partitions_of env) (\<lambda>all.
     bind_op (partition_indexes env) (\<lambda>indexes fl.
       let info = fl_info fl in
       (Inr \<lparr> ss_location = hs_root_location info,
          ss_partitions = map (\<lambda>i. p_values (all ! i)) indexes,
          ss_partition_locations = map (\<lambda>i. p_location (all ! i)) indexes,
          ss_format = hive_file_format_to_string (hs_file_format info),
          ss_partition_keys = hs_partition_keys info, ss_columns = hs_names info, ss_column_types = hs_types info,
          ss_csv_options = hs_csv_options info, ss_json_options = hs_json_options info,
          ss_catalog = table_text info (hs_catalog_name info), ss_database = table_text info (hs_database_name info),
          ss_table = table_text info (hs_table_name info) \<rparr>, fl)))"

text \<open>
  \<open>lookup catalog database table\<close> is the entry of a Glue table with its columns, \<open>None\<close> when the catalog is
  not a Glue catalog or holds no such table, an error when the lookup throws.
\<close>

type_synonym table_lookup =
  "string \<Rightarrow> string \<Rightarrow> string \<Rightarrow> (GlueTableInfo \<times> (string \<times> LogicalType) list) option result"

definition restore_scan_table ::
  "duckdb \<Rightarrow> table_lookup \<Rightarrow> string \<Rightarrow> string \<Rightarrow> string \<Rightarrow> HiveScanInfo \<Rightarrow> HiveScanInfo" where
  "restore_scan_table D lookup catalog_name database_name table_name info =
     (if catalog_name = [] \<or> database_name = [] \<or> table_name = [] then info
      else case lookup catalog_name database_name table_name of
        Inl e \<Rightarrow> info
      | Inr None \<Rightarrow> info
      | Inr (Some (t, columns)) \<Rightarrow>
          if t_location t \<noteq> hs_root_location info then info
          else if length columns \<noteq> length (hs_names info) then info
          else if list_ex (\<lambda>i. \<not> CIEquals D (fst (columns ! i)) (hs_names info ! i) \<or>
                    \<not> TypeEq D (snd (columns ! i)) (hs_types info ! i)) [0..<length columns] then info
          else info\<lparr>hs_catalog_name := catalog_name, hs_database_name := database_name,
                    hs_table_name := table_name, hs_table := Some t\<rparr>)"

definition copied_partition :: "string list \<Rightarrow> string \<Rightarrow> GluePartitionInfo" where
  "copied_partition values location = \<lparr> p_values = values, p_location = location, p_input_format = [],
     p_serde_library = [], p_serde_parameters = [], p_partition_columns = [] \<rparr>"

definition hive_scan_deserialize :: "duckdb \<Rightarrow> table_lookup \<Rightarrow> serialized_scan \<Rightarrow> HiveScanInfo result" where
  "hive_scan_deserialize D lookup ss =
     and_then (hive_file_format_from_string D (ss_format ss)) (\<lambda>file_format.
     and_then (check (length (ss_partitions ss) = length (ss_partition_locations ss))
         (SerializationException ''Hive scan: partitions but partition locations'' [ss_location ss])) (\<lambda>_.
       Inr (restore_scan_table D lookup (ss_catalog ss) (ss_database ss) (ss_table ss)
         \<lparr> hs_catalog_name = [], hs_database_name = [], hs_table_name = ss_location ss, hs_table = None,
           hs_root_location = ss_location ss, hs_names = ss_columns ss, hs_types = ss_column_types ss,
           hs_file_format = file_format, hs_csv_options = ss_csv_options ss, hs_json_options = ss_json_options ss,
           hs_partition_keys = ss_partition_keys ss, hs_file_partitions = [],
           hs_partitions = Some (map2 copied_partition (ss_partitions ss) (ss_partition_locations ss)) \<rparr>)))"

definition copy_scan :: "duckdb \<Rightarrow> table_lookup \<Rightarrow> listing_env \<Rightarrow> (file_list, HiveScanInfo) comp" where
  "copy_scan D lookup env =
     bind_op (hive_scan_serialize env) (\<lambda>ss. lift_op (hive_scan_deserialize D lookup ss))"

subsection \<open>What a copy is\<close>

text \<open>The partitions of a copy: those the list reads, by their values and locations.\<close>

definition copied_partitions :: "GluePartitionInfo list \<Rightarrow> nat list \<Rightarrow> GluePartitionInfo list" where
  "copied_partitions ps reading = map (\<lambda>i. copied_partition (p_values (ps ! i)) (p_location (ps ! i))) reading"

lemma map2_copied:
  "map2 copied_partition (map (\<lambda>i. p_values (ps ! i)) reading) (map (\<lambda>i. p_location (ps ! i)) reading) =
     copied_partitions ps reading"
  by (induction reading) (auto simp: copied_partitions_def)

lemma file_format_roundtrip:
  "string_util D \<Longrightarrow> hive_file_format_from_string D (hive_file_format_to_string f) = Inr f"
  by (cases f) (simp_all add: hive_file_format_from_string_def string_util.Lower Let_def, code_simp+)

lemma restore_scan_table_keeps:
  "hs_partitions (restore_scan_table D lookup c d t info) = hs_partitions info"
  "hs_root_location (restore_scan_table D lookup c d t info) = hs_root_location info"
  "hs_partition_keys (restore_scan_table D lookup c d t info) = hs_partition_keys info"
  "hs_file_format (restore_scan_table D lookup c d t info) = hs_file_format info"
  by (auto simp: restore_scan_table_def split: sum.splits option.splits)

text \<open>A file's owner among the partitions of the copy, when no other partition lies below one of them.\<close>

definition none_nested :: "GluePartitionInfo list \<Rightarrow> nat list \<Rightarrow> bool" where
  "none_nested ps reading \<longleftrightarrow> (\<forall>k<length ps. k \<notin> set reading \<longrightarrow>
     (\<forall>i\<in>set reading. \<not> prefix (p_location (ps ! i) @ ''/'') (p_location (ps ! k))))"

lemma holds_nested:
  assumes "holds l f" "holds l' f" "length l < length l'"
  shows "prefix (l @ ''/'') l'"
proof -
  have "prefix l' (of_path f)" "prefix (l @ ''/'') (of_path f)"
    using assms(1,2) by (auto simp: holds_def dest: append_prefixD)
  moreover have "length (l @ ''/'') \<le> length l'" using assms(3) by simp
  ultimately show ?thesis by (metis prefix_length_prefix)
qed

lemma owns_copied:
  assumes "none_nested ps reading" and j: "j < length reading" and bound: "\<forall>i\<in>set reading. i < length ps"
  shows "owns (copied_partitions ps reading) j f \<longleftrightarrow> owns ps (reading ! j) f"
proof
  assume own: "owns ps (reading ! j) f"
  then show "owns (copied_partitions ps reading) j f"
    using j bound by (auto simp: owns_def copied_partitions_def copied_partition_def)
next
  assume own: "owns (copied_partitions ps reading) j f"
  let ?l = "\<lambda>i. p_location (ps ! i)"
  have held: "holds (?l (reading ! j)) f" and longest: "\<And>i. i \<in> set reading \<Longrightarrow> holds (?l i) f \<Longrightarrow> length (?l i) \<le> length (?l (reading ! j))"
    using own j by (auto simp: owns_def copied_partitions_def copied_partition_def in_set_conv_nth)
  have "length (?l k) \<le> length (?l (reading ! j))" if k: "k < length ps" "holds (?l k) f" for k
  proof (cases "k \<in> set reading")
    case True
    then show ?thesis using longest k(2) by blast
  next
    case False
    then have "\<not> prefix (?l (reading ! j) @ ''/'') (?l k)" using assms(1) k(1) j by (simp add: none_nested_def)
    then show ?thesis using holds_nested [OF held k(2)] by force
  qed
  then show "owns ps (reading ! j) f" using held j bound by (simp add: owns_def)
qed

lemma files_of_copy:
  assumes "none_nested ps reading" and "\<forall>i\<in>set reading. i < length ps"
  shows "files_to_read D (copied_partitions ps reading) [0..<length reading] store = files_to_read D ps reading store"
proof -
  have "list_ex (\<lambda>i. owns (copied_partitions ps reading) i f \<and>
        is_data_file D f (p_location (copied_partitions ps reading ! i) @ ''/'')) [0..<length reading] =
      list_ex (\<lambda>i. owns ps i f \<and> is_data_file D f (p_location (ps ! i) @ ''/'')) reading" for f
  proof -
    have "p_location (copied_partitions ps reading ! j) = p_location (ps ! (reading ! j))" if "j < length reading" for j
      using that by (simp add: copied_partitions_def copied_partition_def)
    then show ?thesis using owns_copied [OF assms(1) _ assms(2)] by (auto simp: list_ex_iff in_set_conv_nth Bex_def) 
  qed
  then show ?thesis by (simp add: files_to_read_def)
qed



text \<open>
  What a copy loses. With the partition below \<open>p=1\<close> pruned, the scan reads one file of \<open>p=1\<close>; its copy
  has no partition there, and reads the pruned partition's file as one of \<open>p=1\<close>.
\<close>

theorem copy_reads_pruned_partition:
  "map of_path (files_to_read ascii_duckdb (opt_list (hs_partitions sample_scan)) [0] sample_store) = [''s3://b/t/p=1/a''] \<and>
   (case fst (copy_scan ascii_duckdb (\<lambda>c d t. Inr None) (sample_listing None 8 sample_store) (new_file_list sample_scan (Some [0]))) of
      Inl e \<Rightarrow> False
    | Inr info \<Rightarrow>
        fst (get_file_count ascii_duckdb (sample_listing None 8 sample_store) 100 (new_file_list sample_scan (Some [0]))) = Inr (1, True) \<and>
        fst (get_file_count ascii_duckdb (sample_listing None 8 sample_store) 100 (new_file_list info None)) = Inr (2, True))"
  by code_simp

text \<open>
  A copy also loses how its partitions are stored: the check that refuses a partition stored in another
  format than the table passes every partition of a copy.
\<close>

lemma copy_checks_no_storage:
  assumes "string_util D"
  shows "verify_consistent_partition_serde D info (copied_partition values location) = Inr ()"
    "check_partition_columns D info (copied_partition values location) columns = Inr ()"
  by (simp_all add: verify_consistent_partition_serde_def partition_storage_mismatch_def reads_alike_def
    partition_storage_def copied_partition_def check_partition_columns_def string_util.CIEquals_refl [OF assms]
    split: option.splits)

end
