(* ===== verification/Query_Cache.thy ===== *)
theory Query_Cache
  imports Hive_Scan Partition_Api Sample_Glue
begin

text \<open>
  \<open>HiveQueryCache\<close> and \<open>HiveListingCache\<close> of src/planning/hive_query_cache.cpp: what a running query learned
  about the tables it scans, and the directory listings a connection keeps. The pages of a listing are
  fetched at once here, when it is made; the sample a scan is costed by is in Hive_Stats.
\<close>

subsection \<open>State\<close>

record query_cache =
  qc_partitions :: "(string \<times> GluePartitionInfo list) list"
  qc_listings :: "(string \<times> open_file list) list"
  qc_scan_count :: nat

definition new_query_cache :: query_cache where
  "new_query_cache = \<lparr> qc_partitions = [], qc_listings = [], qc_scan_count = 0 \<rparr>"

record 'w query =
  q_session :: "'w session"
  q_cache :: query_cache

definition in_session :: "('w, 'a) op \<Rightarrow> ('w query, 'a) comp" where
  "in_session m q = (case m (q_session q) of (r, s) \<Rightarrow> (r, q\<lparr>q_session := s\<rparr>))"

definition table_key :: "string \<Rightarrow> string \<Rightarrow> string \<Rightarrow> string" where
  "table_key catalog_name database_name table_name =
     catalog_name @ CHR 0x1F # database_name @ CHR 0x1F # table_name"

subsection \<open>Operations\<close>

definition next_scan_id :: "'w query \<Rightarrow> nat \<times> 'w query" where
  "next_scan_id q = (let n = qc_scan_count (q_cache q) + 1 in (n, q\<lparr>q_cache := (q_cache q)\<lparr>qc_scan_count := n\<rparr>\<rparr>))"

text \<open>
  \<open>glob world directory\<close> is what the file system finds below a directory. With \<open>keep\<close> the listing is the
  connection's, else the query's.
\<close>

definition get_directory_listing ::
  "duckdb \<Rightarrow> ('w \<Rightarrow> string \<Rightarrow> open_file list result) \<Rightarrow> bool \<Rightarrow> string \<Rightarrow> ('w query, open_file list) comp" where
  "get_directory_listing D glob keep directory q =
     (let key = RTrimChars D directory ''/'';
          known = (if keep then s_listings (q_session q) else qc_listings (q_cache q)) in
      case map_of known key of
        Some files \<Rightarrow> (Inr files, q)
      | None \<Rightarrow>
          (case glob (s_world (q_session q)) key of
             Inl e \<Rightarrow> (Inl e, q)
           | Inr files \<Rightarrow> (Inr files,
               if keep then q\<lparr>q_session := (q_session q)\<lparr>s_listings := AList.update key files known\<rparr>\<rparr>
               else q\<lparr>q_cache := (q_cache q)\<lparr>qc_listings := AList.update key files known\<rparr>\<rparr>)))"

text \<open>The end of a query: \<open>HiveQueryCache::QueryEnd\<close> and \<open>HiveListingCache::QueryEnd\<close>.\<close>

definition query_end :: "'w query \<Rightarrow> 'w query" where
  "query_end q =
     q\<lparr>q_cache := new_query_cache,
       q_session := (if set_cache_listings (s_settings (q_session q)) = Some True then q_session q
                     else (q_session q)\<lparr>s_listings := []\<rparr>)\<rparr>"

definition listings_on_commit :: "duckdb \<Rightarrow> 'w session \<Rightarrow> 'w session" where
  "listings_on_commit D s = (if connection_scoped D (s_settings s) then s else s\<lparr>s_listings := []\<rparr>)"

definition clear_listings :: "'w session \<Rightarrow> 'w session" where
  "clear_listings s = s\<lparr>s_listings := []\<rparr>"

text \<open>
  \<open>GetTablePartitions\<close>: the query's partitions of the table, else those of the transaction's metadata cache,
  else Glue's; without a transaction there is no cache.
\<close>

definition load_partitions ::
  "nat \<Rightarrow> duckdb \<Rightarrow> glue_catalog \<Rightarrow> 'w service \<Rightarrow> HiveScanInfo \<Rightarrow> ('w, GluePartitionInfo list) op" where
  "load_partitions fuel D cat S info s =
     (let load = get_partitions fuel D cat S (hs_database_name info) (hs_table_name info) in
      case s_transaction s of
        None \<Rightarrow> load s
      | Some tx \<Rightarrow>
          bind_op (cache_get D (partition_slots (tx_cache tx)) (put_partition_slots (tx_cache tx))
              (cache_key (hs_database_name info) (hs_table_name info))
              (bind_op load (\<lambda>ps. return_op (Some ps))))
            (\<lambda>ps. return_op (opt_list ps)) s)"

definition get_table_partitions ::
  "nat \<Rightarrow> duckdb \<Rightarrow> glue_catalog \<Rightarrow> 'w service \<Rightarrow> HiveScanInfo \<Rightarrow> ('w query, GluePartitionInfo list) comp" where
  "get_table_partitions fuel D cat S info q =
     (let key = table_key (hs_catalog_name info) (hs_database_name info) (hs_table_name info) in
      case map_of (qc_partitions (q_cache q)) key of
        Some ps \<Rightarrow> (Inr ps, q)
      | None \<Rightarrow> bind_op (in_session (load_partitions fuel D cat S info)) (\<lambda>ps q.
          (Inr ps, q\<lparr>q_cache := (q_cache q)\<lparr>qc_partitions := AList.update key ps (qc_partitions (q_cache q))\<rparr>\<rparr>)) q)"

subsection \<open>Repeatable reads\<close>

text \<open>What the statements of a query can do between two of its scans: move the world, read and list.\<close>

definition same_query :: "'w query \<Rightarrow> 'w query \<Rightarrow> bool" where
  "same_query q q' \<longleftrightarrow>
     (\<forall>k v. map_of (qc_partitions (q_cache q)) k = Some v \<longrightarrow> map_of (qc_partitions (q_cache q')) k = Some v) \<and>
     (\<forall>k v. map_of (qc_listings (q_cache q)) k = Some v \<longrightarrow> map_of (qc_listings (q_cache q')) k = Some v)"

lemma in_session_cache: "in_session m q = (r, q') \<Longrightarrow> q_cache q' = q_cache q"
  by (auto simp: in_session_def split: prod.splits)

lemma get_table_partitions_kept:
  assumes "get_table_partitions fuel D cat S info q = (Inr ps, q1)"
  shows "map_of (qc_partitions (q_cache q1)) (table_key (hs_catalog_name info) (hs_database_name info) (hs_table_name info)) = Some ps"
    and "same_query q q1"
  using assms in_session_cache [of "load_partitions fuel D cat S info" q]
  by (auto simp: get_table_partitions_def Let_def bind_op_def same_query_def split: option.splits prod.splits sum.splits)

text \<open>
  The scans of a table in one query see the same partitions and the same files: once the partitions of a
  table were loaded and a directory was listed, a later scan of the query gets both again, whatever
  happened to Glue, to the store and to the metadata cache in between, and neither is asked.
\<close>

theorem scans_of_a_query_agree:
  assumes "get_table_partitions fuel D cat S info q = (Inr ps, q1)"
    and "get_directory_listing D glob False directory q1 = (Inr files, q2)"
    and "same_query q2 q3" and "RTrimChars D directory' ''/'' = RTrimChars D directory ''/''"
    and "table_key (hs_catalog_name info') (hs_database_name info') (hs_table_name info') =
      table_key (hs_catalog_name info) (hs_database_name info) (hs_table_name info)"
  shows "get_table_partitions fuel' D cat' S' info' q3 = (Inr ps, q3) \<and>
    get_directory_listing D glob' False directory' q3 = (Inr files, q3)"
proof -
  have "same_query q1 q2 \<and> map_of (qc_listings (q_cache q2)) (RTrimChars D directory ''/'') = Some files"
    using assms(2) by (auto simp: get_directory_listing_def Let_def same_query_def split: option.splits sum.splits)
  then show ?thesis
    using get_table_partitions_kept [OF assms(1)] assms(3-5)
    by (auto simp: same_query_def get_table_partitions_def get_directory_listing_def Let_def)
qed

definition sample_query :: "sample_world query" where
  "sample_query = \<lparr> q_session = sample_session sample_days, q_cache = new_query_cache \<rparr>"

definition sample_table_scan :: HiveScanInfo where
  "sample_table_scan = \<lparr> hs_catalog_name = ''lake'', hs_database_name = ''db'', hs_table_name = ''a'', hs_table = None,
     hs_root_location = ''s3://b/t'', hs_names = [''id'', ''p''], hs_types = [BIGINT, VARCHAR],
     hs_file_format = PARQUET,
     hs_csv_options = \<lparr> delimiter = '','', quote = [], escape = [], skip_lines = 0, null_string = [],
       serde_fields = False, null_for_invalid_data = False, false_unless_true = False, field_escape = [],
       epoch_fields = False \<rparr>,
     hs_json_options = new_json_options, hs_partition_keys = [''p''], hs_file_partitions = [], hs_partitions = None \<rparr>"

definition moved_on :: "sample_world query \<Rightarrow> sample_world query" where
  "moved_on q = q\<lparr>q_session := sample_session sample_lake\<rparr>"

lemma scans_of_a_query_agree_witness:
  "\<exists>ps q. map p_values ps = [[''1''], [''2'']] \<and> q_session q = sample_session sample_lake \<and>
     get_table_partitions 0 ascii_duckdb sample_catalog sample_glue sample_table_scan q = (Inr ps, q)"
proof -
  let ?get = "get_table_partitions 9 ascii_duckdb sample_catalog sample_glue sample_table_scan sample_query"
  have "case fst ?get of Inl e \<Rightarrow> False | Inr ps \<Rightarrow> map p_values ps = [[''1''], [''2'']]" by code_simp
  then obtain ps q1 where get: "?get = (Inr ps, q1)" and ps: "map p_values ps = [[''1''], [''2'']]"
    by (cases ?get) (auto split: sum.splits)
  obtain q2 where list: "get_directory_listing ascii_duckdb (\<lambda>w d. Inr []) False ''s3://b/t'' q1 = (Inr [], q2)"
    if "map_of (qc_listings (q_cache q1)) (RTrimChars ascii_duckdb ''s3://b/t'' ''/'') = None"
    by (auto simp: get_directory_listing_def Let_def)
  have "qc_listings (q_cache q1) = []"
    using get in_session_cache [of "load_partitions 9 ascii_duckdb sample_catalog sample_glue sample_table_scan" sample_query]
    by (auto simp: get_table_partitions_def Let_def bind_op_def sample_query_def new_query_cache_def split: prod.splits sum.splits)
  then have "get_directory_listing ascii_duckdb (\<lambda>w d. Inr []) False ''s3://b/t'' q1 = (Inr [], q2)" using list by simp
  moreover have "same_query q2 (moved_on q2)" by (simp add: same_query_def moved_on_def)
  ultimately have "get_table_partitions 0 ascii_duckdb sample_catalog sample_glue sample_table_scan (moved_on q2) = (Inr ps, moved_on q2)"
    using scans_of_a_query_agree [OF get _ _ refl refl, of "\<lambda>w d. Inr []" "''s3://b/t''" "[]" q2 "moved_on q2"] by blast
  with ps show ?thesis by (intro exI [of _ ps] exI [of _ "moved_on q2"]) (simp add: moved_on_def)
qed

end
