(* ===== verification/Hive_Scan_Function.thy ===== *)
theory Hive_Scan_Function
  imports Create_Table Partition_Listing
begin

text \<open>
  The table function \<open>hive_scan(root, schema := ..., partitions := ...)\<close> of
  src/functions/hive_scan_function.cpp: the scan its arguments describe. \<open>transform\<close> is DuckDB's parser of
  a type name, \<open>join_path\<close> its \<open>Path::FromString(root).Join(directory).ToString()\<close>; \<open>GetValue<string>\<close> is
  \<open>ToString\<close>.
\<close>

definition default_csv_options :: HiveCSVOptions where
  "default_csv_options = \<lparr> delimiter = '','', quote = [CHR 0x22], escape = [CHR 0x22], skip_lines = 0,
     null_string = [], serde_fields = False, null_for_invalid_data = True, false_unless_true = False,
     field_escape = [], epoch_fields = False \<rparr>"

definition new_scan_info :: "string \<Rightarrow> HiveScanInfo" where
  "new_scan_info root = \<lparr> hs_catalog_name = [], hs_database_name = [], hs_table_name = root, hs_table = None,
     hs_root_location = root, hs_names = [], hs_types = [], hs_file_format = PARQUET,
     hs_csv_options = default_csv_options, hs_json_options = new_json_options, hs_partition_keys = [],
     hs_file_partitions = [], hs_partitions = None \<rparr>"

definition default_partition_location ::
  "duckdb \<Rightarrow> (string \<Rightarrow> string list \<Rightarrow> string) \<Rightarrow> HiveScanInfo \<Rightarrow> string list \<Rightarrow> string" where
  "default_partition_location D join_path info values =
     join_path (hs_root_location info) (hive_partition_directory D (hs_partition_keys info) values)"

definition parse_schema ::
  "duckdb \<Rightarrow> (string \<Rightarrow> LogicalType result) \<Rightarrow> Value \<Rightarrow> HiveScanInfo \<Rightarrow> HiveScanInfo result" where
  "parse_schema D transform schema info =
     (if value_is_null schema \<or> type_id (value_type schema) \<noteq> ID_STRUCT
      then Inl (BinderException ''hive_scan: schema must be a struct of column name to type'' [])
      else and_then (collect (\<lambda>(name, v).
             if value_is_null v then Inl (BinderException ''hive_scan: no type given for column'' [name])
             else and_then (transform (ValueToString D v)) (\<lambda>t. Inr (name, t))) (struct_fields schema)) (\<lambda>columns.
        let info' = info\<lparr>hs_names := hs_names info @ map fst columns, hs_types := hs_types info @ map snd columns\<rparr> in
        if hs_names info' = [] then Inl (BinderException ''hive_scan: schema must name at least one column'' [])
        else Inr info'))"

definition parse_partition_keys :: "duckdb \<Rightarrow> Value \<Rightarrow> HiveScanInfo \<Rightarrow> HiveScanInfo result" where
  "parse_partition_keys D keys info =
     (if value_is_null keys \<or> type_id (value_type keys) \<noteq> ID_LIST
      then Inl (BinderException ''hive_scan: partition_keys must be a list of column names'' [])
      else Inr (info\<lparr>hs_partition_keys := hs_partition_keys info @ map (ValueToString D) (list_children keys)\<rparr>))"

text \<open>One field of a partition: the location, or the value of a key, which it marks as seen.\<close>

definition parse_partition_field ::
  "duckdb \<Rightarrow> HiveScanInfo \<Rightarrow> string \<times> Value \<Rightarrow> GluePartitionInfo \<times> bool list \<Rightarrow> (GluePartitionInfo \<times> bool list) result" where
  "parse_partition_field D info field acc = (case (field, acc) of ((name, v), (p, seen)) \<Rightarrow>
     if CIEquals D name ''location''
     then Inr (if value_is_null v then p else p\<lparr>p_location := RTrimChars D (ValueToString D v) ''/''\<rparr>, seen)
     else case get_partition_key_index D info name of
       None \<Rightarrow> Inl (BinderException ''hive_scan: not a partition key'' (name # hs_partition_keys info))
     | Some k \<Rightarrow>
         Inr (p\<lparr>p_values := (p_values p)[k := if value_is_null v then DEFAULT_PARTITION_NAME D else ValueToString D v]\<rparr>,
              seen[k := True]))"

fun parse_partition_fields ::
  "duckdb \<Rightarrow> HiveScanInfo \<Rightarrow> (string \<times> Value) list \<Rightarrow> GluePartitionInfo \<times> bool list \<Rightarrow> (GluePartitionInfo \<times> bool list) result" where
  "parse_partition_fields D info [] acc = Inr acc"
| "parse_partition_fields D info (field # fs) acc =
     and_then (parse_partition_field D info field acc) (parse_partition_fields D info fs)"

definition keys_of_fields :: "duckdb \<Rightarrow> (string \<times> Value) list \<Rightarrow> string list" where
  "keys_of_fields D fs = filter (\<lambda>name. \<not> CIEquals D name ''location'') (map fst fs)"

definition parse_partition ::
  "duckdb \<Rightarrow> (string \<Rightarrow> string list \<Rightarrow> string) \<Rightarrow> nat \<Rightarrow> Value \<Rightarrow> HiveScanInfo \<Rightarrow> (HiveScanInfo \<times> GluePartitionInfo) result" where
  "parse_partition D join_path number v info =
     (if value_is_null v \<or> type_id (value_type v) \<noteq> ID_STRUCT
      then Inl (BinderException ''hive_scan: every entry of partitions must be a struct'' [])
      else
        let info' = (if hs_partition_keys info = [] then info\<lparr>hs_partition_keys := keys_of_fields D (struct_fields v)\<rparr> else info);
            keys = hs_partition_keys info';
            blank = \<lparr> p_values = replicate (length keys) [], p_location = [], p_input_format = [],
              p_serde_library = [], p_serde_parameters = [], p_partition_columns = [] \<rparr>
        in and_then (parse_partition_fields D info' (struct_fields v) (blank, replicate (length keys) False)) (\<lambda>(p, seen).
           and_then (check_each (\<lambda>k. check (seen ! k)
               (BinderException ''hive_scan: partition has no value for partition key'' [FormatInt D (int number), keys ! k]))
             [0..<length keys]) (\<lambda>_.
             Inr (info', if p_location p = []
               then p\<lparr>p_location := default_partition_location D join_path info' (p_values p)\<rparr> else p))))"

fun parse_each_partition ::
  "duckdb \<Rightarrow> (string \<Rightarrow> string list \<Rightarrow> string) \<Rightarrow> Value list \<Rightarrow> GluePartitionInfo list \<Rightarrow> HiveScanInfo
     \<Rightarrow> (HiveScanInfo \<times> GluePartitionInfo list) result" where
  "parse_each_partition D join_path [] parsed info = Inr (info, parsed)"
| "parse_each_partition D join_path (v # vs) parsed info =
     and_then (parse_partition D join_path (length parsed + 1) v info) (\<lambda>(info', p).
       parse_each_partition D join_path vs (parsed @ [p]) info')"

definition parse_partitions ::
  "duckdb \<Rightarrow> (string \<Rightarrow> string list \<Rightarrow> string) \<Rightarrow> Value \<Rightarrow> HiveScanInfo \<Rightarrow> HiveScanInfo result" where
  "parse_partitions D join_path partitions info =
     (if value_is_null partitions \<or> type_id (value_type partitions) \<noteq> ID_LIST
      then Inl (BinderException ''hive_scan: partitions must be a list of structs'' [])
      else and_then (parse_each_partition D join_path (list_children partitions) [] info) (\<lambda>(info', ps).
             Inr (set_partitions ps info')))"

text \<open>The options other than the three structured ones, in any order.\<close>

definition apply_scan_option :: "duckdb \<Rightarrow> string \<times> Value \<Rightarrow> HiveScanInfo \<Rightarrow> HiveScanInfo result" where
  "apply_scan_option D option info = (case option of (key, v) \<Rightarrow>
     let name = Lower D key; str = ValueToString D v; csv = hs_csv_options info in
     if name = ''format'' then and_then (hive_file_format_from_string D str) (\<lambda>f. Inr (info\<lparr>hs_file_format := f\<rparr>))
     else if name = ''delim'' then Inr (info\<lparr>hs_csv_options := csv\<lparr>delimiter := str\<rparr>\<rparr>)
     else if name = ''quote'' then Inr (info\<lparr>hs_csv_options := csv\<lparr>quote := str\<rparr>\<rparr>)
     else if name = ''escape'' then Inr (info\<lparr>hs_csv_options := csv\<lparr>escape := str\<rparr>\<rparr>)
     else if name = ''header''
     then and_then (bool_value D v) (\<lambda>b. Inr (info\<lparr>hs_csv_options := csv\<lparr>skip_lines := (if b then 1 else 0)\<rparr>\<rparr>))
     else if name = ''nullstr'' then Inr (info\<lparr>hs_csv_options := csv\<lparr>null_string := str\<rparr>\<rparr>)
     else if name = ''ignore_errors''
     then and_then (bool_value D v) (\<lambda>b. Inr (info\<lparr>hs_json_options := (hs_json_options info)\<lparr>ignore_errors := b\<rparr>\<rparr>))
     else Inr info)"

fun apply_scan_options :: "duckdb \<Rightarrow> (string \<times> Value) list \<Rightarrow> HiveScanInfo \<Rightarrow> HiveScanInfo result" where
  "apply_scan_options D [] info = Inr info"
| "apply_scan_options D (opt # opts) info = and_then (apply_scan_option D opt info) (apply_scan_options D opts)"

definition scan_option :: "duckdb \<Rightarrow> (string \<times> Value) list \<Rightarrow> string \<Rightarrow> Value option" where
  "scan_option D opts name = map_option snd (find (\<lambda>(key, v). Lower D key = name) opts)"

text \<open>\<open>HiveScanBind\<close> up to the binding of the format's reader (\<open>reader_parameters\<close>).\<close>

definition hive_scan_bind ::
  "duckdb \<Rightarrow> (string \<Rightarrow> LogicalType result) \<Rightarrow> (string \<Rightarrow> string list \<Rightarrow> string) \<Rightarrow> Value \<Rightarrow> (string \<times> Value) list
     \<Rightarrow> HiveScanInfo result" where
  "hive_scan_bind D transform join_path root opts =
     (let location = RTrimChars D (ValueToString D root) ''/'';
          keys = scan_option D opts ''partition_keys''; partitions = scan_option D opts ''partitions'' in
      if location = [] then Inl (BinderException ''hive_scan: the root location must not be empty'' [])
      else
        and_then (apply_scan_options D opts (new_scan_info location)) (\<lambda>info.
        and_then (case scan_option D opts ''schema'' of
            None \<Rightarrow> Inl (BinderException ''hive_scan requires the table schema'' [])
          | Some schema \<Rightarrow> parse_schema D transform schema info) (\<lambda>info.
        and_then (case keys of None \<Rightarrow> Inr info | Some k \<Rightarrow> parse_partition_keys D k info) (\<lambda>info.
        and_then (case partitions of None \<Rightarrow> Inr info | Some p \<Rightarrow> parse_partitions D join_path p info) (\<lambda>info.
        and_then (check (keys = None \<or> partitions \<noteq> None)
          (BinderException ''hive_scan: partition_keys was given without partitions''
             [if hs_partition_keys info = [] then ''dt'' else hd (hs_partition_keys info)])) (\<lambda>_.
        and_then (check_each (\<lambda>key. check (list_ex (\<lambda>n. CIEquals D n key) (hs_names info))
            (BinderException ''hive_scan: partition key is not a column of the schema'' [key])) (hs_partition_keys info)) (\<lambda>_.
          Inr info)))))))"

subsection \<open>Properties\<close>

lemma parse_partition_fields_values:
  assumes "parse_partition_fields D info given (p, seen) = Inr (p', seen')"
  shows "length (p_values p') = length (p_values p) \<and> length seen' = length seen \<and>
    p_input_format p' = p_input_format p \<and> p_serde_library p' = p_serde_library p \<and>
    p_partition_columns p' = p_partition_columns p"
  using assms
proof (induction given arbitrary: p seen)
  case (Cons field fs)
  from Cons.prems obtain p1 seen1 where step: "parse_partition_field D info field (p, seen) = Inr (p1, seen1)"
    and "parse_partition_fields D info fs (p1, seen1) = Inr (p', seen')" by (auto simp: and_then_Inr_iff)
  from Cons.IH [OF this(2)] step show ?case
    by (cases field) (auto simp: parse_partition_field_def split: if_splits option.splits)
qed simp

definition complete_partition :: "HiveScanInfo \<Rightarrow> GluePartitionInfo \<Rightarrow> bool" where
  "complete_partition info p \<longleftrightarrow> length (p_values p) = length (hs_partition_keys info) \<and>
     p_input_format p = [] \<and> p_serde_library p = [] \<and> p_partition_columns p = []"

lemma parse_partition_complete:
  assumes "parse_partition D join_path n v info = Inr (info', p)"
  shows "complete_partition info' p" and "hs_partition_keys info \<noteq> [] \<Longrightarrow> info' = info"
    and "hs_table info' = hs_table info" and "info' = info\<lparr>hs_partition_keys := hs_partition_keys info'\<rparr>"
proof -
  let ?info = "if hs_partition_keys info = [] then info\<lparr>hs_partition_keys := keys_of_fields D (struct_fields v)\<rparr> else info"
  let ?blank = "\<lparr> p_values = replicate (length (hs_partition_keys ?info)) [], p_location = [], p_input_format = [],
    p_serde_library = [], p_serde_parameters = [], p_partition_columns = [] \<rparr>"
  have struct: "\<not> (value_is_null v \<or> type_id (value_type v) \<noteq> ID_STRUCT)"
    using assms by (auto simp: parse_partition_def split: if_splits)
  from assms obtain p1 seen where fields: "parse_partition_fields D ?info (struct_fields v)
      (?blank, replicate (length (hs_partition_keys ?info)) False) = Inr (p1, seen)"
    and info: "info' = ?info"
    and p: "p = (if p_location p1 = [] then p1\<lparr>p_location := default_partition_location D join_path ?info (p_values p1)\<rparr> else p1)"
    unfolding parse_partition_def if_not_P [OF struct] by (auto simp: Let_def result_simps)
  show "complete_partition info' p"
    using parse_partition_fields_values [OF fields] by (auto simp: complete_partition_def info p)
  show "hs_partition_keys info \<noteq> [] \<Longrightarrow> info' = info" "hs_table info' = hs_table info"
    "info' = info\<lparr>hs_partition_keys := hs_partition_keys info'\<rparr>" by (auto simp: info)
qed

lemma parse_each_partition_complete:
  assumes "parse_each_partition D join_path vs parsed info = Inr (info', ps)"
    and "\<forall>v\<in>set vs. map fst (struct_fields v) = names"
    and "hs_partition_keys info = [] \<longrightarrow> parsed = [] \<or> filter (\<lambda>name. \<not> CIEquals D name ''location'') names = []"
    and "\<forall>p\<in>set parsed. complete_partition info p"
  shows "\<forall>p\<in>set ps. complete_partition info' p" and "info' = info\<lparr>hs_partition_keys := hs_partition_keys info'\<rparr>"
  using assms
proof (induction vs arbitrary: parsed info)
  case Nil
  { case 1 with Nil show ?case by simp next case 2 with Nil show ?case by simp }
next
  case (Cons v vs)
  have step: "\<exists>info1 p. parse_partition D join_path (length parsed + 1) v info = Inr (info1, p) \<and>
      parse_each_partition D join_path vs (parsed @ [p]) info1 = Inr (info', ps) \<and>
      (hs_partition_keys info1 = [] \<longrightarrow> parsed @ [p] = [] \<or> filter (\<lambda>name. \<not> CIEquals D name ''location'') names = []) \<and>
      (\<forall>p\<in>set (parsed @ [p]). complete_partition info1 p) \<and> info1 = info\<lparr>hs_partition_keys := hs_partition_keys info1\<rparr>"
    if run: "parse_each_partition D join_path (v # vs) parsed info = Inr (info', ps)"
      and names: "\<forall>v\<in>set (v # vs). map fst (struct_fields v) = names"
      and empty: "hs_partition_keys info = [] \<longrightarrow> parsed = [] \<or> filter (\<lambda>name. \<not> CIEquals D name ''location'') names = []"
      and ok: "\<forall>p\<in>set parsed. complete_partition info p" for parsed info
  proof -
    from run obtain info1 p where parse: "parse_partition D join_path (length parsed + 1) v info = Inr (info1, p)"
      and rest: "parse_each_partition D join_path vs (parsed @ [p]) info1 = Inr (info', ps)"
      by (auto simp: and_then_Inr_iff)
    note p = parse_partition_complete [OF parse]
    have keys: "hs_partition_keys info1 = (if hs_partition_keys info = []
        then filter (\<lambda>name. \<not> CIEquals D name ''location'') names else hs_partition_keys info)"
      using parse names by (auto simp: parse_partition_def Let_def result_simps keys_of_fields_def split: if_splits)
    then have "hs_partition_keys info1 = [] \<longrightarrow> filter (\<lambda>name. \<not> CIEquals D name ''location'') names = []"
      by (auto split: if_splits)
    moreover have "\<forall>p\<in>set parsed. complete_partition info1 p"
    proof (cases "parsed = []")
      case False
      then have "hs_partition_keys info1 = hs_partition_keys info" using keys empty by auto
      then show ?thesis using ok by (simp add: complete_partition_def)
    qed simp
    ultimately show ?thesis using parse rest p(1,4) by auto
  qed
  { case 1
    from step [OF 1] obtain info1 p where "parse_each_partition D join_path vs (parsed @ [p]) info1 = Inr (info', ps)"
      "hs_partition_keys info1 = [] \<longrightarrow> parsed @ [p] = [] \<or> filter (\<lambda>name. \<not> CIEquals D name ''location'') names = []"
      "\<forall>p\<in>set (parsed @ [p]). complete_partition info1 p" by blast
    then show ?case using Cons.IH(1) 1(2) by (metis list.set_intros(2))
  next
    case 2
    from step [OF 2] obtain info1 p where "parse_each_partition D join_path vs (parsed @ [p]) info1 = Inr (info', ps)"
      "hs_partition_keys info1 = [] \<longrightarrow> parsed @ [p] = [] \<or> filter (\<lambda>name. \<not> CIEquals D name ''location'') names = []"
      "\<forall>p\<in>set (parsed @ [p]). complete_partition info1 p" and info1: "info1 = info\<lparr>hs_partition_keys := hs_partition_keys info1\<rparr>" by blast
    then have "info' = info1\<lparr>hs_partition_keys := hs_partition_keys info'\<rparr>"
      using Cons.IH(2) 2(2) by (metis list.set_intros(2))
    moreover obtain ks where ks: "info1 = info\<lparr>hs_partition_keys := ks\<rparr>" using info1 by blast
    ultimately show ?case unfolding ks by simp
  }
qed

lemma complete_partition_readable:
  "complete_partition info p \<Longrightarrow> hs_table info = None \<Longrightarrow> readable_partition D info p"
  by (simp add: complete_partition_def readable_partition_def check_value_count_def check_def
    verify_consistent_partition_serde_def partition_storage_mismatch_def)



end
