(* ===== verification/Partition_Functions.thy ===== *)
theory Partition_Functions
  imports Query_Cache Create_Table
begin

text \<open>
  The table functions of src/functions/glue_partition_functions.cpp that list the partitions of a Hive table or change
  one of them, with what they share: the table argument (\<open>ResolveGlueTable\<close>, and \<open>ResolveGlueTableName\<close> of
  src/functions/glue_functions.cpp) and the partition given as a struct or as pairs. A function binds first and then
  scans, each an operation on the session: the bind gives the bind data, the scan the rows of its chunk. The
  statement of several actions, \<open>glue_alter_table\<close>, is in Alter_Table.

  DuckDB's catalogs are the record \<open>name_resolver\<close>: its parser of qualified names, its search for a table of a
  partial name and the databases attached.
\<close>

subsection \<open>The table argument\<close>

datatype attached = GlueDatabase glue_catalog | OtherDatabase string

record 'w name_resolver =
  ParseName :: "string \<Rightarrow> qualified_name result"
  GetEntry :: "qualified_name \<Rightarrow> ('w, qualified_name) op"
  GetCatalogEntry :: "string \<Rightarrow> attached option"
  JoinPath :: "string \<Rightarrow> string list \<Rightarrow> string"

text \<open>
  \<open>GetEntry q\<close> is the name of the entry \<open>Catalog::GetEntry\<close> finds for a table. \<open>JoinPath\<close> is
  \<open>Path::FromString(p).Join(q).ToString()\<close>.
\<close>

definition resolve_glue_table_name ::
  "'w name_resolver \<Rightarrow> string \<Rightarrow> string \<Rightarrow> ('w, qualified_name \<times> glue_catalog) op" where
  "resolve_glue_table_name Q function_name table_name =
     bind_op (lift_op (ParseName Q table_name)) (\<lambda>parsed.
     bind_op (if qn_catalog parsed = [] \<or> qn_schema parsed = [] then GetEntry Q parsed else return_op parsed) (\<lambda>q.
       case GetCatalogEntry Q (qn_catalog q) of
         None \<Rightarrow> throw_op (BinderException ''Catalog does not exist'' [qn_catalog q])
       | Some (OtherDatabase ty) \<Rightarrow> throw_op (BinderException ''function only works on tables of a Glue catalog''
           [function_name, qn_catalog q, ty])
       | Some (GlueDatabase cat) \<Rightarrow> return_op (q, cat)))"

record GluePartitionTarget =
  tg_catalog :: glue_catalog
  tg_table :: GlueTableInfo

definition target_name :: "GluePartitionTarget \<Rightarrow> string" where
  "target_name target = t_schema_name (tg_table target) @ ''.'' @ t_name (tg_table target)"

definition throw_is_view :: "string \<Rightarrow> string \<Rightarrow> bool \<Rightarrow> exn" where
  "throw_is_view function_name table_name require_partitions =
     (if require_partitions then BinderException ''Glue view has no partitions'' [function_name, table_name]
      else BinderException ''is a Glue view, not a table'' [function_name, table_name])"

definition resolve_glue_table ::
  "duckdb \<Rightarrow> 'w service \<Rightarrow> 'w name_resolver \<Rightarrow> string \<Rightarrow> string \<Rightarrow> bool \<Rightarrow> ('w, GluePartitionTarget) op" where
  "resolve_glue_table D S Q function_name table_name require_partitions =
     bind_op (resolve_glue_table_name Q function_name table_name) (\<lambda>(q, cat).
     bind_op (get_table D cat S (qn_schema q) (qn_name q)) (\<lambda>found.
       case found of
         None \<Rightarrow> throw_op (CatalogException ''Table does not exist in Glue catalog''
                   [qn_schema q, qn_name q, qn_catalog q])
       | Some t \<Rightarrow>
           let target = \<lparr>tg_catalog = cat, tg_table = t\<rparr>; fmt = detect_format D t in
           if is_view t then throw_op (throw_is_view function_name (target_name target) require_partitions)
           else if \<not> is_hive fmt
           then throw_op (NotImplementedException ''only works on Hive tables''
                  [function_name, target_name target, describe_format fmt t])
           else if require_partitions \<and> t_partition_keys t = []
           then throw_op (InvalidInputException ''Table is not partitioned'' [target_name target])
           else return_op target))"

subsection \<open>A partition given by its keys\<close>

definition partition_listing_value :: "duckdb \<Rightarrow> string \<Rightarrow> string \<Rightarrow> LogicalType \<Rightarrow> Value" where
  "partition_listing_value D key str ty = (case partition_value D key str ty of Inl e \<Rightarrow> NullV ty | Inr v \<Rightarrow> v)"

definition key_names :: "GlueTableInfo \<Rightarrow> string list" where
  "key_names t = map col_name (t_partition_keys t)"

definition find_key :: "duckdb \<Rightarrow> GluePartitionTarget \<Rightarrow> string \<Rightarrow> nat option" where
  "find_key D target name = find_index (\<lambda>key. CIEquals D key name) (key_names (tg_table target))"

text \<open>
  A field of the partition: its value is put at the place of the key it names, once. \<open>render\<close> is the value as it
  is stored for a key of a type, \<open>None\<close> a NULL. The values have a place each, \<open>None\<close> where \<open>seen\<close> is false.
\<close>

definition place_value ::
  "duckdb \<Rightarrow> GluePartitionTarget \<Rightarrow> (LogicalType \<Rightarrow> 'v \<Rightarrow> string result) \<Rightarrow> string \<times> 'v option
     \<Rightarrow> string option list \<Rightarrow> string option list result" where
  "place_value D target render entry result = (case entry of (name, v) \<Rightarrow>
     case find_key D target name of
       None \<Rightarrow> Inl (BinderException ''not a partition key of table'' (name # target_name target # key_names (tg_table target)))
     | Some k \<Rightarrow>
         if result ! k \<noteq> None
         then Inl (BinderException ''Partition key is given twice'' [key_names (tg_table target) ! k])
         else case v of
           None \<Rightarrow> Inr (result[k := Some (DEFAULT_PARTITION_NAME D)])
         | Some x \<Rightarrow>
             and_then (to_logical_type D (col_type (t_partition_keys (tg_table target) ! k))) (\<lambda>key_type.
             and_then (render key_type x) (\<lambda>str. Inr (result[k := Some str]))))"

fun place_values ::
  "duckdb \<Rightarrow> GluePartitionTarget \<Rightarrow> (LogicalType \<Rightarrow> 'v \<Rightarrow> string result) \<Rightarrow> (string \<times> 'v option) list
     \<Rightarrow> string option list \<Rightarrow> string option list result" where
  "place_values D target render [] result = Inr result"
| "place_values D target render (entry # es) result =
     and_then (place_value D target render entry result) (place_values D target render es)"

definition all_placed ::
  "duckdb \<Rightarrow> string \<Rightarrow> GluePartitionTarget \<Rightarrow> string option list \<Rightarrow> string list result" where
  "all_placed D function_name target result =
     (case find (\<lambda>k. result ! k = None) [0 ..< length result] of
        Some k \<Rightarrow> Inl (BinderException ''the partition must name every partition key of table''
                    (function_name # target_name target # key_names (tg_table target) @ [key_names (tg_table target) ! k]))
      | None \<Rightarrow> Inr (map the result))"

text \<open>\<open>value.DefaultCastAs(key_type).ToString()\<close>.\<close>

definition cast_to_string :: "duckdb \<Rightarrow> LogicalType \<Rightarrow> Value \<Rightarrow> string result" where
  "cast_to_string D key_type v = (case TryCastAs D key_type v of
     None \<Rightarrow> Inl (InvalidInputException ''Could not convert value'' [ValueToString D v, TypeToString D key_type])
   | Some w \<Rightarrow> Inr (ValueToString D w))"

definition parse_partition_spec ::
  "duckdb \<Rightarrow> string \<Rightarrow> GluePartitionTarget \<Rightarrow> Value \<Rightarrow> string list result" where
  "parse_partition_spec D function_name target spec =
     (if type_id (value_type spec) \<noteq> ID_STRUCT \<or> value_is_null spec
      then Inl (BinderException ''expects the partition as a struct of the partition keys''
             (function_name # target_name target # key_names (tg_table target)))
      else
        and_then (place_values D target (cast_to_string D)
            (map (\<lambda>(name, v). (name, if value_is_null v then None else Some v)) (struct_fields spec))
            (replicate (length (t_partition_keys (tg_table target))) None))
          (all_placed D function_name target))"

definition parse_partition_pairs ::
  "duckdb \<Rightarrow> string \<Rightarrow> GluePartitionTarget \<Rightarrow> (string \<times> string option) list \<Rightarrow> string list result" where
  "parse_partition_pairs D function_name target pairs =
     and_then (place_values D target (\<lambda>key_type str. cast_to_string D key_type (StringV str)) pairs
         (replicate (length (t_partition_keys (tg_table target))) None))
       (all_placed D function_name target)"

text \<open>\<open>DefaultPartitionLocation\<close>.\<close>

definition default_location_of ::
  "duckdb \<Rightarrow> 'w name_resolver \<Rightarrow> GluePartitionTarget \<Rightarrow> string list \<Rightarrow> string result" where
  "default_location_of D Q target values =
     (let location = RTrimChars D (t_location (tg_table target)) ''/'' in
      if location = [] then Inl (InvalidInputException ''Table has no location in Glue'' [target_name target])
      else Inr (JoinPath Q location (hive_partition_directory D (key_names (tg_table target)) values)))"

subsection \<open>Changing one partition\<close>

text \<open>Bind data of the functions that change one partition and report one row.\<close>

record GluePartitionChangeBindData =
  bd_target :: GluePartitionTarget
  bd_values :: "string list"
  bd_new_values :: "string list"
  bd_location :: string
  bd_if_not_exists :: bool
  bd_if_exists :: bool

definition new_bind_data :: "GluePartitionTarget \<Rightarrow> GluePartitionChangeBindData" where
  "new_bind_data target = \<lparr>bd_target = target, bd_values = [], bd_new_values = [], bd_location = [],
     bd_if_not_exists = False, bd_if_exists = False\<rparr>"

text \<open>
  A scan of such a function with the flag \<open>done\<close> of its state: the first call makes the change and gives the
  row, the later ones give none.
\<close>

definition change_once :: "('w, Value) op \<Rightarrow> bool \<Rightarrow> ('w, Value list \<times> bool) op" where
  "change_once change already_done =
     (if already_done then return_op ([], True) else bind_op change (\<lambda>v. return_op ([v], True)))"

definition fetch_partition ::
  "duckdb \<Rightarrow> 'w service \<Rightarrow> GluePartitionTarget \<Rightarrow> string list \<Rightarrow> ('w, GluePartitionDetails) op" where
  "fetch_partition D S target values =
     bind_op (get_partition_details D (tg_catalog target) S (t_schema_name (tg_table target)) (t_name (tg_table target)) values)
       (\<lambda>found. case found of
          None \<Rightarrow> throw_op (CatalogException ''Partition does not exist in Glue table''
                    [partition_values_to_string D values, target_name target])
        | Some p \<Rightarrow> return_op p)"

definition throw_if_partition_exists ::
  "duckdb \<Rightarrow> 'w service \<Rightarrow> GluePartitionTarget \<Rightarrow> string list \<Rightarrow> ('w, unit) op" where
  "throw_if_partition_exists D S target values =
     bind_op (get_partition D (tg_catalog target) S (t_schema_name (tg_table target)) (t_name (tg_table target)) values)
       (\<lambda>found. case found of
          Some p \<Rightarrow> throw_op (CatalogException ''Partition already exists in Glue table''
                      [partition_values_to_string D values, target_name target])
        | None \<Rightarrow> return_op ())"

subsection \<open>glue_partitions\<close>

text \<open>
  A scan that hands out rows made before, a vector at a time: the rows of the chunk and the offset of the next.
\<close>

definition next_chunk :: "nat \<Rightarrow> 'r list \<Rightarrow> nat \<Rightarrow> 'r list \<times> nat" where
  "next_chunk STANDARD_VECTOR_SIZE rows offset =
     (let chunk = take STANDARD_VECTOR_SIZE (drop offset rows) in (chunk, offset + length chunk))"

record GluePartitionsBindData =
  gb_target :: GluePartitionTarget
  gb_key_types :: "LogicalType list"
  gb_partitions :: "GluePartitionInfo list"

text \<open>
  \<open>names\<close> and \<open>return_types\<close> of the result: a column per partition key, the location and the stored values.
  \<open>deduplicate\<close> is \<open>QueryResult::DeduplicateColumns\<close>; the keys keep their names.
\<close>

definition partition_columns :: "duckdb \<Rightarrow> GlueTableInfo \<Rightarrow> LogicalType list result" where
  "partition_columns D t = collect (\<lambda>key. to_logical_type D (col_type key)) (t_partition_keys t)"

definition listing_names :: "(string list \<Rightarrow> string list) \<Rightarrow> GlueTableInfo \<Rightarrow> string list \<Rightarrow> string list" where
  "listing_names deduplicate t others =
     key_names t @ drop (length (t_partition_keys t)) (deduplicate (key_names t @ others))"

definition glue_partitions_bind ::
  "nat \<Rightarrow> duckdb \<Rightarrow> 'w service \<Rightarrow> 'w name_resolver \<Rightarrow> (string list \<Rightarrow> string list) \<Rightarrow> string
     \<Rightarrow> ('w, GluePartitionsBindData \<times> (string \<times> LogicalType) list) op" where
  "glue_partitions_bind fuel D S Q deduplicate table_name =
     bind_op (resolve_glue_table D S Q ''glue_partitions'' table_name True) (\<lambda>target.
     bind_op (lift_op (partition_columns D (tg_table target))) (\<lambda>key_types s.
       let t = tg_table target; cat = tg_catalog target;
           columns = zip (listing_names deduplicate t [''location'', ''partition_values''])
                         (key_types @ [VARCHAR, LIST VARCHAR]) in
       case get_transaction D cat s of (tx, s1) \<Rightarrow>
         bind_op (cache_get D (partition_slots (tx_cache tx)) (put_partition_slots (tx_cache tx))
             (cache_key (t_schema_name t) (t_name t))
             (bind_op (get_partitions fuel D cat S (t_schema_name t) (t_name t)) (\<lambda>ps. return_op (Some ps))))
           (\<lambda>ps. return_op (\<lparr>gb_target = target, gb_key_types = key_types, gb_partitions = opt_list ps\<rparr>, columns)) s1))"

text \<open>The row of a partition: a typed value per key, NULL where the partition has none or it can not be cast.\<close>

definition partition_row :: "duckdb \<Rightarrow> GluePartitionsBindData \<Rightarrow> GluePartitionInfo \<Rightarrow> Value list" where
  "partition_row D b p =
     map (\<lambda>k. if k < length (p_values p)
              then partition_listing_value D (key_names (tg_table (gb_target b)) ! k) (p_values p ! k) (gb_key_types b ! k)
              else NullV (gb_key_types b ! k))
         [0 ..< length (t_partition_keys (tg_table (gb_target b)))]
     @ [StringV (p_location p), ListV VARCHAR (map StringV (p_values p))]"

definition glue_partitions_scan ::
  "duckdb \<Rightarrow> nat \<Rightarrow> GluePartitionsBindData \<Rightarrow> nat \<Rightarrow> Value list list \<times> nat" where
  "glue_partitions_scan D STANDARD_VECTOR_SIZE b offset =
     (case next_chunk STANDARD_VECTOR_SIZE (gb_partitions b) offset of
        (ps, offset') \<Rightarrow> (map (partition_row D b) ps, offset'))"

subsection \<open>glue_add_partition\<close>

definition add_option ::
  "duckdb \<Rightarrow> string \<times> Value \<Rightarrow> GluePartitionChangeBindData \<Rightarrow> GluePartitionChangeBindData result" where
  "add_option D option b = (case option of (key, v) \<Rightarrow>
     if Lower D key = ''location''
     then let location = RTrimChars D (ValueToString D v) ''/'' in
          if location = [] then Inl (BinderException ''glue_add_partition: location must not be empty'' [])
          else Inr (b\<lparr>bd_location := location\<rparr>)
     else if Lower D key = ''if_not_exists''
     then and_then (bool_value D v) (\<lambda>x. Inr (b\<lparr>bd_if_not_exists := x\<rparr>))
     else Inr b)"

fun change_options ::
  "(string \<times> Value \<Rightarrow> GluePartitionChangeBindData \<Rightarrow> GluePartitionChangeBindData result) \<Rightarrow> (string \<times> Value) list
     \<Rightarrow> GluePartitionChangeBindData \<Rightarrow> GluePartitionChangeBindData result" where
  "change_options f [] b = Inr b"
| "change_options f (opt # opts) b = and_then (f opt b) (change_options f opts)"

definition glue_add_partition_bind ::
  "duckdb \<Rightarrow> 'w service \<Rightarrow> 'w name_resolver \<Rightarrow> string \<Rightarrow> Value \<Rightarrow> (string \<times> Value) list
     \<Rightarrow> ('w, GluePartitionChangeBindData) op" where
  "glue_add_partition_bind D S Q table_name spec options =
     bind_op (resolve_glue_table D S Q ''glue_add_partition'' table_name True) (\<lambda>target.
     bind_op (throw_if_in_explicit_transaction ''glue_add_partition'') (\<lambda>_.
     bind_op (lift_op (parse_partition_spec D ''glue_add_partition'' target spec)) (\<lambda>values.
     bind_op (lift_op (change_options (add_option D) options ((new_bind_data target)\<lparr>bd_values := values\<rparr>))) (\<lambda>b.
       if bd_location b = []
       then bind_op (lift_op (default_location_of D Q target values)) (\<lambda>l. return_op (b\<lparr>bd_location := l\<rparr>))
       else return_op b))))"

definition glue_add_partition_scan ::
  "duckdb \<Rightarrow> 'w service \<Rightarrow> GluePartitionChangeBindData \<Rightarrow> bool \<Rightarrow> ('w, Value list \<times> bool) op" where
  "glue_add_partition_scan D S b = change_once
     (bind_op (create_partition D (tg_catalog (bd_target b)) S (tg_table (bd_target b))
        \<lparr>gpi_values = bd_values b, gpi_location = bd_location b\<rparr> (bd_if_not_exists b))
        (\<lambda>_. return_op (StringV (bd_location b))))"

subsection \<open>glue_drop_partition\<close>

definition drop_option ::
  "duckdb \<Rightarrow> string \<times> Value \<Rightarrow> GluePartitionChangeBindData \<Rightarrow> GluePartitionChangeBindData result" where
  "drop_option D option b = (case option of (key, v) \<Rightarrow>
     if Lower D key = ''if_exists'' then and_then (bool_value D v) (\<lambda>x. Inr (b\<lparr>bd_if_exists := x\<rparr>))
     else Inr b)"

definition glue_drop_partition_bind ::
  "duckdb \<Rightarrow> 'w service \<Rightarrow> 'w name_resolver \<Rightarrow> string \<Rightarrow> Value \<Rightarrow> (string \<times> Value) list
     \<Rightarrow> ('w, GluePartitionChangeBindData) op" where
  "glue_drop_partition_bind D S Q table_name spec options =
     bind_op (resolve_glue_table D S Q ''glue_drop_partition'' table_name True) (\<lambda>target.
     bind_op (throw_if_in_explicit_transaction ''glue_drop_partition'') (\<lambda>_.
     bind_op (lift_op (parse_partition_spec D ''glue_drop_partition'' target spec)) (\<lambda>values.
       lift_op (change_options (drop_option D) options ((new_bind_data target)\<lparr>bd_values := values\<rparr>)))))"

definition glue_drop_partition_scan ::
  "duckdb \<Rightarrow> 'w service \<Rightarrow> GluePartitionChangeBindData \<Rightarrow> bool \<Rightarrow> ('w, Value list \<times> bool) op" where
  "glue_drop_partition_scan D S b = (let target = bd_target b; t = tg_table target in change_once
     (bind_op (delete_partition D (tg_catalog target) S (t_schema_name t) (t_name t) (bd_values b)) (\<lambda>dropped.
        if \<not> dropped \<and> \<not> bd_if_exists b
        then throw_op (CatalogException ''Partition does not exist in Glue table''
               [partition_values_to_string D (bd_values b), target_name target])
        else return_op (BoolV dropped))))"

subsection \<open>glue_rename_partition\<close>

definition glue_rename_partition_bind ::
  "duckdb \<Rightarrow> 'w service \<Rightarrow> 'w name_resolver \<Rightarrow> string \<Rightarrow> Value \<Rightarrow> Value \<Rightarrow> ('w, GluePartitionChangeBindData) op" where
  "glue_rename_partition_bind D S Q table_name spec new_spec =
     bind_op (resolve_glue_table D S Q ''glue_rename_partition'' table_name True) (\<lambda>target.
     bind_op (throw_if_in_explicit_transaction ''glue_rename_partition'') (\<lambda>_.
     bind_op (lift_op (parse_partition_spec D ''glue_rename_partition'' target spec)) (\<lambda>values.
     bind_op (lift_op (parse_partition_spec D ''glue_rename_partition'' target new_spec)) (\<lambda>new_values.
       return_op ((new_bind_data target)\<lparr>bd_values := values, bd_new_values := new_values\<rparr>)))))"

definition glue_rename_partition_scan ::
  "duckdb \<Rightarrow> 'w service \<Rightarrow> GluePartitionChangeBindData \<Rightarrow> bool \<Rightarrow> ('w, Value list \<times> bool) op" where
  "glue_rename_partition_scan D S b = (let target = bd_target b; t = tg_table target in change_once
     (bind_op (fetch_partition D S target (bd_values b)) (\<lambda>p.
      bind_op (throw_if_partition_exists D S target (bd_new_values b)) (\<lambda>_.
      bind_op (rename_partition D (tg_catalog target) S (t_schema_name t) (t_name t) p (bd_new_values b))
        (\<lambda>location. return_op (StringV location))))))"

subsection \<open>glue_set_partition_location and glue_set_table_location\<close>

definition parse_location :: "duckdb \<Rightarrow> string \<Rightarrow> Value \<Rightarrow> string result" where
  "parse_location D function_name location =
     (if value_is_null location then Inl (BinderException ''the location must not be NULL'' [function_name])
      else
        let result = RTrimChars D (ValueToString D location) ''/'' in
        if result = [] then Inl (BinderException ''the location must not be empty'' [function_name])
        else if \<not> StartsWith D (Lower D result) ''s3://'' \<and> \<not> StartsWith D (Lower D result) ''s3a://''
        then Inl (BinderException ''the location must be an S3 location'' [function_name, result])
        else Inr result)"

definition glue_set_partition_location_bind ::
  "duckdb \<Rightarrow> 'w service \<Rightarrow> 'w name_resolver \<Rightarrow> string \<Rightarrow> Value \<Rightarrow> Value \<Rightarrow> ('w, GluePartitionChangeBindData) op" where
  "glue_set_partition_location_bind D S Q table_name spec location =
     bind_op (resolve_glue_table D S Q ''glue_set_partition_location'' table_name True) (\<lambda>target.
     bind_op (throw_if_in_explicit_transaction ''glue_set_partition_location'') (\<lambda>_.
     bind_op (lift_op (parse_partition_spec D ''glue_set_partition_location'' target spec)) (\<lambda>values.
     bind_op (lift_op (parse_location D ''glue_set_partition_location'' location)) (\<lambda>l.
       return_op ((new_bind_data target)\<lparr>bd_values := values, bd_location := l\<rparr>)))))"

definition glue_set_partition_location_scan ::
  "duckdb \<Rightarrow> 'w service \<Rightarrow> GluePartitionChangeBindData \<Rightarrow> bool \<Rightarrow> ('w, Value list \<times> bool) op" where
  "glue_set_partition_location_scan D S b = (let target = bd_target b; t = tg_table target in change_once
     (bind_op (fetch_partition D S target (bd_values b)) (\<lambda>p.
      bind_op (set_partition_location D (tg_catalog target) S (t_schema_name t) (t_name t) p (bd_location b))
        (\<lambda>_. return_op (StringV (bd_location b))))))"

definition glue_set_table_location_bind ::
  "duckdb \<Rightarrow> 'w service \<Rightarrow> 'w name_resolver \<Rightarrow> string \<Rightarrow> Value \<Rightarrow> ('w, GluePartitionChangeBindData) op" where
  "glue_set_table_location_bind D S Q table_name location =
     bind_op (resolve_glue_table D S Q ''glue_set_table_location'' table_name False) (\<lambda>target.
     bind_op (throw_if_in_explicit_transaction ''glue_set_table_location'') (\<lambda>_.
     bind_op (lift_op (parse_location D ''glue_set_table_location'' location)) (\<lambda>l.
       return_op ((new_bind_data target)\<lparr>bd_location := l\<rparr>))))"

definition glue_set_table_location_scan ::
  "duckdb \<Rightarrow> 'w service \<Rightarrow> GluePartitionChangeBindData \<Rightarrow> bool \<Rightarrow> ('w, Value list \<times> bool) op" where
  "glue_set_table_location_scan D S b = change_once
     (bind_op (set_table_location D (tg_catalog (bd_target b)) S (tg_table (bd_target b)) (bd_location b))
        (\<lambda>_. return_op (StringV (bd_location b))))"

subsection \<open>What a partition argument means\<close>

lemma find_index_bound: "find_index P xs = Some k \<Longrightarrow> k < length xs"
  by (auto simp: find_index_def Let_def split: if_splits)

lemma find_key_bound: "find_key D target name = Some k \<Longrightarrow> k < length (t_partition_keys (tg_table target))"
  using find_index_bound by (fastforce simp: find_key_def key_names_def)

text \<open>The value stored for the key at a place.\<close>

definition stored_value ::
  "duckdb \<Rightarrow> GluePartitionTarget \<Rightarrow> (LogicalType \<Rightarrow> 'v \<Rightarrow> string result) \<Rightarrow> nat \<Rightarrow> 'v option \<Rightarrow> string result" where
  "stored_value D target render k v = (case v of
     None \<Rightarrow> Inr (DEFAULT_PARTITION_NAME D)
   | Some x \<Rightarrow> and_then (to_logical_type D (col_type (t_partition_keys (tg_table target) ! k))) (\<lambda>ty. render ty x))"

lemma place_value_Inr:
  "place_value D target render (name, v) r = Inr r' \<longleftrightarrow>
     (\<exists>k str. find_key D target name = Some k \<and> r ! k = None \<and> stored_value D target render k v = Inr str \<and>
        r' = r[k := Some str])"
  by (auto simp: place_value_def stored_value_def and_then_Inr_iff split: option.split)

text \<open>Where the entries go: every one has a place of its own, which was free, and the other places are left.\<close>

lemma place_values_Inr:
  assumes "place_values D target render es r = Inr r'" "length r = length (t_partition_keys (tg_table target))"
  shows "length r' = length r \<and> distinct (map (\<lambda>e. find_key D target (fst e)) es) \<and>
    (\<forall>(name, v)\<in>set es. \<exists>k str. find_key D target name = Some k \<and> k < length r \<and> r ! k = None \<and>
       stored_value D target render k v = Inr str \<and> r' ! k = Some str) \<and>
    (\<forall>k. Some k \<notin> set (map (\<lambda>e. find_key D target (fst e)) es) \<longrightarrow> r' ! k = r ! k)"
  using assms
proof (induction es arbitrary: r)
  case (Cons e es)
  obtain name v where e: "e = (name, v)" by fastforce
  from Cons.prems(1) obtain k str where k: "find_key D target name = Some k" "r ! k = None"
    and str: "stored_value D target render k v = Inr str"
    and rest: "place_values D target render es (r[k := Some str]) = Inr r'"
    by (auto simp: e place_value_Inr and_then_Inr_iff)
  have bound: "k < length r" using find_key_bound [OF k(1)] Cons.prems(2) by simp
  from Cons.IH [OF rest] Cons.prems(2)
  have len: "length r' = length r" and dist: "distinct (map (\<lambda>e. find_key D target (fst e)) es)"
    and placed: "\<And>n u. (n, u) \<in> set es \<Longrightarrow> \<exists>j str'. find_key D target n = Some j \<and> j < length r \<and>
      r[k := Some str] ! j = None \<and> stored_value D target render j u = Inr str' \<and> r' ! j = Some str'"
    and others: "\<And>j. Some j \<notin> set (map (\<lambda>e. find_key D target (fst e)) es) \<Longrightarrow> r' ! j = r[k := Some str] ! j"
    by auto
  have new: "Some k \<notin> set (map (\<lambda>e. find_key D target (fst e)) es)"
  proof
    assume "Some k \<in> set (map (\<lambda>e. find_key D target (fst e)) es)"
    then obtain n u where "(n, u) \<in> set es" "find_key D target n = Some k" by auto
    with placed bound show False by fastforce
  qed
  have "\<exists>j str'. find_key D target n = Some j \<and> j < length r \<and> r ! j = None \<and>
      stored_value D target render j u = Inr str' \<and> r' ! j = Some str'" if "(n, u) \<in> set es" for n u
  proof -
    from placed [OF that] obtain j str' where j: "find_key D target n = Some j" "j < length r"
      "r[k := Some str] ! j = None" "stored_value D target render j u = Inr str'" "r' ! j = Some str'" by blast
    with bound have "j \<noteq> k" by auto
    with j show ?thesis by auto
  qed
  moreover have "r' ! k = Some str" using others [OF new] bound by simp
  moreover have "r' ! j = r ! j" if "Some j \<notin> insert (Some k) (set (map (\<lambda>e. find_key D target (fst e)) es))" for j
    using others [of j] that by auto
  ultimately show ?case using len dist new k str bound by (auto simp: e)
qed simp

lemma all_placed_Inr: "all_placed D f target r = Inr vs \<Longrightarrow> (\<forall>k<length r. r ! k \<noteq> None) \<and> vs = map the r"
  by (auto simp: all_placed_def find_None_iff split: option.splits)

lemma placed_partition:
  assumes "place_values D target render es (replicate (length (t_partition_keys (tg_table target))) None) = Inr r"
    and "all_placed D f target r = Inr vs"
  shows "length vs = length (t_partition_keys (tg_table target)) \<and>
    (\<forall>(name, v)\<in>set es. \<exists>k. find_key D target name = Some k \<and> k < length vs \<and>
       stored_value D target render k v = Inr (vs ! k)) \<and>
    distinct (map (\<lambda>e. find_key D target (fst e)) es) \<and>
    set (map (\<lambda>e. find_key D target (fst e)) es) = Some ` {..<length vs}"
proof -
  note p = place_values_Inr [OF assms(1), simplified]
  from assms(2) have v: "\<forall>k<length r. r ! k \<noteq> None" "vs = map the r" using all_placed_Inr by blast+
  have len: "length vs = length (t_partition_keys (tg_table target))" using p v(2) by simp
  have entries: "\<exists>k. find_key D target name = Some k \<and> k < length vs \<and>
      stored_value D target render k u = Inr (vs ! k)" if "(name, u) \<in> set es" for name u
    using p that len v by fastforce
  have "Some ` {..<length vs} \<subseteq> set (map (\<lambda>e. find_key D target (fst e)) es)"
  proof clarify
    fix k assume k: "k < length vs"
    show "Some k \<in> set (map (\<lambda>e. find_key D target (fst e)) es)"
    proof (rule ccontr)
      assume "Some k \<notin> set (map (\<lambda>e. find_key D target (fst e)) es)"
      with p k len have "r ! k = None" by (auto simp: image_iff)
      with v k show False by fastforce
    qed
  qed
  moreover have "set (map (\<lambda>e. find_key D target (fst e)) es) \<subseteq> Some ` {..<length vs}"
    using entries by fastforce
  ultimately show ?thesis using p len entries by auto
qed

text \<open>
  A partition given as a struct names every partition key of the table exactly once, in any order, and each value
  is stored at the place of its key: the NULL directory for a NULL, else its text as a value of the key's type.
\<close>

theorem partition_spec_places_values:
  assumes "parse_partition_spec D f target spec = Inr vs"
  shows "length vs = length (t_partition_keys (tg_table target)) \<and>
    (\<forall>(name, v)\<in>set (struct_fields spec). \<exists>k. find_key D target name = Some k \<and> k < length vs \<and>
       stored_value D target (cast_to_string D) k (if value_is_null v then None else Some v) = Inr (vs ! k)) \<and>
    distinct (map (\<lambda>e. find_key D target (fst e)) (struct_fields spec)) \<and>
    set (map (\<lambda>e. find_key D target (fst e)) (struct_fields spec)) = Some ` {..<length vs}"
proof -
  let ?es = "map (\<lambda>(name, v). (name, if value_is_null v then None else Some v)) (struct_fields spec)"
  from assms obtain r where
    "place_values D target (cast_to_string D) ?es (replicate (length (t_partition_keys (tg_table target))) None) = Inr r"
    "all_placed D f target r = Inr vs"
    by (auto simp: parse_partition_spec_def and_then_Inr_iff split: if_splits)
  note p = placed_partition [OF this]
  have fields: "map (\<lambda>e. find_key D target (fst e)) ?es = map (\<lambda>e. find_key D target (fst e)) (struct_fields spec)"
    by (simp add: comp_def case_prod_unfold)
  from p show ?thesis unfolding fields by auto
qed


definition partitioned_target :: GluePartitionTarget where
  "partitioned_target = \<lparr>tg_catalog = sample_catalog, tg_table = sample_bound\<lparr>t_partition_keys :=
     [\<lparr>col_name = ''year'', col_type = ''string'', col_comment = [], col_sort_order = UNSORTED\<rparr>,
      \<lparr>col_name = ''kind'', col_type = ''string'', col_comment = [], col_sort_order = UNSORTED\<rparr>]\<rparr>\<rparr>"

lemma partition_spec_places_values_witness:
  "length [''2024'', ''a''] = length (t_partition_keys (tg_table partitioned_target))"
proof -
  have "parse_partition_spec ascii_duckdb ''f'' partitioned_target
      (StructV [(''Kind'', VARCHAR), (''YEAR'', VARCHAR)] [StringV ''a'', StringV ''2024'']) = Inr [''2024'', ''a'']" by code_simp
  from partition_spec_places_values [OF this] show ?thesis by blast
qed

end
