(* ===== verification/Partition_Store.thy ===== *)
theory Partition_Store
  imports Partition_Api
begin

text \<open>
  The partitions of a table as a set that operations read and change: what the documentation of Glue says of its
  calls, as the locale \<open>partition_store\<close>, and what the operations of Partition_Api do to the set. An effect on the world
  is a relation that every run of an operation stays within, however it ends.
\<close>

subsection \<open>Effects on the world\<close>

definition moves :: "('w \<Rightarrow> 'w \<Rightarrow> bool) \<Rightarrow> ('w, 'a) op \<Rightarrow> bool" where
  "moves R m \<longleftrightarrow> (\<forall>s. R (s_world s) (s_world (snd (m s))))"

lemma movesD: "moves R m \<Longrightarrow> m s = (r, s') \<Longrightarrow> R (s_world s) (s_world s')"
  unfolding moves_def by (metis snd_conv)

lemma moves_weaken: "moves R m \<Longrightarrow> (\<And>w w'. R w w' \<Longrightarrow> R' w w') \<Longrightarrow> moves R' m"
  by (simp add: moves_def)

text \<open>An effect that can be nothing and can be repeated.\<close>

locale effect =
  fixes R :: "'w \<Rightarrow> 'w \<Rightarrow> bool"
  assumes refl: "R w w"
    and trans: "R w w' \<Longrightarrow> R w' w'' \<Longrightarrow> R w w''"
begin

lemma simple: "moves R (return_op x)" "moves R (throw_op e)" "moves R (lift_op r)" "moves R (log_op msg)"
  by (simp_all add: moves_def return_op_def throw_op_def lift_op_def log_op_def refl)

lemma bind: "moves R m \<Longrightarrow> (\<And>x. moves R (f x)) \<Longrightarrow> moves R (bind_op m f)"
  unfolding moves_def bind_op_def using trans by (auto split: prod.split sum.split) (metis snd_conv)+

lemma call: "(\<And>w. R w (snd (f w))) \<Longrightarrow> moves R (call_op f)"
  by (simp add: moves_def call_op_def split: prod.split) (metis snd_conv)

lemma loop: "(\<And>x. moves R (body x)) \<Longrightarrow> moves R (do_while n body x)"
proof (induction n arbitrary: x)
  case (Suc n)
  then show ?case
    unfolding do_while.simps by (intro bind) (auto simp: simple split: sum.split)
qed (simp add: simple)

lemma each: "(\<And>x acc. x \<in> set xs \<Longrightarrow> moves R (f x acc)) \<Longrightarrow> moves R (for_each f xs acc)"
proof (induction xs arbitrary: acc)
  case (Cons x xs)
  then show ?case unfolding for_each.simps by (intro bind) simp_all
qed (simp add: simple)

lemma if_then: "moves R m \<Longrightarrow> moves R m' \<Longrightarrow> moves R (if c then m else m')"
  by simp

lemma writes: "moves R m \<Longrightarrow> moves R (writing D cat operation m)"
  using refl unfolding writing_def invalidate_on_exit_def moves_def
  by (auto simp: bind_op_def lift_op_def check_writable_def split: prod.split) (metis snd_conv)

end

text \<open>The effects the operations have on a set read from the world.\<close>

definition keeps :: "('w \<Rightarrow> 'k set) \<Rightarrow> 'w \<Rightarrow> 'w \<Rightarrow> bool" where
  "keeps reg w w' \<longleftrightarrow> reg w' = reg w"

definition adds :: "('w \<Rightarrow> 'k set) \<Rightarrow> 'k set \<Rightarrow> 'w \<Rightarrow> 'w \<Rightarrow> bool" where
  "adds reg V w w' \<longleftrightarrow> reg w \<subseteq> reg w' \<and> reg w' \<subseteq> reg w \<union> V"

definition removes :: "('w \<Rightarrow> 'k set) \<Rightarrow> 'k set \<Rightarrow> 'w \<Rightarrow> 'w \<Rightarrow> bool" where
  "removes reg V w w' \<longleftrightarrow> reg w - V \<subseteq> reg w' \<and> reg w' \<subseteq> reg w"

interpretation keeping: effect "keeps reg" for reg
  by unfold_locales (auto simp: keeps_def)

interpretation adding: effect "adds reg V" for reg V
  by unfold_locales (auto simp: adds_def)

interpretation removing: effect "removes reg V" for reg V
  by unfold_locales (auto simp: removes_def)

subsection \<open>What Glue documents\<close>

text \<open>
  \<open>reg\<close> is the set of the partitions registered for the table \<open>key\<close>, by their values. The calls that read and those
  on the table itself leave it; BatchCreatePartition adds partitions it was sent and no other, BatchDeletePartition
  removes such; UpdatePartition that succeeds replaces one that was there.
\<close>

locale partition_store =
  fixes S :: "'w service" and key :: "string \<times> string" and reg :: "'w \<Rightarrow> string list set"
  assumes create_reports: "registers S key reg"
    and create_only: "BatchCreatePartition S rq w = (r, w')
      \<Longrightarrow> (pis_database_name (rq_body rq), pis_table_name (rq_body rq)) = key
      \<Longrightarrow> adds reg (pi_values ` set (pis_inputs (rq_body rq))) w w'"
    and delete_reports: "unregisters S key reg"
    and delete_only: "BatchDeletePartition S brq w = (d, w')
      \<Longrightarrow> (pbr_database_name (rq_body brq), pbr_table_name (rq_body brq)) = key
      \<Longrightarrow> removes reg (set (pbr_partitions (rq_body brq))) w w'"
    and delete_named: "BatchDeletePartition S brq w = (Inr errors, w')
      \<Longrightarrow> (pbr_database_name (rq_body brq), pbr_table_name (rq_body brq)) = key
      \<Longrightarrow> pe_values ` set errors \<subseteq> set (pbr_partitions (rq_body brq))"
    and update: "UpdatePartition S urq w = (Inr u, w')
      \<Longrightarrow> (pir_database_name (rq_body urq), pir_table_name (rq_body urq)) = key
      \<Longrightarrow> pir_value_list (rq_body urq) = Some old
      \<Longrightarrow> old \<in> reg w \<and> reg w' = insert (pi_values (pir_partition_input (rq_body urq))) (reg w - {old})"
    and get: "GetPartition S grq w = (Inr p, w')
      \<Longrightarrow> (prq_database_name (rq_body grq), prq_table_name (rq_body grq)) = key
      \<Longrightarrow> pt_values p = prq_values (rq_body grq) \<and> prq_values (rq_body grq) \<in> reg w"
    and get_batch: "BatchGetPartition S brq w = (Inr (found, unprocessed), w')
      \<Longrightarrow> (pbr_database_name (rq_body brq), pbr_table_name (rq_body brq)) = key
      \<Longrightarrow> set unprocessed \<subseteq> set (pbr_partitions (rq_body brq)) \<and>
        pt_values ` set found \<subseteq> set (pbr_partitions (rq_body brq)) \<inter> reg w \<and>
        (set (pbr_partitions (rq_body brq)) - set unprocessed) \<inter> reg w \<subseteq> pt_values ` set found"
    and reading: "keeps reg w (snd (AcquireClient S w))" "keeps reg w (snd (GetPartition S grq w))"
      "keeps reg w (snd (BatchGetPartition S brq w))" "keeps reg w (snd (GetTable S trq w))"
      "keeps reg w (snd (UpdateTable S wrq w))" "keeps reg w (snd (GetPartitions S prq w))"
begin

lemma client: "moves (keeps reg) (get_client S)"
  unfolding get_client_def by (intro keeping.bind keeping.call keeping.simple reading)

lemma client_adds: "moves (adds reg V) (get_client S)"
  by (rule moves_weaken [OF client]) (simp add: keeps_def adds_def)

lemma client_removes: "moves (removes reg V) (get_client S)"
  by (rule moves_weaken [OF client]) (auto simp: keeps_def removes_def)

lemma reads_table: "moves (keeps reg) (get_table D cat S d t)"
  unfolding get_table_def
  by (intro keeping.bind keeping.call client reading) (auto simp: keeping.simple split: sum.split)

lemma updates_table: "moves (keeps reg) (set_table_location D cat S bound location)"
  unfolding set_table_location_def update_glue_table_def
  by (intro keeping.writes keeping.bind keeping.call keeping.simple client reading)
    (auto simp: keeping.simple split: sum.split)

lemma reads_partition: "moves (keeps reg) (get_partition_details D cat S d t values)"
  unfolding get_partition_details_def
  by (intro keeping.bind keeping.call client reading) (auto simp: keeping.simple split: sum.split)

lemma reads_locations: "moves (keeps reg) (partition_locations fuel D cat S d t partitions)"
proof -
  have called: "moves (keeps reg) (bind_op (call_op (BatchGetPartition S brq)) f)"
    if "\<And>x. moves (keeps reg) (f x)" for brq f
    by (rule keeping.bind [OF keeping.call [OF reading(3)] that])
  have "moves (keeps reg) (locations_attempt D cat S d t x)" for x
    unfolding locations_attempt_def
    by (cases x) (simp add: keeping.simple called split: prod.split sum.split)
  then show ?thesis
    unfolding partition_locations_def locations_batch_def
    by (intro keeping.if_then keeping.bind keeping.each keeping.loop keeping.simple client)
qed

lemma reads_existing: "moves (keeps reg) (existing_partitions fuel D cat S d t partitions)"
  unfolding existing_partitions_def by (intro keeping.bind keeping.simple reads_locations)

lemma lists_partitions: "moves (keeps reg) (get_partitions fuel D cat S d t)"
proof -
  have called: "moves (keeps reg) (bind_op (call_op (GetPartitions S prq)) f)"
    if "\<And>x. moves (keeps reg) (f x)" for prq f
    by (rule keeping.bind [OF keeping.call [OF reading(6)] that])
  have page: "moves (keeps reg) (fetch_partitions_page cat S d t i n x)" for i n x
    unfolding fetch_partitions_page_def
    by (cases x) (simp add: keeping.simple called Let_def split: prod.split sum.split)
  have segment: "moves (keeps reg) (fetch_partition_segment fuel cat S d t i n)" for i n
    unfolding fetch_partition_segment_def by (rule keeping.loop [OF page])
  have "moves (keeps reg) (bind_op
      (if n = 1 then bind_op (fetch_partition_segment fuel cat S d t 0 1) (\<lambda>ps. return_op [ps])
       else for_each (\<lambda>segment results. bind_op (fetch_partition_segment fuel cat S d t segment n)
              (\<lambda>ps. return_op (results @ [ps]))) [0 ..< n] [])
      (\<lambda>results. return_op (drop_seen D n [] (concat results))))" for n
    by (intro keeping.bind keeping.if_then keeping.each keeping.simple segment)
  then show ?thesis
    unfolding get_partitions_def Let_def
    by (intro keeping.bind [OF client]) (simp only: moves_def, blast)
qed

subsection \<open>The batches\<close>

lemma create_round:
  assumes "(t_schema_name t, t_name t) = key"
    and "\<forall>i\<in>set pending. i < length partitions"
    and "create_attempt D cat S t descriptor injected partitions (already, attempt, pending) s = (r, s')"
  shows "adds reg (gpi_values ` set partitions) (s_world s) (s_world s')"
proof -
  let ?sending = "filter (\<lambda>i. \<not> injected_fails injected i attempt) pending"
  let ?inputs = "map (\<lambda>i. partition_input_for descriptor (partitions ! i)) ?sending"
  let ?rq = "set_catalog_id cat
    \<lparr>pis_database_name = t_schema_name t, pis_table_name = t_name t, pis_inputs = ?inputs\<rparr>"
  have inputs: "pi_values ` set ?inputs \<subseteq> gpi_values ` set partitions"
    using assms(2) by (auto simp: partition_input_for_def)
  obtain a w where call: "BatchCreatePartition S ?rq (s_world s) = (a, w)" by fastforce
  have body: "pis_inputs (rq_body ?rq) = ?inputs" by (simp add: set_catalog_id_def)
  have "adds reg (pi_values ` set (pis_inputs (rq_body ?rq))) (s_world s) w"
    by (rule create_only [OF call]) (use assms(1) in \<open>simp add: set_catalog_id_def\<close>)
  then have "adds reg (gpi_values ` set partitions) (s_world s) w"
    unfolding body adds_def using inputs by blast
  moreover have "s_world s' = s_world s \<or> s_world s' = w"
  proof (rule ccontr)
    assume "\<not> ?thesis"
    with assms(3) call show False
      unfolding create_attempt_def Let_def prod.case
      by (auto simp: bind_op_def call_op_def lift_op_def throw_op_def return_op_def
          split: prod.splits sum.splits if_splits)
  qed
  ultimately show ?thesis by (auto simp: adding.refl)
qed

lemma create_batches:
  assumes "(t_schema_name t, t_name t) = key"
    and "for_each (create_batch D cat S t descriptor injected partitions) bs [] s = (Inr already, s')"
    and "set (concat bs) \<subseteq> {..< length partitions}"
  shows "adds reg (gpi_values ` set partitions) (s_world s) (s_world s')"
proof (rule for_each_induct [OF assms(2), where P = "\<lambda>past already s'.
    adds reg (gpi_values ` set partitions) (s_world s) (s_world s')"])
  fix past b and already already' :: "GluePartitionInput list" and s1 s2
  assume I: "adds reg (gpi_values ` set partitions) (s_world s) (s_world s1)" and "b \<in> set bs"
    and loop: "create_batch D cat S t descriptor injected partitions b already s1 = (Inr already', s2)"
  from \<open>b \<in> set bs\<close> have bound: "\<forall>i\<in>set b. i < length partitions" using assms(3) by fastforce
  let ?P = "\<lambda>x s'. case x of (already, attempt, pending) \<Rightarrow> (\<forall>i\<in>set pending. i < length partitions) \<and>
      adds reg (gpi_values ` set partitions) (s_world s) (s_world s')"
  show "adds reg (gpi_values ` set partitions) (s_world s) (s_world s2)"
  proof (rule do_while_induct [OF loop [unfolded create_batch_def], where P = ?P])
    show "?P (already, 0, b) s1" using I bound by simp
  next
    fix x x' :: "GluePartitionInput list \<times> nat \<times> nat list" and s s'
    assume P: "?P x s"
      and round: "create_attempt D cat S t descriptor injected partitions x s = (Inr (Inr x'), s')"
    obtain al at p al' at' p' where x: "x = (al, at, p)" "x' = (al', at', p')" by (metis prod_cases3)
    have "set p' \<subseteq> set p"
      using create_attempt_round [OF create_reports [folded assms(1)] round [unfolded x]] by blast
    moreover have "\<forall>i\<in>set p. i < length partitions" using P by (simp add: x)
    moreover note create_round [OF assms(1) this round [unfolded x(1)]]
    ultimately show "?P x' s'" using P by (auto simp: x intro: adding.trans)
  next
    fix x :: "GluePartitionInput list \<times> nat \<times> nat list" and y s1 s'
    assume P: "?P x s1"
      and end': "create_attempt D cat S t descriptor injected partitions x s1 = (Inr (Inl y), s')"
    obtain al at p where x: "x = (al, at, p)" by (metis prod_cases3)
    have "\<forall>i\<in>set p. i < length partitions" using P by (simp add: x)
    from create_round [OF assms(1) this end' [unfolded x]] P
    show "adds reg (gpi_values ` set partitions) (s_world s) (s_world s')"
      by (auto simp: x intro: adding.trans)
  qed
qed (rule adding.refl)

lemma create_exactly:
  assumes "(t_schema_name t, t_name t) = key"
    and "batch_create_partitions D cat S t partitions s = (Inr already, s')"
  shows "reg (s_world s') = reg (s_world s) \<union> gpi_values ` set partitions"
proof (cases "partitions = []")
  case True
  from assms(2) obtain s1 where "s_world s' = s_world s1" "(return_op [] :: ('w, GluePartitionInput list) op) s = (Inr already, s1)"
    unfolding batch_create_partitions_def True by (auto elim: writing_Inr)
  with True show ?thesis by (simp add: return_op_def)
next
  case False
  from assms(2) obtain s1 where s1: "s_world s' = s_world s1" and m:
    "bind_op (get_client S) (\<lambda>_ s.
          bind_op (lift_op (failure_from_settings D (s_settings s))) (\<lambda>injected.
          bind_op (lift_op (fetched_table t)) (\<lambda>raw.
            for_each (create_batch D cat S t (tb_storage_descriptor raw) injected partitions)
              (batches 100 [0 ..< length partitions]) [])) s) s = (Inr already, s1)"
    unfolding batch_create_partitions_def using False by (auto elim: writing_Inr)
  obtain s2 injected and raw :: aws_table where c: "get_client S s = (Inr (), s2)" and loop:
      "for_each (create_batch D cat S t (tb_storage_descriptor raw) injected partitions)
         (batches 100 [0 ..< length partitions]) [] s2 = (Inr already, s1)"
    using m by (auto simp: bind_op_def [of "get_client _"] bind_op_def [of "lift_op _"] lift_op_def
        split: prod.splits sum.splits if_splits)
  have "set (concat (batches 100 [0 ..< length partitions])) \<subseteq> {..< length partitions}"
    by (auto simp: concat_batches)
  from create_batches [OF assms(1) loop this] movesD [OF client c] s1
    batch_create_registers [OF create_reports [folded assms(1)] assms(2)]
  show ?thesis by (auto simp: adds_def keeps_def)
qed

lemma delete_round:
  assumes "(d, t) = key" "set pending \<subseteq> V"
    and "delete_attempt D cat S d t (attempt, pending) s = (Inr r, s')"
  shows "removes reg V (s_world s) (s_world s') \<and> (\<forall>a pending'. r = Inr (a, pending') \<longrightarrow> set pending' \<subseteq> V)"
proof (cases "pending = []")
  case True
  with assms(3) show ?thesis by (auto simp: delete_attempt_def return_op_def removing.refl)
next
  case False
  let ?rq = "batch_request cat d t pending"
  obtain errors w pending' where call: "BatchDeletePartition S ?rq (s_world s) = (Inr errors, w)"
    and s': "s' = s\<lparr>s_world := w\<rparr>" and p: "delete_errors D d t attempt errors = Inr pending'"
    and r: "r = Inr (Suc attempt, pending')"
    using assms(3) False
    by (auto simp: delete_attempt_def bind_op_def call_op_def lift_op_def throw_op_def return_op_def
        split: prod.splits sum.splits)
  have rq: "(pbr_database_name (rq_body ?rq), pbr_table_name (rq_body ?rq)) = key" "pbr_partitions (rq_body ?rq) = pending"
    using assms(1) by (simp_all add: batch_request_def set_catalog_id_def)
  have "set pending' \<subseteq> pe_values ` set errors"
    using p by (induction errors arbitrary: pending') (auto simp: result_simps split: if_splits)
  with delete_only [OF call rq(1)] delete_named [OF call rq(1)] assms(2)
  show ?thesis unfolding rq(2) s' r removes_def by simp blast
qed

lemma delete_exactly:
  assumes "(d, t) = key"
    and "batch_delete_partitions D cat S d t partitions s = (Inr (), s')"
  shows "reg (s_world s') = reg (s_world s) - set partitions"
proof (cases "partitions = []")
  case True
  from assms(2) obtain s1 where "s_world s' = s_world s1" "(return_op () :: ('w, unit) op) s = (Inr (), s1)"
    unfolding batch_delete_partitions_def True by (auto elim: writing_Inr)
  with True show ?thesis by (simp add: return_op_def)
next
  case False
  from assms(2) obtain s1 where s1: "s_world s' = s_world s1" and m:
    "bind_op (get_client S) (\<lambda>_. for_each (delete_batch D cat S d t) (batches 25 partitions) ()) s = (Inr (), s1)"
    unfolding batch_delete_partitions_def using False by (auto elim: writing_Inr)
  obtain s2 where c: "get_client S s = (Inr (), s2)"
    and loop: "for_each (delete_batch D cat S d t) (batches 25 partitions) () s2 = (Inr (), s1)"
    using m by (auto simp: bind_op_def [of "get_client _"] split: prod.splits sum.splits)
  have "removes reg (set partitions) (s_world s2) (s_world s1)"
  proof (rule for_each_induct [OF loop, where P = "\<lambda>past _ s'. removes reg (set partitions) (s_world s2) (s_world s')"])
    fix past b s3 s4 and u u' :: unit
    assume I: "removes reg (set partitions) (s_world s2) (s_world s3)" and "b \<in> set (batches 25 partitions)"
      and batch: "delete_batch D cat S d t b u s3 = (Inr u', s4)"
    moreover have "set (concat (batches 25 partitions)) = set partitions" by (simp add: concat_batches)
    ultimately have b: "set b \<subseteq> set partitions" by auto
    let ?P = "\<lambda>x s'. case x of (attempt :: nat, pending) \<Rightarrow> set pending \<subseteq> set partitions \<and>
        removes reg (set partitions) (s_world s2) (s_world s')"
    show "removes reg (set partitions) (s_world s2) (s_world s4)"
    proof (rule do_while_induct [OF batch [unfolded delete_batch_def], where P = ?P])
      show "?P (0, b) s3" using I b by simp
    next
      fix x x' :: "nat \<times> string list list" and s s'
      assume P: "?P x s" and round: "delete_attempt D cat S d t x s = (Inr (Inr x'), s')"
      obtain at p at' p' where x: "x = (at, p)" "x' = (at', p')" by (metis surj_pair)
      from delete_round [OF assms(1) _ round [unfolded x(1)]] P
      show "?P x' s'" by (auto simp: x intro: removing.trans)
    next
      fix x :: "nat \<times> string list list" and y s s'
      assume P: "?P x s" and "delete_attempt D cat S d t x s = (Inr (Inl y), s')"
      then show "removes reg (set partitions) (s_world s2) (s_world s')"
        using delete_round [OF assms(1)] by (cases x) (auto intro: removing.trans)
    qed
  qed (rule removing.refl)
  with movesD [OF client c] s1 batch_delete_unregisters [OF delete_reports [folded assms(1)] assms(2)]
  show ?thesis by (auto simp: removes_def keeps_def)
qed

subsection \<open>One partition\<close>

lemma fetched_details:
  assumes "(d, t) = key"
    and "get_partition_details D cat S d t values s = (Inr (Some p), s')"
  shows "\<exists>raw. p = to_partition_details raw \<and> pt_values raw = values \<and> values \<in> reg (s_world s)"
proof -
  let ?rq = "partition_request_for cat d t values"
  obtain s1 raw w where c: "get_client S s = (Inr (), s1)"
    and call: "GetPartition S ?rq (s_world s1) = (Inr raw, w)" and p: "p = to_partition_details raw"
    using assms(2)
    by (auto simp: get_partition_details_def bind_op_def call_op_def return_op_def throw_op_def
        split: prod.splits sum.splits if_splits)
  have rq: "(prq_database_name (rq_body ?rq), prq_table_name (rq_body ?rq)) = key" "prq_values (rq_body ?rq) = values"
    using assms(1) by (simp_all add: partition_request_for_def set_catalog_id_def)
  from get [OF call rq(1)] movesD [OF client c] show ?thesis by (auto simp: rq p keeps_def)
qed

lemma p_values_details [simp]: "p_values (to_partition_details raw) = pt_values raw"
  by (simp add: to_partition_details_def to_partition_info_def Let_def GluePartitionInfo.defs)

lemma p_fetched_details [simp]: "p_fetched (to_partition_details raw) = Some raw"
  by (simp add: to_partition_details_def to_partition_info_def Let_def GluePartitionInfo.defs
      GluePartitionDetails.defs)

text \<open>An UpdatePartition of a partition that was fetched: it takes the place of the old one.\<close>

lemma update_exactly:
  assumes "(d, t) = key"
    and "writing D cat operation (bind_op (get_client S) (\<lambda>_.
        bind_op (lift_op (fetched_partition D (to_partition_details raw) d t)) (\<lambda>raw.
        bind_op (call_op (UpdatePartition S (update_partition_request cat d t (pt_values raw0) (input raw))))
          (\<lambda>outcome. case outcome of Inl e \<Rightarrow> throw_op (err e) | Inr _ \<Rightarrow> return_op x)))) s = (Inr y, s')"
  shows "pt_values raw0 \<in> reg (s_world s) \<and>
    reg (s_world s') = insert (pi_values (input raw)) (reg (s_world s) - {pt_values raw0})"
proof -
  let ?rq = "update_partition_request cat d t (pt_values raw0) (input raw)"
  from assms(2) obtain s1 where s1: "s_world s' = s_world s1" and m:
    "bind_op (get_client S) (\<lambda>_.
        bind_op (lift_op (fetched_partition D (to_partition_details raw) d t)) (\<lambda>raw.
        bind_op (call_op (UpdatePartition S (update_partition_request cat d t (pt_values raw0) (input raw))))
          (\<lambda>outcome. case outcome of Inl e \<Rightarrow> throw_op (err e) | Inr _ \<Rightarrow> return_op x))) s = (Inr y, s1)"
    by (rule writing_Inr)
  obtain s2 u w where c: "get_client S s = (Inr (), s2)" and call: "UpdatePartition S ?rq (s_world s2) = (Inr u, w)"
    and w: "s_world s1 = w"
    using m by (auto simp: bind_op_def [of "get_client _"] bind_op_def [of "lift_op _"] bind_op_def [of "call_op _"]
        call_op_def lift_op_def return_op_def throw_op_def fetched_partition_def split: prod.splits sum.splits)
  have rq: "(pir_database_name (rq_body ?rq), pir_table_name (rq_body ?rq)) = key"
    "pir_value_list (rq_body ?rq) = Some (pt_values raw0)" "pir_partition_input (rq_body ?rq) = input raw"
    using assms(1) by (simp_all add: update_partition_request_def set_catalog_id_def)
  from update [OF call rq(1,2)] movesD [OF client c] show ?thesis by (simp add: rq(3) s1 w keeps_def)
qed

lemma rename_exactly:
  assumes "(d, t) = key"
    and "rename_partition D cat S d t (to_partition_details raw) new_values s = (Inr l, s')"
  shows "reg (s_world s') = insert new_values (reg (s_world s) - {pt_values raw})"
  using update_exactly [OF assms(1) assms(2) [unfolded rename_partition_def p_values_details]] by simp

lemma relocate_exactly:
  assumes "(d, t) = key"
    and "set_partition_location D cat S d t (to_partition_details raw) location s = (Inr u, s')"
  shows "reg (s_world s') = reg (s_world s)"
  using update_exactly [OF assms(1) assms(2) [unfolded set_partition_location_def p_values_details]]
  by (simp add: insert_absorb)

text \<open>Asking for many tells which are registered.\<close>

lemma existing_exactly:
  assumes "(d, t) = key"
    and "existing_partitions fuel D cat S d t partitions s = (Inr existing, s')"
  shows "existing = set partitions \<inter> reg (s_world s)"
proof -
  define R where "R = reg (s_world s)"
  obtain m where m: "partition_locations fuel D cat S d t partitions s = (Inr m, s')"
    and e: "existing = set (map fst m)"
    using assms(2) by (auto simp: existing_partitions_def bind_op_def return_op_def split: prod.splits sum.splits)
  have keys_add: "fst ` set (add_locations found ex) = fst ` set ex \<union> pt_values ` set found" for found ex
  proof -
    have put: "fst ` set (emplace k v m) = insert k (fst ` set m)" for k :: "string list" and v :: string and m
      by (auto simp: emplace_def image_Un dest: map_of_SomeD weak_map_of_SomeI split: option.split)
        (force dest: map_of_SomeD)
    show ?thesis
      unfolding add_locations_def by (induction found arbitrary: ex) (simp_all add: put)
  qed
  show ?thesis
  proof (cases "partitions = []")
    case True
    with m e show ?thesis by (simp add: partition_locations_def return_op_def)
  next
    case False
    then obtain s1 where c: "get_client S s = (Inr (), s1)"
      and l: "for_each (locations_batch fuel D cat S d t) (batches 1000 partitions) [] s1 = (Inr m, s')"
      using m by (auto simp: partition_locations_def bind_op_def [of "get_client _"] split: prod.splits sum.splits)
    have s1: "reg (s_world s1) = R" using movesD [OF client c] by (simp add: keeps_def R_def)
    have "reg (s_world s') = R \<and> fst ` set m = set (concat (batches 1000 partitions)) \<inter> R"
    proof (rule for_each_induct [OF l, where P = "\<lambda>past m s. reg (s_world s) = R \<and>
        fst ` set m = set (concat past) \<inter> R"])
      fix past keys and ex ex' :: locations and s2 s3
      assume I: "reg (s_world s2) = R \<and> fst ` set ex = set (concat past) \<inter> R"
        and batch: "locations_batch fuel D cat S d t keys ex s2 = (Inr ex', s3)"
      let ?P = "\<lambda>x s. case x of (ex, attempt :: nat, left) \<Rightarrow> reg (s_world s) = R \<and> set left \<subseteq> set keys \<and>
        fst ` set ex \<subseteq> set (concat (past @ [keys])) \<inter> R \<and>
        set (concat (past @ [keys])) \<inter> R \<subseteq> fst ` set ex \<union> set left"
      show "reg (s_world s3) = R \<and> fst ` set ex' = set (concat (past @ [keys])) \<inter> R"
      proof (rule do_while_induct [OF batch [unfolded locations_batch_def], where P = ?P])
        show "?P (ex, 0, keys) s2" using I by auto
      next
        fix x x' :: "locations \<times> nat \<times> string list list" and s4 s5
        assume P: "?P x s4" and round: "locations_attempt D cat S d t x s4 = (Inr (Inr x'), s5)"
        obtain ex1 at left ex2 at' left' where x: "x = (ex1, at, left)" "x' = (ex2, at', left')"
          by (metis prod_cases3)
        let ?rq = "batch_request cat d t left"
        from locations_attempt_round [OF round [unfolded x]] obtain ps w where
          call: "BatchGetPartition S ?rq (s_world s4) = (Inr (ps, left'), w)"
          and s5: "s5 = s4\<lparr>s_world := w\<rparr>" and ex2: "ex2 = add_locations ps ex1" .
        have rq: "(pbr_database_name (rq_body ?rq), pbr_table_name (rq_body ?rq)) = key" "pbr_partitions (rq_body ?rq) = left"
          using assms(1) by (simp_all add: batch_request_def set_catalog_id_def)
        have w: "reg w = reg (s_world s4)" using reading(3) [of "s_world s4" ?rq] call by (simp add: keeps_def)
        have answer: "set left' \<subseteq> set left" "pt_values ` set ps \<subseteq> set left \<inter> R"
          "(set left - set left') \<inter> R \<subseteq> pt_values ` set ps" and R: "reg (s_world s4) = R"
          using get_batch [OF call rq(1)] P by (simp_all add: rq(2) x)
        have P': "set left \<subseteq> set keys" "fst ` set ex1 \<subseteq> set (concat (past @ [keys])) \<inter> R"
          "set (concat (past @ [keys])) \<inter> R \<subseteq> fst ` set ex1 \<union> set left"
          using P by (simp_all only: x prod.case)
        define K where "K = set (concat (past @ [keys]))"
        have "set keys \<subseteq> K" by (simp add: K_def)
        with P'(1,2) answer(2) have "fst ` set ex2 \<subseteq> K \<inter> R"
          unfolding ex2 keys_add K_def [symmetric] by blast
        moreover from P'(3) answer(3) have "K \<inter> R \<subseteq> fst ` set ex2 \<union> set left'"
          unfolding ex2 keys_add K_def [symmetric] by blast
        moreover from P'(1) answer(1) have "set left' \<subseteq> set keys" by (rule subset_trans [rotated])
        ultimately have "fst ` set ex2 \<subseteq> set (concat (past @ [keys])) \<inter> R"
          "set (concat (past @ [keys])) \<inter> R \<subseteq> fst ` set ex2 \<union> set left'" "set left' \<subseteq> set keys"
          unfolding K_def .
        then show "?P x' s5" using w R by (simp only: x prod.case s5) simp
      next
        fix x :: "locations \<times> nat \<times> string list list" and y s4 s5
        assume P: "?P x s4" and "locations_attempt D cat S d t x s4 = (Inr (Inl y), s5)"
        then show "reg (s_world s5) = R \<and> fst ` set y = set (concat (past @ [keys])) \<inter> R"
          by (cases x) (auto simp: locations_attempt_def bind_op_def call_op_def throw_op_def return_op_def
              split: prod.splits sum.splits if_splits)
      qed
    qed (simp add: s1)
    then show ?thesis by (simp add: e concat_batches R_def)
  qed
qed

end

subsection \<open>The sample Glue\<close>

lemma sample_has_registered: "sample_has w key values \<longleftrightarrow> values \<in> sample_registered key w"
  by (simp add: sample_has_def sample_registered_def)

lemma sample_registered_alt: "pt_values ` set (sample_partitions_of w key) = sample_registered key w"
  by (simp add: sample_registered_def)

lemma sample_updated:
  "sample_registered key (sample_put_partitions key (map (\<lambda>p. if pt_values p = old then sample_stored_partition i else p)
     (sample_partitions_of w key)) w) =
   (if old \<in> sample_registered key w then insert (pi_values i) (sample_registered key w - {old})
    else sample_registered key w)"
proof -
  have "pt_values ` set (map (\<lambda>p. if pt_values p = old then sample_stored_partition i else p) ps) =
      (if old \<in> pt_values ` set ps then insert (pi_values i) (pt_values ` set ps - {old}) else pt_values ` set ps)" for ps
    by (induction ps) auto
  then show ?thesis by (simp only: sample_registered_put sample_registered_alt)
qed

interpretation sample_store: partition_store sample_glue key "sample_registered key" for key
proof
  show "registers sample_glue key (sample_registered key)" by (rule sample_glue_registers)
  show "unregisters sample_glue key (sample_registered key)" by (rule sample_glue_unregisters)
next
  fix rq :: "partition_inputs_request request" and w w' r
  assume "BatchCreatePartition sample_glue rq w = (r, w')"
    and "(pis_database_name (rq_body rq), pis_table_name (rq_body rq)) = key"
  then have w': "w' = sample_put_partitions key (sample_partitions_of w key @ map sample_stored_partition
      (filter (\<lambda>i. pi_values i \<notin> set (map pt_values (sample_partitions_of w key))) (pis_inputs (rq_body rq)))) w"
    by (simp add: sample_batch_create_def Let_def)
  have "sample_registered key w' = sample_registered key w \<union> pi_values ` set
      (filter (\<lambda>i. pi_values i \<notin> set (map pt_values (sample_partitions_of w key))) (pis_inputs (rq_body rq)))"
    by (simp only: w' sample_registered_put set_append set_map image_Un image_image
        sample_stored_partition_values sample_registered_alt)
  moreover have "pi_values ` set (filter P xs) \<subseteq> pi_values ` set xs" for P xs by auto
  ultimately show "adds (sample_registered key) (pi_values ` set (pis_inputs (rq_body rq))) w w'"
    unfolding adds_def by blast
next
  fix rq :: "partition_batch_request request" and w w' r
  assume "BatchDeletePartition sample_glue rq w = (r, w')"
    and "(pbr_database_name (rq_body rq), pbr_table_name (rq_body rq)) = key"
  then have w': "w' = sample_put_partitions key (filter (\<lambda>p. pt_values p \<notin> set (pbr_partitions (rq_body rq)))
      (sample_partitions_of w key)) w"
    by (simp add: sample_glue_def Let_def)
  have "pt_values ` set (filter (\<lambda>p. pt_values p \<notin> V) ps) = pt_values ` set ps - V" for V and ps :: "aws_partition list"
    by auto
  then have "sample_registered key w' = sample_registered key w - set (pbr_partitions (rq_body rq))"
    by (simp only: w' sample_registered_put sample_registered_alt)
  then show "removes (sample_registered key) (set (pbr_partitions (rq_body rq))) w w'"
    unfolding removes_def by blast
next
  fix rq :: "partition_batch_request request" and w w' errors
  assume "BatchDeletePartition sample_glue rq w = (Inr errors, w')"
  then show "pe_values ` set errors \<subseteq> set (pbr_partitions (rq_body rq))"
    by (auto simp: sample_glue_def Let_def)
next
  fix rq :: "partition_input_request request" and w w' :: sample_world and u old
  assume "UpdatePartition sample_glue rq w = (Inr u, w')"
    and "(pir_database_name (rq_body rq), pir_table_name (rq_body rq)) = key"
    and "pir_value_list (rq_body rq) = Some old"
  then have "old \<in> sample_registered key w" and w': "w' = sample_put_partitions key
      (map (\<lambda>p. if pt_values p = old then sample_stored_partition (pir_partition_input (rq_body rq)) else p)
        (sample_partitions_of w key)) w"
    by (simp_all add: sample_update_partition_def Let_def opt_list_def sample_has_registered split: if_splits)
  then show "old \<in> sample_registered key w \<and> sample_registered key w' =
      insert (pi_values (pir_partition_input (rq_body rq))) (sample_registered key w - {old})"
    by (simp only: w' sample_updated if_True simp_thms)
next
  fix rq :: "partition_request request" and w w' p
  assume "GetPartition sample_glue rq w = (Inr p, w')"
    and "(prq_database_name (rq_body rq), prq_table_name (rq_body rq)) = key"
  then show "pt_values p = prq_values (rq_body rq) \<and> prq_values (rq_body rq) \<in> sample_registered key w"
    by (auto simp: sample_glue_def sample_registered_def image_iff intro: sym dest!: find_sound split: option.splits)
next
  fix rq :: "partition_batch_request request" and w w' found unprocessed
  assume "BatchGetPartition sample_glue rq w = (Inr (found, unprocessed), w')"
    and "(pbr_database_name (rq_body rq), pbr_table_name (rq_body rq)) = key"
  then show "set unprocessed \<subseteq> set (pbr_partitions (rq_body rq)) \<and>
      pt_values ` set found \<subseteq> set (pbr_partitions (rq_body rq)) \<inter> sample_registered key w \<and>
      (set (pbr_partitions (rq_body rq)) - set unprocessed) \<inter> sample_registered key w \<subseteq> pt_values ` set found"
    by (auto simp: sample_glue_def Let_def sample_registered_def)
next
  fix w :: sample_world
  show "keeps (sample_registered key) w (snd (AcquireClient sample_glue w))"
    "keeps (sample_registered key) w (snd (GetPartition sample_glue grq w))"
    "keeps (sample_registered key) w (snd (BatchGetPartition sample_glue brq w))"
    "keeps (sample_registered key) w (snd (GetPartitions sample_glue prq w))"
    "keeps (sample_registered key) w (snd (GetTable sample_glue trq w))" for grq brq prq trq
    by (simp_all add: keeps_def sample_glue_def sample_get_partitions_def sample_get_table_def Let_def
        split: option.split)
  show "keeps (sample_registered key) w (snd (UpdateTable sample_glue wrq w))" for wrq
    by (simp add: keeps_def sample_update_table_def Let_def sample_registered_def sample_partitions_of_def
        split: option.split)
qed

end
