(* ===== verification/Alter_Table.thy ===== *)
theory Alter_Table
  imports Partition_Functions Partition_Store
begin

text \<open>
  \<open>glue_alter_table\<close> of src/functions/glue_partition_functions.cpp: the partition actions of one ALTER TABLE statement.
  They are read from a list of structs, checked against Glue together, and applied in order, consecutive
  registrations and removals as one batch.
\<close>

subsection \<open>The actions\<close>

datatype GlueAlterAction = ADD | DROP | RENAME | SET_PARTITION_LOCATION | SET_TABLE_LOCATION

record GlueAlterStep =
  st_action :: GlueAlterAction
  st_if_not_exists :: bool
  st_if_exists :: bool
  st_values :: "string list"
  st_new_values :: "string list"
  st_location :: string

text \<open>
  A field of a struct, NULL if it has none of the name. \<open>StructValue::GetChildren\<close> throws for a NULL, and the type of
  any other value has no fields.
\<close>

definition get_struct_field :: "duckdb \<Rightarrow> Value \<Rightarrow> string \<Rightarrow> Value result" where
  "get_struct_field D v field_name =
     (if value_is_null v \<or> type_id (value_type v) \<noteq> ID_STRUCT
      then Inl (InternalException ''Calling StructValue::GetChildren on a value that is no struct'' [])
      else Inr (case find (\<lambda>(name, x). CIEquals D name field_name) (struct_fields v) of
        None \<Rightarrow> NullV (OTHER_TYPE ''NULL'') | Some (name, x) \<Rightarrow> x))"

definition parse_pair :: "duckdb \<Rightarrow> string \<Rightarrow> Value \<Rightarrow> (string \<times> string option) result" where
  "parse_pair D function_name entry =
     (if value_is_null entry \<or> type_id (value_type entry) \<noteq> ID_STRUCT
      then Inl (BinderException ''a partition must be given as a list of key, value structs'' [function_name])
      else
        and_then (get_struct_field D entry ''key'') (\<lambda>key.
        and_then (get_struct_field D entry ''value'') (\<lambda>v.
          if value_is_null key then Inl (BinderException ''a partition entry needs a key'' [function_name])
          else if value_is_null v then Inr (ValueToString D key, None)
          else and_then (string_value D v) (\<lambda>str. Inr (ValueToString D key, Some str)))))"

definition parse_partition_pairs_value ::
  "duckdb \<Rightarrow> string \<Rightarrow> GluePartitionTarget \<Rightarrow> Value \<Rightarrow> string list result" where
  "parse_partition_pairs_value D function_name target pairs =
     (if value_is_null pairs \<or> type_id (value_type pairs) \<noteq> ID_LIST
      then Inl (BinderException ''a partition must be given as a list of key, value structs'' [function_name])
      else and_then (collect (parse_pair D function_name) (list_children pairs))
             (parse_partition_pairs D function_name target))"

definition action_name :: "duckdb \<Rightarrow> Value \<Rightarrow> string result" where
  "action_name D action = and_then (get_struct_field D action ''action'') (\<lambda>v. Inr (Lower D (ValueToString D v)))"

definition flag_value :: "duckdb \<Rightarrow> Value \<Rightarrow> bool result" where
  "flag_value D v = (if value_is_null v then Inr False else bool_value D v)"

definition read_action ::
  "duckdb \<Rightarrow> 'w name_resolver \<Rightarrow> GluePartitionTarget \<Rightarrow> Value \<Rightarrow> GlueAlterStep result" where
  "read_action D Q target action =
     (if value_is_null action \<or> type_id (value_type action) \<noteq> ID_STRUCT
      then Inl (BinderException ''glue_alter_table: every action must be a struct'' [])
      else
        and_then (action_name D action) (\<lambda>name.
        and_then (get_struct_field D action ''if_not_exists'') (\<lambda>if_not_exists.
        and_then (get_struct_field D action ''if_exists'') (\<lambda>if_exists.
        and_then (get_struct_field D action ''partition'') (\<lambda>partition.
        and_then (get_struct_field D action ''new_partition'') (\<lambda>new_partition.
        and_then (get_struct_field D action ''location'') (\<lambda>location.
        and_then (flag_value D if_not_exists) (\<lambda>not_exists.
        and_then (flag_value D if_exists) (\<lambda>exists.
          let step = (\<lambda>act values new_values l. \<lparr>st_action = act, st_if_not_exists = not_exists,
                st_if_exists = exists, st_values = values, st_new_values = new_values, st_location = l\<rparr>)
          in
          if name = ''add'' then
            and_then (parse_partition_pairs_value D ''ALTER TABLE ADD PARTITION'' target partition) (\<lambda>values.
            and_then (if value_is_null location then default_location_of D Q target values
                      else parse_location D ''ALTER TABLE ADD PARTITION'' location) (\<lambda>l.
              Inr (step ADD values [] l)))
          else if name = ''drop'' then
            and_then (parse_partition_pairs_value D ''ALTER TABLE DROP PARTITION'' target partition) (\<lambda>values.
              Inr (step DROP values [] []))
          else if name = ''rename'' then
            and_then (parse_partition_pairs_value D ''ALTER TABLE RENAME PARTITION'' target partition) (\<lambda>values.
            and_then (parse_partition_pairs_value D ''ALTER TABLE RENAME PARTITION'' target new_partition) (\<lambda>new_values.
              Inr (step RENAME values new_values [])))
          else if name = ''set_partition_location'' then
            and_then (parse_partition_pairs_value D ''ALTER TABLE PARTITION SET LOCATION'' target partition) (\<lambda>values.
            and_then (parse_location D ''ALTER TABLE PARTITION SET LOCATION'' location) (\<lambda>l.
              Inr (step SET_PARTITION_LOCATION values [] l)))
          else if name = ''set_table_location'' then
            and_then (parse_location D ''ALTER TABLE SET LOCATION'' location) (\<lambda>l.
              Inr (step SET_TABLE_LOCATION [] [] l))
          else Inl (BinderException ''glue_alter_table: unknown action'' [name]))))))))))"

record GlueAlterTableBindData =
  at_target :: GluePartitionTarget
  at_steps :: "GlueAlterStep list"

definition glue_alter_table_bind ::
  "duckdb \<Rightarrow> 'w service \<Rightarrow> 'w name_resolver \<Rightarrow> string \<Rightarrow> Value \<Rightarrow> ('w, GlueAlterTableBindData) op" where
  "glue_alter_table_bind D S Q table_name actions =
     (if value_is_null actions \<or> type_id (value_type actions) \<noteq> ID_LIST
      then throw_op (BinderException ''glue_alter_table expects a list of actions'' [])
      else
        bind_op (lift_op (collect (action_name D) (list_children actions))) (\<lambda>names.
        bind_op (resolve_glue_table D S Q ''glue_alter_table'' table_name (\<exists>n\<in>set names. n \<noteq> ''set_table_location'')) (\<lambda>target.
        bind_op (refuse_explicit_transaction) (\<lambda>_.
        bind_op (lift_op (collect (read_action D Q target) (list_children actions)))
          (\<lambda>steps. return_op \<lparr>at_target = target, at_steps = steps\<rparr>)))))"

fun describe_action :: "GlueAlterAction \<Rightarrow> string" where
  "describe_action ADD = ''add partition''"
| "describe_action DROP = ''drop partition''"
| "describe_action RENAME = ''rename partition''"
| "describe_action SET_PARTITION_LOCATION = ''set partition location''"
| "describe_action SET_TABLE_LOCATION = ''set table location''"

subsection \<open>The checks before anything changes\<close>

text \<open>The partitions whose existence is asked for, in the order of the \<open>std::set\<close>.\<close>

fun lookup_of :: "GlueAlterStep \<Rightarrow> string list list" where
  "lookup_of step = (case st_action step of
     ADD \<Rightarrow> if st_if_not_exists step then [] else [st_values step]
   | DROP \<Rightarrow> if st_if_exists step then [] else [st_values step]
   | RENAME \<Rightarrow> [st_new_values step]
   | SET_PARTITION_LOCATION \<Rightarrow> []
   | SET_TABLE_LOCATION \<Rightarrow> [])"

definition lookups :: "GlueAlterStep list \<Rightarrow> string list list" where
  "lookups steps = sort (remdups (concat (map lookup_of steps)))"

text \<open>The check of a step; \<open>checked\<close> keeps the partition it fetched.\<close>

definition check_step ::
  "duckdb \<Rightarrow> 'w service \<Rightarrow> GluePartitionTarget \<Rightarrow> string list set \<Rightarrow> GlueAlterStep
     \<Rightarrow> GluePartitionDetails option list \<Rightarrow> ('w, GluePartitionDetails option list) op" where
  "check_step D S target existing step checked =
     (let exists_error = (\<lambda>values. CatalogException ''Partition already exists in Glue table''
            [partition_values_to_string D values, target_name target]);
          missing_error = (\<lambda>values. CatalogException ''Partition does not exist in Glue table''
            [partition_values_to_string D values, target_name target])
      in case st_action step of
       ADD \<Rightarrow>
         if \<not> st_if_not_exists step \<and> st_values step \<in> existing then throw_op (exists_error (st_values step))
         else return_op (checked @ [None])
     | DROP \<Rightarrow>
         if \<not> st_if_exists step \<and> st_values step \<notin> existing then throw_op (missing_error (st_values step))
         else return_op (checked @ [None])
     | SET_PARTITION_LOCATION \<Rightarrow>
         if \<not> st_if_exists step
         then bind_op (fetch_partition D S target (st_values step)) (\<lambda>p. return_op (checked @ [Some p]))
         else return_op (checked @ [None])
     | RENAME \<Rightarrow>
         bind_op (fetch_partition D S target (st_values step)) (\<lambda>p.
           if st_new_values step \<in> existing then throw_op (exists_error (st_new_values step))
           else return_op (checked @ [Some p]))
     | SET_TABLE_LOCATION \<Rightarrow> return_op (checked @ [None]))"

definition check_steps ::
  "nat \<Rightarrow> duckdb \<Rightarrow> 'w service \<Rightarrow> GluePartitionTarget \<Rightarrow> GlueAlterStep list
     \<Rightarrow> ('w, GluePartitionDetails option list) op" where
  "check_steps fuel D S target steps =
     bind_op (existing_partitions fuel D (tg_catalog target) S (t_schema_name (tg_table target))
         (t_name (tg_table target)) (lookups steps))
       (\<lambda>existing. for_each (check_step D S target existing) steps [])"

subsection \<open>Applying them\<close>

type_synonym emitted_row = "string \<times> string option \<times> string option"

record alter_progress =
  ap_pending_adds :: "GluePartitionInput list"
  ap_pending_drops :: "string list list"
  ap_table_updated :: bool
  ap_rows :: "emitted_row list"

definition emitted :: "duckdb \<Rightarrow> GlueAlterStep \<Rightarrow> emitted_row" where
  "emitted D step =
     (describe_action (st_action step),
      if st_values step = [] then None else Some (partition_values_to_string D (st_values step)),
      if st_location step = [] then None else Some (st_location step))"

definition flush_adds ::
  "duckdb \<Rightarrow> 'w service \<Rightarrow> GluePartitionTarget \<Rightarrow> alter_progress \<Rightarrow> ('w, alter_progress) op" where
  "flush_adds D S target a =
     (if ap_pending_adds a = [] then return_op a
      else bind_op (batch_create_partitions D (tg_catalog target) S (tg_table target) (ap_pending_adds a))
             (\<lambda>_. return_op (a\<lparr>ap_pending_adds := []\<rparr>)))"

definition flush_drops ::
  "duckdb \<Rightarrow> 'w service \<Rightarrow> GluePartitionTarget \<Rightarrow> alter_progress \<Rightarrow> ('w, alter_progress) op" where
  "flush_drops D S target a =
     (if ap_pending_drops a = [] then return_op a
      else bind_op (batch_delete_partitions D (tg_catalog target) S (t_schema_name (tg_table target))
             (t_name (tg_table target)) (ap_pending_drops a))
             (\<lambda>_. return_op (a\<lparr>ap_pending_drops := []\<rparr>)))"

text \<open>\<open>GetTable\<close> again for a second change of the table, else the definition bind fetched.\<close>

definition table_to_update ::
  "duckdb \<Rightarrow> 'w service \<Rightarrow> GluePartitionTarget \<Rightarrow> bool \<Rightarrow> ('w, GlueTableInfo) op" where
  "table_to_update D S target table_updated =
     (if table_updated
      then bind_op (get_table D (tg_catalog target) S (t_schema_name (tg_table target)) (t_name (tg_table target)))
             (\<lambda>found. case found of
                None \<Rightarrow> throw_op (CatalogException ''Glue table was dropped while it was altered'' [target_name target])
              | Some t \<Rightarrow> return_op t)
      else return_op (tg_table target))"

text \<open>The action of a step with the partition its check fetched.\<close>

definition apply_action ::
  "duckdb \<Rightarrow> 'w service \<Rightarrow> GluePartitionTarget \<Rightarrow> GlueAlterStep \<times> GluePartitionDetails option
     \<Rightarrow> alter_progress \<Rightarrow> ('w, alter_progress) op" where
  "apply_action D S target x a =
     (case x of (step, checked) \<Rightarrow>
      let cat = tg_catalog target; t = tg_table target in
      case st_action step of
        ADD \<Rightarrow> return_op (a\<lparr>ap_pending_adds := ap_pending_adds a @
                 [\<lparr>gpi_values = st_values step, gpi_location = st_location step\<rparr>]\<rparr>)
      | DROP \<Rightarrow> return_op (if st_values step \<in> set (ap_pending_drops a) then a
                 else a\<lparr>ap_pending_drops := ap_pending_drops a @ [st_values step]\<rparr>)
      | RENAME \<Rightarrow>
          (case checked of
             None \<Rightarrow> throw_op (InternalException ''Attempted to dereference unique_ptr that is NULL'' [])
           | Some p \<Rightarrow> bind_op (rename_partition D cat S (t_schema_name t) (t_name t) p (st_new_values step))
                        (\<lambda>_. return_op a))
      | SET_PARTITION_LOCATION \<Rightarrow>
          bind_op (case checked of None \<Rightarrow> fetch_partition D S target (st_values step) | Some p \<Rightarrow> return_op p) (\<lambda>p.
          bind_op (set_partition_location D cat S (t_schema_name t) (t_name t) p (st_location step))
            (\<lambda>_. return_op a))
      | SET_TABLE_LOCATION \<Rightarrow>
          bind_op (table_to_update D S target (ap_table_updated a)) (\<lambda>u.
          bind_op (set_table_location D cat S u (st_location step))
            (\<lambda>_. return_op (a\<lparr>ap_table_updated := True\<rparr>))))"

definition apply_step ::
  "duckdb \<Rightarrow> 'w service \<Rightarrow> GluePartitionTarget \<Rightarrow> GlueAlterStep \<times> GluePartitionDetails option
     \<Rightarrow> alter_progress \<Rightarrow> ('w, alter_progress) op" where
  "apply_step D S target x a0 =
     bind_op (if st_action (fst x) \<noteq> ADD then flush_adds D S target a0 else return_op a0) (\<lambda>a1.
     bind_op (if st_action (fst x) \<noteq> DROP then flush_drops D S target a1 else return_op a1) (\<lambda>a2.
     bind_op (apply_action D S target x a2) (\<lambda>a.
       return_op (a\<lparr>ap_rows := ap_rows a @ [emitted D (fst x)]\<rparr>))))"

definition glue_alter_table_apply ::
  "nat \<Rightarrow> duckdb \<Rightarrow> 'w service \<Rightarrow> GlueAlterTableBindData \<Rightarrow> ('w, emitted_row list) op" where
  "glue_alter_table_apply fuel D S b =
     (let target = at_target b in
      bind_op (check_steps fuel D S target (at_steps b)) (\<lambda>checked.
      bind_op (for_each (apply_step D S target) (zip (at_steps b) checked)
          \<lparr>ap_pending_adds = [], ap_pending_drops = [], ap_table_updated = False, ap_rows = []\<rparr>) (\<lambda>a.
      bind_op (flush_adds D S target a) (\<lambda>a.
      bind_op (flush_drops D S target a) (\<lambda>a. return_op (ap_rows a))))))"

text \<open>The state of the scan: the rows, once the actions are applied, and the offset of the next.\<close>

definition glue_alter_table_scan ::
  "nat \<Rightarrow> duckdb \<Rightarrow> nat \<Rightarrow> 'w service \<Rightarrow> GlueAlterTableBindData \<Rightarrow> emitted_row list option \<times> nat
     \<Rightarrow> ('w, emitted_row list \<times> emitted_row list option \<times> nat) op" where
  "glue_alter_table_scan fuel D STANDARD_VECTOR_SIZE S b st =
     (case st of (applied, offset) \<Rightarrow>
      bind_op (case applied of None \<Rightarrow> glue_alter_table_apply fuel D S b | Some rows \<Rightarrow> return_op rows) (\<lambda>rows.
        case next_chunk STANDARD_VECTOR_SIZE rows offset of
          (chunk, offset') \<Rightarrow> return_op (chunk, Some rows, offset')))"

subsection \<open>What a statement means\<close>

text \<open>The specification: what an action makes of the set of partitions registered for the table.\<close>

definition alter_effect :: "GlueAlterStep \<Rightarrow> string list set \<Rightarrow> string list set" where
  "alter_effect step R = (case st_action step of
     ADD \<Rightarrow> insert (st_values step) R
   | DROP \<Rightarrow> R - {st_values step}
   | RENAME \<Rightarrow> insert (st_new_values step) (R - {st_values step})
   | SET_PARTITION_LOCATION \<Rightarrow> R
   | SET_TABLE_LOCATION \<Rightarrow> R)"

text \<open>Whether an action can be applied to what is registered.\<close>

definition applicable :: "GlueAlterStep \<Rightarrow> string list set \<Rightarrow> bool" where
  "applicable step R = (case st_action step of
     ADD \<Rightarrow> st_if_not_exists step \<or> st_values step \<notin> R
   | DROP \<Rightarrow> st_if_exists step \<or> st_values step \<in> R
   | RENAME \<Rightarrow> st_values step \<in> R \<and> st_new_values step \<notin> R
   | SET_PARTITION_LOCATION \<Rightarrow> st_if_exists step \<or> st_values step \<in> R
   | SET_TABLE_LOCATION \<Rightarrow> True)"

text \<open>The partition a check fetched for its step.\<close>

definition fetched_for :: "GlueAlterStep \<Rightarrow> GluePartitionDetails option \<Rightarrow> bool" where
  "fetched_for step checked \<longleftrightarrow>
     (\<forall>p. checked = Some p \<longrightarrow> (\<exists>raw. p = to_partition_details raw \<and> pt_values raw = st_values step))"

text \<open>What is registered once the pending batches are sent.\<close>

definition registered_then :: "alter_progress \<Rightarrow> string list set \<Rightarrow> string list set" where
  "registered_then a R = (R \<union> gpi_values ` set (ap_pending_adds a)) - set (ap_pending_drops a)"

definition one_pending :: "alter_progress \<Rightarrow> bool" where
  "one_pending a \<longleftrightarrow> ap_pending_adds a = [] \<or> ap_pending_drops a = []"

locale altered_table = partition_store +
  fixes D :: duckdb and target :: GluePartitionTarget
  assumes target: "(t_schema_name (tg_table target), t_name (tg_table target)) = key"
begin

lemma fetch_keeps: "moves (keeps reg) (fetch_partition D S target values)"
  unfolding fetch_partition_def
  by (intro keeping.bind reads_partition) (simp add: keeping.simple split: option.split)

lemma fetch_finds:
  assumes "fetch_partition D S target values s = (Inr p, s')"
  shows "(\<exists>raw. p = to_partition_details raw \<and> pt_values raw = values) \<and> values \<in> reg (s_world s)"
proof -
  from assms have "get_partition_details D (tg_catalog target) S (t_schema_name (tg_table target))
      (t_name (tg_table target)) values s = (Inr (Some p), s')"
    by (auto simp: fetch_partition_def bind_op_def return_op_def throw_op_def split: prod.splits sum.splits option.splits)
  from fetched_details [OF target this] show ?thesis by blast
qed

lemma check_keeps: "moves (keeps reg) (check_step D S target existing step checked)"
  unfolding check_step_def Let_def
  by (cases "st_action step") (auto simp: keeping.simple intro!: keeping.bind fetch_keeps)

lemma checks_keep: "moves (keeps reg) (check_steps fuel D S target steps)"
  unfolding check_steps_def by (intro keeping.bind keeping.each reads_existing check_keeps)

lemma check_passes:
  assumes "check_step D S target existing step checked s = (Inr checked', s')"
  shows "\<exists>c. checked' = checked @ [c] \<and> fetched_for step c \<and>
    (existing = set (lookups steps) \<inter> reg (s_world s) \<and> step \<in> set steps \<longrightarrow> applicable step (reg (s_world s)))"
  using assms fetch_finds
  by (cases "st_action step")
    (fastforce simp: check_step_def Let_def bind_op_def return_op_def throw_op_def fetched_for_def applicable_def
      lookups_def split: prod.splits sum.splits if_splits)+

lemma checks_pass:
  assumes "check_steps fuel D S target steps s = (Inr checked, s')"
  shows "reg (s_world s') = reg (s_world s) \<and> list_all2 fetched_for steps checked \<and>
    (\<forall>step\<in>set steps. applicable step (reg (s_world s)))"
proof -
  define R where "R = reg (s_world s)"
  obtain existing s1 where e: "existing_partitions fuel D (tg_catalog target) S (t_schema_name (tg_table target))
      (t_name (tg_table target)) (lookups steps) s = (Inr existing, s1)"
    and l: "for_each (check_step D S target existing) steps [] s1 = (Inr checked, s')"
    using assms by (auto simp: check_steps_def bind_op_def split: prod.splits sum.splits)
  have existing: "existing = set (lookups steps) \<inter> R" using existing_exactly [OF target e] by (simp add: R_def)
  have s1: "reg (s_world s1) = R" using movesD [OF reads_existing e] by (simp add: keeps_def R_def)
  have "reg (s_world s') = R \<and> list_all2 fetched_for steps checked \<and> (\<forall>step\<in>set steps. applicable step R)"
  proof (rule for_each_induct [OF l, where P = "\<lambda>past checked s. reg (s_world s) = R \<and>
      list_all2 fetched_for past checked \<and> (\<forall>step\<in>set past. applicable step R)"])
    fix past step checked s2 checked' s3
    assume I: "reg (s_world s2) = R \<and> list_all2 fetched_for past checked \<and> (\<forall>step\<in>set past. applicable step R)"
      and "step \<in> set steps" and c: "check_step D S target existing step checked s2 = (Inr checked', s3)"
    with check_passes [OF c, of steps] movesD [OF check_keeps c] existing
    show "reg (s_world s3) = R \<and> list_all2 fetched_for (past @ [step]) checked' \<and>
        (\<forall>step\<in>set (past @ [step]). applicable step R)"
      by (auto simp: keeps_def intro: list_all2_appendI)
  qed (simp add: s1)
  then show ?thesis by (simp add: R_def)
qed

lemma flush_adds_then:
  assumes "flush_adds D S target a s = (Inr a', s')" "one_pending a"
  shows "registered_then a' (reg (s_world s')) = registered_then a (reg (s_world s)) \<and>
    ap_pending_adds a' = [] \<and> ap_pending_drops a' = ap_pending_drops a \<and> ap_rows a' = ap_rows a"
proof (cases "ap_pending_adds a = []")
  case False
  then obtain already where b: "batch_create_partitions D (tg_catalog target) S (tg_table target) (ap_pending_adds a) s
      = (Inr already, s')" and a': "a' = a\<lparr>ap_pending_adds := []\<rparr>"
    using assms(1) by (auto simp: flush_adds_def bind_op_def return_op_def split: prod.splits sum.splits)
  with create_exactly [OF target b] False assms(2) show ?thesis
    by (simp add: registered_then_def one_pending_def)
qed (use assms(1) in \<open>auto simp: flush_adds_def return_op_def\<close>)

lemma flush_drops_then:
  assumes "flush_drops D S target a s = (Inr a', s')" "one_pending a"
  shows "registered_then a' (reg (s_world s')) = registered_then a (reg (s_world s)) \<and>
    ap_pending_drops a' = [] \<and> ap_pending_adds a' = ap_pending_adds a \<and> ap_rows a' = ap_rows a"
proof (cases "ap_pending_drops a = []")
  case False
  then have b: "batch_delete_partitions D (tg_catalog target) S (t_schema_name (tg_table target))
      (t_name (tg_table target)) (ap_pending_drops a) s = (Inr (), s')" and a': "a' = a\<lparr>ap_pending_drops := []\<rparr>"
    using assms(1) by (auto simp: flush_drops_def bind_op_def return_op_def split: prod.splits sum.splits)
  with delete_exactly [OF target b] False assms(2) show ?thesis
    by (auto simp: registered_then_def one_pending_def)
qed (use assms(1) in \<open>auto simp: flush_drops_def return_op_def\<close>)

lemma apply_action_then:
  assumes "apply_action D S target (step, c) a s = (Inr a', s')" "fetched_for step c" "one_pending a"
    and "st_action step \<noteq> ADD \<Longrightarrow> ap_pending_adds a = []" "st_action step \<noteq> DROP \<Longrightarrow> ap_pending_drops a = []"
  shows "registered_then a' (reg (s_world s')) = alter_effect step (registered_then a (reg (s_world s))) \<and>
    one_pending a' \<and> ap_rows a' = ap_rows a"
proof (cases "st_action step")
  case ADD
  with assms show ?thesis
    by (auto simp: apply_action_def Let_def return_op_def registered_then_def one_pending_def alter_effect_def)
next
  case DROP
  with assms show ?thesis
    by (auto simp: apply_action_def Let_def return_op_def registered_then_def one_pending_def alter_effect_def
        split: if_splits)
next
  case RENAME
  with assms obtain raw l where "pt_values raw = st_values step" "a' = a" and
    r: "rename_partition D (tg_catalog target) S (t_schema_name (tg_table target)) (t_name (tg_table target))
      (to_partition_details raw) (st_new_values step) s = (Inr l, s')"
    by (auto simp: apply_action_def Let_def bind_op_def return_op_def throw_op_def fetched_for_def
        split: prod.splits sum.splits option.splits)
  with rename_exactly [OF target r] RENAME assms show ?thesis
    by (simp add: registered_then_def one_pending_def alter_effect_def)
next
  case SET_PARTITION_LOCATION
  obtain p s1 where f: "(case c of None \<Rightarrow> fetch_partition D S target (st_values step) | Some p \<Rightarrow> return_op p) s = (Inr p, s1)"
    and u: "set_partition_location D (tg_catalog target) S (t_schema_name (tg_table target)) (t_name (tg_table target))
      p (st_location step) s1 = (Inr (), s')" and "a' = a"
    using assms(1) SET_PARTITION_LOCATION
    by (auto simp: apply_action_def Let_def bind_op_def return_op_def split: prod.splits sum.splits)
  have "\<exists>raw. p = to_partition_details raw" and "reg (s_world s1) = reg (s_world s)"
    using f assms(2) fetch_finds [of "st_values step" s p s1] movesD [OF fetch_keeps, of "st_values step" s "Inr p" s1]
    by (cases c; auto simp: fetched_for_def return_op_def keeps_def)+
  with relocate_exactly [OF target] u \<open>a' = a\<close> SET_PARTITION_LOCATION assms show ?thesis
    by (auto simp: registered_then_def one_pending_def alter_effect_def)
next
  case SET_TABLE_LOCATION
  obtain t s1 where f: "table_to_update D S target (ap_table_updated a) s = (Inr t, s1)"
    and u: "set_table_location D (tg_catalog target) S t (st_location step) s1 = (Inr (), s')"
    and "a' = a\<lparr>ap_table_updated := True\<rparr>"
    using assms(1) SET_TABLE_LOCATION
    by (auto simp: apply_action_def Let_def bind_op_def return_op_def split: prod.splits sum.splits)
  have "moves (keeps reg) (table_to_update D S target b)" for b
    unfolding table_to_update_def
    by (intro keeping.if_then keeping.bind keeping.simple reads_table) (simp add: keeping.simple split: option.split)
  from movesD [OF this f] movesD [OF updates_table u] \<open>a' = _\<close> SET_TABLE_LOCATION assms show ?thesis
    by (simp add: registered_then_def one_pending_def alter_effect_def keeps_def)
qed

lemma apply_step_then:
  assumes "apply_step D S target (step, c) a s = (Inr a', s')" "fetched_for step c" "one_pending a"
  shows "registered_then a' (reg (s_world s')) = alter_effect step (registered_then a (reg (s_world s))) \<and>
    one_pending a' \<and> ap_rows a' = ap_rows a @ [emitted D step]"
proof -
  obtain a1 s1 a2 s2 a3 where
    1: "(if st_action step \<noteq> ADD then flush_adds D S target a else return_op a) s = (Inr a1, s1)" and
    2: "(if st_action step \<noteq> DROP then flush_drops D S target a1 else return_op a1) s1 = (Inr a2, s2)" and
    3: "apply_action D S target (step, c) a2 s2 = (Inr a3, s')" and
    a': "a' = a3\<lparr>ap_rows := ap_rows a3 @ [emitted D step]\<rparr>"
    using assms(1) by (auto simp: apply_step_def bind_op_def return_op_def split: prod.splits sum.splits)
  have a1: "registered_then a1 (reg (s_world s1)) = registered_then a (reg (s_world s)) \<and> one_pending a1 \<and>
    ap_rows a1 = ap_rows a \<and> (st_action step \<noteq> ADD \<longrightarrow> ap_pending_adds a1 = [])"
  proof (cases "st_action step = ADD")
    case True
    with 1 assms(3) show ?thesis by (simp add: return_op_def)
  next
    case False
    with 1 flush_adds_then [OF _ assms(3), of s a1 s1] show ?thesis by (simp add: one_pending_def)
  qed
  then have p1: "one_pending a1" by blast
  have a2: "registered_then a2 (reg (s_world s2)) = registered_then a1 (reg (s_world s1)) \<and> one_pending a2 \<and>
    ap_rows a2 = ap_rows a1 \<and> (st_action step \<noteq> DROP \<longrightarrow> ap_pending_drops a2 = []) \<and>
    (ap_pending_adds a1 = [] \<longrightarrow> ap_pending_adds a2 = [])"
  proof (cases "st_action step = DROP")
    case True
    with 2 p1 show ?thesis by (simp add: return_op_def)
  next
    case False
    with 2 flush_drops_then [OF _ p1, of s1 a2 s2] show ?thesis by (simp add: one_pending_def)
  qed
  then have p2: "one_pending a2" by blast
  have n: "ap_pending_adds a2 = []" if "st_action step \<noteq> ADD" using that a1 a2 by blast
  have m: "ap_pending_drops a2 = []" if "st_action step \<noteq> DROP" using that a2 by blast
  from apply_action_then [OF 3 assms(2) p2 n m] a1 a2
  have "registered_then a3 (reg (s_world s')) = alter_effect step (registered_then a (reg (s_world s)))"
    "one_pending a3" "ap_rows a3 = ap_rows a" by simp_all
  with a' show ?thesis by (simp add: registered_then_def one_pending_def)
qed

lemma apply_in_order:
  assumes "glue_alter_table_apply fuel D S b s = (Inr rows, s')" "at_target b = target"
  shows "reg (s_world s') = fold alter_effect (at_steps b) (reg (s_world s)) \<and> rows = map (emitted D) (at_steps b)"
proof -
  let ?a0 = "\<lparr>ap_pending_adds = [], ap_pending_drops = [], ap_table_updated = False, ap_rows = []\<rparr>"
  obtain checked s1 a s2 a1 s3 a2 where c: "check_steps fuel D S target (at_steps b) s = (Inr checked, s1)"
    and l: "for_each (apply_step D S target) (zip (at_steps b) checked) ?a0 s1 = (Inr a, s2)"
    and f1: "flush_adds D S target a s2 = (Inr a1, s3)" and f2: "flush_drops D S target a1 s3 = (Inr a2, s')"
    and rows: "rows = ap_rows a2"
    using assms by (auto simp: glue_alter_table_apply_def Let_def bind_op_def return_op_def
        split: prod.splits sum.splits)
  from checks_pass [OF c] have s1: "reg (s_world s1) = reg (s_world s)"
    and fetched: "list_all2 fetched_for (at_steps b) checked" by simp_all
  have "registered_then a (reg (s_world s2)) = fold alter_effect (map fst (zip (at_steps b) checked)) (reg (s_world s1)) \<and>
      one_pending a \<and> ap_rows a = map (emitted D) (map fst (zip (at_steps b) checked))"
  proof (rule for_each_induct [OF l, where P = "\<lambda>past a s. registered_then a (reg (s_world s)) =
      fold alter_effect (map fst past) (reg (s_world s1)) \<and> one_pending a \<and> ap_rows a = map (emitted D) (map fst past)"])
    fix past :: "(GlueAlterStep \<times> GluePartitionDetails option) list" and x and a a' :: alter_progress and s s'
    assume I: "registered_then a (reg (s_world s)) = fold alter_effect (map fst past) (reg (s_world s1)) \<and>
        one_pending a \<and> ap_rows a = map (emitted D) (map fst past)"
      and x: "x \<in> set (zip (at_steps b) checked)" and step: "apply_step D S target x a s = (Inr a', s')"
    from x fetched have "fetched_for (fst x) (snd x)" by (auto simp: list_all2_iff)
    moreover from step have "apply_step D S target (fst x, snd x) a s = (Inr a', s')" by simp
    ultimately show "registered_then a' (reg (s_world s')) = fold alter_effect (map fst (past @ [x])) (reg (s_world s1)) \<and>
        one_pending a' \<and> ap_rows a' = map (emitted D) (map fst (past @ [x]))"
      using apply_step_then [of "fst x" "snd x" a s a' s'] I by simp
  qed (simp add: registered_then_def one_pending_def)
  moreover have "map fst (zip (at_steps b) checked) = at_steps b"
    using list_all2_lengthD [OF fetched] by simp
  ultimately have a: "registered_then a (reg (s_world s2)) = fold alter_effect (at_steps b) (reg (s_world s1))"
    "one_pending a" "ap_rows a = map (emitted D) (at_steps b)" by simp_all
  from flush_adds_then [OF f1 a(2)] have a1: "registered_then a1 (reg (s_world s3)) = registered_then a (reg (s_world s2))"
    "one_pending a1" "ap_rows a1 = ap_rows a" "ap_pending_adds a1 = []" by (simp_all add: one_pending_def)
  from flush_drops_then [OF f2 a1(2)] have a2: "registered_then a2 (reg (s_world s')) = registered_then a1 (reg (s_world s3))"
    "ap_pending_drops a2 = []" "ap_pending_adds a2 = []" "ap_rows a2 = ap_rows a1" using a1(4) by simp_all
  from a2(2,3) have "registered_then a2 (reg (s_world s')) = reg (s_world s')" by (simp add: registered_then_def)
  with a a1 a2 s1 rows show ?thesis by simp
qed

lemma refused_before_any_change:
  assumes "\<not> (\<forall>step\<in>set (at_steps b). applicable step (reg (s_world s)))" "at_target b = target"
    and "glue_alter_table_apply fuel D S b s = (r, s')"
  shows "isl r \<and> reg (s_world s') = reg (s_world s)"
proof -
  obtain q s1 where c: "check_steps fuel D S target (at_steps b) s = (q, s1)" by fastforce
  then obtain e where "q = Inl e" using assms(1) checks_pass [of fuel "at_steps b" s _ s1] by (cases q) auto
  with c assms(2,3) movesD [OF checks_keep c] show ?thesis
    by (auto simp: glue_alter_table_apply_def Let_def bind_op_def keeps_def)
qed

end

interpretation sample_altered: altered_table sample_glue "(t_schema_name (tg_table target), t_name (tg_table target))"
    "sample_registered (t_schema_name (tg_table target), t_name (tg_table target))" D target for D target
  by unfold_locales simp

definition sample_target :: GluePartitionTarget where
  "sample_target = \<lparr>tg_catalog = sample_catalog, tg_table = sample_bound\<rparr>"

definition sample_step :: "GlueAlterAction \<Rightarrow> string \<Rightarrow> string list \<Rightarrow> string \<Rightarrow> GlueAlterStep" where
  "sample_step action day new_values location = \<lparr>st_action = action, st_if_not_exists = False, st_if_exists = False,
     st_values = [day], st_new_values = new_values, st_location = location\<rparr>"

abbreviation sample_statement :: "GlueAlterStep list \<Rightarrow> (sample_world, emitted_row list) op" where
  "sample_statement steps \<equiv> glue_alter_table_apply 10 ascii_duckdb sample_glue \<lparr>at_target = sample_target, at_steps = steps\<rparr>"

lemma sample_target_key: "(t_schema_name (tg_table sample_target), t_name (tg_table sample_target)) = (''db'', ''a'')"
  by code_simp



text \<open>
  C3: an ALTER TABLE statement with an action that can not be applied to what is registered when it starts fails and
  leaves the registered partitions as they are, whatever actions precede that one.
\<close>

theorem alter_table_refused_changes_nothing:
  assumes "partition_store S key reg" "(t_schema_name (tg_table (at_target b)), t_name (tg_table (at_target b))) = key"
    and "step \<in> set (at_steps b)" "\<not> applicable step (reg (s_world s))"
    and "glue_alter_table_apply fuel D S b s = (r, s')"
  shows "isl r \<and> reg (s_world s') = reg (s_world s)"
proof -
  from assms(1,2) have "altered_table S key reg (at_target b)"
    by (simp add: altered_table_def altered_table_axioms_def)
  from altered_table.refused_before_any_change [OF this _ refl assms(5)] assms(3,4) show ?thesis by blast
qed

lemma alter_table_refused_changes_nothing_witness:
  "sample_registered (''db'', ''a'') (s_world (snd (sample_statement
      [sample_step DROP ''1'' [] [], sample_step RENAME ''2'' [''1''] []] (sample_session sample_days)))) = {[''1''], [''2'']}"
proof -
  let ?steps = "[sample_step DROP ''1'' [] [], sample_step RENAME ''2'' [''1''] []]"
  have before: "sample_registered (''db'', ''a'') (s_world (sample_session sample_days)) = {[''1''], [''2'']}" by code_simp
  have "\<not> applicable (sample_step RENAME ''2'' [''1''] []) (sample_registered (''db'', ''a'') (s_world (sample_session sample_days)))"
    by code_simp
  with alter_table_refused_changes_nothing [OF sample_store.partition_store_axioms _ _ _ surjective_pairing,
      of "\<lparr>at_target = sample_target, at_steps = ?steps\<rparr>" "(''db'', ''a'')" "sample_step RENAME ''2'' [''1''] []"
        "sample_session sample_days" 10 ascii_duckdb] sample_target_key before
  show ?thesis by simp
qed


text \<open>
  In one statement a new location of a partition is lost when the partition is renamed after it: the
  rename writes the descriptor fetched before the first action, so the partition is at its first location again.
\<close>

theorem renamed_partition_loses_new_location:
  "case sample_statement [sample_step SET_PARTITION_LOCATION ''1'' [] ''s3://moved'', sample_step RENAME ''1'' [''5''] []]
       (sample_session sample_days)
   of (r, s') \<Rightarrow> isl r = False \<and>
     map (\<lambda>p. (pt_values p, sd_location (pt_storage_descriptor p))) (sample_partitions_of (s_world s') (''db'', ''a'')) =
       [([''5''], ''s3://lake/a/day=1''), ([''2''], ''s3://lake/a/day=2'')]"
  by code_simp

end
