(* ===== verification/Repair_Table.thy ===== *)
theory Repair_Table
  imports Partition_Functions Partition_Store
begin

text \<open>
  \<open>glue_repair_table\<close> of src/functions/glue_repair_table.cpp: the partitions whose directories hold data files below
  the location of a table, but that are not registered in Glue, are registered.
\<close>

subsection \<open>Bind\<close>

record GlueRepairTableBindData =
  rb_target :: GluePartitionTarget
  rb_key_types :: "LogicalType list"
  rb_root :: string

definition glue_repair_table_bind ::
  "duckdb \<Rightarrow> 'w service \<Rightarrow> 'w name_resolver \<Rightarrow> (string list \<Rightarrow> string list) \<Rightarrow> string
     \<Rightarrow> ('w, GlueRepairTableBindData \<times> (string \<times> LogicalType) list) op" where
  "glue_repair_table_bind D S Q deduplicate table_name =
     bind_op (resolve_glue_table D S Q ''glue_repair_table'' table_name True) (\<lambda>target.
     bind_op (throw_if_in_explicit_transaction ''glue_repair_table'') (\<lambda>_.
       let t = tg_table target; root = RTrimChars D (t_location t) ''/'' in
       if root = [] then throw_op (InvalidInputException ''Table has no location in Glue'' [target_name target])
       else bind_op (lift_op (partition_columns D t)) (\<lambda>key_types.
         return_op (\<lparr>rb_target = target, rb_key_types = key_types, rb_root = root\<rparr>,
           zip (key_names t @ [last (deduplicate (key_names t @ [''location'']))]) (key_types @ [VARCHAR])))))"

subsection \<open>The files below a directory\<close>

text \<open>
  A file system: the entries \<open>ListFiles\<close> calls back with for a directory, and \<open>JoinPath\<close>. \<open>ListFilesBelow\<close> keeps a
  stack of directories, its top first here; the callback only collects, so the model gives the files in the order
  it is called with. The fuel bounds the directories listed.
\<close>

record listed_entry =
  le_info :: open_file
  le_is_directory :: bool

record file_system =
  ListFiles :: "string \<Rightarrow> listed_entry list result"
  FsJoinPath :: "string \<Rightarrow> string \<Rightarrow> string"

definition entries_below :: "file_system \<Rightarrow> string \<Rightarrow> listed_entry list \<Rightarrow> bool \<Rightarrow> open_file list" where
  "entries_below fs current entries directories =
     map (\<lambda>e. (le_info e)\<lparr>of_path := FsJoinPath fs current (of_path (le_info e))\<rparr>)
       (filter (\<lambda>e. le_is_directory e = directories) entries)"

fun list_files_below :: "nat \<Rightarrow> file_system \<Rightarrow> string list \<Rightarrow> open_file list \<Rightarrow> open_file list result" where
  "list_files_below n fs [] files = Inr files"
| "list_files_below 0 fs (current # directories) files = Inl OutOfFuel"
| "list_files_below (Suc n) fs (current # directories) files =
     and_then (ListFiles fs current) (\<lambda>entries.
       list_files_below n fs (rev (map of_path (entries_below fs current entries True)) @ directories)
         (files @ entries_below fs current entries False))"

subsection \<open>The partitions found\<close>

definition read_component ::
  "duckdb \<Rightarrow> (string \<Rightarrow> string result) \<Rightarrow> string \<Rightarrow> LogicalType \<Rightarrow> string \<Rightarrow> string option" where
  "read_component D unescape key key_type component =
     (case find_char CHR ''='' component of
        None \<Rightarrow> None
      | Some equals \<Rightarrow>
          (case and_then (unescape (take equals component)) (\<lambda>name.
             if \<not> CIEquals D name key then Inr None
             else and_then (unescape (drop (equals + 1) component)) (\<lambda>str.
                  and_then (partition_value D key str key_type) (\<lambda>typed.
                    Inr (Some (if value_is_null typed then str else ValueToString D typed))))) of
             Inl e \<Rightarrow> None
           | Inr found \<Rightarrow> found))"

fun read_components ::
  "duckdb \<Rightarrow> (string \<Rightarrow> string result) \<Rightarrow> (string \<times> LogicalType) list \<Rightarrow> string list \<Rightarrow> string list option" where
  "read_components D unescape [] cs = Some []"
| "read_components D unescape (key # keys) [] = None"
| "read_components D unescape ((key, ty) # keys) (component # cs) =
     (case read_component D unescape key ty component of
        None \<Rightarrow> None
      | Some v \<Rightarrow> map_option (Cons v) (read_components D unescape keys cs))"

text \<open>\<open>ReadDiscoveredPartition\<close>: the values and the partition directory of a directory below the root.\<close>

definition read_discovered_partition ::
  "duckdb \<Rightarrow> (string \<Rightarrow> string result) \<Rightarrow> GlueRepairTableBindData \<Rightarrow> string \<Rightarrow> (string list \<times> string) option" where
  "read_discovered_partition D unescape b relative_directory =
     (let keys = key_names (tg_table (rb_target b)); parts = Split D relative_directory CHR ''/'' in
      if length parts < length keys then None
      else map_option (\<lambda>vs. (vs, join (take (length keys) parts) ''/''))
             (read_components D unescape (zip keys (rb_key_types b)) parts))"

text \<open>The directory of a file, \<open>None\<close> where its path has no separator.\<close>

definition directory_of :: "string \<Rightarrow> string option" where
  "directory_of path =
     (if CHR ''/'' \<in> set path then Some (take (length path - length (after_last CHR ''/'' path) - 1) path) else None)"

record repair_progress =
  rp_seen :: "string list"
  rp_discovered :: "(string list \<times> string) list"

definition discover_file ::
  "duckdb \<Rightarrow> (string \<Rightarrow> string result) \<Rightarrow> GlueRepairTableBindData \<Rightarrow> GluePartitionInfo list \<Rightarrow> open_file
     \<Rightarrow> repair_progress \<Rightarrow> repair_progress" where
  "discover_file D unescape b existing f p =
     (let root_prefix = rb_root b @ ''/'' in
      if \<not> is_data_file D f root_prefix then p
      else case directory_of (of_path f) of
        None \<Rightarrow> p
      | Some directory \<Rightarrow>
          if length directory < length root_prefix then p
          else if directory \<in> set (rp_seen p) then p
          else
            let p' = p\<lparr>rp_seen := rp_seen p @ [directory]\<rparr> in
            case read_discovered_partition D unescape b (drop (length root_prefix) directory) of
              None \<Rightarrow> p'
            | Some (vs, partition_directory) \<Rightarrow>
                let location = root_prefix @ partition_directory in
                if vs \<in> p_values ` set existing \<or> location \<in> (\<lambda>q. RTrimChars D (p_location q) ''/'') ` set existing
                then p'
                else p'\<lparr>rp_discovered := emplace vs location (rp_discovered p')\<rparr>)"

definition discovered_partitions ::
  "duckdb \<Rightarrow> (string \<Rightarrow> string result) \<Rightarrow> GlueRepairTableBindData \<Rightarrow> GluePartitionInfo list \<Rightarrow> open_file list
     \<Rightarrow> GluePartitionInput list" where
  "discovered_partitions D unescape b existing files =
     map (\<lambda>(vs, location). \<lparr>gpi_values = vs, gpi_location = location\<rparr>)
       (sort_key fst (rp_discovered
         (fold (discover_file D unescape b existing) files \<lparr>rp_seen = [], rp_discovered = []\<rparr>)))"

definition glue_repair_table_apply ::
  "nat \<Rightarrow> duckdb \<Rightarrow> 'w service \<Rightarrow> (string \<Rightarrow> string result) \<Rightarrow> file_system \<Rightarrow> GlueRepairTableBindData
     \<Rightarrow> ('w, GluePartitionInput list) op" where
  "glue_repair_table_apply fuel D S unescape fs b =
     (let cat = tg_catalog (rb_target b); t = tg_table (rb_target b) in
      bind_op (lift_op (check_writable cat ''BatchCreatePartition'')) (\<lambda>_.
      bind_op (get_partitions fuel D cat S (t_schema_name t) (t_name t)) (\<lambda>existing.
      bind_op (lift_op (list_files_below fuel fs [rb_root b] [])) (\<lambda>files.
        let added = discovered_partitions D unescape b existing files in
        if added = [] then return_op []
        else bind_op (batch_create_partitions D cat S t added) (\<lambda>_. return_op added)))))"

text \<open>The row of an added partition, and the chunks they are handed out in.\<close>

definition repaired_row :: "duckdb \<Rightarrow> GlueRepairTableBindData \<Rightarrow> GluePartitionInput \<Rightarrow> Value list" where
  "repaired_row D b p =
     map (\<lambda>k. partition_listing_value D (key_names (tg_table (rb_target b)) ! k) (gpi_values p ! k) (rb_key_types b ! k))
       [0 ..< length (t_partition_keys (tg_table (rb_target b)))] @ [StringV (gpi_location p)]"

definition glue_repair_table_scan ::
  "nat \<Rightarrow> duckdb \<Rightarrow> nat \<Rightarrow> 'w service \<Rightarrow> (string \<Rightarrow> string result) \<Rightarrow> file_system \<Rightarrow> GlueRepairTableBindData
     \<Rightarrow> GluePartitionInput list option \<times> nat \<Rightarrow> ('w, Value list list \<times> GluePartitionInput list option \<times> nat) op" where
  "glue_repair_table_scan fuel D STANDARD_VECTOR_SIZE S unescape fs b st =
     (case st of (applied, offset) \<Rightarrow>
      bind_op (case applied of None \<Rightarrow> glue_repair_table_apply fuel D S unescape fs b | Some added \<Rightarrow> return_op added)
        (\<lambda>added. case next_chunk STANDARD_VECTOR_SIZE added offset of
           (chunk, offset') \<Rightarrow> return_op (map (repaired_row D b) chunk, Some added, offset')))"

subsection \<open>The listing ends\<close>

text \<open>\<open>directory_tree fs ds n A\<close>: below the directories \<open>ds\<close>, themselves included, there are \<open>n\<close> directories and the files \<open>A\<close>.\<close>

inductive directory_tree :: "file_system \<Rightarrow> string list \<Rightarrow> nat \<Rightarrow> open_file set \<Rightarrow> bool" for fs where
  none: "directory_tree fs [] 0 {}"
| dir: "ListFiles fs d = Inr entries \<Longrightarrow> directory_tree fs (map of_path (entries_below fs d entries True)) m A
    \<Longrightarrow> directory_tree fs ds n B \<Longrightarrow> directory_tree fs (d # ds) (Suc (m + n)) (set (entries_below fs d entries False) \<union> A \<union> B)"

inductive_cases directory_tree_ConsE: "directory_tree fs (d # ds) n A"
inductive_simps directory_tree_Nil: "directory_tree fs [] n A"

lemma directory_tree_append: "directory_tree fs ds n A \<Longrightarrow> directory_tree fs es m B \<Longrightarrow> directory_tree fs (ds @ es) (n + m) (A \<union> B)"
proof (induction rule: directory_tree.induct)
  case (dir d entries k A ds n C)
  from directory_tree.dir [OF dir.hyps(1,2) dir.IH(2) [OF dir.prems]] show ?case by (simp add: ac_simps)
qed simp

lemma directory_tree_rev: "directory_tree fs ds n A \<Longrightarrow> directory_tree fs (rev ds) n A"
proof (induction rule: directory_tree.induct)
  case (dir d entries k A ds n B)
  from directory_tree_append [OF dir.IH(2) directory_tree.dir [OF dir.hyps(1,2) directory_tree.none]] show ?case by (simp add: ac_simps)
qed (simp add: directory_tree.none)

lemma list_files_below_tree:
  assumes "directory_tree fs ds n A" "n \<le> fuel"
  shows "\<exists>out. set out = A \<and>
    list_files_below fuel fs (ds @ rest) files = list_files_below (fuel - n) fs rest (files @ out)"
  using assms
proof (induction n arbitrary: fuel ds A rest files rule: less_induct)
  case (less n)
  show ?case
  proof (cases ds)
    case Nil
    with less.prems(1) show ?thesis by (auto simp: directory_tree_Nil)
  next
    case (Cons d ds')
    with less.prems(1) obtain entries m A' k B where e: "ListFiles fs d = Inr entries"
      and n: "n = Suc (m + k)" and A: "A = set (entries_below fs d entries False) \<union> A' \<union> B"
      and sub: "directory_tree fs (map of_path (entries_below fs d entries True)) m A'" and ds': "directory_tree fs ds' k B"
      by (auto elim: directory_tree_ConsE)
    from n less.prems(2) obtain fuel' where fuel: "fuel = Suc fuel'" "m + k \<le> fuel'" by (cases fuel) auto
    have "m < n" "k < n" "m \<le> fuel'" "k \<le> fuel' - m" using n fuel by auto
    from less.IH [OF this(1) directory_tree_rev [OF sub] this(3), of "ds' @ rest" "files @ entries_below fs d entries False"]
    obtain out1 where o1: "set out1 = A'" and
      1: "list_files_below fuel' fs (rev (map of_path (entries_below fs d entries True)) @ ds' @ rest)
            (files @ entries_below fs d entries False) =
          list_files_below (fuel' - m) fs (ds' @ rest) ((files @ entries_below fs d entries False) @ out1)" by blast
    from less.IH [OF \<open>k < n\<close> ds' \<open>k \<le> fuel' - m\<close>, of rest "(files @ entries_below fs d entries False) @ out1"]
    obtain out2 where o2: "set out2 = B" and
      2: "list_files_below (fuel' - m) fs (ds' @ rest) ((files @ entries_below fs d entries False) @ out1) =
          list_files_below (fuel' - m - k) fs rest (((files @ entries_below fs d entries False) @ out1) @ out2)" by blast
    have "list_files_below fuel fs (ds @ rest) files =
        list_files_below (fuel - n) fs rest (files @ entries_below fs d entries False @ out1 @ out2)"
      using 1 2 by (simp add: Cons fuel(1) e n)
    moreover have "set (entries_below fs d entries False @ out1 @ out2) = A" by (auto simp: A o1 o2)
    ultimately show ?thesis by blast
  qed
qed

text \<open>
  C36: listing the files below a directory ends when the tree below it is finite: fuel for its directories is enough,
  and the listing gives the files of the tree and no others.
\<close>

theorem repair_listing_ends:
  assumes "directory_tree fs [root] n A" "n \<le> fuel"
  shows "\<exists>files. list_files_below fuel fs [root] [] = Inr files \<and> set files = A"
  using list_files_below_tree [OF assms, of "[]" "[]"] by (metis append.left_neutral append_Nil2 list_files_below.simps(1))

subsection \<open>What is found\<close>

definition read_directory ::
  "duckdb \<Rightarrow> (string \<Rightarrow> string result) \<Rightarrow> GlueRepairTableBindData \<Rightarrow> string \<Rightarrow> (string list \<times> string) option" where
  "read_directory D unescape b directory =
     map_option (\<lambda>(vs, partition_directory). (vs, rb_root b @ ''/'' @ partition_directory))
       (read_discovered_partition D unescape b (drop (length (rb_root b) + 1) directory))"

text \<open>The partition a listed file belongs to by the names of its directories.\<close>

definition partition_of_file ::
  "duckdb \<Rightarrow> (string \<Rightarrow> string result) \<Rightarrow> GlueRepairTableBindData \<Rightarrow> open_file \<Rightarrow> (string list \<times> string) option" where
  "partition_of_file D unescape b f =
     (if \<not> is_data_file D f (rb_root b @ ''/'') then None
      else case directory_of (of_path f) of
        None \<Rightarrow> None
      | Some directory \<Rightarrow> if length directory \<le> length (rb_root b) then None else read_directory D unescape b directory)"

definition registered_already :: "duckdb \<Rightarrow> GluePartitionInfo list \<Rightarrow> string list \<times> string \<Rightarrow> bool" where
  "registered_already D existing found \<longleftrightarrow>
     fst found \<in> p_values ` set existing \<or> snd found \<in> (\<lambda>q. RTrimChars D (p_location q) ''/'') ` set existing"

definition found_so_far ::
  "duckdb \<Rightarrow> (string \<Rightarrow> string result) \<Rightarrow> GlueRepairTableBindData \<Rightarrow> GluePartitionInfo list \<Rightarrow> open_file list
     \<Rightarrow> repair_progress \<Rightarrow> bool" where
  "found_so_far D unescape b existing past p \<longleftrightarrow>
     distinct (map fst (rp_discovered p)) \<and>
     (\<forall>x\<in>set (rp_discovered p). \<not> registered_already D existing x \<and>
        (\<exists>f\<in>set past. partition_of_file D unescape b f = Some x)) \<and>
     (\<forall>directory\<in>set (rp_seen p). \<forall>x. read_directory D unescape b directory = Some x \<longrightarrow>
        registered_already D existing x \<or> fst x \<in> fst ` set (rp_discovered p)) \<and>
     (\<forall>f\<in>set past. \<forall>x. partition_of_file D unescape b f = Some x \<longrightarrow>
        registered_already D existing x \<or> fst x \<in> fst ` set (rp_discovered p))"

lemma emplace_new: "distinct (map fst m) \<Longrightarrow> distinct (map fst (emplace k v m))"
  by (auto simp: emplace_def map_of_eq_None_iff split: option.split)

lemma set_emplace: "set (emplace k v m) = (if k \<in> fst ` set m then set m else insert (k, v) (set m))"
  by (auto simp: emplace_def map_of_eq_None_iff split: option.split dest: map_of_SomeD)
    (metis fst_conv image_eqI map_of_SomeD)

lemma discover_file_found:
  assumes "found_so_far D unescape b existing past p"
  shows "found_so_far D unescape b existing (past @ [f]) (discover_file D unescape b existing f p)"
proof (cases "\<exists>directory. is_data_file D f (rb_root b @ ''/'') \<and> directory_of (of_path f) = Some directory \<and>
    length (rb_root b) < length directory")
  case False
  then have "discover_file D unescape b existing f p = p" and "partition_of_file D unescape b f = None"
    by (auto simp: discover_file_def partition_of_file_def Let_def split: option.split)
  with assms show ?thesis by (auto simp: found_so_far_def)
next
  case True
  then obtain directory where f: "is_data_file D f (rb_root b @ ''/'')" "directory_of (of_path f) = Some directory"
    "length (rb_root b) < length directory" by blast
  then have at: "partition_of_file D unescape b f = read_directory D unescape b directory"
    by (simp add: partition_of_file_def)
  show ?thesis
  proof (cases "directory \<in> set (rp_seen p)")
    case True
    with f have "discover_file D unescape b existing f p = p" by (simp add: discover_file_def Let_def)
    with assms True at show ?thesis by (auto simp: found_so_far_def)
  next
    case new: False
    show ?thesis
    proof (cases "read_directory D unescape b directory")
      case None
      with f new have "discover_file D unescape b existing f p = p\<lparr>rp_seen := rp_seen p @ [directory]\<rparr>"
        by (simp add: discover_file_def Let_def read_directory_def split: option.split)
      with assms at None show ?thesis by (auto simp: found_so_far_def)
    next
      case (Some x)
      then obtain vs l where x: "x = (vs, l)" by fastforce
      have step: "discover_file D unescape b existing f p = (if registered_already D existing x
          then p\<lparr>rp_seen := rp_seen p @ [directory]\<rparr>
          else p\<lparr>rp_seen := rp_seen p @ [directory], rp_discovered := emplace vs l (rp_discovered p)\<rparr>)"
        using f new Some
        by (auto simp: discover_file_def Let_def read_directory_def registered_already_def x split: option.splits)
      show ?thesis
      proof (cases "registered_already D existing x")
        case True
        with assms at Some step show ?thesis by (auto simp: found_so_far_def)
      next
        case False
        with assms at Some step show ?thesis
          by (auto simp: found_so_far_def set_emplace emplace_new x split: if_splits)
      qed
    qed
  qed
qed

lemma discovered_found:
  "found_so_far D unescape b existing files
     (fold (discover_file D unescape b existing) files \<lparr>rp_seen = [], rp_discovered = []\<rparr>)"
proof (induction files rule: rev_induct)
  case Nil
  then show ?case by (simp add: found_so_far_def)
next
  case (snoc f files)
  then show ?case using discover_file_found by simp
qed

text \<open>What the partitions to add are: new, each of a directory with a data file, and every such directory is covered.\<close>

lemma discovered_exact:
  fixes D unescape b existing files
  defines "added \<equiv> discovered_partitions D unescape b existing files"
  shows "distinct (map gpi_values added)" "sorted (map gpi_values added)"
    and "p \<in> set added \<Longrightarrow> \<not> registered_already D existing (gpi_values p, gpi_location p) \<and>
      (\<exists>f\<in>set files. partition_of_file D unescape b f = Some (gpi_values p, gpi_location p))"
    and "f \<in> set files \<Longrightarrow> partition_of_file D unescape b f = Some x \<Longrightarrow>
      registered_already D existing x \<or> fst x \<in> gpi_values ` set added"
proof -
  let ?found = "rp_discovered (fold (discover_file D unescape b existing) files \<lparr>rp_seen = [], rp_discovered = []\<rparr>)"
  have vals: "map gpi_values added = map fst (sort_key fst ?found)"
    by (simp add: added_def discovered_partitions_def comp_def case_prod_unfold)
  have set_sorted: "set (map fst (sort_key fst ?found)) = fst ` set ?found" by simp
  note found = discovered_found [of D unescape b existing files, unfolded found_so_far_def]
  show "sorted (map gpi_values added)" unfolding vals by (rule sorted_sort_key)
  show "distinct (map gpi_values added)" unfolding vals using found by (simp add: distinct_map)
  show "\<not> registered_already D existing (gpi_values p, gpi_location p) \<and>
      (\<exists>f\<in>set files. partition_of_file D unescape b f = Some (gpi_values p, gpi_location p))" if "p \<in> set added"
    using that found by (auto simp: added_def discovered_partitions_def)
  show "registered_already D existing x \<or> fst x \<in> gpi_values ` set added"
    if "f \<in> set files" "partition_of_file D unescape b f = Some x"
  proof -
    have "gpi_values ` set added = fst ` set ?found" using vals set_sorted by (metis list.set_map)
    with found that show ?thesis by blast
  qed
qed

subsection \<open>What a repair does\<close>

context partition_store
begin

lemma repaired_exactly:
  assumes "(t_schema_name (tg_table (rb_target b)), t_name (tg_table (rb_target b))) = key"
    and "glue_repair_table_apply fuel D S unescape fs b s = (Inr added, s')"
  obtains existing files s1 where
    "get_partitions fuel D (tg_catalog (rb_target b)) S (fst key) (snd key) s = (Inr existing, s1)"
    "list_files_below fuel fs [rb_root b] [] = Inr files"
    "added = discovered_partitions D unescape b existing files"
    "reg (s_world s') = reg (s_world s) \<union> gpi_values ` set added"
proof -
  let ?cat = "tg_catalog (rb_target b)" and ?t = "tg_table (rb_target b)"
  from assms(2) obtain existing s1 files where
    e: "get_partitions fuel D ?cat S (t_schema_name ?t) (t_name ?t) s = (Inr existing, s1)" and
    l: "list_files_below fuel fs [rb_root b] [] = Inr files" and
    r: "(if discovered_partitions D unescape b existing files = [] then return_op []
         else bind_op (batch_create_partitions D ?cat S ?t (discovered_partitions D unescape b existing files))
           (\<lambda>_. return_op (discovered_partitions D unescape b existing files))) s1 = (Inr added, s')"
    by (auto simp: glue_repair_table_apply_def Let_def bind_op_def lift_op_def split: prod.splits sum.splits)
  have s1: "reg (s_world s1) = reg (s_world s)" using movesD [OF lists_partitions e] by (simp add: keeps_def)
  have "added = discovered_partitions D unescape b existing files \<and>
      reg (s_world s') = reg (s_world s1) \<union> gpi_values ` set added"
  proof (cases "discovered_partitions D unescape b existing files = []")
    case True
    with r show ?thesis by (simp add: return_op_def)
  next
    case False
    with r obtain already where a: "added = discovered_partitions D unescape b existing files" and
      c: "batch_create_partitions D ?cat S ?t added s1 = (Inr already, s')"
      by (auto simp: bind_op_def return_op_def split: prod.splits sum.splits)
    with create_exactly [OF assms(1) c] show ?thesis by simp
  qed
  moreover from e assms(1) have "get_partitions fuel D ?cat S (fst key) (snd key) s = (Inr existing, s1)" by auto
  ultimately show thesis using that l s1 by metis
qed

end

text \<open>
  C30: repairing a table registers exactly the partitions it reports: each of them, once and in order, holds a data
  file below the location of the table and was not registered before, neither its values nor its location; and every
  data file whose directories name a partition has its partition registered, by its values or its location.
\<close>

theorem repair_registers_directories:
  assumes "partition_store S key reg"
    and "(t_schema_name (tg_table (rb_target b)), t_name (tg_table (rb_target b))) = key"
    and "glue_repair_table_apply fuel D S unescape fs b s = (Inr added, s')"
  shows "\<exists>existing files s1.
    get_partitions fuel D (tg_catalog (rb_target b)) S (fst key) (snd key) s = (Inr existing, s1) \<and>
    list_files_below fuel fs [rb_root b] [] = Inr files \<and>
    reg (s_world s') = reg (s_world s) \<union> gpi_values ` set added \<and>
    distinct (map gpi_values added) \<and> sorted (map gpi_values added) \<and>
    (\<forall>p\<in>set added. \<not> registered_already D existing (gpi_values p, gpi_location p) \<and>
      (\<exists>f\<in>set files. partition_of_file D unescape b f = Some (gpi_values p, gpi_location p))) \<and>
    (\<forall>f\<in>set files. \<forall>found. partition_of_file D unescape b f = Some found \<longrightarrow>
      registered_already D existing found \<or> fst found \<in> gpi_values ` set added)"
proof -
  from partition_store.repaired_exactly [OF assms] obtain existing files s1 where
    r: "get_partitions fuel D (tg_catalog (rb_target b)) S (fst key) (snd key) s = (Inr existing, s1)"
      "list_files_below fuel fs [rb_root b] [] = Inr files"
      "added = discovered_partitions D unescape b existing files"
      "reg (s_world s') = reg (s_world s) \<union> gpi_values ` set added" by metis
  note exact = discovered_exact [where D = D and unescape = unescape and b = b and existing = existing and files = files, folded r(3)]
  from r(1,2,4) exact show ?thesis by blast
qed

text \<open>A bucket with a file of a registered partition, one of a new partition, a marker and a file at the root.\<close>

definition sample_file_entry :: "string \<Rightarrow> bool \<Rightarrow> listed_entry" where
  "sample_file_entry name directory = \<lparr>le_info = \<lparr>of_path = name, of_size = Some 5\<rparr>, le_is_directory = directory\<rparr>"

definition sample_files :: file_system where
  "sample_files = \<lparr>ListFiles = (\<lambda>d.
       if d = ''s3://lake/a'' then Inr [sample_file_entry ''day=1'' True, sample_file_entry ''day=3'' True, sample_file_entry ''_tmp'' False, sample_file_entry ''x'' False]
       else if d = ''s3://lake/a/day=1'' \<or> d = ''s3://lake/a/day=3'' then Inr [sample_file_entry ''f'' False, sample_file_entry ''g'' False]
       else Inl (IOException ''no such directory'' [])),
     FsJoinPath = (\<lambda>a b. a @ ''/'' @ b)\<rparr>"

definition sample_repair :: GlueRepairTableBindData where
  "sample_repair = \<lparr>rb_target = \<lparr>tg_catalog = sample_catalog, tg_table = sample_bound\<lparr>t_partition_keys :=
       [\<lparr>col_name = ''day'', col_type = ''string'', col_comment = [], col_sort_order = UNSORTED\<rparr>]\<rparr>\<rparr>,
     rb_key_types = [VARCHAR], rb_root = ''s3://lake/a''\<rparr>"

lemma repair_listing_ends_witness:
  "list_files_below 3 sample_files [''s3://lake/a''] [] \<noteq> Inl OutOfFuel"
proof -
  let ?root = "[sample_file_entry ''day=1'' True, sample_file_entry ''day=3'' True, sample_file_entry ''_tmp'' False, sample_file_entry ''x'' False]"
  let ?day = "[sample_file_entry ''f'' False, sample_file_entry ''g'' False]"
  have root: "ListFiles sample_files ''s3://lake/a'' = Inr ?root"
    and day: "ListFiles sample_files ''s3://lake/a/day=1'' = Inr ?day" "ListFiles sample_files ''s3://lake/a/day=3'' = Inr ?day"
    by (simp_all add: sample_files_def)
  have flat: "map of_path (entries_below sample_files d ?day True) = []" for d
    by (simp add: entries_below_def sample_file_entry_def)
  have sub: "map of_path (entries_below sample_files ''s3://lake/a'' ?root True) = [''s3://lake/a/day=1'', ''s3://lake/a/day=3'']"
    by (simp add: entries_below_def sample_file_entry_def sample_files_def)
  have leaf: "directory_tree sample_files (map of_path (entries_below sample_files d ?day True)) 0 {}" for d
    unfolding flat by (rule directory_tree.none)
  note days = directory_tree.dir [OF day(1) leaf directory_tree.dir [OF day(2) leaf directory_tree.none]]
  from directory_tree.dir [OF root days [folded sub] directory_tree.none] have "\<exists>A. directory_tree sample_files [''s3://lake/a''] 3 A"
    by (simp add: numeral_eq_Suc) blast
  then show ?thesis using repair_listing_ends [of sample_files "''s3://lake/a''" 3 _ 3] by auto
qed

lemma repair_registers_directories_witness:
  "sample_registered (''db'', ''a'') (s_world (snd (glue_repair_table_apply 10 ascii_duckdb sample_glue Inr sample_files
     sample_repair (sample_session sample_days)))) = {[''1''], [''2''], [''3'']}"
proof -
  let ?m = "glue_repair_table_apply 10 ascii_duckdb sample_glue Inr sample_files sample_repair (sample_session sample_days)"
  let ?added = "[\<lparr>gpi_values = [''3''], gpi_location = ''s3://lake/a/day=3''\<rparr>]"
  have "fst ?m = Inr ?added" by code_simp
  then have m: "?m = (Inr ?added, snd ?m)" by (simp add: prod_eq_iff)
  have key: "(t_schema_name (tg_table (rb_target sample_repair)), t_name (tg_table (rb_target sample_repair))) = (''db'', ''a'')"
    by code_simp
  have "sample_registered (''db'', ''a'') (s_world (sample_session sample_days)) = {[''1''], [''2'']}" by code_simp
  with repair_registers_directories [OF sample_store.partition_store_axioms key m] show ?thesis by auto
qed

end
