(* ===== verification/Hive_Insert.thy ===== *)
theory Hive_Insert
  imports Partition_Functions Partition_Store
begin

text \<open>
  Writing to a Hive table, src/planning/glue_hive_insert.cpp: the expressions that give a row its partition directory
  and the text of its fields, the plan of the copy, and what happens when the copy is done: the directories it wrote
  are registered as partitions, or its files are deleted.
\<close>

subsection \<open>Expressions over the rows\<close>

text \<open>
  DuckDB's bound expressions, as far as the insert builds them. A \<open>Case\<close> has its checks and its ELSE, \<open>Named\<close> is an expression with an alias. The scalar
  functions are DuckDB's: their result types and what they give.
\<close>

datatype comparison = EQUAL | NOT_DISTINCT_FROM

datatype write_expr =
    Ref LogicalType nat
  | Const Value
  | CastAs LogicalType write_expr
  | Apply string "write_expr list"
  | Compare comparison write_expr write_expr
  | Named string write_expr
  | AnyOf "write_expr list"
  | AllOf "write_expr list"
  | Case LogicalType "(write_expr \<times> write_expr) list" write_expr

record scalar_functions =
  FunctionType :: "string \<Rightarrow> LogicalType"
  CallFunction :: "string \<Rightarrow> Value list \<Rightarrow> Value result"
  ValuesEqual :: "Value \<Rightarrow> Value \<Rightarrow> bool"

fun return_type :: "scalar_functions \<Rightarrow> write_expr \<Rightarrow> LogicalType" where
  "return_type F (Ref t i) = t"
| "return_type F (Const v) = value_type v"
| "return_type F (CastAs t e) = t"
| "return_type F (Apply f es) = FunctionType F f"
| "return_type F (Compare c a b) = BOOLEAN"
| "return_type F (Named n e) = return_type F e"
| "return_type F (AnyOf es) = BOOLEAN"
| "return_type F (AllOf es) = BOOLEAN"
| "return_type F (Case t checks e) = t"

definition cast_to :: "duckdb \<Rightarrow> scalar_functions \<Rightarrow> LogicalType \<Rightarrow> write_expr \<Rightarrow> write_expr" where
  "cast_to D F t e = (if TypeEq D (return_type F e) t then e else CastAs t e)"

text \<open>What an expression gives for a row.\<close>

definition is_true :: "Value \<Rightarrow> bool" where
  "is_true v \<longleftrightarrow> v = BoolV True"

definition not_distinct :: "scalar_functions \<Rightarrow> Value \<Rightarrow> Value \<Rightarrow> bool" where
  "not_distinct F v w \<longleftrightarrow> (if value_is_null v \<or> value_is_null w then value_is_null v \<and> value_is_null w else ValuesEqual F v w)"

definition compare :: "scalar_functions \<Rightarrow> comparison \<Rightarrow> Value \<Rightarrow> Value \<Rightarrow> Value" where
  "compare F c v w = (case c of
     NOT_DISTINCT_FROM \<Rightarrow> BoolV (not_distinct F v w)
   | EQUAL \<Rightarrow> if value_is_null v \<or> value_is_null w then NullV BOOLEAN else BoolV (ValuesEqual F v w))"

definition any_of :: "Value list \<Rightarrow> Value" where
  "any_of vs = (if list_ex is_true vs then BoolV True else if list_ex value_is_null vs then NullV BOOLEAN else BoolV False)"

definition all_of :: "Value list \<Rightarrow> Value" where
  "all_of vs = (if BoolV False \<in> set vs then BoolV False else if list_ex value_is_null vs then NullV BOOLEAN else BoolV True)"

definition cast_value :: "duckdb \<Rightarrow> LogicalType \<Rightarrow> Value \<Rightarrow> Value result" where
  "cast_value D t v = (case TryCastAs D t v of
     None \<Rightarrow> Inl (InvalidInputException ''Could not convert value'' [ValueToString D v, TypeToString D t])
   | Some w \<Rightarrow> Inr w)"

fun first_true :: "(Value result \<times> Value result) list \<Rightarrow> Value result \<Rightarrow> Value result" where
  "first_true [] otherwise = otherwise"
| "first_true ((c, v) # checks) otherwise =
     and_then c (\<lambda>b. if is_true b then v else first_true checks otherwise)"

fun evaluate :: "duckdb \<Rightarrow> scalar_functions \<Rightarrow> Value list \<Rightarrow> write_expr \<Rightarrow> Value result" where
  "evaluate D F row (Ref t i) = Inr (row ! i)"
| "evaluate D F row (Const v) = Inr v"
| "evaluate D F row (CastAs t e) = and_then (evaluate D F row e) (cast_value D t)"
| "evaluate D F row (Apply f es) = and_then (collect (evaluate D F row) es) (CallFunction F f)"
| "evaluate D F row (Compare c a b) =
     and_then (evaluate D F row a) (\<lambda>v. and_then (evaluate D F row b) (\<lambda>w. Inr (compare F c v w)))"
| "evaluate D F row (Named n e) = evaluate D F row e"
| "evaluate D F row (AnyOf es) = and_then (collect (evaluate D F row) es) (\<lambda>vs. Inr (any_of vs))"
| "evaluate D F row (AllOf es) = and_then (collect (evaluate D F row) es) (\<lambda>vs. Inr (all_of vs))"
| "evaluate D F row (Case t checks e) =
     first_true (map (\<lambda>(c, v). (evaluate D F row c, evaluate D F row v)) checks) (evaluate D F row e)"

subsection \<open>The text of a field\<close>

definition octal_digit :: "nat \<Rightarrow> char" where
  "octal_digit n = char_of (48 + n mod 8)"

definition hex_digit :: "nat \<Rightarrow> char" where
  "hex_digit n = (if n < 10 then char_of (48 + n) else char_of (55 + n))"

definition delimiter_to_string :: "string \<Rightarrow> string" where
  "delimiter_to_string delim = concat (map (\<lambda>c. let byte = (of_char c :: nat) in
     if byte < 32 then CHR 0x5C # map octal_digit [byte div 64, byte div 8, byte] else [c]) delim)"

definition raise_error :: "duckdb \<Rightarrow> scalar_functions \<Rightarrow> string \<Rightarrow> LogicalType \<Rightarrow> write_expr" where
  "raise_error D F message t = cast_to D F t (Apply ''error'' [Const (StringV message)])"

text \<open>The regular expression of the forbidden characters, each by its code.\<close>

definition hex_escape :: "char \<Rightarrow> string" where
  "hex_escape c = [CHR 0x5C] @ ''x{'' @ [hex_digit (of_char c div 16), hex_digit (of_char c mod 16)] @ ''}''"

definition character_class :: "string \<Rightarrow> string" where
  "character_class forbidden = ''['' @ concat (map hex_escape forbidden) @ '']''"

definition checked_text_field ::
  "duckdb \<Rightarrow> scalar_functions \<Rightarrow> write_expr \<Rightarrow> string \<Rightarrow> string option \<Rightarrow> string \<Rightarrow> write_expr" where
  "checked_text_field D F v forbidden null_str message =
     (let text' = cast_to D F VARCHAR v;
          matched = Apply ''regexp_matches'' [text', Const (StringV (character_class forbidden))];
          refused = (case null_str of None \<Rightarrow> matched
            | Some n \<Rightarrow> AnyOf [matched, Compare EQUAL text' (Const (StringV n))])
      in Case VARCHAR [(refused, raise_error D F message VARCHAR)] text')"

definition epoch_field :: "duckdb \<Rightarrow> scalar_functions \<Rightarrow> write_expr \<Rightarrow> string \<Rightarrow> write_expr" where
  "epoch_field D F v message =
     (let number = (if TypeEq D (return_type F v) DATE then Apply ''-'' [v, Const (OtherV DATE ''1970-01-01'')]
            else Apply ''epoch_ms'' [Apply ''date_trunc'' [Const (StringV ''millisecond''), v]]);
          t = return_type F number
      in Case t [(Apply ''isinf'' [v], raise_error D F message t)] number)"

definition escaped_text_field :: "write_expr \<Rightarrow> string \<Rightarrow> string \<Rightarrow> write_expr" where
  "escaped_text_field text' esc delim =
     fold (\<lambda>special e. Apply ''replace'' [e, Const (StringV special), Const (StringV (esc @ special))])
       ([esc] @ (if delim = [] then [] else [delim])) text'"

subsection \<open>The directory of a row\<close>

text \<open>The path relative to the table location, and \<open>writable\<close>.\<close>

definition relative_partition_path :: "duckdb \<Rightarrow> string \<Rightarrow> string \<Rightarrow> string \<times> bool" where
  "relative_partition_path D table_location partition_location =
     (let pre = comparable_location D table_location @ ''/''; location = comparable_location D partition_location in
      if \<not> StartsWith D location pre then ([], True)
      else
        let parts = Split D (drop (length pre) location) CHR ''/'' in
        (Join D (filter (\<lambda>c. c \<noteq> [] \<and> c \<noteq> ''.'') parts) ''/'', list_all (\<lambda>c. c \<noteq> [] \<and> c \<noteq> ''.'') parts))"

definition error_expression :: "duckdb \<Rightarrow> scalar_functions \<Rightarrow> string \<Rightarrow> string list \<Rightarrow> write_expr" where
  "error_expression D F message values' = cast_to D F VARCHAR (Apply ''error'' [Const (StringV (Join D (message # values') '' ''))])"

text \<open>\<open>AddNullValueChecks\<close>: the check of one key, none for a type whose values never read back as NULL.\<close>

definition null_value_check ::
  "duckdb \<Rightarrow> scalar_functions \<Rightarrow> GlueTableInfo \<Rightarrow> string \<Rightarrow> LogicalType \<Rightarrow> nat \<Rightarrow> (write_expr \<times> write_expr) list" where
  "null_value_check D F t name ty i =
     (let text' = cast_to D F VARCHAR (Ref ty i);
          equals = (\<lambda>left right. Compare EQUAL left (Const (StringV right)));
          is_default = equals text' (DEFAULT_PARTITION_NAME D)
      in
      if type_id ty \<noteq> ID_VARCHAR \<and> type_id ty \<noteq> ID_BLOB then []
      else [(if type_id ty = ID_VARCHAR then is_default
             else AnyOf [is_default, equals (Apply ''lower'' [text']) ''null'', equals text' []],
             error_expression D F ''partition key has a value that Hive reads back as NULL''
               [t_schema_name t, t_name t, name])])"

definition add_null_value_checks ::
  "duckdb \<Rightarrow> scalar_functions \<Rightarrow> GlueTableInfo \<Rightarrow> string list \<Rightarrow> LogicalType list \<Rightarrow> nat list
     \<Rightarrow> (write_expr \<times> write_expr) list" where
  "add_null_value_checks D F t names types pcols =
     concat (map (\<lambda>i. null_value_check D F t (names ! (pcols ! i)) (types ! (pcols ! i)) i)
       [0 ..< length pcols])"

definition finish_partition_path :: "(write_expr \<times> write_expr) list \<Rightarrow> write_expr \<Rightarrow> write_expr" where
  "finish_partition_path checks hive_path = (if checks = [] then hive_path else Case VARCHAR checks hive_path)"

definition hive_path_expression :: "string list \<Rightarrow> LogicalType list \<Rightarrow> nat list \<Rightarrow> write_expr" where
  "hive_path_expression names types pcols =
     Apply ''path_join'' (map (\<lambda>i. Apply ''hive_partition_component''
         [Const (StringV (names ! (pcols ! i))), Ref (types ! (pcols ! i)) i])
       [0 ..< length pcols])"

text \<open>What the plan knows of the registered partitions, growing partition by partition.\<close>

record path_plan =
  pp_checks :: "(write_expr \<times> write_expr) list"
  pp_custom_directories :: "(string \<times> string list) list"
  pp_planned_locations :: "(string list \<times> string) list"
  pp_partition_directories :: "(string \<times> string list) list"

definition typed_partition_values ::
  "duckdb \<Rightarrow> GlueTableInfo \<Rightarrow> LogicalType list \<Rightarrow> nat list \<Rightarrow> GluePartitionInfo \<Rightarrow> Value list result" where
  "typed_partition_values D t types pcols p =
     collect (\<lambda>i. partition_value D (col_name (t_partition_keys t ! i)) (p_values p ! i) (types ! (pcols ! i)))
       [0 ..< length pcols]"

definition canonical_values :: "duckdb \<Rightarrow> Value list \<Rightarrow> string list" where
  "canonical_values D vs = map (\<lambda>v. if value_is_null v then DEFAULT_PARTITION_NAME D else ValueToString D v) vs"

definition partition_condition :: "LogicalType list \<Rightarrow> nat list \<Rightarrow> Value list \<Rightarrow> write_expr" where
  "partition_condition types pcols vs =
     (let conditions = map (\<lambda>i. Compare NOT_DISTINCT_FROM (Ref (types ! (pcols ! i)) i) (Const (vs ! i))) [0 ..< length pcols]
      in if length conditions = 1 then hd conditions else AllOf conditions)"

text \<open>Whether the rows of a partition go where its values say, so that it needs no check of its own.\<close>

definition in_place ::
  "duckdb \<Rightarrow> GlueTableInfo \<Rightarrow> string \<Rightarrow> string list \<Rightarrow> bool \<Rightarrow> GluePartitionInfo \<Rightarrow> Value list \<Rightarrow> bool" where
  "in_place D t location keys by_position p vs \<longleftrightarrow>
     find_column_type_mismatch D p (t_columns t) by_position = None \<and>
     fst (relative_partition_path D location (p_location p)) = join (hive_partition_directory D keys (canonical_values D vs)) ''/'' \<and>
     snd (relative_partition_path D location (p_location p)) \<and>
     p_values p = canonical_values D vs"

definition partition_then ::
  "duckdb \<Rightarrow> scalar_functions \<Rightarrow> GlueTableInfo \<Rightarrow> string \<Rightarrow> bool \<Rightarrow> GluePartitionInfo \<Rightarrow> write_expr" where
  "partition_then D F t location by_position p =
     (case find_column_type_mismatch D p (t_columns t) by_position of
        Some k \<Rightarrow> error_expression D F ''partition declares a column as another type than the table''
                    [t_schema_name t, t_name t, partition_values_to_string D (p_values p), col_name (t_columns t ! k)]
      | None \<Rightarrow>
          if \<not> snd (relative_partition_path D location (p_location p))
          then error_expression D F ''partition is registered at a path with an empty or . segment''
                 [t_schema_name t, t_name t, partition_values_to_string D (p_values p), p_location p]
          else if fst (relative_partition_path D location (p_location p)) = [] then Const (StringV (p_location p))
          else Const (StringV (fst (relative_partition_path D location (p_location p)))))"

definition writes_elsewhere :: "duckdb \<Rightarrow> GlueTableInfo \<Rightarrow> string \<Rightarrow> bool \<Rightarrow> GluePartitionInfo \<Rightarrow> bool" where
  "writes_elsewhere D t location by_position p \<longleftrightarrow>
     find_column_type_mismatch D p (t_columns t) by_position = None \<and>
     snd (relative_partition_path D location (p_location p)) \<and>
     fst (relative_partition_path D location (p_location p)) \<noteq> []"

definition plan_partition ::
  "duckdb \<Rightarrow> scalar_functions \<Rightarrow> GlueTableInfo \<Rightarrow> string \<Rightarrow> string list \<Rightarrow> LogicalType list \<Rightarrow> nat list \<Rightarrow> bool
     \<Rightarrow> GluePartitionInfo \<Rightarrow> path_plan \<Rightarrow> path_plan result" where
  "plan_partition D F t location names types pcols by_position p plan =
     (let keys = map ((!) names) pcols;
          plan1 = plan\<lparr>pp_planned_locations := emplace (p_values p) (p_location p) (pp_planned_locations plan)\<rparr>;
          relative = fst (relative_partition_path D location (p_location p)) in
      if length (p_values p) \<noteq> length pcols
      then Inl (InvalidInputException ''Partition of Hive table has another number of values than the table has partition keys''
             [partition_values_to_string D (p_values p), t_name t])
      else
        and_then (typed_partition_values D t types pcols p) (\<lambda>vs.
          if in_place D t location keys by_position p vs then Inr plan1
          else
            let plan2 = plan1\<lparr>pp_checks := pp_checks plan1 @
                  [(partition_condition types pcols vs, partition_then D F t location by_position p)]\<rparr> in
            Inr (if writes_elsewhere D t location by_position p
                 then plan2\<lparr>pp_partition_directories :=
                          emplace (location @ ''/'' @ relative) (p_values p) (pp_partition_directories plan2),
                        pp_custom_directories := pp_custom_directories plan2 @ [(relative, p_values p)]\<rparr>
                 else plan2)))"

fun plan_partitions ::
  "duckdb \<Rightarrow> scalar_functions \<Rightarrow> GlueTableInfo \<Rightarrow> string \<Rightarrow> string list \<Rightarrow> LogicalType list \<Rightarrow> nat list \<Rightarrow> bool
     \<Rightarrow> GluePartitionInfo list \<Rightarrow> path_plan \<Rightarrow> path_plan result" where
  "plan_partitions D F t location names types pcols by_position [] plan = Inr plan"
| "plan_partitions D F t location names types pcols by_position (p # ps) plan =
     and_then (plan_partition D F t location names types pcols by_position p plan)
       (plan_partitions D F t location names types pcols by_position ps)"

definition custom_check :: "duckdb \<Rightarrow> scalar_functions \<Rightarrow> GlueTableInfo \<Rightarrow> write_expr \<Rightarrow> string \<times> string list \<Rightarrow> write_expr \<times> write_expr" where
  "custom_check D F t hive_path custom =
     (Compare EQUAL hive_path (Const (StringV (fst custom))),
      error_expression D F ''rows would be written to the location of another partition and read back as that partition''
        [t_schema_name t, t_name t, fst custom, partition_values_to_string D (snd custom)])"

text \<open>
  \<open>CreatePartitionPath\<close>: the expression with the planned locations and the partition directories. \<open>existing\<close> is
  false for a CREATE TABLE AS.
\<close>

definition create_partition_path ::
  "nat \<Rightarrow> duckdb \<Rightarrow> 'w service \<Rightarrow> scalar_functions \<Rightarrow> glue_catalog \<Rightarrow> bool \<Rightarrow> GlueTableInfo \<Rightarrow> string \<Rightarrow> string list
     \<Rightarrow> LogicalType list \<Rightarrow> nat list
     \<Rightarrow> ('w, write_expr \<times> (string list \<times> string) list \<times> (string \<times> string list) list) op" where
  "create_partition_path fuel D S F cat existing t location names types pcols =
     (let hive_path = hive_path_expression names types pcols;
          null_checks = add_null_value_checks D F t names types pcols in
      if \<not> existing then return_op (finish_partition_path null_checks hive_path, [], [])
      else
        bind_op (get_partitions fuel D cat S (t_schema_name t) (t_name t)) (\<lambda>ps.
        bind_op (lift_op (get_file_format D t)) (\<lambda>format.
        bind_op (lift_op (plan_partitions D F t location names types pcols (format = CSV) ps
            \<lparr>pp_checks = null_checks, pp_custom_directories = [], pp_planned_locations = [], pp_partition_directories = []\<rparr>))
          (\<lambda>plan. return_op (finish_partition_path
               (pp_checks plan @ map (custom_check D F t hive_path) (pp_custom_directories plan)) hive_path,
             pp_planned_locations plan, pp_partition_directories plan)))))"

subsection \<open>The plan of the copy\<close>

definition parquet_codec_extension :: "string \<Rightarrow> string" where
  "parquet_codec_extension codec =
     (if codec = [] \<or> codec = ''snappy'' then ''snappy.''
      else if codec = ''gzip'' then ''gz.''
      else if codec = ''zstd'' then ''zstd.''
      else if codec = ''brotli'' then ''br.''
      else if codec = ''lz4'' \<or> codec = ''lz4_raw'' then ''lz4raw.''
      else [])"

text \<open>
  DuckDB's extensions and copy functions: loading an extension, whether a copy function exists, and what its bind
  makes of the options, names and types of a COPY.
\<close>

record copy_functions =
  AutoLoadExtension :: "string \<Rightarrow> unit result"
  HasCopyFunction :: "string \<Rightarrow> bool"
  CopyToBind :: "string \<Rightarrow> (string \<times> Value list) list \<Rightarrow> string list \<Rightarrow> LogicalType list \<Rightarrow> unit result"

text \<open>
  What the copy is to write: the projection between the rows and the copy (\<open>None\<close> for none), the columns, the copy
  function with its options and the positions of the partition columns.
\<close>

record copy_source =
  cs_projection :: "write_expr list option"
  cs_names :: "string list"
  cs_types :: "LogicalType list"
  cs_format :: string
  cs_options :: "(string \<times> Value list) list"
  cs_partition_columns :: "nat list"

record copy_plan = copy_source +
  cp_location :: string
  cp_file_extension :: string
  cp_partition_path :: "write_expr option"
  cp_write_empty_file :: bool
  cp_per_thread_output :: bool
  cp_planned_locations :: "(string list \<times> string) list"
  cp_partition_directories :: "(string \<times> string list) list"

definition partition_positions :: "duckdb \<Rightarrow> GlueTableInfo \<Rightarrow> string list \<Rightarrow> nat list result" where
  "partition_positions D t names = collect (\<lambda>key. case find_index (\<lambda>n. CIEquals D n (col_name key)) names of
       None \<Rightarrow> Inl (InternalException ''Partition key not found in the rows to insert'' [col_name key, t_name t])
     | Some i \<Rightarrow> Inr i) (t_partition_keys t)"

text \<open>A column of a text file: refused, escaped and converted as the table's SerDe asks for.\<close>

definition text_column ::
  "duckdb \<Rightarrow> scalar_functions \<Rightarrow> HiveCSVOptions \<Rightarrow> bool \<Rightarrow> string \<Rightarrow> string \<Rightarrow> string \<Rightarrow> string
     \<Rightarrow> LogicalType \<Rightarrow> nat \<Rightarrow> write_expr" where
  "text_column D F csv_options quoted esc delim null_str message ty i =
     (let forbidden = (if quoted \<or> esc \<noteq> [] then [CHR 0x0A, CHR 0x0D] else [CHR 0x0A, CHR 0x0D] @ delim);
          conversion = field_conversion D csv_options ty;
          column = (if conversion = EPOCH \<or> conversion = TRY_EPOCH
            then epoch_field D F (Ref ty i) (message @ '' is infinite'') else Ref ty i);
          checked = checked_text_field D F column forbidden (if quoted then None else Some null_str) message
      in if esc \<noteq> [] then escaped_text_field checked esc delim
         else if field_escape csv_options \<noteq> [] then escaped_text_field checked (field_escape csv_options) []
         else checked)"

definition refuse_write :: "GlueTableInfo \<Rightarrow> string \<Rightarrow> 'a result" where
  "refuse_write t reason = Inl (NotImplementedException ''Writing to Hive table is not supported'' [t_schema_name t, t_name t, reason])"

definition write_failed :: "duckdb \<Rightarrow> GlueTableInfo \<Rightarrow> string \<Rightarrow> string \<Rightarrow> string" where
  "write_failed D t name reason =
     Join D [''Writing to Hive table failed: a value of a column'', t_schema_name t, t_name t, name, reason] '' ''"

definition csv_reason :: "bool \<Rightarrow> string \<Rightarrow> string \<Rightarrow> string \<Rightarrow> string" where
  "csv_reason quoted esc delim null_str =
     (if quoted then ''holds a line break''
      else if esc \<noteq> [] then ''holds a line break or is the NULL string '' @ null_str
      else ''holds the field delimiter '' @ delimiter_to_string delim @ '' or a line break, or is the NULL string '' @ null_str)"

definition csv_source ::
  "duckdb \<Rightarrow> scalar_functions \<Rightarrow> GlueTableInfo \<Rightarrow> string list \<Rightarrow> LogicalType list \<Rightarrow> nat list
     \<Rightarrow> (string \<times> Value list) list \<Rightarrow> copy_source result" where
  "csv_source D F t names types pcols options =
     and_then (get_header_line_count D t) (\<lambda>header_lines.
     if header_lines > 1 then refuse_write t ''DuckDB writes at most one header line''
     else
       and_then (get_field_delimiter D t) (\<lambda>delim.
       and_then (get_serde D t) (\<lambda>serde.
       and_then (get_null_format D t) (\<lambda>null_str.
       if length delim > 1 then refuse_write t ''DuckDB writes single-byte field delimiters only''
       else
         and_then (get_quote_character D t) (\<lambda>quot.
         and_then (get_escape_character D t) (\<lambda>esc0.
         and_then (get_csv_options D t) (\<lambda>csv_options.
           let quoted = (serde = OPEN_CSV);
               esc = (if quoted then [] else esc0);
               column = (\<lambda>i. if i \<in> set pcols then Ref (types ! i) i
                 else text_column D F csv_options quoted esc delim null_str
                        (write_failed D t (names ! i) (csv_reason quoted esc delim null_str)) (types ! i) i)
           in Inr \<lparr>cs_projection = Some (map column [0 ..< length names]), cs_names = names,
                cs_types = map (\<lambda>i. if i \<in> set pcols then types ! i else VARCHAR) [0 ..< length names],
                cs_format = ''csv'',
                cs_options = options @ [(''header'', [BoolV (header_lines = 1)]), (''delimiter'', [StringV delim]),
                  (''quote'', [StringV quot]), (''escape'', [StringV (if quoted then esc0 else [])]),
                  (''nullstr'', [StringV null_str])] @ (if quoted then [(''force_quote'', [StringV ''*''])] else []),
                cs_partition_columns = pcols\<rparr>)))))))"

definition json_source ::
  "scalar_functions \<Rightarrow> string list \<Rightarrow> LogicalType list \<Rightarrow> nat list \<Rightarrow> (string \<times> Value list) list \<Rightarrow> copy_source" where
  "json_source F names types pcols options =
     (let fields = map (\<lambda>i. Named (names ! i) (Ref (types ! i) i)) (filter (\<lambda>i. i \<notin> set pcols) [0 ..< length names]) in
      \<lparr>cs_projection = Some (Apply ''to_json'' [Apply ''struct_pack'' fields] # map (\<lambda>i. Ref (types ! i) i) pcols),
       cs_names = ''json'' # map ((!) names) pcols, cs_types = FunctionType F ''to_json'' # map ((!) types) pcols,
       cs_format = ''csv'',
       cs_options = options @ [(''quote'', [StringV []]), (''escape'', [StringV []]), (''delimiter'', [StringV [CHR 0x0A]]),
         (''header'', [BoolV False])],
       cs_partition_columns = map Suc [0 ..< length pcols]\<rparr>)"

definition copy_source_of ::
  "duckdb \<Rightarrow> scalar_functions \<Rightarrow> copy_functions \<Rightarrow> GlueTableInfo \<Rightarrow> HiveFileFormat \<Rightarrow> string \<Rightarrow> string list
     \<Rightarrow> LogicalType list \<Rightarrow> nat list \<Rightarrow> copy_source result" where
  "copy_source_of D F C t fmt codec names types pcols =
     (let options = (if codec = [] then [] else [(if fmt = AVRO then ''codec'' else ''compression'', [StringV codec])]);
          plain = (\<lambda>options. \<lparr>cs_projection = None, cs_names = names, cs_types = types,
            cs_format = hive_file_format_to_string fmt, cs_options = options, cs_partition_columns = pcols\<rparr>) in
      case fmt of
        PARQUET \<Rightarrow>
          let level = get_compression_level D t in
          Inr (plain (options @ (if codec = ''zstd'' \<and> level \<noteq> [] then [(''compression_level'', [StringV level])] else [])))
      | AVRO \<Rightarrow> and_then (AutoLoadExtension C ''avro'') (\<lambda>_. Inr (plain options))
      | CSV \<Rightarrow> csv_source D F t names types pcols options
      | JSON \<Rightarrow> and_then (AutoLoadExtension C ''json'') (\<lambda>_. Inr (json_source F names types pcols options)))"

text \<open>\<open>GetNamesWithoutPartitions\<close> and \<open>GetTypesWithoutPartitions\<close>.\<close>

definition without_partitions :: "nat list \<Rightarrow> 'a list \<Rightarrow> 'a list" where
  "without_partitions pcols xs = map ((!) xs) (filter (\<lambda>i. i \<notin> set pcols) [0 ..< length xs])"

definition plan_source ::
  "duckdb \<Rightarrow> scalar_functions \<Rightarrow> copy_functions \<Rightarrow> bool \<Rightarrow> GlueTableInfo \<Rightarrow> string list \<Rightarrow> LogicalType list
     \<Rightarrow> (copy_source \<times> string) result" where
  "plan_source D F C creating t names types =
     and_then (partition_positions D t names) (\<lambda>pcols.
     and_then (if creating then Inr (t_file_format t) else get_file_format D t) (\<lambda>fmt.
     and_then (if is_text_file_format fmt then check_text_serde_supported D t fmt else Inr ()) (\<lambda>_.
     and_then (get_codec D t fmt) (\<lambda>codec.
     and_then (copy_source_of D F C t fmt codec names types pcols) (\<lambda>source.
       if \<not> HasCopyFunction C (cs_format source)
       then Inl (MissingExtensionException ''Writing to Hive table requires the copy function'' [t_name t, cs_format source])
       else
         and_then (CopyToBind C (cs_format source) (cs_options source)
             (without_partitions (cs_partition_columns source) (cs_names source))
             (without_partitions (cs_partition_columns source) (cs_types source))) (\<lambda>_.
           Inr (source, (if fmt = PARQUET then parquet_codec_extension codec else []) @
             hive_file_format_to_string fmt)))))))"

definition plan_write ::
  "nat \<Rightarrow> duckdb \<Rightarrow> 'w service \<Rightarrow> scalar_functions \<Rightarrow> copy_functions \<Rightarrow> glue_catalog \<Rightarrow> bool \<Rightarrow> GlueTableInfo
     \<Rightarrow> string list \<Rightarrow> LogicalType list \<Rightarrow> ('w, copy_plan) op" where
  "plan_write fuel D S F C cat creating t names types =
     (let location = RTrimChars D (t_location t) ''/'' in
      bind_op (lift_op (plan_source D F C creating t names types)) (\<lambda>(source, extension).
        let pcols = cs_partition_columns source;
            plan = copy_source.extend source \<lparr>cp_location = location, cp_file_extension = extension, cp_partition_path = None,
              cp_write_empty_file = True, cp_per_thread_output = True, cp_planned_locations = [],
              cp_partition_directories = []\<rparr> in
        if pcols = [] then return_op plan
        else
          bind_op (create_partition_path fuel D S F cat (\<not> creating) t location (cs_names source) (cs_types source) pcols)
            (\<lambda>(path, planned, directories). return_op (plan\<lparr>cp_partition_path := Some path,
               cp_per_thread_output := False, cp_planned_locations := planned, cp_partition_directories := directories\<rparr>))))"

subsection \<open>When the copy is done\<close>

record GlueHiveInsert =
  hi_catalog :: glue_catalog
  hi_table_info :: GlueTableInfo
  hi_planned_locations :: "(string list \<times> string) list"
  hi_partition_directories :: "(string \<times> string list) list"

record insert_state =
  is_insert_count :: nat
  is_written_files :: "string list"

text \<open>A row of the copy's result: the rows written and the files, \<open>None\<close> for a NULL.\<close>

definition sink_row :: "nat \<times> string list option \<Rightarrow> insert_state \<Rightarrow> insert_state" where
  "sink_row row st = st\<lparr>is_insert_count := is_insert_count st + fst row,
     is_written_files := is_written_files st @ opt_list (snd row)\<rparr>"

definition hive_insert_sink :: "(nat \<times> string list option) list \<Rightarrow> insert_state \<Rightarrow> insert_state" where
  "hive_insert_sink chunk st = fold sink_row chunk st"

definition check_registered_at :: "duckdb \<Rightarrow> GluePartitionInput \<Rightarrow> string \<Rightarrow> unit result" where
  "check_registered_at D p registered =
     (if comparable_location D registered \<noteq> comparable_location D (gpi_location p)
      then Inl (IOException ''rows of a partition were written to a directory, but the partition is registered elsewhere''
             [partition_values_to_string D (gpi_values p), gpi_location p, registered])
      else Inr ())"

definition check_found_location :: "duckdb \<Rightarrow> (string list \<times> string) list \<Rightarrow> GluePartitionInput \<Rightarrow> unit result" where
  "check_found_location D locations p = (case map_of locations (gpi_values p) of
     None \<Rightarrow> Inl (IOException ''partition existed when its files were registered, but no longer does''
               [partition_values_to_string D (gpi_values p)])
   | Some registered \<Rightarrow> check_registered_at D p registered)"

definition check_existing_partition_locations ::
  "nat \<Rightarrow> duckdb \<Rightarrow> 'w service \<Rightarrow> GlueHiveInsert \<Rightarrow> GluePartitionInput list \<Rightarrow> ('w, unit) op" where
  "check_existing_partition_locations fuel D S ins already_existing =
     (let planned = (\<lambda>p. map_of (hi_planned_locations ins) (gpi_values p));
          unplanned = filter (\<lambda>p. planned p = None) already_existing; t = hi_table_info ins in
      bind_op (lift_op (check_each (\<lambda>p. case planned p of None \<Rightarrow> Inr () | Some l \<Rightarrow> check_registered_at D p l)
          already_existing)) (\<lambda>_.
      if unplanned = [] then return_op ()
      else
        bind_op (partition_locations fuel D (hi_catalog ins) S (t_schema_name t) (t_name t) (map gpi_values unplanned))
          (\<lambda>locations. lift_op (check_each (check_found_location D locations) unplanned))))"

text \<open>The directory a file was written to: \<open>file.substr(0, file.find_last_of('/'))\<close>.\<close>

definition written_directory :: "string \<Rightarrow> string" where
  "written_directory path =
     (if CHR ''/'' \<in> set path then take (length path - length (after_last CHR ''/'' path) - 1) path else path)"

text \<open>The value in the directory component of a key.\<close>

definition component_value ::
  "duckdb \<Rightarrow> (string \<Rightarrow> string result) \<Rightarrow> string \<Rightarrow> string \<times> string \<Rightarrow> string result" where
  "component_value D unescape path x = (case x of (key, component) \<Rightarrow>
     let no_value = Inl (InternalException ''Written file has no value for partition key'' [path, key]) in
     case find_char CHR ''='' component of
       None \<Rightarrow> no_value
     | Some equals \<Rightarrow> and_then (unescape (take equals component)) (\<lambda>name.
         if \<not> CIEquals D name key then no_value else unescape (drop (equals + 1) component)))"

definition written_partition ::
  "duckdb \<Rightarrow> (string \<Rightarrow> string result) \<Rightarrow> GlueHiveInsert \<Rightarrow> string \<Rightarrow> GluePartitionInput result" where
  "written_partition D unescape ins path =
     (let directory = written_directory path; keys = key_names (hi_table_info ins) in
      case map_of (hi_partition_directories ins) directory of
        Some vs \<Rightarrow> Inr \<lparr>gpi_values = vs, gpi_location = directory\<rparr>
      | None \<Rightarrow>
          let parts = Split D directory CHR ''/'' in
          if length parts < length keys
          then Inl (InternalException ''Written file has no directory for each partition key'' [path])
          else and_then (collect (component_value D unescape path) (zip keys (drop (length parts - length keys) parts)))
                 (\<lambda>vs. Inr \<lparr>gpi_values = vs, gpi_location = directory\<rparr>))"

text \<open>The partitions of the files, by their directories.\<close>

fun written_partitions ::
  "duckdb \<Rightarrow> (string \<Rightarrow> string result) \<Rightarrow> GlueHiveInsert \<Rightarrow> string list \<Rightarrow> (string \<times> GluePartitionInput) list
     \<Rightarrow> (string \<times> GluePartitionInput) list result" where
  "written_partitions D unescape ins [] partitions = Inr partitions"
| "written_partitions D unescape ins (path # paths) partitions =
     (if map_of partitions (written_directory path) \<noteq> None then written_partitions D unescape ins paths partitions
      else and_then (written_partition D unescape ins path) (\<lambda>p.
             written_partitions D unescape ins paths (partitions @ [(written_directory path, p)])))"

text \<open>The registration within the \<open>try\<close> block.\<close>

definition register_written ::
  "nat \<Rightarrow> duckdb \<Rightarrow> 'w service \<Rightarrow> GlueHiveInsert \<Rightarrow> GluePartitionInput list \<Rightarrow> ('w, unit) op" where
  "register_written fuel D S ins to_register =
     (let t = hi_table_info ins; cat = hi_catalog ins in
      bind_op (if t_fetched t = None
               then bind_op (get_table D cat S (t_schema_name t) (t_name t)) (\<lambda>created. case created of
                      None \<Rightarrow> throw_op (CatalogException ''Table was created but could not be fetched afterwards''
                                [t_schema_name t, t_name t])
                    | Some c \<Rightarrow> return_op c)
               else return_op t) (\<lambda>registered.
      bind_op (batch_create_partitions D cat S registered to_register) (\<lambda>already_existing.
        check_existing_partition_locations fuel D S ins already_existing)))"

text \<open>\<open>try m catch (e) handler\<close>: the state is the one the exception left.\<close>

definition catch_op :: "('w, 'a) op \<Rightarrow> (exn \<Rightarrow> ('w, 'a) op) \<Rightarrow> ('w, 'a) op" where
  "catch_op m handler s = (case m s of (Inl e, s') \<Rightarrow> handler e s' | (Inr x, s') \<Rightarrow> (Inr x, s'))"

text \<open>\<open>FileSystem::RemoveFiles\<close> is \<open>remove\<close>.\<close>

definition roll_back_insert ::
  "(string list \<Rightarrow> 'w \<Rightarrow> unit result \<times> 'w) \<Rightarrow> GlueHiveInsert \<Rightarrow> string list \<Rightarrow> exn \<Rightarrow> ('w, unit) op" where
  "roll_back_insert remove ins written_files e =
     (let t = hi_table_info ins in
      bind_op (catch_op (bind_op (call_op (remove written_files)) lift_op)
          (\<lambda>remove_e. throw_op (IOException ''INSERT into Hive table failed. Deleting the files it wrote failed too''
             [t_schema_name t, t_name t])))
        (\<lambda>_. throw_op (IOException ''INSERT into Hive table was rolled back'' [t_schema_name t, t_name t])))"

definition hive_insert_finalize ::
  "nat \<Rightarrow> duckdb \<Rightarrow> 'w service \<Rightarrow> (string \<Rightarrow> string result) \<Rightarrow> (string list \<Rightarrow> 'w \<Rightarrow> unit result \<times> 'w)
     \<Rightarrow> GlueHiveInsert \<Rightarrow> insert_state \<Rightarrow> ('w, unit) op" where
  "hive_insert_finalize fuel D S unescape remove ins st s =
     (let s1 = (if is_written_files st \<noteq> [] then invalidate D (hi_catalog ins) s else s) in
      if t_partition_keys (hi_table_info ins) = [] \<or> is_written_files st = [] then (Inr (), s1)
      else
        bind_op (lift_op (written_partitions D unescape ins (is_written_files st) [])) (\<lambda>partitions.
          catch_op (register_written fuel D S ins (map snd partitions))
            (roll_back_insert remove ins (is_written_files st))) s1)"

end
