(* ===== verification/Insert_Text.thy ===== *)
theory Insert_Text
  imports Hive_Insert
begin

text \<open>
  What the expressions of Hive_Insert give: the documented behaviour of DuckDB's scalar functions as the locale
  \<open>sql_functions\<close>, and that the lines written to a LazySimpleSerDe table read back as the rows.
\<close>

subsection \<open>The scalar functions\<close>

definition is_text :: "Value \<Rightarrow> string option \<Rightarrow> bool" where
  "is_text v u \<longleftrightarrow> (case u of None \<Rightarrow> value_is_null v | Some s \<Rightarrow> v = StringV s)"

definition replaced :: "char \<Rightarrow> string \<Rightarrow> string \<Rightarrow> string" where
  "replaced c r s = concat (map (\<lambda>x. if x = c then r else [x]) s)"

locale sql_functions =
  fixes D :: duckdb and F :: scalar_functions
  assumes error: "isl (CallFunction F ''error'' vs)"
    and lower: "CallFunction F ''lower'' [StringV s] = Inr (StringV (Lower D s))"
    and matches: "CallFunction F ''regexp_matches'' [StringV s, StringV (character_class cs)]
      = Inr (BoolV (\<exists>c\<in>set cs. c \<in> set s))"
    and matches_null: "value_is_null v \<Longrightarrow> \<exists>w. CallFunction F ''regexp_matches'' [v, p] = Inr w \<and> value_is_null w"
    and replace: "CallFunction F ''replace'' [StringV s, StringV [c], StringV r] = Inr (StringV (replaced c r s))"
    and replace_null: "value_is_null v \<Longrightarrow> \<exists>w. CallFunction F ''replace'' [v, p, q] = Inr w \<and> value_is_null w"
    and equal: "ValuesEqual F (StringV a) (StringV b) \<longleftrightarrow> a = b"
begin

lemma cast_fails: "isl (evaluate D F row e) \<Longrightarrow> isl (evaluate D F row (cast_to D F t e))"
  by (cases "evaluate D F row e") (auto simp: cast_to_def)

lemma error_fails:
  "isl (evaluate D F row (raise_error D F message t))" "isl (evaluate D F row (error_expression D F what vs))"
  using cast_fails error by (auto simp: raise_error_def error_expression_def)

lemma null_not_true: "value_is_null v \<Longrightarrow> \<not> is_true v"
  by (auto simp: is_true_def)

text \<open>A field that passes its check is its text, which holds no forbidden character and is not the NULL string.\<close>

lemma checked_field:
  assumes "evaluate D F row (cast_to D F VARCHAR e) = Inr v" "is_text v u"
    and "evaluate D F row (checked_text_field D F e forbidden null_str message) = Inr w"
  shows "w = v \<and> (\<forall>s. u = Some s \<longrightarrow> set s \<inter> set forbidden = {} \<and> null_str \<noteq> Some s)"
proof (cases u)
  case None
  with assms(2) have null: "value_is_null v" by (simp add: is_text_def)
  from matches_null [OF null] obtain m where m: "CallFunction F ''regexp_matches'' [v, StringV (character_class forbidden)] = Inr m"
    "value_is_null m" by blast
  have "w = v"
    using assms(1,3) m null null_not_true [OF m(2)]
    by (auto simp: checked_text_field_def Let_def compare_def any_of_def is_true_def split: option.splits)
  with None show ?thesis by simp
next
  case (Some s)
  with assms(2) have v: "v = StringV s" by (simp add: is_text_def)
  have refuse: "isl (evaluate D F row (raise_error D F message VARCHAR))" by (rule error_fails)
  let ?bad = "(\<exists>c\<in>set forbidden. c \<in> set s) \<or> null_str = Some s"
  have "w = v \<and> \<not> ?bad"
    using assms(1,3) refuse unfolding v
    by (auto simp: checked_text_field_def Let_def compare_def any_of_def is_true_def matches equal split: option.splits if_splits)
  with Some show ?thesis by blast
qed

text \<open>Escaping replaces every special character, one after the other.\<close>

lemma escaped_field:
  assumes "evaluate D F row e = Inr v" "is_text v u" "length esc = 1" "length delim \<le> 1"
    and "evaluate D F row (escaped_text_field e esc delim) = Inr w"
  shows "is_text w (map_option (\<lambda>s. (if delim = [] then id else replaced (hd delim) (esc @ delim)) (replaced (hd esc) (esc @ esc) s)) u)"
proof -
  obtain x where x: "esc = [x]" using assms(3) by (cases esc) auto
  have once: "\<exists>w. evaluate D F row (Apply ''replace'' [e, Const (StringV [c]), Const (StringV r)]) = Inr w \<and>
      is_text w (map_option (replaced c r) u)" if "evaluate D F row e = Inr v" "is_text v u" for e v u c r
  proof (cases u)
    case None
    with replace_null [of v "StringV [c]" "StringV r"] that show ?thesis by (auto simp: is_text_def)
  qed (use that in \<open>auto simp: is_text_def replace\<close>)
  from once [OF assms(1,2), of x "[x, x]"] obtain v1 where
    v1: "evaluate D F row (Apply ''replace'' [e, Const (StringV [x]), Const (StringV [x, x])]) = Inr v1"
      "is_text v1 (map_option (replaced x [x, x]) u)" by blast
  show ?thesis
  proof (cases delim)
    case Nil
    with v1 assms(5) show ?thesis by (simp add: escaped_text_field_def x)
  next
    case (Cons d ds)
    with assms(4) have d: "delim = [d]" by simp
    from once [OF v1, of d "[x, d]"] assms(5) show ?thesis
      by (auto simp: escaped_text_field_def x d option.map_comp comp_def simp del: evaluate.simps)
  qed
qed

end

subsection \<open>Reading a line of LazySimpleSerDe\<close>

text \<open>
  How Hive reads a line: it is cut at every delimiter that no escape character precedes, a field that is the NULL
  string is NULL, and of another an escape character is dropped where it precedes a character.
\<close>

fun raw_fields :: "char option \<Rightarrow> char \<Rightarrow> string \<Rightarrow> string list" where
  "raw_fields esc d [] = [[]]"
| "raw_fields esc d (c # s) =
     (if esc = Some c then
        (case s of [] \<Rightarrow> [[c]]
         | x # s' \<Rightarrow> (c # x # hd (raw_fields esc d s')) # tl (raw_fields esc d s'))
      else if c = d then [] # raw_fields esc d s
      else (c # hd (raw_fields esc d s)) # tl (raw_fields esc d s))"

fun unescape_lazy :: "char option \<Rightarrow> string \<Rightarrow> string" where
  "unescape_lazy esc [] = []"
| "unescape_lazy esc (c # s) =
     (if esc = Some c then (case s of [] \<Rightarrow> [c] | x # s' \<Rightarrow> x # unescape_lazy esc s')
      else c # unescape_lazy esc s)"

definition read_line :: "char option \<Rightarrow> char \<Rightarrow> string \<Rightarrow> string \<Rightarrow> string option list" where
  "read_line esc d null_str line =
     map (\<lambda>raw. if raw = null_str then None else Some (unescape_lazy esc raw)) (raw_fields esc d line)"

text \<open>The line the copy writes for the texts of a row, a NULL as the NULL string.\<close>

definition written_line :: "char \<Rightarrow> string \<Rightarrow> string option list \<Rightarrow> string" where
  "written_line d null_str texts = join (map (\<lambda>w. case w of None \<Rightarrow> null_str | Some s \<Rightarrow> s) texts) [d]"

text \<open>A field that ends where its delimiter stands: no unescaped delimiter within, no escape character at the end.\<close>

fun closed_field :: "char option \<Rightarrow> char \<Rightarrow> string \<Rightarrow> bool" where
  "closed_field esc d [] = True"
| "closed_field esc d (c # s) =
     (if esc = Some c then (case s of [] \<Rightarrow> False | x # s' \<Rightarrow> closed_field esc d s') else c \<noteq> d \<and> closed_field esc d s)"

lemma raw_fields_closed:
  "closed_field esc d a \<Longrightarrow> esc \<noteq> Some d \<Longrightarrow> raw_fields esc d (a @ d # rest) = a # raw_fields esc d rest"
  "closed_field esc d a \<Longrightarrow> raw_fields esc d a = [a]"
  by (induction esc d a rule: closed_field.induct) (auto split: list.splits if_splits)

lemma raw_fields_join:
  "fs \<noteq> [] \<Longrightarrow> \<forall>f\<in>set fs. closed_field esc d f \<Longrightarrow> esc \<noteq> Some d \<Longrightarrow> raw_fields esc d (join fs [d]) = fs"
proof (induction fs rule: induct_list012)
  case (3 f g fs)
  then show ?case using raw_fields_closed(1) [of esc d f] by simp
qed (simp_all add: raw_fields_closed(2))

text \<open>The text of a field as it is written: escaped, or as it is.\<close>

definition written_text :: "char option \<Rightarrow> char \<Rightarrow> string \<Rightarrow> string" where
  "written_text esc d s = (case esc of None \<Rightarrow> s | Some e \<Rightarrow> concat (map (\<lambda>x. if x = e \<or> x = d then [e, x] else [x]) s))"

lemma replaced_twice:
  "e \<noteq> d \<Longrightarrow> replaced d [e, d] (replaced e [e, e] s) = written_text (Some e) d s"
  by (induction s) (auto simp: replaced_def written_text_def)

lemma written_text_closed: "esc \<noteq> None \<or> d \<notin> set s \<Longrightarrow> closed_field esc d (written_text esc d s)"
proof (induction s)
  case (Cons x s)
  then show ?case by (cases esc) (auto simp: written_text_def)
qed (cases esc; simp add: written_text_def)

lemma unescape_written_text: "unescape_lazy esc (written_text esc d s) = s"
proof (induction s)
  case (Cons x s)
  then show ?case by (cases esc) (auto simp: written_text_def)
qed (cases esc; simp add: written_text_def)

lemma set_written_text: "set (written_text esc d s) \<subseteq> set s \<union> set_option esc"
  by (cases esc) (auto simp: written_text_def split: if_splits)

text \<open>
  A dialect whose NULL string can be told from a text: it ends at its delimiter, and no text that is not refused is
  written like it.
\<close>

definition dialect_ok :: "char option \<Rightarrow> char \<Rightarrow> string \<Rightarrow> bool" where
  "dialect_ok esc d null_str \<longleftrightarrow> esc \<noteq> Some d \<and> closed_field esc d null_str \<and>
     (\<forall>s. s \<noteq> null_str \<longrightarrow> written_text esc d s \<noteq> null_str) \<and>
     (\<forall>c\<in>{CHR 0x0A, CHR 0x0D}. c \<noteq> d \<and> c \<notin> set null_str \<and> esc \<noteq> Some c)"

text \<open>Escaping and telling apart go well together for a NULL string with an escape character before another one.\<close>

lemma escaped_null_ok:
  assumes "\<exists>x s. null_str = e # x # s \<and> x \<noteq> e \<and> x \<noteq> d"
  shows "written_text (Some e) d s \<noteq> null_str"
  using assms by (cases s) (auto simp: written_text_def split: if_splits)

context sql_functions
begin

lemma text_column_writes:
  assumes "\<not> epoch_fields opts" "field_escape opts = []" "length esc \<le> 1"
    and "evaluate D F row (cast_to D F VARCHAR (Ref ty i)) = Inr v" "is_text v u"
    and "evaluate D F row (text_column D F opts False esc [d] null_str message ty i) = Inr w" "is_text w written"
    and "dialect_ok (if esc = [] then None else Some (hd esc)) d null_str"
  shows "written = map_option (written_text (if esc = [] then None else Some (hd esc)) d) u \<and>
    (\<forall>s. u = Some s \<longrightarrow> CHR 0x0A \<notin> set s \<and> CHR 0x0D \<notin> set s \<and> s \<noteq> null_str \<and> (esc = [] \<longrightarrow> d \<notin> set s))"
proof -
  let ?forbidden = "if esc \<noteq> [] then [CHR 0x0A, CHR 0x0D] else [CHR 0x0A, CHR 0x0D, d]"
  have conversion: "field_conversion D opts ty \<noteq> EPOCH" "field_conversion D opts ty \<noteq> TRY_EPOCH"
    using assms(1) by (simp_all add: field_conversion_def)
  let ?checked = "checked_text_field D F (Ref ty i) ?forbidden (Some null_str) message"
  have column: "text_column D F opts False esc [d] null_str message ty i
      = (if esc \<noteq> [] then escaped_text_field ?checked esc [d] else ?checked)"
    using conversion assms(2) by (simp add: text_column_def Let_def)
  obtain v' where v': "evaluate D F row ?checked = Inr v'"
  proof (cases "evaluate D F row ?checked")
    case (Inl e)
    with assms(6) column show thesis
      by (cases esc; cases "tl esc") (auto simp: escaped_text_field_def simp del: evaluate.simps(7) )
  qed
  from checked_field [OF assms(4,5) v'] have same: "v' = v" and
    ok: "\<forall>s. u = Some s \<longrightarrow> set s \<inter> set ?forbidden = {} \<and> s \<noteq> null_str" by auto
  have "written = map_option (written_text (if esc = [] then None else Some (hd esc)) d) u"
  proof (cases esc)
    case Nil
    with assms(6) column v' same have "w = v" by simp
    with assms(5,7) Nil show ?thesis by (auto simp: is_text_def written_text_def split: option.splits)
  next
    case (Cons e es)
    with assms(3) have e: "esc = [e]" by simp
    have w: "evaluate D F row (escaped_text_field ?checked esc [d]) = Inr w" using assms(6) column e by simp
    from escaped_field [OF v' [unfolded same] assms(5) _ _ w] e
    have "is_text w (map_option (\<lambda>s. replaced d [e, d] (replaced e [e, e] s)) u)" by simp
    moreover have "e \<noteq> d" using assms(8) e by (simp add: dialect_ok_def)
    ultimately show ?thesis using assms(7) e by (auto simp: is_text_def replaced_twice split: option.splits)
  qed
  with ok show ?thesis by (auto split: if_splits)
qed

lemma row_reads_back:
  assumes "\<not> epoch_fields opts" "field_escape opts = []" "length esc \<le> 1" "columns \<noteq> []"
    and ok: "dialect_ok (if esc = [] then None else Some (hd esc)) d null_str"
    and len: "length texts = length columns" "length written = length columns"
    and texts: "\<forall>k<length columns. \<exists>v. evaluate D F row (cast_to D F VARCHAR (Ref (types ! (columns ! k)) (columns ! k))) = Inr v
      \<and> is_text v (texts ! k)"
    and written: "\<forall>k<length columns. \<exists>w. evaluate D F row (text_column D F opts False esc [d] null_str
      (message k) (types ! (columns ! k)) (columns ! k)) = Inr w \<and> is_text w (written ! k)"
  shows "read_line (if esc = [] then None else Some (hd esc)) d null_str (written_line d null_str written) = texts \<and>
    CHR 0x0A \<notin> set (written_line d null_str written) \<and> CHR 0x0D \<notin> set (written_line d null_str written)"
proof -
  let ?esc = "if esc = [] then None else Some (hd esc)"
  let ?fields = "map (\<lambda>w. case w of None \<Rightarrow> null_str | Some s \<Rightarrow> s) written"
  have each: "written ! k = map_option (written_text ?esc d) (texts ! k) \<and> (\<forall>s. texts ! k = Some s \<longrightarrow>
      CHR 0x0A \<notin> set s \<and> CHR 0x0D \<notin> set s \<and> s \<noteq> null_str \<and> (esc = [] \<longrightarrow> d \<notin> set s))" if "k < length columns" for k
  proof -
    from texts written that obtain v w where
      "evaluate D F row (cast_to D F VARCHAR (Ref (types ! (columns ! k)) (columns ! k))) = Inr v" "is_text v (texts ! k)"
      "evaluate D F row (text_column D F opts False esc [d] null_str (message k) (types ! (columns ! k)) (columns ! k)) = Inr w"
      "is_text w (written ! k)" by blast
    from text_column_writes [OF assms(1-3) this ok] show ?thesis .
  qed
  have field: "closed_field ?esc d (?fields ! k) \<and> set (?fields ! k) \<inter> {CHR 0x0A, CHR 0x0D} = {} \<and>
      (if ?fields ! k = null_str then None else Some (unescape_lazy ?esc (?fields ! k))) = texts ! k"
    if k: "k < length columns" for k
  proof (cases "texts ! k")
    case None
    with each [OF k] k len ok show ?thesis by (auto simp: dialect_ok_def)
  next
    case (Some s)
    with each [OF k] k len have f: "?fields ! k = written_text ?esc d s" by simp
    from each [OF k] Some have s: "s \<noteq> null_str" "esc = [] \<longrightarrow> d \<notin> set s" "set s \<inter> {CHR 0x0A, CHR 0x0D} = {}" by auto
    have "set (written_text ?esc d s) \<inter> {CHR 0x0A, CHR 0x0D} = {}"
      using set_written_text [of ?esc d s] s(3) ok by (auto simp: dialect_ok_def)
    moreover have "written_text ?esc d s \<noteq> null_str" using ok s(1) by (simp add: dialect_ok_def)
    moreover have "closed_field ?esc d (written_text ?esc d s)" using s(2) by (intro written_text_closed) auto
    ultimately show ?thesis unfolding f by (simp add: unescape_written_text Some)
  qed
  have nonempty: "?fields \<noteq> []" using assms(4) len(2) by auto
  have closed: "\<forall>f\<in>set ?fields. closed_field ?esc d f" using field len(2) by (auto simp: in_set_conv_nth)
  have "raw_fields ?esc d (join ?fields [d]) = ?fields"
    using raw_fields_join [OF nonempty closed] ok by (simp add: dialect_ok_def)
  then have "read_line ?esc d null_str (written_line d null_str written) =
      map (\<lambda>raw. if raw = null_str then None else Some (unescape_lazy ?esc raw)) ?fields"
    by (simp add: read_line_def written_line_def)
  also have "\<dots> = texts"
  proof (rule nth_equalityI)
    fix k assume "k < length (map (\<lambda>raw. if raw = null_str then None else Some (unescape_lazy ?esc raw)) ?fields)"
    then have k: "k < length columns" using len(2) by simp
    then have "k < length ?fields" using len(2) by simp
    with field [OF k]
    show "map (\<lambda>raw. if raw = null_str then None else Some (unescape_lazy ?esc raw)) ?fields ! k = texts ! k"
      by (simp only: nth_map)
  qed (simp add: len)
  finally have "read_line ?esc d null_str (written_line d null_str written) = texts" .
  moreover have "set (join fs [d]) \<subseteq> insert d (\<Union> (set ` set fs))" for fs by (induction fs rule: induct_list012) auto
  then have "set (written_line d null_str written) \<subseteq> insert d (\<Union> (set ` set ?fields))" unfolding written_line_def .
  moreover have "\<forall>f\<in>set ?fields. set f \<inter> {CHR 0x0A, CHR 0x0D} = {}" using field len(2) by (auto simp: in_set_conv_nth)
  ultimately show ?thesis using ok by (fastforce simp: dialect_ok_def)
qed

end

text \<open>DuckDB's functions on texts, as far as the expressions here call them.\<close>

definition sample_call :: "string \<Rightarrow> Value list \<Rightarrow> Value result" where
  "sample_call f vs =
     (if f = ''error'' then Inl (InvalidInputException ''error'' [])
      else if list_ex value_is_null vs then Inr (NullV VARCHAR)
      else case vs of
        [StringV s] \<Rightarrow> if f = ''lower'' then Inr (StringV (map ascii_lower s)) else Inr (StringV s)
      | [StringV s, StringV p] \<Rightarrow>
          if f = ''regexp_matches'' then Inr (BoolV (\<exists>c\<in>set s. hex_escape c \<in> set (batches 6 (butlast (tl p)))))
          else if f = ''hive_partition_component'' then Inr (StringV (s @ ''='' @ p))
          else if f = ''path_join'' then Inr (StringV (s @ ''/'' @ p))
          else Inr (StringV s)
      | [StringV s, StringV c, StringV r] \<Rightarrow> if f = ''replace'' then Inr (StringV (replaced (hd c) r s)) else Inr (StringV s)
      | _ \<Rightarrow> Inr (NullV VARCHAR))"

definition sample_functions :: scalar_functions where
  "sample_functions = \<lparr>FunctionType = (\<lambda>f. VARCHAR), CallFunction = sample_call, ValuesEqual = (=)\<rparr>"

lemma length_hex_escape: "length (hex_escape c) = 6"
  by (simp add: hex_escape_def)

lemma batches_chunks: "\<forall>x\<in>set xs. length x = n \<Longrightarrow> 0 < n \<Longrightarrow> batches n (concat xs) = xs"
proof (induction xs)
  case Nil
  then show ?case by (simp add: batches.simps)
next
  case (Cons x xs)
  then have "x \<noteq> []" by auto
  with Cons show ?case by (subst batches.simps) auto
qed

lemma hex_digit_inj: "m < 16 \<Longrightarrow> n < 16 \<Longrightarrow> hex_digit m = hex_digit n \<Longrightarrow> m = n"
proof -
  have "distinct (map hex_digit [0..<16])" by code_simp
  then have "inj_on hex_digit {0..<16}" by (simp only: distinct_map set_upt)
  then show "m < 16 \<Longrightarrow> n < 16 \<Longrightarrow> hex_digit m = hex_digit n \<Longrightarrow> m = n" by (auto dest: inj_onD)
qed

lemma hex_escape_inj: "hex_escape c = hex_escape d \<longleftrightarrow> c = d"
proof
  assume h: "hex_escape c = hex_escape d"
  have bound: "(of_char c :: nat) div 16 < 16" for c :: char
  proof -
    have "(of_char c :: nat) mod 256 < 256" by simp
    then have "(of_char c :: nat) < 256" by (simp only: of_char_mod_256)
    then show ?thesis by (simp add: less_mult_imp_div_less)
  qed
  from h have "hex_digit (of_char c div 16) = hex_digit (of_char d div 16)"
    "hex_digit (of_char c mod 16) = hex_digit (of_char d mod 16)" by (simp_all add: hex_escape_def)
  then have "(of_char c :: nat) div 16 = of_char d div 16" "(of_char c :: nat) mod 16 = of_char d mod 16"
    using hex_digit_inj bound by simp_all
  then have "(of_char c :: nat) = of_char d" by (metis div_mult_mod_eq)
  then show "c = d" by simp
qed simp

interpretation sample_functions: sql_functions ascii_duckdb sample_functions
proof
  fix s cs
  have "batches 6 (butlast (tl (character_class cs))) = map hex_escape cs"
    by (simp add: character_class_def butlast_append batches_chunks length_hex_escape)
  then show "CallFunction sample_functions ''regexp_matches'' [StringV s, StringV (character_class cs)]
      = Inr (BoolV (\<exists>c\<in>set cs. c \<in> set s))"
    by (auto simp: sample_functions_def sample_call_def hex_escape_inj)
qed (auto simp: sample_functions_def sample_call_def ascii_duckdb_def)

text \<open>
  C20: a line written to a LazySimpleSerDe table reads back as the row: when no field of the row is refused, Hive cuts
  the line into as many fields as the row has columns, NULL where the row has a NULL and otherwise the text of its
  value, and the line holds no line break. The NULL string has to be one that no escaped text can be.
\<close>

theorem written_row_reads_back:
  assumes "sql_functions D F" "\<not> epoch_fields opts" "field_escape opts = []" "length esc \<le> 1" "columns \<noteq> []"
    and "dialect_ok (if esc = [] then None else Some (hd esc)) d null_str"
    and "length texts = length columns" "length written = length columns"
    and "\<forall>k<length columns. \<exists>v. evaluate D F row (cast_to D F VARCHAR (Ref (types ! (columns ! k)) (columns ! k))) = Inr v
      \<and> is_text v (texts ! k)"
    and "\<forall>k<length columns. \<exists>w. evaluate D F row (text_column D F opts False esc [d] null_str
      (message k) (types ! (columns ! k)) (columns ! k)) = Inr w \<and> is_text w (written ! k)"
  shows "read_line (if esc = [] then None else Some (hd esc)) d null_str (written_line d null_str written) = texts \<and>
    CHR 0x0A \<notin> set (written_line d null_str written) \<and> CHR 0x0D \<notin> set (written_line d null_str written)"
  by (rule sql_functions.row_reads_back [OF assms(1) assms(2-10)])

definition sample_text_options :: HiveCSVOptions where
  "sample_text_options = \<lparr> delimiter = '','', quote = [], escape = [CHR 0x5C], skip_lines = 0, null_string = [CHR 0x5C, CHR ''N''],
     serde_fields = True, null_for_invalid_data = True, false_unless_true = False, field_escape = [], epoch_fields = False \<rparr>"

definition sample_row :: "Value list" where
  "sample_row = [StringV ''a,b'', NullV VARCHAR, StringV [CHR 0x5C]]"

lemma sample_dialect_ok: "dialect_ok (Some (CHR 0x5C)) CHR '','' [CHR 0x5C, CHR ''N'']"
  using escaped_null_ok [of "[CHR 0x5C, CHR ''N'']" "CHR 0x5C" "CHR '',''"]
  by (auto simp: dialect_ok_def)

lemma written_row_reads_back_witness:
  "read_line (Some (CHR 0x5C)) CHR '','' [CHR 0x5C, CHR ''N'']
     ([CHR ''a'', CHR 0x5C, CHR '','', CHR ''b'', CHR '','', CHR 0x5C, CHR ''N'', CHR '','', CHR 0x5C, CHR 0x5C])
   = [Some ''a,b'', None, Some [CHR 0x5C]]"
proof -
  let ?esc = "[CHR 0x5C]" and ?null = "[CHR 0x5C, CHR ''N'']"
  let ?texts = "[Some ''a,b'', None, Some [CHR 0x5C]]"
  let ?written = "[Some [CHR ''a'', CHR 0x5C, CHR '','', CHR ''b''], None, Some [CHR 0x5C, CHR 0x5C]]"
  let ?plain = "\<lambda>k. evaluate ascii_duckdb sample_functions sample_row
      (cast_to ascii_duckdb sample_functions VARCHAR (Ref ([VARCHAR, VARCHAR, VARCHAR] ! ([0, 1, 2] ! k)) ([0, 1, 2] ! k)))"
  let ?field = "\<lambda>k. evaluate ascii_duckdb sample_functions sample_row (text_column ascii_duckdb sample_functions
      sample_text_options False ?esc [CHR '',''] ?null ''m'' ([VARCHAR, VARCHAR, VARCHAR] ! ([0, 1, 2] ! k)) ([0, 1, 2] ! k))"
  have plain: "?plain 0 = Inr (StringV ''a,b'')" "?plain 1 = Inr (NullV VARCHAR)" "?plain 2 = Inr (StringV [CHR 0x5C])"
    by code_simp+
  have field: "?field 0 = Inr (StringV [CHR ''a'', CHR 0x5C, CHR '','', CHR ''b''])" "?field 1 = Inr (NullV VARCHAR)"
      "?field 2 = Inr (StringV [CHR 0x5C, CHR 0x5C])" by code_simp+
  have "\<forall>k<length [0, 1, 2::nat]. \<exists>v. ?plain k = Inr v \<and> is_text v (?texts ! k)"
    unfolding list.size using plain by (auto simp: is_text_def less_Suc_eq numeral_2_eq_2)
  moreover have "\<forall>k<length [0, 1, 2::nat]. \<exists>w. ?field k = Inr w \<and> is_text w (?written ! k)"
    unfolding list.size using field by (auto simp: is_text_def less_Suc_eq numeral_2_eq_2)
  moreover have "\<not> epoch_fields sample_text_options" "field_escape sample_text_options = []"
    by (simp_all add: sample_text_options_def)
  moreover have "dialect_ok (if ?esc = [] then None else Some (hd ?esc)) CHR '','' ?null"
    using sample_dialect_ok by simp
  ultimately have "read_line (if ?esc = [] then None else Some (hd ?esc)) CHR '','' ?null (written_line CHR '','' ?null ?written) = ?texts"
    using written_row_reads_back [of ascii_duckdb sample_functions sample_text_options ?esc "[0, 1, 2]" "CHR '',''" ?null
        ?texts ?written sample_row "[VARCHAR, VARCHAR, VARCHAR]" "\<lambda>k. ''m''"]
      sample_functions.sql_functions_axioms by simp
  then show ?thesis by (simp add: written_line_def)
qed

text \<open>
  A value can be written as the NULL string and lost: the check compares the NULL string with the value and not
  with what the escaping makes of it. With the escape character for a backslash and two backslashes for NULL, a
  single backslash is accepted and its field is the NULL string.
\<close>

theorem escaped_value_reads_as_null:
  "evaluate ascii_duckdb sample_functions [StringV [CHR 0x5C]] (text_column ascii_duckdb sample_functions sample_text_options
      False [CHR 0x5C] '','' [CHR 0x5C, CHR 0x5C] ''m'' VARCHAR 0) = Inr (StringV [CHR 0x5C, CHR 0x5C]) \<and>
   read_line (Some (CHR 0x5C)) CHR '','' [CHR 0x5C, CHR 0x5C] [CHR 0x5C, CHR 0x5C] = [None]"
  by code_simp

end
