(* ===== verification/Insert_Paths.thy ===== *)
theory Insert_Paths
  imports Insert_Text
begin

text \<open>
  Where an INSERT writes its rows, and what its end leaves: every row goes to the directory of the partition its
  values name, the directories written are registered, and the files of a failed INSERT are deleted.
\<close>

subsection \<open>The directory of a row\<close>

definition matches_row :: "scalar_functions \<Rightarrow> Value list \<Rightarrow> Value list \<Rightarrow> nat \<Rightarrow> bool" where
  "matches_row F row vs n \<longleftrightarrow> (\<forall>i<n. not_distinct F (row ! i) (vs ! i))"

lemma collect_map: "collect f (map g xs) = collect (f \<circ> g) xs"
  by (induction xs) simp_all

lemma partition_condition_matches:
  "0 < length pcols \<Longrightarrow>
   evaluate D F row (partition_condition types pcols vs) = Inr (BoolV (matches_row F row vs (length pcols)))"
proof (cases "length pcols = 1")
  case False
  let ?conditions = "map (\<lambda>i. Compare NOT_DISTINCT_FROM (Ref (types ! (pcols ! i)) i) (Const (vs ! i))) [0 ..< length pcols]"
  have "collect (evaluate D F row) ?conditions = Inr (map (\<lambda>i. BoolV (not_distinct F (row ! i) (vs ! i))) [0 ..< length pcols])"
    unfolding collect_map by (rule collect_all_Inr) (simp add: compare_def)
  with False show ?thesis
    by (auto simp: partition_condition_def Let_def all_of_def matches_row_def list_ex_iff)
qed (auto simp: partition_condition_def Let_def matches_row_def compare_def)

text \<open>A list of checks: the first that holds decides, and one whose outcome fails can not have held.\<close>

lemma first_true_append:
  "first_true (as @ bs) otherwise = first_true as (first_true bs otherwise)"
proof (induction as)
  case (Cons a as)
  obtain c v where a: "a = (c, v)" by fastforce
  from Cons show ?case by (cases c) (simp_all add: a)
qed simp

lemma first_true_cases:
  assumes "first_true checks otherwise = Inr x"
  shows "(\<exists>c v. (c, v) \<in> set checks \<and> c = Inr (BoolV True) \<and> v = Inr x) \<or>
    (otherwise = Inr x \<and> (\<forall>(c, v)\<in>set checks. \<exists>b. c = Inr b \<and> b \<noteq> BoolV True))"
  using assms
proof (induction checks otherwise rule: first_true.induct)
  case (2 c v checks otherwise)
  then show ?case by (fastforce simp: and_then_Inr_iff is_true_def split: if_splits)
qed simp

text \<open>What the plan keeps of every registered partition.\<close>

definition partition_check ::
  "duckdb \<Rightarrow> scalar_functions \<Rightarrow> GlueTableInfo \<Rightarrow> string \<Rightarrow> string list \<Rightarrow> LogicalType list \<Rightarrow> nat list \<Rightarrow> bool
     \<Rightarrow> GluePartitionInfo \<Rightarrow> Value list \<Rightarrow> (write_expr \<times> write_expr) list" where
  "partition_check D F t location keys types pcols by_position p vs =
     (if in_place D t location keys by_position p vs then []
      else [(partition_condition types pcols vs, partition_then D F t location by_position p)])"

definition custom_directory ::
  "duckdb \<Rightarrow> GlueTableInfo \<Rightarrow> string \<Rightarrow> string list \<Rightarrow> bool \<Rightarrow> GluePartitionInfo \<Rightarrow> Value list \<Rightarrow> (string \<times> string list) list" where
  "custom_directory D t location keys by_position p vs =
     (if \<not> in_place D t location keys by_position p vs \<and> writes_elsewhere D t location by_position p
      then [(fst (relative_partition_path D location (p_location p)), p_values p)] else [])"

lemma plan_partitions_shape:
  assumes "plan_partitions D F t location names types pcols by_position ps plan = Inr plan'"
  shows "\<exists>typed. length typed = length ps \<and> (\<forall>k<length ps. typed_partition_values D t types pcols (ps ! k) = Inr (typed ! k)) \<and>
    pp_checks plan' = pp_checks plan @
      concat (map2 (partition_check D F t location (map ((!) names) pcols) types pcols by_position) ps typed) \<and>
    pp_custom_directories plan' = pp_custom_directories plan @
      concat (map2 (custom_directory D t location (map ((!) names) pcols) by_position) ps typed)"
  using assms
proof (induction ps arbitrary: plan)
  case (Cons p ps)
  from Cons.prems obtain plan1 where one: "plan_partition D F t location names types pcols by_position p plan = Inr plan1"
    and rest: "plan_partitions D F t location names types pcols by_position ps plan1 = Inr plan'"
    by (auto simp: and_then_Inr_iff)
  from Cons.IH [OF rest] obtain typed where IH: "length typed = length ps"
    "\<forall>k<length ps. typed_partition_values D t types pcols (ps ! k) = Inr (typed ! k)"
    "pp_checks plan' = pp_checks plan1 @
      concat (map2 (partition_check D F t location (map ((!) names) pcols) types pcols by_position) ps typed)"
    "pp_custom_directories plan' = pp_custom_directories plan1 @
      concat (map2 (custom_directory D t location (map ((!) names) pcols) by_position) ps typed)" by blast
  let ?keys = "map ((!) names) pcols"
  from one obtain vs where vs: "typed_partition_values D t types pcols p = Inr vs"
    by (auto simp: plan_partition_def Let_def and_then_Inr_iff split: if_splits)
  have "pp_checks plan1 = pp_checks plan @ partition_check D F t location ?keys types pcols by_position p vs \<and>
      pp_custom_directories plan1 = pp_custom_directories plan @ custom_directory D t location ?keys by_position p vs"
    using one vs
    by (cases "in_place D t location ?keys by_position p vs"; cases "writes_elsewhere D t location by_position p")
      (auto simp: plan_partition_def Let_def partition_check_def custom_directory_def split: if_splits)
  then have plan1: "pp_checks plan1 = pp_checks plan @ partition_check D F t location ?keys types pcols by_position p vs"
    "pp_custom_directories plan1 = pp_custom_directories plan @ custom_directory D t location ?keys by_position p vs"
    by simp_all
  have "\<forall>k<length (p # ps). typed_partition_values D t types pcols ((p # ps) ! k) = Inr ((vs # typed) ! k)"
    using IH(2) vs by (auto simp: less_Suc_eq_0_disj)
  with IH plan1 show ?case by (intro exI [of _ "vs # typed"]) simp
qed simp

lemma plan_partitions_members:
  assumes "plan_partitions D F t location names types pcols by_position ps
      \<lparr>pp_checks = checks, pp_custom_directories = [], pp_planned_locations = [], pp_partition_directories = []\<rparr> = Inr plan"
  shows "\<exists>more_checks. pp_checks plan = checks @ more_checks \<and>
    (\<forall>x. x \<in> set more_checks \<longleftrightarrow> (\<exists>p\<in>set ps. \<exists>vs. typed_partition_values D t types pcols p = Inr vs \<and>
       x \<in> set (partition_check D F t location (map ((!) names) pcols) types pcols by_position p vs))) \<and>
    (\<forall>x. x \<in> set (pp_custom_directories plan) \<longleftrightarrow> (\<exists>p\<in>set ps. \<exists>vs. typed_partition_values D t types pcols p = Inr vs \<and>
       x \<in> set (custom_directory D t location (map ((!) names) pcols) by_position p vs)))"
proof -
  from plan_partitions_shape [OF assms] obtain typed where typed: "length typed = length ps"
    "\<forall>k<length ps. typed_partition_values D t types pcols (ps ! k) = Inr (typed ! k)"
    and shape: "pp_checks plan = checks @
      concat (map2 (partition_check D F t location (map ((!) names) pcols) types pcols by_position) ps typed)"
    "pp_custom_directories plan = concat (map2 (custom_directory D t location (map ((!) names) pcols) by_position) ps typed)"
    by auto
  have members: "(\<exists>(p, vs)\<in>set (zip ps typed). Q p vs) \<longleftrightarrow>
      (\<exists>p\<in>set ps. \<exists>vs. typed_partition_values D t types pcols p = Inr vs \<and> Q p vs)" for Q
    using typed by (fastforce simp: set_zip in_set_conv_nth)
  show ?thesis unfolding shape
    by (intro exI [of _ "concat (map2 (partition_check D F t location (map ((!) names) pcols) types pcols by_position) ps typed)"])
      (simp add: members [symmetric] case_prod_unfold)
qed

definition reads_back_as_null :: "duckdb \<Rightarrow> scalar_functions \<Rightarrow> Value list \<Rightarrow> LogicalType \<Rightarrow> nat \<Rightarrow> bool" where
  "reads_back_as_null D F row ty i \<longleftrightarrow> type_id ty \<in> {ID_VARCHAR, ID_BLOB} \<and>
     (\<exists>s. evaluate D F row (cast_to D F VARCHAR (Ref ty i)) = Inr (StringV s) \<and> partition_value_is_null D s ty)"

context sql_functions
begin

lemma null_check_holds:
  assumes "string_util D" "reads_back_as_null D F row ty i"
  shows "\<exists>c v. null_value_check D F t name ty i = [(c, v)] \<and> evaluate D F row c = Inr (BoolV True)"
proof -
  from assms(2) obtain s where ty: "type_id ty \<in> {ID_VARCHAR, ID_BLOB}"
    and s: "evaluate D F row (cast_to D F VARCHAR (Ref ty i)) = Inr (StringV s)" "partition_value_is_null D s ty"
    unfolding reads_back_as_null_def by blast
  have "map ascii_lower ''NULL'' = ''null''" by code_simp
  then have "CIEquals D s ''NULL'' \<longleftrightarrow> Lower D s = ''null''"
    using assms(1) by (simp add: string_util.CIEquals string_util.Lower)
  with ty s show ?thesis
    by (auto simp: null_value_check_def Let_def compare_def any_of_def is_true_def lower equal partition_value_is_null_def)
qed

lemma partition_path_decides:
  assumes "string_util D" "0 < length pcols"
    and plan: "plan_partitions D F t location names types pcols by_position ps
      \<lparr>pp_checks = add_null_value_checks D F t names types pcols, pp_custom_directories = [], pp_planned_locations = [],
       pp_partition_directories = []\<rparr> = Inr plan"
    and e: "evaluate D F row (finish_partition_path (pp_checks plan @
      map (custom_check D F t (hive_path_expression names types pcols)) (pp_custom_directories plan))
      (hive_path_expression names types pcols)) = Inr path"
  defines "keys \<equiv> map ((!) names) pcols"
  shows "(\<forall>i<length pcols. \<not> reads_back_as_null D F row (types ! (pcols ! i)) i) \<and>
    ((\<exists>p\<in>set ps. \<exists>vs. typed_partition_values D t types pcols p = Inr vs \<and> matches_row F row vs (length pcols) \<and>
        \<not> in_place D t location keys by_position p vs \<and> find_column_type_mismatch D p (t_columns t) by_position = None \<and>
        snd (relative_partition_path D location (p_location p)) \<and>
        path = StringV (if fst (relative_partition_path D location (p_location p)) = [] then p_location p
          else fst (relative_partition_path D location (p_location p)))) \<or>
     (evaluate D F row (hive_path_expression names types pcols) = Inr path \<and>
      (\<forall>p\<in>set ps. \<forall>vs. typed_partition_values D t types pcols p = Inr vs \<longrightarrow>
        (matches_row F row vs (length pcols) \<longrightarrow> in_place D t location keys by_position p vs) \<and>
        (\<not> in_place D t location keys by_position p vs \<and> writes_elsewhere D t location by_position p \<longrightarrow>
          path \<noteq> StringV (fst (relative_partition_path D location (p_location p)))))))"
proof -
  let ?hive = "hive_path_expression names types pcols"
  let ?ev = "\<lambda>(c, v). (evaluate D F row c, evaluate D F row v)"
  from plan_partitions_members [OF plan] obtain checks where checks: "pp_checks plan = add_null_value_checks D F t names types pcols @ checks"
    "\<And>x. x \<in> set checks \<longleftrightarrow> (\<exists>p\<in>set ps. \<exists>vs. typed_partition_values D t types pcols p = Inr vs \<and>
       x \<in> set (partition_check D F t location keys types pcols by_position p vs))"
    and custom: "\<And>x. x \<in> set (pp_custom_directories plan) \<longleftrightarrow> (\<exists>p\<in>set ps. \<exists>vs. typed_partition_values D t types pcols p = Inr vs \<and>
       x \<in> set (custom_directory D t location keys by_position p vs))"
    unfolding keys_def by blast
  have "first_true (map ?ev (add_null_value_checks D F t names types pcols)) (first_true (map ?ev checks)
      (first_true (map ?ev (map (custom_check D F t ?hive) (pp_custom_directories plan))) (evaluate D F row ?hive))) = Inr path"
    (is "first_true ?nulls (first_true ?parts (first_true ?customs _)) = _")
    using e by (simp add: finish_partition_path_def checks(1) first_true_append [symmetric] del: map_map split: if_splits)
  note first = first_true_cases [OF this]
  have null_fails: "isl v" if "(c, v) \<in> set ?nulls" for c v
    using that error_fails(2) by (auto simp: add_null_value_checks_def null_value_check_def Let_def split: if_splits)
  with first have second: "first_true ?parts (first_true ?customs (evaluate D F row ?hive)) = Inr path"
    and nulls: "\<And>c v. (c, v) \<in> set ?nulls \<Longrightarrow> c \<noteq> Inr (BoolV True)" by fastforce+
  have "\<not> reads_back_as_null D F row (types ! (pcols ! i)) i" if "i < length pcols" for i
  proof
    assume "reads_back_as_null D F row (types ! (pcols ! i)) i"
    from null_check_holds [OF assms(1) this] obtain c v where
      c: "null_value_check D F t (names ! (pcols ! i)) (types ! (pcols ! i)) i = [(c, v)]"
      "evaluate D F row c = Inr (BoolV True)" by blast
    from c(1) that have "(c, v) \<in> set (add_null_value_checks D F t names types pcols)"
      by (force simp: add_null_value_checks_def)
    with c(2) nulls show False by (fastforce simp: image_iff)
  qed
  moreover from first_true_cases [OF second] consider
      (registered) c v where "(c, v) \<in> set ?parts" "c = Inr (BoolV True)" "v = Inr path"
    | (hive) "first_true ?customs (evaluate D F row ?hive) = Inr path" "\<And>c v. (c, v) \<in> set ?parts \<Longrightarrow> c \<noteq> Inr (BoolV True)"
    by fastforce
  then show ?thesis
  proof cases
    case registered
    then obtain x where x: "x \<in> set checks" "evaluate D F row (fst x) = Inr (BoolV True)" "evaluate D F row (snd x) = Inr path"
      by auto
    from x(1) checks(2) obtain p vs where p: "p \<in> set ps" "typed_partition_values D t types pcols p = Inr vs"
      "x \<in> set (partition_check D F t location keys types pcols by_position p vs)" by blast
    then have "\<not> in_place D t location keys by_position p vs" and
      xs: "x = (partition_condition types pcols vs, partition_then D F t location by_position p)"
      by (auto simp: partition_check_def split: if_splits)
    moreover from x(2) have "matches_row F row vs (length pcols)"
      using partition_condition_matches [OF assms(2)] by (simp add: xs)
    moreover have "find_column_type_mismatch D p (t_columns t) by_position = None \<and>
        snd (relative_partition_path D location (p_location p)) \<and>
        path = StringV (if fst (relative_partition_path D location (p_location p)) = [] then p_location p
          else fst (relative_partition_path D location (p_location p)))"
      using x(3) error_fails(2) by (auto simp: xs partition_then_def split: option.splits if_splits)
        (metis Inr_not_Inl isl_def)+
    ultimately show ?thesis using \<open>\<And>i. i < length pcols \<Longrightarrow> \<not> reads_back_as_null D F row (types ! (pcols ! i)) i\<close> p(1,2)
      by blast
  next
    case hive
    have custom_fails: "isl v" if "(c, v) \<in> set ?customs" for c v
      using that error_fails(2) by (auto simp: custom_check_def)
    from first_true_cases [OF hive(1)] custom_fails
    have path: "evaluate D F row ?hive = Inr path" and elsewhere: "\<And>c v. (c, v) \<in> set ?customs \<Longrightarrow> c \<noteq> Inr (BoolV True)"
      by fastforce+
    have "in_place D t location keys by_position p vs"
      if p: "p \<in> set ps" "typed_partition_values D t types pcols p = Inr vs" and m: "matches_row F row vs (length pcols)" for p vs
    proof (rule ccontr)
      assume "\<not> in_place D t location keys by_position p vs"
      then have "(partition_condition types pcols vs, partition_then D F t location by_position p) \<in> set checks"
        using p checks(2) by (force simp: partition_check_def)
      with hive(2) m partition_condition_matches [OF assms(2)] show False by (fastforce simp: image_iff)
    qed
    moreover have "path \<noteq> StringV (fst (relative_partition_path D location (p_location p)))"
      if p: "p \<in> set ps" "typed_partition_values D t types pcols p = Inr vs"
        "\<not> in_place D t location keys by_position p vs" "writes_elsewhere D t location by_position p" for p vs
    proof
      assume "path = StringV (fst (relative_partition_path D location (p_location p)))"
      moreover have "(fst (relative_partition_path D location (p_location p)), p_values p) \<in> set (pp_custom_directories plan)"
        using p custom by (force simp: custom_directory_def)
      ultimately show False using elsewhere path equal
        by (force simp: custom_check_def compare_def image_iff)
    qed
    ultimately show ?thesis using path \<open>\<And>i. i < length pcols \<Longrightarrow> \<not> reads_back_as_null D F row (types ! (pcols ! i)) i\<close>
      by blast
  qed
qed

end


definition sample_days_table :: GlueTableInfo where
  "sample_days_table = sample_bound\<lparr>t_partition_keys :=
     [\<lparr>col_name = ''day'', col_type = ''string'', col_comment = [], col_sort_order = UNSORTED\<rparr>],
     t_serde_library := ''org.apache.hadoop.hive.ql.io.parquet.serde.ParquetHiveSerDe'',
     t_input_format := ''org.apache.hadoop.hive.ql.io.parquet.MapredParquetInputFormat''\<rparr>"

text \<open>The lake with a partition that is not at the directory of its value.\<close>

definition sample_moved :: sample_world where
  "sample_moved = sample_lake\<lparr>sw_partitions := [((''db'', ''a''), [sample_partition ''1'',
     \<lparr> pt_values = [''7''], pt_storage_descriptor = empty_descriptor\<lparr>sd_location := ''s3://lake/a/old''\<rparr>, pt_parameters = [] \<rparr>])]\<rparr>"


subsection \<open>When the copy is done\<close>

lemma written_partitions_cover:
  assumes "written_partitions D unescape ins paths acc = Inr ps" "\<forall>(d, p)\<in>set acc. gpi_location p = d"
  shows "set acc \<subseteq> set ps \<and> (\<forall>(d, p)\<in>set ps. gpi_location p = d) \<and>
    (\<forall>path\<in>set paths. \<exists>p. (written_directory path, p) \<in> set ps)"
  using assms
proof (induction paths arbitrary: acc)
  case (Cons path paths)
  show ?case
  proof (cases "map_of acc (written_directory path)")
    case None
    with Cons.prems(1) obtain p where p: "written_partition D unescape ins path = Inr p"
      and rest: "written_partitions D unescape ins paths (acc @ [(written_directory path, p)]) = Inr ps"
      by (auto simp: and_then_Inr_iff)
    from p have "gpi_location p = written_directory path"
      by (auto simp: written_partition_def Let_def and_then_Inr_iff split: option.splits if_splits)
    with Cons.IH [OF rest] Cons.prems(2) show ?thesis by auto
  next
    case (Some p)
    with Cons.prems(1) have "written_partitions D unescape ins paths acc = Inr ps" by simp
    from Cons.IH [OF this Cons.prems(2)] map_of_SomeD [OF Some] show ?thesis by auto
  qed
qed simp

text \<open>The location a partition is registered at, as the plan or Glue knows it.\<close>

definition known_location ::
  "GlueHiveInsert \<Rightarrow> (string list \<times> string) list \<Rightarrow> string list \<Rightarrow> string option" where
  "known_location ins found vs = (case map_of (hi_planned_locations ins) vs of Some l \<Rightarrow> Some l | None \<Rightarrow> map_of found vs)"

lemma check_existing_passes:
  assumes "check_existing_partition_locations fuel D S ins already s = (Inr (), s')"
  shows "\<exists>found. \<forall>p\<in>set already. \<exists>l. known_location ins found (gpi_values p) = Some l \<and>
    comparable_location D l = comparable_location D (gpi_location p)"
proof -
  let ?planned = "\<lambda>p. map_of (hi_planned_locations ins) (gpi_values p)"
  let ?unplanned = "filter (\<lambda>p. ?planned p = None) already"
  from assms have known: "\<And>p l. p \<in> set already \<Longrightarrow> ?planned p = Some l \<Longrightarrow> check_registered_at D p l = Inr ()"
    by (fastforce simp: check_existing_partition_locations_def Let_def bind_op_def lift_op_def check_each_Inr_iff
        split: prod.splits sum.splits)
  have "\<exists>found. \<forall>p\<in>set ?unplanned. check_found_location D found p = Inr ()"
  proof (cases "?unplanned = []")
    case False
    with assms show ?thesis
      by (auto simp: check_existing_partition_locations_def Let_def bind_op_def lift_op_def check_each_Inr_iff
          split: prod.splits sum.splits)
  qed simp
  then obtain found where found: "\<forall>p\<in>set ?unplanned. check_found_location D found p = Inr ()" by blast
  have "\<exists>l. known_location ins found (gpi_values p) = Some l \<and> comparable_location D l = comparable_location D (gpi_location p)"
    if p: "p \<in> set already" for p
  proof (cases "?planned p")
    case None
    with p found have "check_found_location D found p = Inr ()" by simp
    with None show ?thesis
      by (auto simp: check_found_location_def check_registered_at_def known_location_def split: option.splits if_splits)
  next
    case (Some l)
    with known [OF p Some] show ?thesis by (auto simp: check_registered_at_def known_location_def split: if_splits)
  qed
  then show ?thesis by blast
qed

lemma roll_back_outcome:
  assumes "roll_back_insert remove ins files e s = (r, s')"
  obtains w where "remove files (s_world s) = (Inr (), w)" "s_world s' = w"
      "r = Inl (IOException ''INSERT into Hive table was rolled back''
        [t_schema_name (hi_table_info ins), t_name (hi_table_info ins)])"
    | "r = Inl (IOException ''INSERT into Hive table failed. Deleting the files it wrote failed too''
        [t_schema_name (hi_table_info ins), t_name (hi_table_info ins)])"
proof -
  obtain q w where q: "remove files (s_world s) = (q, w)" by fastforce
  show thesis
  proof (cases q)
    case (Inl e)
    with q assms that(2) show thesis
      by (simp add: roll_back_insert_def Let_def catch_op_def bind_op_def call_op_def lift_op_def throw_op_def)
  next
    case (Inr u)
    with q assms that(1) show thesis
      by (auto simp: roll_back_insert_def Let_def catch_op_def bind_op_def call_op_def lift_op_def throw_op_def)
  qed
qed

lemma finalize_registers:
  assumes "t_partition_keys (hi_table_info ins) \<noteq> []" "is_written_files st \<noteq> []"
    and "written_partitions D unescape ins (is_written_files st) [] = Inr ps"
  shows "hive_insert_finalize fuel D S unescape remove ins st s =
    catch_op (register_written fuel D S ins (map snd ps)) (roll_back_insert remove ins (is_written_files st))
      (invalidate D (hi_catalog ins) s)"
  using assms by (simp add: hive_insert_finalize_def Let_def bind_op_def [of "lift_op _"] lift_op_def)

context partition_store
begin

lemma insert_registered:
  assumes t: "(t_schema_name (hi_table_info ins), t_name (hi_table_info ins)) = key"
    and "t_fetched (hi_table_info ins) \<noteq> None" "t_partition_keys (hi_table_info ins) \<noteq> []"
    and "hive_insert_finalize fuel D S unescape remove ins st s = (Inr (), s')"
  shows "\<exists>ps already found s1 s2.
    (is_written_files st \<noteq> [] \<longrightarrow> batch_create_partitions D (hi_catalog ins) S (hi_table_info ins) ps s1 = (Inr already, s2)) \<and>
    (\<forall>path\<in>set (is_written_files st). \<exists>p\<in>set ps. gpi_location p = written_directory path \<and>
       gpi_values p \<in> reg (s_world s')) \<and>
    (\<forall>p\<in>set already. \<exists>l. known_location ins found (gpi_values p) = Some l \<and>
       comparable_location D l = comparable_location D (gpi_location p))"
proof (cases "is_written_files st = []")
  case True
  then show ?thesis by (intro exI [of _ "[]"]) simp
next
  case False
  let ?s1 = "invalidate D (hi_catalog ins) s"
  obtain ps where ps: "written_partitions D unescape ins (is_written_files st) [] = Inr ps"
  proof (cases "written_partitions D unescape ins (is_written_files st) []")
    case (Inl e)
    with False assms(3,4) show thesis
      by (simp add: hive_insert_finalize_def Let_def bind_op_def [of "lift_op _"] lift_op_def)
  qed
  have c: "catch_op (register_written fuel D S ins (map snd ps)) (roll_back_insert remove ins (is_written_files st)) ?s1
      = (Inr (), s')"
    using assms(4) unfolding finalize_registers [OF assms(3) False ps] .
  obtain q s0 where q: "register_written fuel D S ins (map snd ps) ?s1 = (q, s0)" by fastforce
  have r: "register_written fuel D S ins (map snd ps) ?s1 = (Inr (), s')"
  proof (cases q)
    case (Inl e)
    with c q have "roll_back_insert remove ins (is_written_files st) e s0 = (Inr (), s')" by (simp add: catch_op_def)
    then show ?thesis by (rule roll_back_outcome) simp_all
  next
    case (Inr u)
    with c q show ?thesis by (simp add: catch_op_def)
  qed
  from r assms(2) obtain already s2 where
    b: "batch_create_partitions D (hi_catalog ins) S (hi_table_info ins) (map snd ps) ?s1 = (Inr already, s2)"
    and x: "check_existing_partition_locations fuel D S ins already s2 = (Inr (), s')"
    by (auto simp: register_written_def Let_def bind_op_def return_op_def split: prod.splits sum.splits)
  have "moves (keeps reg) (check_existing_partition_locations fuel D S ins already)"
    unfolding check_existing_partition_locations_def Let_def
    by (intro keeping.bind keeping.if_then keeping.simple reads_locations)
  from movesD [OF this x] create_exactly [OF t b]
  have reg: "gpi_values ` set (map snd ps) \<subseteq> reg (s_world s')" by (auto simp: keeps_def)
  from written_partitions_cover [OF ps] have cover: "\<forall>(d, p)\<in>set ps. gpi_location p = d"
    "\<forall>path\<in>set (is_written_files st). \<exists>p. (written_directory path, p) \<in> set ps" by simp_all
  have "\<exists>p\<in>set (map snd ps). gpi_location p = written_directory path \<and> gpi_values p \<in> reg (s_world s')"
    if "path \<in> set (is_written_files st)" for path
  proof -
    from cover(2) that obtain p where p: "(written_directory path, p) \<in> set ps" by blast
    then have "p \<in> set (map snd ps)" by (metis image_eqI list.set_map snd_conv)
    moreover from p cover(1) have "gpi_location p = written_directory path" by auto
    ultimately show ?thesis using reg by blast
  qed
  then have written: "\<forall>path\<in>set (is_written_files st). \<exists>p\<in>set (map snd ps). gpi_location p = written_directory path \<and>
      gpi_values p \<in> reg (s_world s')" by blast
  from check_existing_passes [OF x] obtain found where
    found: "\<forall>p\<in>set already. \<exists>l. known_location ins found (gpi_values p) = Some l \<and>
       comparable_location D l = comparable_location D (gpi_location p)" ..
  show ?thesis
    by (rule exI [of _ "map snd ps"], rule exI [of _ already], rule exI [of _ found], rule exI [of _ ?s1], rule exI [of _ s2])
      (intro conjI impI b written found)
qed

end


text \<open>
  C19: an INSERT whose registration fails fails too, and deletes the files it wrote: unless it reports that the
  deletion failed, none of them is stored afterwards.
\<close>

theorem failed_insert_deletes_its_files:
  assumes "\<And>w w'. remove (is_written_files st) w = (Inr (), w') \<Longrightarrow> stored w' \<inter> set (is_written_files st) = {}"
    and "t_partition_keys (hi_table_info ins) \<noteq> []" "is_written_files st \<noteq> []"
    and "written_partitions D unescape ins (is_written_files st) [] = Inr ps"
    and "fst (register_written fuel D S ins (map snd ps) (invalidate D (hi_catalog ins) s)) = Inl e"
    and "hive_insert_finalize fuel D S unescape remove ins st s = (r, s')"
  shows "r = Inl (IOException ''INSERT into Hive table was rolled back''
        [t_schema_name (hi_table_info ins), t_name (hi_table_info ins)]) \<and> stored (s_world s') \<inter> set (is_written_files st) = {} \<or>
    r = Inl (IOException ''INSERT into Hive table failed. Deleting the files it wrote failed too''
        [t_schema_name (hi_table_info ins), t_name (hi_table_info ins)])"
proof -
  obtain s1 where "register_written fuel D S ins (map snd ps) (invalidate D (hi_catalog ins) s) = (Inl e, s1)"
    using assms(5) by (cases "register_written fuel D S ins (map snd ps) (invalidate D (hi_catalog ins) s)") auto
  with assms(6) have "roll_back_insert remove ins (is_written_files st) e s1 = (r, s')"
    unfolding finalize_registers [OF assms(2-4)] by (simp add: catch_op_def)
  then show ?thesis
  proof (rule roll_back_outcome)
    fix w
    assume "remove (is_written_files st) (s_world s1) = (Inr (), w)" "s_world s' = w"
      "r = Inl (IOException ''INSERT into Hive table was rolled back''
        [t_schema_name (hi_table_info ins), t_name (hi_table_info ins)])"
    with assms(1) show ?thesis by blast
  qed simp
qed

definition sample_insert :: GlueHiveInsert where
  "sample_insert = \<lparr>hi_catalog = sample_catalog, hi_table_info = sample_days_table,
     hi_planned_locations = [([''1''], ''s3://lake/a/day=1'')], hi_partition_directories = [(''s3://lake/a/old'', [''7''])]\<rparr>"

definition sample_written :: insert_state where
  "sample_written = \<lparr>is_insert_count = 3, is_written_files = [''s3://lake/a/day=5/x'', ''s3://lake/a/old/y'', ''s3://lake/a/day=5/z'']\<rparr>"


text \<open>The sample service with a registration that Glue refuses.\<close>

lemma failed_insert_deletes_its_files_witness:
  "isl (fst (hive_insert_finalize 10 ascii_duckdb (sample_glue\<lparr>AcquireClient := Pair (Inl (IOException ''no credentials'' []))\<rparr>) Inr
     (\<lambda>paths w. (Inr (), w)) sample_insert sample_written (sample_session sample_moved)))"
proof -
  let ?S = "sample_glue\<lparr>AcquireClient := Pair (Inl (IOException ''no credentials'' []))\<rparr>"
  let ?m = "hive_insert_finalize 10 ascii_duckdb ?S Inr (\<lambda>paths w. (Inr (), w)) sample_insert sample_written
    (sample_session sample_moved)"
  let ?ps = "[(''s3://lake/a/day=5'', \<lparr>gpi_values = [''5''], gpi_location = ''s3://lake/a/day=5''\<rparr>),
    (''s3://lake/a/old'', \<lparr>gpi_values = [''7''], gpi_location = ''s3://lake/a/old''\<rparr>)]"
  have "t_partition_keys (hi_table_info sample_insert) \<noteq> []" "is_written_files sample_written \<noteq> []"
    "written_partitions ascii_duckdb Inr sample_insert (is_written_files sample_written) [] = Inr ?ps" by code_simp+
  moreover have "fst (register_written 10 ascii_duckdb ?S sample_insert (map snd ?ps)
      (invalidate ascii_duckdb (hi_catalog sample_insert) (sample_session sample_moved))) = Inl (IOException ''no credentials'' [])"
    by code_simp
  ultimately show ?thesis
    using failed_insert_deletes_its_files [of "\<lambda>paths w. (Inr (), w)" sample_written "\<lambda>_. {}" sample_insert ascii_duckdb Inr
        ?ps 10 ?S "sample_session sample_moved" _ "fst ?m" "snd ?m"] by auto
qed

end
