(* ===== verification/Schema_Entry.thy ===== *)
theory Schema_Entry
  imports Table_Set Create_Table
begin

text \<open>
  The statements on the objects of a Glue database, src/catalog/glue_schema_entry.cpp: CREATE TABLE,
  ALTER TABLE, DROP and the lookups of a schema entry. An operation works on the schema entry and on the
  session; the name of its database never changes. What CREATE VIEW stores names as is in View_Names.
\<close>

subsection \<open>State\<close>

type_synonym 'w schema_state = "schema_entry \<times> 'w session"

definition on_tables :: "('w set_state, 'a) comp \<Rightarrow> ('w schema_state, 'a) comp" where
  "on_tables m st = (case st of (se, s) \<Rightarrow> case m (se_tables se, s) of
     (r, (ts, s')) \<Rightarrow> (r, (se\<lparr>se_tables := ts\<rparr>, s')))"

definition with_session :: "('w, 'a) op \<Rightarrow> ('w schema_state, 'a) comp" where
  "with_session m = on_tables (on_session m)"

definition database_of :: "'w schema_state \<Rightarrow> string" where
  "database_of st = d_name (se_database_info (fst st))"

definition settings_of :: "'w schema_state \<Rightarrow> settings" where
  "settings_of st = s_settings (snd st)"

definition entry_named ::
  "duckdb \<Rightarrow> glue_catalog \<Rightarrow> 'w service \<Rightarrow> string \<Rightarrow> ('w schema_state, catalog_entry option) comp" where
  "entry_named D cat S name st = on_tables (get_entry D cat S (database_of st) name) st"

fun catalog_type_is_supported :: "CatalogType \<Rightarrow> bool" where
  "catalog_type_is_supported TABLE_ENTRY = True"
| "catalog_type_is_supported VIEW_ENTRY = True"
| "catalog_type_is_supported (OTHER_ENTRY name) = False"

subsection \<open>The definition Glue holds\<close>

text \<open>\<open>tables.CreateEntry(tables.CreateEntry(info))\<close>: the entry of a definition takes the place of the old one.\<close>

definition adopt_table :: "duckdb \<Rightarrow> GlueTableInfo \<Rightarrow> ('w schema_state, catalog_entry) comp" where
  "adopt_table D t = bind_op (lift_op (build_entry D t)) (\<lambda>entry.
     on_tables (\<lambda>st. (Inr entry, insert_table_entry D entry st)))"

definition fetch_table ::
  "duckdb \<Rightarrow> glue_catalog \<Rightarrow> 'w service \<Rightarrow> string \<Rightarrow> exn \<Rightarrow> ('w schema_state, GlueTableInfo) comp" where
  "fetch_table D cat S name missing st =
     bind_op (with_session (get_table D cat S (database_of st) name)) (\<lambda>found.
       case found of None \<Rightarrow> throw_op missing | Some t \<Rightarrow> return_op t) st"

definition refresh_table ::
  "duckdb \<Rightarrow> glue_catalog \<Rightarrow> 'w service \<Rightarrow> string \<Rightarrow> ('w schema_state, catalog_entry) comp" where
  "refresh_table D cat S name =
     bind_op (fetch_table D cat S name
       (CatalogException ''Table was altered but could not be fetched afterwards'' [name])) (adopt_table D)"

definition definition_for_write ::
  "duckdb \<Rightarrow> glue_catalog \<Rightarrow> 'w service \<Rightarrow> catalog_entry \<Rightarrow> ('w schema_state, GlueTableInfo) comp" where
  "definition_for_write D cat S entry st =
     (let bound = e_table_info entry in
      if \<not> connection_scoped D (settings_of st) then (Inr bound, st)
      else bind_op (fetch_table D cat S (t_name bound)
             (CatalogException ''Table does not exist in Glue database'' [t_name bound, database_of st]))
           (\<lambda>current. if is_same_version bound current then return_op bound
             else bind_op (adopt_table D current) (\<lambda>e. return_op (e_table_info e))) st)"

subsection \<open>The database\<close>

definition set_database_info :: "GlueDatabaseInfo \<Rightarrow> schema_entry \<Rightarrow> schema_entry" where
  "set_database_info database se =
     se\<lparr>se_database_info := (se_database_info se)\<lparr>d_description := d_description database,
          d_location_uri := d_location_uri database, d_parameters := d_parameters database\<rparr>,
        se_info_loaded := True\<rparr>"

definition get_schema_info ::
  "glue_catalog \<Rightarrow> 'w service \<Rightarrow> ('w schema_state, GlueDatabaseInfo) comp" where
  "get_schema_info cat S st =
     (if se_info_loaded (fst st) then (Inr (se_database_info (fst st)), st)
      else bind_op (with_session (get_database cat S (database_of st))) (\<lambda>found st1.
        case found of
          None \<Rightarrow> (Inl (CatalogException ''Glue database no longer exists'' [database_of st1]), st1)
        | Some database \<Rightarrow>
            let se = set_database_info database (fst st1) in
            (Inr (se_database_info se), (se, snd st1))) st)"

definition set_schema_info :: "GlueDatabaseInfo \<Rightarrow> schema_entry \<Rightarrow> schema_entry" where
  "set_schema_info database se = (if se_info_loaded se then se else set_database_info database se)"

subsection \<open>CREATE TABLE\<close>

text \<open>\<open>action\<close> is the word of the message: create or drop.\<close>

definition check_entry_type :: "catalog_entry option \<Rightarrow> CatalogType \<Rightarrow> string \<Rightarrow> string \<Rightarrow> unit result" where
  "check_entry_type existing expected name action = (case existing of
     None \<Rightarrow> Inr ()
   | Some e \<Rightarrow> check (e_type e = expected)
       (CatalogException (''Existing object is of another type, trying to '' @ action) [name]))"

text \<open>What CREATE TABLE gives for a table that is there: no entry for IF NOT EXISTS, else an error.\<close>

definition on_existing_table ::
  "OnCreateConflict \<Rightarrow> string \<Rightarrow> string \<Rightarrow> catalog_entry option result" where
  "on_existing_table on_conflict database_name name = (case on_conflict of
     IGNORE_ON_CONFLICT \<Rightarrow> Inr None
   | ERROR_ON_CONFLICT \<Rightarrow>
       Inl (CatalogException ''Table already exists in Glue database'' [name, database_name])
   | _ \<Rightarrow> Inl (NotImplementedException ''CREATE OR REPLACE TABLE is not supported for Glue catalogs'' []))"

text \<open>\<open>BuildTableInfo\<close>: the location of a table is asked for between its options and its columns.\<close>

definition location_of_new_table ::
  "duckdb \<Rightarrow> glue_catalog \<Rightarrow> 'w service \<Rightarrow> string \<Rightarrow> GlueCreateTableOptions \<Rightarrow> ('w schema_state, string) comp" where
  "location_of_new_table D cat S name go =
     (if go_location go \<noteq> [] then return_op (go_location go)
      else bind_op (if cat_default_location cat = [] then get_schema_info cat S
                    else (\<lambda>st. (Inr (se_database_info (fst st)), st))) (\<lambda>database.
        lift_op (get_table_location D cat database name)))"

definition build_table_info ::
  "duckdb \<Rightarrow> glue_catalog \<Rightarrow> 'w service \<Rightarrow> create_table_info \<Rightarrow> ('w schema_state, GlueTableInfo) comp" where
  "build_table_info D cat S info st =
     bind_op (lift_op (resolve_create_table D (settings_of st) info)) (\<lambda>(go, partition_columns).
     bind_op (location_of_new_table D cat S (cti_table_name info) go) (\<lambda>location.
       lift_op (table_definition D info go partition_columns (database_of st) location))) st"

definition overwrite_given :: "duckdb \<Rightarrow> create_table_info \<Rightarrow> bool" where
  "overwrite_given D info \<longleftrightarrow> (\<exists>option\<in>set (cti_options info). CIEquals D (fst option) ''overwrite'')"

text \<open>\<open>resolved\<close> is the definition CREATE TABLE AS resolved when it was planned.\<close>

definition create_table_internal ::
  "duckdb \<Rightarrow> glue_catalog \<Rightarrow> 'w service \<Rightarrow> create_table_info \<Rightarrow> GlueTableInfo option
     \<Rightarrow> ('w schema_state, catalog_entry option) comp" where
  "create_table_internal D cat S info resolved st =
     (let name = cti_table_name info; conflict = on_existing_table (cti_on_conflict info) (database_of st) name in
      bind_op (with_session refuse_explicit_transaction) (\<lambda>_.
      bind_op (entry_named D cat S name) (\<lambda>existing.
      bind_op (lift_op (check_entry_type existing TABLE_ENTRY name ''create'')) (\<lambda>_.
        if existing \<noteq> None then lift_op conflict
        else if resolved = None \<and> overwrite_given D info
        then throw_op (BinderException ''option overwrite is only for CREATE TABLE AS'' [])
        else
          bind_op (case resolved of Some t \<Rightarrow> return_op t | None \<Rightarrow> build_table_info D cat S info) (\<lambda>table.
          bind_op (with_session (create_hive_table D cat S table)) (\<lambda>outcome.
            case outcome of
              ALREADY_EXISTED \<Rightarrow>
                bind_op (entry_named D cat S name) (\<lambda>raced.
                bind_op (lift_op (check (raced \<noteq> None)
                  (CatalogException ''Glue table exists but could not be fetched'' [name]))) (\<lambda>_.
                bind_op (lift_op (check_entry_type raced TABLE_ENTRY name ''create'')) (\<lambda>_.
                  lift_op conflict)))
            | CREATED \<Rightarrow>
                bind_op (fetch_table D cat S name
                  (CatalogException ''Glue table was created but could not be fetched afterwards'' [name])) (\<lambda>created.
                bind_op (adopt_table D created) (\<lambda>entry. return_op (Some entry)))))))) st)"

definition create_table ::
  "duckdb \<Rightarrow> glue_catalog \<Rightarrow> 'w service \<Rightarrow> create_table_info \<Rightarrow> ('w schema_state, catalog_entry option) comp" where
  "create_table D cat S info = create_table_internal D cat S info None"

definition create_table_from_info ::
  "duckdb \<Rightarrow> glue_catalog \<Rightarrow> 'w service \<Rightarrow> create_table_info \<Rightarrow> GlueTableInfo
     \<Rightarrow> ('w schema_state, catalog_entry option) comp" where
  "create_table_from_info D cat S info t = create_table_internal D cat S info (Some t)"

subsection \<open>ALTER TABLE on the columns\<close>

text \<open>
  \<open>ALTER_COLUMN_TYPE path type plain\<close>: \<open>plain\<close> says that the expression of the statement is none or the cast the
  binder fills in without USING.
\<close>

datatype AlterTableInfo =
    ADD_COLUMN column_definition bool
  | REMOVE_COLUMN string bool
  | RENAME_COLUMN string string
  | ALTER_COLUMN_TYPE "string list" LogicalType bool
  | SET_TABLE_OPTIONS options
  | RESET_TABLE_OPTIONS "string list"
  | OTHER_ALTER_TABLE string

datatype AlterInfo =
    ALTER_TABLE AlterTableInfo
  | SET_COLUMN_COMMENT string Value
  | SET_COMMENT Value
  | ALTER_VIEW
  | OTHER_ALTER string

definition position_of :: "duckdb \<Rightarrow> GlueColumn list \<Rightarrow> string \<Rightarrow> nat option" where
  "position_of D columns name = find_index (\<lambda>c. CIEquals D (col_name c) name) columns"

definition names_partition_key :: "duckdb \<Rightarrow> GlueTableInfo \<Rightarrow> string \<Rightarrow> bool" where
  "names_partition_key D t name \<longleftrightarrow> (\<exists>c\<in>set (t_partition_keys t). CIEquals D (col_name c) name)"

definition check_not_clustering :: "duckdb \<Rightarrow> GlueTableInfo \<Rightarrow> string \<Rightarrow> string \<Rightarrow> unit result" where
  "check_not_clustering D t name action =
     (if \<exists>c\<in>set (t_bucket_columns t). CIEquals D c name
      then Inl (CatalogException (''Column is a bucket column and can not be '' @ action) [name, t_name t])
      else if \<exists>c\<in>set (t_sort_columns t). CIEquals D (col_name c) name
      then Inl (CatalogException (''Column is a sort column and can not be '' @ action) [name, t_name t])
      else Inr ())"

definition no_such_column :: "GlueTableInfo \<Rightarrow> string \<Rightarrow> exn" where
  "no_such_column t name = CatalogException ''Table does not have a column with name'' [t_name t, name]"

text \<open>The columns a statement leaves, \<open>None\<close> where it has nothing to do.\<close>

definition add_column ::
  "duckdb \<Rightarrow> GlueTableInfo \<Rightarrow> column_definition \<Rightarrow> bool \<Rightarrow> GlueColumn list option result" where
  "add_column D t c if_not_exists =
     (if position_of D (t_columns t) (cd_name c) \<noteq> None \<or> names_partition_key D t (cd_name c)
      then if if_not_exists then Inr None
           else Inl (CatalogException ''Column already exists in table'' [cd_name c, t_name t])
      else and_then (throw_if_unsupported_column D c) (\<lambda>_.
           and_then (from_logical_type D (cd_type c)) (\<lambda>type.
             Inr (Some (t_columns t @ [new_column\<lparr>col_name := cd_name c, col_type := type\<rparr>])))))"

definition remove_column ::
  "duckdb \<Rightarrow> GlueTableInfo \<Rightarrow> string \<Rightarrow> bool \<Rightarrow> GlueColumn list option result" where
  "remove_column D t name if_exists =
     (if names_partition_key D t name
      then Inl (CatalogException ''Column is a partition key and can not be dropped'' [name, t_name t])
      else if position_of D (t_columns t) name = None
      then if if_exists then Inr None else Inl (no_such_column t name)
      else and_then (check_not_clustering D t name ''dropped'') (\<lambda>_.
           and_then (get_file_format D t) (\<lambda>file_format.
             if file_format = CSV
             then Inl (CatalogException ''DROP COLUMN is not supported for csv (text) tables'' [name, t_name t])
             else if length (t_columns t) = 1
             then Inl (CatalogException ''table needs at least one column'' [name, t_name t])
             else Inr (Some (filter (\<lambda>c. \<not> CIEquals D (col_name c) name) (t_columns t))))))"

definition rename_column ::
  "duckdb \<Rightarrow> GlueTableInfo \<Rightarrow> string \<Rightarrow> string \<Rightarrow> GlueColumn list option result" where
  "rename_column D t name new_name = (case position_of D (t_columns t) name of
     None \<Rightarrow> Inl (if names_partition_key D t name
       then CatalogException ''Column is a partition key and can not be renamed'' [name, t_name t]
       else no_such_column t name)
   | Some i \<Rightarrow>
       if position_of D (t_columns t) new_name \<notin> {None, Some i} \<or> names_partition_key D t new_name
       then Inl (CatalogException ''Column already exists in table'' [new_name, t_name t])
       else and_then (get_file_format D t) (\<lambda>file_format.
         if file_format \<noteq> CSV
         then Inl (NotImplementedException ''its data files are matched to the columns by name'' [name, t_name t])
         else and_then (check_not_clustering D t (col_name (t_columns t ! i)) ''renamed'') (\<lambda>_.
           Inr (Some ((t_columns t)[i := (t_columns t ! i)\<lparr>col_name := new_name\<rparr>])))))"

definition alter_column_type ::
  "duckdb \<Rightarrow> GlueTableInfo \<Rightarrow> string list \<Rightarrow> LogicalType \<Rightarrow> bool \<Rightarrow> GlueColumn list option result" where
  "alter_column_type D t path target_type plain_cast =
     (let name = hd path in
      if length path > 1
      then Inl (NotImplementedException ''Changing the type of a nested field is not yet supported'' [])
      else if names_partition_key D t name
      then Inl (CatalogException ''Column is a partition key and its type can not be changed'' [name, t_name t])
      else case position_of D (t_columns t) name of
        None \<Rightarrow> Inl (no_such_column t name)
      | Some i \<Rightarrow>
          and_then (throw_if_collated D target_type name) (\<lambda>_.
          and_then (check plain_cast
            (NotImplementedException ''ALTER COLUMN TYPE USING is not supported for Hive tables'' [])) (\<lambda>_.
          and_then (to_logical_type D (col_type (t_columns t ! i))) (\<lambda>from.
          and_then (check (is_allowed_hive_type_change D from target_type)
            (CatalogException ''only widening changes are supported for Hive tables'' [name, t_name t])) (\<lambda>_.
          and_then (from_logical_type D target_type) (\<lambda>type.
            Inr (Some ((t_columns t)[i := (t_columns t ! i)\<lparr>col_type := type\<rparr>]))))))))"

fun altered_columns :: "duckdb \<Rightarrow> GlueTableInfo \<Rightarrow> AlterTableInfo \<Rightarrow> GlueColumn list option result" where
  "altered_columns D t (ADD_COLUMN c if_not_exists) = add_column D t c if_not_exists"
| "altered_columns D t (REMOVE_COLUMN name if_exists) = remove_column D t name if_exists"
| "altered_columns D t (RENAME_COLUMN name new_name) = rename_column D t name new_name"
| "altered_columns D t (ALTER_COLUMN_TYPE path type plain_cast) = alter_column_type D t path type plain_cast"
| "altered_columns D t other = Inl (NotImplementedException ''ALTER TABLE is not supported for Glue tables'' [])"

subsection \<open>Comments and properties\<close>

definition comment_text :: "duckdb \<Rightarrow> Value \<Rightarrow> string" where
  "comment_text D v = (if value_is_null v then [] else ValueToString D v)"

definition set_comment_at :: "nat \<Rightarrow> string \<Rightarrow> GlueColumn list \<Rightarrow> GlueColumn list" where
  "set_comment_at i comment columns = columns[i := (columns ! i)\<lparr>col_comment := comment\<rparr>]"

definition set_column_comment ::
  "duckdb \<Rightarrow> glue_catalog \<Rightarrow> 'w service \<Rightarrow> GlueTableInfo \<Rightarrow> string \<Rightarrow> Value \<Rightarrow> ('w, unit) op" where
  "set_column_comment D cat S t name v = (case position_of D (t_partition_keys t) name of
     Some i \<Rightarrow> update_table_partition_keys D cat S t (set_comment_at i (comment_text D v) (t_partition_keys t))
   | None \<Rightarrow>
       (case position_of D (t_columns t) name of
          None \<Rightarrow> throw_op (no_such_column t name)
        | Some i \<Rightarrow> update_table_columns D cat S t (set_comment_at i (comment_text D v) (t_columns t))))"

definition set_table_comment ::
  "duckdb \<Rightarrow> glue_catalog \<Rightarrow> 'w service \<Rightarrow> GlueTableInfo \<Rightarrow> Value \<Rightarrow> ('w, unit) op" where
  "set_table_comment D cat S t v = update_table_description D cat S t (comment_text D v)"

text \<open>The parameters SET and RESET leave: the entries to set, and the names to remove.\<close>

definition table_option :: "duckdb \<Rightarrow> string \<times> Value \<Rightarrow> (string \<times> string) result" where
  "table_option D option = and_then (check_table_property_changeable D (fst option)) (\<lambda>_.
     and_then (string_value D (snd option)) (\<lambda>text. Inr (fst option, text)))"

definition property_changes :: "duckdb \<Rightarrow> AlterTableInfo \<Rightarrow> ((string \<times> string) list \<times> string list) result" where
  "property_changes D change = (case change of
     SET_TABLE_OPTIONS options \<Rightarrow>
       and_then (evaluate_options ''ALTER TABLE SET'' options) (\<lambda>evaluated.
       and_then (collect (table_option D) evaluated) (\<lambda>entries. Inr (entries, [])))
   | RESET_TABLE_OPTIONS names \<Rightarrow>
       and_then (check_each (check_table_property_changeable D) names) (\<lambda>_. Inr ([], names))
   | _ \<Rightarrow> Inr ([], []))"

definition alter_table_properties ::
  "duckdb \<Rightarrow> glue_catalog \<Rightarrow> 'w service \<Rightarrow> GlueTableInfo \<Rightarrow> AlterTableInfo \<Rightarrow> ('w, unit) op" where
  "alter_table_properties D cat S t change =
     bind_op (lift_op (property_changes D change)) (\<lambda>(entries, names).
       update_table_parameters D cat S t entries names)"

subsection \<open>ALTER\<close>

text \<open>What an ALTER does to the table of Glue; \<open>False\<close> when there is nothing to do and nothing to read back.\<close>

definition alter_glue_table ::
  "duckdb \<Rightarrow> glue_catalog \<Rightarrow> 'w service \<Rightarrow> GlueTableInfo \<Rightarrow> AlterInfo \<Rightarrow> ('w, bool) op" where
  "alter_glue_table D cat S t info = (case info of
     SET_COLUMN_COMMENT name v \<Rightarrow> bind_op (set_column_comment D cat S t name v) (\<lambda>_. return_op True)
   | SET_COMMENT v \<Rightarrow> bind_op (set_table_comment D cat S t v) (\<lambda>_. return_op True)
   | ALTER_TABLE (SET_TABLE_OPTIONS options) \<Rightarrow>
       bind_op (alter_table_properties D cat S t (SET_TABLE_OPTIONS options)) (\<lambda>_. return_op True)
   | ALTER_TABLE (RESET_TABLE_OPTIONS names) \<Rightarrow>
       bind_op (alter_table_properties D cat S t (RESET_TABLE_OPTIONS names)) (\<lambda>_. return_op True)
   | ALTER_TABLE change \<Rightarrow>
       bind_op (lift_op (altered_columns D t change)) (\<lambda>columns. case columns of
         None \<Rightarrow> return_op False
       | Some cs \<Rightarrow> bind_op (update_table_columns D cat S t cs) (\<lambda>_. return_op True))
   | _ \<Rightarrow> throw_op (NotImplementedException ''Only ALTER TABLE is supported for Glue tables'' []))"

definition refuse_view :: "string \<Rightarrow> AlterInfo \<Rightarrow> exn" where
  "refuse_view name info = (case info of
     ALTER_VIEW \<Rightarrow> NotImplementedException ''Glue cannot rename a view'' []
   | SET_COMMENT v \<Rightarrow> NotImplementedException ''Comments on Glue views are not supported yet'' []
   | SET_COLUMN_COMMENT column v \<Rightarrow> NotImplementedException ''Comments on Glue views are not supported yet'' []
   | _ \<Rightarrow> BinderException ''is a view'' [name])"

definition alter ::
  "duckdb \<Rightarrow> glue_catalog \<Rightarrow> 'w service \<Rightarrow> string \<Rightarrow> AlterInfo \<Rightarrow> ('w schema_state, unit) comp" where
  "alter D cat S name info st =
     bind_op (with_session refuse_explicit_transaction) (\<lambda>_.
     bind_op (entry_named D cat S name) (\<lambda>found. case found of
       None \<Rightarrow> throw_op (CatalogException ''Table does not exist in Glue database'' [name, database_of st])
     | Some entry \<Rightarrow>
         if e_type entry = VIEW_ENTRY then throw_op (refuse_view name info)
         else bind_op (definition_for_write D cat S entry) (\<lambda>current.
           if \<not> is_hive (detect_format D current)
           then throw_op (NotImplementedException ''ALTER TABLE is only supported for Hive tables in a Glue catalog''
                  [name, describe_format (detect_format D current) current])
           else bind_op (with_session (alter_glue_table D cat S current info)) (\<lambda>changed.
             if changed
             then bind_op (refresh_table D cat S
                    (case info of ALTER_TABLE (SET_TABLE_OPTIONS _) \<Rightarrow> t_name current
                     | ALTER_TABLE (RESET_TABLE_OPTIONS _) \<Rightarrow> t_name current
                     | ALTER_TABLE _ \<Rightarrow> name | _ \<Rightarrow> t_name current)) (\<lambda>_. return_op ())
             else return_op ())))) st"

subsection \<open>DROP and lookups\<close>

definition written_elsewhere :: "catalog_entry \<Rightarrow> bool" where
  "written_elsewhere e \<longleftrightarrow> (case e_view e of None \<Rightarrow> False | Some v \<Rightarrow> \<not> vw_is_duckdb_view v)"

definition drop_entry ::
  "duckdb \<Rightarrow> glue_catalog \<Rightarrow> 'w service \<Rightarrow> CatalogType \<Rightarrow> string \<Rightarrow> bool \<Rightarrow> ('w schema_state, unit) comp" where
  "drop_entry D cat S type name if_exists st =
     bind_op (lift_op (check (catalog_type_is_supported type)
       (NotImplementedException ''Glue databases only support dropping tables'' []))) (\<lambda>_.
     bind_op (with_session refuse_explicit_transaction) (\<lambda>_.
     bind_op (entry_named D cat S name) (\<lambda>existing. case existing of
       None \<Rightarrow> if if_exists then return_op ()
               else throw_op (CatalogException ''does not exist in Glue database'' [name, database_of st])
     | Some entry \<Rightarrow>
         bind_op (lift_op (check_entry_type existing type name ''drop'')) (\<lambda>_.
         bind_op (lift_op (check (\<not> written_elsewhere entry)
           (CatalogException ''Glue view was not written by DuckDB; drop it from the engine that wrote it'' [name]))) (\<lambda>_.
         bind_op (with_session (delete_table D cat S (database_of st) name)) (\<lambda>_.
           on_tables (\<lambda>st. (Inr (), remove_table_entry D name st)))))))) st"

definition scan ::
  "nat \<Rightarrow> duckdb \<Rightarrow> glue_catalog \<Rightarrow> 'w service \<Rightarrow> CatalogType \<Rightarrow> ('w schema_state, catalog_entry list) comp" where
  "scan fuel D cat S type st =
     (if catalog_type_is_supported type then on_tables (scan_entries fuel D cat S (database_of st)) st
      else (Inr [], st))"

definition lookup_entry ::
  "duckdb \<Rightarrow> glue_catalog \<Rightarrow> 'w service \<Rightarrow> CatalogType \<Rightarrow> string \<Rightarrow> ('w schema_state, catalog_entry option) comp" where
  "lookup_entry D cat S type name st =
     (if catalog_type_is_supported type then entry_named D cat S name st else (Inr None, st))"

text \<open>\<open>Scan\<close> with a filter: \<open>name_equality\<close> is the name a filter asks for, \<open>None\<close> when the scan is over all.\<close>

definition scan_filtered ::
  "nat \<Rightarrow> duckdb \<Rightarrow> glue_catalog \<Rightarrow> 'w service \<Rightarrow> CatalogType \<Rightarrow> string option
     \<Rightarrow> ('w schema_state, catalog_entry list) comp" where
  "scan_filtered fuel D cat S type name_equality = (case name_equality of
     Some name \<Rightarrow> if catalog_type_is_supported type
       then bind_op (entry_named D cat S name) (\<lambda>found. return_op (case found of None \<Rightarrow> [] | Some e \<Rightarrow> [e]))
       else scan fuel D cat S type
   | None \<Rightarrow> scan fuel D cat S type)"

subsection \<open>What an ALTER leaves of the columns\<close>

text \<open>
  A table Glue can hold: the names of its columns and partition keys differ also without their case, there is a
  column, and what the files are clustered by are columns.
\<close>

definition column_key :: "duckdb \<Rightarrow> GlueColumn \<Rightarrow> string" where
  "column_key D c = Lower D (col_name c)"

definition column_keys :: "duckdb \<Rightarrow> GlueColumn list \<Rightarrow> string list" where
  "column_keys D columns = map (column_key D) columns"

definition clustering_keys :: "duckdb \<Rightarrow> GlueTableInfo \<Rightarrow> string set" where
  "clustering_keys D t = Lower D ` (set (t_bucket_columns t) \<union> col_name ` set (t_sort_columns t))"

definition keys_ok :: "string set \<Rightarrow> string list \<Rightarrow> string list \<Rightarrow> bool" where
  "keys_ok clustering partition_keys keys \<longleftrightarrow>
     distinct (keys @ partition_keys) \<and> keys \<noteq> [] \<and> clustering \<subseteq> set keys"

definition columns_ok :: "duckdb \<Rightarrow> GlueTableInfo \<Rightarrow> GlueColumn list \<Rightarrow> bool" where
  "columns_ok D t columns \<longleftrightarrow>
     keys_ok (clustering_keys D t) (column_keys D (t_partition_keys t)) (column_keys D columns)"

lemma keys_ok_append:
  "keys_ok C P K \<Longrightarrow> k \<notin> set K \<Longrightarrow> k \<notin> set P \<Longrightarrow> keys_ok C P (K @ [k])"
  by (auto simp: keys_ok_def)

lemma keys_ok_filter:
  assumes "keys_ok C P K" "k \<notin> C" "length K \<noteq> 1"
  shows "keys_ok C P (filter (\<lambda>k'. k' \<noteq> k) K)"
proof -
  have d: "distinct K" and K: "K \<noteq> []" using assms(1) by (simp_all add: keys_ok_def)
  have "filter (\<lambda>k'. k' \<noteq> k) K \<noteq> []"
  proof
    assume "filter (\<lambda>k'. k' \<noteq> k) K = []"
    then have "set K \<subseteq> {k}" by (auto simp: filter_empty_conv)
    then have "length K \<le> 1" using card_mono [of "{k}" "set K"] distinct_card [OF d] by simp
    moreover have "0 < length K" using K by simp
    ultimately show False using assms(3) by simp
  qed
  with assms show ?thesis by (auto simp: keys_ok_def)
qed

lemma keys_ok_update:
  assumes "keys_ok C P K" "i < length K" "K ! i \<notin> C" "k \<notin> set K" "k \<notin> set P"
  shows "keys_ok C P (K[i := k])"
proof -
  have d: "distinct K" "set K \<inter> set P = {}" "distinct P" "C \<subseteq> set K" using assms(1) by (auto simp: keys_ok_def)
  have set: "set (K[i := k]) = insert k (set K - {K ! i})"
    using d(1) assms(2) by (rule set_update_distinct)
  then have "distinct (K[i := k] @ P)"
    using d assms(2,4,5) by (auto simp: distinct_list_update)
  moreover have "C \<subseteq> set (K[i := k])" using set d(4) assms(3) by auto
  moreover have "K[i := k] \<noteq> []" using assms(2) by auto
  ultimately show ?thesis by (simp add: keys_ok_def)
qed

text \<open>The type a column is given reads everything the old type wrote.\<close>

definition widened :: "duckdb \<Rightarrow> GlueColumn \<Rightarrow> GlueColumn \<Rightarrow> bool" where
  "widened D old new \<longleftrightarrow> col_type new = col_type old \<or>
     (\<exists>from_type to_type. to_logical_type D (col_type old) = Inr from_type \<and>
        from_logical_type D to_type = Inr (col_type new) \<and> is_allowed_hive_type_change D from_type to_type)"

text \<open>Text files are read by position, the others by the names of their columns.\<close>

definition reads_old_files :: "duckdb \<Rightarrow> GlueTableInfo \<Rightarrow> GlueColumn list \<Rightarrow> bool" where
  "reads_old_files D t columns \<longleftrightarrow>
     (if get_file_format D t = Inr CSV
      then length (t_columns t) \<le> length columns \<and>
           (\<forall>i<length (t_columns t). widened D (t_columns t ! i) (columns ! i))
      else \<forall>old\<in>set (t_columns t). \<forall>new\<in>set columns. CIEquals D (col_name old) (col_name new) \<longrightarrow> widened D old new)"

lemma widened_same: "col_type new = col_type old \<Longrightarrow> widened D old new"
  by (simp add: widened_def)

context string_util
begin

lemma names_partition_key_iff: "names_partition_key D t name \<longleftrightarrow> Lower D name \<in> set (column_keys D (t_partition_keys t))"
  by (force simp: names_partition_key_def column_keys_def column_key_def CIEquals)

lemma position_of_None_iff: "position_of D columns name = None \<longleftrightarrow> Lower D name \<notin> set (column_keys D columns)"
  by (force simp: position_of_def find_index_None_iff column_keys_def column_key_def CIEquals)

lemma position_of_SomeD:
  assumes "position_of D columns name = Some i"
  shows "i < length columns" "column_keys D columns ! i = Lower D name" "column_key D (columns ! i) = Lower D name"
  using find_index_SomeD(1,2) [of "\<lambda>c. CIEquals D (col_name c) name" columns i] assms
  by (simp_all add: position_of_def column_keys_def column_key_def CIEquals)

lemma check_not_clustering_iff:
  "check_not_clustering D t name action = Inr u \<longleftrightarrow> Lower D name \<notin> clustering_keys D t"
proof -
  have "Lower D name \<in> clustering_keys D t \<longleftrightarrow>
      (\<exists>c\<in>set (t_bucket_columns t). Lower D name = Lower D c) \<or>
      (\<exists>c\<in>set (t_sort_columns t). Lower D name = Lower D (col_name c))"
    by (simp add: clustering_keys_def image_Un bex_Un image_iff)
  then show ?thesis by (simp add: check_not_clustering_def CIEquals eq_commute)
qed

lemma columns_ok_inj: "columns_ok D t columns \<Longrightarrow> inj_on (column_key D) (set columns)"
  by (simp add: columns_ok_def keys_ok_def column_keys_def distinct_map)

lemma same_column:
  assumes "columns_ok D t columns" "old \<in> set columns" "new \<in> set columns" "CIEquals D (col_name old) (col_name new)"
  shows "old = new"
  using columns_ok_inj [OF assms(1)] assms(2-4) by (simp add: inj_on_def column_key_def CIEquals)

lemma add_column_ok:
  assumes ok: "columns_ok D t (t_columns t)" and "add_column D t c if_not_exists = Inr (Some columns)"
  shows "columns_ok D t columns" "reads_old_files D t columns"
proof -
  from assms(2) obtain type where new: "position_of D (t_columns t) (cd_name c) = None" "\<not> names_partition_key D t (cd_name c)"
    and cs: "columns = t_columns t @ [new_column\<lparr>col_name := cd_name c, col_type := type\<rparr>]"
    by (auto simp: add_column_def result_simps split: if_splits)
  have keys: "column_keys D columns = column_keys D (t_columns t) @ [Lower D (cd_name c)]"
    by (simp add: cs column_keys_def column_key_def)
  show "columns_ok D t columns"
    unfolding columns_ok_def keys
    by (rule keys_ok_append [OF ok [unfolded columns_ok_def]])
      (use new in \<open>simp_all add: position_of_None_iff names_partition_key_iff\<close>)
  have "widened D old col"
    if "old \<in> set (t_columns t)" "col \<in> set columns" "CIEquals D (col_name old) (col_name col)" for old col
  proof -
    have "Lower D (cd_name c) \<noteq> column_key D old"
      using that(1) new(1) by (auto simp: position_of_None_iff column_keys_def)
    with that(2,3) cs have "col \<in> set (t_columns t)"
      by (auto simp: column_key_def CIEquals)
    from same_column [OF ok that(1) this that(3)] show ?thesis by (simp add: widened_same)
  qed
  then show "reads_old_files D t columns"
    using cs by (simp add: reads_old_files_def nth_append widened_same)
qed

lemma remove_column_ok:
  assumes ok: "columns_ok D t (t_columns t)" and "remove_column D t name if_exists = Inr (Some columns)"
  shows "columns_ok D t columns" "reads_old_files D t columns"
proof -
  from assms(2) obtain file_format where l: "length (t_columns t) \<noteq> 1"
    and f: "get_file_format D t = Inr file_format" "file_format \<noteq> CSV"
    and plain: "Lower D name \<notin> clustering_keys D t"
    and cs: "columns = filter (\<lambda>c. \<not> CIEquals D (col_name c) name) (t_columns t)"
    by (auto simp: remove_column_def result_simps check_not_clustering_iff split: if_splits)
  have keys: "column_keys D columns = filter (\<lambda>k. k \<noteq> Lower D name) (column_keys D (t_columns t))"
    by (simp add: cs column_keys_def column_key_def filter_map comp_def CIEquals)
  show "columns_ok D t columns"
    unfolding columns_ok_def keys
    by (rule keys_ok_filter [OF ok [unfolded columns_ok_def] plain]) (use l in \<open>simp add: column_keys_def\<close>)
  have "widened D old new"
    if "old \<in> set (t_columns t)" "new \<in> set columns" "CIEquals D (col_name old) (col_name new)" for old new
    using same_column [OF ok that(1) _ that(3)] that(2) by (simp add: cs widened_same)
  with f show "reads_old_files D t columns" by (simp add: reads_old_files_def)
qed

lemma rename_column_ok:
  assumes ok: "columns_ok D t (t_columns t)" and "rename_column D t name new_name = Inr (Some columns)"
  shows "columns_ok D t columns" "reads_old_files D t columns"
proof -
  from assms(2) obtain i where i: "position_of D (t_columns t) name = Some i"
    and free: "position_of D (t_columns t) new_name \<in> {None, Some i}" "\<not> names_partition_key D t new_name"
    and f: "get_file_format D t = Inr CSV"
    and plain: "Lower D (col_name (t_columns t ! i)) \<notin> clustering_keys D t"
    and cs: "columns = (t_columns t)[i := (t_columns t ! i)\<lparr>col_name := new_name\<rparr>]"
    by (auto simp: rename_column_def result_simps check_not_clustering_iff split: if_splits option.splits)
  note i' = position_of_SomeD [OF i]
  have keys: "column_keys D columns = (column_keys D (t_columns t))[i := Lower D new_name]"
    by (simp add: cs column_keys_def column_key_def map_update)
  show "columns_ok D t columns"
  proof (cases "position_of D (t_columns t) new_name")
    case None
    have "column_keys D (t_columns t) ! i \<notin> clustering_keys D t"
      using plain i' by (simp add: column_key_def)
    then show ?thesis
      unfolding columns_ok_def keys
      by (rule keys_ok_update [OF ok [unfolded columns_ok_def], rotated])
        (use None free(2) i' in \<open>simp_all add: position_of_None_iff names_partition_key_iff column_keys_def\<close>)
  next
    case (Some j)
    with free(1) have "position_of D (t_columns t) new_name = Some i" by simp
    from position_of_SomeD(2) [OF this] have "column_keys D columns = column_keys D (t_columns t)"
      by (metis keys list_update_id)
    with ok show ?thesis by (simp add: columns_ok_def)
  qed
  have "widened D (t_columns t ! j) (columns ! j)" if "j < length (t_columns t)" for j
    using that by (cases "j = i") (simp_all add: cs widened_same)
  with f show "reads_old_files D t columns"
    by (simp add: reads_old_files_def) (simp add: cs)
qed

lemma alter_column_type_ok:
  assumes ok: "columns_ok D t (t_columns t)"
    and "alter_column_type D t path target_type plain_cast = Inr (Some columns)"
  shows "columns_ok D t columns" "reads_old_files D t columns"
proof -
  from assms(2) obtain i from_type type where i: "position_of D (t_columns t) (hd path) = Some i"
    and change: "to_logical_type D (col_type (t_columns t ! i)) = Inr from_type"
      "is_allowed_hive_type_change D from_type target_type" "from_logical_type D target_type = Inr type"
    and cs: "columns = (t_columns t)[i := (t_columns t ! i)\<lparr>col_type := type\<rparr>]"
    by (auto simp: alter_column_type_def Let_def result_simps split: if_splits option.splits)
  note i' = position_of_SomeD [OF i]
  have "map (column_key D) columns = (map (column_key D) (t_columns t))[i := column_key D (t_columns t ! i)]"
    by (simp add: cs column_key_def map_update)
  moreover have "map (column_key D) (t_columns t) ! i = column_key D (t_columns t ! i)" using i'(1) by simp
  ultimately have keys: "column_keys D columns = column_keys D (t_columns t)"
    by (metis column_keys_def list_update_id)
  with ok show ok': "columns_ok D t columns" by (simp add: columns_ok_def)
  have w: "widened D (t_columns t ! i) ((t_columns t ! i)\<lparr>col_type := type\<rparr>)"
    unfolding widened_def using change by auto
  have at: "widened D (t_columns t ! j) (columns ! j)" if "j < length (t_columns t)" for j
    using that w by (cases "j = i") (simp_all add: cs widened_same)
  have "widened D old new"
    if old: "old \<in> set (t_columns t)" and new: "new \<in> set columns" and same: "CIEquals D (col_name old) (col_name new)" for old new
  proof -
    from new obtain j where j: "j < length (t_columns t)" "new = columns ! j" by (auto simp: cs in_set_conv_nth)
    have "column_key D (columns ! j) = column_key D (t_columns t ! j)"
      using j(1) arg_cong [OF keys, of "\<lambda>l. l ! j"] by (simp add: column_keys_def cs)
    with j same have "CIEquals D (col_name old) (col_name (t_columns t ! j))"
      by (simp add: column_key_def CIEquals)
    from same_column [OF ok old nth_mem [OF j(1)] this] at [OF j(1)] j(2) show ?thesis by simp
  qed
  with at show "reads_old_files D t columns"
    by (simp add: reads_old_files_def) (simp add: cs)
qed

lemma altered_columns_ok:
  assumes "columns_ok D t (t_columns t)" "altered_columns D t change = Inr (Some columns)"
  shows "columns_ok D t columns \<and> reads_old_files D t columns"
proof (cases change)
  case (ADD_COLUMN c b)
  with assms add_column_ok [of t c b columns] show ?thesis by simp
next
  case (REMOVE_COLUMN name b)
  with assms remove_column_ok [of t name b columns] show ?thesis by simp
next
  case (RENAME_COLUMN name new_name)
  with assms rename_column_ok [of t name new_name columns] show ?thesis by simp
next
  case (ALTER_COLUMN_TYPE path type plain_cast)
  with assms alter_column_type_ok [of t path type plain_cast columns] show ?thesis by simp
qed (use assms in simp_all)

end

text \<open>
  C10: ALTER TABLE keeps the columns of a table well formed. If their names, with the partition keys, differ also
  without their case, there is a column and everything the files are clustered by is one, then so it is after any
  ADD, DROP, RENAME COLUMN or change of a type that is not refused.
\<close>

theorem altered_columns_stay_ok:
  assumes "string_util D" "columns_ok D t (t_columns t)" "altered_columns D t change = Inr (Some columns)"
  shows "columns_ok D t columns"
  using string_util.altered_columns_ok [OF assms] by blast

definition sample_columns :: GlueTableInfo where
  "sample_columns = new_table\<lparr>t_name := ''events'',
     t_columns := [new_column\<lparr>col_name := ''id'', col_type := ''int''\<rparr>, new_column\<lparr>col_name := ''Name'', col_type := ''string''\<rparr>],
     t_partition_keys := [new_column\<lparr>col_name := ''day'', col_type := ''string''\<rparr>],
     t_bucket_columns := [''ID''], t_serde_library := ''org.apache.hadoop.hive.serde2.lazy.LazySimpleSerDe''\<rparr>"

definition sample_change :: AlterTableInfo where
  "sample_change = ALTER_COLUMN_TYPE [''ID''] BIGINT True"

lemma sample_columns_ok: "columns_ok ascii_duckdb sample_columns (t_columns sample_columns)"
  by code_simp

lemma altered_columns_stay_ok_witness:
  "\<exists>columns. altered_columns ascii_duckdb sample_columns sample_change = Inr (Some columns) \<and>
     map col_type columns = [''bigint'', ''string''] \<and> columns_ok ascii_duckdb sample_columns columns"
proof -
  have r: "altered_columns ascii_duckdb sample_columns sample_change =
      Inr (Some [new_column\<lparr>col_name := ''id'', col_type := ''bigint''\<rparr>, new_column\<lparr>col_name := ''Name'', col_type := ''string''\<rparr>])"
    by code_simp
  from altered_columns_stay_ok [OF ascii_ok sample_columns_ok r] r show ?thesis by simp
qed

text \<open>
  C8: a column change leaves what is stored readable. Of a text table, whose files are read by position, every
  column keeps its place and keeps or widens its type; of any other, whose files are read by name, every column
  that is left under an old name has the old type or a wider one.
\<close>

theorem altered_table_reads_old_files:
  assumes "string_util D" "columns_ok D t (t_columns t)" "altered_columns D t change = Inr (Some columns)"
  shows "reads_old_files D t columns"
  using string_util.altered_columns_ok [OF assms] by blast

lemma altered_table_reads_old_files_witness:
  "\<exists>columns. altered_columns ascii_duckdb sample_columns (RENAME_COLUMN ''name'' ''title'') = Inr (Some columns) \<and>
     map col_name columns = [''id'', ''title''] \<and> reads_old_files ascii_duckdb sample_columns columns"
proof -
  have r: "altered_columns ascii_duckdb sample_columns (RENAME_COLUMN ''name'' ''title'') =
      Inr (Some [new_column\<lparr>col_name := ''id'', col_type := ''int''\<rparr>, new_column\<lparr>col_name := ''title'', col_type := ''string''\<rparr>])"
    by code_simp
  from altered_table_reads_old_files [OF ascii_ok sample_columns_ok r] r show ?thesis by simp
qed

subsection \<open>Objects that are there\<close>

lemma with_session_refuse:
  "with_session refuse_explicit_transaction st =
     (if set_auto_commit (settings_of st) then (Inr (), st)
      else (Inl (TransactionException ''Transaction support is not provided for Glue catalogs'' []), st))"
  by (cases st) (simp add: with_session_def on_tables_def on_session_def refuse_explicit_transaction_def settings_of_def)

text \<open>
  C29: CREATE TABLE never touches an object that is there. When the lookup finds one under the name, nothing is
  asked of Glue after it: IF NOT EXISTS gives no entry, everything else is an error, and so is a view of that name
  also with IF NOT EXISTS.
\<close>

theorem create_table_keeps_existing:
  assumes "set_auto_commit (settings_of st)" "entry_named D cat S (cti_table_name info) st = (Inr (Some e), st1)"
  shows "create_table_internal D cat S info resolved st =
    ((if e_type e \<noteq> TABLE_ENTRY
      then Inl (CatalogException ''Existing object is of another type, trying to create'' [cti_table_name info])
      else if cti_on_conflict info = IGNORE_ON_CONFLICT then Inr None
      else if cti_on_conflict info = ERROR_ON_CONFLICT
      then Inl (CatalogException ''Table already exists in Glue database'' [cti_table_name info, database_of st])
      else Inl (NotImplementedException ''CREATE OR REPLACE TABLE is not supported for Glue catalogs'' [])), st1)"
  using assms
  by (cases "cti_on_conflict info")
    (simp_all add: create_table_internal_def bind_op_def with_session_refuse lift_op_def check_entry_type_def check_def
      on_existing_table_def)

definition sample_schema :: "sample_world schema_state" where
  "sample_schema = (\<lparr>se_tables = new_table_set,
     se_database_info = \<lparr>d_catalog_id = [], d_is_resource_link = False, d_name = ''db'', d_description = [], d_location_uri = [], d_parameters = []\<rparr>,
     se_info_loaded = True\<rparr>, sample_session sample_lake)"

lemma sample_schema_commits: "set_auto_commit (settings_of sample_schema)"
  by (simp add: settings_of_def sample_schema_def sample_session_def sample_settings_def)

lemma create_table_keeps_existing_witness:
  "\<exists>st1. create_table_internal ascii_duckdb sample_catalog sample_glue (sample_create []\<lparr>cti_table_name := ''a''\<rparr>) None
     sample_schema = (Inl (CatalogException ''Table already exists in Glue database'' [''a'', ''db'']), st1) \<and>
     sw_tables (s_world (snd st1)) = sw_tables sample_lake"
proof -
  let ?found = "entry_named ascii_duckdb sample_catalog sample_glue ''a'' sample_schema"
  let ?info = "sample_create []\<lparr>cti_table_name := ''a''\<rparr>"
  have t: "fst ?found = Inr (Some (the (projr (fst ?found))))" "e_type (the (projr (fst ?found))) = TABLE_ENTRY"
    "sw_tables (s_world (snd (snd ?found))) = sw_tables sample_lake"
    by code_simp+
  have n: "cti_table_name ?info = ''a''" "cti_on_conflict ?info = ERROR_ON_CONFLICT"
    by (simp_all add: sample_create_def)
  from t(1) have "entry_named ascii_duckdb sample_catalog sample_glue (cti_table_name ?info) sample_schema =
      (Inr (Some (the (projr (fst ?found)))), snd ?found)"
    by (simp add: n prod_eq_iff)
  from create_table_keeps_existing [OF sample_schema_commits this, of None] t(2,3) show ?thesis
    by (simp add: n database_of_def sample_schema_def)
qed

text \<open>
  C27: what DROP takes away. When it returns, either the lookup found nothing, which only IF EXISTS allows, and
  nothing else was done; or it found an object of the kind asked for that no other engine's view is, Glue deleted
  it, and the set has no entry of that name in any case.
\<close>

theorem drop_takes_what_was_asked:
  assumes "string_util D" "drop_entry D cat S type name if_exists st = (Inr (), st')"
  shows "entry_named D cat S name st = (Inr None, st') \<and> if_exists \<or>
    (\<exists>e st1 st2. entry_named D cat S name st = (Inr (Some e), st1) \<and> e_type e = type \<and> \<not> written_elsewhere e \<and>
       with_session (delete_table D cat S (database_of st) name) st1 = (Inr (), st2) \<and>
       ci_find D name (ts_entries (se_tables (fst st'))) = None)"
proof -
  from assms(2) obtain found st1 where found: "entry_named D cat S name st = (Inr found, st1)"
    by (auto simp: drop_entry_def bind_op_def lift_op_def with_session_refuse split: sum.splits if_splits prod.splits)
  show ?thesis
  proof (cases found)
    case None
    with assms(2) found show ?thesis
      by (auto simp: drop_entry_def bind_op_def lift_op_def with_session_refuse return_op_def throw_op_def
          split: sum.splits if_splits)
  next
    case (Some e)
    with assms(2) found obtain st2 where d: "with_session (delete_table D cat S (database_of st) name) st1 = (Inr (), st2)"
      and e: "e_type e = type" "\<not> written_elsewhere e"
      and st': "on_tables (\<lambda>st. (Inr (), remove_table_entry D name st)) st2 = (Inr (), st')"
      by (auto simp: drop_entry_def bind_op_def lift_op_def with_session_refuse return_op_def throw_op_def
          check_entry_type_def check_def split: sum.splits if_splits prod.splits)
    have "ci_find D name (ts_entries (se_tables (fst st'))) = None"
      using st' string_util.find_retired [OF assms(1), of name name "se_tables (fst st2)" "snd st2"]
      by (auto simp: on_tables_def remove_table_entry_def string_util.CIEquals_refl [OF assms(1)] split: prod.splits)
    with Some found d e show ?thesis by blast
  qed
qed

lemma drop_takes_what_was_asked_witness:
  "ci_find ascii_duckdb ''a'' (ts_entries (se_tables (fst (snd
     (drop_entry ascii_duckdb sample_catalog sample_glue TABLE_ENTRY ''a'' False sample_schema))))) = None \<and>
   map_of (sw_tables (s_world (snd (snd
     (drop_entry ascii_duckdb sample_catalog sample_glue TABLE_ENTRY ''a'' False sample_schema))))) (''db'', ''a'') = None"
proof -
  let ?d = "drop_entry ascii_duckdb sample_catalog sample_glue TABLE_ENTRY ''a'' False sample_schema"
  have "fst ?d = Inr ()" and gone: "map_of (sw_tables (s_world (snd (snd ?d)))) (''db'', ''a'') = None"
    by code_simp+
  then have "?d = (Inr (), snd ?d)" by (simp add: prod_eq_iff)
  from drop_takes_what_was_asked [OF ascii_ok this] gone show ?thesis by auto
qed

end
