(* ===== verification/View_Names.thy ===== *)
theory View_Names
  imports Create_Table Database_Api
begin

text \<open>
  The names of tables inside a view, src/catalog/glue_view_names.cpp: what CREATE VIEW stores them as, and what a
  stored view reads, in whichever session and under whichever aliases. The parsed query is DuckDB's: of its tree
  the constructors here keep what the walker of the code looks at. Identifiers compare without their case
  (\<open>CIEquals\<close>), as DuckDB's \<open>Identifier\<close> does; \<open>operator<\<close> of it is an argument.
\<close>

subsection \<open>The query of a view\<close>

text \<open>
  The expressions of a node are in the order they are visited: of a SELECT its select list, groups, WHERE, HAVING
  and QUALIFY, as far as they are there; of a pivot its aggregates and columns. \<open>Modified\<close> holds ORDER BY,
  LIMIT and DISTINCT ON. \<open>StarExpr\<close> names the catalogs its EXCLUDE and RENAME lists qualify columns with; a SELECT
  without FROM reads \<open>EmptyTableRef\<close>; a \<open>DataCTE\<close> has no query.
\<close>

datatype query = Query "cte list" query_node "expr list"
and cte = CTE string query "expr list" | DataCTE string "expr list"
and query_node =
    SelectNode table_ref "expr list"
  | SetOperationNode "query list"
  | RecursiveCTENode string query query "expr list"
  | OtherNode string
and table_ref =
    BaseTableRef qualified_name
  | JoinRef table_ref table_ref "expr list"
  | SubqueryRef query
  | PivotRef table_ref "expr list"
  | ExpressionListRef "expr list"
  | EmptyTableRef
  | TableFunction string
  | OtherRef string
and expr =
    ColumnExpr "string list"
  | StarExpr "string list" "expr list"
  | SubqueryExpr query "expr list"
  | OtherExpr "expr list"

fun cte_name :: "cte \<Rightarrow> string" where
  "cte_name (CTE name q targets) = name"
| "cte_name (DataCTE name targets) = name"

text \<open>The names in scope after the CTEs of a node.\<close>

definition with_ctes :: "string list \<Rightarrow> cte list \<Rightarrow> string list" where
  "with_ctes visible ctes = rev (map cte_name ctes) @ visible"

subsection \<open>The walker\<close>

text \<open>
  \<open>base\<close> is called per base table with the CTE names in scope and gives the name it is replaced by, \<open>column\<close> per
  column reference and star.
\<close>

primrec walk_query :: "(string list \<Rightarrow> qualified_name \<Rightarrow> ('s, qualified_name) comp) \<Rightarrow> (expr \<Rightarrow> unit result)
    \<Rightarrow> string list \<Rightarrow> query \<Rightarrow> ('s, query) comp"
  and walk_cte :: "(string list \<Rightarrow> qualified_name \<Rightarrow> ('s, qualified_name) comp) \<Rightarrow> (expr \<Rightarrow> unit result)
    \<Rightarrow> string list \<Rightarrow> cte \<Rightarrow> ('s, cte) comp"
  and walk_ctes :: "(string list \<Rightarrow> qualified_name \<Rightarrow> ('s, qualified_name) comp) \<Rightarrow> (expr \<Rightarrow> unit result)
    \<Rightarrow> string list \<Rightarrow> cte list \<Rightarrow> ('s, cte list) comp"
  and walk_node :: "(string list \<Rightarrow> qualified_name \<Rightarrow> ('s, qualified_name) comp) \<Rightarrow> (expr \<Rightarrow> unit result)
    \<Rightarrow> string list \<Rightarrow> query_node \<Rightarrow> ('s, query_node) comp"
  and walk_queries :: "(string list \<Rightarrow> qualified_name \<Rightarrow> ('s, qualified_name) comp) \<Rightarrow> (expr \<Rightarrow> unit result)
    \<Rightarrow> string list \<Rightarrow> query list \<Rightarrow> ('s, query list) comp"
  and walk_ref :: "(string list \<Rightarrow> qualified_name \<Rightarrow> ('s, qualified_name) comp) \<Rightarrow> (expr \<Rightarrow> unit result)
    \<Rightarrow> string list \<Rightarrow> table_ref \<Rightarrow> ('s, table_ref) comp"
  and walk_expr :: "(string list \<Rightarrow> qualified_name \<Rightarrow> ('s, qualified_name) comp) \<Rightarrow> (expr \<Rightarrow> unit result)
    \<Rightarrow> string list \<Rightarrow> expr \<Rightarrow> ('s, expr) comp"
  and walk_exprs :: "(string list \<Rightarrow> qualified_name \<Rightarrow> ('s, qualified_name) comp) \<Rightarrow> (expr \<Rightarrow> unit result)
    \<Rightarrow> string list \<Rightarrow> expr list \<Rightarrow> ('s, expr list) comp" where
  "walk_query base column visible (Query ctes node modifiers) =
     bind_op (walk_ctes base column visible ctes) (\<lambda>ctes'.
     bind_op (walk_node base column (with_ctes visible ctes) node) (\<lambda>node'.
     bind_op (walk_exprs base column (with_ctes visible ctes) modifiers) (\<lambda>modifiers'.
       return_op (Query ctes' node' modifiers'))))"
| "walk_cte base column visible (CTE name q targets) =
     bind_op (walk_query base column visible q) (\<lambda>q'.
     bind_op (walk_exprs base column [] targets) (\<lambda>targets'. return_op (CTE name q' targets')))"
| "walk_cte base column visible (DataCTE name targets) =
     bind_op (walk_exprs base column [] targets) (\<lambda>targets'. return_op (DataCTE name targets'))"
| "walk_ctes base column visible [] = return_op []"
| "walk_ctes base column visible (c # cs) =
     bind_op (walk_cte base column visible c) (\<lambda>c'.
     bind_op (walk_ctes base column (cte_name c # visible) cs) (\<lambda>cs'. return_op (c' # cs')))"
| "walk_node base column visible (SelectNode from exprs) =
     bind_op (walk_ref base column visible from) (\<lambda>from'.
     bind_op (walk_exprs base column visible exprs) (\<lambda>exprs'. return_op (SelectNode from' exprs')))"
| "walk_node base column visible (SetOperationNode children) =
     bind_op (walk_queries base column visible children) (\<lambda>children'. return_op (SetOperationNode children'))"
| "walk_node base column visible (RecursiveCTENode name left right targets) =
     bind_op (walk_query base column visible left) (\<lambda>left'.
     bind_op (walk_query base column (name # visible) right) (\<lambda>right'.
     bind_op (walk_exprs base column [] targets) (\<lambda>targets'.
       return_op (RecursiveCTENode name left' right' targets'))))"
| "walk_node base column visible (OtherNode type) =
     throw_op (BinderException ''Glue views can not store a query of type'' [type])"
| "walk_queries base column visible [] = return_op []"
| "walk_queries base column visible (q # qs) =
     bind_op (walk_query base column visible q) (\<lambda>q'.
     bind_op (walk_queries base column visible qs) (\<lambda>qs'. return_op (q' # qs')))"
| "walk_ref base column visible (BaseTableRef name) =
     bind_op (base visible name) (\<lambda>name'. return_op (BaseTableRef name'))"
| "walk_ref base column visible (JoinRef left right exprs) =
     bind_op (walk_ref base column visible left) (\<lambda>left'.
     bind_op (walk_ref base column visible right) (\<lambda>right'.
     bind_op (walk_exprs base column visible exprs) (\<lambda>exprs'. return_op (JoinRef left' right' exprs'))))"
| "walk_ref base column visible (SubqueryRef q) =
     bind_op (walk_query base column visible q) (\<lambda>q'. return_op (SubqueryRef q'))"
| "walk_ref base column visible (PivotRef src exprs) =
     bind_op (walk_ref base column visible src) (\<lambda>src'.
     bind_op (walk_exprs base column visible exprs) (\<lambda>exprs'. return_op (PivotRef src' exprs')))"
| "walk_ref base column visible (ExpressionListRef exprs) =
     bind_op (walk_exprs base column visible exprs) (\<lambda>exprs'. return_op (ExpressionListRef exprs'))"
| "walk_ref base column visible EmptyTableRef = return_op EmptyTableRef"
| "walk_ref base column visible (TableFunction f) =
     throw_op (BinderException ''Glue views can not read from table functions'' [f])"
| "walk_ref base column visible (OtherRef type) =
     throw_op (BinderException ''Glue views can not store a FROM clause of type'' [type])"
| "walk_expr base column visible (ColumnExpr names) =
     bind_op (lift_op (column (ColumnExpr names))) (\<lambda>_. return_op (ColumnExpr names))"
| "walk_expr base column visible (StarExpr catalogs exprs) =
     bind_op (lift_op (column (StarExpr catalogs exprs))) (\<lambda>_.
     bind_op (walk_exprs base column visible exprs) (\<lambda>exprs'. return_op (StarExpr catalogs exprs')))"
| "walk_expr base column visible (SubqueryExpr q exprs) =
     bind_op (walk_query base column visible q) (\<lambda>q'.
     bind_op (walk_exprs base column visible exprs) (\<lambda>exprs'. return_op (SubqueryExpr q' exprs')))"
| "walk_expr base column visible (OtherExpr exprs) =
     bind_op (walk_exprs base column visible exprs) (\<lambda>exprs'. return_op (OtherExpr exprs'))"
| "walk_exprs base column visible [] = return_op []"
| "walk_exprs base column visible (e # es) =
     bind_op (walk_expr base column visible e) (\<lambda>e'.
     bind_op (walk_exprs base column visible es) (\<lambda>es'. return_op (e' # es')))"

definition no_column_check :: "expr \<Rightarrow> unit result" where
  "no_column_check e = Inr ()"

text \<open>A walk from outside of any CTE that only looks at or replaces base tables.\<close>

definition walk :: "(string list \<Rightarrow> qualified_name \<Rightarrow> ('s, qualified_name) comp) \<Rightarrow> query \<Rightarrow> ('s, query) comp" where
  "walk base = walk_query base no_column_check []"

definition names :: "duckdb \<Rightarrow> string list \<Rightarrow> string \<Rightarrow> bool" where
  "names D identifiers name \<longleftrightarrow> (\<exists>i\<in>set identifiers. CIEquals D i name)"

fun refuse_qualified :: "duckdb \<Rightarrow> string list \<Rightarrow> expr \<Rightarrow> unit result" where
  "refuse_qualified D catalogs (StarExpr qualified_with exprs) =
     check (\<forall>c\<in>set qualified_with. \<not> names D catalogs c)
       (BinderException ''also the name of a catalog the view reads: use a table alias with another name'' qualified_with)"
| "refuse_qualified D catalogs (ColumnExpr parts) =
     check (length parts \<le> 1 \<or> \<not> names D catalogs (hd parts))
       (BinderException ''also the name of a catalog the view reads: use a table alias with another name'' parts)"
| "refuse_qualified D catalogs e = Inr ()"

definition refuse_catalog_qualified_columns :: "duckdb \<Rightarrow> string list \<Rightarrow> query \<Rightarrow> ('s, unit) comp" where
  "refuse_catalog_qualified_columns D catalogs q =
     bind_op (walk_query (\<lambda>visible name. return_op name) (refuse_qualified D catalogs) [] q) (\<lambda>_. return_op ())"

subsection \<open>Catalogs\<close>

text \<open>An attached catalog: its alias, the kind of another catalog, and the Glue catalog it is if it is one.\<close>

record attached_catalog =
  at_name :: string
  at_kind :: string
  at_glue :: "glue_catalog option"
  at_system :: bool
  at_temporary :: bool
  at_hidden :: bool
  at_in_memory :: bool

definition external_prefix :: string where
  "external_prefix = ''external:''"

definition external_identity :: "attached_catalog \<Rightarrow> string" where
  "external_identity c = external_prefix @ at_kind c @ '':'' @ at_name c"

definition same_glue_service :: "duckdb \<Rightarrow> glue_catalog \<Rightarrow> glue_catalog \<Rightarrow> bool" where
  "same_glue_service D a b \<longleftrightarrow> CIEquals D (cat_region a) (cat_region b) \<and> CIEquals D (cat_endpoint a) (cat_endpoint b)"

definition service_name :: "glue_catalog \<Rightarrow> string" where
  "service_name c = (if cat_endpoint c = [] then ''region '' @ cat_region c
     else ''region '' @ cat_region c @ '' at endpoint '' @ cat_endpoint c)"

definition usable_external_catalog :: "attached_catalog \<Rightarrow> bool" where
  "usable_external_catalog c \<longleftrightarrow> \<not> at_system c \<and> \<not> at_hidden c \<and> \<not> at_in_memory c"

definition external_catalog_types :: "Value option \<Rightarrow> string list" where
  "external_catalog_types setting = (case setting of
     None \<Rightarrow> []
   | Some v \<Rightarrow> if value_is_null v then []
       else List.map_filter (\<lambda>e. case e of StringV s \<Rightarrow> Some s | _ \<Rightarrow> None) (list_children v))"

definition is_external :: "duckdb \<Rightarrow> string \<Rightarrow> bool" where
  "is_external D cid \<longleftrightarrow> CIEquals D (take (length external_prefix) cid) external_prefix"

definition external_type :: "string \<Rightarrow> string" where
  "external_type cid = takeWhile (\<lambda>c. c \<noteq> CHR '':'') (drop (length external_prefix) cid)"

subsection \<open>Catalog ids\<close>

text \<open>"<12-digit account>" or "<12-digit account>:...".\<close>

definition starts_with_account_id :: "duckdb \<Rightarrow> string \<Rightarrow> bool" where
  "starts_with_account_id D path \<longleftrightarrow>
     length path \<ge> 12 \<and> list_all (CharacterIsDigit D) (take 12 path) \<and> (length path = 12 \<or> path ! 12 = CHR '':'')"

text \<open>What a statement on views works on: the ids the attached catalogs have reported, by alias, and the session.\<close>

record 'w view_state =
  vs_reported :: properties
  vs_catalogs :: "string list"
  vs_session :: "'w session"

definition in_view :: "('w, 'a) op \<Rightarrow> ('w view_state, 'a) comp" where
  "in_view m st = (case m (vs_session st) of (r, s) \<Rightarrow> (r, st\<lparr>vs_session := s\<rparr>))"

definition reported_id :: "properties \<Rightarrow> attached_catalog \<Rightarrow> string" where
  "reported_id reported c = (case map_of reported (at_name c) of None \<Rightarrow> [] | Some cid \<Rightarrow> cid)"

definition known_catalog_id :: "duckdb \<Rightarrow> properties \<Rightarrow> attached_catalog \<Rightarrow> glue_catalog \<Rightarrow> string" where
  "known_catalog_id D reported c cat =
     (if reported_id reported c \<noteq> [] then reported_id reported c
      else if starts_with_account_id D (cat_catalog_id cat) then cat_catalog_id cat else [])"

definition fetch_catalog_id ::
  "nat \<Rightarrow> 'w service \<Rightarrow> attached_catalog \<Rightarrow> glue_catalog \<Rightarrow> ('w view_state, string) comp" where
  "fetch_catalog_id fuel S c cat st =
     (if reported_id (vs_reported st) c \<noteq> [] then (Inr (reported_id (vs_reported st) c), st)
      else bind_op (in_view (get_reported_catalog_id fuel cat S)) (\<lambda>cid st1.
        let reported = (if reported_id (vs_reported st1) c = [] then AList.update (at_name c) cid (vs_reported st1)
                        else vs_reported st1) in
        (Inr (reported_id reported c), st1\<lparr>vs_reported := reported\<rparr>)) st)"

text \<open>Glue is asked if the ATTACH probe did not; else the account id it was attached by.\<close>

definition catalog_id_of ::
  "nat \<Rightarrow> duckdb \<Rightarrow> 'w service \<Rightarrow> attached_catalog \<Rightarrow> glue_catalog \<Rightarrow> ('w view_state, string) comp" where
  "catalog_id_of fuel D S c cat = bind_op (fetch_catalog_id fuel S c cat) (\<lambda>cid st.
     (Inr (if cid = [] then known_catalog_id D (vs_reported st) c cat else cid), st))"

subsection \<open>What CREATE VIEW stores\<close>

text \<open>
  DuckDB's part: \<open>LookupEntry\<close> is \<open>Catalog::GetEntry\<close> of a table, \<open>NamesCatalog x\<close> the catalog
  \<open>Binder::BindSchemaOrCatalog\<close> takes x of x.t for, empty when it is a schema, \<open>ExternalTypesSetting\<close>
  experimental_glue_view_external_catalog_types.
\<close>

record found_entry =
  fe_catalog :: attached_catalog
  fe_schema :: string
  fe_name :: string

record 'w view_env =
  LookupEntry :: "qualified_name \<Rightarrow> ('w, found_entry option) op"
  NamesCatalog :: "string \<Rightarrow> ('w, string) op"
  ExternalTypesSetting :: "Value option"

text \<open>The catalog a view is created in, and the schema.\<close>

record view_home =
  vh_catalog :: attached_catalog
  vh_glue :: glue_catalog
  vh_schema :: string

definition not_found :: "qualified_name \<Rightarrow> exn" where
  "not_found name = BinderException ''Glue view references table which was not found''
     [qn_catalog name, qn_schema name, qn_name name]"

definition lookup_table :: "'w view_env \<Rightarrow> qualified_name \<Rightarrow> ('w view_state, found_entry option) comp" where
  "lookup_table E name = in_view (LookupEntry E name)"

definition remember_catalog :: "string \<Rightarrow> ('w view_state, unit) comp" where
  "remember_catalog name st = (Inr (), st\<lparr>vs_catalogs := name # vs_catalogs st\<rparr>)"

definition stored_name :: "string \<Rightarrow> found_entry \<Rightarrow> qualified_name" where
  "stored_name catalog e = \<lparr>qn_catalog = catalog, qn_schema = fe_schema e, qn_name = fe_name e\<rparr>"

text \<open>A table named with a catalog.\<close>

definition store_external ::
  "duckdb \<Rightarrow> 'w view_env \<Rightarrow> qualified_name \<Rightarrow> found_entry \<Rightarrow> ('w view_state, qualified_name) comp" where
  "store_external D E name e =
     (let c = fe_catalog e in
      if \<not> names D (external_catalog_types (ExternalTypesSetting E)) (at_kind c)
      then throw_op (BinderException ''not in experimental_glue_view_external_catalog_types'' [at_name c, at_kind c])
      else if \<not> usable_external_catalog c
      then throw_op (BinderException ''in memory, temporary, a system catalog or hidden'' [at_name c])
      else bind_op (remember_catalog (qn_catalog name)) (\<lambda>_. return_op (stored_name (external_identity c) e)))"

definition store_glue ::
  "nat \<Rightarrow> duckdb \<Rightarrow> 'w service \<Rightarrow> view_home \<Rightarrow> qualified_name \<Rightarrow> found_entry \<Rightarrow> glue_catalog
     \<Rightarrow> ('w view_state, qualified_name) comp" where
  "store_glue fuel D S home name e cat =
     (if \<not> same_glue_service D cat (vh_glue home)
      then throw_op (BinderException ''a Glue view can only reference tables of Glue catalogs in its own region''
             [service_name (vh_glue home), service_name cat])
      else bind_op (catalog_id_of fuel D S (fe_catalog e) cat) (\<lambda>cid.
        if cid = [] then throw_op (BinderException ''whose catalog id Glue does not report'' [at_name (fe_catalog e)])
        else bind_op (catalog_id_of fuel D S (vh_catalog home) (vh_glue home)) (\<lambda>own.
          bind_op (remember_catalog (qn_catalog name)) (\<lambda>_.
            return_op (stored_name (if CIEquals D cid own then [] else cid) e)))))"

definition store_foreign ::
  "nat \<Rightarrow> duckdb \<Rightarrow> 'w service \<Rightarrow> 'w view_env \<Rightarrow> view_home \<Rightarrow> qualified_name
     \<Rightarrow> ('w view_state, qualified_name) comp" where
  "store_foreign fuel D S E home name =
     bind_op (lookup_table E name) (\<lambda>found. case found of
       None \<Rightarrow> throw_op (not_found name)
     | Some e \<Rightarrow> (case at_glue (fe_catalog e) of
         None \<Rightarrow> store_external D E name e
       | Some cat \<Rightarrow> store_glue fuel D S home name e cat))"

text \<open>A bare name: a temporary table first, then the schema of the view, then the search path.\<close>

definition lookup_bare :: "'w view_env \<Rightarrow> view_home \<Rightarrow> qualified_name \<Rightarrow> ('w view_state, found_entry option) comp" where
  "lookup_bare E home name =
     bind_op (lookup_table E \<lparr>qn_catalog = ''temp'', qn_schema = ''main'', qn_name = qn_name name\<rparr>) (\<lambda>e1.
       if e1 \<noteq> None then return_op e1
       else bind_op (lookup_table E
              \<lparr>qn_catalog = at_name (vh_catalog home), qn_schema = vh_schema home, qn_name = qn_name name\<rparr>) (\<lambda>e2.
         if e2 \<noteq> None then return_op e2 else lookup_table E name))"

definition store_bare ::
  "'w view_env \<Rightarrow> view_home \<Rightarrow> qualified_name \<Rightarrow> ('w view_state, qualified_name) comp" where
  "store_bare E home name =
     bind_op (lookup_bare E home name) (\<lambda>found. case found of
       None \<Rightarrow> throw_op (not_found name)
     | Some e \<Rightarrow>
         if at_name (fe_catalog e) \<noteq> at_name (vh_catalog home)
         then throw_op (BinderException ''which is not in the view's Glue catalog (through the search path)''
                [qn_name name, at_name (fe_catalog e)])
         else return_op (stored_name [] e))"

text \<open>x.t names catalog x when one is attached under that name.\<close>

definition with_catalog :: "'w view_env \<Rightarrow> qualified_name \<Rightarrow> ('w view_state, qualified_name) comp" where
  "with_catalog E name =
     (if qn_catalog name \<noteq> [] \<or> qn_schema name = [] then return_op name
      else bind_op (in_view (NamesCatalog E (qn_schema name))) (\<lambda>catalog.
        return_op (if catalog = [] then name else name\<lparr>qn_catalog := catalog, qn_schema := []\<rparr>)))"

definition store_name ::
  "nat \<Rightarrow> duckdb \<Rightarrow> 'w service \<Rightarrow> 'w view_env \<Rightarrow> view_home \<Rightarrow> string list \<Rightarrow> qualified_name
     \<Rightarrow> ('w view_state, qualified_name) comp" where
  "store_name fuel D S E home visible ref =
     bind_op (with_catalog E ref) (\<lambda>name.
       if qn_catalog name \<noteq> [] then store_foreign fuel D S E home name
       else if qn_schema name \<noteq> [] \<or> names D visible (qn_name name) then return_op ref
       else store_bare E home name)"

definition qualify_for_storage ::
  "nat \<Rightarrow> duckdb \<Rightarrow> 'w service \<Rightarrow> 'w view_env \<Rightarrow> view_home \<Rightarrow> query \<Rightarrow> ('w view_state, query) comp" where
  "qualify_for_storage fuel D S E home q st =
     bind_op (walk (store_name fuel D S E home) q) (\<lambda>stored st1.
     bind_op (refuse_catalog_qualified_columns D (vs_catalogs st1) stored) (\<lambda>_. return_op stored) st1)
       (st\<lparr>vs_catalogs := [at_name (vh_catalog home)]\<rparr>)"

subsection \<open>What a stored view reads\<close>

definition collect_catalog_id :: "string list \<Rightarrow> qualified_name \<Rightarrow> (string list, qualified_name) comp" where
  "collect_catalog_id visible name ids =
     (Inr name, if qn_catalog name = [] then ids else qn_catalog name # ids)"

definition referenced_catalog_ids :: "query \<Rightarrow> string list result" where
  "referenced_catalog_ids q = (case walk collect_catalog_id q [] of (Inl e, ids) \<Rightarrow> Inl e | (Inr q', ids) \<Rightarrow> Inr ids)"

text \<open>The aliases of the ids, the first one alphabetically; an external identity names one alias.\<close>

definition ci_put :: "duckdb \<Rightarrow> string \<Rightarrow> 'e \<Rightarrow> (string \<times> 'e) list \<Rightarrow> (string \<times> 'e) list" where
  "ci_put D key v m = (if ci_find D key m = None then m @ [(key, v)]
     else map (\<lambda>(k, old). if CIEquals D k key then (k, v) else (k, old)) m)"

definition add_alias ::
  "duckdb \<Rightarrow> (string \<Rightarrow> string \<Rightarrow> bool) \<Rightarrow> glue_catalog \<Rightarrow> properties \<Rightarrow> string list \<Rightarrow> attached_catalog
     \<Rightarrow> (string \<times> string) list \<Rightarrow> (string \<times> string) list" where
  "add_alias D before home reported ids c aliases =
     (if at_system c \<or> at_temporary c then aliases
      else case at_glue c of
        None \<Rightarrow>
          if names D ids (external_identity c) \<and> usable_external_catalog c
          then ci_put D (external_identity c) (at_name c) aliases else aliases
      | Some cat \<Rightarrow>
          let cid = known_catalog_id D reported c cat in
          if \<not> names D ids cid \<or> \<not> same_glue_service D cat home then aliases
          else case ci_find D cid aliases of
            None \<Rightarrow> ci_put D cid (at_name c) aliases
          | Some existing \<Rightarrow> if before (at_name c) existing then ci_put D cid (at_name c) aliases else aliases)"

definition attached_aliases ::
  "duckdb \<Rightarrow> (string \<Rightarrow> string \<Rightarrow> bool) \<Rightarrow> glue_catalog \<Rightarrow> properties \<Rightarrow> attached_catalog list \<Rightarrow> string list
     \<Rightarrow> (string \<times> string) list" where
  "attached_aliases D before home reported attached ids =
     fold (add_alias D before home reported ids) attached []"

definition resolve_name ::
  "duckdb \<Rightarrow> (string \<times> string) list \<Rightarrow> string list \<Rightarrow> qualified_name \<Rightarrow> ('s, qualified_name) comp" where
  "resolve_name D aliases visible name =
     (if qn_catalog name = [] then return_op name
      else case ci_find D (qn_catalog name) aliases of
        Some alias \<Rightarrow> return_op (name\<lparr>qn_catalog := alias\<rparr>)
      | None \<Rightarrow> throw_op (BinderException
          (if is_external D (qn_catalog name) then ''no usable catalog of that type is attached under that alias''
           else ''Glue catalog is not attached'') [qn_catalog name, qn_schema name, qn_name name]))"

definition pin_name ::
  "duckdb \<Rightarrow> string \<Rightarrow> string \<Rightarrow> string list \<Rightarrow> qualified_name \<Rightarrow> ('s, qualified_name) comp" where
  "pin_name D catalog schema visible name =
     return_op (if qn_catalog name = [] \<and> qn_schema name \<noteq> [] then name\<lparr>qn_catalog := catalog\<rparr>
       else if qn_catalog name = [] \<and> \<not> names D visible (qn_name name)
       then name\<lparr>qn_catalog := catalog, qn_schema := schema\<rparr>
       else name)"

definition resolve_for_reading :: "duckdb \<Rightarrow> (string \<times> string) list \<Rightarrow> query \<Rightarrow> ('s, query) comp" where
  "resolve_for_reading D aliases = walk (resolve_name D aliases)"

definition pin_to_catalog :: "duckdb \<Rightarrow> string \<Rightarrow> string \<Rightarrow> query \<Rightarrow> ('s, query) comp" where
  "pin_to_catalog D catalog schema = walk (pin_name D catalog schema)"

subsection \<open>Reading a view\<close>

text \<open>The parse of a view with its ids, and the queries resolved so far, by the aliases they were resolved to.\<close>

record view_cache =
  vc_parsed :: "(query \<times> string list) option"
  vc_resolved :: "(string \<times> query) list"

definition new_view_cache :: view_cache where
  "new_view_cache = \<lparr>vc_parsed = None, vc_resolved = []\<rparr>"

text \<open>\<open>parse\<close> is \<open>CreateViewInfo::ParseSelect\<close>.\<close>

definition parse_view ::
  "duckdb \<Rightarrow> (string \<Rightarrow> query result) \<Rightarrow> string \<Rightarrow> string \<Rightarrow> glue_view \<Rightarrow> (view_cache, query \<times> string list) comp" where
  "parse_view D parse catalog schema v cache = (case vc_parsed cache of
     Some p \<Rightarrow> (Inr p, cache)
   | None \<Rightarrow>
       (case parse (vw_select_sql v) of
          Inl e \<Rightarrow> (Inl (BinderException ''Glue view could not be parsed'' []), cache)
        | Inr q \<Rightarrow>
            (case referenced_catalog_ids q of
               Inl e \<Rightarrow> (Inl e, cache)
             | Inr ids \<Rightarrow>
                 bind_op (if ids = [] then pin_to_catalog D catalog schema q else return_op q)
                   (\<lambda>q' cache'. (Inr (q', ids), cache'\<lparr>vc_parsed := Some (q', ids)\<rparr>)) cache)))"

text \<open>\<open>identifier_tree_t\<close> is sorted; \<open>sorted\<close> stands for its order.\<close>

definition signature :: "(string \<times> string) list \<Rightarrow> string" where
  "signature aliases = concat (map (\<lambda>(cid, alias). cid @ ''='' @ alias @ '';'') aliases)"

definition refused_external :: "duckdb \<Rightarrow> Value option \<Rightarrow> string list \<Rightarrow> string list" where
  "refused_external D setting ids =
     filter (\<lambda>cid. is_external D cid \<and> \<not> names D (external_catalog_types setting) (external_type cid)) ids"

definition get_query ::
  "duckdb \<Rightarrow> (string \<Rightarrow> query result) \<Rightarrow> Value option \<Rightarrow> (string list \<Rightarrow> (string \<times> string) list)
     \<Rightarrow> string \<Rightarrow> string \<Rightarrow> glue_view \<Rightarrow> (view_cache, query) comp" where
  "get_query D parse setting aliases_of catalog schema v =
     bind_op (lift_op (check (is_supported v)
       (BinderException ''Glue view can not be queried'' [vw_unsupported_reason v]))) (\<lambda>_.
     bind_op (parse_view D parse catalog schema v) (\<lambda>(q, ids).
       if ids = [] then return_op q
       else if refused_external D setting ids \<noteq> []
       then throw_op (BinderException ''not in experimental_glue_view_external_catalog_types''
              (refused_external D setting ids))
       else (\<lambda>cache.
         let aliases = aliases_of ids; key = signature aliases in
         case map_of (vc_resolved cache) key of
           Some existing \<Rightarrow> (Inr existing, cache)
         | None \<Rightarrow>
             bind_op (resolve_for_reading D aliases q) (\<lambda>q1.
             bind_op (pin_to_catalog D catalog schema q1) (\<lambda>q2 cache'.
               (Inr q2, cache'\<lparr>vc_resolved := (key, q2) # vc_resolved cache'\<rparr>))) cache)))"

subsection \<open>The base tables of a query\<close>

text \<open>The base tables in the order they are visited, each with the CTE names in scope there.\<close>

primrec refs_query :: "string list \<Rightarrow> query \<Rightarrow> (string list \<times> qualified_name) list"
  and refs_cte :: "string list \<Rightarrow> cte \<Rightarrow> (string list \<times> qualified_name) list"
  and refs_ctes :: "string list \<Rightarrow> cte list \<Rightarrow> (string list \<times> qualified_name) list"
  and refs_node :: "string list \<Rightarrow> query_node \<Rightarrow> (string list \<times> qualified_name) list"
  and refs_queries :: "string list \<Rightarrow> query list \<Rightarrow> (string list \<times> qualified_name) list"
  and refs_ref :: "string list \<Rightarrow> table_ref \<Rightarrow> (string list \<times> qualified_name) list"
  and refs_expr :: "string list \<Rightarrow> expr \<Rightarrow> (string list \<times> qualified_name) list"
  and refs_exprs :: "string list \<Rightarrow> expr list \<Rightarrow> (string list \<times> qualified_name) list" where
  "refs_query visible (Query ctes node modifiers) =
     refs_ctes visible ctes @ refs_node (with_ctes visible ctes) node @ refs_exprs (with_ctes visible ctes) modifiers"
| "refs_cte visible (CTE name q targets) = refs_query visible q @ refs_exprs [] targets"
| "refs_cte visible (DataCTE name targets) = refs_exprs [] targets"
| "refs_ctes visible [] = []"
| "refs_ctes visible (c # cs) = refs_cte visible c @ refs_ctes (cte_name c # visible) cs"
| "refs_node visible (SelectNode from exprs) = refs_ref visible from @ refs_exprs visible exprs"
| "refs_node visible (SetOperationNode children) = refs_queries visible children"
| "refs_node visible (RecursiveCTENode name left right targets) =
     refs_query visible left @ refs_query (name # visible) right @ refs_exprs [] targets"
| "refs_node visible (OtherNode type) = []"
| "refs_queries visible [] = []"
| "refs_queries visible (q # qs) = refs_query visible q @ refs_queries visible qs"
| "refs_ref visible (BaseTableRef name) = [(visible, name)]"
| "refs_ref visible (JoinRef left right exprs) =
     refs_ref visible left @ refs_ref visible right @ refs_exprs visible exprs"
| "refs_ref visible (SubqueryRef q) = refs_query visible q"
| "refs_ref visible (PivotRef src exprs) = refs_ref visible src @ refs_exprs visible exprs"
| "refs_ref visible (ExpressionListRef exprs) = refs_exprs visible exprs"
| "refs_ref visible EmptyTableRef = []"
| "refs_ref visible (TableFunction f) = []"
| "refs_ref visible (OtherRef type) = []"
| "refs_expr visible (ColumnExpr parts) = []"
| "refs_expr visible (StarExpr catalogs exprs) = refs_exprs visible exprs"
| "refs_expr visible (SubqueryExpr q exprs) = refs_query visible q @ refs_exprs visible exprs"
| "refs_expr visible (OtherExpr exprs) = refs_exprs visible exprs"
| "refs_exprs visible [] = []"
| "refs_exprs visible (e # es) = refs_expr visible e @ refs_exprs visible es"

text \<open>The walk seen on the base tables alone.\<close>

fun map_refs :: "(string list \<Rightarrow> qualified_name \<Rightarrow> ('s, qualified_name) comp)
    \<Rightarrow> (string list \<times> qualified_name) list \<Rightarrow> ('s, (string list \<times> qualified_name) list) comp" where
  "map_refs base [] = return_op []"
| "map_refs base ((visible, name) # refs) =
     bind_op (base visible name) (\<lambda>name'.
     bind_op (map_refs base refs) (\<lambda>refs'. return_op ((visible, name') # refs')))"

lemma map_refs_append:
  "map_refs base xs s = (Inr xs', s1) \<Longrightarrow> map_refs base ys s1 = (Inr ys', s2) \<Longrightarrow>
     map_refs base (xs @ ys) s = (Inr (xs' @ ys'), s2)"
proof (induction base xs arbitrary: s xs' rule: map_refs.induct)
  case (2 base visible name refs)
  then show ?case by (fastforce simp: bind_op_Inr_iff return_op_Inr_iff)
qed (auto simp: return_op_def)

lemma walk_cte_name: "walk_cte base column visible c s = (Inr c', s') \<Longrightarrow> cte_name c' = cte_name c"
  by (cases c) (auto simp: comp_simps)

lemma walk_ctes_names: "walk_ctes base column visible cs s = (Inr cs', s') \<Longrightarrow> map cte_name cs' = map cte_name cs"
  by (induction cs arbitrary: visible s cs' s') (auto simp: comp_simps dest: walk_cte_name)

lemma walk_ctes_scope:
  "walk_ctes base column visible cs s = (Inr cs', s') \<Longrightarrow> with_ctes v cs' = with_ctes v cs"
  by (simp add: with_ctes_def walk_ctes_names)
text \<open>
  A walk that ends replaced the names of the base tables, one after the other and as \<open>base\<close> says, and
  nothing else: the result has the base tables of the query, in scope of the same CTEs, under their new names.
\<close>

definition replaces ::
  "(string list \<Rightarrow> qualified_name \<Rightarrow> ('s, qualified_name) comp) \<Rightarrow> (string list \<Rightarrow> 'x \<Rightarrow> ('s, 'x) comp)
     \<Rightarrow> (string list \<Rightarrow> 'x \<Rightarrow> (string list \<times> qualified_name) list) \<Rightarrow> 'x \<Rightarrow> bool" where
  "replaces base w refs x \<longleftrightarrow> (\<forall>visible s x' s'. w visible x s = (Inr x', s') \<longrightarrow>
     map_refs base (refs visible x) s = (Inr (refs visible x'), s'))"

lemma replacesD: "replaces base w refs x \<Longrightarrow> w visible x s = (Inr x', s') \<Longrightarrow>
    map_refs base (refs visible x) s = (Inr (refs visible x'), s')"
  by (simp add: replaces_def)

lemma walk_replaces:
  "replaces base (walk_query base column) refs_query q \<and> replaces base (walk_cte base column) refs_cte c \<and>
   replaces base (walk_node base column) refs_node n \<and> replaces base (walk_ref base column) refs_ref r \<and>
   replaces base (walk_expr base column) refs_expr e \<and> replaces base (walk_ctes base column) refs_ctes cs \<and>
   replaces base (walk_exprs base column) refs_exprs es \<and> replaces base (walk_queries base column) refs_queries qs"
proof (rule walk_query_walk_cte_walk_ctes_walk_node_walk_queries_walk_ref_walk_expr_walk_exprs.induct, goal_cases)
  case (1 ctes node modifiers)
  then show ?case
    unfolding replaces_def
  proof (intro allI impI, goal_cases)
    case (1 visible s q' s')
    from 1(4) obtain ctes' node' modifiers' s1 s2 where w: "walk_ctes base column visible ctes s = (Inr ctes', s1)"
      "walk_node base column (with_ctes visible ctes) node s1 = (Inr node', s2)"
      "walk_exprs base column (with_ctes visible ctes) modifiers s2 = (Inr modifiers', s')"
      and q': "q' = Query ctes' node' modifiers'"
      by (auto simp: comp_simps)
    from w 1(1-3) walk_ctes_scope [OF w(1)] show ?case
      by (auto simp: q' intro!: map_refs_append)
  qed
next
  case (21 c cs)
  then show ?case
    unfolding replaces_def
  proof (intro allI impI, goal_cases)
    case (1 visible s cs' s')
    from 1(3) obtain c' ds' s1 where w: "walk_cte base column visible c s = (Inr c', s1)"
      "walk_ctes base column (cte_name c # visible) cs s1 = (Inr ds', s')" and cs': "cs' = c' # ds'"
      by (auto simp: comp_simps)
    from w 1(1,2) walk_cte_name [OF w(1)] show ?case
      by (auto simp: cs' intro!: map_refs_append)
  qed
qed (unfold replaces_def, auto simp: comp_simps intro!: map_refs_append)

lemmas walk_refs = walk_replaces [THEN conjunct1, THEN replacesD]

lemma map_refs_all:
  "map_refs base refs s = (Inr refs', s') \<Longrightarrow>
     list_all2 (\<lambda>(v, n) (v', n'). v' = v \<and> (\<exists>s s'. base v n s = (Inr n', s'))) refs refs'"
proof (induction base refs arbitrary: s refs' s' rule: map_refs.induct)
  case (2 base visible name refs)
  from 2(2) obtain name' s1 ns s2 where "base visible name s = (Inr name', s1)"
    "map_refs base refs s1 = (Inr ns, s2)" "refs' = (visible, name') # ns"
    by (auto simp: comp_simps)
  with 2(1) show ?case by (auto simp: list_all2_Cons1)
qed (simp add: return_op_def)

lemma walk_all:
  assumes "walk base q s = (Inr q', s')"
  shows "list_all2 (\<lambda>(v, n) (v', n'). v' = v \<and> (\<exists>s s'. base v n s = (Inr n', s'))) (refs_query [] q) (refs_query [] q')"
  using map_refs_all [OF walk_refs] assms by (simp add: walk_def)

subsection \<open>Aliases\<close>

text \<open>What an attached catalog is found by: its identity, or the id Glue knows it by in the view's service.\<close>

definition goes_by ::
  "duckdb \<Rightarrow> glue_catalog \<Rightarrow> properties \<Rightarrow> attached_catalog \<Rightarrow> string \<Rightarrow> bool" where
  "goes_by D home reported c cid \<longleftrightarrow> \<not> at_system c \<and> \<not> at_temporary c \<and>
     (case at_glue c of
        None \<Rightarrow> CIEquals D (external_identity c) cid \<and> usable_external_catalog c
      | Some cat \<Rightarrow> CIEquals D (known_catalog_id D reported c cat) cid \<and> same_glue_service D cat home)"

context string_util
begin

lemma ci_find_put: "ci_find D k (ci_put D key v m) = (if CIEquals D key k then Some v else ci_find D k m)"
proof (cases "ci_find D key m")
  case None
  then have "CIEquals D key k \<Longrightarrow> ci_find D k m = None"
    by (simp add: ci_find_None_iff CIEquals)
  with None show ?thesis by (auto simp: ci_put_def ci_find_append ci_find_single split: option.split)
next
  case (Some e)
  then have m: "ci_put D key v m = map (\<lambda>(k, old). if CIEquals D k key then (k, v) else (k, old)) m"
    by (simp add: ci_put_def)
  have "ci_find D k (map (\<lambda>(k, old). if CIEquals D k key then (k, v) else (k, old)) m) =
      (if CIEquals D key k then map_option (\<lambda>_. v) (ci_find D k m) else ci_find D k m)"
    by (induction m) (auto simp: ci_find_def CIEquals)
  moreover have "CIEquals D key k \<Longrightarrow> ci_find D k m = Some e"
    using Some by (simp add: ci_find_def CIEquals)
  ultimately show ?thesis by (simp add: m)
qed

lemma add_alias_goes_by:
  assumes "ci_find D cid (add_alias D before home reported ids c aliases) = Some a"
  shows "ci_find D cid aliases = Some a \<or> (at_name c = a \<and> goes_by D home reported c cid)"
  using assms
  by (auto simp: add_alias_def goes_by_def ci_find_put Let_def split: if_splits option.splits)

lemma attached_aliases_goes_by:
  assumes "ci_find D cid (attached_aliases D before home reported attached ids) = Some a"
  shows "\<exists>c\<in>set attached. at_name c = a \<and> goes_by D home reported c cid"
proof -
  have "ci_find D cid aliases = Some a \<or> (\<exists>c\<in>set attached. at_name c = a \<and> goes_by D home reported c cid)"
    if "ci_find D cid (fold (add_alias D before home reported ids) attached aliases) = Some a" for aliases
    using that
  proof (induction attached arbitrary: aliases)
    case (Cons c attached)
    from Cons.prems Cons.IH [of "add_alias D before home reported ids c aliases"] add_alias_goes_by
    show ?case by fastforce
  qed simp
  from this [of "[]"] assms show ?thesis by (simp add: attached_aliases_def ci_find_def)
qed

end

subsection \<open>What is stored\<close>

definition is_cte :: "duckdb \<Rightarrow> string list \<Rightarrow> qualified_name \<Rightarrow> bool" where
  "is_cte D visible name \<longleftrightarrow> qn_catalog name = [] \<and> qn_schema name = [] \<and> names D visible (qn_name name)"

text \<open>The names a table of the body is looked up by.\<close>

definition looked_up_as :: "'w view_env \<Rightarrow> view_home \<Rightarrow> qualified_name \<Rightarrow> qualified_name \<Rightarrow> bool" where
  "looked_up_as E home ref name \<longleftrightarrow> name = ref \<or>
     (qn_catalog ref = [] \<and> qn_schema ref \<noteq> [] \<and>
        (\<exists>s c s'. NamesCatalog E (qn_schema ref) s = (Inr c, s') \<and> name = ref\<lparr>qn_catalog := c, qn_schema := []\<rparr>)) \<or>
     (qn_catalog ref = [] \<and> qn_schema ref = [] \<and>
        name \<in> {\<lparr>qn_catalog = ''temp'', qn_schema = ''main'', qn_name = qn_name ref\<rparr>,
                \<lparr>qn_catalog = at_name (vh_catalog home), qn_schema = vh_schema home, qn_name = qn_name ref\<rparr>})"

text \<open>The id the catalog of an entry is stored by.\<close>

definition stored_by ::
  "nat \<Rightarrow> duckdb \<Rightarrow> 'w service \<Rightarrow> view_home \<Rightarrow> found_entry \<Rightarrow> string \<Rightarrow> bool" where
  "stored_by fuel D S home e cid \<longleftrightarrow> cid \<noteq> [] \<and> (case at_glue (fe_catalog e) of
     None \<Rightarrow> cid = external_identity (fe_catalog e) \<and> usable_external_catalog (fe_catalog e)
   | Some cat \<Rightarrow> same_glue_service D cat (vh_glue home) \<and>
       (\<exists>s s'. catalog_id_of fuel D S (fe_catalog e) cat s = (Inr cid, s')))"

text \<open>The entry is in the catalog of the view, under its alias or under another one.\<close>

definition in_own_catalog :: "nat \<Rightarrow> duckdb \<Rightarrow> 'w service \<Rightarrow> view_home \<Rightarrow> found_entry \<Rightarrow> bool" where
  "in_own_catalog fuel D S home e \<longleftrightarrow> at_name (fe_catalog e) = at_name (vh_catalog home) \<or>
     (\<exists>cid own s s'. stored_by fuel D S home e cid \<and> CIEquals D cid own \<and>
        catalog_id_of fuel D S (vh_catalog home) (vh_glue home) s = (Inr own, s'))"

text \<open>How a table of the body is stored.\<close>

definition written_as ::
  "nat \<Rightarrow> duckdb \<Rightarrow> 'w service \<Rightarrow> 'w view_env \<Rightarrow> view_home \<Rightarrow> string list \<Rightarrow> qualified_name \<Rightarrow> qualified_name \<Rightarrow> bool" where
  "written_as fuel D S E home visible ref stored \<longleftrightarrow>
     (is_cte D visible ref \<and> stored = ref) \<or>
     (qn_catalog ref = [] \<and> qn_schema ref \<noteq> [] \<and> stored = ref) \<or>
     (\<exists>name e s s'. looked_up_as E home ref name \<and> LookupEntry E name s = (Inr (Some e), s') \<and>
        qn_schema stored = fe_schema e \<and> qn_name stored = fe_name e \<and>
        (qn_catalog stored = [] \<and> in_own_catalog fuel D S home e \<or> stored_by fuel D S home e (qn_catalog stored)))"

lemma in_view_Inr_iff:
  "in_view m st = (Inr x, st') \<longleftrightarrow> (\<exists>s. m (vs_session st) = (Inr x, s) \<and> st' = st\<lparr>vs_session := s\<rparr>)"
  by (auto simp: in_view_def split: prod.splits)

lemma external_identity_nonempty: "external_identity c \<noteq> []"
  by (simp add: external_identity_def external_prefix_def)

lemma store_foreign_as:
  assumes "store_foreign fuel D S E home name st = (Inr stored, st')" "looked_up_as E home ref name"
  shows "written_as fuel D S E home visible ref stored"
proof -
  from assms(1) obtain found st1 where "lookup_table E name st = (Inr found, st1)"
    and found: "(case found of None \<Rightarrow> throw_op (not_found name)
       | Some e \<Rightarrow> (case at_glue (fe_catalog e) of None \<Rightarrow> store_external D E name e
         | Some cat \<Rightarrow> store_glue fuel D S home name e cat)) st1 = (Inr stored, st')"
    unfolding store_foreign_def bind_op_Inr_iff by blast
  moreover from found obtain e where "found = Some e" by (cases found) (simp_all add: throw_op_def)
  ultimately obtain s s' where e: "LookupEntry E name s = (Inr (Some e), s')"
    and rest: "(case at_glue (fe_catalog e) of None \<Rightarrow> store_external D E name e
        | Some cat \<Rightarrow> store_glue fuel D S home name e cat) st1 = (Inr stored, st')"
    by (auto simp: lookup_table_def in_view_Inr_iff)
  have "qn_schema stored = fe_schema e \<and> qn_name stored = fe_name e \<and>
      (qn_catalog stored = [] \<and> in_own_catalog fuel D S home e \<or> stored_by fuel D S home e (qn_catalog stored))"
  proof (cases "at_glue (fe_catalog e)")
    case None
    with rest show ?thesis
      by (auto simp: store_external_def Let_def comp_simps stored_name_def stored_by_def external_identity_nonempty
          split: if_splits)
  next
    case (Some cat)
    with rest have g: "store_glue fuel D S home name e cat st1 = (Inr stored, st')" by simp
    then have same: "same_glue_service D cat (vh_glue home)"
      by (cases "same_glue_service D cat (vh_glue home)") (simp_all add: store_glue_def throw_op_def)
    let ?own = "\<lambda>cid. bind_op (catalog_id_of fuel D S (vh_catalog home) (vh_glue home)) (\<lambda>own.
      bind_op (remember_catalog (qn_catalog name)) (\<lambda>_. return_op (stored_name (if CIEquals D cid own then [] else cid) e)))"
    from g same obtain cid s2 where cid: "catalog_id_of fuel D S (fe_catalog e) cat st1 = (Inr cid, s2)"
      and r: "(if cid = [] then throw_op (BinderException ''whose catalog id Glue does not report'' [at_name (fe_catalog e)])
        else ?own cid) s2 = (Inr stored, st')"
      by (simp only: store_glue_def simp_thms if_False bind_op_Inr_iff) blast
    from r have ne: "cid \<noteq> []" by (cases "cid = []") (simp_all add: throw_op_def)
    with r have "?own cid s2 = (Inr stored, st')" by simp
    then obtain own s3 where own: "catalog_id_of fuel D S (vh_catalog home) (vh_glue home) s2 = (Inr own, s3)"
      and stored: "stored = stored_name (if CIEquals D cid own then [] else cid) e"
      unfolding bind_op_Inr_iff return_op_Inr_iff by blast
    from Some same cid ne have held: "stored_by fuel D S home e cid" by (auto simp: stored_by_def)
    show ?thesis
    proof (cases "CIEquals D cid own")
      case True
      with held own have "in_own_catalog fuel D S home e" unfolding in_own_catalog_def by blast
      with True stored show ?thesis by (simp add: stored_name_def)
    next
      case False
      with held stored show ?thesis by (simp add: stored_name_def)
    qed
  qed
  with e assms(2) show ?thesis unfolding written_as_def by blast
qed

lemma lookup_bare_found:
  assumes "lookup_bare E home name st = (Inr (Some e), st')"
  obtains asked s s' where "LookupEntry E asked s = (Inr (Some e), s')"
    "asked \<in> {\<lparr>qn_catalog = ''temp'', qn_schema = ''main'', qn_name = qn_name name\<rparr>,
      \<lparr>qn_catalog = at_name (vh_catalog home), qn_schema = vh_schema home, qn_name = qn_name name\<rparr>, name}"
proof -
  let ?temp = "\<lparr>qn_catalog = ''temp'', qn_schema = ''main'', qn_name = qn_name name\<rparr>"
  let ?own = "\<lparr>qn_catalog = at_name (vh_catalog home), qn_schema = vh_schema home, qn_name = qn_name name\<rparr>"
  from assms obtain e1 s1 where l1: "lookup_table E ?temp st = (Inr e1, s1)"
    and r1: "(if e1 \<noteq> None then return_op e1
      else bind_op (lookup_table E ?own) (\<lambda>e2. if e2 \<noteq> None then return_op e2 else lookup_table E name)) s1
        = (Inr (Some e), st')"
    unfolding lookup_bare_def bind_op_Inr_iff by blast
  have "\<exists>asked\<in>{?temp, ?own, name}. \<exists>st st'. lookup_table E asked st = (Inr (Some e), st')"
  proof (cases e1)
    case (Some x)
    with r1 have "e1 = Some e" by (simp add: return_op_def)
    with l1 show ?thesis by blast
  next
    case None
    with r1 have "bind_op (lookup_table E ?own) (\<lambda>e2. if e2 \<noteq> None then return_op e2 else lookup_table E name) s1
        = (Inr (Some e), st')" by simp
    then obtain e2 s2 where l2: "lookup_table E ?own s1 = (Inr e2, s2)"
      and r2: "(if e2 \<noteq> None then return_op e2 else lookup_table E name) s2 = (Inr (Some e), st')"
      unfolding bind_op_Inr_iff by blast
    show ?thesis
    proof (cases e2)
      case (Some y)
      with r2 have "e2 = Some e" by (simp add: return_op_def)
      with l2 show ?thesis by blast
    next
      case n: None
      with r2 have "lookup_table E name s2 = (Inr (Some e), st')" by simp
      then show ?thesis by blast
    qed
  qed
  then obtain asked st1 st2 where "asked \<in> {?temp, ?own, name}" "lookup_table E asked st1 = (Inr (Some e), st2)"
    by blast
  then show ?thesis using that by (auto simp: lookup_table_def in_view_Inr_iff)
qed

lemma store_bare_as:
  assumes "store_bare E home ref st = (Inr stored, st')" "qn_catalog ref = []" "qn_schema ref = []"
  shows "written_as fuel D S E home visible ref stored"
proof -
  from assms(1) obtain found st1 where b: "lookup_bare E home ref st = (Inr found, st1)"
    and found: "(case found of None \<Rightarrow> throw_op (not_found ref)
       | Some e \<Rightarrow> if at_name (fe_catalog e) \<noteq> at_name (vh_catalog home)
         then throw_op (BinderException ''which is not in the view's Glue catalog (through the search path)''
                [qn_name ref, at_name (fe_catalog e)])
         else return_op (stored_name [] e)) st1 = (Inr stored, st')"
    unfolding store_bare_def bind_op_Inr_iff by blast
  from found obtain e where e: "found = Some e" by (cases found) (simp_all add: throw_op_def)
  with found have own: "at_name (fe_catalog e) = at_name (vh_catalog home)" "stored = stored_name [] e"
    by (simp_all add: throw_op_def return_op_def split: if_splits)
  from lookup_bare_found [OF b [unfolded e]] obtain asked s s'
    where "LookupEntry E asked s = (Inr (Some e), s')" and "looked_up_as E home ref asked"
    using assms(2,3) unfolding looked_up_as_def by blast
  with own show ?thesis
    unfolding written_as_def stored_name_def in_own_catalog_def by fastforce
qed

lemma store_name_as:
  assumes "store_name fuel D S E home visible ref st = (Inr stored, st')"
  shows "written_as fuel D S E home visible ref stored"
proof -
  from assms obtain name st1 where name: "with_catalog E ref st = (Inr name, st1)"
    and rest: "(if qn_catalog name \<noteq> [] then store_foreign fuel D S E home name
       else if qn_schema name \<noteq> [] \<or> names D visible (qn_name name) then return_op ref
       else store_bare E home name) st1 = (Inr stored, st')"
    by (auto simp: store_name_def comp_simps)
  have named: "name = ref \<or> (qn_catalog ref = [] \<and> qn_schema ref \<noteq> [] \<and> qn_catalog name \<noteq> [] \<and>
      (\<exists>s c s'. NamesCatalog E (qn_schema ref) s = (Inr c, s') \<and> name = ref\<lparr>qn_catalog := c, qn_schema := []\<rparr>))"
    using name by (auto simp: with_catalog_def comp_simps in_view_Inr_iff split: if_splits)
  then have "looked_up_as E home ref name" by (auto simp: looked_up_as_def)
  note foreign = store_foreign_as [OF _ this]
  show ?thesis
  proof (cases "qn_catalog name = []")
    case False
    with rest foreign show ?thesis by simp
  next
    case True
    with named have ref: "name = ref" by auto
    show ?thesis
    proof (cases "qn_schema name \<noteq> [] \<or> names D visible (qn_name name)")
      case c: True
      with rest True ref have "stored = ref" by (auto simp: return_op_def)
      with c True ref show ?thesis by (auto simp: written_as_def is_cte_def)
    next
      case False
      with rest True ref have "store_bare E home ref st1 = (Inr stored, st')" by auto
      from store_bare_as [OF this] True False ref show ?thesis by auto
    qed
  qed
qed

subsection \<open>What is read\<close>

text \<open>
  How a table of the body is read through a catalog \<open>view\<close> in a session with these catalogs: a CTE stays
  one, db.t is in that catalog, and anything else is the entry found when the view was written, in the catalog of
  the view or in an attached one that goes by the id it was stored by.
\<close>

definition read_as ::
  "nat \<Rightarrow> duckdb \<Rightarrow> 'w service \<Rightarrow> 'w view_env \<Rightarrow> view_home \<Rightarrow> view_home \<Rightarrow> properties \<Rightarrow> attached_catalog list
     \<Rightarrow> string list \<Rightarrow> qualified_name \<Rightarrow> qualified_name \<Rightarrow> bool" where
  "read_as fuel D S E home view reported attached visible ref name \<longleftrightarrow>
     (is_cte D visible ref \<and> name = ref) \<or>
     (qn_catalog ref = [] \<and> qn_schema ref \<noteq> [] \<and> name = ref\<lparr>qn_catalog := at_name (vh_catalog view)\<rparr>) \<or>
     (\<exists>asked e s s'. looked_up_as E home ref asked \<and> LookupEntry E asked s = (Inr (Some e), s') \<and>
        qn_schema name = fe_schema e \<and> qn_name name = fe_name e \<and>
        (in_own_catalog fuel D S home e \<and> qn_catalog name = at_name (vh_catalog view) \<or>
         (\<exists>cid. stored_by fuel D S home e cid \<and>
            (\<exists>c\<in>set attached. qn_catalog name = at_name c \<and> goes_by D (vh_glue view) reported c cid))))"

definition read_stored ::
  "duckdb \<Rightarrow> (string \<times> string) list \<Rightarrow> view_home \<Rightarrow> query \<Rightarrow> ('s, query) comp" where
  "read_stored D aliases view q =
     bind_op (resolve_for_reading D aliases q) (pin_to_catalog D (at_name (vh_catalog view)) (vh_schema view))"

lemma resolve_name_Inr:
  "resolve_name D aliases visible name s = (Inr name', s') \<longleftrightarrow> s' = s \<and>
     (if qn_catalog name = [] then name' = name
      else \<exists>al. ci_find D (qn_catalog name) aliases = Some al \<and> name' = name\<lparr>qn_catalog := al\<rparr>)"
  by (auto simp: resolve_name_def comp_simps split: option.splits)

lemma stored_then_read:
  assumes "string_util D" "written_as fuel D S E home visible ref stored"
    and "resolve_name D (attached_aliases D before (vh_glue view) reported attached ids) visible stored s1 = (Inr resolved, s2)"
    and "pin_name D (at_name (vh_catalog view)) (vh_schema view) visible resolved s3 = (Inr name, s4)"
    and schemas: "\<And>q s e s'. LookupEntry E q s = (Inr (Some e), s') \<Longrightarrow> fe_schema e \<noteq> []"
    and named: "\<And>c. c \<in> set attached \<Longrightarrow> at_name c \<noteq> []"
  shows "read_as fuel D S E home view reported attached visible ref name"
proof (cases "qn_catalog stored = []")
  case True
  with assms(3) have r: "resolved = stored" by (simp add: resolve_name_Inr)
  from assms(2) consider (cte) "is_cte D visible ref" "stored = ref"
    | (own) "qn_catalog ref = []" "qn_schema ref \<noteq> []" "stored = ref"
    | (entry) asked e s s' where "looked_up_as E home ref asked" "LookupEntry E asked s = (Inr (Some e), s')"
        "qn_schema stored = fe_schema e" "qn_name stored = fe_name e" "in_own_catalog fuel D S home e"
    using True by (auto simp: written_as_def stored_by_def)
  then show ?thesis
  proof cases
    case cte
    with assms(4) r have "name = ref" by (auto simp: pin_name_def is_cte_def return_op_def)
    with cte show ?thesis by (simp add: read_as_def)
  next
    case own
    with assms(4) r have "name = ref\<lparr>qn_catalog := at_name (vh_catalog view)\<rparr>"
      by (auto simp: pin_name_def return_op_def)
    with own show ?thesis by (simp add: read_as_def)
  next
    case entry
    with assms(4) r True schemas [OF entry(2)] have "name = stored\<lparr>qn_catalog := at_name (vh_catalog view)\<rparr>"
      by (auto simp: pin_name_def return_op_def)
    with entry show ?thesis unfolding read_as_def by auto
  qed
next
  case False
  with assms(3) obtain al where al: "ci_find D (qn_catalog stored)
      (attached_aliases D before (vh_glue view) reported attached ids) = Some al"
    and r: "resolved = stored\<lparr>qn_catalog := al\<rparr>"
    by (auto simp: resolve_name_Inr)
  from string_util.attached_aliases_goes_by [OF assms(1) al]
  obtain c where c: "c \<in> set attached" "at_name c = al" "goes_by D (vh_glue view) reported c (qn_catalog stored)"
    by blast
  with named r assms(4) have "name = resolved" by (auto simp: pin_name_def return_op_def)
  from assms(2) False obtain asked e s s' where "looked_up_as E home ref asked"
    "LookupEntry E asked s = (Inr (Some e), s')" "qn_schema stored = fe_schema e" "qn_name stored = fe_name e"
    "stored_by fuel D S home e (qn_catalog stored)"
    by (auto simp: written_as_def is_cte_def)
  with c r \<open>name = resolved\<close> show ?thesis unfolding read_as_def by auto
qed

lemma same_scopes_trans:
  assumes "list_all2 (\<lambda>(v, n) (v', n'). v' = v \<and> P v n n') xs ys"
    and "list_all2 (\<lambda>(v, n) (v', n'). v' = v \<and> Q v n n') ys zs"
    and "\<And>v n m n'. P v n m \<Longrightarrow> Q v m n' \<Longrightarrow> R v n n'"
  shows "list_all2 (\<lambda>(v, n) (v', n'). v' = v \<and> R v n n') xs zs"
  using assms(1,2) by (auto simp: list_all2_conv_all_nth case_prod_beta) (metis assms(3))

lemma qualified_body_stored:
  assumes "qualify_for_storage fuel D S E home q st = (Inr stored, st')"
  shows "list_all2 (\<lambda>(v, n) (v', n'). v' = v \<and> written_as fuel D S E home v n n') (refs_query [] q) (refs_query [] stored)"
proof -
  let ?st = "st\<lparr>vs_catalogs := [at_name (vh_catalog home)]\<rparr>"
  from assms obtain body st1 where w: "walk (store_name fuel D S E home) q ?st = (Inr body, st1)"
    and c: "bind_op (refuse_catalog_qualified_columns D (vs_catalogs st1) body) (\<lambda>_. return_op body) st1 = (Inr stored, st')"
    unfolding qualify_for_storage_def bind_op_Inr_iff [of "walk _ _"] by blast
  from c have "body = stored" by (auto simp: comp_simps)
  with walk_all [OF w] show ?thesis
    by (auto elim!: list_all2_mono intro: store_name_as)
qed


definition lake :: attached_catalog where
  "lake = \<lparr>at_name = ''lake'', at_kind = ''glue'', at_glue = Some (sample_catalog\<lparr>cat_catalog_id := ''111111111111''\<rparr>),
     at_system = False, at_temporary = False, at_hidden = False, at_in_memory = False\<rparr>"

definition archive :: attached_catalog where
  "archive = lake\<lparr>at_name := ''archive'', at_glue := Some (sample_catalog\<lparr>cat_catalog_id := ''222222222222''\<rparr>)\<rparr>"

text \<open>A view on a table of its own catalog, a CTE and a table of another catalog.\<close>

definition sample_body :: query where
  "sample_body = Query [CTE ''recent'' (Query [] (SelectNode (BaseTableRef \<lparr>qn_catalog = [], qn_schema = [], qn_name = ''t''\<rparr>) []) []) []]
     (SelectNode (JoinRef (BaseTableRef \<lparr>qn_catalog = [], qn_schema = [], qn_name = ''recent''\<rparr>)
        (BaseTableRef \<lparr>qn_catalog = ''archive'', qn_schema = ''old'', qn_name = ''T''\<rparr>) [])
        [ColumnExpr [''t'', ''id'']]) []"

definition sample_view_env :: "sample_world view_env" where
  "sample_view_env = \<lparr>LookupEntry = (\<lambda>name. return_op
       (if qn_catalog name = ''archive'' then Some \<lparr>fe_catalog = archive, fe_schema = ''old'', fe_name = ''t''\<rparr>
        else if qn_catalog name = ''lake'' then Some \<lparr>fe_catalog = lake, fe_schema = ''db'', fe_name = ''t''\<rparr> else None)),
     NamesCatalog = (\<lambda>name. return_op []), ExternalTypesSetting = None\<rparr>"

definition sample_home :: view_home where
  "sample_home = \<lparr>vh_catalog = lake, vh_glue = sample_catalog\<lparr>cat_catalog_id := ''111111111111''\<rparr>, vh_schema = ''db''\<rparr>"

definition sample_view_state :: "sample_world view_state" where
  "sample_view_state = \<lparr>vs_reported = [(''archive'', ''222222222222'')], vs_catalogs = [], vs_session = sample_session sample_lake\<rparr>"

text \<open>Read where the catalogs have other aliases.\<close>

definition sample_attached :: "attached_catalog list" where
  "sample_attached = [lake\<lparr>at_name := ''w''\<rparr>, archive\<lparr>at_name := ''a''\<rparr>]"


subsection \<open>The resolved queries of a view\<close>

definition two_catalogs :: query where
  "two_catalogs = Query [] (SelectNode (JoinRef
     (BaseTableRef \<lparr>qn_catalog = ''111111111111'', qn_schema = ''db'', qn_name = ''t''\<rparr>)
     (BaseTableRef \<lparr>qn_catalog = ''222222222222'', qn_schema = ''db'', qn_name = ''t''\<rparr>) []) []) []"

definition read_two_catalogs :: "(string \<times> string) list \<Rightarrow> (view_cache, query) comp" where
  "read_two_catalogs aliases = get_query ascii_duckdb (\<lambda>sql. Inr two_catalogs) None (\<lambda>ids. aliases) ''lake'' ''db''
     \<lparr>vw_select_sql = [], vw_sql = [], vw_aliases = [], vw_secure = False, vw_is_duckdb_view = True, vw_unsupported_reason = []\<rparr>"


end
