(* ===== verification/Hive_Stats.thy ===== *)
theory Hive_Stats
  imports Hive_Reader "HOL-Library.Word"
begin

text \<open>
  The statistics a Hive scan gives the optimizer, src/planning/stats/hive_stats.cpp: a sample of the files of the
  table (with the directory the list of src/planning/hive_multi_file_reader.cpp offers for it), the estimate of
  the rows scaled from it, and what the partition values say of a partition column. The doubles of the estimate are
  the record \<open>double_ops\<close>, DuckDB's column statistics the record \<open>stats_ops\<close>, the file system and the
  Parquet reader arguments.
\<close>

subsection \<open>Rows of a file\<close>

record 'f double_ops =
  of_idx :: "nat \<Rightarrow> 'f"
  to_idx :: "'f \<Rightarrow> nat"
  fl_plus :: "'f \<Rightarrow> 'f \<Rightarrow> 'f"
  fl_times :: "'f \<Rightarrow> 'f \<Rightarrow> 'f"
  fl_divide :: "'f \<Rightarrow> 'f \<Rightarrow> 'f"
  fl_less :: "'f \<Rightarrow> 'f \<Rightarrow> bool"
  fl_half :: 'f

text \<open>
  \<open>fs_bytes\<close> is the file as stored, \<open>fs_read path gzip n\<close> what reading up to n bytes from its start gives,
  decompressed for gzip; \<open>None\<close> when it can not be opened. \<open>fs_is_gzip\<close> is \<open>IsFileCompressed\<close>, and
  \<open>fs_parquet_rows\<close> the row count of a footer as the Parquet reader gives it.
\<close>

record file_reads =
  fs_bytes :: "string \<Rightarrow> 8 word list option"
  fs_read :: "string \<Rightarrow> bool \<Rightarrow> nat \<Rightarrow> 8 word list option"
  fs_is_gzip :: "string \<Rightarrow> bool"
  fs_parquet_rows :: "open_file \<Rightarrow> nat option result"

text \<open>
  \<open>GzipUncompressedSize\<close>: the size a gzip file records in its last four bytes, little-endian, of 64 bits as the
  code's \<open>idx_t\<close>; \<open>None\<close> when it is below the size of the file and so has wrapped.
\<close>

definition trailer_size :: "8 word list \<Rightarrow> 64 word" where
  "trailer_size t = or (or (ucast (t ! 0)) (push_bit 8 (ucast (t ! 1))))
     (or (push_bit 16 (ucast (t ! 2))) (push_bit 24 (ucast (t ! 3))))"

definition gzip_uncompressed_size :: "file_reads \<Rightarrow> string \<Rightarrow> nat option" where
  "gzip_uncompressed_size fs path = (case fs_bytes fs path of
     None \<Rightarrow> None
   | Some bytes \<Rightarrow>
       if length bytes < 4 then None
       else let recorded = unat (trailer_size (drop (length bytes - 4) bytes)) in
         if recorded < length bytes then None else Some recorded)"

text \<open>
  \<open>SampleLineOrientedRowsPerFile\<close>: the lines of a bounded prefix scaled to the size of the file. Sizes and counts
  are \<open>idx_t\<close> in the code and do not reach its bound.
\<close>

definition SAMPLE_BYTES :: nat where
  "SAMPLE_BYTES = 65536"

definition rows_of_lines :: "'f double_ops \<Rightarrow> nat \<Rightarrow> nat \<Rightarrow> nat \<Rightarrow> nat \<Rightarrow> nat" where
  "rows_of_lines F file_size sample_size lines header_lines =
     (let bytes_per_line = fl_divide F (of_idx F sample_size) (of_idx F lines);
          rows = to_idx F (fl_divide F (of_idx F file_size) bytes_per_line)
      in max (if rows > header_lines then rows - header_lines else 0) 1)"

definition sample_line_oriented_rows :: "duckdb \<Rightarrow> 'f double_ops \<Rightarrow> file_reads \<Rightarrow> string \<Rightarrow> nat \<Rightarrow> nat option" where
  "sample_line_oriented_rows D F fs path header_lines =
     (if \<exists>e\<in>set [''.zst'', ''.snappy'', ''.lz4'', ''.bz2'', ''.deflate'']. EndsWith D path e then None
      else let gzip = fs_is_gzip fs path;
               file_size = (if gzip then gzip_uncompressed_size fs path else map_option length (fs_bytes fs path)) in
        case file_size of
          None \<Rightarrow> None
        | Some n \<Rightarrow>
            if n = 0 then None
            else (case fs_read fs path gzip (min n SAMPLE_BYTES) of
                None \<Rightarrow> None
              | Some sample \<Rightarrow>
                  let lines = length (filter (\<lambda>b. b = 10) sample) in
                  if lines = 0 then None else Some (rows_of_lines F n (length sample) lines header_lines)))"

definition rows_in_file :: "duckdb \<Rightarrow> 'f double_ops \<Rightarrow> file_reads \<Rightarrow> HiveScanInfo \<Rightarrow> open_file \<Rightarrow> nat option result" where
  "rows_in_file D F fs info f = (case hs_file_format info of
     PARQUET \<Rightarrow> fs_parquet_rows fs f
   | CSV \<Rightarrow> Inr (sample_line_oriented_rows D F fs (of_path f) (skip_lines (hs_csv_options info)))
   | JSON \<Rightarrow> Inr (sample_line_oriented_rows D F fs (of_path f) (skip_lines (hs_csv_options info)))
   | AVRO \<Rightarrow> Inr None)"

subsection \<open>The files sampled\<close>

text \<open>
  \<open>SampleRootPartitions\<close>: the pages of the root listing fetched so far, and more only to find a partition the
  scan reads or while it may continue. The files kept are with the partitions they belong to.
\<close>

record root_sample =
  rs_sampled :: "nat option"
  rs_prefix :: string
  rs_in_sampled :: bool
  rs_last_partition :: "nat option"
  rs_last_start :: nat
  rs_files :: "(open_file \<times> nat) list"

definition new_root_sample :: root_sample where
  "new_root_sample = \<lparr>rs_sampled = None, rs_prefix = [], rs_in_sampled = False, rs_last_partition = None,
     rs_last_start = 0, rs_files = []\<rparr>"

text \<open>A data file of the listing: whether it is in the partition sampled, and what keeping it makes of the sample.\<close>

definition in_sampled :: "duckdb \<Rightarrow> open_file \<Rightarrow> root_sample \<Rightarrow> root_sample" where
  "in_sampled D f rs = rs\<lparr>rs_in_sampled := rs_sampled rs \<noteq> None \<and>
     StartsWith D (comparable_location D (of_path f)) (rs_prefix rs)\<rparr>"

definition keep_file ::
  "duckdb \<Rightarrow> GluePartitionInfo list \<Rightarrow> nat set \<Rightarrow> (string \<Rightarrow> nat option) \<Rightarrow> open_file \<Rightarrow> root_sample \<Rightarrow> root_sample" where
  "keep_file D ps reading owner f rs = (case owner (of_path f) of
     None \<Rightarrow> rs
   | Some i \<Rightarrow>
       let rs1 = (if rs_last_partition rs \<noteq> Some i
                  then rs\<lparr>rs_last_partition := Some i, rs_last_start := length (rs_files rs)\<rparr> else rs);
           rs2 = (if rs_sampled rs1 = None \<and> i \<in> reading
                  then rs1\<lparr>rs_sampled := Some i, rs_prefix := comparable_location D (p_location (ps ! i)) @ ''/'',
                           rs_in_sampled := True\<rparr> else rs1)
       in rs2\<lparr>rs_files := rs_files rs2 @ [(f, i)]\<rparr>)"

definition sample_fetched ::
  "duckdb \<Rightarrow> GluePartitionInfo list \<Rightarrow> nat set \<Rightarrow> (string \<Rightarrow> nat option) \<Rightarrow> string \<Rightarrow> open_file list \<Rightarrow> root_sample" where
  "sample_fetched D ps reading owner root_prefix fetched =
     fold (\<lambda>f rs. if is_data_file D f root_prefix then keep_file D ps reading owner f (in_sampled D f rs) else rs)
       fetched new_root_sample"

text \<open>Pages fetched for the sample: it ends behind the partition sampled, or with the listing (\<open>True\<close>).\<close>

fun sample_more ::
  "duckdb \<Rightarrow> GluePartitionInfo list \<Rightarrow> nat set \<Rightarrow> (string \<Rightarrow> nat option) \<Rightarrow> string \<Rightarrow> open_file list \<Rightarrow> root_sample
     \<Rightarrow> root_sample \<times> bool" where
  "sample_more D ps reading owner root_prefix [] rs = (rs, True)"
| "sample_more D ps reading owner root_prefix (f # fs) rs =
     (if \<not> is_data_file D f root_prefix then sample_more D ps reading owner root_prefix fs rs
      else let rs1 = in_sampled D f rs in
        if rs_sampled rs1 \<noteq> None \<and> \<not> rs_in_sampled rs1 then (rs1, False)
        else sample_more D ps reading owner root_prefix fs (keep_file D ps reading owner f rs1))"

text \<open>The pages may end inside the last partition, whose files are then left out.\<close>

definition sample_root_files ::
  "duckdb \<Rightarrow> GluePartitionInfo list \<Rightarrow> nat set \<Rightarrow> (string \<Rightarrow> nat option) \<Rightarrow> string \<Rightarrow> open_file list \<Rightarrow> open_file list
     \<Rightarrow> (open_file \<times> nat) list" where
  "sample_root_files D ps reading owner root_prefix fetched rest =
     (let rs = sample_fetched D ps reading owner root_prefix fetched;
          (rs', listed_all) = (if rs_sampled rs \<noteq> None \<and> \<not> rs_in_sampled rs then (rs, False)
             else sample_more D ps reading owner root_prefix rest rs)
      in if \<not> listed_all \<and> rs_last_partition rs' \<noteq> None \<and> rs_last_partition rs' \<noteq> rs_sampled rs'
         then take (rs_last_start rs') (rs_files rs') else rs_files rs')"

definition attribute_files :: "(open_file \<times> nat) list \<Rightarrow> HiveScanInfo \<Rightarrow> HiveScanInfo" where
  "attribute_files files info =
     info\<lparr>hs_file_partitions := fold (\<lambda>(f, i). AList.update (of_path f) i) files (hs_file_partitions info)\<rparr>"

subsection \<open>The directory sampled\<close>

text \<open>
  What the sample asks for beside the environment of the listing: \<open>se_fetched\<close> is the number of files of the pages
  a listing has fetched so far, \<open>se_reads\<close> the file reads, \<open>se_format_rows\<close> the estimate of the format's own function
  for a number of files.
\<close>

record 'f sample_env =
  se_listing :: listing_env
  se_fetched :: "string \<Rightarrow> nat"
  se_reads :: file_reads
  se_doubles :: "'f double_ops"
  se_format_rows :: "nat \<Rightarrow> nat option"

definition sample_root_partitions :: "duckdb \<Rightarrow> 'f sample_env \<Rightarrow> nat list \<Rightarrow> (file_list, open_file list) comp" where
  "sample_root_partitions D E reading fl =
     (let env = se_listing E; root = RTrimChars D (hs_root_location (fl_info fl)) ''/'' in
      bind_op (lift_op (le_listing env (cache_listings (le_settings env) (fl_info fl)) root)) (\<lambda>listed.
      bind_op (build_partition_locations D env) (\<lambda>_.
      bind_op (list_partitions_of env) (\<lambda>ps fl.
        let owner = (\<lambda>path. owning_partition D (fl_partition_by_location fl) path
              (length (comparable_location D root) + 1));
            n = se_fetched E root;
            files = sample_root_files D ps (set reading) owner (root @ ''/'') (take n listed) (drop n listed)
        in (Inr (map fst files), fl\<lparr>fl_info := attribute_files files (fl_info fl)\<rparr>)))) fl)"

text \<open>A partition sampled by its own directory keeps what \<open>ListPartitions\<close> keeps of it.\<close>

definition own_files :: "duckdb \<Rightarrow> (string \<times> nat) list \<Rightarrow> nat \<Rightarrow> string \<Rightarrow> open_file list \<Rightarrow> open_file list" where
  "own_files D by_location i location listed =
     filter (\<lambda>f. case owning_partition D by_location (of_path f) (length (comparable_location D location)) of
         None \<Rightarrow> True | Some owner \<Rightarrow> owner = i) listed"

definition sample_partition :: "duckdb \<Rightarrow> 'f sample_env \<Rightarrow> nat \<Rightarrow> (file_list, open_file list) comp" where
  "sample_partition D E i =
     (let env = se_listing E in
      bind_op (list_partitions_of env) (\<lambda>ps fl.
      bind_op (lift_op (list_data_files D (le_listing env) (cache_listings (le_settings env) (fl_info fl))
          (partition_directory D ps i))) (\<lambda>listed.
      bind_op (build_partition_locations D env) (\<lambda>_ fl.
        let files = own_files D (fl_partition_by_location fl) i (partition_directory D ps i) listed
        in (Inr files, fl\<lparr>fl_info := attribute_files (map (\<lambda>f. (f, i)) files) (fl_info fl)\<rparr>))) fl))"

definition list_sample_directory :: "duckdb \<Rightarrow> 'f sample_env \<Rightarrow> (file_list, open_file list) comp" where
  "list_sample_directory D E =
     (let env = se_listing E in
      bind_op (plan_listings D env) (\<lambda>_ fl.
        if hs_partition_keys (fl_info fl) = []
        then lift_op (list_data_files D (le_listing env) (cache_listings (le_settings env) (fl_info fl))
               (hs_root_location (fl_info fl))) fl
        else (case fl_listing_jobs fl of
            [] \<Rightarrow> return_op [] fl
          | ListingJob root reading # _ \<Rightarrow>
              if root then sample_root_partitions D E reading fl else sample_partition D E (reading ! 0) fl)))"

subsection \<open>The sample of a table\<close>

record table_sample =
  sm_listed :: bool
  sm_files :: nat
  sm_bytes :: "nat option"
  sm_min_file_size :: nat
  sm_max_file_size :: nat
  sm_file_rows :: "nat option"
  sm_file_bytes :: "nat option"
  sm_partition_sizes :: "(nat \<times> nat \<times> nat) list"

definition new_table_sample :: table_sample where
  "new_table_sample = \<lparr>sm_listed = False, sm_files = 0, sm_bytes = None, sm_min_file_size = 0, sm_max_file_size = 0,
     sm_file_rows = None, sm_file_bytes = None, sm_partition_sizes = []\<rparr>"

text \<open>A sample being measured: an exception leaves what was measured before it.\<close>

record measuring =
  ms_list :: file_list
  ms_sample :: table_sample

definition on_list :: "(file_list, 'a) comp \<Rightarrow> (measuring, 'a) comp" where
  "on_list m st = (case m (ms_list st) of (r, fl) \<Rightarrow> (r, st\<lparr>ms_list := fl\<rparr>))"

definition on_sample :: "(table_sample \<Rightarrow> table_sample) \<Rightarrow> (measuring, unit) comp" where
  "on_sample f st = (Inr (), st\<lparr>ms_sample := f (ms_sample st)\<rparr>)"

text \<open>The partitions the scan reads, and those its reader can not open.\<close>

definition unreadable_partitions :: "duckdb \<Rightarrow> HiveScanInfo \<Rightarrow> GluePartitionInfo list \<Rightarrow> nat list result" where
  "unreadable_partitions D info ps =
     and_then (collect (\<lambda>p. partition_storage_mismatch D info p) ps) (\<lambda>mismatches.
       Inr (filter (\<lambda>i. mismatches ! i \<noteq> None) [0..<length ps]))"

definition partitions_to_measure :: "duckdb \<Rightarrow> listing_env \<Rightarrow> (file_list, nat list \<times> nat list) comp" where
  "partitions_to_measure D env fl =
     (if hs_partition_keys (fl_info fl) = [] then (Inr ([], []), fl)
      else bind_op (partition_indexes env) (\<lambda>reading.
        bind_op (list_partitions_of env) (\<lambda>ps fl.
        bind_op (lift_op (unreadable_partitions D (fl_info fl) ps)) (\<lambda>unreadable.
          return_op (reading, unreadable)) fl)) fl)"

definition readable_file :: "HiveScanInfo \<Rightarrow> nat list \<Rightarrow> open_file \<Rightarrow> bool result" where
  "readable_file info unreadable f =
     (if hs_partition_keys info = [] then Inr True
      else and_then (get_partition_index_of_file info (of_path f)) (\<lambda>i. Inr (i \<notin> set unreadable)))"

definition measurable_file :: "HiveScanInfo \<Rightarrow> nat list \<Rightarrow> nat list \<Rightarrow> open_file \<Rightarrow> bool result" where
  "measurable_file info reading unreadable f =
     (if hs_partition_keys info = [] then Inr True
      else and_then (readable_file info unreadable f) (\<lambda>r.
        if \<not> r then Inr False
        else and_then (get_partition_index_of_file info (of_path f)) (\<lambda>i. Inr (i \<in> set reading))))"

text \<open>The loop over the sizes: the file to measure so far with its size, the bytes and the number of the files sized.\<close>

record sizes =
  sz_measured :: "open_file option"
  sz_measured_size :: nat
  sz_bytes :: nat
  sz_sized :: nat

definition no_sizes :: sizes where
  "no_sizes = \<lparr>sz_measured = None, sz_measured_size = 0, sz_bytes = 0, sz_sized = 0\<rparr>"

definition note_size :: "nat \<Rightarrow> nat \<Rightarrow> table_sample \<Rightarrow> table_sample" where
  "note_size sized n s =
     s\<lparr>sm_min_file_size := (if sized = 0 \<or> n < sm_min_file_size s then n else sm_min_file_size s),
       sm_max_file_size := max (sm_max_file_size s) n\<rparr>"

definition measure_size ::
  "HiveScanInfo \<Rightarrow> nat list \<Rightarrow> nat list \<Rightarrow> open_file \<Rightarrow> sizes \<Rightarrow> (measuring, sizes) comp" where
  "measure_size info reading unreadable f z = (case of_size f of
     None \<Rightarrow> return_op z
   | Some n \<Rightarrow>
       bind_op (on_sample (note_size (sz_sized z) n)) (\<lambda>_.
       bind_op (lift_op (measurable_file info reading unreadable f)) (\<lambda>m.
         let z' = (if m \<and> (sz_measured z = None \<or> n > sz_measured_size z)
                   then z\<lparr>sz_measured := Some f, sz_measured_size := n\<rparr> else z)
         in return_op (z'\<lparr>sz_bytes := sz_bytes z + n, sz_sized := sz_sized z + 1\<rparr>))))"

definition average_size :: "sizes \<Rightarrow> nat" where
  "average_size z = (if sz_sized z > 0 then sz_bytes z div sz_sized z else 0)"

definition count_partition :: "HiveScanInfo \<Rightarrow> nat \<Rightarrow> open_file \<Rightarrow> unit \<Rightarrow> (measuring, unit) comp" where
  "count_partition info average f u =
     bind_op (lift_op (get_partition_index_of_file info (of_path f))) (\<lambda>i. on_sample (\<lambda>s.
       let (files, bytes) = (case map_of (sm_partition_sizes s) i of None \<Rightarrow> (0, 0) | Some e \<Rightarrow> e)
       in s\<lparr>sm_partition_sizes := AList.update i
            (files + 1, bytes + (case of_size f of Some n \<Rightarrow> n | None \<Rightarrow> average)) (sm_partition_sizes s)\<rparr>))"

fun first_file :: "(open_file \<Rightarrow> bool result) \<Rightarrow> open_file list \<Rightarrow> open_file option result" where
  "first_file wanted [] = Inr None"
| "first_file wanted (f # fs) =
     and_then (wanted f) (\<lambda>w. if w then Inr (Some f) else first_file wanted fs)"

definition file_to_measure ::
  "HiveScanInfo \<Rightarrow> nat list \<Rightarrow> nat list \<Rightarrow> sizes \<Rightarrow> open_file list \<Rightarrow> open_file option result" where
  "file_to_measure info reading unreadable z listed = (case sz_measured z of
     Some f \<Rightarrow> Inr (Some f)
   | None \<Rightarrow> and_then (first_file (measurable_file info reading unreadable) listed) (\<lambda>m. case m of
         Some f \<Rightarrow> Inr (Some f)
       | None \<Rightarrow> first_file (readable_file info unreadable) listed))"

definition measure_file :: "duckdb \<Rightarrow> 'f sample_env \<Rightarrow> HiveScanInfo \<Rightarrow> open_file \<Rightarrow> (measuring, unit) comp" where
  "measure_file D E info f =
     bind_op (on_sample (\<lambda>s. s\<lparr>sm_file_bytes := of_size f\<rparr>)) (\<lambda>_.
     bind_op (lift_op (rows_in_file D (se_doubles E) (se_reads E) info f)) (\<lambda>rows.
       on_sample (\<lambda>s. s\<lparr>sm_file_rows := rows\<rparr>)))"

definition measure_files :: "duckdb \<Rightarrow> 'f sample_env \<Rightarrow> (measuring, unit) comp" where
  "measure_files D E =
     bind_op (on_list (list_sample_directory D E)) (\<lambda>listed.
     bind_op (on_sample (\<lambda>s. s\<lparr>sm_listed := True, sm_files := length listed\<rparr>)) (\<lambda>_.
     bind_op (on_list (partitions_to_measure D (se_listing E))) (\<lambda>(reading, unreadable) st.
       let info = fl_info (ms_list st) in
       bind_op (for_each (measure_size info reading unreadable) listed no_sizes) (\<lambda>z.
       bind_op (on_sample (\<lambda>s. if sz_sized z > 0
           then s\<lparr>sm_bytes := Some (sz_bytes z + average_size z * (length listed - sz_sized z))\<rparr> else s)) (\<lambda>_.
       bind_op (if hs_partition_keys info = [] then return_op ()
           else for_each (count_partition info (average_size z)) listed ()) (\<lambda>_.
       bind_op (lift_op (file_to_measure info reading unreadable z listed)) (\<lambda>m.
         case m of None \<Rightarrow> return_op () | Some f \<Rightarrow> measure_file D E info f)))) st)))"

text \<open>\<open>MeasureTable\<close>: costing must not fail a query, so an exception is only logged.\<close>

definition measure_table :: "duckdb \<Rightarrow> 'f sample_env \<Rightarrow> file_list \<Rightarrow> table_sample \<times> file_list" where
  "measure_table D E fl =
     (if hs_file_format (fl_info fl) = AVRO then (new_table_sample, fl)
      else case measure_files D E \<lparr>ms_list = fl, ms_sample = new_table_sample\<rparr> of
        (r, st) \<Rightarrow> (ms_sample st, ms_list st))"

text \<open>
  \<open>SampleTable\<close> over the samples of the query (\<open>HiveQueryCache::GetSample\<close>): the first scan of a table to ask
  measures it.
\<close>

record scan_costing =
  sc_list :: file_list
  sc_samples :: "(string \<times> table_sample) list"

definition sample_table :: "duckdb \<Rightarrow> 'f sample_env \<Rightarrow> scan_costing \<Rightarrow> table_sample \<times> scan_costing" where
  "sample_table D E st =
     (let info = fl_info (sc_list st); key = hs_catalog_name info @ ''.'' @ describe_scan info in
      case map_of (sc_samples st) key of
        Some s \<Rightarrow> (s, st)
      | None \<Rightarrow> (case measure_table D E (sc_list st) of (s, fl) \<Rightarrow>
          (s, st\<lparr>sc_list := fl, sc_samples := AList.update key s (sc_samples st)\<rparr>)))"

subsection \<open>Cardinality\<close>

definition unsampled_cardinality :: "duckdb \<Rightarrow> 'f sample_env \<Rightarrow> (file_list, nat option) comp" where
  "unsampled_cardinality D E =
     bind_op (get_file_count D (se_listing E) 0) (\<lambda>(n, all_expanded).
       return_op (se_format_rows E (if all_expanded then n else 2 * n)))"

definition ESTIMATED_BYTES_PER_ROW :: nat where
  "ESTIMATED_BYTES_PER_ROW = 100"

text \<open>The files and bytes the scan reads, and the rows the bytes of each partition imply.\<close>

definition add_partition_size ::
  "'f double_ops \<Rightarrow> table_sample \<Rightarrow> 'f \<Rightarrow> 'f \<Rightarrow> nat \<Rightarrow> 'f \<times> 'f \<times> nat \<Rightarrow> 'f \<times> 'f \<times> nat" where
  "add_partition_size F s average_files average_bytes i = (\<lambda>(files, bytes, bytes_rows).
     case map_of (sm_partition_sizes s) i of
       None \<Rightarrow> (fl_plus F files average_files, fl_plus F bytes average_bytes,
                bytes_rows + to_idx F average_bytes div ESTIMATED_BYTES_PER_ROW)
     | Some (n, b) \<Rightarrow> (fl_plus F files (of_idx F n), fl_plus F bytes (of_idx F b),
                bytes_rows + b div ESTIMATED_BYTES_PER_ROW))"

definition read_sizes ::
  "'f double_ops \<Rightarrow> HiveScanInfo \<Rightarrow> table_sample \<Rightarrow> nat list \<Rightarrow> nat \<Rightarrow> 'f \<times> 'f \<times> nat" where
  "read_sizes F info s indexes partitions =
     (let files = of_idx F (sm_files s);
          bytes = (case sm_bytes s of None \<Rightarrow> of_idx F 0 | Some b \<Rightarrow> of_idx F b) in
      if hs_partition_keys info \<noteq> [] \<and> sm_partition_sizes s \<noteq> []
      then let seen = of_idx F (length (sm_partition_sizes s)) in
        fold (add_partition_size F s (fl_divide F files seen) (fl_divide F bytes seen)) indexes
          (of_idx F 0, of_idx F 0, 0)
      else (fl_times F files (of_idx F partitions), fl_times F bytes (of_idx F partitions), 0))"

definition differs_in_size :: "table_sample \<Rightarrow> bool" where
  "differs_in_size s \<longleftrightarrow> sm_bytes s \<noteq> None \<and> (\<exists>b\<in>set_option (sm_file_bytes s). b > 0) \<and>
     sm_max_file_size s > sm_min_file_size s * 2"

definition estimated_rows ::
  "'f double_ops \<Rightarrow> HiveScanInfo \<Rightarrow> table_sample \<Rightarrow> nat list \<Rightarrow> nat \<Rightarrow> nat \<Rightarrow> nat" where
  "estimated_rows F info s indexes partitions file_rows =
     (case read_sizes F info s indexes partitions of (files, bytes, bytes_rows) \<Rightarrow>
      let by_file = (if differs_in_size s
            then fl_times F (fl_divide F bytes (of_idx F (the (sm_file_bytes s)))) (of_idx F file_rows)
            else fl_times F (of_idx F file_rows) files);
          rows = (if partitions > 1 \<and> sm_bytes s \<noteq> None \<and> \<not> fl_less F (of_idx F bytes_rows) by_file
            then of_idx F bytes_rows else by_file)
      in max (to_idx F (fl_plus F rows (fl_half F))) (if fl_less F (of_idx F 0) files then 1 else 0))"

definition on_files :: "(file_list, 'a) comp \<Rightarrow> (scan_costing, 'a) comp" where
  "on_files m st = (case m (sc_list st) of (r, fl) \<Rightarrow> (r, st\<lparr>sc_list := fl\<rparr>))"

definition hive_scan_cardinality :: "duckdb \<Rightarrow> 'f sample_env \<Rightarrow> (scan_costing, nat option) comp" where
  "hive_scan_cardinality D E st =
     (let partitioned = (hs_partition_keys (fl_info (sc_list st)) \<noteq> []) in
      bind_op (if partitioned then on_files (partition_indexes (se_listing E)) else return_op []) (\<lambda>indexes st.
        let partitions = (if partitioned then length indexes else 1) in
        if partitions = 0 then (Inr (Some 0), st)
        else (case sample_table D E st of (s, st) \<Rightarrow>
          (case sm_file_rows s of
             None \<Rightarrow>
               if sm_listed s \<and> sm_files s = 0 \<and> \<not> partitioned then (Inr (Some 0), st)
               else on_files (unsampled_cardinality D E) st
           | Some rows \<Rightarrow>
               (Inr (Some (estimated_rows (se_doubles E) (fl_info (sc_list st)) s indexes partitions rows)), st)))) st)"

subsection \<open>Statistics of a partition column\<close>

record 'st stats_ops =
  FromConstant :: "Value \<Rightarrow> 'st"
  ExpandBounds :: "'st \<Rightarrow> 'st \<Rightarrow> 'st"
  SetDistinctCount :: "'st \<Rightarrow> nat \<Rightarrow> 'st"

text \<open>The key a column of the scan is, when it is a whole top-level column.\<close>

definition statistics_key ::
  "duckdb \<Rightarrow> HiveScanInfo \<Rightarrow> (string \<times> LogicalType) list \<Rightarrow> nat option \<Rightarrow> bool \<Rightarrow> nat option" where
  "statistics_key D info columns primary has_children = (case primary of
     None \<Rightarrow> None
   | Some c \<Rightarrow>
       if \<not> has_children \<and> c < length columns then get_partition_key_index D info (fst (columns ! c)) else None)"

definition value_of_key :: "duckdb \<Rightarrow> HiveScanInfo \<Rightarrow> nat \<Rightarrow> LogicalType \<Rightarrow> GluePartitionInfo \<Rightarrow> Value option" where
  "value_of_key D info k t p =
     (if k \<ge> length (p_values p) then None
      else case partition_value D (hs_partition_keys info ! k) (p_values p ! k) t of Inl e \<Rightarrow> None | Inr v \<Rightarrow> Some v)"

text \<open>\<open>None\<close>, no statistics, at the first partition whose value is missing or not of the column's type.\<close>

fun merge_partition_values ::
  "'st stats_ops \<Rightarrow> (nat \<Rightarrow> Value option) \<Rightarrow> nat list \<Rightarrow> 'st option \<times> Value list \<Rightarrow> ('st option \<times> Value list) option" where
  "merge_partition_values SO value_of [] acc = Some acc"
| "merge_partition_values SO value_of (i # is) acc = (case value_of i of
     None \<Rightarrow> None
   | Some v \<Rightarrow> merge_partition_values SO value_of is
       (Some (case fst acc of None \<Rightarrow> FromConstant SO v | Some s \<Rightarrow> ExpandBounds SO s (FromConstant SO v)),
        List.insert v (snd acc)))"

definition hive_partition_statistics ::
  "duckdb \<Rightarrow> 'st stats_ops \<Rightarrow> listing_env \<Rightarrow> 'st option \<Rightarrow> (string \<times> LogicalType) list \<Rightarrow> nat option \<Rightarrow> bool
     \<Rightarrow> (file_list, 'st option) comp" where
  "hive_partition_statistics D SO env format_statistics columns primary has_children fl =
     (case statistics_key D (fl_info fl) columns primary has_children of
        None \<Rightarrow> (Inr format_statistics, fl)
      | Some k \<Rightarrow>
          bind_op (partition_indexes env) (\<lambda>indexes.
            if indexes = [] then return_op None
            else bind_op (list_partitions_of env) (\<lambda>ps fl.
              (Inr (case merge_partition_values SO
                  (\<lambda>i. value_of_key D (fl_info fl) k (snd (columns ! the primary)) (ps ! i)) indexes (None, []) of
                 None \<Rightarrow> None
               | Some (s, distinct_values) \<Rightarrow> Some (SetDistinctCount SO (the s) (length distinct_values))), fl))) fl)"

subsection \<open>The size a gzip file records\<close>

definition little_endian :: "nat \<Rightarrow> 8 word list" where
  "little_endian n = map (\<lambda>k. word_of_nat (n div 256 ^ k)) [0..<4]"

lemma byte_position: "8 * k \<le> n \<Longrightarrow> n < 8 * k + 8 \<Longrightarrow> n div 8 = k \<and> n mod 8 = n - 8 * k" for k n :: nat
  by (metis add.commute add_diff_inverse_nat div_mult_self4 div_less mod_less mod_mult_self4 add_0_right not_less
      less_diff_conv2 add.right_neutral zero_neq_numeral)

text \<open>The bits of the trailer: those of byte k stand at 8 k.\<close>

lemma trailer_size_bits:
  "bit (trailer_size t) n \<longleftrightarrow> n < 32 \<and> bit (t ! (n div 8)) (n mod 8)"
proof -
  have none: "\<not> bit w m" if "8 \<le> m" for w :: "8 word" and m using bit_imp_le_length [of w m] that by auto
  have bits: "bit (trailer_size t) n \<longleftrightarrow> n < 64 \<and> (bit (t ! 0) n \<or> 8 \<le> n \<and> bit (t ! 1) (n - 8) \<or>
      16 \<le> n \<and> bit (t ! 2) (n - 16) \<or> 24 \<le> n \<and> bit (t ! 3) (n - 24))"
    by (simp add: trailer_size_def bit_or_iff bit_push_bit_iff bit_ucast_iff) linarith
  consider "n < 8" | "8 * 1 \<le> n" "n < 8 * 1 + 8" | "8 * 2 \<le> n" "n < 8 * 2 + 8" | "8 * 3 \<le> n" "n < 8 * 3 + 8" | "32 \<le> n"
    by linarith
  then show ?thesis
  proof cases
    case 2
    with byte_position [OF 2] none [of n] show ?thesis by (simp add: bits)
  next
    case 3
    with byte_position [OF 3] none [of n] none [of "n - 8"] show ?thesis by (simp add: bits)
  next
    case 4
    with byte_position [OF 4] none [of n] none [of "n - 8"] none [of "n - 16"] show ?thesis by (simp add: bits)
  next
    case 5
    with none [of n] none [of "n - 8"] none [of "n - 16"] none [of "n - 24"] show ?thesis by (simp add: bits)
  qed (simp add: bits)
qed

lemma trailer_size_less: "unat (trailer_size t) < 2 ^ 32"
proof -
  have "take_bit 32 (trailer_size t) = trailer_size t"
    by (rule bit_eqI) (auto simp: bit_take_bit_iff trailer_size_bits)
  then show ?thesis by (metis take_bit_nat_less_exp unsigned_take_bit_eq)
qed

lemma little_endian_nth: "k < 4 \<Longrightarrow> little_endian n ! k = word_of_nat (n div 256 ^ k)"
  by (simp add: little_endian_def)

lemma trailer_size_little_endian: "trailer_size (little_endian n) = word_of_nat (n mod 2 ^ 32)"
proof (rule bit_eqI)
  fix m assume "possible_bit TYPE(64 word) m"
  have "bit (little_endian n ! (m div 8)) (m mod 8) = bit n m" if "m < 32"
  proof -
    have "n div 256 ^ (m div 8) = drop_bit (8 * (m div 8)) n"
      by (simp add: drop_bit_eq_div power_mult)
    moreover have "m div 8 < 4" using that by simp
    ultimately show ?thesis by (simp add: little_endian_nth bit_of_nat_iff bit_drop_bit_eq)
  qed
  moreover have low: "bit (n mod 2 ^ 32) m \<longleftrightarrow> m < 32 \<and> bit n m"
    by (metis bit_take_bit_iff take_bit_eq_mod)
  ultimately show "bit (trailer_size (little_endian n)) m = bit (word_of_nat (n mod 2 ^ 32) :: 64 word) m"
    using \<open>possible_bit TYPE(64 word) m\<close> low by (auto simp: trailer_size_bits bit_of_nat_iff)
qed

lemma length_little_endian: "length (little_endian n) = 4"
  by (simp add: little_endian_def)

text \<open>
  The uncompressed size the estimate takes for a gzip file is never below the size of the file and fits 32 bits,
  and it is the size modulo 4 GiB where the last four bytes record that.
\<close>

theorem gzip_size_bounded:
  assumes "gzip_uncompressed_size fs path = Some n" and "fs_bytes fs path = Some bytes"
  shows "length bytes \<le> n \<and> n < 2 ^ 32 \<and>
    (\<forall>m. drop (length bytes - 4) bytes = little_endian m \<longrightarrow> n = m mod 2 ^ 32)"
proof -
  from assms have n: "n = unat (trailer_size (drop (length bytes - 4) bytes))" "length bytes \<le> n"
    by (auto simp: gzip_uncompressed_size_def Let_def split: if_splits)
  have "unat (word_of_nat (m mod 2 ^ 32) :: 64 word) = m mod 2 ^ 32" for m :: nat
    by (subst unat_of_nat) (auto simp: mod_less intro!: mod_less order_less_trans [OF mod_less_divisor])
  with n show ?thesis using trailer_size_less by (auto simp: trailer_size_little_endian)
qed

definition sample_reads :: "8 word list \<Rightarrow> file_reads" where
  "sample_reads bytes = \<lparr>fs_bytes = (\<lambda>path. Some bytes), fs_read = (\<lambda>path gzip n. Some (take n bytes)),
     fs_is_gzip = (\<lambda>path. True), fs_parquet_rows = (\<lambda>f. Inr None)\<rparr>"

lemma gzip_size_bounded_witness:
  "6 \<le> (300 :: nat) \<and> (300 :: nat) < 2 ^ 32 \<and>
   gzip_uncompressed_size (sample_reads ([31, 139] @ little_endian 300)) ''t.gz'' = Some 300"
proof -
  let ?bytes = "[31, 139] @ little_endian 300"
  have found: "gzip_uncompressed_size (sample_reads ?bytes) ''t.gz'' = Some 300"
    by (simp add: gzip_uncompressed_size_def sample_reads_def trailer_size_little_endian length_little_endian)
  have "fs_bytes (sample_reads ?bytes) ''t.gz'' = Some ?bytes" by (simp add: sample_reads_def)
  from gzip_size_bounded [OF found this] have "length ?bytes \<le> 300 \<and> (300 :: nat) < 2 ^ 32" by blast
  with found show ?thesis by (simp add: length_little_endian)
qed

subsection \<open>Statistics cover the scan\<close>

text \<open>
  What the scan relies on of DuckDB's statistics: those of a constant hold it, merging keeps what either holds, and the
  distinct count is the one set.
\<close>

definition statistics_laws :: "'st stats_ops \<Rightarrow> ('st \<Rightarrow> Value \<Rightarrow> bool) \<Rightarrow> ('st \<Rightarrow> nat) \<Rightarrow> bool" where
  "statistics_laws SO covers distinct_count \<longleftrightarrow>
     (\<forall>v. covers (FromConstant SO v) v) \<and>
     (\<forall>a b v. covers a v \<or> covers b v \<longrightarrow> covers (ExpandBounds SO a b) v) \<and>
     (\<forall>a n v. covers (SetDistinctCount SO a n) v = covers a v) \<and>
     (\<forall>a n. distinct_count (SetDistinctCount SO a n) = n)"

lemma merge_partition_values_covers:
  assumes laws: "statistics_laws SO covers distinct_count"
    and "merge_partition_values SO value_of is (s0, vs0) = Some (s, vs)"
    and "distinct vs0" "\<forall>v\<in>set vs0. \<exists>a. s0 = Some a \<and> covers a v" "s0 = None \<longrightarrow> vs0 = []"
  shows "(\<forall>i\<in>set is. value_of i \<noteq> None) \<and> distinct vs \<and> set vs = set vs0 \<union> (the \<circ> value_of) ` set is \<and>
    (\<forall>v\<in>set vs. \<exists>a. s = Some a \<and> covers a v)"
  using assms(2-)
proof (induction "is" arbitrary: s0 vs0)
  case Nil
  then show ?case by simp
next
  case (Cons i "is")
  then obtain v where v: "value_of i = Some v" by (auto split: option.splits)
  let ?s = "case s0 of None \<Rightarrow> FromConstant SO v | Some s \<Rightarrow> ExpandBounds SO s (FromConstant SO v)"
  have kept: "\<forall>w\<in>set (List.insert v vs0). covers ?s w"
    using Cons.prems(3,4) laws by (auto simp: statistics_laws_def split: option.splits)
  from Cons.prems(1) v have "merge_partition_values SO value_of is (Some ?s, List.insert v vs0) = Some (s, vs)" by simp
  from Cons.IH [OF this] kept Cons.prems(2) v show ?case by (auto simp: distinct_insert)
qed

lemma partition_indexes_keeps:
  "partition_indexes env fl = (Inr indexes, fl1) \<Longrightarrow>
     fl_partition_indexes fl1 = Some indexes \<and> hs_partition_keys (fl_info fl1) = hs_partition_keys (fl_info fl)"
  by (auto simp: partition_indexes_def bind_op_Inr_iff list_partitions_of_def on_info_def scan_partitions_def
      split: option.splits prod.splits if_splits sum.splits)

lemma list_partitions_of_keeps:
  "list_partitions_of env fl = (Inr ps, fl1) \<Longrightarrow>
     fl_partition_indexes fl1 = fl_partition_indexes fl \<and> hs_partition_keys (fl_info fl1) = hs_partition_keys (fl_info fl) \<and>
     hs_partitions (fl_info fl1) = Some ps"
  by (auto simp: list_partitions_of_def on_info_def scan_partitions_def
      split: option.splits prod.splits if_splits sum.splits)

text \<open>The constant of a partition column in the rows of a file is the value of the file's partition.\<close>

lemma key_constant:
  assumes bind: "finalize_bind D info columns scan_columns file = Inr constants"
    and i: "find_partition_index_of_file info (df_path file) = Some i"
    and x: "x < length scan_columns" "fst (scan_columns ! x) = Column c"
    and k: "get_partition_key_index D info (fst (columns ! c)) = Some k"
    and v: "value_of_key D info k (snd (columns ! c)) (opt_list (hs_partitions info) ! i) = Some v"
  shows "constants ! x = Some v"
proof -
  from k have "hs_partition_keys info \<noteq> []" by (auto simp: get_partition_key_index_def dest: find_index_SomeD)
  with bind i have "list_all2 (\<lambda>column w. column_constant D info columns file
      (Some (opt_list (hs_partitions info) ! i)) column = Inr w) scan_columns constants"
    by (auto simp: finalize_bind_def result_simps get_partition_of_file_loaded Let_def)
  then have "column_constant D info columns file (Some (opt_list (hs_partitions info) ! i)) (scan_columns ! x) =
      Inr (constants ! x)"
    using x(1) by (rule list_all2_nthD)
  with x(2) k v show ?thesis
    by (cases "scan_columns ! x")
      (auto simp: column_constant_def value_of_key_def vector_at_def result_simps split: if_splits sum.splits)
qed

text \<open>
  C26: the statistics of a partition column hold every value the scan emits for it: the constant the reader puts in the
  rows of any file of the partitions read is within them, and their distinct count is the number of different values
  of those partitions.
\<close>

theorem partition_statistics_cover_scan:
  assumes laws: "statistics_laws SO covers distinct_count"
    and known: "hive_partition_statistics D SO env formatted columns (Some c) False fl = (Inr (Some st), fl')"
    and key: "get_partition_key_index D (fl_info fl) (fst (columns ! c)) = Some k" "c < length columns"
    and bind: "hs_partition_keys info = hs_partition_keys (fl_info fl)" "hs_partitions info = hs_partitions (fl_info fl')"
      "finalize_bind D info columns scan_columns file = Inr constants"
    and reading: "find_partition_index_of_file info (df_path file) = Some i" "i \<in> set (opt_list (fl_partition_indexes fl'))"
    and column: "x < length scan_columns" "fst (scan_columns ! x) = Column c"
  shows "(\<exists>v. constants ! x = Some v \<and> covers st v) \<and>
    distinct_count st = card ((\<lambda>j. value_of_key D info k (snd (columns ! c)) (opt_list (hs_partitions info) ! j)) `
      set (opt_list (fl_partition_indexes fl')))"
proof -
  let ?key_value = "\<lambda>info ps j. value_of_key D info k (snd (columns ! c)) (ps ! j)"
  from known key obtain indexes fl1 ps where i1: "partition_indexes env fl = (Inr indexes, fl1)" "indexes \<noteq> []"
    and p1: "list_partitions_of env fl1 = (Inr ps, fl')"
    and m: "\<exists>s vs. merge_partition_values SO (?key_value (fl_info fl') ps) indexes (None, []) = Some (s, vs) \<and>
      st = SetDistinctCount SO (the s) (length vs)"
    unfolding hive_partition_statistics_def statistics_key_def
    by (auto simp: bind_op_Inr_iff return_op_Inr_iff split: if_splits option.splits prod.splits)
  note kept1 = partition_indexes_keeps [OF i1(1)] and kept2 = list_partitions_of_keeps [OF p1]
  have indexes: "fl_partition_indexes fl' = Some indexes" using kept1 kept2 by simp
  have value_of: "?key_value (fl_info fl') ps = ?key_value info (opt_list (hs_partitions info))"
    using kept1 kept2 bind(1,2) by (simp add: value_of_key_def fun_eq_iff opt_list_def)
  from m obtain s vs where merged: "merge_partition_values SO (?key_value info (opt_list (hs_partitions info))) indexes
      (None, []) = Some (s, vs)" and st: "st = SetDistinctCount SO (the s) (length vs)"
    unfolding value_of by blast
  from merge_partition_values_covers [OF laws merged]
  have all: "\<forall>j\<in>set indexes. ?key_value info (opt_list (hs_partitions info)) j \<noteq> None" "distinct vs"
      "set vs = (the \<circ> ?key_value info (opt_list (hs_partitions info))) ` set indexes"
      "\<forall>v\<in>set vs. \<exists>a. s = Some a \<and> covers a v"
    by simp_all
  have "inj_on the (?key_value info (opt_list (hs_partitions info)) ` set indexes)"
    using all(1) by (intro inj_onI option.expand) auto
  then have "card (?key_value info (opt_list (hs_partitions info)) ` set indexes) = length vs"
    using all(2,3) by (metis card_image distinct_card image_comp)
  moreover have "distinct_count st = length vs" using laws by (simp add: st statistics_laws_def)
  moreover have "\<exists>v. constants ! x = Some v \<and> covers st v"
  proof -
    have "i \<in> set indexes" using reading(2) indexes by (simp add: opt_list_def)
    with all(1) obtain v where v: "?key_value info (opt_list (hs_partitions info)) i = Some v" by blast
    with \<open>i \<in> set indexes\<close> all(3) have "v \<in> set vs" by force
    with all(4) have "covers st v" using laws by (auto simp: st statistics_laws_def)
    moreover have "constants ! x = Some v"
      using key_constant [OF bind(3) reading(1) column] key bind(1) v by (simp add: get_partition_key_index_def)
    ultimately show ?thesis by blast
  qed
  ultimately show ?thesis using indexes by (simp add: opt_list_def)
qed

text \<open>Statistics that keep the values themselves.\<close>

definition value_statistics :: "(Value list \<times> nat) stats_ops" where
  "value_statistics = \<lparr>FromConstant = (\<lambda>v. ([v], 0)), ExpandBounds = (\<lambda>a b. (fst a @ fst b, 0)),
     SetDistinctCount = (\<lambda>a n. (fst a, n))\<rparr>"

lemma partition_statistics_cover_scan_witness:
  "\<exists>st fl'. hive_partition_statistics ascii_duckdb value_statistics (sample_listing None 1 []) None
       [(''id'', BIGINT), (''p'', VARCHAR)] (Some 1) False (new_file_list sample_scan (Some [0, 1])) = (Inr (Some st), fl') \<and>
     StringV ''2'' \<in> set (fst st)"
proof -
  let ?columns = "[(''id'', BIGINT), (''p'', VARCHAR)]" and ?scan_columns = "[(Column 0, None), (Column 1, None)]"
  let ?info = "sample_scan\<lparr>hs_file_partitions := [(''f'', 1)]\<rparr>" and ?fl = "new_file_list sample_scan (Some [0, 1])"
  let ?file = "\<lparr>df_path = ''f'', df_columns = [''ID''], df_metadata = Inr (1, None)\<rparr>"
  have laws: "statistics_laws value_statistics (\<lambda>st v. v \<in> set (fst st)) snd"
    by (simp add: statistics_laws_def value_statistics_def)
  have known: "hive_partition_statistics ascii_duckdb value_statistics (sample_listing None 1 []) None ?columns (Some 1)
      False ?fl = (Inr (Some ([StringV ''1'', StringV ''2''], 2)), ?fl)" by code_simp
  have key: "get_partition_key_index ascii_duckdb (fl_info ?fl) (fst (?columns ! 1)) = Some 0" by code_simp
  have bind: "finalize_bind ascii_duckdb ?info ?columns ?scan_columns ?file = Inr [None, Some (StringV ''2'')]"
    by code_simp
  have "find_partition_index_of_file ?info (df_path ?file) = Some 1" by (simp add: find_partition_index_of_file_def)
  from partition_statistics_cover_scan [OF laws known key _ _ _ bind this, of 1] known show ?thesis
    by (simp add: new_file_list_def sample_scan_def opt_list_def)
qed

end
