(* ===== verification/Schema_Set.thy ===== *)
theory Schema_Set
  imports Schema_Entry Database_Api
begin

text \<open>
  \<open>GlueSchemaSet\<close> of src/catalog/glue_schema_set.cpp: the schema entries of a catalog, by the names of their
  databases without their case. An operation works on the set and on the session; an entry that leaves the set is
  retired to the transaction manager. One connection, so the lock of the set is not modelled.
\<close>

subsection \<open>State\<close>

record schema_set =
  ss_entries :: "(string \<times> schema_entry) list"
  ss_is_loaded :: bool

type_synonym 'w catalog_state = "schema_set \<times> 'w session"

definition new_schema_set :: schema_set where
  "new_schema_set = \<lparr>ss_entries = [], ss_is_loaded = False\<rparr>"

text \<open>The name an entry has in the set.\<close>

definition schema_name :: "schema_entry \<Rightarrow> string" where
  "schema_name se = d_name (se_database_info se)"

definition create_schema_entry :: "GlueDatabaseInfo \<Rightarrow> bool \<Rightarrow> schema_entry" where
  "create_schema_entry database loaded =
     \<lparr>se_tables = new_table_set, se_database_info = database, se_info_loaded = loaded\<rparr>"

definition find_schema :: "duckdb \<Rightarrow> string \<Rightarrow> schema_set \<Rightarrow> schema_entry option" where
  "find_schema D name ss = ci_find D name (ss_entries ss)"

definition emplace_schema :: "duckdb \<Rightarrow> string \<Rightarrow> schema_entry \<Rightarrow> schema_set \<Rightarrow> schema_set" where
  "emplace_schema D name se ss = ss\<lparr>ss_entries := ci_emplace D name se (ss_entries ss)\<rparr>"

text \<open>An entry of the set is changed in place, through the pointer a lookup gave.\<close>

definition change_schema :: "duckdb \<Rightarrow> string \<Rightarrow> (schema_entry \<Rightarrow> schema_entry) \<Rightarrow> schema_set \<Rightarrow> schema_set" where
  "change_schema D name f ss =
     ss\<lparr>ss_entries := map (\<lambda>(n, se). if CIEquals D n name then (n, f se) else (n, se)) (ss_entries ss)\<rparr>"

subsection \<open>Operations\<close>

definition load_schema :: "duckdb \<Rightarrow> GlueDatabaseInfo \<Rightarrow> schema_set \<Rightarrow> schema_set" where
  "load_schema D database ss = (case find_schema D (d_name database) ss of
     Some se \<Rightarrow> change_schema D (d_name database) (set_schema_info database) ss
   | None \<Rightarrow> emplace_schema D (d_name database) (create_schema_entry database True) ss)"

definition load_schemas :: "nat \<Rightarrow> duckdb \<Rightarrow> glue_catalog \<Rightarrow> 'w service \<Rightarrow> ('w catalog_state, unit) comp" where
  "load_schemas fuel D cat S st =
     (if ss_is_loaded (fst st) then (Inr (), st)
      else bind_op (on_session (get_databases fuel cat S)) (\<lambda>databases (ss, s).
        (Inr (), ((fold (load_schema D) databases ss)\<lparr>ss_is_loaded := True\<rparr>, s))) st)"

text \<open>\<open>Transaction::Get\<close> keeps a retired entry alive while the reader uses it.\<close>

definition in_transaction :: "duckdb \<Rightarrow> glue_catalog \<Rightarrow> 't \<times> 'w session \<Rightarrow> 't \<times> 'w session" where
  "in_transaction D cat st = (fst st, snd (get_transaction D cat (snd st)))"

definition get_schema ::
  "duckdb \<Rightarrow> glue_catalog \<Rightarrow> 'w service \<Rightarrow> string \<Rightarrow> ('w catalog_state, schema_entry option) comp" where
  "get_schema D cat S name st =
     (if name = [] then (Inr None, st)
      else let st1 = in_transaction D cat st in
        case find_schema D name (fst st1) of
          Some se \<Rightarrow> (Inr (Some se), st1)
        | None \<Rightarrow> bind_op (on_session (get_database cat S name)) (\<lambda>found (ss, s).
            case found of
              None \<Rightarrow> (Inr None, (ss, s))
            | Some database \<Rightarrow>
                let ss' = emplace_schema D (d_name database) (create_schema_entry database True) ss in
                (Inr (find_schema D (d_name database) ss'), (ss', s))) st1)"

definition get_cached_schema :: "duckdb \<Rightarrow> string \<Rightarrow> schema_set \<Rightarrow> schema_entry option" where
  "get_cached_schema D name ss = find_schema D name ss"

definition add_schema_if_absent :: "duckdb \<Rightarrow> schema_entry \<Rightarrow> schema_set \<Rightarrow> schema_entry option \<times> schema_set" where
  "add_schema_if_absent D se ss =
     (if find_schema D (schema_name se) ss \<noteq> None then (None, ss)
      else let ss' = emplace_schema D (schema_name se) se ss in (find_schema D (schema_name se) ss', ss'))"

definition scan_schemas ::
  "nat \<Rightarrow> duckdb \<Rightarrow> glue_catalog \<Rightarrow> 'w service \<Rightarrow> ('w catalog_state, schema_entry list) comp" where
  "scan_schemas fuel D cat S st =
     bind_op (load_schemas fuel D cat S) (\<lambda>_ st1. (Inr (map snd (ss_entries (fst st1))), st1))
       (in_transaction D cat st)"

definition retire_schema :: "duckdb \<Rightarrow> string \<Rightarrow> 'w catalog_state \<Rightarrow> 'w catalog_state" where
  "retire_schema D name st = (case st of (ss, s) \<Rightarrow>
     case find_schema D name ss of
       None \<Rightarrow> (ss, s)
     | Some se \<Rightarrow> (ss\<lparr>ss_entries := ci_erase D name (ss_entries ss)\<rparr>, retire_object (RetiredSchema se) s))"

definition insert_schema :: "duckdb \<Rightarrow> schema_entry \<Rightarrow> 'w catalog_state \<Rightarrow> 'w catalog_state" where
  "insert_schema D se st = (case retire_schema D (schema_name se) st of (ss, s) \<Rightarrow>
     (emplace_schema D (schema_name se) se ss, s))"

definition remove_schema :: "duckdb \<Rightarrow> string \<Rightarrow> 'w catalog_state \<Rightarrow> 'w catalog_state" where
  "remove_schema D name st = retire_schema D name st"

text \<open>A statement on the objects of a schema of the set.\<close>

definition within_schema :: "duckdb \<Rightarrow> string \<Rightarrow> ('w schema_state, 'a) comp \<Rightarrow> ('w catalog_state, 'a) comp" where
  "within_schema D name m st = (case find_schema D name (fst st) of
     None \<Rightarrow> (Inl (InternalException ''no schema of that name'' [name]), st)
   | Some se \<Rightarrow> (case m (se, snd st) of (r, (se', s)) \<Rightarrow> (r, (change_schema D name (\<lambda>_. se') (fst st), s))))"

subsection \<open>The set stays well formed\<close>

text \<open>Operations that keep a predicate of their state, however they end.\<close>

definition keeps_state :: "('s \<Rightarrow> bool) \<Rightarrow> ('s, 'a) comp \<Rightarrow> bool" where
  "keeps_state P m \<longleftrightarrow> (\<forall>st. P st \<longrightarrow> P (snd (m st)))"

lemma keepsD: "keeps_state P m \<Longrightarrow> P st \<Longrightarrow> P (snd (m st))"
  by (simp add: keeps_state_def)

named_theorems keeps_intros "operations that keep a predicate of the state"

lemma keeps_bind [keeps_intros]: "keeps_state P m \<Longrightarrow> (\<And>x. keeps_state P (f x)) \<Longrightarrow> keeps_state P (bind_op m f)"
  unfolding keeps_state_def
proof (intro allI impI)
  fix st
  assume m: "\<forall>st. P st \<longrightarrow> P (snd (m st))" and f: "\<And>x. \<forall>st. P st \<longrightarrow> P (snd (f x st))" and "P st"
  then have "P (snd (m st))" by blast
  then show "P (snd (bind_op m f st))"
    using f by (cases "m st"; cases "fst (m st)") (auto simp: bind_op_def)
qed

lemma keeps_simple [keeps_intros]:
  "keeps_state P (return_op x)" "keeps_state P (throw_op e)" "keeps_state P (lift_op r)"
  by (simp_all add: keeps_state_def return_op_def throw_op_def lift_op_def)

lemma keeps_if [keeps_intros]: "keeps_state P m \<Longrightarrow> keeps_state P m' \<Longrightarrow> keeps_state P (if c then m else m')"
  by simp

lemma keeps_option [keeps_intros]:
  "keeps_state P m \<Longrightarrow> (\<And>y. keeps_state P (f y)) \<Longrightarrow> keeps_state P (case x of None \<Rightarrow> m | Some y \<Rightarrow> f y)"
  by (cases x) simp_all

definition schema_set_ok :: "duckdb \<Rightarrow> schema_set \<Rightarrow> bool" where
  "schema_set_ok D ss \<longleftrightarrow> ci_distinct D (ss_entries ss) \<and>
     (\<forall>p\<in>set (ss_entries ss). schema_name (snd p) = fst p \<and> table_set_ok D (se_tables (snd p)))"

definition catalog_ok :: "duckdb \<Rightarrow> 'w catalog_state \<Rightarrow> bool" where
  "catalog_ok D st \<longleftrightarrow> schema_set_ok D (fst st)"

lemma schema_set_okD:
  "schema_set_ok D ss \<Longrightarrow> (n, se) \<in> set (ss_entries ss) \<Longrightarrow> schema_name se = n \<and> table_set_ok D (se_tables se)"
  by (auto simp: schema_set_ok_def)

lemma ok_find_schema: "schema_set_ok D ss \<Longrightarrow> find_schema D name ss = Some se \<Longrightarrow>
    CIEquals D (schema_name se) name \<and> table_set_ok D (se_tables se)"
  unfolding find_schema_def by (drule ci_find_member) (auto dest: schema_set_okD)

lemma new_tables_ok: "table_set_ok D new_table_set"
  by (simp add: table_set_ok_def new_table_set_def ci_distinct_def)

lemma create_schema_entry_sel [simp]:
  "schema_name (create_schema_entry database loaded) = d_name database"
  "se_tables (create_schema_entry database loaded) = new_table_set"
  by (simp_all add: create_schema_entry_def schema_name_def)

lemma set_schema_info_sel [simp]:
  "schema_name (set_schema_info database se) = schema_name se"
  "se_tables (set_schema_info database se) = se_tables se"
  by (simp_all add: set_schema_info_def set_database_info_def schema_name_def)

lemma ok_change_schema:
  assumes "schema_set_ok D ss" "\<And>se. schema_name se = schema_name se \<Longrightarrow> CIEquals D (schema_name se) name \<Longrightarrow>
      table_set_ok D (se_tables se) \<Longrightarrow> schema_name (f se) = schema_name se \<and> table_set_ok D (se_tables (f se))"
  shows "schema_set_ok D (change_schema D name f ss)"
proof -
  have "map fst (ss_entries (change_schema D name f ss)) = map fst (ss_entries ss)"
    by (auto simp: change_schema_def)
  then have "ci_distinct D (ss_entries (change_schema D name f ss))"
    using assms(1) by (simp add: schema_set_ok_def ci_distinct_def flip: map_map)
  moreover have "schema_name se = n \<and> table_set_ok D (se_tables se)"
    if "(n, se) \<in> set (ss_entries (change_schema D name f ss))" for n se
  proof -
    from that obtain old where old: "(n, old) \<in> set (ss_entries ss)"
      and se: "se = (if CIEquals D n name then f old else old)"
      by (auto simp: change_schema_def split: if_splits)
    from schema_set_okD [OF assms(1) old] assms(2) [of old] show ?thesis by (auto simp: se)
  qed
  ultimately show ?thesis by (auto simp: schema_set_ok_def)
qed

context string_util
begin

lemma ok_emplace_schema:
  "schema_set_ok D ss \<Longrightarrow> schema_name se = name \<Longrightarrow> table_set_ok D (se_tables se) \<Longrightarrow>
     schema_set_ok D (emplace_schema D name se ss)"
  by (auto simp: schema_set_ok_def emplace_schema_def ci_distinct_emplace)
    (auto simp: ci_emplace_def split: option.splits)

lemma ok_retire_schema: "schema_set_ok D (fst st) \<Longrightarrow> schema_set_ok D (fst (retire_schema D name st))"
  by (auto simp: schema_set_ok_def retire_schema_def ci_distinct_erase split: prod.split option.split)
    (auto simp: ci_erase_def)

lemma ok_insert_schema:
  "schema_set_ok D (fst st) \<Longrightarrow> table_set_ok D (se_tables se) \<Longrightarrow> schema_set_ok D (fst (insert_schema D se st))"
  using ok_retire_schema [of st "schema_name se"] ok_emplace_schema
  by (auto simp: insert_schema_def split: prod.split)

lemma ok_load_schema: "schema_set_ok D ss \<Longrightarrow> schema_set_ok D (load_schema D database ss)"
  by (auto simp: load_schema_def new_tables_ok intro!: ok_emplace_schema ok_change_schema split: option.split)

lemma ok_load_schemas: "schema_set_ok D ss \<Longrightarrow> schema_set_ok D (fold (load_schema D) databases ss)"
  by (induction databases arbitrary: ss) (simp_all add: ok_load_schema)

end

lemma keeps_on_session [keeps_intros]: "keeps_state (catalog_ok D) (on_session m)"
  by (auto simp: keeps_state_def catalog_ok_def on_session_def split: prod.split)

lemma catalog_ok_in_transaction: "catalog_ok D (in_transaction D' cat st) \<longleftrightarrow> catalog_ok D st"
  by (simp add: catalog_ok_def in_transaction_def)

lemma keeps_get_schema:
  assumes "string_util D"
  shows "keeps_state (catalog_ok D) (get_schema D cat S name)"
proof -
  have "keeps_state (catalog_ok D) (\<lambda>(ss, s). case found of None \<Rightarrow> (Inr None, (ss, s)) | Some database \<Rightarrow>
      let ss' = emplace_schema D (d_name database) (create_schema_entry database True) ss in
      (Inr (find_schema D (d_name database) ss'), (ss', s)))" for found
    by (auto simp: keeps_state_def catalog_ok_def Let_def new_tables_ok
        intro!: string_util.ok_emplace_schema [OF assms] split: option.split)
  then have "keeps_state (catalog_ok D) (bind_op (on_session (get_database cat S name)) (\<lambda>found (ss, s). case found of
      None \<Rightarrow> (Inr None, (ss, s)) | Some database \<Rightarrow>
      let ss' = emplace_schema D (d_name database) (create_schema_entry database True) ss in
      (Inr (find_schema D (d_name database) ss'), (ss', s))))"
    by (intro keeps_intros)
  from keepsD [OF this] show ?thesis
    unfolding keeps_state_def get_schema_def Let_def
    by (simp add: catalog_ok_in_transaction split: option.split)
qed

lemma keeps_load_schemas:
  assumes "string_util D"
  shows "keeps_state (catalog_ok D) (load_schemas fuel D cat S)"
proof -
  have loaded: "schema_set_ok D (ss\<lparr>ss_is_loaded := True\<rparr>) = schema_set_ok D ss" for ss
    by (simp add: schema_set_ok_def)
  have "keeps_state (catalog_ok D) (\<lambda>(ss, s). (Inr (), ((fold (load_schema D) databases ss)\<lparr>ss_is_loaded := True\<rparr>, s)))"
    for databases
    by (simp add: keeps_state_def catalog_ok_def loaded string_util.ok_load_schemas [OF assms])
  then have "keeps_state (catalog_ok D) (bind_op (on_session (get_databases fuel cat S))
      (\<lambda>databases (ss, s). (Inr (), ((fold (load_schema D) databases ss)\<lparr>ss_is_loaded := True\<rparr>, s))))"
    by (intro keeps_intros)
  from keepsD [OF this] show ?thesis unfolding keeps_state_def load_schemas_def by simp
qed

lemma keeps_scan_schemas:
  assumes "string_util D"
  shows "keeps_state (catalog_ok D) (scan_schemas fuel D cat S)"
proof -
  have "keeps_state (catalog_ok D) (bind_op (load_schemas fuel D cat S)
      (\<lambda>_ st1. (Inr (map snd (ss_entries (fst st1))), st1)))"
    using assms by (intro keeps_intros keeps_load_schemas) (auto simp: keeps_state_def)
  from keepsD [OF this] show ?thesis unfolding keeps_state_def scan_schemas_def by (simp add: catalog_ok_in_transaction)
qed

subsection \<open>The interface of an entry set\<close>

definition retired_schemas :: "'w session \<Rightarrow> schema_entry list" where
  "retired_schemas s = concat (map (\<lambda>r. case retired r of RetiredSchema se \<Rightarrow> [se] | RetiredEntry _ \<Rightarrow> [])
     (retired_entries (s_manager s)))"

definition replace_schema :: "duckdb \<Rightarrow> string \<Rightarrow> schema_entry \<Rightarrow> 'w catalog_state \<Rightarrow> 'w catalog_state" where
  "replace_schema D name se st = (case retire_schema D name st of (ss, s) \<Rightarrow> (emplace_schema D name se ss, s))"

lemma insert_schema_replaces: "insert_schema D se = replace_schema D (schema_name se) se"
  by (simp add: insert_schema_def replace_schema_def fun_eq_iff)

lemma retired_schemas_retire:
  "retired_schemas (snd (retire_schema D name st)) = retired_schemas (snd st) @
     (case ci_find D name (ss_entries (fst st)) of None \<Rightarrow> [] | Some se \<Rightarrow> [se])"
  by (auto simp: retire_schema_def find_schema_def retire_object_def retire_entry_def retired_schemas_def
      split: option.split prod.split)

context string_util
begin

lemma retire_schema_entries:
  "ss_entries (fst (retire_schema D name st)) =
     (if ci_find D name (ss_entries (fst st)) = None then ss_entries (fst st) else ci_erase D name (ss_entries (fst st)))"
  by (cases st) (simp add: retire_schema_def find_schema_def split: option.split)

lemma find_retired_schema:
  "ci_find D name' (ss_entries (fst (retire_schema D name st))) =
     (if CIEquals D name name' then None else ci_find D name' (ss_entries (fst st)))"
proof (cases "ci_find D name (ss_entries (fst st))")
  case None
  then have "CIEquals D name name' \<Longrightarrow> ci_find D name' (ss_entries (fst st)) = None"
    by (simp add: ci_find_None_iff CIEquals)
  with None show ?thesis by (simp add: retire_schema_entries)
qed (simp add: retire_schema_entries ci_find_erase)

lemma find_replaced_schema:
  "ci_find D name' (ss_entries (fst (replace_schema D name se st))) =
     (if CIEquals D name name' then Some se else ci_find D name' (ss_entries (fst st)))"
proof -
  obtain ss1 s1 where r: "retire_schema D name st = (ss1, s1)" by fastforce
  have "ci_find D name (ss_entries ss1) = None"
    using find_retired_schema [of name name st] by (simp add: r CIEquals_refl)
  then show ?thesis
    using find_retired_schema [of name' name st] by (simp add: r replace_schema_def emplace_schema_def ci_find_emplace)
qed

end

sublocale string_util < schema_entries: entry_set D "\<lambda>st. ss_entries (fst st)"
  "\<lambda>st. retired_schemas (snd st)" "replace_schema D" "remove_schema D"
proof
  fix n n' :: string and e and st :: "'a catalog_state"
  show "ci_find D n' (ss_entries (fst (replace_schema D n e st)))
      = (if CIEquals D n n' then Some e else ci_find D n' (ss_entries (fst st)))"
    by (rule find_replaced_schema)
  show "ci_find D n' (ss_entries (fst (remove_schema D n st)))
      = (if CIEquals D n n' then None else ci_find D n' (ss_entries (fst st)))"
    unfolding remove_schema_def by (rule find_retired_schema)
  show "retired_schemas (snd (replace_schema D n e st)) = retired_schemas (snd st) @
      (case ci_find D n (ss_entries (fst st)) of None \<Rightarrow> [] | Some old \<Rightarrow> [old])"
    using retired_schemas_retire [of D n st] by (auto simp: replace_schema_def split: prod.splits)
  show "retired_schemas (snd (remove_schema D n st)) = retired_schemas (snd st) @
      (case ci_find D n (ss_entries (fst st)) of None \<Rightarrow> [] | Some old \<Rightarrow> [old])"
    by (simp add: remove_schema_def retired_schemas_retire)
qed

context string_util
begin

lemma schema_not_lost:
  "ci_find D name (ss_entries (fst st)) = Some se \<Longrightarrow>
     \<forall>f\<in>set fs. (\<exists>n x. f = replace_schema D n x) \<or> (\<exists>n. f = remove_schema D n) \<Longrightarrow>
     ci_find D name (ss_entries (fst (fold (\<lambda>f. f) fs st))) = Some se \<or>
     se \<in> set (retired_schemas (snd (fold (\<lambda>f. f) fs st)))"
  by (rule schema_entries.not_lost)

end

end
