(* ===== verification/Glue_Catalog.thy ===== *)
theory Glue_Catalog
  imports Schema_Set
begin

text \<open>
  \<open>GlueCatalog\<close> of src/catalog/glue_catalog.cpp: CREATE SCHEMA, ALTER SCHEMA and DROP SCHEMA, the lookups of
  schemas and of tables, the secret a catalog connects with, and the checks of a table before it is written.
\<close>

subsection \<open>The storage secret\<close>

text \<open>The secret manager: a secret by its name, the best match of a type for a path, with their types.\<close>

record 'c secrets =
  secret_by_name :: "string \<Rightarrow> ('c \<times> string) option"
  lookup_secret :: "string \<Rightarrow> string \<Rightarrow> 'c option"

fun first_default_secret :: "'c secrets \<Rightarrow> string list \<Rightarrow> 'c result" where
  "first_default_secret M [] =
     Inl (InvalidConfigurationException ''Could not find a valid storage secret (s3 or aws) to connect to Glue with'' [])"
| "first_default_secret M (type # types) = (case secret_by_name M (''__default_'' @ type) of
     Some (secret, t) \<Rightarrow> Inr secret
   | None \<Rightarrow> (case lookup_secret M (type @ ''://'') type of
       Some secret \<Rightarrow> Inr secret
     | None \<Rightarrow> first_default_secret M types))"

text \<open>\<open>accepted\<close> is the set of the types s3 and aws in the order it iterates.\<close>

definition get_storage_secret :: "duckdb \<Rightarrow> 'c secrets \<Rightarrow> string list \<Rightarrow> string \<Rightarrow> 'c result" where
  "get_storage_secret D M accepted name =
     (if name \<noteq> [] then (case secret_by_name M name of
          Some (secret, type) \<Rightarrow>
            if \<exists>a\<in>set accepted. CIEquals D a type then Inr secret
            else Inl (InvalidConfigurationException ''Found a secret that is not of an accepted type'' [name, type])
        | None \<Rightarrow> Inl (InvalidConfigurationException ''No secret by the name could be found'' [name]))
      else first_default_secret M accepted)"

subsection \<open>Databases\<close>

definition supports_create_table :: "string list \<Rightarrow> unit result" where
  "supports_create_table sort_keys =
     check (sort_keys = []) (CatalogException ''SORTED BY is not supported for tables in a Glue catalog'' [])"

definition get_default_schema :: "glue_catalog \<Rightarrow> string option" where
  "get_default_schema cat = (if cat_default_schema cat = [] then None else Some (cat_default_schema cat))"

definition on_existing_schema :: "OnCreateConflict \<Rightarrow> glue_catalog \<Rightarrow> string \<Rightarrow> schema_entry option result" where
  "on_existing_schema on_conflict cat name = (case on_conflict of
     IGNORE_ON_CONFLICT \<Rightarrow> Inr None
   | ERROR_ON_CONFLICT \<Rightarrow> Inl (CatalogException ''Schema already exists in Glue catalog'' [name, cat_name cat])
   | _ \<Rightarrow> Inl (NotImplementedException ''CREATE OR REPLACE SCHEMA is not supported for Glue catalogs'' []))"

definition erase_database_parameter :: "duckdb \<Rightarrow> string \<Rightarrow> GlueDatabaseInfo \<Rightarrow> GlueDatabaseInfo" where
  "erase_database_parameter D key d = d\<lparr>d_parameters := filter (\<lambda>p. \<not> CIEquals D (fst p) key) (d_parameters d)\<rparr>"

definition set_database_option :: "duckdb \<Rightarrow> string \<times> Value \<Rightarrow> GlueDatabaseInfo \<Rightarrow> GlueDatabaseInfo result" where
  "set_database_option D option d = and_then (string_value D (snd option)) (\<lambda>text.
     if CIEquals D (fst option) ''comment'' then Inr (d\<lparr>d_description := text\<rparr>)
     else if CIEquals D (fst option) ''location''
     then and_then (check (RTrimChars D text ''/'' \<noteq> [])
            (InvalidInputException ''The location of a Glue database must not be empty'' [d_name d])) (\<lambda>_.
          Inr (d\<lparr>d_location_uri := RTrimChars D text ''/''\<rparr>))
     else let d' = erase_database_parameter D (fst option) d in
       Inr (d'\<lparr>d_parameters := AList.update (fst option) text (d_parameters d')\<rparr>))"

fun set_database_options :: "duckdb \<Rightarrow> (string \<times> Value) list \<Rightarrow> GlueDatabaseInfo \<Rightarrow> GlueDatabaseInfo result" where
  "set_database_options D [] d = Inr d"
| "set_database_options D (option # options) d =
     and_then (set_database_option D option d) (set_database_options D options)"

definition reset_database_option :: "duckdb \<Rightarrow> string \<Rightarrow> GlueDatabaseInfo \<Rightarrow> GlueDatabaseInfo" where
  "reset_database_option D key d =
     (if CIEquals D key ''comment'' then d\<lparr>d_description := []\<rparr>
      else if CIEquals D key ''location'' then d\<lparr>d_location_uri := []\<rparr>
      else erase_database_parameter D key d)"

text \<open>The definition CREATE SCHEMA sends, before its options.\<close>

definition new_database :: "glue_catalog \<Rightarrow> string \<Rightarrow> GlueDatabaseInfo" where
  "new_database cat name = \<lparr>d_catalog_id = [], d_is_resource_link = False, d_name = name, d_description = [],
     d_location_uri = get_database_location cat name, d_parameters = []\<rparr>"

definition refuse_transaction :: "('t \<times> 'w session, unit) comp" where
  "refuse_transaction = on_session refuse_explicit_transaction"

text \<open>\<open>schemas.CreateEntry(schemas.CreateSchemaEntry(...))\<close> with the definition Glue now holds.\<close>

definition adopt_database ::
  "duckdb \<Rightarrow> glue_catalog \<Rightarrow> 'w service \<Rightarrow> string \<Rightarrow> string \<Rightarrow> ('w catalog_state, schema_entry) comp" where
  "adopt_database D cat S missing name =
     bind_op (on_session (get_database cat S name)) (\<lambda>found. case found of
       None \<Rightarrow> throw_op (CatalogException missing [name])
     | Some database \<Rightarrow> (\<lambda>st.
         (Inr (create_schema_entry database True), insert_schema D (create_schema_entry database True) st)))"

definition create_schema ::
  "duckdb \<Rightarrow> glue_catalog \<Rightarrow> 'w service \<Rightarrow> string \<Rightarrow> OnCreateConflict \<Rightarrow> options
     \<Rightarrow> ('w catalog_state, schema_entry option) comp" where
  "create_schema D cat S name on_conflict opts =
     bind_op refuse_transaction (\<lambda>_.
     bind_op (get_schema D cat S name) (\<lambda>existing.
       if existing \<noteq> None then lift_op (on_existing_schema on_conflict cat name)
       else
         bind_op (lift_op (evaluate_options ''CREATE SCHEMA'' opts)) (\<lambda>evaluated.
         bind_op (lift_op (set_database_options D evaluated (new_database cat name))) (\<lambda>database.
         bind_op (on_session (create_database D cat S database)) (\<lambda>outcome. case outcome of
             ALREADY_EXISTED \<Rightarrow>
               bind_op (get_schema D cat S name) (\<lambda>raced.
               bind_op (lift_op (check (raced \<noteq> None)
                 (CatalogException ''Glue database exists but could not be fetched'' [name]))) (\<lambda>_.
                 lift_op (on_existing_schema on_conflict cat name)))
           | CREATED \<Rightarrow>
               bind_op (adopt_database D cat S ''Glue database was created but could not be fetched afterwards'' name)
                 (\<lambda>se. return_op (Some se)))))))"

definition drop_schema ::
  "nat \<Rightarrow> duckdb \<Rightarrow> glue_catalog \<Rightarrow> 'w service \<Rightarrow> string \<Rightarrow> bool \<Rightarrow> bool \<Rightarrow> ('w catalog_state, unit) comp" where
  "drop_schema fuel D cat S name if_exists cascade =
     bind_op refuse_transaction (\<lambda>_.
     bind_op (get_schema D cat S name) (\<lambda>existing.
       if existing = None
       then (if if_exists then return_op ()
             else throw_op (CatalogException ''Schema does not exist in Glue catalog'' [name, cat_name cat]))
       else
         bind_op (if cascade then return_op None else on_session (get_any_table_name fuel cat S name)) (\<lambda>held.
         bind_op (lift_op (case held of None \<Rightarrow> Inr () | Some table_name \<Rightarrow>
             Inl (DependencyException ''Cannot drop Glue database because it still contains tables'' [name, table_name])))
           (\<lambda>_.
         bind_op (on_session (delete_database D cat S name)) (\<lambda>_ st. (Inr (), remove_schema D name st))))))"

datatype AlterSchemaInfo =
    SET_SCHEMA_OPTIONS options
  | RESET_SCHEMA_OPTIONS "string list"
  | OTHER_ALTER_SCHEMA

definition altered_database :: "duckdb \<Rightarrow> AlterSchemaInfo \<Rightarrow> GlueDatabaseInfo \<Rightarrow> GlueDatabaseInfo result" where
  "altered_database D info d = (case info of
     SET_SCHEMA_OPTIONS opts \<Rightarrow>
       and_then (evaluate_options ''ALTER SCHEMA'' opts) (\<lambda>evaluated. set_database_options D evaluated d)
   | RESET_SCHEMA_OPTIONS keys \<Rightarrow> Inr (fold (reset_database_option D) keys d)
   | OTHER_ALTER_SCHEMA \<Rightarrow> Inl (InternalException ''Unrecognized alter schema type!'' []))"

definition alter_schema ::
  "duckdb \<Rightarrow> glue_catalog \<Rightarrow> 'w service \<Rightarrow> string \<Rightarrow> AlterSchemaInfo \<Rightarrow> ('w catalog_state, unit) comp" where
  "alter_schema D cat S name info =
     bind_op refuse_transaction (\<lambda>_.
     bind_op (on_session (get_database cat S name)) (\<lambda>found. case found of
         None \<Rightarrow> throw_op (CatalogException ''Schema does not exist in Glue catalog'' [name, cat_name cat])
       | Some current \<Rightarrow>
           bind_op (lift_op (altered_database D info current)) (\<lambda>database.
           bind_op (on_session (update_database D cat S database)) (\<lambda>_.
           bind_op (adopt_database D cat S ''Glue database was updated but could not be fetched afterwards'' name)
             (\<lambda>_. return_op ())))))"

subsection \<open>Lookups\<close>

text \<open>\<open>path\<close> is what a name is qualified with, outermost first.\<close>

definition schema_path :: "duckdb \<Rightarrow> glue_catalog \<Rightarrow> string list \<Rightarrow> string list" where
  "schema_path D cat path =
     (let named = filter (\<lambda>c. c \<noteq> []) path in
      if length named > 1 \<and> CIEquals D (hd named) (cat_name cat) then tl named else named)"

definition lookup_schema ::
  "duckdb \<Rightarrow> glue_catalog \<Rightarrow> 'w service \<Rightarrow> string list \<Rightarrow> string \<Rightarrow> bool \<Rightarrow> ('w catalog_state, schema_entry option) comp" where
  "lookup_schema D cat S path name null_if_missing =
     (if length (schema_path D cat path) > 1
      then (if null_if_missing then return_op None
            else throw_op (CatalogException ''Glue databases are not nested'' path))
      else bind_op (get_schema D cat S name) (\<lambda>found. case found of
          None \<Rightarrow> if null_if_missing then return_op None
            else throw_op (CatalogException ''Glue database does not exist'' [name])
        | Some se \<Rightarrow> return_op (Some se)))"

text \<open>A scan that asks for one name asks Glue for it; \<open>base\<close> is DuckDB's own scan.\<close>

definition get_schemas_for_scan ::
  "duckdb \<Rightarrow> glue_catalog \<Rightarrow> 'w service \<Rightarrow> ('w catalog_state, schema_entry list) comp \<Rightarrow> bool \<Rightarrow> string option
     \<Rightarrow> ('w catalog_state, schema_entry list) comp" where
  "get_schemas_for_scan D cat S base has_oid name_equality =
     (case name_equality of
        None \<Rightarrow> base
      | Some name \<Rightarrow>
          if has_oid then base
          else bind_op (get_schema D cat S name) (\<lambda>found. return_op (case found of None \<Rightarrow> [] | Some se \<Rightarrow> [se])))"

text \<open>An entry lookup: the names of its path, the type it wants and whether it has an AT clause.\<close>

record entry_lookup =
  el_path_size :: nat
  el_catalog :: string
  el_schema :: string
  el_name :: string
  el_type :: CatalogType
  el_at_clause :: bool

text \<open>\<open>CatalogEntryLookup\<close>: the name of the schema found and the entry.\<close>

type_synonym entry_found = "string option \<times> catalog_entry option"

datatype TableLookup = TABLE_FOUND | TABLE_NOT_FOUND | SCHEMA_NOT_FOUND | SKIPPED

text \<open>The schema entry a table lookup starts from when only the name of its database is known.\<close>

definition unloaded_schema :: "duckdb \<Rightarrow> string \<Rightarrow> schema_entry" where
  "unloaded_schema D database_name = create_schema_entry
     \<lparr>d_catalog_id = [], d_is_resource_link = False, d_name = Lower D database_name, d_description = [],
      d_location_uri = [], d_parameters = []\<rparr> False"

definition try_lookup_table_before_schema ::
  "duckdb \<Rightarrow> glue_catalog \<Rightarrow> 'w service \<Rightarrow> entry_lookup \<Rightarrow> ('w catalog_state, TableLookup \<times> entry_found) comp" where
  "try_lookup_table_before_schema D cat S l st =
     (let name = Lower D (el_schema l) in
      if get_cached_schema D name (fst st) \<noteq> None then (Inr (SKIPPED, None, None), st)
      else case lookup_entry D cat S (el_type l) (el_name l) (unloaded_schema D (el_schema l), snd st) of
        (Inl e, (se, s)) \<Rightarrow> (Inl e, (fst st, s))
      | (Inr None, (se, s)) \<Rightarrow>
          bind_op (get_schema D cat S name) (\<lambda>loaded. return_op (case loaded of
            None \<Rightarrow> (SCHEMA_NOT_FOUND, None, None)
          | Some found \<Rightarrow> (TABLE_NOT_FOUND, Some (schema_name found), None))) (fst st, s)
      | (Inr (Some entry), (se, s)) \<Rightarrow>
          (case add_schema_if_absent D se (fst st) of
             (None, ss) \<Rightarrow> (Inr (SKIPPED, None, None), (ss, s))
           | (Some added, ss) \<Rightarrow> (Inr (TABLE_FOUND, Some (schema_name added), Some entry), (ss, s))))"

text \<open>The regular lookup: the schema, then the entry in it.\<close>

definition lookup_in_schema ::
  "duckdb \<Rightarrow> glue_catalog \<Rightarrow> 'w service \<Rightarrow> entry_lookup \<Rightarrow> ('w catalog_state, entry_found) comp" where
  "lookup_in_schema D cat S l =
     bind_op (get_schema D cat S (el_schema l)) (\<lambda>found. case found of
       None \<Rightarrow> return_op (None, None)
     | Some se \<Rightarrow>
         bind_op (within_schema D (schema_name se) (lookup_entry D cat S (el_type l) (el_name l))) (\<lambda>entry.
           return_op (Some (schema_name se), entry)))"

text \<open>\<open>TryLookupEntryInternal\<close>; the error it returns for an AT clause is thrown here.\<close>

definition try_lookup_entry ::
  "duckdb \<Rightarrow> glue_catalog \<Rightarrow> 'w service \<Rightarrow> entry_lookup \<Rightarrow> ('w catalog_state, entry_found) comp" where
  "try_lookup_entry D cat S l =
     (if el_at_clause l then throw_op (BinderException ''Catalog type does not support time travel'' [])
      else if el_path_size l > 3 \<or> el_schema l = [] \<or>
        el_catalog l \<noteq> [] \<and> \<not> CIEquals D (el_catalog l) (cat_name cat)
      then return_op (None, None)
      else if el_type l = TABLE_ENTRY
      then bind_op (try_lookup_table_before_schema D cat S l) (\<lambda>(outcome, found).
        if outcome = SKIPPED then lookup_in_schema D cat S l else return_op found)
      else lookup_in_schema D cat S l)"

subsection \<open>Tables that are written\<close>

definition check_dml_table :: "duckdb \<Rightarrow> string \<Rightarrow> GlueTableInfo \<Rightarrow> unit result" where
  "check_dml_table D statement t =
     (let format = detect_format D t in
      and_then (check (is_hive format) (NotImplementedException ''only Hive tables can be written''
          [statement, t_name t, describe_format format t])) (\<lambda>_.
      and_then (get_file_format D t) (\<lambda>file_format.
      and_then (check (is_writable D format t file_format) (NotImplementedException
          ''its InputFormat is not one Hive uses for its tables''
          [statement, t_name t, t_input_format t, hive_file_format_to_string file_format])) (\<lambda>_.
      and_then (check (\<not> is_partition_projected D t)
          (NotImplementedException ''the table uses Athena partition projection'' [statement, t_name t])) (\<lambda>_.
      and_then (check (\<not> is_bucketed t)
          (NotImplementedException ''DuckDB does not write a bucketed layout'' [statement, t_name t, describe_bucketing D t]))
        (\<lambda>_.
      and_then (get_serde D t) (\<lambda>serde.
        check (serde \<noteq> OPENX_JSON) (NotImplementedException ''the table uses the OpenX JSON SerDe''
          [statement, t_name t, t_serde_library t]))))))))"

definition get_hive_table_for_dml ::
  "duckdb \<Rightarrow> glue_catalog \<Rightarrow> 'w service \<Rightarrow> catalog_entry \<Rightarrow> string \<Rightarrow> ('w schema_state, GlueTableInfo) comp" where
  "get_hive_table_for_dml D cat S entry statement =
     bind_op (definition_for_write D cat S entry) (\<lambda>t.
     bind_op (lift_op (check_dml_table D statement t)) (\<lambda>_. return_op t))"

text \<open>\<open>PlanInsert\<close> up to the plan itself.\<close>

definition table_to_insert ::
  "duckdb \<Rightarrow> glue_catalog \<Rightarrow> 'w service \<Rightarrow> catalog_entry \<Rightarrow> ('w schema_state, GlueTableInfo) comp" where
  "table_to_insert D cat S entry =
     bind_op refuse_transaction (\<lambda>_. get_hive_table_for_dml D cat S entry ''INSERT'')"

subsection \<open>The schemas stay well formed\<close>

lemma lookup_entry_keeps:
  assumes "string_util D" "table_set_ok D (se_tables se)" "lookup_entry D cat S type name (se, s) = (r, (se', s'))"
  shows "schema_name se' = schema_name se \<and> table_set_ok D (se_tables se')"
  using assms(3) string_util.ok_get_entry [OF assms(1,2), of cat S "database_of (se, s)" name s] assms(2)
  by (auto simp: lookup_entry_def entry_named_def on_tables_def schema_name_def split: if_splits prod.splits)

lemma keeps_adopt:
  assumes "string_util D"
  shows "keeps_state (catalog_ok D) (adopt_database D cat S missing name)"
  unfolding adopt_database_def
  by (intro keeps_intros)
    (simp add: keeps_state_def catalog_ok_def string_util.ok_insert_schema [OF assms] new_tables_ok)

lemma keeps_outcome [keeps_intros]:
  "keeps_state P m \<Longrightarrow> keeps_state P m' \<Longrightarrow> keeps_state P (case x of CREATED \<Rightarrow> m | ALREADY_EXISTED \<Rightarrow> m')"
  by (cases x) simp_all

lemma keeps_refuse [keeps_intros]: "keeps_state (catalog_ok D) refuse_transaction"
  unfolding refuse_transaction_def by (intro keeps_intros)

lemma ok_change_schema_found:
  assumes "string_util D" "schema_set_ok D ss" "find_schema D n ss = Some se"
    "schema_name se' = schema_name se" "table_set_ok D (se_tables se')"
  shows "schema_set_ok D (change_schema D n (\<lambda>_. se') ss)"
proof -
  have "m = schema_name se" if m: "(m, x) \<in> set (ss_entries ss)" "CIEquals D m n" for m x
  proof -
    obtain k where k: "(k, se) \<in> set (ss_entries ss)" "CIEquals D k n"
      using ci_find_member [OF assms(3) [unfolded find_schema_def]] by (elim exE conjE)
    then have "Lower D k = Lower D m" using m(2) by (simp add: string_util.CIEquals [OF assms(1)])
    moreover have "inj_on (Lower D \<circ> fst) (set (ss_entries ss))"
      using assms(2) by (simp add: schema_set_ok_def ci_distinct_def distinct_map)
    ultimately have "(k, se) = (m, x)" using k(1) m(1) by (intro inj_onD [where f = "Lower D \<circ> fst"]) simp_all
    with schema_set_okD [OF assms(2) k(1)] show ?thesis by simp
  qed
  then show ?thesis
    using assms(2,4,5) by (auto simp: schema_set_ok_def ci_distinct_def change_schema_def comp_def split_beta if_distrib
        cong: if_cong split: if_splits)
qed

lemma keeps_within_lookup:
  assumes "string_util D"
  shows "keeps_state (catalog_ok D) (within_schema D n (lookup_entry D cat S type name))"
  unfolding keeps_state_def
proof (intro allI impI)
  fix st :: "'a catalog_state"
  assume ok: "catalog_ok D st"
  show "catalog_ok D (snd (within_schema D n (lookup_entry D cat S type name) st))"
  proof (cases "find_schema D n (fst st)")
    case (Some se)
    obtain r se' s' where l: "lookup_entry D cat S type name (se, snd st) = (r, (se', s'))"
      by (metis surj_pair)
    have se: "CIEquals D (schema_name se) n" "table_set_ok D (se_tables se)"
      using ok_find_schema [OF _ Some] ok by (auto simp: catalog_ok_def)
    from lookup_entry_keeps [OF assms se(2) l]
    have se': "schema_name se' = schema_name se" "table_set_ok D (se_tables se')" by auto
    have "schema_set_ok D (change_schema D n (\<lambda>_. se') (fst st))"
      using ok by (intro ok_change_schema_found [OF assms _ Some]) (simp_all add: catalog_ok_def se')
    then show ?thesis using Some l by (simp add: within_schema_def catalog_ok_def)
  qed (use ok in \<open>simp add: within_schema_def\<close>)
qed

lemma keeps_before_schema:
  assumes "string_util D"
  shows "keeps_state (catalog_ok D) (try_lookup_table_before_schema D cat S l)"
  unfolding keeps_state_def
proof (intro allI impI)
  fix st :: "'a catalog_state"
  assume ok: "catalog_ok D st"
  obtain r se s where l: "lookup_entry D cat S (el_type l) (el_name l) (unloaded_schema D (el_schema l), snd st) = (r, (se, s))"
    by (metis surj_pair)
  have se: "table_set_ok D (se_tables se)"
    using lookup_entry_keeps [OF assms _ l] by (simp add: unloaded_schema_def new_tables_ok)
  have keeps: "keeps_state (catalog_ok D) (bind_op (get_schema D cat S (Lower D (el_schema l))) (\<lambda>loaded. return_op (case loaded of
      None \<Rightarrow> (SCHEMA_NOT_FOUND, None, None) | Some found \<Rightarrow> (TABLE_NOT_FOUND, Some (schema_name found), None))))"
    by (intro keeps_intros keeps_get_schema [OF assms])
  have loaded: "catalog_ok D (snd (bind_op (get_schema D cat S (Lower D (el_schema l))) (\<lambda>loaded. return_op (case loaded of
      None \<Rightarrow> (SCHEMA_NOT_FOUND, None, None) | Some found \<Rightarrow> (TABLE_NOT_FOUND, Some (schema_name found), None)))
      (fst st, s)))"
    by (rule keepsD [OF keeps]) (use ok in \<open>simp add: catalog_ok_def\<close>)
  have added: "schema_set_ok D (snd (add_schema_if_absent D se (fst st)))"
    using ok se string_util.ok_emplace_schema [OF assms] by (auto simp: add_schema_if_absent_def Let_def catalog_ok_def)
  show "catalog_ok D (snd (try_lookup_table_before_schema D cat S l st))"
    using ok l loaded added
    by (auto simp: try_lookup_table_before_schema_def Let_def catalog_ok_def split: sum.split option.split prod.split)
qed



subsection \<open>A table lookup before its schema\<close>

context string_util
begin

lemma Lower_Lower: "Lower D (Lower D s) = Lower D s"
  by (simp add: Lower ascii_lower_def)

end

lemma get_entry_in_transaction:
  "get_entry D cat S db name (ts, s) = get_entry D cat S db name (in_transaction D cat (ts, s))"
proof -
  obtain tx s1 where t: "get_transaction D cat s = (tx, s1)" by fastforce
  then have "get_transaction D cat s1 = (tx, s1)"
    using get_transaction_active [OF t] by (simp add: get_transaction_def)
  with t show ?thesis by (simp add: get_entry_def in_transaction_def)
qed

lemma lookup_entry_eq:
  "catalog_type_is_supported type \<Longrightarrow> lookup_entry D cat S type name (se, s) =
     (case get_entry D cat S (schema_name se) name (se_tables se, s) of
        (r, (ts, s')) \<Rightarrow> (r, (se\<lparr>se_tables := ts\<rparr>, s')))"
  by (simp add: lookup_entry_def entry_named_def on_tables_def database_of_def schema_name_def)

text \<open>What a Glue that holds a database answers: names do not tell cases apart, and reading changes nothing.\<close>

definition holds_database :: "duckdb \<Rightarrow> glue_catalog \<Rightarrow> 'w service \<Rightarrow> string \<Rightarrow> bool" where
  "holds_database D cat S name \<longleftrightarrow> (\<exists>database. db_name database = Lower D name \<and>
     (\<forall>w n. Lower D n = Lower D name \<longrightarrow> GetDatabase S (set_catalog_id cat n) w = (Inr database, w)) \<and>
     (\<forall>w. AcquireClient S w = (Inr (), w)))"

lemma get_schema_held:
  assumes D: "string_util D" and held: "holds_database D cat S name"
    and st: "find_schema D name (fst st) = None" and n: "Lower D n = Lower D name" "n \<noteq> []"
  shows "\<exists>database. d_name database = Lower D name \<and> get_schema D cat S n st =
    (Inr (Some (create_schema_entry database True)),
     (emplace_schema D (Lower D name) (create_schema_entry database True) (fst st), snd (get_transaction D cat (snd st))))"
proof -
  obtain database where db: "db_name database = Lower D name"
    "\<And>w. GetDatabase S (set_catalog_id cat n) w = (Inr database, w)" "\<And>w. AcquireClient S w = (Inr (), w)"
    using held n(1) by (auto simp: holds_database_def)
  have idem: "Lower D (Lower D name) = Lower D name"
    using D by (rule string_util.Lower_Lower)
  have missing: "find_schema D n' (fst st) = None" if "Lower D n' = Lower D name" for n'
    using st that by (simp add: find_schema_def string_util.ci_find_None_iff [OF D])
  have "get_database cat S n s = (Inr (Some (to_database_info database)), s)" for s
    using db(2,3) by (simp add: get_database_def bind_op_def get_client_def call_op_def lift_op_def return_op_def)
  moreover have "d_name (to_database_info database) = Lower D name" using db(1) by (simp add: to_database_info_def)
  ultimately show ?thesis
    using missing [OF n(1)] missing [OF idem] n(2)
    by (intro exI [of _ "to_database_info database"])
      (simp add: get_schema_def Let_def in_transaction_def bind_op_def on_session_def
        emplace_schema_def find_schema_def string_util.ci_find_emplace [OF D] string_util.CIEquals_refl [OF D])
qed

text \<open>
  C17: looking a table up before the schema that holds it is known, with one request for both, gives what asking Glue
  for the database first gives: the same schema name and entry, or the same exception, whatever Glue answers for the
  table.
\<close>

theorem table_lookup_needs_no_schema:
  assumes D: "string_util D" and held: "holds_database D cat S (el_schema l)"
    and unknown: "find_schema D (el_schema l) (fst st) = None"
    and table: "el_type l = TABLE_ENTRY" "\<not> el_at_clause l" "el_path_size l \<le> 3" "el_schema l \<noteq> []"
      "el_catalog l = [] \<or> CIEquals D (el_catalog l) (cat_name cat)"
  shows "fst (try_lookup_entry D cat S l st) = fst (lookup_in_schema D cat S l st)"
proof -
  obtain ss s where st: "st = (ss, s)" by fastforce
  let ?name = "el_schema l" and ?low = "Lower D (el_schema l)"
  have idem: "Lower D ?low = ?low" using D by (rule string_util.Lower_Lower)
  have low: "?low \<noteq> []" using table(4) by (simp add: string_util.Lower [OF D])
  have missing: "find_schema D n ss = None" if "Lower D n = ?low" for n
    using unknown that by (simp add: st find_schema_def string_util.ci_find_None_iff [OF D])
  obtain r ts s' where e: "get_entry D cat S ?low (el_name l) (new_table_set, s) = (r, (ts, s'))"
    by (metis surj_pair)
  have e1: "get_entry D cat S ?low (el_name l) (new_table_set, snd (get_transaction D cat s)) = (r, (ts, s'))"
    using get_entry_in_transaction [of D cat S ?low "el_name l" new_table_set s] e by (simp add: in_transaction_def)
  have regular: "fst (lookup_in_schema D cat S l st) =
      (case r of Inl x \<Rightarrow> Inl x | Inr entry \<Rightarrow> Inr (Some ?low, entry))"
  proof -
    obtain database where db: "d_name database = ?low" and g: "get_schema D cat S ?name st =
        (Inr (Some (create_schema_entry database True)),
         (emplace_schema D ?low (create_schema_entry database True) ss, snd (get_transaction D cat s)))"
      using get_schema_held [OF D held, of st ?name] unknown table(4) by (auto simp: st)
    have "find_schema D ?low (emplace_schema D ?low (create_schema_entry database True) ss) =
        Some (create_schema_entry database True)"
      using missing [OF idem] by (simp add: find_schema_def emplace_schema_def string_util.ci_find_emplace [OF D]
          string_util.CIEquals_refl [OF D])
    then show ?thesis
      by (simp add: lookup_in_schema_def bind_op_def g within_schema_def db table(1) lookup_entry_eq e1 return_op_def
          split: sum.split)
  qed
  have "fst (try_lookup_table_before_schema D cat S l st) = (case r of Inl x \<Rightarrow> Inl x
      | Inr None \<Rightarrow> Inr (TABLE_NOT_FOUND, Some ?low, None) | Inr (Some entry) \<Rightarrow> Inr (TABLE_FOUND, Some ?low, Some entry))"
  proof -
    obtain database where db: "d_name database = ?low" and g: "get_schema D cat S ?low (ss, s') =
        (Inr (Some (create_schema_entry database True)),
         (emplace_schema D ?low (create_schema_entry database True) ss, snd (get_transaction D cat s')))"
      using get_schema_held [OF D held, of "(ss, s')" ?low] missing idem low by auto
    let ?se = "(unloaded_schema D ?name)\<lparr>se_tables := ts\<rparr>"
    have look: "lookup_entry D cat S TABLE_ENTRY (el_name l) (unloaded_schema D ?name, s) = (r, (?se, s'))"
      by (simp add: lookup_entry_eq unloaded_schema_def e)
    have name: "schema_name ?se = ?low" by (simp add: unloaded_schema_def create_schema_entry_def schema_name_def)
    then have "fst (add_schema_if_absent D ?se ss) = Some ?se"
      using missing [OF idem] by (simp add: add_schema_if_absent_def find_schema_def emplace_schema_def Let_def
          string_util.ci_find_emplace [OF D] string_util.CIEquals_refl [OF D])
    then obtain ss' where "add_schema_if_absent D ?se ss = (Some ?se, ss')" by (metis prod.collapse)
    with missing [OF idem] look name g db show ?thesis
      by (auto simp: st try_lookup_table_before_schema_def table(1) get_cached_schema_def Let_def bind_op_def
          return_op_def split: sum.split option.split)
  qed
  moreover have "\<not> (el_path_size l > 3 \<or> ?name = [] \<or> el_catalog l \<noteq> [] \<and> \<not> CIEquals D (el_catalog l) (cat_name cat))"
    using table by auto
  ultimately show ?thesis
    unfolding regular using table(1,2)
    by (cases "try_lookup_table_before_schema D cat S l st")
      (auto simp: try_lookup_entry_def bind_op_def return_op_def split: sum.split option.split)
qed

text \<open>A Glue that does not tell the cases of a database name apart.\<close>

definition sample_caseless_glue :: "sample_world service" where
  "sample_caseless_glue = sample_glue\<lparr>GetDatabase := (\<lambda>rq w.
     if Lower ascii_duckdb (rq_body rq) = ''db''
     then (Inr \<lparr>db_name = ''db'', db_catalog_id = None, db_description = [], db_location_uri = [], db_parameters = [],
       db_target_database = None, db_create_table_default_permissions = None, db_federated_database = None\<rparr>, w)
     else (Inl (sample_error ENTITY_NOT_FOUND), w))\<rparr>"

definition sample_table_lookup :: entry_lookup where
  "sample_table_lookup = \<lparr>el_path_size = 2, el_catalog = [], el_schema = ''DB'', el_name = ''a'', el_type = TABLE_ENTRY,
     el_at_clause = False\<rparr>"

lemma table_lookup_needs_no_schema_witness:
  "fst (try_lookup_entry ascii_duckdb sample_catalog sample_caseless_glue sample_table_lookup
     (new_schema_set, sample_session sample_lake)) =
   fst (lookup_in_schema ascii_duckdb sample_catalog sample_caseless_glue sample_table_lookup
     (new_schema_set, sample_session sample_lake)) \<and>
   map_option e_name (snd (projr (fst (lookup_in_schema ascii_duckdb sample_catalog sample_caseless_glue sample_table_lookup
     (new_schema_set, sample_session sample_lake))))) = Some ''a''"
proof -
  have low: "ascii_lower (CHR ''D'') = CHR ''d''" "ascii_lower (CHR ''B'') = CHR ''b''" by code_simp+
  have "holds_database ascii_duckdb sample_catalog sample_caseless_glue (el_schema sample_table_lookup)"
    unfolding holds_database_def
    by (rule exI [of _ "\<lparr>db_name = ''db'', db_catalog_id = None, db_description = [], db_location_uri = [],
        db_parameters = [], db_target_database = None, db_create_table_default_permissions = None,
        db_federated_database = None\<rparr>"])
      (simp add: sample_caseless_glue_def sample_table_lookup_def sample_glue_def low set_catalog_id_def)
  moreover have "find_schema ascii_duckdb (el_schema sample_table_lookup) (fst (new_schema_set, sample_session sample_lake)) = None"
    by (simp add: find_schema_def new_schema_set_def ci_find_def)
  moreover have "map_option e_name (snd (projr (fst (lookup_in_schema ascii_duckdb sample_catalog sample_caseless_glue
      sample_table_lookup (new_schema_set, sample_session sample_lake))))) = Some ''a''" by code_simp
  ultimately show ?thesis
    using table_lookup_needs_no_schema [OF ascii_ok, of sample_catalog sample_caseless_glue sample_table_lookup
        "(new_schema_set, sample_session sample_lake)"]
    by (simp add: sample_table_lookup_def)
qed

subsection \<open>DROP SCHEMA\<close>

lemma refuse_transaction_keeps: "refuse_transaction st = (r, st') \<Longrightarrow> st' = st"
  by (auto simp: refuse_transaction_def on_session_def refuse_explicit_transaction_def bind_op_def lift_op_def
      return_op_def throw_op_def split: prod.splits sum.splits if_splits)

text \<open>
  C28: DROP SCHEMA without CASCADE leaves a database that holds a table alone: once Glue names a table of it, the
  statement fails, Glue is asked nothing more and the schema stays in the set. When it does return, the schema has
  left the set.
\<close>

theorem drop_schema_spares_tables:
  assumes D: "string_util D" and exists: "get_schema D cat S name st = (Inr (Some se), st1)"
    and auto_commit: "refuse_transaction st = (Inr (), st)"
  shows "(on_session (get_any_table_name fuel cat S name) st1 = (Inr (Some table_name), st2) \<longrightarrow>
      drop_schema fuel D cat S name if_exists False st = (Inl (DependencyException
        ''Cannot drop Glue database because it still contains tables'' [name, table_name]), st2) \<and> fst st2 = fst st1) \<and>
    (drop_schema fuel D cat S name if_exists cascade st = (Inr (), st') \<longrightarrow> find_schema D name (fst st') = None)"
proof (intro conjI impI)
  assume held: "on_session (get_any_table_name fuel cat S name) st1 = (Inr (Some table_name), st2)"
  show "drop_schema fuel D cat S name if_exists False st = (Inl (DependencyException
      ''Cannot drop Glue database because it still contains tables'' [name, table_name]), st2)"
    using exists auto_commit held by (simp add: drop_schema_def bind_op_def lift_op_def)
  show "fst st2 = fst st1" using held by (auto simp: on_session_def split: prod.splits)
next
  assume "drop_schema fuel D cat S name if_exists cascade st = (Inr (), st')"
  then obtain st3 where "st' = remove_schema D name st3"
    using exists auto_commit unfolding drop_schema_def by (auto simp: comp_simps split: if_splits option.splits)
  then show "find_schema D name (fst st') = None"
    using string_util.find_retired_schema [OF D, of name name st3]
    by (simp add: remove_schema_def find_schema_def string_util.CIEquals_refl [OF D])
qed

lemma drop_schema_spares_tables_witness:
  "fst (drop_schema 5 ascii_duckdb sample_catalog sample_caseless_glue ''db'' False False
     (new_schema_set, sample_session sample_lake)) =
   Inl (DependencyException ''Cannot drop Glue database because it still contains tables'' [''db'', ''a''])"
proof -
  let ?st = "(new_schema_set, sample_session sample_lake)" and ?S = sample_caseless_glue
  let ?found = "get_schema ascii_duckdb sample_catalog ?S ''db'' ?st"
  let ?held = "on_session (get_any_table_name 5 sample_catalog ?S ''db'') (snd ?found)"
  have "case fst ?found of Inl e \<Rightarrow> False | Inr None \<Rightarrow> False | Inr (Some se) \<Rightarrow> True" by code_simp
  then obtain se where "fst ?found = Inr (Some se)" by (auto split: sum.splits option.splits)
  then have found: "?found = (Inr (Some se), snd ?found)" by (metis prod.collapse)
  have refuse: "refuse_transaction ?st = (Inr (), ?st)"
    by (simp add: refuse_transaction_def on_session_def refuse_explicit_transaction_def sample_session_def sample_settings_def
        lift_op_def return_op_def)
  have "fst ?held = Inr (Some ''a'')" by code_simp
  then have held: "?held = (Inr (Some ''a''), snd ?held)" by (metis prod.collapse)
  have "drop_schema 5 ascii_duckdb sample_catalog ?S ''db'' False False ?st =
      (Inl (DependencyException ''Cannot drop Glue database because it still contains tables'' [''db'', ''a'']), snd ?held)"
    by (rule drop_schema_spares_tables [OF ascii_ok found refuse, THEN conjunct1, rule_format, OF held, THEN conjunct1])
  then show ?thesis by (simp only: fst_conv)
qed

subsection \<open>The properties of a database\<close>

lemma ci_find_update:
  assumes "string_util D" "\<forall>p\<in>set m. \<not> CIEquals D (fst p) key"
  shows "ci_find D k (AList.update key v m) = (if CIEquals D key k then Some v else ci_find D k m)"
proof -
  have "AList.update key v m = m @ [(key, v)]"
    using assms(2) by (induction m) (auto simp: string_util.CIEquals_refl [OF assms(1)])
  moreover have "CIEquals D key k \<Longrightarrow> ci_find D k m = None"
    using assms(2) by (force simp: string_util.ci_find_None_iff [OF assms(1)] string_util.CIEquals [OF assms(1)])
  ultimately show ?thesis
    by (simp add: string_util.ci_find_append [OF assms(1)] string_util.ci_find_single [OF assms(1)] split: option.split)
qed

lemma set_database_option_parameter:
  assumes D: "string_util D" and "set_database_option D option d = Inr d'"
    and "\<not> CIEquals D k ''comment''" "\<not> CIEquals D k ''location''"
  shows "ci_find D k (d_parameters d') =
    (if CIEquals D (fst option) k then Some (projr (string_value D (snd option))) else ci_find D k (d_parameters d))"
proof -
  have ci: "CIEquals D a b \<longleftrightarrow> Lower D a = Lower D b" for a b by (rule string_util.CIEquals [OF D])
  obtain str where t: "string_value D (snd option) = Inr str" using assms(2) by (auto simp: set_database_option_def result_simps)
  have erased: "erase_database_parameter D key d = d\<lparr>d_parameters := ci_erase D key (d_parameters d)\<rparr>" for key
    by (simp add: erase_database_parameter_def ci_erase_def)
  have "\<forall>p\<in>set (ci_erase D key m). \<not> CIEquals D (fst p) key" for key and m :: properties
    by (simp add: ci_erase_def)
  note set_once = ci_find_update [OF D this] string_util.ci_find_erase [OF D]
  consider (comment) "CIEquals D (fst option) ''comment''" | (location) "CIEquals D (fst option) ''location''"
      "\<not> CIEquals D (fst option) ''comment''"
    | (other) "\<not> CIEquals D (fst option) ''location''" "\<not> CIEquals D (fst option) ''comment''" by blast
  then show ?thesis
  proof cases
    case comment
    with assms(2) t have "d_parameters d' = d_parameters d" by (auto simp: set_database_option_def result_simps)
    with comment assms(3) show ?thesis by (simp add: ci)
  next
    case location
    with assms(2) t have "d_parameters d' = d_parameters d" by (auto simp: set_database_option_def result_simps)
    with location assms(4) show ?thesis by (simp add: ci)
  next
    case other
    with assms(2) t show ?thesis by (auto simp: set_database_option_def result_simps erased Let_def set_once)
  qed
qed

text \<open>
  A database property has one value after ALTER SCHEMA ... SET or CREATE SCHEMA: whatever its case, it is the
  text of the last option that names it, and the one Glue held when none does.
\<close>

theorem last_database_option_wins:
  assumes "string_util D" "set_database_options D opts d = Inr d'"
    and "\<not> CIEquals D k ''comment''" "\<not> CIEquals D k ''location''"
  shows "ci_find D k (d_parameters d') = (case find (\<lambda>option. CIEquals D (fst option) k) (rev opts) of
    None \<Rightarrow> ci_find D k (d_parameters d) | Some option \<Rightarrow> Some (projr (string_value D (snd option))))"
  using assms(2)
proof (induction opts arbitrary: d)
  case (Cons option opts)
  then obtain d1 where d1: "set_database_option D option d = Inr d1" and rest: "set_database_options D opts d1 = Inr d'"
    by (auto simp: result_simps)
  have find_snoc: "find P (xs @ [x]) = (case find P xs of None \<Rightarrow> if P x then Some x else None | Some y \<Rightarrow> Some y)"
    for P xs and x :: "string \<times> Value"
    by (induction xs) auto
  show ?case
    using Cons.IH [OF rest] set_database_option_parameter [OF assms(1) d1 assms(3,4)]
    by (simp add: find_snoc split: option.split)
qed simp

lemma last_database_option_wins_witness:
  "ci_find ascii_duckdb ''OWNER'' (d_parameters (projr (set_database_options ascii_duckdb
     [(''owner'', StringV ''ann''), (''comment'', StringV ''c''), (''Owner'', StringV ''bob'')]
     (new_database sample_catalog ''db'')))) = Some ''bob''"
proof -
  let ?opts = "[(''owner'', StringV ''ann''), (''comment'', StringV ''c''), (''Owner'', StringV ''bob'')]"
  let ?d = "new_database sample_catalog ''db''"
  have "\<not> isl (set_database_options ascii_duckdb ?opts ?d)" by code_simp
  then obtain d' where d': "set_database_options ascii_duckdb ?opts ?d = Inr d'"
    by (cases "set_database_options ascii_duckdb ?opts ?d") auto
  have names: "\<not> CIEquals ascii_duckdb ''OWNER'' ''comment''" "\<not> CIEquals ascii_duckdb ''OWNER'' ''location''"
    by code_simp+
  have last: "(case find (\<lambda>option. CIEquals ascii_duckdb (fst option) ''OWNER'') (rev ?opts) of
      None \<Rightarrow> ci_find ascii_duckdb ''OWNER'' (d_parameters ?d)
    | Some option \<Rightarrow> Some (projr (string_value ascii_duckdb (snd option)))) = Some ''bob''" by code_simp
  show ?thesis unfolding d' sum.sel
    by (rule trans [OF last_database_option_wins [OF ascii_ok d' names] last])
qed

end
