(* ===== verification/Table_Entry.thy ===== *)
theory Table_Entry
  imports Schema_Entry Hive_Scan_Function Sample_Glue
begin

text \<open>
  \<open>GlueTable\<close> of src/catalog/glue_table.cpp: the CREATE TABLE statement \<open>duckdb_tables()\<close> shows for a table, and the
  Hive scan a query of the table is planned with. The constant expressions of the options are given by their values.
\<close>

subsection \<open>The statement shown\<close>

definition sort_column_value :: "GlueColumn \<Rightarrow> Value" where
  "sort_column_value c = StructV [(''Column'', VARCHAR), (''SortOrder'', INTEGER)]
     [StringV (col_name c), IntV INTEGER (if col_sort_order c = DESCENDING then 0 else 1)]"

definition string_list_value :: "string list \<Rightarrow> Value" where
  "string_list_value items = ListV VARCHAR (map StringV items)"

definition sort_columns_value :: "GlueColumn list \<Rightarrow> Value" where
  "sort_columns_value columns =
     ListV (STRUCT [(''Column'', VARCHAR), (''SortOrder'', INTEGER)]) (map sort_column_value columns)"

text \<open>What \<open>GetInfo\<close> gives: a statement, or an entry whose text is the reason there is none.\<close>

datatype table_sql = CreateStatement create_table_info | NotSupported string "string list"

definition safe_serde_keys :: "string list" where
  "safe_serde_keys = [''field.delim'', ''separatorChar'', ''quoteChar'', ''escapeChar'', ''serialization.format'']"

definition check_serde_parameters :: "duckdb \<Rightarrow> GlueTableInfo \<Rightarrow> unit result" where
  "check_serde_parameters D t = check_each (\<lambda>p. check (\<exists>k\<in>set safe_serde_keys. CIEquals D (fst p) k)
     (NotImplementedException ''Not supported: SerDe parameter for Hive tables'' [fst p])) (t_serde_parameters t)"

definition shown_file_format :: "duckdb \<Rightarrow> GlueTableInfo \<Rightarrow> HiveFileFormat result" where
  "shown_file_format D t = (case get_file_format D t of
     Inl (NotImplementedException what args) \<Rightarrow>
       Inl (NotImplementedException ''Not supported: SerDe for Hive tables'' [t_serde_library t])
   | r \<Rightarrow> r)"

definition csv_options_shown :: "duckdb \<Rightarrow> GlueTableInfo \<Rightarrow> (string \<times> Value) list result" where
  "csv_options_shown D t =
     and_then (get_field_delimiter D t) (\<lambda>delim.
     and_then (if Contains D (Lower D (t_serde_library t)) ''opencsvserde''
         then and_then (get_quote_character D t) (\<lambda>quot. and_then (get_escape_character D t) (\<lambda>esc.
                Inr [(''quote'', StringV quot), (''escape'', StringV esc)]))
         else Inr []) (\<lambda>quotes.
       Inr ((if delim \<noteq> [] \<and> delim \<noteq> '','' then [(''delimiter'', StringV delim)] else []) @ quotes @
         (if get_parameter D t ''skip.header.line.count'' = ''1'' then [(''header'', BoolV True)] else []))))"

definition bucketing_options_shown :: "GlueTableInfo \<Rightarrow> (string \<times> Value) list" where
  "bucketing_options_shown t =
     (if t_bucket_columns t = [] then []
      else [(''BucketColumns'', string_list_value (t_bucket_columns t))] @
        (if t_number_of_buckets t > 0 then [(''NumberOfBuckets'', IntV INTEGER (t_number_of_buckets t))] else []) @
        (if t_sort_columns t \<noteq> [] then [(''SortColumns'', sort_columns_value (t_sort_columns t))] else []))"

text \<open>A parameter of the table is shown unless an option of its name is, in any case.\<close>

definition pass_parameter :: "duckdb \<Rightarrow> string \<times> string \<Rightarrow> (string \<times> Value) list \<Rightarrow> (string \<times> Value) list" where
  "pass_parameter D p shown =
     (if \<exists>o'\<in>set shown. CIEquals D (fst o') (fst p) then shown else shown @ [(fst p, StringV (snd p))])"

definition hive_options_shown :: "duckdb \<Rightarrow> GlueTableInfo \<Rightarrow> (string \<times> Value) list result" where
  "hive_options_shown D t =
     and_then (shown_file_format D t) (\<lambda>file_format.
     and_then (check_serde_parameters D t) (\<lambda>_.
     and_then (if file_format = CSV then csv_options_shown D t else Inr []) (\<lambda>csv.
       Inr (fold (pass_parameter D) (t_parameters t)
         ([(''type'', StringV ''HIVE''), (''format'', StringV (hive_file_format_to_string file_format))] @
          (if t_location t \<noteq> [] then [(''location'', StringV (t_location t))] else []) @ csv @
          bucketing_options_shown t)))))"

text \<open>\<open>base\<close> is the statement DuckDB's own \<open>GetInfo\<close> gives for the columns.\<close>

definition add_table_properties :: "duckdb \<Rightarrow> GlueTableInfo \<Rightarrow> create_table_info \<Rightarrow> create_table_info result" where
  "add_table_properties D t base = (case format (detect_format D t) of
     HIVE \<Rightarrow> and_then (hive_options_shown D t) (\<lambda>shown.
       Inr (base\<lparr>cti_partition_keys := cti_partition_keys base @ map (\<lambda>k. ColumnRef False (col_name k)) (t_partition_keys t),
                 cti_options := map (\<lambda>(k, v). (k, Inr v)) shown\<rparr>))
   | ICEBERG \<Rightarrow> Inl (NotImplementedException ''Not supported: table format ICEBERG'' [])
   | f \<Rightarrow> Inl (NotImplementedException ''Not supported: table format'' [glue_format_to_string f]))"

definition get_info :: "duckdb \<Rightarrow> GlueTableInfo \<Rightarrow> create_table_info \<Rightarrow> table_sql result" where
  "get_info D t base = (case add_table_properties D t base of
     Inr info \<Rightarrow> Inr (CreateStatement info)
   | Inl (NotImplementedException what args) \<Rightarrow> Inr (NotSupported what args)
   | Inl e \<Rightarrow> Inl e)"

subsection \<open>The scan of a table\<close>

definition table_scan_info :: "duckdb \<Rightarrow> glue_catalog \<Rightarrow> catalog_entry \<Rightarrow> HiveScanInfo result" where
  "table_scan_info D cat entry =
     (let t = e_table_info entry; info = new_scan_info (t_location t) in
      and_then (get_file_format D t) (\<lambda>file_format.
      and_then (if is_text_file_format file_format then check_text_serde_supported D t file_format else Inr ()) (\<lambda>_.
      and_then (if file_format = CSV then get_csv_options D t else Inr (hs_csv_options info)) (\<lambda>csv.
      and_then (if file_format = JSON then get_json_options D t else Inr (hs_json_options info)) (\<lambda>json.
        Inr (info\<lparr>hs_catalog_name := cat_name cat, hs_database_name := t_schema_name t, hs_table_name := t_name t,
          hs_table := Some t, hs_file_format := file_format, hs_csv_options := csv, hs_json_options := json,
          hs_names := map fst (e_columns entry), hs_types := map (fst \<circ> snd) (e_columns entry),
          hs_partition_keys := map col_name (t_partition_keys t)\<rparr>))))))"

definition get_scan_function :: "duckdb \<Rightarrow> glue_catalog \<Rightarrow> catalog_entry \<Rightarrow> HiveScanInfo result" where
  "get_scan_function D cat entry =
     (let t = e_table_info entry; fmt = detect_format D t in
      if is_hive fmt
      then and_then (check (\<not> is_partition_projected D t)
             (NotImplementedException ''uses Athena partition projection'' [t_schema_name t, t_name t])) (\<lambda>_.
           table_scan_info D cat entry)
      else Inl (NotImplementedException ''has a table format which can not be read yet''
             [t_schema_name t, t_name t, describe_format fmt t]))"

subsection \<open>The statement shown creates the table again\<close>

text \<open>The names CREATE TABLE takes as options; any other is a parameter of the table.\<close>

definition option_names :: "string list" where
  "option_names = [''type'', ''format'', ''location'', ''comment'', ''delimiter'', ''quote'', ''escape'', ''overwrite'', ''header'',
     ''BucketColumns'', ''NumberOfBuckets'', ''SortColumns'', ''bucket_columns'', ''bucketed_by'', ''clustered_by'',
     ''number_of_buckets'', ''bucket_count'', ''sort_columns'', ''sorted_by'', ''partitioned_by'', ''partitioning'',
     ''external_location'', ''field_delimiter'']"

definition plain_parameter :: "duckdb \<Rightarrow> string \<Rightarrow> bool" where
  "plain_parameter D k \<longleftrightarrow> (\<forall>n\<in>set option_names. \<not> CIEquals D k n)"

text \<open>Casting a text or a boolean to its own type gives it back.\<close>

definition casts_keep :: "duckdb \<Rightarrow> bool" where
  "casts_keep D \<longleftrightarrow> (\<forall>s. string_value D (StringV s) = Inr s) \<and> (\<exists>s. string_value D (BoolV True) = Inr s) \<and>
     bool_value D (BoolV True) = Inr True"

lemma apply_options_append:
  "apply_options D st (xs @ ys) go = and_then (apply_options D st xs go) (apply_options D st ys)"
  by (induction xs arbitrary: go) (simp_all add: and_then_assoc cong: and_then_cong)

lemma evaluate_values:
  "\<forall>p\<in>set shown. \<not> value_is_null (snd p) \<Longrightarrow> evaluate_options statement (map (\<lambda>(k, v). (k, Inr v)) shown) = Inr shown"
  unfolding evaluate_options_def
  by (induction shown) (auto simp: evaluate_option_def split: prod.splits)

lemma pass_parameters:
  "\<exists>ps. fold (pass_parameter D) params shown = shown @ map (\<lambda>p. (fst p, StringV (snd p))) ps \<and> set ps \<subseteq> set params"
proof (induction params arbitrary: shown)
  case (Cons p params)
  obtain qs where qs: "pass_parameter D p shown = shown @ map (\<lambda>p. (fst p, StringV (snd p))) qs" "set qs \<subseteq> {p}"
  proof (cases "pass_parameter D p shown = shown")
    case True
    then show ?thesis using that [of "[]"] by simp
  next
    case False
    then show ?thesis using that [of "[p]"] by (auto simp: pass_parameter_def split: if_splits)
  qed
  obtain ps where "fold (pass_parameter D) params (pass_parameter D p shown) =
      pass_parameter D p shown @ map (\<lambda>p. (fst p, StringV (snd p))) ps" "set ps \<subseteq> set params"
    using Cons.IH by blast
  with qs show ?case by (intro exI [of _ "qs @ ps"]) auto
qed simp

context string_util
begin

lemma apply_plain:
  assumes "plain_parameter D k" "casts_keep D"
  shows "apply_option D st (k, StringV v) go = Inr (go\<lparr>go_parameters := AList.update k v (go_parameters go)\<rparr>)"
proof -
  have k: "Lower D k \<noteq> Lower D n" if "n \<in> set option_names" for n
    using assms(1) that by (simp add: plain_parameter_def CIEquals)
  have spellings: "lookup_spelling D m k = []" if "\<forall>e\<in>set m. fst e \<in> set option_names" for m
  proof -
    have "find (\<lambda>e. CIEquals D (fst e) k) m = None"
      using k that by (fastforce simp: find_None_iff CIEquals)
    then show ?thesis by (simp add: lookup_spelling_def)
  qed
  have "bucketing_option_for D k = []" "other_engine_option_for D k = []"
    unfolding bucketing_option_for_def other_engine_option_for_def by (rule spellings; simp add: option_names_def)+
  then show ?thesis
    using assms(2) k by (simp add: apply_option_def casts_keep_def is_bucketing_option_def CIEquals option_names_def)
qed

lemma apply_plain_options:
  assumes "\<forall>p\<in>set ps. plain_parameter D (fst p)" "casts_keep D"
  shows "\<exists>m. apply_options D st (map (\<lambda>p. (fst p, StringV (snd p))) ps) go = Inr (go\<lparr>go_parameters := m\<rparr>)"
  using assms
proof (induction ps arbitrary: go)
  case Nil
  show ?case by (rule exI [of _ "go_parameters go"]) simp
next
  case (Cons p ps)
  from Cons.IH [of "go\<lparr>go_parameters := AList.update (fst p) (snd p) (go_parameters go)\<rparr>"] Cons.prems
  show ?case by (simp add: apply_plain)
qed

text \<open>The options \<open>GetInfo\<close> shows, one by one.\<close>

lemma apply_shown:
  assumes "casts_keep D"
  shows "apply_option D st (''type'', StringV ''HIVE'') go = Inr go"
    and "apply_option D st (''format'', StringV (hive_file_format_to_string f)) go = Inr (go\<lparr>go_format := f\<rparr>)"
    and "apply_option D st (''location'', StringV l) go = Inr (go\<lparr>go_location := RTrimChars D l ''/''\<rparr>)"
    and "apply_option D st (''delimiter'', StringV c) go = Inr go' \<Longrightarrow> go' = go\<lparr>go_csv_delimiter := c\<rparr>"
    and "apply_option D st (''quote'', StringV c) go = Inr go' \<Longrightarrow> go' = go\<lparr>go_csv_quote := c\<rparr>"
    and "apply_option D st (''escape'', StringV c) go = Inr go' \<Longrightarrow> go' = go\<lparr>go_csv_escape := c\<rparr>"
    and "apply_option D st (''header'', BoolV True) go = Inr go' \<Longrightarrow>
      go' = go\<lparr>go_parameters := AList.update ''skip.header.line.count'' ''1'' (go_parameters go)\<rparr>"
proof -
  have str: "string_value D (StringV s) = Inr s" for s using assms by (simp add: casts_keep_def)
  note ci = CIEquals Lower ascii_lower_def
  show "apply_option D st (''type'', StringV ''HIVE'') go = Inr go"
    by (simp add: apply_option_def str ci Upper ascii_upper_def check_def)
  show "apply_option D st (''format'', StringV (hive_file_format_to_string f)) go = Inr (go\<lparr>go_format := f\<rparr>)"
    by (cases f) (simp_all add: apply_option_def str ci hive_file_format_from_string_def)
  show "apply_option D st (''location'', StringV l) go = Inr (go\<lparr>go_location := RTrimChars D l ''/''\<rparr>)"
    by (simp add: apply_option_def str ci)
  show "apply_option D st (''delimiter'', StringV c) go = Inr go' \<Longrightarrow> go' = go\<lparr>go_csv_delimiter := c\<rparr>"
    by (simp add: apply_option_def apply_dialect_option_def str ci split: if_splits)
  show "apply_option D st (''quote'', StringV c) go = Inr go' \<Longrightarrow> go' = go\<lparr>go_csv_quote := c\<rparr>"
    by (simp add: apply_option_def apply_dialect_option_def str ci split: if_splits)
  show "apply_option D st (''escape'', StringV c) go = Inr go' \<Longrightarrow> go' = go\<lparr>go_csv_escape := c\<rparr>"
    by (simp add: apply_option_def apply_dialect_option_def str ci split: if_splits)
  show "apply_option D st (''header'', BoolV True) go = Inr go' \<Longrightarrow>
      go' = go\<lparr>go_parameters := AList.update ''skip.header.line.count'' ''1'' (go_parameters go)\<rparr>"
    using assms by (auto simp: apply_option_def ci casts_keep_def)
qed

end

text \<open>The options of the dialect, as CREATE TABLE reads them.\<close>

definition dialect_agrees :: "duckdb \<Rightarrow> GlueTableInfo \<Rightarrow> GlueCreateTableOptions \<Rightarrow> bool" where
  "dialect_agrees D t go \<longleftrightarrow>
     (\<exists>delim. get_field_delimiter D t = Inr delim \<and> go_csv_delimiter go = (if delim = [] then '','' else delim)) \<and>
     (Contains D (Lower D (t_serde_library t)) ''opencsvserde'' \<longrightarrow>
        get_quote_character D t = Inr (go_csv_quote go) \<and> get_escape_character D t = Inr (go_csv_escape go))"

lemma apply_csv_shown:
  assumes D: "string_util D" and casts: "casts_keep D" and csv: "csv_options_shown D t = Inr csv"
    and applied: "apply_options D st csv go = Inr go'" and fresh: "go_csv_delimiter go = '',''"
  shows "dialect_agrees D t go' \<and> go_format go' = go_format go \<and> go_location go' = go_location go"
proof -
  note shown_options = string_util.apply_shown [OF D casts]
  from csv obtain delim quotes where d: "get_field_delimiter D t = Inr delim"
    and q: "(if Contains D (Lower D (t_serde_library t)) ''opencsvserde''
       then and_then (get_quote_character D t) (\<lambda>quot. and_then (get_escape_character D t) (\<lambda>esc.
              Inr [(''quote'', StringV quot), (''escape'', StringV esc)]))
       else Inr []) = Inr quotes"
    and cs: "csv = (if delim \<noteq> [] \<and> delim \<noteq> '','' then [(''delimiter'', StringV delim)] else []) @ quotes @
       (if get_parameter D t ''skip.header.line.count'' = ''1'' then [(''header'', BoolV True)] else [])"
    by (auto simp: csv_options_shown_def result_simps)
  let ?go3 = "go\<lparr>go_csv_delimiter := (if delim = [] then '','' else delim)\<rparr>"
  have same: "go\<lparr>go_csv_delimiter := '',''\<rparr> = go" using fresh by (cases go) simp
  have "apply_options D st (quotes @ (if get_parameter D t ''skip.header.line.count'' = ''1''
      then [(''header'', BoolV True)] else [])) ?go3 = Inr go'"
    using applied fresh unfolding cs
    by (cases "delim = [] \<or> delim = '',''") (auto simp: result_simps same dest!: shown_options(4))
  then obtain go4 where go4: "apply_options D st quotes ?go3 = Inr go4"
    and "apply_options D st (if get_parameter D t ''skip.header.line.count'' = ''1''
      then [(''header'', BoolV True)] else []) go4 = Inr go'"
    by (auto simp: apply_options_append result_simps)
  then have "\<exists>m. go' = go4\<lparr>go_parameters := m\<rparr>"
    by (auto simp: result_simps dest!: shown_options(7) split: if_splits intro: exI [of _ "go_parameters go'"])
  moreover have "go_format go4 = go_format go \<and> go_location go4 = go_location go \<and>
     go_csv_delimiter go4 = (if delim = [] then '','' else delim) \<and>
     (Contains D (Lower D (t_serde_library t)) ''opencsvserde'' \<longrightarrow>
      get_quote_character D t = Inr (go_csv_quote go4) \<and> get_escape_character D t = Inr (go_csv_escape go4))"
    using go4 q by (auto simp: result_simps dest!: shown_options(5,6) split: if_splits)
  ultimately show ?thesis using d by (auto simp: dialect_agrees_def)
qed


lemma ascii_casts_keep: "casts_keep ascii_duckdb"
proof -
  have "\<not> isl (string_value ascii_duckdb (BoolV True))" "bool_value ascii_duckdb (BoolV True) = Inr True" by code_simp+
  moreover have "string_value ascii_duckdb (StringV s) = Inr s" for s by (simp add: string_value_def ascii_cast_def)
  ultimately show ?thesis
    by (cases "string_value ascii_duckdb (BoolV True)") (auto simp: casts_keep_def)
qed

definition sample_shown_table :: GlueTableInfo where
  "sample_shown_table = new_table\<lparr>t_name := ''events'', t_location := ''s3://lake/events/'',
     t_serde_library := ''org.apache.hadoop.hive.serde2.lazy.LazySimpleSerDe'',
     t_serde_parameters := [(''field.delim'', '';''), (''serialization.format'', '';'')],
     t_parameters := [(''classification'', ''csv''), (''skip.header.line.count'', ''1'')]\<rparr>"

definition sample_base :: create_table_info where
  "sample_base = \<lparr>cti_table_name = ''events'', cti_columns = [], cti_has_constraints = False, cti_options = [],
     cti_partition_keys = [], cti_comment = NullV VARCHAR, cti_on_conflict = ERROR_ON_CONFLICT\<rparr>"

text \<open>The same table with a comma as delimiter and parameters of its own.\<close>

definition sample_comma_table :: "(string \<times> string) list \<Rightarrow> GlueTableInfo" where
  "sample_comma_table params = sample_shown_table\<lparr>t_serde_parameters := [(''field.delim'', '','')], t_parameters := params\<rparr>"

definition shown_options_of :: "table_sql result \<Rightarrow> GlueCreateTableOptions option" where
  "shown_options_of r = (case r of
     Inr (CreateStatement info) \<Rightarrow> (case parse_create_table_options ascii_duckdb sample_settings (cti_options info) of
       Inr go \<Rightarrow> Some go | Inl e \<Rightarrow> None)
   | _ \<Rightarrow> None)"

lemma map_option_PairE:
  assumes "map_option (\<lambda>y. (f y, g y)) x = Some (a, b)"
  obtains y where "x = Some y" "f y = a" "g y = b"
  using assms by auto

lemma and_then_not_islE:
  assumes "\<not> isl (and_then m f)"
  obtains x y where "m = Inr x" "f x = Inr y"
  using assms by (cases m) (auto simp: isl_def, metis sum.exhaust)

lemma shown_options_ofE:
  assumes "shown_options_of r = Some go"
  obtains info where "r = Inr (CreateStatement info)"
    "parse_create_table_options ascii_duckdb sample_settings (cti_options info) = Inr go"
  using assms by (auto simp: shown_options_of_def split: sum.splits table_sql.splits)


text \<open>
  The statement shown is not of the table after ALTER TABLE ... SET (delimiter = ...): the statement is accepted and
  sets a parameter no reader looks at; GetInfo leaves a comma out as the default and shows that parameter as the option
  instead, so the table created from it has another delimiter than the files.
\<close>

theorem shown_delimiter_mistaken:
  "property_changes ascii_duckdb (SET_TABLE_OPTIONS [(''delimiter'', Inr (StringV '';''))]) = Inr ([(''delimiter'', '';'')], []) \<and>
   get_field_delimiter ascii_duckdb (sample_comma_table [(''delimiter'', '';'')]) = Inr '','' \<and>
   map_option go_csv_delimiter (shown_options_of (get_info ascii_duckdb (sample_comma_table []) sample_base)) = Some '','' \<and>
   map_option go_csv_delimiter
     (shown_options_of (get_info ascii_duckdb (sample_comma_table [(''delimiter'', '';'')]) sample_base)) = Some '';''"
  by (intro conjI; code_simp)

text \<open>Neither is what \<open>GetInfo\<close> does with a table it can not show always a reason in place of the statement.\<close>

lemma get_info_throws:
  "get_info ascii_duckdb (sample_shown_table\<lparr>t_serde_library := ''org.apache.hadoop.hive.serde2.OpenCSVSerde'',
     t_serde_parameters := [(''separatorChar'', [CHR 0xFF])]\<rparr>) sample_base =
   Inl (InvalidInputException ''Hive table has an invalid character property''
     [[], ''events'', ''separatorChar'', [CHR 0xFF]])"
  by code_simp

text \<open>An OpenX table is shown as if CREATE TABLE could write it; the table created has the Hive JsonSerDe.\<close>

lemma get_info_shows_openx:
  "map_option go_format (shown_options_of (get_info ascii_duckdb (sample_shown_table\<lparr>
     t_serde_library := ''org.openx.data.jsonserde.JsonSerDe'', t_serde_parameters := []\<rparr>) sample_base)) = Some JSON"
  by code_simp

subsection \<open>The scan is well formed\<close>

lemma add_entry_columns_all:
  "add_entry_columns D cs added = Inr columns \<Longrightarrow>
     map fst columns = map fst added @ map col_name cs \<and>
     list_all2 (\<lambda>c e. to_logical_type D (col_type c) = Inr (fst (snd e))) cs (drop (length added) columns) \<and>
     take (length added) columns = added"
proof (induction cs arbitrary: added)
  case (Cons c cs)
  from Cons.prems obtain ty where ty: "to_logical_type D (col_type c) = Inr ty"
    and rest: "add_entry_columns D cs (added @ [(col_name c, ty, col_comment c)]) = Inr columns"
    by (auto simp: result_simps)
  from Cons.IH [OF rest] have t: "take (Suc (length added)) columns = added @ [(col_name c, ty, col_comment c)]"
    and a: "list_all2 (\<lambda>c e. to_logical_type D (col_type c) = Inr (fst (snd e))) cs (drop (Suc (length added)) columns)"
    and n: "map fst columns = map fst added @ map col_name (c # cs)" by simp_all
  have l: "length added < length columns" using n by (metis length_append length_map less_add_same_cancel1 length_greater_0_conv list.distinct(1) list.map_disc_iff)
  have "columns ! length added = (col_name c, ty, col_comment c)"
    using arg_cong [OF t, of "\<lambda>l. l ! length added"] by simp
  then have "drop (length added) columns = (col_name c, ty, col_comment c) # drop (Suc (length added)) columns"
    using l by (metis Cons_nth_drop_Suc)
  moreover have "take (length added) columns = added" using arg_cong [OF t, of "take (length added)"] by simp
  ultimately show ?case using a n ty by simp
qed simp

definition sample_comma_columns :: GlueTableInfo where
  "sample_comma_columns = (sample_comma_table [])\<lparr>t_columns := [\<lparr>col_name = ''id'', col_type = ''bigint'', col_comment = [], col_sort_order = ASCENDING\<rparr>],
     t_partition_keys := [\<lparr>col_name = ''day'', col_type = ''string'', col_comment = [], col_sort_order = ASCENDING\<rparr>]\<rparr>"

text \<open>
  C34: the scan of a table reads the columns of its definition: a name and a type for each, the data columns first and
  the partition keys last, the types those of the stored type names, and the file format that of the SerDe; only a Hive
  table without partition projection has one.
\<close>

theorem table_scan_reads_its_columns:
  assumes "build_entry D t = Inr e" "\<not> is_view t" "get_scan_function D cat e = Inr info"
  shows "hs_names info = map col_name (t_columns t @ t_partition_keys t) \<and>
    list_all2 (\<lambda>c ty. to_logical_type D (col_type c) = Inr ty) (t_columns t @ t_partition_keys t) (hs_types info) \<and>
    hs_partition_keys info = drop (length (t_columns t)) (hs_names info) \<and>
    get_file_format D t = Inr (hs_file_format info) \<and> hs_table info = Some t \<and>
    is_hive (detect_format D t) \<and> \<not> is_partition_projected D t"
proof -
  from assms(1,2) obtain columns where c: "add_entry_columns D (t_columns t @ t_partition_keys t) [] = Inr columns"
    and e: "e_columns e = columns" "e_table_info e = t"
    by (auto simp: build_entry_def result_simps)
  from add_entry_columns_all [OF c] have names: "map fst columns = map col_name (t_columns t @ t_partition_keys t)"
    and types: "list_all2 (\<lambda>c e. to_logical_type D (col_type c) = Inr (fst (snd e))) (t_columns t @ t_partition_keys t) columns"
    by simp_all
  from assms(3) have "hs_names info = map fst columns" "hs_types info = map (fst \<circ> snd) columns"
    "hs_partition_keys info = map col_name (t_partition_keys t)" "get_file_format D t = Inr (hs_file_format info)"
    "hs_table info = Some t" "is_hive (detect_format D t)" "\<not> is_partition_projected D t"
    by (auto simp: get_scan_function_def table_scan_info_def result_simps Let_def e split: if_splits)
  with names types show ?thesis by (simp add: list_all2_map2)
qed

lemma table_scan_reads_its_columns_witness:
  "\<exists>e info. build_entry ascii_duckdb sample_comma_columns = Inr e \<and>
     get_scan_function ascii_duckdb sample_catalog e = Inr info \<and> hs_names info = [''id'', ''day''] \<and>
     hs_file_format info = CSV \<and> hs_table info = Some sample_comma_columns"
proof -
  have "\<not> isl (and_then (build_entry ascii_duckdb sample_comma_columns) (get_scan_function ascii_duckdb sample_catalog))"
    by code_simp
  then obtain e info where e: "build_entry ascii_duckdb sample_comma_columns = Inr e"
    and info: "get_scan_function ascii_duckdb sample_catalog e = Inr info"
    by (rule and_then_not_islE)
  have v: "\<not> is_view sample_comma_columns" by code_simp
  have f: "get_file_format ascii_duckdb sample_comma_columns = Inr CSV"
    "map col_name (t_columns sample_comma_columns @ t_partition_keys sample_comma_columns) = [''id'', ''day'']"
    by code_simp+
  show ?thesis using table_scan_reads_its_columns [OF e v info] e info unfolding f sum.inject eq_commute [of CSV] by blast
qed

end
