(* ===== verification/Replace_Columns.thy ===== *)
theory Replace_Columns
  imports Partition_Functions Glue_Catalog
begin

text \<open>
  \<open>glue_replace_columns\<close> of src/functions/glue_partition_functions.cpp: the data columns of a Hive table given anew,
  checked against the table when the statement binds, and what is stored of them when it runs. \<open>TransformType\<close> is
  DuckDB's parser of a type name.
\<close>

subsection \<open>The columns given\<close>

definition is_string_struct :: "Value \<Rightarrow> bool" where
  "is_string_struct v = (case v of
     StructV fs vs \<Rightarrow> list_all (\<lambda>f. type_id (snd f) \<in> {ID_VARCHAR, ID_OTHER ''NULL''}) fs
   | _ \<Rightarrow> False)"

definition field_text :: "duckdb \<Rightarrow> Value \<Rightarrow> string" where
  "field_text D v = (case v of StringV s \<Rightarrow> s | _ \<Rightarrow> ValueToString D v)"

text \<open>A case-insensitive map from the names of columns to their places: the last of a name stands.\<close>

definition place_of :: "duckdb \<Rightarrow> GlueColumn list \<Rightarrow> string \<Rightarrow> nat option" where
  "place_of D columns name =
     (case filter (\<lambda>i. CIEquals D (col_name (columns ! i)) name) [0..<length columns] of
        [] \<Rightarrow> None | i # is \<Rightarrow> Some (last (i # is)))"

record replace_options =
  ro_comments :: "Value option"
  ro_keep_comments :: bool

definition replace_option :: "duckdb \<Rightarrow> string \<times> Value \<Rightarrow> replace_options \<Rightarrow> replace_options result" where
  "replace_option D option ro = (case option of (key, v) \<Rightarrow>
     if Lower D key = ''comments'' then Inr (ro\<lparr>ro_comments := Some v\<rparr>)
     else if Lower D key = ''keep_comments''
     then and_then (if value_is_null v then Inr False else bool_value D v) (\<lambda>b. Inr (ro\<lparr>ro_keep_comments := b\<rparr>))
     else Inr ro)"

fun replace_options_of :: "duckdb \<Rightarrow> (string \<times> Value) list \<Rightarrow> replace_options \<Rightarrow> replace_options result" where
  "replace_options_of D [] ro = Inr ro"
| "replace_options_of D (option # options) ro =
     and_then (replace_option D option ro) (replace_options_of D options)"

text \<open>The column of the table that column \<open>i\<close> of the new ones takes the place of.\<close>

definition previous_column :: "duckdb \<Rightarrow> GlueTableInfo \<Rightarrow> bool \<Rightarrow> nat \<Rightarrow> string \<Rightarrow> GlueColumn option" where
  "previous_column D t by_position i name =
     (if by_position then Some (t_columns t ! i)
      else map_option (\<lambda>k. t_columns t ! k) (place_of D (t_columns t) name))"

text \<open>A column matched by name keeps its stored name.\<close>

definition taken_over :: "bool \<Rightarrow> bool \<Rightarrow> GlueColumn \<Rightarrow> GlueColumn \<Rightarrow> GlueColumn" where
  "taken_over by_position keep_comments old c =
     c\<lparr>col_name := (if by_position then col_name c else col_name old),
       col_comment := (if keep_comments then col_comment old else col_comment c)\<rparr>"

definition replace_column ::
  "duckdb \<Rightarrow> (string \<Rightarrow> LogicalType result) \<Rightarrow> GlueTableInfo \<Rightarrow> bool \<Rightarrow> bool \<Rightarrow> nat \<times> string \<times> Value \<Rightarrow> GlueColumn result" where
  "replace_column D TransformType t by_position keep_comments given = (case given of (i, name, v) \<Rightarrow>
     and_then (check (\<not> value_is_null v) (BinderException ''glue_replace_columns: no type given for column'' [name])) (\<lambda>_.
     and_then (TransformType (field_text D v)) (\<lambda>parsed.
     and_then (from_logical_type D parsed) (\<lambda>stored.
     and_then (to_logical_type D stored) (\<lambda>type.
       let c = new_column\<lparr>col_name := name, col_type := stored\<rparr> in
       and_then (case previous_column D t by_position i name of
           None \<Rightarrow> Inr c
         | Some old \<Rightarrow>
             and_then (to_logical_type D (col_type old)) (\<lambda>from.
             and_then (check (is_allowed_hive_type_change D from type)
                (BinderException ''glue_replace_columns: only widening changes are supported''
                   [col_name old, TypeToString D from, TypeToString D type])) (\<lambda>_.
               Inr (taken_over by_position keep_comments old c)))) (\<lambda>c'.
       and_then (check (\<not> names_partition_key D t (col_name c'))
          (BinderException ''glue_replace_columns: the columns are the data columns only'' [col_name c'])) (\<lambda>_.
         Inr c')))))))"

definition set_comment ::
  "duckdb \<Rightarrow> string \<times> Value \<Rightarrow> GlueColumn list \<Rightarrow> GlueColumn list result" where
  "set_comment D comment columns = (case comment of (name, v) \<Rightarrow>
     case place_of D columns name of
       None \<Rightarrow> Inl (BinderException ''glue_replace_columns: comments names what is not one of the columns'' [name])
     | Some i \<Rightarrow> Inr (set_comment_at i (if value_is_null v then [] else field_text D v) columns))"

fun set_comments :: "duckdb \<Rightarrow> (string \<times> Value) list \<Rightarrow> GlueColumn list \<Rightarrow> GlueColumn list result" where
  "set_comments D [] columns = Inr columns"
| "set_comments D (comment # comments) columns =
     and_then (set_comment D comment columns) (set_comments D comments)"

definition require_kept :: "duckdb \<Rightarrow> GlueTableInfo \<Rightarrow> GlueColumn list \<Rightarrow> string \<Rightarrow> unit result" where
  "require_kept D t columns name =
     check (place_of D columns name \<noteq> None)
       (BinderException ''glue_replace_columns: the columns must keep what the table is bucketed by''
          [describe_bucketing D t, name])"

definition check_columns_argument :: "Value \<Rightarrow> unit result" where
  "check_columns_argument v =
     check (is_string_struct v \<and> struct_fields v \<noteq> [])
       (BinderException ''glue_replace_columns: the columns must be a struct of column name to type'' [])"

text \<open>The columns the bind stores, from the table, the struct of the columns and the options.\<close>

definition replaced_columns ::
  "duckdb \<Rightarrow> (string \<Rightarrow> LogicalType result) \<Rightarrow> GlueTableInfo \<Rightarrow> Value \<Rightarrow> (string \<times> Value) list \<Rightarrow> GlueColumn list result" where
  "replaced_columns D TransformType t columns options =
     and_then (check_columns_argument columns) (\<lambda>_.
     and_then (replace_options_of D options \<lparr>ro_comments = None, ro_keep_comments = False\<rparr>) (\<lambda>ro.
     and_then (check (case ro_comments ro of None \<Rightarrow> True | Some v \<Rightarrow> is_string_struct v)
        (BinderException ''glue_replace_columns: comments must be a struct of column name to comment'' [])) (\<lambda>_.
     and_then (get_file_format D t) (\<lambda>file_format.
       let by_position = (file_format = CSV); given = struct_fields columns in
       and_then (check (\<not> by_position \<or> length given = length (t_columns t))
          (BinderException ''glue_replace_columns: a csv table must keep its columns''
             [t_name t, FormatInt D (int (length (t_columns t)))])) (\<lambda>_.
       and_then (collect (replace_column D TransformType t by_position (ro_keep_comments ro)) (enumerate 0 given)) (\<lambda>cs.
       and_then (set_comments D (case ro_comments ro of None \<Rightarrow> [] | Some v \<Rightarrow> struct_fields v) cs) (\<lambda>cs'.
       and_then (check_each (require_kept D t cs') (t_bucket_columns t @ map col_name (t_sort_columns t))) (\<lambda>_.
         Inr cs'))))))))"

subsection \<open>Bind and scan\<close>

record replace_bind_data =
  rb_target :: GluePartitionTarget
  rb_columns :: "GlueColumn list"

definition glue_replace_columns_bind ::
  "duckdb \<Rightarrow> 'w service \<Rightarrow> 'w name_resolver \<Rightarrow> (string \<Rightarrow> LogicalType result) \<Rightarrow> string \<Rightarrow> Value
     \<Rightarrow> (string \<times> Value) list \<Rightarrow> ('w, replace_bind_data) op" where
  "glue_replace_columns_bind D S Q TransformType table_name columns options =
     bind_op (resolve_glue_table D S Q ''glue_replace_columns'' table_name False) (\<lambda>target.
     bind_op (throw_if_in_explicit_transaction ''glue_replace_columns'') (\<lambda>_.
     bind_op (lift_op (replaced_columns D TransformType (tg_table target) columns options)) (\<lambda>cs.
       return_op \<lparr>rb_target = target, rb_columns = cs\<rparr>)))"

definition column_row :: "GlueColumn \<Rightarrow> Value" where
  "column_row c = StructV [(''name'', VARCHAR), (''type'', VARCHAR), (''comment'', VARCHAR)]
     [StringV (col_name c), StringV (col_type c),
      if col_comment c = [] then NullV VARCHAR else StringV (col_comment c)]"

text \<open>The scan with the flag \<open>done\<close> of its state: the row is the columns Glue holds after the change.\<close>

definition glue_replace_columns_scan ::
  "duckdb \<Rightarrow> 'w service \<Rightarrow> replace_bind_data \<Rightarrow> bool \<Rightarrow> ('w catalog_state, Value list list) comp" where
  "glue_replace_columns_scan D S b already_done =
     (if already_done then return_op []
      else let cat = tg_catalog (rb_target b); t = tg_table (rb_target b) in (\<lambda>st.
        bind_op (on_session (update_table_columns D cat S t (rb_columns b))) (\<lambda>_.
        bind_op (get_schema D cat S (t_schema_name t)) (\<lambda>found. case found of
            None \<Rightarrow> throw_op (CatalogException ''Table was altered but its Glue database could not be found afterwards''
              [target_name (rb_target b)])
          | Some se \<Rightarrow>
              bind_op (within_schema D (schema_name se) (refresh_table D cat S (t_name t))) (\<lambda>updated.
                return_op [map column_row (t_columns (e_table_info updated))])))
          (in_transaction D cat st)))"

subsection \<open>What the columns given leave readable\<close>

text \<open>The new type as it reads back from Glue holds what a file holds of the old one.\<close>

definition reads_as :: "duckdb \<Rightarrow> GlueColumn \<Rightarrow> GlueColumn \<Rightarrow> bool" where
  "reads_as D old new \<longleftrightarrow> (\<exists>from to. to_logical_type D (col_type old) = Inr from \<and>
     to_logical_type D (col_type new) = Inr to \<and> is_allowed_hive_type_change D from to)"

text \<open>Text files are read by position; the others by name, json by the very name.\<close>

definition read_by_new_columns :: "duckdb \<Rightarrow> GlueTableInfo \<Rightarrow> GlueColumn list \<Rightarrow> bool" where
  "read_by_new_columns D t columns \<longleftrightarrow>
     (if get_file_format D t = Inr CSV
      then length columns = length (t_columns t) \<and> (\<forall>i<length columns. reads_as D (t_columns t ! i) (columns ! i))
      else \<forall>old\<in>set (t_columns t). \<forall>new\<in>set columns. CIEquals D (col_name old) (col_name new) \<longrightarrow>
        col_name new = col_name old \<and> reads_as D old new)"

lemma place_of_None_iff:
  "place_of D columns name = None \<longleftrightarrow> (\<forall>c\<in>set columns. \<not> CIEquals D (col_name c) name)"
proof -
  have "filter (\<lambda>i. CIEquals D (col_name (columns ! i)) name) [0..<length columns] = [] \<longleftrightarrow>
      (\<forall>i<length columns. \<not> CIEquals D (col_name (columns ! i)) name)"
    by (auto simp: filter_empty_conv)
  then show ?thesis
    by (cases "filter (\<lambda>i. CIEquals D (col_name (columns ! i)) name) [0..<length columns]")
      (simp_all add: place_of_def all_set_conv_all_nth)
qed

lemma place_of_SomeD:
  assumes "place_of D columns name = Some i"
  shows "i < length columns" "CIEquals D (col_name (columns ! i)) name"
proof -
  let ?is = "filter (\<lambda>i. CIEquals D (col_name (columns ! i)) name) [0..<length columns]"
  from assms have "?is \<noteq> []" "i = last ?is" by (auto simp: place_of_def split: list.splits)
  then have "i \<in> set ?is" using last_in_set by blast
  then show "i < length columns" "CIEquals D (col_name (columns ! i)) name" by auto
qed

text \<open>Comments change the comments only.\<close>

lemma set_comments_same:
  "set_comments D comments cs = Inr cs' \<Longrightarrow>
     map col_name cs' = map col_name cs \<and> map col_type cs' = map col_type cs"
proof (induction comments arbitrary: cs)
  case (Cons comment comments)
  from Cons.prems obtain cs1 where cs1: "set_comment D comment cs = Inr cs1" "set_comments D comments cs1 = Inr cs'"
    by (auto simp: result_simps)
  from cs1(1) obtain i v where i: "cs1 = set_comment_at i v cs" "i < length cs"
    by (auto simp: set_comment_def dest: place_of_SomeD split: prod.splits option.splits)
  then have "map col_name cs1 = map col_name cs \<and> map col_type cs1 = map col_type cs"
    by (simp add: set_comment_at_def map_update list_update_same_conv)
  with Cons.IH [OF cs1(2)] show ?case by simp
qed simp

text \<open>What one column keeps of the column it takes the place of.\<close>

lemma replace_column_ok:
  assumes D: "string_util D" and c: "replace_column D T t by_position keep (i, name, v) = Inr c"
  shows "column_key D c = Lower D name" "\<not> names_partition_key D t (col_name c)"
    and "previous_column D t by_position i name = Some old \<Longrightarrow>
      reads_as D old c \<and> (\<not> by_position \<longrightarrow> col_name c = col_name old)"
proof -
  from c obtain stored type where s: "to_logical_type D stored = Inr type"
    and c': "(case previous_column D t by_position i name of
         None \<Rightarrow> Inr (new_column\<lparr>col_name := name, col_type := stored\<rparr>)
       | Some old \<Rightarrow> and_then (to_logical_type D (col_type old)) (\<lambda>from.
           and_then (check (is_allowed_hive_type_change D from type)
             (BinderException ''glue_replace_columns: only widening changes are supported''
                [col_name old, TypeToString D from, TypeToString D type])) (\<lambda>_.
             Inr (taken_over by_position keep old (new_column\<lparr>col_name := name, col_type := stored\<rparr>))))) = Inr c"
    and k: "\<not> names_partition_key D t (col_name c)"
    by (auto simp: replace_column_def result_simps Let_def)
  show "\<not> names_partition_key D t (col_name c)" by (rule k)
  have same: "Lower D (col_name old) = Lower D name"
    if "previous_column D t by_position i name = Some old" "\<not> by_position" for old
    using that by (auto simp: previous_column_def string_util.CIEquals [OF D] dest: place_of_SomeD)
  show "column_key D c = Lower D name"
    using c' same by (auto simp: column_key_def taken_over_def result_simps split: option.splits)
  show "reads_as D old c \<and> (\<not> by_position \<longrightarrow> col_name c = col_name old)"
    if "previous_column D t by_position i name = Some old"
    using c' s that by (auto simp: reads_as_def taken_over_def result_simps)
qed

text \<open>The steps of the bind that succeeded.\<close>

lemma replaced_columnsE:
  assumes "replaced_columns D T t columns options = Inr cs"
  obtains cs0 f keep where "get_file_format D t = Inr f" "struct_fields columns \<noteq> []"
    "f \<noteq> CSV \<or> length (struct_fields columns) = length (t_columns t)" "length cs0 = length (struct_fields columns)"
    "\<forall>i<length cs0. replace_column D T t (f = CSV) keep
       (i, fst (struct_fields columns ! i), snd (struct_fields columns ! i)) = Inr (cs0 ! i)"
    "map col_name cs = map col_name cs0 \<and> map col_type cs = map col_type cs0"
    "\<forall>n\<in>set (t_bucket_columns t @ map col_name (t_sort_columns t)). place_of D cs n \<noteq> None"
proof -
  from assms obtain ro :: replace_options and f cs0 u where f: "get_file_format D t = Inr f" and given: "struct_fields columns \<noteq> []"
    "f \<noteq> CSV \<or> length (struct_fields columns) = length (t_columns t)"
    and cs0: "collect (replace_column D T t (f = CSV) (ro_keep_comments ro)) (enumerate 0 (struct_fields columns)) = Inr cs0"
    and cs: "set_comments D (case ro_comments ro of None \<Rightarrow> [] | Some v \<Rightarrow> struct_fields v) cs0 = Inr cs"
    and kept: "check_each (require_kept D t cs) (t_bucket_columns t @ map col_name (t_sort_columns t)) = Inr u"
    unfolding replaced_columns_def check_columns_argument_def Let_def and_then_Inr_iff check_Inr_iff de_Morgan_conj
      not_not sum.inject by blast
  have all: "list_all2 (\<lambda>g c. replace_column D T t (f = CSV) (ro_keep_comments ro) g = Inr c)
      (enumerate 0 (struct_fields columns)) cs0"
    using cs0 by (simp add: result_simps)
  have len: "length cs0 = length (struct_fields columns)" using list_all2_lengthD [OF all] by simp
  have "replace_column D T t (f = CSV) (ro_keep_comments ro)
      (i, fst (struct_fields columns ! i), snd (struct_fields columns ! i)) = Inr (cs0 ! i)" if "i < length cs0" for i
    using list_all2_nthD2 [OF all that] that len by (simp add: nth_enumerate_eq)
  moreover have "\<forall>n\<in>set (t_bucket_columns t @ map col_name (t_sort_columns t)). place_of D cs n \<noteq> None"
    using kept by (auto simp: result_simps require_kept_def)
  ultimately show thesis
    using f given len set_comments_same [OF cs] by (intro that [of f cs0 "ro_keep_comments ro"]) blast+
qed

lemma replaced_columns_ok:
  assumes D: "string_util D" and ok: "columns_ok D t (t_columns t)"
    and cs: "replaced_columns D T t columns options = Inr cs"
    and names: "distinct (map (Lower D \<circ> fst) (struct_fields columns))"
  shows "columns_ok D t cs" "read_by_new_columns D t cs"
proof -
  let ?given = "struct_fields columns"
  from cs obtain cs0 f keep where f: "get_file_format D t = Inr f" and ne: "?given \<noteq> []"
    and positions: "f \<noteq> CSV \<or> length ?given = length (t_columns t)" and len0: "length cs0 = length ?given"
    and each0: "\<forall>i<length cs0. replace_column D T t (f = CSV) keep (i, fst (?given ! i), snd (?given ! i)) = Inr (cs0 ! i)"
    and same: "map col_name cs = map col_name cs0 \<and> map col_type cs = map col_type cs0"
    and kept: "\<forall>n\<in>set (t_bucket_columns t @ map col_name (t_sort_columns t)). place_of D cs n \<noteq> None"
    by (rule replaced_columnsE)
  have len: "length cs = length ?given" using len0 same by (metis length_map)
  have at: "col_name (cs ! i) = col_name (cs0 ! i)" "col_type (cs ! i) = col_type (cs0 ! i)" if "i < length cs" for i
    using that same len len0 by (metis nth_map)+
  note each = replace_column_ok [OF D each0 [rule_format]]
  have key: "column_key D (cs ! i) = Lower D (fst (?given ! i))" "\<not> names_partition_key D t (col_name (cs ! i))"
    if "i < length cs" for i
    using each(1,2) [of i] that len len0 at(1) [OF that] by (simp_all add: column_key_def)
  have keys: "column_keys D cs = map (Lower D \<circ> fst) ?given"
    using key(1) len by (auto simp: column_keys_def intro!: nth_equalityI)
  have "set (column_keys D cs) \<inter> set (column_keys D (t_partition_keys t)) = {}"
  proof -
    have "column_key D c \<notin> set (column_keys D (t_partition_keys t))" if "c \<in> set cs" for c
      using that key(2) by (auto simp: in_set_conv_nth column_key_def string_util.names_partition_key_iff [OF D])
    then show ?thesis by (auto simp: column_keys_def)
  qed
  moreover have "clustering_keys D t \<subseteq> set (column_keys D cs)"
  proof -
    have "Lower D n \<in> set (column_keys D cs)" if "place_of D cs n \<noteq> None" for n
      using that unfolding place_of_None_iff column_keys_def column_key_def string_util.CIEquals [OF D]
      by (auto intro: rev_image_eqI)
    then show ?thesis using kept by (auto simp: clustering_keys_def)
  qed
  ultimately show "columns_ok D t cs"
    using ok names ne by (auto simp: columns_ok_def keys_ok_def keys)
  have reads: "reads_as D old (cs ! i) \<and> (f \<noteq> CSV \<longrightarrow> col_name (cs ! i) = col_name old)"
    if "i < length cs" "previous_column D t (f = CSV) i (fst (?given ! i)) = Some old" for i old
    using each(3) [of i old] that len len0 at [OF that(1)] by (simp add: reads_as_def)
  show "read_by_new_columns D t cs"
  proof (cases "f = CSV")
    case True
    then have "length cs = length (t_columns t)" using positions len by simp
    with True f reads show ?thesis by (simp add: read_by_new_columns_def previous_column_def)
  next
    case False
    have "col_name new = col_name old \<and> reads_as D old new"
      if "old \<in> set (t_columns t)" "new \<in> set cs" "CIEquals D (col_name old) (col_name new)" for old new
    proof -
      from that(2) obtain i where i: "i < length cs" "new = cs ! i" by (auto simp: in_set_conv_nth)
      have "CIEquals D (col_name old) (fst (?given ! i))"
        using that(3) key(1) [OF i(1)] by (simp add: i(2) column_key_def string_util.CIEquals [OF D])
      with that(1) have "place_of D (t_columns t) (fst (?given ! i)) \<noteq> None" unfolding place_of_None_iff by blast
      then obtain k where k: "place_of D (t_columns t) (fst (?given ! i)) = Some k" by blast
      note found = place_of_SomeD [OF k]
      have "t_columns t ! k = old"
        using string_util.same_column [OF D ok nth_mem [OF found(1)] that(1)] found(2)
          \<open>CIEquals D (col_name old) (fst (?given ! i))\<close> by (simp add: string_util.CIEquals [OF D])
      with reads [OF i(1), of old] False k i(2) show ?thesis by (simp add: previous_column_def)
    qed
    with False f show ?thesis by (simp add: read_by_new_columns_def)
  qed
qed

text \<open>
  C9: the columns glue_replace_columns stores read what is there. Of a text table every file column keeps its place,
  of another table every column that stays keeps its stored name to the letter, and either with a type that holds all
  it held; the new columns are well formed, with the partition keys apart from them and what the files are clustered
  by among them.
\<close>

theorem replaced_columns_read_old_files:
  assumes "string_util D" "columns_ok D t (t_columns t)" "replaced_columns D T t columns options = Inr cs"
    and "distinct (map (Lower D \<circ> fst) (struct_fields columns))"
  shows "columns_ok D t cs \<and> read_by_new_columns D t cs"
  using replaced_columns_ok [OF assms] by blast

definition sample_type_parser :: "string \<Rightarrow> LogicalType result" where
  "sample_type_parser s = (if s = ''BIGINT'' then Inr BIGINT else Inr VARCHAR)"

definition sample_new_columns :: Value where
  "sample_new_columns = StructV [(''NAME'', VARCHAR), (''ID'', VARCHAR), (''note'', VARCHAR)]
     [StringV ''VARCHAR'', StringV ''BIGINT'', StringV ''VARCHAR'']"

definition sample_parquet_table :: GlueTableInfo where
  "sample_parquet_table = sample_columns\<lparr>
     t_serde_library := ''org.apache.hadoop.hive.ql.io.parquet.serde.ParquetHiveSerDe''\<rparr>"

lemma replaced_columns_read_old_files_witness:
  "\<exists>cs. replaced_columns ascii_duckdb sample_type_parser sample_parquet_table sample_new_columns [] = Inr cs \<and>
     map col_name cs = [''Name'', ''id'', ''note''] \<and> read_by_new_columns ascii_duckdb sample_parquet_table cs"
proof -
  have r: "replaced_columns ascii_duckdb sample_type_parser sample_parquet_table sample_new_columns [] =
      Inr [new_column\<lparr>col_name := ''Name'', col_type := ''string''\<rparr>, new_column\<lparr>col_name := ''id'', col_type := ''bigint''\<rparr>,
        new_column\<lparr>col_name := ''note'', col_type := ''string''\<rparr>]" by code_simp
  have ok: "columns_ok ascii_duckdb sample_parquet_table (t_columns sample_parquet_table)" by code_simp
  have "distinct (map (Lower ascii_duckdb \<circ> fst) (struct_fields sample_new_columns))" by code_simp
  from replaced_columns_read_old_files [OF ascii_ok ok r this] r show ?thesis by simp
qed

end
