(* ===== verification/Spec2Isabelle.thy ===== *)
theory Spec2Isabelle
  imports Prelude DuckDB Glue_Types Hive_Location Glue_Info Glue_Format Glue_Cache Transactions Catalog_Entry Glue_Service Sample_Glue Table_Api Database_Api Partition_Api Table_Set Create_Table Hive_Scan Hive_Listing Partition_Listing Partition_Pruning Hive_Reader Scan_Copy Query_Cache Hive_Scan_Function Partition_Functions Partition_Store Alter_Table Repair_Table Hive_Insert Insert_Text Insert_Paths Schema_Entry View_Names Hive_Stats Schema_Set Glue_Catalog Table_Entry Replace_Columns
begin

text \<open>
  A verification library of the duckdb-glue extension, which attaches the AWS Glue Data Catalog to DuckDB: its databases,
  tables, views and partitions become the objects of a DuckDB catalog, the files of its Hive tables are read and written,
  and DDL statements become Glue calls. The implementation is src/src; paths below are relative to it.

  \<^bold>\<open>The program and how its parts interact.\<close> A statement runs on a connection. It looks a table up in the
  catalog (catalog/glue_catalog.cpp), which asks its schema set for the database (catalog/glue_schema_set.cpp), the
  schema entry for the object (catalog/glue_schema_entry.cpp) and that the table set (catalog/glue_table_set.cpp). The
  table set compares the entry it holds with the definition the metadata cache of the transaction
  (catalog/glue_transaction.cpp) resolved from Glue, and replaces a stale entry; a replaced entry is retired to the
  transaction manager (catalog/glue_transaction_manager.cpp), which frees it when no running transaction can use it.
  Definitions come from the operations of api/, which change Glue and invalidate the cache. A table entry
  (catalog/glue_table.cpp) hands a scan to planning/hive_multi_file_reader.cpp, which fetches the partitions, prunes them
  by the filters, lists their files and binds the reader of the file format; planning/glue_hive_insert.cpp writes files
  and registers the partitions they form; the table functions of functions/ change partitions and columns.

  \<^bold>\<open>The embedding.\<close> An operation is a function from a state to a result and a state, \<open>comp\<close> of Glue_Service: a
  \<open>result\<close> is an exception or a value. The state of an API call is the \<open>session\<close>: the world behind Glue, the
  settings, the transaction and the metadata caches; a component with state of its own works on the pair of both
  (\<open>table_set\<close>, \<open>schema_state\<close>, \<open>catalog_state\<close>, \<open>view_state\<close>, \<open>file_list\<close>). Early returns and throws are branches;
  a message is its leading words with the values formatted into it. C++ structs are records and enums datatypes, with
  the fields and constructors of the source. Code outside src/ is an argument: DuckDB's functions are the record
  \<open>duckdb\<close> (its laws, as its headers document them, the locale \<open>string_util\<close>), the Glue client is the record \<open>service\<close>
  over a world of any type, the other libraries are arguments where they are used. The laws hold of
  \<open>ascii_duckdb\<close> and, for Glue, of the small service in Sample_Glue, on which the witnesses run the operations.

  \<^bold>\<open>The theories\<close>, in the order of the layers:

  \<^item> Prelude, DuckDB, Aws_Model: exceptions and results, C++ string and container functions, DuckDB's values and types, the
    SDK's data.
  \<^item> Glue_Types (core/glue_types.cpp): the parser and printer of Hive type strings, partition values, type
    changes. The parser ends, and reads back what the printer wrote.
  \<^item> Hive_Location, Glue_Info, Glue_Format (core/hive_location.cpp, core/helpers.cpp, core/glue_info.cpp, core/readers,
    core/glue_format.cpp): locations, table definitions and what their properties say, table formats.
  \<^item> Glue_Cache, Transactions (catalog/glue_transaction.cpp and its header, catalog/glue_transaction_manager.cpp): slots
    of the metadata cache as steps of concurrent lookups, transactions and retired entries as a step relation; a load
    that a change overtook stays invisible, no entry is freed under a reader and each is freed in the end.
  \<^item> Catalog_Entry, Glue_Service, Table_Api, Database_Api, Partition_Api (catalog/glue_view.cpp and api/): entries, and every
    operation of the API. Listings return every page, changes are refused on read-only catalogs and invalidate the cache
    before and after, updates change what they name of the fetched definition, batches are registered and removed
    completely whatever fails in between.
  \<^item> Table_Set, Schema_Set, Glue_Catalog, Schema_Entry, Create_Table, Table_Entry (catalog/): the entries of a database and
    of a catalog with their invariant, CREATE, ALTER and DROP of schemas and tables, the statement shown for a table
    and the scan of one. The columns every ALTER leaves are well formed and read the files that are there.
  \<^item> View_Names (catalog/glue_view_names.cpp, catalog/glue_view.cpp): what CREATE VIEW stores names as and what a view reads.
  \<^item> Hive_Scan, Hive_Listing, Partition_Listing, Partition_Pruning, Hive_Reader, Scan_Copy, Query_Cache, Hive_Scan_Function,
    Hive_Stats (planning/hive_multi_file_reader.cpp, planning/hive_query_cache.cpp, functions/hive_scan_function.cpp,
    planning/stats/hive_stats.cpp): from partitions to files to columns. Every plan of listings finds the files the
    specification gives a partition (\<open>partition_files\<close>), pruning loses no row, a copy of a scan reads the same files,
    the statistics bound the values read.
  \<^item> Hive_Insert, Insert_Text, Insert_Paths (planning/glue_hive_insert.cpp): rows reach the directory of their
    partition, text rows read back, directories are registered, the files of a failed INSERT are deleted.
  \<^item> Partition_Functions, Partition_Store, Alter_Table, Repair_Table, Replace_Columns (functions/glue_partition_functions.cpp,
    functions/glue_repair_table.cpp): the partitions of a table as a set (\<open>partition_store\<close>, the documented behaviour of
    Glue), and the table functions as operations on that set.

  \<^bold>\<open>Interfaces.\<close> \<open>mutation\<close> and \<open>guarded_mutation\<close> state what every operation that changes Glue keeps, \<open>paged_listing\<close>
  and \<open>bounded_loop\<close> how the loops over pages and attempts end, \<open>definition_change\<close> what an update keeps of a fetched
  table, \<open>effect\<close> and \<open>partition_store\<close> how an operation moves the set of registered partitions, \<open>entry_set\<close> what table
  and schema sets share. Each is interpreted on the operations that provide it.

  \<^bold>\<open>Fuel and bounds.\<close> The type parser takes the length of its input plus one (\<open>parse_fuel\<close>), every call consuming a
  character. A listing takes a round per page. Batch registration and removal take \<open>MAX_ATTEMPTS\<close> rounds, the four of the
  code, per batch; the lookup of partition locations takes at most 5006 rounds for a batch of 1000 keys, since
  every round settles a key or uses up one of its attempts; the listing of glue_repair_table takes a round per directory. The
  theorems on these operations show that the fuel is never used up. The 32 bits of a gzip trailer and of the length
  of a file are words; sequence numbers and counts, which do not reach their width, are naturals.

  \<^bold>\<open>Not modelled.\<close> The configuration of the AWS SDK and its HTTP adapter (api/glue_client.cpp, api/glue_http_client.cpp),
  which are I/O; the raw JSON of responses; parsing, binding and evaluating SQL, the grammar extension
  (grammar/glue_grammar.cpp) and the plan generator around scans and copies (execution/hive_copy.cpp), which work on data
  structures of DuckDB that the repository does not hold; the table functions that print catalog metadata
  (functions/glue_functions.cpp) but for the resolution of table names; logging and the registration of settings and
  functions. Locks are not modelled where one connection runs alone; Glue_Cache and Transactions treat the interleavings.
\<close>

end
